(* ===== verification/Prelude.thy ===== *)
theory Prelude
  imports Complex_Main "HOL-Library.Sublist" "HOL-Library.Multiset" "HOL-Library.AList"
begin

text \<open>
  Shared vocabulary of the development: the sequencing of fallible code, table operations on
  lists of rows, Python strings and JSON values, and the collections of facts the component
  theories extend.
\<close>

section \<open>Fallible code\<close>

text \<open>A computation that raises is \<open>Inl\<close> of what it raises; \<open>andThen\<close> runs the rest of a body
  when the first part returned.\<close>

definition andThen :: "'e + 'a \<Rightarrow> ('a \<Rightarrow> 'e + 'b) \<Rightarrow> 'e + 'b" where
  "andThen m k = (case m of Inl e \<Rightarrow> Inl e | Inr a \<Rightarrow> k a)"

lemma andThen_simps [simp]:
  "andThen (Inl e) k = Inl e"
  "andThen (Inr a) k = k a"
  by (simp_all add: andThen_def)

lemma andThen_Inr [simp]:
  "andThen m k = Inr b \<longleftrightarrow> (\<exists>a. m = Inr a \<and> k a = Inr b)"
  by (cases m) simp_all

lemma andThen_Inl:
  "andThen m k = Inl e \<longleftrightarrow> m = Inl e \<or> (\<exists>a. m = Inr a \<and> k a = Inl e)"
  by (cases m) simp_all

text \<open>Python's \<open>a or b\<close> on optional strings: the empty string counts as absent.\<close>

definition truthy :: "string option \<Rightarrow> bool" where
  "truthy s = (case s of None \<Rightarrow> False | Some t \<Rightarrow> t \<noteq> [])"

definition or_else :: "string option \<Rightarrow> string \<Rightarrow> string" where
  "or_else s d = (case s of None \<Rightarrow> d | Some t \<Rightarrow> if t = [] then d else t)"

lemma or_else_simps [simp]:
  "or_else None d = d"
  "t \<noteq> [] \<Longrightarrow> or_else (Some t) d = t"
  "or_else (Some []) d = d"
  by (simp_all add: or_else_def)

lemma truthy_simps [simp]:
  "\<not> truthy None"
  "truthy (Some t) \<longleftrightarrow> t \<noteq> []"
  by (simp_all add: truthy_def)

section \<open>Tables as lists of rows\<close>

text \<open>A table is the list of its rows in insertion order. \<open>update_where P f\<close> is the SQL
  \<open>UPDATE ... SET f WHERE P\<close>; a query is \<open>find\<close> or \<open>filter\<close>.\<close>

definition update_where :: "('r \<Rightarrow> bool) \<Rightarrow> ('r \<Rightarrow> 'r) \<Rightarrow> 'r list \<Rightarrow> 'r list" where
  "update_where P f rs = map (\<lambda>r. if P r then f r else r) rs"

lemma update_where_Nil [simp]: "update_where P f [] = []"
  by (simp add: update_where_def)

lemma update_where_Cons [simp]:
  "update_where P f (r # rs) = (if P r then f r else r) # update_where P f rs"
  by (simp add: update_where_def)

lemma update_where_append [simp]:
  "update_where P f (rs @ qs) = update_where P f rs @ update_where P f qs"
  by (simp add: update_where_def)

lemma length_update_where [simp]: "length (update_where P f rs) = length rs"
  by (simp add: update_where_def)

lemma set_update_where:
  "set (update_where P f rs) = (\<lambda>r. if P r then f r else r) ` set rs"
  by (simp add: update_where_def)

text \<open>A column the update does not write keeps its values.\<close>

lemma map_update_where [simp]:
  assumes "\<And>r. P r \<Longrightarrow> g (f r) = g r"
  shows "map g (update_where P f rs) = map g rs"
  using assms by (auto simp: update_where_def)

text \<open>Rows outside the update's scope are untouched, whatever is written.\<close>

lemma filter_update_where_frame:
  assumes "\<And>r. P r \<Longrightarrow> \<not> Q r" "\<And>r. P r \<Longrightarrow> \<not> Q (f r)"
  shows "filter Q (update_where P f rs) = filter Q rs"
  using assms by (induction rs) auto

lemma update_where_id [simp]:
  assumes "\<And>r. r \<in> set rs \<Longrightarrow> \<not> P r"
  shows "update_where P f rs = rs"
  using assms by (induction rs) auto

lemma find_Some_iff_set:
  "find P rs = Some r \<Longrightarrow> r \<in> set rs \<and> P r"
  by (induction rs) (auto split: if_splits)

lemma find_SomeD1: "find P rs = Some r \<Longrightarrow> P r"
  and find_SomeD2: "find P rs = Some r \<Longrightarrow> r \<in> set rs"
  by (simp_all add: find_Some_iff_set)

lemma find_append [simp]:
  "find P (rs @ qs) = (case find P rs of None \<Rightarrow> find P qs | Some r \<Rightarrow> Some r)"
  by (induction rs) auto

lemma find_NoneD: "find P rs = None \<Longrightarrow> r \<in> set rs \<Longrightarrow> \<not> P r"
  by (auto simp: find_None_iff)

text \<open>The counters of a grouped query.\<close>

definition count_where :: "('r \<Rightarrow> bool) \<Rightarrow> 'r list \<Rightarrow> nat" where
  "count_where P rs = length (filter P rs)"

lemma count_where_append [simp]:
  "count_where P (rs @ qs) = count_where P rs + count_where P qs"
  by (simp add: count_where_def)

lemma count_where_Nil [simp]: "count_where P [] = 0"
  and count_where_Cons [simp]:
    "count_where P (r # rs) = (if P r then Suc (count_where P rs) else count_where P rs)"
  by (simp_all add: count_where_def)

section \<open>Append-only logs\<close>

definition extends :: "'r list \<Rightarrow> 'r list \<Rightarrow> bool" where
  "extends old new \<longleftrightarrow> take (length old) new = old"

lemma extends_iff: "extends old new \<longleftrightarrow> (\<exists>ext. new = old @ ext)"
  unfolding extends_def by (metis append_eq_conv_conj append_take_drop_id)

lemma extends_refl [simp, intro]: "extends l l"
  and extends_snoc [simp, intro]: "extends l (l @ xs)"
  by (simp_all add: extends_def)

lemma extends_trans: "extends a b \<Longrightarrow> extends b c \<Longrightarrow> extends a c"
  by (auto simp: extends_iff)

lemma extends_set: "extends a b \<Longrightarrow> x \<in> set a \<Longrightarrow> x \<in> set b"
  by (auto simp: extends_iff)

section \<open>Python strings\<close>

text \<open>A \<open>char\<close> is one byte of the ASCII texts the code compares; \<open>lower\<close> and \<open>strip\<close> are
  \<open>str.lower\<close> and \<open>str.strip\<close> on them.\<close>

definition lower_char :: "char \<Rightarrow> char" where
  "lower_char c = (let n = (of_char c :: nat) in
     if 65 \<le> n \<and> n \<le> 90 then char_of (n + 32) else c)"

definition lower :: "string \<Rightarrow> string" where
  "lower s = map lower_char s"

definition is_space :: "char \<Rightarrow> bool" where
  "is_space c = (let n = (of_char c :: nat) in n = 32 \<or> (9 \<le> n \<and> n \<le> 13) \<or> (28 \<le> n \<and> n \<le> 31))"

definition strip :: "string \<Rightarrow> string" where
  "strip s = rev (dropWhile is_space (rev (dropWhile is_space s)))"

definition startswith :: "string \<Rightarrow> string \<Rightarrow> bool" where
  "startswith p s = (take (length p) s = p)"

definition endswith :: "string \<Rightarrow> string \<Rightarrow> bool" where
  "endswith p s = startswith (rev p) (rev s)"

text \<open>\<open>Path.suffix\<close>: from the last dot, unless it is the first or the last character.\<close>

definition path_suffix :: "string \<Rightarrow> string" where
  "path_suffix name = (let ext = rev (takeWhile (\<lambda>c. c \<noteq> CHR ''.'') (rev name)) in
     if ext \<noteq> [] \<and> length ext + 1 < length name then CHR ''.'' # ext else [])"

fun contains :: "string \<Rightarrow> string \<Rightarrow> bool" where
  "contains m [] = (m = [])"
| "contains m (c # cs) = (startswith m (c # cs) \<or> contains m cs)"

lemma contains_sublist: "contains m s \<longleftrightarrow> sublist m s"
proof (induction s)
  case Nil
  then show ?case by simp
next
  case (Cons c cs)
  have "startswith m (c # cs) \<longleftrightarrow> prefix m (c # cs)"
    by (metis append_eq_conv_conj prefix_def startswith_def)
  with Cons show ?case
    by (metis contains.simps(2) sublist_Cons_right)
qed

text \<open>\<open>s.split(sep)\<close> for a one-character separator, and \<open>sep.join\<close>.\<close>

fun split_on :: "char \<Rightarrow> string \<Rightarrow> string list" where
  "split_on sep [] = [[]]"
| "split_on sep (c # cs) =
     (if c = sep then [] # split_on sep cs
      else (case split_on sep cs of [] \<Rightarrow> [[c]] | p # ps \<Rightarrow> (c # p) # ps))"

fun join_with :: "string \<Rightarrow> string list \<Rightarrow> string" where
  "join_with sep [] = []"
| "join_with sep [p] = p"
| "join_with sep (p # ps) = p @ sep @ join_with sep ps"

lemma split_on_nonempty [simp]: "split_on sep s \<noteq> []"
  by (induction s) (auto split: list.splits)

lemma split_on_no_sep: "p \<in> set (split_on sep s) \<Longrightarrow> sep \<notin> set p"
  by (induction s arbitrary: p) (auto split: list.splits if_splits)

lemma join_split_on: "join_with [sep] (split_on sep s) = s"
proof (induction s)
  case Nil
  then show ?case by simp
next
  case (Cons c cs)
  obtain p ps where ps: "split_on sep cs = p # ps"
    by (meson list.exhaust split_on_nonempty)
  show ?case
    using Cons ps by (cases ps) auto
qed

lemma split_on_no: "sep \<notin> set p \<Longrightarrow> split_on sep p = [p]"
  by (induction p) auto

lemma split_on_app: "sep \<notin> set p \<Longrightarrow> split_on sep (p @ sep # rest) = p # split_on sep rest"
  by (induction p) auto

lemma split_on_join: "ws \<noteq> [] \<Longrightarrow> \<forall>w \<in> set ws. sep \<notin> set w \<Longrightarrow> split_on sep (join_with [sep] ws) = ws"
proof (induction ws)
  case (Cons w ws)
  then show ?case by (cases ws) (simp_all add: split_on_no split_on_app)
qed simp

lemma split_on_subset: "p \<in> set (split_on sep s) \<Longrightarrow> set p \<subseteq> set s"
proof (induction s arbitrary: p)
  case (Cons a s)
  obtain q qs where q: "split_on sep s = q # qs" by (meson list.exhaust split_on_nonempty)
  then have "set r \<subseteq> set s" if "r \<in> set (q # qs)" for r using Cons.IH that by simp
  then show ?case using Cons.prems q by (fastforce split: if_splits)
qed simp

text \<open>Decimal rendering.\<close>

fun show_nat :: "nat \<Rightarrow> string" where
  "show_nat n = (if n < 10 then [char_of (48 + n)]
     else show_nat (n div 10) @ [char_of (48 + n mod 10)])"

declare show_nat.simps [simp del]

lemma show_nat_nonempty [simp]: "show_nat n \<noteq> []"
  by (subst show_nat.simps) simp

section \<open>JSON values\<close>

text \<open>A Python value that is stored in a JSON column. Numbers with a fraction are the exact
  rational value of the float.\<close>

datatype json = JNull | JBool bool | JInt int | JFloat rat | JStr string
  | JList "json list" | JObj "(string \<times> json) list"

definition JOpt :: "string option \<Rightarrow> json" where
  "JOpt s = (case s of None \<Rightarrow> JNull | Some t \<Rightarrow> JStr t)"

text \<open>\<open>d.get(key)\<close> on a dict.\<close>

definition jget :: "string \<Rightarrow> (string \<times> json) list \<Rightarrow> json option" where
  "jget k kvs = map_of kvs k"

definition jfield :: "string \<Rightarrow> json \<Rightarrow> json" where
  "jfield k j = (case j of JObj kvs \<Rightarrow> (case jget k kvs of None \<Rightarrow> JNull | Some v \<Rightarrow> v) | _ \<Rightarrow> JNull)"

text \<open>\<open>d[k] = v\<close> on a dict keeps the position of an existing key; \<open>dict_of\<close> builds a dict from
  its items in order, \<open>dict_update\<close> is \<open>d.update(e)\<close>.\<close>

definition dict_update :: "(string \<times> 'v) list \<Rightarrow> (string \<times> 'v) list \<Rightarrow> (string \<times> 'v) list" where
  "dict_update d e = fold (\<lambda>(k, v). AList.update k v) e d"

definition dict_of :: "(string \<times> 'v) list \<Rightarrow> (string \<times> 'v) list" where
  "dict_of e = dict_update [] e"

lemma map_of_rev_distinct: "distinct (map fst xs) \<Longrightarrow> map_of (rev xs) = map_of xs"
  by (metis distinct_rev map_of_inject_set rev_map set_rev)

lemma map_of_dict_update:
  "map_of (dict_update d e) k = (case map_of (rev e) k of None \<Rightarrow> map_of d k | Some v \<Rightarrow> Some v)"
proof (induction e arbitrary: d)
  case Nil
  then show ?case by (simp add: dict_update_def)
next
  case (Cons kv e)
  obtain k' v' where kv: "kv = (k', v')" by (cases kv)
  have "dict_update d (kv # e) = dict_update (AList.update k' v' d) e"
    by (simp add: dict_update_def kv)
  with Cons [of "AList.update k' v' d"] show ?case
    by (cases "map_of (rev e) k") (auto simp: kv update_conv' map_add_def)
qed

lemma distinct_dict_update:
  "distinct (map fst d) \<Longrightarrow> distinct (map fst (dict_update d e))"
proof (induction e arbitrary: d)
  case (Cons kv e)
  then show ?case
    by (cases kv) (simp add: dict_update_def distinct_update)
qed (simp add: dict_update_def)

text \<open>\<open>bool(v)\<close>.\<close>

fun json_truthy :: "json \<Rightarrow> bool" where
  "json_truthy JNull = False"
| "json_truthy (JBool b) = b"
| "json_truthy (JInt i) = (i \<noteq> 0)"
| "json_truthy (JFloat x) = (x \<noteq> 0)"
| "json_truthy (JStr s) = (s \<noteq> [])"
| "json_truthy (JList vs) = (vs \<noteq> [])"
| "json_truthy (JObj kvs) = (kvs \<noteq> [])"

text \<open>\<open>Path(r).name == r\<close>: the name of a file directly in a directory.\<close>

definition safe_relative :: "string \<Rightarrow> bool" where
  "safe_relative r \<longleftrightarrow> CHR ''/'' \<notin> set r \<and> r \<noteq> ''.''"

text \<open>\<open>x == n\<close> for an integer n.\<close>

definition equals_int :: "json \<Rightarrow> int \<Rightarrow> bool" where
  "equals_int j n = (case j of JInt i \<Rightarrow> i = n | JFloat x \<Rightarrow> x = of_int n
     | JBool b \<Rightarrow> (if b then n = 1 else n = 0) | _ \<Rightarrow> False)"

section \<open>Checks\<close>

text \<open>A validation is a sequence of named checks; the first one that fails is reported.\<close>

definition ensure :: "bool \<Rightarrow> string \<Rightarrow> string + unit" where
  "ensure b msg = (if b then Inr () else Inl msg)"

fun ensure_all :: "(bool \<times> string) list \<Rightarrow> string + unit" where
  "ensure_all [] = Inr ()"
| "ensure_all ((b, msg) # cs) = (if b then ensure_all cs else Inl msg)"

lemma ensure_all_iff: "ensure_all cs = Inr () \<longleftrightarrow> (\<forall>c \<in> set cs. fst c)"
  by (induction cs rule: ensure_all.induct) auto

lemma ensure_iff [simp]: "ensure b msg = Inr u \<longleftrightarrow> b"
  by (simp add: ensure_def)

fun validate_all :: "('a \<Rightarrow> string + unit) \<Rightarrow> 'a list \<Rightarrow> string + unit" where
  "validate_all v [] = Inr ()"
| "validate_all v (x # xs) = andThen (v x) (\<lambda>_. validate_all v xs)"

lemma validate_all_iff: "validate_all v xs = Inr () \<longleftrightarrow> (\<forall>x \<in> set xs. v x = Inr ())"
  by (induction xs) auto

definition len_between :: "nat \<Rightarrow> nat \<Rightarrow> string \<Rightarrow> bool" where
  "len_between lo hi s \<longleftrightarrow> lo \<le> length s \<and> length s \<le> hi"

section \<open>Collections\<close>

named_theorems model_defs \<open>the definitions of a component's operations\<close>
named_theorems frame_intros \<open>every primitive operation keeps the frame\<close>

end
