(* ===== verification/AuditLog.thy ===== *)
theory AuditLog
  imports Prelude "HOL-Library.List_Lexorder" "HOL-Library.Char_ord"
begin

text \<open>
  \<^verbatim>\<open>backend/app/audit.py\<close>: the redaction of audit payloads and their canonical digest.
  The insertion of the audit row itself (\<open>record_audit\<close>) is in ServiceCore, beside the
  other primitives that write to the store.
\<close>

definition SENSITIVE_MARKERS :: "string list" where
  "SENSITIVE_MARKERS = [''authorization'', ''password'', ''secret'', ''token'', ''access_key'']"

definition sensitive_key :: "string \<Rightarrow> bool" where
  "sensitive_key k \<longleftrightarrow> (\<exists>marker \<in> set SENSITIVE_MARKERS. contains marker (lower k))"

fun redact :: "json \<Rightarrow> json" where
  "redact (JObj kvs) =
     JObj (map (\<lambda>(k, v). (k, if sensitive_key k then JStr ''[REDACTED]'' else redact v)) kvs)"
| "redact (JList vs) = JList (map redact vs)"
| "redact JNull = JNull"
| "redact (JBool b) = JBool b"
| "redact (JInt i) = JInt i"
| "redact (JFloat x) = JFloat x"
| "redact (JStr s) = JStr s"

text \<open>\<open>json.dumps(..., sort_keys=True)\<close> orders the keys of every dict; what is hashed is the
  text of that value.\<close>

fun sort_keys :: "json \<Rightarrow> json" where
  "sort_keys (JObj kvs) = JObj (sort_key fst (map (\<lambda>(k, v). (k, sort_keys v)) kvs))"
| "sort_keys (JList vs) = JList (map sort_keys vs)"
| "sort_keys JNull = JNull"
| "sort_keys (JBool b) = JBool b"
| "sort_keys (JInt i) = JInt i"
| "sort_keys (JFloat x) = JFloat x"
| "sort_keys (JStr s) = JStr s"

text \<open>\<open>sha256\<close> is the hash of the serialized value, a parameter of the model.\<close>

definition canonical_payload :: "(json \<Rightarrow> string) \<Rightarrow> json \<Rightarrow> json \<times> string" where
  "canonical_payload sha256 payload =
     (let sanitized = redact payload in (sanitized, sha256 (sort_keys sanitized)))"

section \<open>What redaction removes\<close>

text \<open>All entries of dicts at any depth, as pairs of key and value.\<close>

fun entries :: "json \<Rightarrow> (string \<times> json) list" where
  "entries (JObj kvs) = kvs @ concat (map (\<lambda>(k, v). entries v) kvs)"
| "entries (JList vs) = concat (map entries vs)"
| "entries JNull = []"
| "entries (JBool b) = []"
| "entries (JInt i) = []"
| "entries (JFloat x) = []"
| "entries (JStr s) = []"

lemma entries_JObj:
  assumes "(k, v) \<in> set kvs"
  shows "(k, v) \<in> set (entries (JObj kvs))" "set (entries v) \<subseteq> set (entries (JObj kvs))"
  using assms by force+

declare entries.simps(1) [simp del]

lemma entries_redact:
  "(k, v) \<in> set (entries (redact j)) \<Longrightarrow> sensitive_key k \<Longrightarrow> v = JStr ''[REDACTED]''"
proof (induction j arbitrary: k v rule: redact.induct)
  case (1 kvs)
  then show ?case by (fastforce simp: entries.simps(1) split: if_splits prod.splits)
qed auto

lemma redact_idem: "redact (redact j) = redact j"
  by (induction j rule: redact.induct) (auto split: prod.splits)

text \<open>A value without a sensitive key is stored as it was given.\<close>

lemma redact_clean:
  "(\<And>k v. (k, v) \<in> set (entries j) \<Longrightarrow> \<not> sensitive_key k) \<Longrightarrow> redact j = j"
proof (induction j rule: redact.induct)
  case (1 kvs)
  have clean: "\<not> sensitive_key k" and sub: "\<And>k' v'. (k', v') \<in> set (entries v) \<Longrightarrow> \<not> sensitive_key k'"
    if "(k, v) \<in> set kvs" for k v
    using 1(2) entries_JObj [OF that] by blast+
  have "redact v = v" if kv: "(k, v) \<in> set kvs" for k v
    by (rule 1(1) [OF kv refl clean [OF kv] sub [OF kv]])
  with clean have "map (\<lambda>(k, v). (k, if sensitive_key k then JStr ''[REDACTED]'' else redact v)) kvs = kvs"
    by (intro map_idI) auto
  then show ?case by simp
next
  case (2 vs)
  have "redact v = v" if "v \<in> set vs" for v
    using 2 that by fastforce
  then show ?case by (auto intro!: map_idI)
qed auto

text \<open>Redaction of an audit payload: at every depth of the stored value, through lists as well,
  an entry whose key contains one of the markers in any letter case holds the placeholder; and a
  payload with no such key is stored unchanged.\<close>

theorem redact_hides_secrets:
  "(\<forall>k v. (k, v) \<in> set (entries (fst (canonical_payload sha256 j))) \<longrightarrow>
       sensitive_key k \<longrightarrow> v = JStr ''[REDACTED]'') \<and>
   ((\<forall>k v. (k, v) \<in> set (entries j) \<longrightarrow> \<not> sensitive_key k) \<longrightarrow> fst (canonical_payload sha256 j) = j)"
  using entries_redact [of _ _ j] redact_clean [of j]
  by (auto simp: canonical_payload_def Let_def)

lemma sensitive_example: "sensitive_key ''API_Token''"
  by code_simp

definition example_payload :: json where
  "example_payload = JObj [(''headers'', JList [JObj [(''API_Token'', JStr ''x'')]])]"

lemma headers_not_sensitive: "\<not> sensitive_key ''headers''"
  by code_simp

lemma example_payload_keys:
  "\<exists>v. (''API_Token'', v) \<in> set (entries (fst (canonical_payload (\<lambda>_. []) example_payload)))"
  by (simp add: canonical_payload_def Let_def example_payload_def headers_not_sensitive sensitive_example entries.simps)

theorem redact_hides_secrets_witness:
  "(''API_Token'', JStr ''[REDACTED]'') \<in> set (entries (fst (canonical_payload (\<lambda>_. []) example_payload)))"
  using redact_hides_secrets [of "\<lambda>_. []" example_payload] example_payload_keys sensitive_example by blast

end
