(* ===== verification/Domain.thy ===== *)
theory Domain
  imports Prelude
begin

text \<open>
  \<^verbatim>\<open>backend/app/domain.py\<close>: the inspection states with their transition table, the guard
  that every state change passes, and the small enumerations of the workflow.
\<close>

datatype InspectionStatus =
    RECEIVED | VALIDATED | INFERENCING | SCORED | AUTO_RELEASED | REVIEW_REQUIRED | BATCH_HELD
  | RELEASE_APPROVED | NONCONFORMANCE_CONFIRMED | ACTION_PENDING | ACTION_EXECUTING
  | ACTION_COMPLETED | ACTION_FAILED | VERIFYING | CLOSED | REJECTED_INPUT | INFERENCE_FAILED
  | ESCALATED

text \<open>The enumeration in declaration order, and the member's string value.\<close>

definition all_inspection_statuses :: "InspectionStatus list" where
  "all_inspection_statuses =
     [RECEIVED, VALIDATED, INFERENCING, SCORED, AUTO_RELEASED, REVIEW_REQUIRED, BATCH_HELD,
      RELEASE_APPROVED, NONCONFORMANCE_CONFIRMED, ACTION_PENDING, ACTION_EXECUTING,
      ACTION_COMPLETED, ACTION_FAILED, VERIFYING, CLOSED, REJECTED_INPUT, INFERENCE_FAILED,
      ESCALATED]"

fun status_value :: "InspectionStatus \<Rightarrow> string" where
  "status_value RECEIVED = ''RECEIVED''"
| "status_value VALIDATED = ''VALIDATED''"
| "status_value INFERENCING = ''INFERENCING''"
| "status_value SCORED = ''SCORED''"
| "status_value AUTO_RELEASED = ''AUTO_RELEASED''"
| "status_value REVIEW_REQUIRED = ''REVIEW_REQUIRED''"
| "status_value BATCH_HELD = ''BATCH_HELD''"
| "status_value RELEASE_APPROVED = ''RELEASE_APPROVED''"
| "status_value NONCONFORMANCE_CONFIRMED = ''NONCONFORMANCE_CONFIRMED''"
| "status_value ACTION_PENDING = ''ACTION_PENDING''"
| "status_value ACTION_EXECUTING = ''ACTION_EXECUTING''"
| "status_value ACTION_COMPLETED = ''ACTION_COMPLETED''"
| "status_value ACTION_FAILED = ''ACTION_FAILED''"
| "status_value VERIFYING = ''VERIFYING''"
| "status_value CLOSED = ''CLOSED''"
| "status_value REJECTED_INPUT = ''REJECTED_INPUT''"
| "status_value INFERENCE_FAILED = ''INFERENCE_FAILED''"
| "status_value ESCALATED = ''ESCALATED''"

text \<open>\<open>InspectionStatus(value)\<close>: the member with that value, or ValueError (\<open>None\<close>).\<close>

definition parse_status :: "string \<Rightarrow> InspectionStatus option" where
  "parse_status v = find (\<lambda>s. status_value s = v) all_inspection_statuses"

fun INSPECTION_TRANSITIONS :: "InspectionStatus \<Rightarrow> InspectionStatus list" where
  "INSPECTION_TRANSITIONS RECEIVED = [VALIDATED, REJECTED_INPUT]"
| "INSPECTION_TRANSITIONS VALIDATED = [INFERENCING]"
| "INSPECTION_TRANSITIONS INFERENCING = [SCORED, INFERENCE_FAILED]"
| "INSPECTION_TRANSITIONS INFERENCE_FAILED = [REVIEW_REQUIRED]"
| "INSPECTION_TRANSITIONS SCORED = [AUTO_RELEASED, REVIEW_REQUIRED, BATCH_HELD]"
| "INSPECTION_TRANSITIONS REVIEW_REQUIRED = [RELEASE_APPROVED, NONCONFORMANCE_CONFIRMED, ESCALATED]"
| "INSPECTION_TRANSITIONS BATCH_HELD = [RELEASE_APPROVED, NONCONFORMANCE_CONFIRMED, ESCALATED]"
| "INSPECTION_TRANSITIONS NONCONFORMANCE_CONFIRMED = [ACTION_PENDING]"
| "INSPECTION_TRANSITIONS ACTION_PENDING = [ACTION_EXECUTING]"
| "INSPECTION_TRANSITIONS ACTION_EXECUTING = [ACTION_COMPLETED, ACTION_FAILED]"
| "INSPECTION_TRANSITIONS ACTION_FAILED = [ACTION_PENDING]"
| "INSPECTION_TRANSITIONS ACTION_COMPLETED = [VERIFYING, CLOSED]"
| "INSPECTION_TRANSITIONS VERIFYING = [CLOSED, ESCALATED]"
| "INSPECTION_TRANSITIONS ESCALATED = [REVIEW_REQUIRED, BATCH_HELD]"
| "INSPECTION_TRANSITIONS AUTO_RELEASED = []"
| "INSPECTION_TRANSITIONS RELEASE_APPROVED = []"
| "INSPECTION_TRANSITIONS CLOSED = []"
| "INSPECTION_TRANSITIONS REJECTED_INPUT = []"

text \<open>The guard takes the strings of the status column; a value outside the enumeration is a
  conflict like an edge outside the table.\<close>

definition assert_inspection_transition :: "string \<Rightarrow> string \<Rightarrow> string + unit" where
  "assert_inspection_transition current target =
     (case (parse_status current, parse_status target) of
        (Some c, Some t) \<Rightarrow>
          if t \<in> set (INSPECTION_TRANSITIONS c) then Inr ()
          else Inl (''illegal inspection state transition: '' @ current @ '' -> '' @ target)
      | _ \<Rightarrow> Inl (''unknown inspection state transition: '' @ current @ '' -> '' @ target))"

datatype PolicyRoute = AUTO_RELEASE | MANUAL_REVIEW | BATCH_HOLD_AND_REVIEW

datatype ReviewChoice = GOOD | REWORK | SCRAP | INVESTIGATE | UNABLE_TO_DETERMINE

datatype ExternalActionStatus = EA_PENDING | EA_EXECUTING | EA_SUCCEEDED | EA_FAILED | EA_MANUAL_REVIEW

section \<open>The transition graph\<close>

lemma in_all_inspection_statuses [simp]: "s \<in> set all_inspection_statuses"
  by (cases s) (simp_all add: all_inspection_statuses_def)

lemma status_value_inject [simp]: "status_value s = status_value t \<longleftrightarrow> s = t"
  by (cases s; cases t) simp_all

lemma parse_status_value [simp]: "parse_status (status_value s) = Some s"
proof (cases "parse_status (status_value s)")
  case None
  then have "status_value s \<noteq> status_value s"
    unfolding parse_status_def by (rule find_NoneD) (rule in_all_inspection_statuses)
  then show ?thesis by simp
next
  case (Some r)
  then have "status_value r = status_value s"
    unfolding parse_status_def by (rule find_SomeD1)
  with Some show ?thesis by simp
qed

lemma parse_status_Some: "parse_status v = Some s \<longleftrightarrow> v = status_value s"
proof
  assume "parse_status v = Some s"
  then have "status_value s = v"
    unfolding parse_status_def by (rule find_SomeD1)
  then show "v = status_value s" by simp
next
  assume "v = status_value s"
  then show "parse_status v = Some s" by simp
qed

lemma assert_inspection_transition_iff:
  "assert_inspection_transition (status_value c) (status_value t) = Inr () \<longleftrightarrow>
     t \<in> set (INSPECTION_TRANSITIONS c)"
  by (simp add: assert_inspection_transition_def)

text \<open>A legal edge, and the states an inspection cannot leave.\<close>

definition legal_edge :: "InspectionStatus \<Rightarrow> InspectionStatus \<Rightarrow> bool" where
  "legal_edge c t \<longleftrightarrow> t \<in> set (INSPECTION_TRANSITIONS c)"

definition final_status :: "InspectionStatus \<Rightarrow> bool" where
  "final_status s \<longleftrightarrow> INSPECTION_TRANSITIONS s = []"

lemma final_status_iff:
  "final_status s \<longleftrightarrow> s \<in> {AUTO_RELEASED, RELEASE_APPROVED, CLOSED, REJECTED_INPUT}"
  by (cases s) (simp_all add: final_status_def)

lemma legal_edge_not_final: "legal_edge c t \<Longrightarrow> \<not> final_status c"
  by (auto simp: legal_edge_def final_status_def)

lemma legal_edge_irrefl: "\<not> legal_edge s s"
  by (cases s) (simp_all add: legal_edge_def)

lemma legal_edge_not_to_received: "\<not> legal_edge s RECEIVED"
  by (cases s) (simp_all add: legal_edge_def)

text \<open>A path of the table: each state leads to the next.\<close>

fun legal_path :: "InspectionStatus list \<Rightarrow> bool" where
  "legal_path [] = True"
| "legal_path [s] = True"
| "legal_path (s # t # ss) = (legal_edge s t \<and> legal_path (t # ss))"

lemma legal_path_snoc:
  "legal_path (ss @ [s, t]) \<longleftrightarrow> legal_path (ss @ [s]) \<and> legal_edge s t"
  by (induction ss rule: legal_path.induct) auto

lemma legal_path_snoc_last:
  "ss \<noteq> [] \<Longrightarrow> legal_path (ss @ [t]) \<longleftrightarrow> legal_path ss \<and> legal_edge (last ss) t"
  by (metis append.assoc append_Cons append_Nil append_butlast_last_id legal_path_snoc)

lemma legal_path_tl: "legal_path (s # ss) \<Longrightarrow> legal_path ss"
  by (cases ss) auto

text \<open>On a path from the start, a release state is entered from a scored or a reviewed state
  only, and \<open>CLOSED\<close> only after the actions completed.\<close>

lemma legal_edge_into_auto_released: "legal_edge c AUTO_RELEASED \<longleftrightarrow> c = SCORED"
  by (cases c) (simp_all add: legal_edge_def)

lemma legal_edge_into_release_approved:
  "legal_edge c RELEASE_APPROVED \<longleftrightarrow> c \<in> {REVIEW_REQUIRED, BATCH_HELD}"
  by (cases c) (simp_all add: legal_edge_def)

lemma legal_edge_into_closed:
  "legal_edge c CLOSED \<longleftrightarrow> c \<in> {ACTION_COMPLETED, VERIFYING}"
  by (cases c) (simp_all add: legal_edge_def)

end
