(* ===== verification/Policy.thy ===== *)
theory Policy
  imports Domain
begin

text \<open>
  \<^verbatim>\<open>backend/app/policy.py\<close>: threshold rules with their selectors, the validation a policy
  passes when it is parsed, the choice of the most specific rule, and the routing of a score.
  A float is the rational number it denotes; a formatted message renders it as Python does.
\<close>

section \<open>Rendering a float with six decimals\<close>

definition round_half_even :: "rat \<Rightarrow> int" where
  "round_half_even x = (let f = \<lfloor>x\<rfloor>; d = x - of_int f in
     if d < 1 / 2 then f else if 1 / 2 < d then f + 1 else if even f then f else f + 1)"

definition pad6 :: "string \<Rightarrow> string" where
  "pad6 s = replicate (6 - length s) CHR ''0'' @ s"

definition fmt6 :: "rat \<Rightarrow> string" where
  "fmt6 x = (let n = nat (round_half_even (\<bar>x\<bar> * 1000000)) in
     (if x < 0 then ''-'' else '''') @ show_nat (n div 1000000) @ ''.'' @
     pad6 (show_nat (n mod 1000000)))"

section \<open>Threshold rules and policies\<close>

record ThresholdRule =
  tr_product_code :: "string option"
  tr_station_code :: "string option"
  review_threshold :: rat
  hold_threshold :: rat

definition validate_threshold_order :: "ThresholdRule \<Rightarrow> string + unit" where
  "validate_threshold_order r =
     (if \<not> (0 \<le> review_threshold r \<and> review_threshold r \<le> 1) then Inl ''review_threshold''
      else if \<not> (0 \<le> hold_threshold r \<and> hold_threshold r \<le> 1) then Inl ''hold_threshold''
      else if review_threshold r \<ge> hold_threshold r
      then Inl ''review_threshold must be less than hold_threshold''
      else Inr ())"

definition selector :: "ThresholdRule \<Rightarrow> string option \<times> string option" where
  "selector r = (tr_product_code r, tr_station_code r)"

definition specificity :: "ThresholdRule \<Rightarrow> nat" where
  "specificity r = (if tr_product_code r \<noteq> None then 1 else 0) + (if tr_station_code r \<noteq> None then 1 else 0)"

record PolicyConfig =
  policy_version :: string
  policy_default :: ThresholdRule
  overrides :: "ThresholdRule list"

text \<open>The loop of \<open>validate_rules\<close> with the selectors seen so far.\<close>

fun validate_overrides ::
  "(string option \<times> string option) list \<Rightarrow> ThresholdRule list \<Rightarrow> string + unit" where
  "validate_overrides seen [] = Inr ()"
| "validate_overrides seen (rule # rest) =
     (if selector rule = (None, None) then Inl ''override must select product_code and/or station_code''
      else if selector rule \<in> set seen then Inl ''conflicting duplicate policy override''
      else validate_overrides (selector rule # seen) rest)"

definition validate_rules :: "PolicyConfig \<Rightarrow> string + unit" where
  "validate_rules p =
     (if tr_product_code (policy_default p) \<noteq> None \<or> tr_station_code (policy_default p) \<noteq> None
      then Inl ''default threshold rule cannot contain selectors''
      else validate_overrides [] (overrides p))"

text \<open>\<open>PolicyConfig.model_validate\<close>: the fields, the nested rules, then the model validator.\<close>

definition validate_policy :: "PolicyConfig \<Rightarrow> string + unit" where
  "validate_policy p =
     (if \<not> len_between 1 64 (policy_version p) then Inl ''version''
      else andThen (validate_threshold_order (policy_default p)) (\<lambda>_.
           andThen (validate_all validate_threshold_order (overrides p)) (\<lambda>_.
           validate_rules p)))"

definition rule_matches :: "string \<Rightarrow> string \<Rightarrow> ThresholdRule \<Rightarrow> bool" where
  "rule_matches product_code station_code rule \<longleftrightarrow>
     (tr_product_code rule = None \<or> tr_product_code rule = Some product_code) \<and>
     (tr_station_code rule = None \<or> tr_station_code rule = Some station_code)"

text \<open>\<open>matches.sort(key=specificity, reverse=True)\<close> keeps the order of equal keys.\<close>

definition resolve :: "PolicyConfig \<Rightarrow> string \<Rightarrow> string \<Rightarrow> string + ThresholdRule" where
  "resolve p product_code station_code =
     (let matches = filter (rule_matches product_code station_code) (overrides p) in
      case sort_key (\<lambda>rule. - int (specificity rule)) matches of
        [] \<Rightarrow> Inr (policy_default p)
      | [rule] \<Rightarrow> Inr rule
      | rule # next_rule # _ \<Rightarrow>
          if specificity rule = specificity next_rule
          then Inl ''ambiguous policy overrides with equal specificity''
          else Inr rule)"

record PolicyEvaluation =
  ev_route :: PolicyRoute
  ev_reason :: string
  ev_review_threshold :: rat
  ev_hold_threshold :: rat

definition evaluate_policy ::
  "rat option \<Rightarrow> PolicyConfig option \<Rightarrow> string \<Rightarrow> string \<Rightarrow> string + PolicyEvaluation" where
  "evaluate_policy score policy product_code station_code =
     (case (score, policy) of
        (Some s, Some p) \<Rightarrow>
          andThen (resolve p product_code station_code) (\<lambda>rule.
            if s < review_threshold rule then
              Inr \<lparr>ev_route = AUTO_RELEASE,
                   ev_reason = ''score '' @ fmt6 s @ '' < review_threshold '' @ fmt6 (review_threshold rule),
                   ev_review_threshold = review_threshold rule,
                   ev_hold_threshold = hold_threshold rule\<rparr>
            else if s < hold_threshold rule then
              Inr \<lparr>ev_route = MANUAL_REVIEW,
                   ev_reason = ''review_threshold '' @ fmt6 (review_threshold rule) @ '' <= score ''
                     @ fmt6 s @ '' < hold_threshold '' @ fmt6 (hold_threshold rule),
                   ev_review_threshold = review_threshold rule,
                   ev_hold_threshold = hold_threshold rule\<rparr>
            else
              Inr \<lparr>ev_route = BATCH_HOLD_AND_REVIEW,
                   ev_reason = ''score '' @ fmt6 s @ '' >= hold_threshold '' @ fmt6 (hold_threshold rule),
                   ev_review_threshold = review_threshold rule,
                   ev_hold_threshold = hold_threshold rule\<rparr>)
      | _ \<Rightarrow> Inr \<lparr>ev_route = MANUAL_REVIEW,
                  ev_reason = ''safe fallback: model score or active policy unavailable'',
                  ev_review_threshold = 0, ev_hold_threshold = 1\<rparr>)"

section \<open>What validation establishes\<close>

lemma validate_overrides_iff:
  "validate_overrides seen rs = Inr () \<longleftrightarrow>
     (None, None) \<notin> selector ` set rs \<and> distinct (map selector rs) \<and>
     selector ` set rs \<inter> set seen = {}"
  by (induction seen rs rule: validate_overrides.induct) auto

lemma validate_threshold_order_iff:
  "validate_threshold_order r = Inr () \<longleftrightarrow>
     0 \<le> review_threshold r \<and> review_threshold r < hold_threshold r \<and> hold_threshold r \<le> 1"
  by (auto simp: validate_threshold_order_def)

definition valid_policy :: "PolicyConfig \<Rightarrow> bool" where
  "valid_policy p \<longleftrightarrow> validate_policy p = Inr ()"

lemma valid_policyD:
  assumes "valid_policy p"
  shows "distinct (map selector (overrides p))"
    and "\<And>r. r \<in> set (overrides p) \<Longrightarrow> selector r \<noteq> (None, None)"
    and "\<And>r. r \<in> insert (policy_default p) (set (overrides p)) \<Longrightarrow>
           0 \<le> review_threshold r \<and> review_threshold r < hold_threshold r \<and> hold_threshold r \<le> 1"
    and "selector (policy_default p) = (None, None)"
proof -
  have overr: "validate_overrides [] (overrides p) = Inr ()"
    and dflt: "validate_threshold_order (policy_default p) = Inr ()"
    and rules: "\<forall>r \<in> set (overrides p). validate_threshold_order r = Inr ()"
    and sel: "selector (policy_default p) = (None, None)"
    using assms
    by (auto simp: valid_policy_def validate_policy_def validate_rules_def validate_all_iff
        selector_def split: if_splits)
  show "distinct (map selector (overrides p))"
    using overr by (simp add: validate_overrides_iff)
  show "selector r \<noteq> (None, None)" if "r \<in> set (overrides p)" for r
    using overr that by (auto simp: validate_overrides_iff image_iff)
  show "0 \<le> review_threshold r \<and> review_threshold r < hold_threshold r \<and> hold_threshold r \<le> 1"
    if "r \<in> insert (policy_default p) (set (overrides p))" for r
    using that dflt rules by (auto simp: validate_threshold_order_iff)
  show "selector (policy_default p) = (None, None)" by (rule sel)
qed

section \<open>Resolution against a reference definition\<close>

text \<open>The intended meaning: the rule for the product at the station; failing that the rule for the
  product anywhere or for the station with any product, if only one of the two exists; failing
  that the default.\<close>

definition rule_for :: "PolicyConfig \<Rightarrow> string option \<times> string option \<Rightarrow> ThresholdRule option" where
  "rule_for p sel = find (\<lambda>r. selector r = sel) (overrides p)"

definition resolve_by_selector :: "PolicyConfig \<Rightarrow> string \<Rightarrow> string \<Rightarrow> string + ThresholdRule" where
  "resolve_by_selector p pc sc =
     (case rule_for p (Some pc, Some sc) of
        Some r \<Rightarrow> Inr r
      | None \<Rightarrow>
          (case (rule_for p (Some pc, None), rule_for p (None, Some sc)) of
             (Some r, None) \<Rightarrow> Inr r
           | (None, Some r) \<Rightarrow> Inr r
           | (Some _, Some _) \<Rightarrow> Inl ''ambiguous policy overrides with equal specificity''
           | (None, None) \<Rightarrow> Inr (policy_default p)))"

lemma rule_for_iff:
  assumes "distinct (map selector (overrides p))"
  shows "rule_for p sel = Some r \<longleftrightarrow> r \<in> set (overrides p) \<and> selector r = sel"
proof
  assume "rule_for p sel = Some r"
  then show "r \<in> set (overrides p) \<and> selector r = sel"
    by (auto simp: rule_for_def dest: find_SomeD1 find_SomeD2)
next
  assume r: "r \<in> set (overrides p) \<and> selector r = sel"
  then obtain r' where r': "rule_for p sel = Some r'"
    by (metis (mono_tags, lifting) find_NoneD not_None_eq rule_for_def)
  then have "r' \<in> set (overrides p)" "selector r' = sel"
    by (auto simp: rule_for_def dest: find_SomeD1 find_SomeD2)
  with r assms have "r' = r"
    by (metis distinct_map inj_onD)
  with r' show "rule_for p sel = Some r" by simp
qed

lemma specificity_selector:
  "specificity r = (case selector r of (None, None) \<Rightarrow> 0 | (Some _, Some _) \<Rightarrow> 2 | _ \<Rightarrow> 1)"
  by (auto simp: specificity_def selector_def split: option.splits)

lemma rule_matches_selector:
  "rule_matches pc sc r \<longleftrightarrow>
     selector r \<in> {(None, None), (Some pc, None), (None, Some sc), (Some pc, Some sc)}"
  by (auto simp: rule_matches_def selector_def)


text \<open>The candidates in the order the code inspects them: all matching rules, distinct selectors,
  most specific first.\<close>

definition ranked :: "PolicyConfig \<Rightarrow> string \<Rightarrow> string \<Rightarrow> ThresholdRule list" where
  "ranked p pc sc = sort_key (\<lambda>rule. - int (specificity rule)) (filter (rule_matches pc sc) (overrides p))"

lemma set_ranked: "set (ranked p pc sc) = {r \<in> set (overrides p). rule_matches pc sc r}"
  by (simp add: ranked_def)

lemma distinct_ranked:
  assumes "distinct (map selector (overrides p))"
  shows "distinct (map selector (ranked p pc sc))"
proof -
  have "distinct (map selector (filter (rule_matches pc sc) (overrides p)))"
    using assms by (simp add: distinct_map_filter)
  then show ?thesis
    unfolding ranked_def by (auto simp: distinct_map)
qed

lemma ranked_head_max:
  assumes "ranked p pc sc = rule # rest" "r \<in> set rest"
  shows "specificity r \<le> specificity rule"
proof -
  have "sorted (map (\<lambda>rule. - int (specificity rule)) (ranked p pc sc))"
    unfolding ranked_def by (rule sorted_sort_key)
  then show ?thesis using assms by auto
qed

lemma rule_for_ranked:
  assumes "valid_policy p" "sel \<in> {(Some pc, None), (None, Some sc), (Some pc, Some sc)}"
  shows "rule_for p sel = Some r \<longleftrightarrow> r \<in> set (ranked p pc sc) \<and> selector r = sel"
  using assms rule_for_iff [OF valid_policyD(1) [OF assms(1)]]
  by (auto simp: rule_matches_selector set_ranked)

lemma rule_for_ranked_None:
  assumes "valid_policy p" "sel \<in> {(Some pc, None), (None, Some sc), (Some pc, Some sc)}"
    and "\<And>r. r \<in> set (ranked p pc sc) \<Longrightarrow> selector r \<noteq> sel"
  shows "rule_for p sel = None"
  using rule_for_ranked [OF assms(1,2)] assms(3) by (metis not_None_eq)

lemma ranked_selector:
  assumes "valid_policy p" "r \<in> set (ranked p pc sc)"
  shows "selector r \<in> {(Some pc, None), (None, Some sc), (Some pc, Some sc)}"
  using assms valid_policyD(2) by (auto simp: rule_matches_selector set_ranked)

lemma resolve_ranked:
  "resolve p pc sc = (case ranked p pc sc of
        [] \<Rightarrow> Inr (policy_default p)
      | [rule] \<Rightarrow> Inr rule
      | rule # next_rule # _ \<Rightarrow>
          if specificity rule = specificity next_rule
          then Inl ''ambiguous policy overrides with equal specificity''
          else Inr rule)"
  by (simp add: resolve_def ranked_def)

text \<open>With one selector given for the head of the ranking, the rest is what it can still be.\<close>

lemma resolve_exact:
  assumes v: "valid_policy p" and rk: "ranked p pc sc = rule # rest"
    and sel: "selector rule = (Some pc, Some sc)"
  shows "resolve p pc sc = resolve_by_selector p pc sc"
proof -
  have exact: "rule_for p (Some pc, Some sc) = Some rule"
    using rule_for_ranked [OF v, of "(Some pc, Some sc)" pc sc rule] rk sel by simp
  have "specificity n \<noteq> specificity rule" if "n \<in> set rest" for n
    using that ranked_selector [OF v, of n pc sc] distinct_ranked [OF valid_policyD(1) [OF v], of pc sc]
      rk sel by (auto simp: specificity_selector image_iff)
  then have "resolve p pc sc = Inr rule"
    by (cases rest) (force simp: resolve_ranked rk)+
  with exact show ?thesis by (simp add: resolve_by_selector_def)
qed

lemma resolve_partial:
  assumes v: "valid_policy p" and rk: "ranked p pc sc = rule # rest"
    and sel: "selector rule = sel" "(sel, other) \<in> {((Some pc, None), (None, Some sc)), ((None, Some sc), (Some pc, None))}"
  shows "resolve p pc sc = resolve_by_selector p pc sc"
proof -
  have mine: "rule_for p sel = Some rule"
    using rule_for_ranked [OF v, of sel pc sc rule] rk sel by auto
  have no_exact: "rule_for p (Some pc, Some sc) = None"
  proof (rule rule_for_ranked_None [OF v])
    fix r
    assume "r \<in> set (ranked p pc sc)"
    then have "r = rule \<or> specificity r \<le> specificity rule"
      using ranked_head_max [OF rk] rk by auto
    then show "selector r \<noteq> (Some pc, Some sc)"
      using sel by (auto simp: specificity_selector)
  qed simp
  have others: "selector n = other" if "n \<in> set rest" for n
    using that ranked_selector [OF v, of n pc sc] distinct_ranked [OF valid_policyD(1) [OF v], of pc sc]
      rk sel ranked_head_max [OF rk that] by (auto simp: specificity_selector image_iff)
  show ?thesis
  proof (cases rest)
    case Nil
    then have "rule_for p other = None"
      using rk sel by (intro rule_for_ranked_None [OF v]) auto
    with mine no_exact sel Nil rk show ?thesis
      by (auto simp: resolve_by_selector_def resolve_ranked)
  next
    case (Cons n ns)
    then have "rule_for p other = Some n"
      using rule_for_ranked [OF v, of other pc sc n] rk sel others [of n] by auto
    with mine no_exact sel Cons rk others [of n] show ?thesis
      by (auto simp: resolve_by_selector_def resolve_ranked specificity_selector)
  qed
qed

lemma resolve_reference:
  assumes v: "valid_policy p"
  shows "resolve p pc sc = resolve_by_selector p pc sc"
proof (cases "ranked p pc sc")
  case Nil
  then have "rule_for p sel = None"
    if "sel \<in> {(Some pc, None), (None, Some sc), (Some pc, Some sc)}" for sel
    using that by (intro rule_for_ranked_None [OF v]) auto
  with Nil show ?thesis by (simp add: resolve_ranked resolve_by_selector_def)
next
  case (Cons rule rest)
  then consider "selector rule = (Some pc, Some sc)" | "selector rule = (Some pc, None)"
    | "selector rule = (None, Some sc)"
    using ranked_selector [OF v, of rule pc sc] by auto
  then show ?thesis
    using resolve_exact [OF v Cons] resolve_partial [OF v Cons] by cases auto
qed


section \<open>Order of the overrides\<close>

lemma find_perm:
  assumes "mset xs = mset ys" "distinct (map selector xs)"
  shows "find (\<lambda>r. selector r = sel) xs = find (\<lambda>r. selector r = sel) ys"
proof -
  have sets: "set xs = set ys" and dist: "distinct (map selector ys)"
    using assms by (metis mset_eq_setD, metis mset_eq_imp_distinct_iff mset_map)
  have one: "find (\<lambda>r. selector r = sel) zs = Some r \<longleftrightarrow> r \<in> set zs \<and> selector r = sel"
    if "distinct (map selector zs)" for zs r
    using rule_for_iff [of "\<lparr>policy_version = [], policy_default = undefined, overrides = zs\<rparr>"] that
    by (simp add: rule_for_def)
  show ?thesis
    using one [OF assms(2)] one [OF dist] sets by (metis not_None_eq)
qed

lemma resolve_by_selector_perm:
  assumes "distinct (map selector (overrides p))" "mset (overrides p) = mset rs"
  shows "resolve_by_selector (p\<lparr>overrides := rs\<rparr>) pc sc = resolve_by_selector p pc sc"
proof -
  have "rule_for (p\<lparr>overrides := rs\<rparr>) sel = rule_for p sel" for sel
    using find_perm [OF assms(2,1)] by (simp add: rule_for_def)
  then show ?thesis
    unfolding resolve_by_selector_def by (simp cong: option.case_cong)
qed

lemma valid_policy_perm:
  assumes "valid_policy p" "mset (overrides p) = mset rs"
  shows "valid_policy (p\<lparr>overrides := rs\<rparr>)"
proof -
  have "set (overrides p) = set rs" "distinct (map selector rs) = distinct (map selector (overrides p))"
    using assms(2) by (metis mset_eq_setD, metis mset_eq_imp_distinct_iff mset_map)
  with assms(1) show ?thesis
    by (auto simp: valid_policy_def validate_policy_def validate_rules_def validate_all_iff
        validate_overrides_iff split: if_splits)
qed

section \<open>Routing\<close>

definition route_rank :: "PolicyRoute \<Rightarrow> nat" where
  "route_rank r = (case r of AUTO_RELEASE \<Rightarrow> 0 | MANUAL_REVIEW \<Rightarrow> 1 | BATCH_HOLD_AND_REVIEW \<Rightarrow> 2)"

lemma resolve_in_policy:
  assumes "resolve p pc sc = Inr rule"
  shows "rule \<in> insert (policy_default p) (set (overrides p))"
proof -
  have sub: "set (ranked p pc sc) \<subseteq> set (overrides p)"
    by (auto simp: set_ranked)
  show ?thesis
    using assms sub by (auto simp: resolve_ranked split: list.splits if_splits)
qed

lemma evaluate_policy_route:
  assumes "evaluate_policy (Some s) (Some p) pc sc = Inr ev"
  shows "\<exists>rule. resolve p pc sc = Inr rule \<and>
           ev_review_threshold ev = review_threshold rule \<and> ev_hold_threshold ev = hold_threshold rule \<and>
           ev_route ev = (if s < review_threshold rule then AUTO_RELEASE
             else if s < hold_threshold rule then MANUAL_REVIEW else BATCH_HOLD_AND_REVIEW)"
proof -
  obtain rule where rule: "resolve p pc sc = Inr rule"
    using assms by (cases "resolve p pc sc") (simp_all add: evaluate_policy_def)
  with assms show ?thesis
    by (intro exI [of _ rule])
      (simp add: evaluate_policy_def; cases "s < review_threshold rule"; cases "s < hold_threshold rule"; clarsimp)
qed

lemma evaluate_policy_missing:
  assumes "score = None \<or> policy = None"
  shows "evaluate_policy score policy pc sc =
     Inr \<lparr>ev_route = MANUAL_REVIEW,
          ev_reason = ''safe fallback: model score or active policy unavailable'',
          ev_review_threshold = 0, ev_hold_threshold = 1\<rparr>"
  using assms by (cases score; cases policy) (simp_all add: evaluate_policy_def)

lemma evaluate_policy_auto:
  assumes "evaluate_policy score policy pc sc = Inr ev" "ev_route ev = AUTO_RELEASE"
  shows "\<exists>s p rule. score = Some s \<and> policy = Some p \<and> resolve p pc sc = Inr rule \<and>
           s < review_threshold rule"
proof (cases score)
  case None
  with assms show ?thesis by (auto simp: evaluate_policy_missing)
next
  case (Some s)
  show ?thesis
  proof (cases policy)
    case None
    with assms show ?thesis by (auto simp: evaluate_policy_missing)
  next
    case (Some p)
    with \<open>score = Some s\<close> show ?thesis
      using evaluate_policy_route [of s p pc sc ev] assms by (auto split: if_splits)
  qed
qed

section \<open>Properties\<close>

definition example_policy :: PolicyConfig where
  "example_policy = \<lparr>policy_version = ''v1'',
     policy_default = \<lparr>tr_product_code = None, tr_station_code = None,
       review_threshold = 1 / 2, hold_threshold = 4 / 5\<rparr>,
     overrides =
       [\<lparr>tr_product_code = Some ''P1'', tr_station_code = None,
         review_threshold = 3 / 10, hold_threshold = 6 / 10\<rparr>,
        \<lparr>tr_product_code = Some ''P1'', tr_station_code = Some ''S1'',
         review_threshold = 1 / 10, hold_threshold = 2 / 10\<rparr>]\<rparr>"

lemma valid_example_policy: "valid_policy example_policy"
  by (simp add: valid_policy_def validate_policy_def validate_rules_def example_policy_def
      validate_threshold_order_def selector_def len_between_def)

text \<open>C29. On a policy that passed validation, the rule the code picks by sorting the matching
  overrides is the one of the reference definition: the exact product and station override, else
  the only partial override, else the default; two partial overrides are an error.\<close>

theorem resolve_meets_reference:
  assumes "valid_policy p"
  shows "resolve p product_code station_code = resolve_by_selector p product_code station_code"
  by (rule resolve_reference [OF assms])

theorem resolve_meets_reference_witness:
  "resolve example_policy ''P1'' ''S1'' = resolve_by_selector example_policy ''P1'' ''S1''"
  by (rule resolve_meets_reference [OF valid_example_policy])

text \<open>The order in which a valid policy lists its overrides does not change the rule that
  applies, nor the evaluation.\<close>

theorem resolve_order_independent:
  assumes "valid_policy p" "mset (overrides p) = mset rs"
  shows "resolve (p\<lparr>overrides := rs\<rparr>) product_code station_code = resolve p product_code station_code"
  using resolve_reference [OF assms(1)] resolve_reference [OF valid_policy_perm [OF assms]]
    resolve_by_selector_perm [OF valid_policyD(1) [OF assms(1)] assms(2)] by simp

theorem resolve_order_independent_witness:
  "resolve (example_policy\<lparr>overrides := rev (overrides example_policy)\<rparr>) ''P1'' ''S2''
     = resolve example_policy ''P1'' ''S2''"
  by (rule resolve_order_independent [OF valid_example_policy]) simp

text \<open>Routing is monotone in the score: under a valid policy, for the same product and station,
  a score at least as high is never routed more permissively.\<close>

theorem evaluate_policy_monotone:
  assumes "valid_policy p" "s \<le> t"
    and "evaluate_policy (Some s) (Some p) product_code station_code = Inr ev"
    and "evaluate_policy (Some t) (Some p) product_code station_code = Inr ev'"
  shows "route_rank (ev_route ev) \<le> route_rank (ev_route ev')"
proof -
  obtain rule where "resolve p product_code station_code = Inr rule"
    using evaluate_policy_route [OF assms(3)] by blast
  then have "review_threshold rule < hold_threshold rule"
    using resolve_in_policy valid_policyD(3) [OF assms(1)] by blast
  with evaluate_policy_route [OF assms(3)] evaluate_policy_route [OF assms(4)] assms(2)
  show ?thesis
    by (auto simp: route_rank_def split: if_splits)
qed

theorem evaluate_policy_monotone_witness:
  "\<exists>ev ev'. evaluate_policy (Some (1 / 20)) (Some example_policy) ''P1'' ''S1'' = Inr ev \<and>
     evaluate_policy (Some (3 / 20)) (Some example_policy) ''P1'' ''S1'' = Inr ev' \<and>
     route_rank (ev_route ev) \<le> route_rank (ev_route ev')"
proof -
  have res: "resolve example_policy ''P1'' ''S1'' = Inr (overrides example_policy ! 1)"
    by (simp add: resolve_reference [OF valid_example_policy])
      (simp add: resolve_by_selector_def rule_for_def example_policy_def selector_def)
  have ok: "\<exists>ev. evaluate_policy (Some s) (Some example_policy) ''P1'' ''S1'' = Inr ev" for s
    using res by (simp add: evaluate_policy_def)
  obtain ev where ev: "evaluate_policy (Some (1 / 20)) (Some example_policy) ''P1'' ''S1'' = Inr ev"
    using ok by blast
  obtain ev' where ev': "evaluate_policy (Some (3 / 20)) (Some example_policy) ''P1'' ''S1'' = Inr ev'"
    using ok by blast
  have "route_rank (ev_route ev) \<le> route_rank (ev_route ev')"
    by (rule evaluate_policy_monotone [OF valid_example_policy _ ev ev']) simp
  with ev ev' show ?thesis by blast
qed

end
