(* ===== verification/Deployment.thy ===== *)
theory Deployment
  imports Policy
begin

text \<open>
  \<^verbatim>\<open>backend/app/deployment.py\<close>: the typed contract of a Deployment Pack, the checks it
  passes when it is validated, product and station lookup, and the translation of the canonical
  payload to a connector's schema. A validation reports the first failing field.
\<close>

definition CANONICAL_FIELDS :: "string list" where
  "CANONICAL_FIELDS =
     [''product_code'', ''product_revision'', ''batch_no'', ''station_code'', ''captured_at'', ''source'']"

section \<open>The parts of a manifest\<close>

record TenantDefinition =
  td_id :: string
  td_name :: string

definition validate_tenant :: "TenantDefinition \<Rightarrow> string + unit" where
  "validate_tenant t = ensure_all
     [(len_between 1 64 (td_id t), ''tenant.id''), (len_between 1 200 (td_name t), ''tenant.name'')]"

record ProductDefinition =
  pd_code :: string
  pd_display_name :: string
  pd_revision :: string
  pd_aliases :: "string list"

definition product_values :: "ProductDefinition \<Rightarrow> string list" where
  "product_values p = pd_code p # pd_aliases p"

definition validate_product :: "ProductDefinition \<Rightarrow> string + unit" where
  "validate_product p = ensure_all
     [(len_between 1 128 (pd_code p), ''code''),
      (len_between 1 200 (pd_display_name p), ''display_name''),
      (len_between 1 64 (pd_revision p), ''revision''),
      (length (pd_aliases p) \<le> 20, ''aliases''),
      (length (product_values p) = card (set (product_values p)),
       ''product code and aliases must be unique'')]"

definition product_matches :: "ProductDefinition \<Rightarrow> string \<Rightarrow> bool" where
  "product_matches p value \<longleftrightarrow> pd_code p = ''*'' \<or> value = pd_code p \<or> value \<in> set (pd_aliases p)"

record StationDefinition =
  st_code :: string
  st_display_name :: string
  st_description :: string
  st_camera_profile :: string

definition validate_station :: "StationDefinition \<Rightarrow> string + unit" where
  "validate_station s = ensure_all
     [(len_between 1 128 (st_code s), ''code''),
      (len_between 1 200 (st_display_name s), ''display_name''),
      (len_between 1 500 (st_description s), ''description''),
      (len_between 1 128 (st_camera_profile s), ''camera_profile'')]"

record GatewayWatchDefinition =
  gw_root :: string
  gw_relative_path_regex :: string
  gw_filename_regex :: string
  gw_capture_map :: "(string \<times> string) list"
  gw_defaults :: "(string \<times> string) list"
  gw_source :: string
  gw_allowed_extensions :: "string list"
  gw_timestamp_formats :: "string list"
  gw_timezone_offset :: string
  gw_stable_for_seconds :: rat
  gw_archive_subdir :: string
  gw_quarantine_subdir :: string

text \<open>The pattern \<open>^[+-]\d{2}:\d{2}$\<close>.\<close>

definition is_digit :: "char \<Rightarrow> bool" where
  "is_digit c = (let n = (of_char c :: nat) in 48 \<le> n \<and> n \<le> 57)"

definition timezone_offset_ok :: "string \<Rightarrow> bool" where
  "timezone_offset_ok s = (case s of
     [sign, a, b, colon, c, d] \<Rightarrow>
       (sign = CHR ''+'' \<or> sign = CHR ''-'') \<and> is_digit a \<and> is_digit b \<and> colon = CHR '':'' \<and>
       is_digit c \<and> is_digit d
   | _ \<Rightarrow> False)"

definition validate_watch :: "GatewayWatchDefinition \<Rightarrow> string + unit" where
  "validate_watch w = ensure_all
     [(len_between 1 500 (gw_root w), ''root''),
      (len_between 1 500 (gw_relative_path_regex w), ''relative_path_regex''),
      (len_between 1 500 (gw_filename_regex w), ''filename_regex''),
      (len_between 1 128 (gw_source w), ''source''),
      (timezone_offset_ok (gw_timezone_offset w), ''timezone_offset''),
      (0 \<le> gw_stable_for_seconds w \<and> gw_stable_for_seconds w \<le> 3600, ''stable_for_seconds''),
      (len_between 1 128 (gw_archive_subdir w), ''archive_subdir''),
      (len_between 1 128 (gw_quarantine_subdir w), ''quarantine_subdir'')]"

record EdgeGatewayDefinition =
  eg_gateway_id :: string
  eg_target_tenant_id :: string
  eg_watch :: GatewayWatchDefinition
  eg_simulator :: "json option"

definition validate_edge_gateway :: "EdgeGatewayDefinition \<Rightarrow> string + unit" where
  "validate_edge_gateway g = andThen (ensure_all
     [(len_between 1 128 (eg_gateway_id g), ''gateway_id''),
      (len_between 1 64 (eg_target_tenant_id g), ''target_tenant_id'')])
     (\<lambda>_. validate_watch (eg_watch g))"

record FieldMapping =
  fm_product_code :: string
  fm_product_revision :: string
  fm_batch_no :: string
  fm_station_code :: string
  fm_captured_at :: string
  fm_source :: string

text \<open>The values of the mapping in the order of \<open>CANONICAL_FIELDS\<close>, and \<open>key_for\<close>
  (\<open>None\<close> is the KeyError).\<close>

definition mapping_keys :: "FieldMapping \<Rightarrow> string list" where
  "mapping_keys m = [fm_product_code m, fm_product_revision m, fm_batch_no m, fm_station_code m,
     fm_captured_at m, fm_source m]"

definition key_for :: "FieldMapping \<Rightarrow> string \<Rightarrow> string option" where
  "key_for m canonical_name = map_of (zip CANONICAL_FIELDS (mapping_keys m)) canonical_name"

definition validate_field_mapping :: "FieldMapping \<Rightarrow> string + unit" where
  "validate_field_mapping m = andThen
     (validate_all (\<lambda>k. ensure (len_between 1 64 k) ''field_mapping'') (mapping_keys m))
     (\<lambda>_. ensure (length (mapping_keys m) = card (set (mapping_keys m)))
            ''field mapping keys must be unique'')"

record ModelDefinition =
  md_id :: string
  md_version :: string
  md_feature_bank_version :: string
  md_adapter :: string
  md_runtime :: string
  md_device :: string
  md_package_uri :: string
  md_package_sha256 :: "string option"
  md_score_semantics :: string
  md_limitations :: "string list"

definition validate_model :: "ModelDefinition \<Rightarrow> string + unit" where
  "validate_model m = ensure_all
     [(len_between 1 128 (md_id m), ''id''),
      (len_between 1 64 (md_version m), ''version''),
      (len_between 1 128 (md_feature_bank_version m), ''feature_bank_version''),
      (len_between 1 128 (md_adapter m), ''adapter''),
      (len_between 1 128 (md_runtime m), ''runtime''),
      (len_between 1 64 (md_device m), ''device''),
      (len_between 1 500 (md_package_uri m), ''package_uri''),
      (case md_package_sha256 m of None \<Rightarrow> True | Some s \<Rightarrow> length s \<le> 128, ''package_sha256''),
      (len_between 1 500 (md_score_semantics m), ''score_semantics''),
      (length (md_limitations m) \<le> 20, ''limitations'')]"

record ConnectorDefinition =
  cd_display_name :: string
  cd_driver :: string
  cd_contract_version :: string
  cd_endpoint :: string
  cd_payload_mapping :: "(string \<times> string) list"
  cd_fixed_fields :: "(string \<times> json) list"
  cd_operations :: "string list"

definition validate_connector :: "ConnectorDefinition \<Rightarrow> string + unit" where
  "validate_connector c = ensure_all
     [(len_between 1 200 (cd_display_name c), ''display_name''),
      (len_between 1 64 (cd_driver c), ''driver''),
      (len_between 1 64 (cd_contract_version c), ''contract_version''),
      (len_between 1 500 (cd_endpoint c), ''endpoint''),
      (1 \<le> length (cd_operations c) \<and> length (cd_operations c) \<le> 20, ''operations'')]"

record ConnectorSet =
  cs_mes :: ConnectorDefinition
  cs_qms :: ConnectorDefinition

section \<open>The manifest\<close>

record DeploymentManifest =
  schema_version :: string
  pack_key :: string
  version :: string
  display_name :: string
  tenant :: TenantDefinition
  input_mode :: string
  products :: "ProductDefinition list"
  stations :: "StationDefinition list"
  field_mapping :: FieldMapping
  field_labels :: "(string \<times> string) list"
  model :: ModelDefinition
  policy :: PolicyConfig
  connectors :: ConnectorSet
  metadata :: "(string \<times> json) list"
  edge_gateway :: "EdgeGatewayDefinition option"

definition validate_catalog :: "DeploymentManifest \<Rightarrow> string + unit" where
  "validate_catalog m =
     (let product_codes = map pd_code (products m);
          station_codes = map st_code (stations m);
          values = concat (map product_values (products m));
          unknown_labels = set (map fst (field_labels m)) - set CANONICAL_FIELDS
      in ensure_all
       [(length product_codes = card (set product_codes), ''products must have unique canonical codes''),
        (length values = card (set values), ''product codes and aliases must be globally unique''),
        (length station_codes = card (set station_codes), ''stations must have unique codes''),
        (case edge_gateway m of None \<Rightarrow> True | Some g \<Rightarrow> eg_target_tenant_id g = td_id (tenant m),
         ''edge gateway target_tenant_id must match tenant.id''),
        (unknown_labels = {}, ''field_labels contains unknown fields'')])"

definition validate_manifest :: "DeploymentManifest \<Rightarrow> string + unit" where
  "validate_manifest m =
     andThen (ensure_all
       [(schema_version m = ''visionqc.deployment-pack.v1'', ''schema_version''),
        (len_between 1 128 (pack_key m), ''pack_key''),
        (len_between 1 64 (version m), ''version''),
        (len_between 1 200 (display_name m), ''display_name'')]) (\<lambda>_.
     andThen (validate_tenant (tenant m)) (\<lambda>_.
     andThen (ensure (input_mode m = ''api_upload'' \<or> input_mode m = ''folder_watch'') ''input_mode'') (\<lambda>_.
     andThen (ensure (1 \<le> length (products m) \<and> length (products m) \<le> 50) ''products'') (\<lambda>_.
     andThen (validate_all validate_product (products m)) (\<lambda>_.
     andThen (ensure (1 \<le> length (stations m) \<and> length (stations m) \<le> 50) ''stations'') (\<lambda>_.
     andThen (validate_all validate_station (stations m)) (\<lambda>_.
     andThen (validate_field_mapping (field_mapping m)) (\<lambda>_.
     andThen (validate_model (model m)) (\<lambda>_.
     andThen (validate_policy (policy m)) (\<lambda>_.
     andThen (validate_connector (cs_mes (connectors m))) (\<lambda>_.
     andThen (validate_connector (cs_qms (connectors m))) (\<lambda>_.
     andThen (case edge_gateway m of None \<Rightarrow> Inr () | Some g \<Rightarrow> validate_edge_gateway g) (\<lambda>_.
     validate_catalog m)))))))))))))"

text \<open>\<open>active_product\<close> indexes the list: \<open>None\<close> is the IndexError of an empty catalogue.\<close>

definition active_product :: "DeploymentManifest \<Rightarrow> ProductDefinition option" where
  "active_product m = (case products m of [] \<Rightarrow> None | p # _ \<Rightarrow> Some p)"

definition resolve_product :: "DeploymentManifest \<Rightarrow> string \<Rightarrow> ProductDefinition option" where
  "resolve_product m value = find (\<lambda>p. product_matches p value) (products m)"

definition resolve_station :: "DeploymentManifest \<Rightarrow> string \<Rightarrow> StationDefinition option" where
  "resolve_station m value = find (\<lambda>s. st_code s = value \<or> st_code s = ''*'') (stations m)"

text \<open>\<open>connector(name)\<close>: the attribute of the connector set with the lower-case name; the code
  passes the names of the two systems only.\<close>

definition connector_definition :: "DeploymentManifest \<Rightarrow> string \<Rightarrow> ConnectorDefinition option" where
  "connector_definition m name =
     (if lower name = ''mes'' then Some (cs_mes (connectors m))
      else if lower name = ''qms'' then Some (cs_qms (connectors m)) else None)"

definition mapped_payload :: "ConnectorDefinition \<Rightarrow> (string \<times> json) list \<Rightarrow> (string \<times> json) list" where
  "mapped_payload binding canonical =
     dict_of (List.map_filter (\<lambda>(canonical_key, external_key).
         map_option (\<lambda>v. (external_key, v)) (jget canonical_key canonical)) (cd_payload_mapping binding))"

definition connector_payload ::
  "DeploymentManifest \<Rightarrow> string \<Rightarrow> (string \<times> json) list \<Rightarrow> (string \<times> json) list option" where
  "connector_payload m name canonical =
     map_option (\<lambda>binding. dict_update (mapped_payload binding canonical) (cd_fixed_fields binding))
       (connector_definition m name)"

section \<open>The manifest of a record in the old shape\<close>

text \<open>\<open>model.get(key, default)\<close> where the contract asks for a string.\<close>

definition get_str :: "(string \<times> json) list \<Rightarrow> string \<Rightarrow> string \<Rightarrow> string + string" where
  "get_str d key dflt = (case jget key d of None \<Rightarrow> Inr dflt | Some (JStr s) \<Rightarrow> Inr s | Some _ \<Rightarrow> Inl key)"

definition get_opt_str :: "(string \<times> json) list \<Rightarrow> string \<Rightarrow> string + string option" where
  "get_opt_str d key = (case jget key d of
     None \<Rightarrow> Inr None | Some JNull \<Rightarrow> Inr None | Some (JStr s) \<Rightarrow> Inr (Some s) | Some _ \<Rightarrow> Inl key)"

definition legacy_model :: "(string \<times> json) list \<Rightarrow> string + ModelDefinition" where
  "legacy_model m =
     andThen (get_str m ''model_id'' ''legacy-model'') (\<lambda>i.
     andThen (get_str m ''model_version'' ''legacy'') (\<lambda>v.
     andThen (get_str m ''feature_bank_version'' ''legacy-feature-bank'') (\<lambda>f.
     andThen (get_str m ''adapter'' ''stub'') (\<lambda>a.
     andThen (get_str m ''runtime'' ''visionqc'') (\<lambda>r.
     andThen (get_str m ''runtime_device'' ''cpu'') (\<lambda>d.
     andThen (get_str m ''package_uri'' ''not-configured'') (\<lambda>u.
     andThen (get_opt_str m ''package_sha256'') (\<lambda>h.
     Inr \<lparr>md_id = i, md_version = v, md_feature_bank_version = f, md_adapter = a, md_runtime = r,
          md_device = d, md_package_uri = u, md_package_sha256 = h,
          md_score_semantics =
            ''normalized anomaly evidence; semantic defect requires human confirmation'',
          md_limitations = [''legacy deployment record; replace with a v1 manifest'']\<rparr>))))))))"

definition legacy_connector :: "string \<Rightarrow> json \<Rightarrow> ConnectorDefinition" where
  "legacy_connector key value =
     \<lparr>cd_display_name = (case value of JStr s \<Rightarrow> s | _ \<Rightarrow> key), cd_driver = ''legacy'',
      cd_contract_version = ''legacy'', cd_endpoint = ''not-configured'', cd_payload_mapping = [],
      cd_fixed_fields = [], cd_operations = [''HOLD_BATCH'', ''CREATE_TICKET'']\<rparr>"

definition legacy_manifest_value ::
  "string \<Rightarrow> string \<Rightarrow> string \<Rightarrow> ModelDefinition \<Rightarrow> PolicyConfig \<Rightarrow> (string \<times> json) list \<Rightarrow> DeploymentManifest" where
  "legacy_manifest_value tenant_id tenant_name v m p cs =
     \<lparr>schema_version = ''visionqc.deployment-pack.v1'',
      pack_key = tenant_id @ ''/legacy'', version = v,
      display_name = tenant_name @ '' legacy deployment'',
      tenant = \<lparr>td_id = tenant_id, td_name = tenant_name\<rparr>, input_mode = ''api_upload'',
      products = [\<lparr>pd_code = ''*'', pd_display_name = ''Configured product'',
        pd_revision = ''UNSPECIFIED'', pd_aliases = []\<rparr>],
      stations = [\<lparr>st_code = ''*'', st_display_name = ''Configured station'',
        st_description = ''Legacy deployment station'', st_camera_profile = ''legacy''\<rparr>],
      field_mapping = \<lparr>fm_product_code = ''product_code'', fm_product_revision = ''product_revision'',
        fm_batch_no = ''batch_no'', fm_station_code = ''station_code'',
        fm_captured_at = ''captured_at'', fm_source = ''source''\<rparr>,
      field_labels = [(''product_code'', ''Product code''), (''product_revision'', ''Product revision''),
        (''batch_no'', ''Batch''), (''station_code'', ''Station''), (''captured_at'', ''Captured at''),
        (''source'', ''Source'')],
      model = m, policy = p,
      connectors = \<lparr>cs_mes = legacy_connector ''mes'' (case jget ''mes'' cs of None \<Rightarrow> JStr ''MES'' | Some x \<Rightarrow> x),
        cs_qms = legacy_connector ''qms'' (case jget ''qms'' cs of None \<Rightarrow> JStr ''QMS'' | Some x \<Rightarrow> x)\<rparr>,
      metadata = [], edge_gateway = None\<rparr>"

definition legacy_manifest ::
  "string \<Rightarrow> string \<Rightarrow> string \<Rightarrow> (string \<times> json) list \<Rightarrow> PolicyConfig \<Rightarrow> (string \<times> json) list
     \<Rightarrow> string + DeploymentManifest" where
  "legacy_manifest tenant_id tenant_name v m p cs =
     andThen (legacy_model m) (\<lambda>md.
       let manifest = legacy_manifest_value tenant_id tenant_name v md p cs in
       andThen (validate_manifest manifest) (\<lambda>_. Inr manifest))"


section \<open>Lookup in a valid catalogue\<close>

lemma distinct_by_card: "length xs = card (set xs) \<longleftrightarrow> distinct xs"
  by (metis card_distinct distinct_card)

lemma validate_manifest_catalog:
  assumes "validate_manifest m = Inr ()"
  shows "validate_catalog m = Inr ()"
  using assms unfolding validate_manifest_def by (elim andThen_Inr [THEN iffD1, elim_format] exE conjE)

lemma catalog_values_distinct:
  assumes "validate_catalog m = Inr ()"
  shows "distinct (concat (map product_values (products m)))"
  using assms by (simp add: validate_catalog_def Let_def distinct_by_card split: if_splits)

lemma concat_distinct_unique:
  assumes "distinct (concat (map f xs))" "v \<in> set (f x)" "v \<in> set (f y)" "x \<in> set xs" "y \<in> set xs"
  shows "x = y"
  using assms by (induction xs) auto

lemma product_matches_values:
  "pd_code p \<noteq> ''*'' \<Longrightarrow> product_matches p v \<longleftrightarrow> v \<in> set (product_values p)"
  by (auto simp: product_matches_def product_values_def)

text \<open>The catalogue of a manifest in the old shape: one wildcard product and station.\<close>

lemma legacy_manifest_Inr:
  assumes "legacy_manifest t n v m p cs = Inr manifest"
  shows "\<exists>md. manifest = legacy_manifest_value t n v md p cs \<and> validate_manifest manifest = Inr ()"
  using assms by (auto simp: legacy_manifest_def Let_def)

lemma map_of_rev_mapped:
  "map_of (rev (List.map_filter (\<lambda>(c, e). map_option (\<lambda>v. (e, v)) (jget c canonical)) pm)) k = Some v
     \<Longrightarrow> \<exists>c. (c, k) \<in> set pm \<and> jget c canonical = Some v"
  by (drule map_of_SomeD) (auto simp: List.map_filter_def)

section \<open>Properties\<close>

text \<open>In a validated catalogue without a wildcard product, a submitted value names at most one
  product: the lookup by first match returns exactly the product whose code or alias it is, whatever
  the order of the catalogue, and fails when there is none.\<close>

theorem resolve_product_unique:
  assumes "validate_manifest m = Inr ()" "\<forall>p \<in> set (products m). pd_code p \<noteq> ''*''"
  shows "resolve_product m value = Some p \<longleftrightarrow> p \<in> set (products m) \<and> value \<in> set (product_values p)"
proof -
  have dist: "distinct (concat (map product_values (products m)))"
    by (rule catalog_values_distinct [OF validate_manifest_catalog [OF assms(1)]])
  have match: "product_matches q value \<longleftrightarrow> value \<in> set (product_values q)" if "q \<in> set (products m)" for q
    using that assms(2) product_matches_values by blast
  show ?thesis
  proof
    assume "resolve_product m value = Some p"
    then show "p \<in> set (products m) \<and> value \<in> set (product_values p)"
      using match find_SomeD1 find_SomeD2 unfolding resolve_product_def by metis
  next
    assume p: "p \<in> set (products m) \<and> value \<in> set (product_values p)"
    then obtain q where q: "resolve_product m value = Some q"
      using match find_NoneD [of _ "products m" p] unfolding resolve_product_def by (metis not_None_eq)
    then have "q \<in> set (products m)" "value \<in> set (product_values q)"
      using match find_SomeD1 find_SomeD2 unfolding resolve_product_def by metis+
    with p have "q = p" using concat_distinct_unique [OF dist] by blast
    with q show "resolve_product m value = Some p" by simp
  qed
qed

definition example_manifest :: DeploymentManifest where
  "example_manifest =
     (legacy_manifest_value ''t1'' ''Tenant'' ''v1''
        \<lparr>md_id = ''m'', md_version = ''1'', md_feature_bank_version = ''fb'', md_adapter = ''stub'',
         md_runtime = ''visionqc'', md_device = ''cpu'', md_package_uri = ''none'',
         md_package_sha256 = None, md_score_semantics = ''score'', md_limitations = []\<rparr>
        example_policy [])
     \<lparr>products := [\<lparr>pd_code = ''P1'', pd_display_name = ''One'', pd_revision = ''A'', pd_aliases = [''p-1'']\<rparr>,
                  \<lparr>pd_code = ''P2'', pd_display_name = ''Two'', pd_revision = ''A'', pd_aliases = []\<rparr>]\<rparr>"

lemma valid_example_manifest: "validate_manifest example_manifest = Inr ()"
  using valid_example_policy [unfolded valid_policy_def] by code_simp

theorem resolve_product_unique_witness:
  "resolve_product example_manifest ''p-1'' = Some (products example_manifest ! 0)"
  by (subst resolve_product_unique [OF valid_example_manifest])
    (simp_all add: example_manifest_def product_values_def)

text \<open>The payload sent to a connector holds, under each external key, the fixed field of that
  name if the contract has one, else the value of a canonical field that the contract maps to the
  key; nothing else of the canonical payload is sent, and no key occurs twice.\<close>

theorem connector_payload_contents:
  assumes "connector_definition m name = Some binding" "distinct (map fst (cd_fixed_fields binding))"
  shows "\<exists>payload. connector_payload m name canonical = Some payload \<and> distinct (map fst payload) \<and>
     (\<forall>k v. jget k payload = Some v \<longrightarrow>
        (case jget k (cd_fixed_fields binding) of Some f \<Rightarrow> v = f
         | None \<Rightarrow> \<exists>c. (c, k) \<in> set (cd_payload_mapping binding) \<and> jget c canonical = Some v)) \<and>
     (\<forall>k f. jget k (cd_fixed_fields binding) = Some f \<longrightarrow> jget k payload = Some f)"
proof -
  let ?payload = "dict_update (mapped_payload binding canonical) (cd_fixed_fields binding)"
  have fixed: "map_of (rev (cd_fixed_fields binding)) = map_of (cd_fixed_fields binding)"
    using assms(2) by (rule map_of_rev_distinct)
  have "distinct (map fst ?payload)"
    by (intro distinct_dict_update) (simp add: mapped_payload_def dict_of_def distinct_dict_update)
  moreover have "jget k ?payload = (case jget k (cd_fixed_fields binding) of
      None \<Rightarrow> map_of (mapped_payload binding canonical) k | Some f \<Rightarrow> Some f)" for k
    by (simp add: jget_def map_of_dict_update fixed)
  moreover have "\<exists>c. (c, k) \<in> set (cd_payload_mapping binding) \<and> jget c canonical = Some v"
    if "map_of (mapped_payload binding canonical) k = Some v" for k v
    using that map_of_rev_mapped
    by (fastforce simp: mapped_payload_def dict_of_def map_of_dict_update split: option.splits)
  ultimately show ?thesis
    using assms(1) by (auto simp: connector_payload_def split: option.splits)
qed

lemma lower_system_names [simp]: "lower ''MES'' = ''mes''" "lower ''QMS'' = ''qms''"
  by code_simp+

lemma mes_connector_example:
  "connector_definition example_manifest ''MES'' = Some (legacy_connector ''mes'' (JStr ''MES''))"
  by (simp add: connector_definition_def example_manifest_def legacy_manifest_value_def jget_def)

theorem connector_payload_contents_witness:
  "\<exists>payload. connector_payload example_manifest ''MES'' [(''batch_no'', JStr ''B1'')] = Some payload
     \<and> distinct (map fst payload)"
  using connector_payload_contents [OF mes_connector_example, of "[(''batch_no'', JStr ''B1'')]"]
  by (auto simp: legacy_connector_def)

end
