(* ===== verification/Connectors.thy ===== *)
theory Connectors
  imports Prelude
begin

text \<open>
  \<^verbatim>\<open>backend/app/connectors.py\<close> (the connectors of the external systems and the retrying
  executor) and \<^verbatim>\<open>backend/app/mock_external.py\<close> (the MES/QMS service they talk to).
  What the network answers to a POST is a parameter of the model; an exception that is not a
  ConnectorError, which the executor lets through, is \<open>Uncaught\<close>.
\<close>

section \<open>Results and errors\<close>

datatype ConnectorError = RetryableConnectorError string | TerminalConnectorError string
  | ManualReviewConnectorError string | Uncaught string

fun retryable :: "ConnectorError \<Rightarrow> bool" where
  "retryable (RetryableConnectorError m) = True"
| "retryable (TerminalConnectorError m) = False"
| "retryable (ManualReviewConnectorError m) = False"
| "retryable (Uncaught m) = False"

fun requires_manual_review :: "ConnectorError \<Rightarrow> bool" where
  "requires_manual_review (ManualReviewConnectorError m) = True"
| "requires_manual_review (RetryableConnectorError m) = False"
| "requires_manual_review (TerminalConnectorError m) = False"
| "requires_manual_review (Uncaught m) = False"

fun error_message :: "ConnectorError \<Rightarrow> string" where
  "error_message (RetryableConnectorError m) = m"
| "error_message (TerminalConnectorError m) = m"
| "error_message (ManualReviewConnectorError m) = m"
| "error_message (Uncaught m) = m"

record ConnectorResult =
  cr_external_reference :: string
  cr_status :: string
  cr_summary :: json

type_synonym 'c call = "(ConnectorError + ConnectorResult) \<times> 'c"

section \<open>The HTTP connector\<close>

text \<open>What a request may meet: a response with its status code and its body (\<open>None\<close> when it is
  not JSON), a timeout or network error, or another failure of the client library.\<close>

datatype http_reply = Response nat "json option" | TransportFailure | OtherFailure string

record HttpConnector =
  hc_name :: string
  hc_base_url :: string

definition rstrip_slash :: "string \<Rightarrow> string" where
  "rstrip_slash s = rev (dropWhile (\<lambda>c. c = CHR ''/'') (rev s))"

definition HttpConnector_init :: "string \<Rightarrow> string \<Rightarrow> HttpConnector" where
  "HttpConnector_init name base_url = \<lparr>hc_name = name, hc_base_url = rstrip_slash base_url\<rparr>"

definition is_success :: "nat \<Rightarrow> bool" where
  "is_success code \<longleftrightarrow> 200 \<le> code \<and> code \<le> 299"

text \<open>Reading the body of a successful response; the reference and the status go to string columns,
  so a body without them as strings does not produce a result.\<close>

definition result_of_body :: "json option \<Rightarrow> ConnectorError + ConnectorResult" where
  "result_of_body body = (case body of
     Some (JObj kvs) \<Rightarrow>
       (case (jget ''external_reference'' kvs, jget ''status'' kvs) of
          (Some (JStr r), Some (JStr s)) \<Rightarrow>
            Inr \<lparr>cr_external_reference = r, cr_status = s,
                 cr_summary = JObj [(''external_reference'', JStr r), (''status'', JStr s),
                   (''deduplicated'', JBool (case jget ''deduplicated'' kvs of
                       None \<Rightarrow> False | Some d \<Rightarrow> json_truthy d))]\<rparr>
        | _ \<Rightarrow> Inl (Uncaught ''KeyError''))
   | _ \<Rightarrow> Inl (Uncaught ''response body''))"

definition HttpConnector_result :: "HttpConnector \<Rightarrow> http_reply \<Rightarrow> ConnectorError + ConnectorResult" where
  "HttpConnector_result c reply = (case reply of
     TransportFailure \<Rightarrow> Inl (RetryableConnectorError (hc_name c @ '' request failed''))
   | OtherFailure m \<Rightarrow> Inl (Uncaught m)
   | Response code body \<Rightarrow>
       if 500 \<le> code \<or> code = 429
       then Inl (RetryableConnectorError (hc_name c @ '' temporary error: '' @ show_nat code))
       else if code = 409
       then Inl (ManualReviewConnectorError (hc_name c @ '' conflict requires reconciliation''))
       else if \<not> is_success code
       then Inl (TerminalConnectorError (hc_name c @ '' rejected request: '' @ show_nat code))
       else result_of_body body)"

text \<open>\<open>post\<close> is the network: the request (URL, JSON payload, Idempotency-Key header) in a remote
  state gives a reply and the next remote state.\<close>

type_synonym 'r post = "string \<Rightarrow> json \<Rightarrow> string \<Rightarrow> 'r \<Rightarrow> http_reply \<times> 'r"

definition HttpConnector_execute ::
  "'r post \<Rightarrow> HttpConnector \<Rightarrow> string \<Rightarrow> json \<Rightarrow> string \<Rightarrow> 'r \<Rightarrow> 'r call" where
  "HttpConnector_execute post c operation payload idempotency_key r =
     (let (reply, r') = post (hc_base_url c @ ''/actions/'' @ lower operation) payload idempotency_key r
      in (HttpConnector_result c reply, r'))"

definition HttpConnector_healthcheck :: "(string \<Rightarrow> http_reply) \<Rightarrow> HttpConnector \<Rightarrow> bool" where
  "HttpConnector_healthcheck get c = (case get (hc_base_url c @ ''/health'') of
     Response code body \<Rightarrow> is_success code | _ \<Rightarrow> False)"

definition HttpConnector_get_status ::
  "(string \<Rightarrow> http_reply) \<Rightarrow> HttpConnector \<Rightarrow> string \<Rightarrow> ConnectorError + ConnectorResult" where
  "HttpConnector_get_status get c external_reference =
     (case get (hc_base_url c @ ''/actions/'' @ external_reference) of
        Response code body \<Rightarrow>
          if \<not> is_success code
          then Inl (RetryableConnectorError (hc_name c @ '' status request failed''))
          else (case body of
             Some (JObj kvs) \<Rightarrow>
               (case jget ''status'' kvs of
                  Some (JStr s) \<Rightarrow> Inr \<lparr>cr_external_reference = external_reference, cr_status = s,
                    cr_summary = JObj [(''external_reference'', JStr external_reference), (''status'', JStr s)]\<rparr>
                | _ \<Rightarrow> Inl (Uncaught ''KeyError''))
           | _ \<Rightarrow> Inl (Uncaught ''response body''))
      | _ \<Rightarrow> Inl (RetryableConnectorError (hc_name c @ '' status request failed'')))"

section \<open>The in-memory connector\<close>

record InMemoryConnector =
  im_name :: string
  im_records :: "(string \<times> ConnectorResult) list"
  im_calls :: "string list"
  fail_after_create_once :: bool
  always_fail :: bool

definition InMemoryConnector_init :: "string \<Rightarrow> InMemoryConnector" where
  "InMemoryConnector_init name = \<lparr>im_name = name, im_records = [], im_calls = [],
     fail_after_create_once = False, always_fail = False\<rparr>"

definition InMemoryConnector_healthcheck :: "InMemoryConnector \<Rightarrow> bool" where
  "InMemoryConnector_healthcheck c = (\<not> always_fail c)"

definition new_record :: "InMemoryConnector \<Rightarrow> string \<Rightarrow> ConnectorResult" where
  "new_record c operation =
     \<lparr>cr_external_reference = im_name c @ ''-'' @ show_nat (length (im_records c) + 1),
      cr_status = (if operation = ''CREATE_TICKET'' then ''OPEN'' else ''COMPLETED''),
      cr_summary = JObj [(''status'', JStr ''accepted''), (''operation'', JStr operation)]\<rparr>"

definition InMemoryConnector_execute ::
  "string \<Rightarrow> json \<Rightarrow> string \<Rightarrow> InMemoryConnector \<Rightarrow> InMemoryConnector call" where
  "InMemoryConnector_execute operation payload idempotency_key c0 =
     (let c = c0\<lparr>im_calls := im_calls c0 @ [idempotency_key]\<rparr> in
      case map_of (im_records c) idempotency_key of
        Some result \<Rightarrow> (Inr result, c)
      | None \<Rightarrow>
          if always_fail c then (Inl (RetryableConnectorError (im_name c @ '' injected failure'')), c)
          else
            let result = new_record c operation;
                c' = c\<lparr>im_records := im_records c @ [(idempotency_key, result)]\<rparr>
            in if fail_after_create_once c'
               then (Inl (RetryableConnectorError (im_name c @ '' timed out after accepting request'')),
                     c'\<lparr>fail_after_create_once := False\<rparr>)
               else (Inr result, c'))"

definition InMemoryConnector_get_status ::
  "string \<Rightarrow> InMemoryConnector \<Rightarrow> ConnectorError + ConnectorResult" where
  "InMemoryConnector_get_status external_reference c =
     (case find (\<lambda>r. cr_external_reference r = external_reference) (map snd (im_records c)) of
        Some result \<Rightarrow> Inr result
      | None \<Rightarrow> Inl (TerminalConnectorError ''external record not found''))"

section \<open>The retrying executor\<close>

record ExecutionOutcome =
  eo_result :: "ConnectorResult option"
  eo_attempts :: nat
  eo_error :: "ConnectorError option"

record RetryingConnectorExecutor =
  max_attempts :: nat
  backoff_seconds :: rat

definition RetryingConnectorExecutor_init :: "int \<Rightarrow> rat \<Rightarrow> string + RetryingConnectorExecutor" where
  "RetryingConnectorExecutor_init n backoff =
     (if n < 1 then Inl ''max_attempts must be positive''
      else Inr \<lparr>max_attempts = nat n, backoff_seconds = backoff\<rparr>)"

text \<open>The loop from attempt number \<open>attempt\<close> with \<open>left\<close> attempts to go; the sleeps between the
  attempts are listed.\<close>

fun attempts_from ::
  "RetryingConnectorExecutor \<Rightarrow> ('c \<Rightarrow> 'c call) \<Rightarrow> nat \<Rightarrow> nat \<Rightarrow> ConnectorError option \<Rightarrow> 'c
     \<Rightarrow> (string + ExecutionOutcome) \<times> rat list \<times> 'c" where
  "attempts_from ex call attempt 0 last_error c =
     (Inr \<lparr>eo_result = None, eo_attempts = max_attempts ex, eo_error = last_error\<rparr>, [], c)"
| "attempts_from ex call attempt (Suc left) last_error c =
     (case call c of
        (Inr result, c') \<Rightarrow>
          (Inr \<lparr>eo_result = Some result, eo_attempts = attempt, eo_error = None\<rparr>, [], c')
      | (Inl (Uncaught m), c') \<Rightarrow> (Inl m, [], c')
      | (Inl exc, c') \<Rightarrow>
          if \<not> retryable exc \<or> attempt = max_attempts ex
          then (Inr \<lparr>eo_result = None, eo_attempts = attempt, eo_error = Some exc\<rparr>, [], c')
          else let (outcome, sleeps, c'') = attempts_from ex call (attempt + 1) left (Some exc) c'
               in (outcome,
                   (if backoff_seconds ex = 0 then sleeps
                    else backoff_seconds ex * 2 ^ (attempt - 1) # sleeps), c''))"

definition executor_execute ::
  "RetryingConnectorExecutor \<Rightarrow> ('c \<Rightarrow> 'c call) \<Rightarrow> 'c \<Rightarrow> (string + ExecutionOutcome) \<times> rat list \<times> 'c" where
  "executor_execute ex call c = attempts_from ex call 1 (max_attempts ex) None c"

section \<open>The mock MES/QMS service\<close>

record ActionResponse =
  ar_external_reference :: string
  ar_status :: string
  ar_deduplicated :: bool

record MockStore =
  ms_prefix :: string
  by_key :: "(string \<times> ActionResponse) list"
  by_reference :: "(string \<times> ActionResponse) list"
  ms_calls :: "(string \<times> string) list"

definition MockStore_init :: "string \<Rightarrow> MockStore" where
  "MockStore_init pfx = \<lparr>ms_prefix = pfx, by_key = [], by_reference = [], ms_calls = []\<rparr>"

text \<open>\<open>MockStore.execute\<close>: \<open>Inl ()\<close> is the TimeoutError after the record was stored.\<close>

definition MockStore_execute ::
  "string \<Rightarrow> string \<Rightarrow> (string \<times> json) list \<Rightarrow> MockStore \<Rightarrow> (unit + ActionResponse) \<times> MockStore" where
  "MockStore_execute key operation payload s0 =
     (let s = s0\<lparr>ms_calls := ms_calls s0 @ [(key, operation)]\<rparr> in
      case map_of (by_key s) key of
        Some existing \<Rightarrow> (Inr (existing\<lparr>ar_deduplicated := True\<rparr>), s)
      | None \<Rightarrow>
          let response = \<lparr>ar_external_reference = ms_prefix s @ ''-'' @ show_nat (length (by_key s) + 1),
                ar_status = (if operation = ''create_ticket'' then ''OPEN'' else ''COMPLETED''),
                ar_deduplicated = False\<rparr>;
              s' = s\<lparr>by_key := AList.update key response (by_key s),
                     by_reference := AList.update (ar_external_reference response) response (by_reference s)\<rparr>
          in if jget ''_simulate'' payload = Some (JStr ''timeout_after_create_once'')
             then (Inl (), s') else (Inr response, s'))"

type_synonym stores = "(string \<times> MockStore) list"

definition initial_stores :: stores where
  "initial_stores = [(''mes'', MockStore_init ''MES''), (''qms'', MockStore_init ''QMS'')]"

definition response_json :: "ActionResponse \<Rightarrow> json" where
  "response_json r = JObj [(''external_reference'', JStr (ar_external_reference r)),
     (''status'', JStr (ar_status r)), (''deduplicated'', JBool (ar_deduplicated r))]"

text \<open>The endpoints, with the status code of each answer.\<close>

definition mock_health :: "string \<Rightarrow> stores \<Rightarrow> http_reply" where
  "mock_health system st = (case map_of st system of
     None \<Rightarrow> Response 404 None | Some _ \<Rightarrow> Response 200 (Some (JObj [(''status'', JStr ''ok'')])))"

definition mock_execute ::
  "string \<Rightarrow> string \<Rightarrow> json \<Rightarrow> string \<Rightarrow> stores \<Rightarrow> http_reply \<times> stores" where
  "mock_execute system operation body idempotency_key st =
     (if \<not> (1 \<le> length idempotency_key \<and> length idempotency_key \<le> 200) then (Response 422 None, st)
      else case map_of st system of
        None \<Rightarrow> (Response 404 None, st)
      | Some s \<Rightarrow>
          (case body of
             JObj payload \<Rightarrow>
               if jget ''_simulate'' payload = Some (JStr ''always_fail'')
               then (Response 503 (Some (JObj [(''detail'', JStr ''injected failure'')])), st)
               else (case MockStore_execute idempotency_key operation payload s of
                  (Inr response, s') \<Rightarrow> (Response 200 (Some (response_json response)), AList.update system s' st)
                | (Inl _, s') \<Rightarrow>
                    (Response 504 (Some (JObj [(''detail'', JStr ''injected timeout after commit'')])),
                     AList.update system s' st))
           | _ \<Rightarrow> (Response 500 None, st)))"

definition mock_get_status :: "string \<Rightarrow> string \<Rightarrow> stores \<Rightarrow> http_reply" where
  "mock_get_status system external_reference st = (case map_of st system of
     None \<Rightarrow> Response 404 None
   | Some s \<Rightarrow> (case map_of (by_reference s) external_reference of
       None \<Rightarrow> Response 404 None | Some r \<Rightarrow> Response 200 (Some (response_json r))))"

definition mock_calls :: "string \<Rightarrow> stores \<Rightarrow> http_reply" where
  "mock_calls system st = (case map_of st system of
     None \<Rightarrow> Response 404 None
   | Some s \<Rightarrow> Response 200 (Some (JList (map (\<lambda>(k, operation).
       JObj [(''idempotency_key'', JStr k), (''operation'', JStr operation)]) (ms_calls s)))))"

text \<open>The route of a POST: the last three segments of its URL.\<close>

definition mock_post :: "stores post" where
  "mock_post url payload idempotency_key st =
     (case rev (split_on CHR ''/'' url) of
        operation # actions # system # _ \<Rightarrow>
          if actions = ''actions'' then mock_execute system operation payload idempotency_key st
          else (Response 404 None, st)
      | _ \<Rightarrow> (Response 404 None, st))"

section \<open>The executor\<close>

lemma attempts_from_attempts:
  assumes "attempts_from ex call attempt left last_error c = (Inr outcome, sleeps, c')"
    "attempt + left = max_attempts ex + 1"
  shows "eo_attempts outcome \<le> max_attempts ex \<and> (0 < left \<longrightarrow> attempt \<le> eo_attempts outcome)"
  using assms
proof (induction left arbitrary: attempt last_error c sleeps)
  case 0
  then show ?case by auto
next
  case (Suc left)
  obtain res c1 where call: "call c = (res, c1)" by fastforce
  show ?case
  proof (cases res)
    case (Inr r)
    with Suc(2,3) call show ?thesis by auto
  next
    case (Inl exc)
    have "attempt \<le> max_attempts ex" using Suc(3) by simp
    moreover have "eo_attempts outcome \<le> max_attempts ex \<and> attempt \<le> eo_attempts outcome"
      if "attempts_from ex call (attempt + 1) left (Some exc) c1 = (Inr outcome, sl, c')" for sl
      using Suc(1) [OF that] Suc(3) that by (cases left) auto
    ultimately show ?thesis
      using Suc(2) call Inl by (cases exc) (auto split: if_splits prod.splits)
  qed
qed

text \<open>A property of the remote state that every single call keeps is kept by the executor.\<close>

lemma attempts_from_invariant:
  assumes "\<And>x. I x \<Longrightarrow> I (snd (call x))" "I c"
  shows "I (snd (snd (attempts_from ex call attempt left last_error c)))"
  using assms(2)
proof (induction left arbitrary: attempt last_error c)
  case 0
  then show ?case by simp
next
  case (Suc left)
  obtain res c1 where call: "call c = (res, c1)" by fastforce
  with assms(1) [OF Suc(2)] have "I c1" by simp
  with Suc(1) have rest: "I (snd (snd (attempts_from ex call a left e c1)))" for a e by blast
  show ?case
    using call \<open>I c1\<close> rest by (auto split: sum.splits ConnectorError.splits prod.splits) (metis snd_conv)+
qed

text \<open>A result is the answer of one of the calls.\<close>

lemma attempts_from_result:
  assumes "\<And>x. I x \<Longrightarrow> I (snd (call x))" "I c"
    and "attempts_from ex call attempt left last_error c = (Inr outcome, sleeps, c')"
    and "eo_result outcome = Some r"
  shows "\<exists>x. I x \<and> call x = (Inr r, c')"
  using assms(2,3,4)
proof (induction left arbitrary: attempt last_error c sleeps)
  case 0
  then show ?case by auto
next
  case (Suc left)
  obtain res c1 where call: "call c = (res, c1)" by fastforce
  with assms(1) [OF Suc(2)] have "I c1" by simp
  show ?case
  proof (cases res)
    case (Inr r')
    with Suc call show ?thesis by auto
  next
    case (Inl exc)
    then show ?thesis
      using Suc(1) [OF \<open>I c1\<close> _ Suc(4)] Suc(3,4) call
      by (cases exc) (auto split: if_splits prod.splits)
  qed
qed

section \<open>The contract of an idempotent connector\<close>

text \<open>\<open>recorded\<close> is what the external system holds under a key: the reference and the status it
  gave out. A call touches only its own key, never changes what is recorded, and answers with what
  is recorded.\<close>

locale idempotent_connector =
  fixes ok_operation :: "string \<Rightarrow> bool"
    and call :: "string \<Rightarrow> json \<Rightarrow> string \<Rightarrow> 'c \<Rightarrow> 'c call"
    and recorded :: "'c \<Rightarrow> string \<Rightarrow> (string \<times> string) option"
  assumes call_frame: "k' \<noteq> k \<Longrightarrow> recorded (snd (call operation p k c)) k' = recorded c k'"
    and call_stable: "recorded c k = Some x \<Longrightarrow> recorded (snd (call operation p k c)) k = Some x"
    and call_answer: "ok_operation operation \<Longrightarrow> fst (call operation p k c) = Inr r \<Longrightarrow>
      recorded (snd (call operation p k c)) k = Some (cr_external_reference r, cr_status r)"
begin

definition run :: "RetryingConnectorExecutor \<Rightarrow> string \<Rightarrow> json \<Rightarrow> string \<Rightarrow> 'c
    \<Rightarrow> (string + ExecutionOutcome) \<times> rat list \<times> 'c" where
  "run ex operation p k c = executor_execute ex (call operation p k) c"

lemma run_frame: "k' \<noteq> k \<Longrightarrow> recorded (snd (snd (run ex operation p k c))) k' = recorded c k'"
  unfolding run_def executor_execute_def
  by (rule attempts_from_invariant [where I = "\<lambda>x. recorded x k' = recorded c k'"])
    (simp_all add: call_frame)

lemma run_stable:
  "recorded c k = Some x \<Longrightarrow> recorded (snd (snd (run ex operation p k c))) k = Some x"
  unfolding run_def executor_execute_def
  by (rule attempts_from_invariant [where I = "\<lambda>x'. recorded x' k = Some x"]) (simp_all add: call_stable)

text \<open>Whatever the retries, at most the record of the key is added.\<close>

lemma run_dom: "dom (recorded (snd (snd (run ex operation p k c)))) \<subseteq> insert k (dom (recorded c))"
proof
  fix k'
  assume "k' \<in> dom (recorded (snd (snd (run ex operation p k c))))"
  then show "k' \<in> insert k (dom (recorded c))"
    using run_frame [of k' k ex operation p c] by (cases "k' = k") (simp_all add: dom_def)
qed

lemma run_answer:
  assumes "ok_operation operation" "run ex operation p k c = (Inr outcome, sleeps, c')"
    "eo_result outcome = Some r"
  shows "recorded c' k = Some (cr_external_reference r, cr_status r)"
proof -
  obtain x where "call operation p k x = (Inr r, c')"
    using attempts_from_result [where I = "\<lambda>_. True"] assms(2,3)
    unfolding run_def executor_execute_def by metis
  then show ?thesis
    using call_answer [OF assms(1), of p k x r] by simp
qed

text \<open>A later successful execution with the same key answers with the reference and status of the
  first, whatever payload it carries.\<close>

lemma run_again:
  assumes ok: "ok_operation operation" "ok_operation operation'"
    and first: "run ex operation p k c = (Inr outcome, sleeps, c')" "eo_result outcome = Some r"
    and later: "recorded c'' k = recorded c' k"
    and second: "run ex' operation' p' k c'' = (Inr outcome', sleeps', c3)" "eo_result outcome' = Some r'"
  shows "cr_external_reference r' = cr_external_reference r \<and> cr_status r' = cr_status r"
proof -
  have "recorded c'' k = Some (cr_external_reference r, cr_status r)"
    using run_answer [OF ok(1) first] later by simp
  then have "recorded c3 k = Some (cr_external_reference r, cr_status r)"
    using run_stable [of c'' k _ ex' operation' p'] second(1) by simp
  with run_answer [OF ok(2) second] show ?thesis by simp
qed

end

section \<open>Both external systems meet the contract\<close>

definition im_recorded :: "InMemoryConnector \<Rightarrow> string \<Rightarrow> (string \<times> string) option" where
  "im_recorded c k = map_option (\<lambda>r. (cr_external_reference r, cr_status r)) (map_of (im_records c) k)"

interpretation in_memory: idempotent_connector "\<lambda>operation. True" InMemoryConnector_execute im_recorded
proof
  fix k' k :: string and operation p c
  assume "k' \<noteq> k"
  then show "im_recorded (snd (InMemoryConnector_execute operation p k c)) k' = im_recorded c k'"
    by (simp add: InMemoryConnector_execute_def im_recorded_def Let_def map_add_def split: option.split)
next
  fix c k x operation p
  assume "im_recorded c k = Some x"
  then show "im_recorded (snd (InMemoryConnector_execute operation p k c)) k = Some x"
    by (auto simp: InMemoryConnector_execute_def im_recorded_def Let_def)
next
  fix operation p k c r
  assume "fst (InMemoryConnector_execute operation p k c) = Inr r"
  then show "im_recorded (snd (InMemoryConnector_execute operation p k c)) k
      = Some (cr_external_reference r, cr_status r)"
    by (auto simp: InMemoryConnector_execute_def im_recorded_def Let_def map_add_def
        split: option.splits if_splits)
qed

lemma split_on_append_sep: "split_on c (x @ c # y) = split_on c x @ split_on c y"
  by (induction x) (auto split: list.splits)

lemma split_on_single: "c \<notin> set s \<Longrightarrow> split_on c s = [s]"
  by (induction s) auto

definition ms_recorded :: "string \<Rightarrow> stores \<Rightarrow> string \<Rightarrow> (string \<times> string) option" where
  "ms_recorded system st k = (case map_of st system of None \<Rightarrow> None
     | Some s \<Rightarrow> map_option (\<lambda>r. (ar_external_reference r, ar_status r)) (map_of (by_key s) k))"

definition one_segment :: "string \<Rightarrow> bool" where
  "one_segment operation \<longleftrightarrow> CHR ''/'' \<notin> set (lower operation)"

lemma MockStore_execute_record:
  "map_of (by_key (snd (MockStore_execute k operation p s))) k' =
     (if k' = k \<and> map_of (by_key s) k = None
      then Some \<lparr>ar_external_reference = ms_prefix s @ ''-'' @ show_nat (length (by_key s) + 1),
             ar_status = (if operation = ''create_ticket'' then ''OPEN'' else ''COMPLETED''),
             ar_deduplicated = False\<rparr>
      else map_of (by_key s) k')"
  by (simp add: MockStore_execute_def Let_def update_conv' split: option.split)

lemma MockStore_execute_answer:
  assumes "MockStore_execute k operation p s = (Inr r, s')"
  shows "\<exists>r'. map_of (by_key s') k = Some r' \<and> ar_external_reference r' = ar_external_reference r \<and>
     ar_status r' = ar_status r"
  using assms by (auto simp: MockStore_execute_def Let_def update_conv' split: option.splits if_splits)

lemma mock_execute_cases:
  obtains (same) reply where "mock_execute sys operation p k st = (reply, st)"
      "\<And>code body. reply = Response code body \<Longrightarrow> code \<in> {404, 422, 500, 503}" "reply \<noteq> TransportFailure"
      "\<And>m. reply \<noteq> OtherFailure m"
    | (stored) s reply payload where "map_of st sys = Some s"
      "mock_execute sys operation p k st
         = (reply, AList.update sys (snd (MockStore_execute k operation payload s)) st)"
      "case fst (MockStore_execute k operation payload s) of
          Inr r \<Rightarrow> reply = Response 200 (Some (response_json r))
        | Inl _ \<Rightarrow> (\<exists>body. reply = Response 504 body)"
proof -
  show ?thesis
  proof (cases "1 \<le> length k \<and> length k \<le> 200 \<and> map_of st sys \<noteq> None \<and>
      (\<exists>payload. p = JObj payload \<and> jget ''_simulate'' payload \<noteq> Some (JStr ''always_fail''))")
    case True
    then obtain s payload where "map_of st sys = Some s" "p = JObj payload"
      "jget ''_simulate'' payload \<noteq> Some (JStr ''always_fail'')" by blast
    moreover obtain answer s' where exec: "MockStore_execute k operation payload s = (answer, s')" by fastforce
    ultimately show ?thesis
      using True by (cases answer; intro stored [of s _ payload]) (auto simp: mock_execute_def)
  next
    case False
    then have "\<exists>code body. mock_execute sys operation p k st = (Response code body, st) \<and>
        code \<in> {404, 422, 500, 503}"
      by (auto simp: mock_execute_def split: option.split json.split)
    then show ?thesis by (auto intro: same)
  qed
qed

lemma result_of_response_json:
  "\<exists>summary. result_of_body (Some (response_json r)) =
     Inr \<lparr>cr_external_reference = ar_external_reference r, cr_status = ar_status r, cr_summary = summary\<rparr>"
  by (simp add: result_of_body_def response_json_def jget_def)

text \<open>The HTTP connector of a system, talking to the mock service at its base URL.\<close>

definition mock_call ::
  "string \<Rightarrow> string \<Rightarrow> string \<Rightarrow> json \<Rightarrow> string \<Rightarrow> stores \<Rightarrow> stores call" where
  "mock_call base sys operation p k st =
     HttpConnector_execute mock_post \<lparr>hc_name = sys, hc_base_url = base @ ''/'' @ sys\<rparr> operation p k st"

lemma mock_post_route:
  assumes "CHR ''/'' \<notin> set sys" "one_segment operation"
  shows "mock_post ((base @ ''/'' @ sys) @ ''/actions/'' @ lower operation) p k st
     = mock_execute sys (lower operation) p k st"
proof -
  have "split_on CHR ''/'' ((base @ ''/'' @ sys) @ ''/actions/'' @ lower operation) =
      split_on CHR ''/'' base @ [sys, ''actions'', lower operation]"
    using assms split_on_append_sep [of "CHR ''/''" base "sys @ ''/actions/'' @ lower operation"]
      split_on_append_sep [of "CHR ''/''" sys "''actions/'' @ lower operation"]
      split_on_append_sep [of "CHR ''/''" "''actions''" "lower operation"]
    by (simp add: split_on_single one_segment_def)
  then show ?thesis by (simp add: mock_post_def)
qed

lemma mock_post_cases:
  "mock_post url p k st = (Response 404 None, st) \<or>
   (\<exists>sys operation. mock_post url p k st = mock_execute sys operation p k st)"
  by (auto simp: mock_post_def split: list.split)

lemma ms_recorded_update:
  assumes "map_of st sys = Some s"
  shows "ms_recorded sys' (AList.update sys (snd (MockStore_execute k operation payload s)) st) k' =
     (if sys' = sys \<and> k' = k \<and> ms_recorded sys st k = None
      then Some (ms_prefix s @ ''-'' @ show_nat (length (by_key s) + 1),
                 if operation = ''create_ticket'' then ''OPEN'' else ''COMPLETED'')
      else ms_recorded sys' st k')"
  using assms by (simp add: ms_recorded_def update_conv' MockStore_execute_record)

lemma mock_execute_keeps:
  "k' \<noteq> k \<Longrightarrow> ms_recorded sys' (snd (mock_execute sys operation p k st)) k' = ms_recorded sys' st k'"
  "ms_recorded sys' st k = Some x \<Longrightarrow> ms_recorded sys' (snd (mock_execute sys operation p k st)) k = Some x"
  by (cases rule: mock_execute_cases [of sys operation p k st]; auto simp: ms_recorded_update)+

lemma mock_execute_answer:
  assumes "HttpConnector_result c (fst (mock_execute sys operation p k st)) = Inr r"
  shows "ms_recorded sys (snd (mock_execute sys operation p k st)) k
    = Some (cr_external_reference r, cr_status r)"
proof (cases rule: mock_execute_cases [of sys operation p k st])
  case (same reply)
  then show ?thesis
    using assms by (cases reply) (auto simp: HttpConnector_result_def is_success_def split: if_splits)
next
  case (stored s reply payload)
  obtain answer s' where exec: "MockStore_execute k operation payload s = (answer, s')" by fastforce
  show ?thesis
  proof (cases answer)
    case (Inl u)
    then show ?thesis
      using stored assms exec by (auto simp: HttpConnector_result_def split: if_splits)
  next
    case (Inr r')
    with stored exec have reply: "reply = Response 200 (Some (response_json r'))" by simp
    obtain summary where "result_of_body (Some (response_json r')) =
        Inr \<lparr>cr_external_reference = ar_external_reference r', cr_status = ar_status r', cr_summary = summary\<rparr>"
      using result_of_response_json by blast
    with reply assms stored have "cr_external_reference r = ar_external_reference r' \<and> cr_status r = ar_status r'"
      by (auto simp: HttpConnector_result_def is_success_def)
    moreover obtain r0 where "map_of (by_key s') k = Some r0"
      "ar_external_reference r0 = ar_external_reference r'" "ar_status r0 = ar_status r'"
      using MockStore_execute_answer [of k operation payload s r' s'] exec Inr by blast
    ultimately show ?thesis
      using stored exec by (simp add: ms_recorded_def update_conv')
  qed
qed

lemma mock_call_laws:
  shows mock_call_frame: "k' \<noteq> k \<Longrightarrow>
      ms_recorded sys (snd (mock_call base sys operation p k st)) k' = ms_recorded sys st k'"
    and mock_call_stable: "ms_recorded sys st k = Some x \<Longrightarrow>
      ms_recorded sys (snd (mock_call base sys operation p k st)) k = Some x"
    and mock_call_answer: "CHR ''/'' \<notin> set sys \<Longrightarrow> one_segment operation \<Longrightarrow>
      fst (mock_call base sys operation p k st) = Inr r \<Longrightarrow>
      ms_recorded sys (snd (mock_call base sys operation p k st)) k
        = Some (cr_external_reference r, cr_status r)"
proof -
  let ?url = "(base @ ''/'' @ sys) @ ''/actions/'' @ lower operation"
  have snd: "snd (mock_call base sys operation p k st) = snd (mock_post ?url p k st)"
    by (simp add: mock_call_def HttpConnector_execute_def case_prod_beta)
  show "ms_recorded sys (snd (mock_call base sys operation p k st)) k' = ms_recorded sys st k'"
    if "k' \<noteq> k"
    using mock_post_cases [of ?url p k st] mock_execute_keeps(1) [OF that] snd by auto
  show "ms_recorded sys (snd (mock_call base sys operation p k st)) k = Some x"
    if "ms_recorded sys st k = Some x"
    using mock_post_cases [of ?url p k st] mock_execute_keeps(2) [OF that] snd that by auto
  show "ms_recorded sys (snd (mock_call base sys operation p k st)) k
      = Some (cr_external_reference r, cr_status r)"
    if "CHR ''/'' \<notin> set sys" "one_segment operation" "fst (mock_call base sys operation p k st) = Inr r"
    using that mock_execute_answer [of _ sys "lower operation" p k st r] mock_post_route [of sys operation base p k st]
    by (simp add: mock_call_def HttpConnector_execute_def case_prod_beta)
qed

interpretation mes_http: idempotent_connector one_segment "mock_call base ''mes''" "ms_recorded ''mes''"
  for base
  by unfold_locales (simp_all add: mock_call_frame mock_call_stable mock_call_answer)

interpretation qms_http: idempotent_connector one_segment "mock_call base ''qms''" "ms_recorded ''qms''"
  for base
  by unfold_locales (simp_all add: mock_call_frame mock_call_stable mock_call_answer)

section \<open>Properties\<close>

lemma attempts_from_exhausted:
  assumes "attempts_from ex call attempt left last_error c = (Inr outcome, sleeps, c')"
    "attempt + left = max_attempts ex + 1" "0 < left"
  shows "(eo_result outcome = None \<longleftrightarrow> eo_error outcome \<noteq> None) \<and>
     (\<forall>e. eo_error outcome = Some e \<longrightarrow> retryable e \<longrightarrow> eo_attempts outcome = max_attempts ex)"
  using assms
proof (induction left arbitrary: attempt last_error c sleeps)
  case 0
  then show ?case by simp
next
  case (Suc left)
  obtain res c1 where call: "call c = (res, c1)" by fastforce
  have rest: "(eo_result outcome = None \<longleftrightarrow> eo_error outcome \<noteq> None) \<and>
      (\<forall>e. eo_error outcome = Some e \<longrightarrow> retryable e \<longrightarrow> eo_attempts outcome = max_attempts ex)"
    if "attempts_from ex call (attempt + 1) left (Some exc) c1 = (Inr outcome, sl, c')"
      "attempt \<noteq> max_attempts ex" for sl exc
    using Suc(1) [OF that(1)] Suc(3) that(2) by (cases left) auto
  show ?case
  proof (cases res)
    case (Inr r)
    with Suc(2) call show ?thesis by auto
  next
    case (Inl exc)
    then show ?thesis
      using Suc(2) call rest by (cases exc) (auto split: if_splits prod.splits)
  qed
qed

text \<open>C31. An execution of the retrying executor that returns made between one and \<open>max_attempts\<close> attempts, ends with
  exactly one of a result and an error, and gave up on a retryable error only when the attempts were used up. An
  exception of a connector that is no \<open>ConnectorError\<close> passes through the executor and is not covered; that
  \<open>max_attempts\<close> is positive is what the constructor demands.\<close>

theorem executor_attempts:
  assumes "1 \<le> max_attempts ex" "executor_execute ex call c = (Inr outcome, sleeps, c')"
  shows "1 \<le> eo_attempts outcome \<and> eo_attempts outcome \<le> max_attempts ex \<and>
     (eo_result outcome = None \<longleftrightarrow> eo_error outcome \<noteq> None) \<and>
     (\<forall>e. eo_error outcome = Some e \<longrightarrow> retryable e \<longrightarrow> eo_attempts outcome = max_attempts ex)"
  using attempts_from_attempts [of ex call 1 "max_attempts ex"] attempts_from_exhausted [of ex call 1 "max_attempts ex"]
    assms unfolding executor_execute_def by fastforce

definition example_executor :: RetryingConnectorExecutor where
  "example_executor = \<lparr>max_attempts = 3, backoff_seconds = 1 / 20\<rparr>"

definition timeout_payload :: json where
  "timeout_payload = JObj [(''_simulate'', JStr ''timeout_after_create_once'')]"

definition hold_result :: ConnectorResult where
  "hold_result = \<lparr>cr_external_reference = ''MES-1'', cr_status = ''COMPLETED'',
     cr_summary = JObj [(''external_reference'', JStr ''MES-1''), (''status'', JStr ''COMPLETED''),
       (''deduplicated'', JBool True)]\<rparr>"

definition stores_after_hold :: stores where
  "stores_after_hold = snd (snd (executor_execute example_executor
     (mock_call ''http://mock'' ''mes'' ''HOLD_BATCH'' timeout_payload ''k1'') initial_stores))"

lemma example_run:
  "executor_execute example_executor (mock_call ''http://mock'' ''mes'' ''HOLD_BATCH'' timeout_payload ''k1'')
     initial_stores =
     (Inr \<lparr>eo_result = Some hold_result, eo_attempts = 2, eo_error = None\<rparr>, [1 / 20], stores_after_hold)"
  by code_simp

lemma example_rerun:
  "executor_execute example_executor (mock_call ''http://mock'' ''mes'' ''HOLD_BATCH'' (JObj []) ''k1'')
     stores_after_hold =
     (Inr \<lparr>eo_result = Some hold_result, eo_attempts = 1, eo_error = None\<rparr>, [],
      snd (mock_call ''http://mock'' ''mes'' ''HOLD_BATCH'' (JObj []) ''k1'' stores_after_hold))"
  by code_simp

theorem executor_attempts_witness:
  "1 \<le> eo_attempts \<lparr>eo_result = Some hold_result, eo_attempts = 2, eo_error = None\<rparr>"
  by (rule executor_attempts [OF _ example_run, THEN conjunct1]) (simp add: example_executor_def)

text \<open>C30. Exactly one external record per idempotency key, end to end through the HTTP connector and
  the MES service: whatever times out and is retried, an execution adds no record but that of its own
  key and changes no other; and a later successful execution with the same key, with any payload,
  returns the reference and status of the first, as long as nobody else used the key.\<close>

theorem mes_retry_single_record:
  assumes "one_segment operation" "one_segment operation'"
    and "executor_execute ex (mock_call base ''mes'' operation payload key) st = (Inr outcome, sleeps, st')"
    and "eo_result outcome = Some r"
    and "ms_recorded ''mes'' st2 key = ms_recorded ''mes'' st' key"
    and "executor_execute ex' (mock_call base ''mes'' operation' payload' key) st2 = (Inr outcome', sleeps', st3)"
    and "eo_result outcome' = Some r'"
  shows "dom (ms_recorded ''mes'' st') = insert key (dom (ms_recorded ''mes'' st)) \<and>
     (\<forall>k. k \<noteq> key \<longrightarrow> ms_recorded ''mes'' st' k = ms_recorded ''mes'' st k) \<and>
     cr_external_reference r' = cr_external_reference r \<and> cr_status r' = cr_status r"
proof -
  note first = assms(3) [folded mes_http.run_def]
  have frame: "ms_recorded ''mes'' st' k = ms_recorded ''mes'' st k" if "k \<noteq> key" for k
    using mes_http.run_frame [OF that, of base ex operation payload st] first by simp
  have own: "ms_recorded ''mes'' st' key = Some (cr_external_reference r, cr_status r)"
    by (rule mes_http.run_answer [OF assms(1) first assms(4)])
  have "dom (ms_recorded ''mes'' st') = insert key (dom (ms_recorded ''mes'' st))"
  proof (rule set_eqI)
    fix k
    show "k \<in> dom (ms_recorded ''mes'' st') \<longleftrightarrow> k \<in> insert key (dom (ms_recorded ''mes'' st))"
      using frame [of k] own by (cases "k = key") (simp_all add: domIff)
  qed
  with frame show ?thesis
    using mes_http.run_again [OF assms(1,2) first assms(4,5) assms(6) [folded mes_http.run_def] assms(7)] by simp
qed

theorem mes_retry_single_record_witness:
  "dom (ms_recorded ''mes'' stores_after_hold) = {''k1''}"
proof -
  have "one_segment ''HOLD_BATCH''" by code_simp
  then have "dom (ms_recorded ''mes'' stores_after_hold) = insert ''k1'' (dom (ms_recorded ''mes'' initial_stores))"
    using mes_retry_single_record [OF _ _ example_run _ refl example_rerun] by simp
  also have "dom (ms_recorded ''mes'' initial_stores) = {}"
    by (simp add: ms_recorded_def initial_stores_def MockStore_init_def dom_def)
  finally show ?thesis by simp
qed

end
