(* ===== verification/Models.thy ===== *)
theory Models
  imports AuditLog Deployment Connectors
begin

text \<open>
  \<^verbatim>\<open>backend/app/models.py\<close>: the rows of the tables and the store they make up, the
  settings of \<^verbatim>\<open>backend/app/config.py\<close> that the services read, and what the services use
  of their environment. A column \<open>updated_at\<close> is left out, \<open>created_at\<close> is kept where a query
  orders by it. A time is a number of microseconds.
\<close>

type_synonym time = int

section \<open>Rows\<close>

record Tenant =
  ten_id :: string
  ten_name :: string
  ten_status :: string

record EdgeGateway =
  gwy_id :: string
  gwy_tenant :: string
  gwy_gateway_id :: string
  gwy_version :: string
  gwy_station_code :: string
  gwy_reported_status :: string
  gwy_queue_depth :: int
  gwy_last_error :: "string option"
  gwy_last_heartbeat_at :: time
  gwy_last_upload_succeeded_at :: "time option"
  gwy_last_upload_failed_at :: "time option"
  gwy_upload_success_count :: int
  gwy_upload_failure_count :: int
  gwy_pack_key :: "string option"
  gwy_pack_version :: "string option"
  gwy_metrics :: json

text \<open>A pack holds its manifest, or only the snapshots of the old shape.\<close>

record DeploymentPack =
  dep_id :: string
  dep_tenant :: string
  dep_version :: string
  dep_status :: string
  dep_model_config_snapshot :: "(string \<times> json) list"
  dep_policy_config :: PolicyConfig
  dep_connector_config :: "(string \<times> json) list"
  dep_manifest :: "DeploymentManifest option"
  dep_approved_by :: "string option"
  dep_activated_at :: "time option"
  dep_created_at :: time

record ModelQualification =
  mq_id :: string
  mq_tenant :: string
  mq_product_code :: string
  mq_model_id :: string
  mq_model_version :: string
  mq_feature_bank_version :: string
  mq_package_sha256 :: string
  mq_evidence_path :: string
  mq_evidence_sha256 :: string
  mq_pack_key :: string
  mq_status :: string
  mq_qualification_status :: string
  mq_metrics :: json
  mq_gates :: json
  mq_dataset_id :: "string option"
  mq_dataset_source_type :: "string option"
  mq_dataset_fingerprint :: "string option"
  mq_evaluated_by :: "string option"
  mq_approved_by :: "string option"
  mq_activated_by :: "string option"
  mq_decision_reason :: "string option"
  mq_activated_at :: "time option"
  mq_created_at :: time

record DatasetRegistrationRecord =
  ds_id :: string
  ds_tenant :: string
  ds_name :: string
  ds_source_type :: string
  ds_category :: string
  ds_status :: string
  ds_fingerprint :: string
  ds_manifest_sha256 :: string
  ds_source_sha256 :: "string option"
  ds_storage_uri :: string
  ds_manifest_uri :: string
  ds_license_acknowledged :: bool
  ds_metadata :: "(string \<times> json) list"
  ds_risk_labels :: "string list"
  ds_created_by :: string
  ds_revoked_by :: "string option"
  ds_revoked_at :: "time option"
  ds_revoke_reason :: "string option"
  ds_created_at :: time

record Inspection =
  insp_id :: string
  insp_tenant :: string
  insp_deployment_pack_id :: string
  insp_idempotency_key :: string
  insp_request_fingerprint :: string
  insp_correlation_id :: string
  insp_status :: InspectionStatus
  insp_product_code :: string
  insp_product_revision :: "string option"
  insp_batch_no :: string
  insp_station_code :: string
  insp_captured_at :: time
  insp_source :: string
  insp_failure_reason :: "string option"
  insp_created_at :: time

record ImageAsset =
  img_id :: string
  img_tenant :: string
  img_inspection_id :: string
  img_kind :: string
  img_sha256 :: string
  img_uri :: string
  img_mime_type :: string
  img_width :: nat
  img_height :: nat
  img_source :: string
  img_created_at :: time

record InferenceResult =
  inf_id :: string
  inf_tenant :: string
  inf_inspection_id :: string
  inf_attempt :: nat
  inf_model_id :: string
  inf_model_version :: string
  inf_feature_bank_version :: string
  inf_runtime_device :: string
  inf_score :: rat
  inf_heatmap_uri :: string
  inf_latency_ms :: int
  inf_semantic_defect_confirmed :: bool

record PolicyDecision =
  pol_id :: string
  pol_tenant :: string
  pol_inspection_id :: string
  pol_policy_version :: string
  pol_decision :: PolicyRoute
  pol_reason :: string
  pol_snapshot_policy :: PolicyConfig
  pol_resolved_review_threshold :: rat
  pol_resolved_hold_threshold :: rat

record ReviewTask =
  rev_id :: string
  rev_tenant :: string
  rev_inspection_id :: string
  rev_status :: string
  rev_assignee :: "string option"
  rev_sla_at :: "time option"
  rev_version :: int
  rev_created_at :: time

record ReviewDecision =
  rdec_id :: string
  rdec_tenant :: string
  rdec_review_task_id :: string
  rdec_actor_id :: string
  rdec_decision :: ReviewChoice
  rdec_reason :: "string option"
  rdec_notes :: "string option"
  rdec_model_feedback :: "string option"

record QualityIncident =
  inc_id :: string
  inc_tenant :: string
  inc_inspection_id :: string
  inc_status :: string
  inc_disposition :: string
  inc_severity :: string
  inc_owner :: "string option"
  inc_outcome :: "string option"
  inc_verification_record :: "string option"

record ExternalAction =
  ext_id :: string
  ext_tenant :: string
  ext_incident_id :: string
  ext_connector :: string
  ext_operation :: string
  ext_idempotency_key :: string
  ext_request_summary :: json
  ext_response_summary :: "json option"
  ext_external_reference :: "string option"
  ext_status :: ExternalActionStatus
  ext_attempts :: nat
  ext_last_error :: "string option"
  ext_created_at :: time

record AuditEvent =
  aud_id :: string
  aud_tenant :: string
  aud_actor :: string
  aud_action :: string
  aud_target_type :: string
  aud_target_id :: string
  aud_correlation_id :: string
  aud_payload :: json
  aud_payload_digest :: string
  aud_occurred_at :: time

record StateTransition =
  trn_id :: string
  trn_tenant :: string
  trn_entity_type :: string
  trn_entity_id :: string
  trn_from_state :: InspectionStatus
  trn_to_state :: InspectionStatus
  trn_actor :: string
  trn_reason :: string
  trn_correlation_id :: string
  trn_occurred_at :: time

record OutboxEvent =
  evt_id :: string
  evt_tenant :: string
  evt_topic :: string
  evt_aggregate_id :: string
  evt_correlation_id :: string
  evt_payload :: json
  evt_status :: string
  evt_attempts :: nat
  evt_available_at :: time
  evt_processed_at :: "time option"
  evt_last_error :: "string option"
  evt_created_at :: time

section \<open>The store\<close>

text \<open>A configured connector: the in-memory one, or the HTTP one with the replies its next requests
  will get (a request past the end of the script meets a transport failure).\<close>

datatype connector = InMemory InMemoryConnector | Http HttpConnector "http_reply list"

text \<open>\<open>draws\<close> numbers the UUIDs drawn so far, \<open>clock\<close> is the current time, \<open>objects\<close> the object
  storage by URI, and \<open>side_audits\<close> the audit rows that a handler committed in a session of its own.\<close>

record world =
  tenants :: "Tenant list"
  edge_gateways :: "EdgeGateway list"
  deployment_packs :: "DeploymentPack list"
  model_qualifications :: "ModelQualification list"
  dataset_registrations :: "DatasetRegistrationRecord list"
  inspections :: "Inspection list"
  image_assets :: "ImageAsset list"
  inference_results :: "InferenceResult list"
  policy_decisions :: "PolicyDecision list"
  review_tasks :: "ReviewTask list"
  review_decisions :: "ReviewDecision list"
  quality_incidents :: "QualityIncident list"
  external_actions :: "ExternalAction list"
  audit_events :: "AuditEvent list"
  state_transitions :: "StateTransition list"
  outbox_events :: "OutboxEvent list"
  side_audits :: "AuditEvent list"
  objects :: "(string \<times> string) list"
  remote_systems :: "(string \<times> connector) list"
  draws :: nat
  clock :: time

section \<open>The environment\<close>

record Settings =
  environment :: string
  max_upload_bytes :: nat
  max_image_pixels :: nat
  process_inline :: bool
  connector_max_attempts :: nat
  connector_backoff_seconds :: rat
  gateway_stale_seconds :: int
  gateway_offline_seconds :: int
  auth_issuer :: string
  access_token_minutes :: int
  bootstrap_tenant_id :: string
  demo_switchable_tenant_ids :: string
  local_storage_path :: string
  dataset_max_upload_bytes :: nat
  dataset_max_uncompressed_bytes :: nat
  dataset_max_files :: nat
  dataset_max_compression_ratio :: rat
  dataset_import_roots :: string

text \<open>\<open>parsed_demo_switchable_tenant_ids\<close>: the comma-separated items, stripped, without the empty ones.\<close>

definition parsed_demo_switchable_tenant_ids :: "Settings \<Rightarrow> string list" where
  "parsed_demo_switchable_tenant_ids s =
     filter (\<lambda>i. i \<noteq> []) (map strip (split_on CHR 0x2C (demo_switchable_tenant_ids s)))"

record ModelOutput =
  mo_score :: rat
  mo_heatmap_png :: string
  mo_model_id :: string
  mo_model_version :: string
  mo_feature_bank_version :: string
  mo_runtime_device :: string
  mo_latency_ms :: int

text \<open>What the image library does with the bytes of an upload: the three exceptions the code catches,
  another exception, or the detected format, the width and the height.\<close>

datatype image_decode = NotDecoded | DecodeRaises string | Decoded string nat nat

text \<open>A parsed date and time: its ISO text and the instant.\<close>

record datetime =
  dt_iso :: string
  dt_time :: time

text \<open>The files a data set is imported from, as the code sees them. Reading a file may raise an
  \<open>OSError\<close>, an error of the archive library, or another exception. A zip or tar archive is the list
  of its members; reading a member gives its bytes or raises (a tar member may have no content).\<close>

datatype read_error = OSFailure string | ArchiveFailure string | OtherReadFailure string string

record zip_info =
  zi_filename :: string
  zi_is_dir :: bool
  zi_external_attr :: nat
  zi_file_size :: nat
  zi_data :: "read_error + string"

record tar_info =
  ti_name :: string
  ti_isdir :: bool
  ti_issym :: bool
  ti_islnk :: bool
  ti_isfile :: bool
  ti_size :: nat
  ti_data :: "(read_error + string) option"

datatype node_kind = NoNode | FileNode | DirectoryNode | OtherNode

datatype walk_item = LinkItem | FileItem nat "read_error + string" | OtherItem

text \<open>\<open>walk p\<close> is \<open>sorted(p.rglob("*"))\<close> with paths relative to \<open>p\<close>; \<open>read_node\<close> reads a file
  during the inspection, \<open>reread_node\<close> when it is stored afterwards; \<open>open_zip\<close> and \<open>open_tar\<close>
  list the members of an archive with the given bytes.\<close>

record source_files =
  expanduser :: "string \<Rightarrow> string"
  is_symlink :: "string \<Rightarrow> bool"
  resolve_path :: "string \<Rightarrow> string"
  node_at :: "string \<Rightarrow> node_kind"
  walk :: "string \<Rightarrow> (string \<times> walk_item) list"
  read_node :: "string \<Rightarrow> read_error + string"
  reread_node :: "string \<Rightarrow> read_error + string"
  open_zip :: "string \<Rightarrow> read_error + zip_info list"
  open_tar :: "string \<Rightarrow> read_error + tar_info list"

text \<open>Bytes are strings of bytes. \<open>sha256\<close> is the hex digest, \<open>dumps\<close> the serialization of a JSON
  value, \<open>decode_image\<close> the image library , \<open>parse_datetime\<close> the parsing of a date by the schema
  library, \<open>infer\<close> the model
  adapter (\<open>Inl\<close> the type of the exception it raises), \<open>loads\<close> the parsing of a JSON text, \<open>py_str\<close>
  the text \<open>str(x)\<close> of a parsed value other than a string,
  \<open>evidence_dir\<close> the plain files of a directory with their contents (\<open>None\<close> when it is not one),
  \<open>http_get\<close> a GET request, and \<open>sources\<close> the files data sets are imported from.\<close>

record env =
  settings :: Settings
  sha256 :: "string \<Rightarrow> string"
  dumps :: "json \<Rightarrow> string"
  decode_image :: "string \<Rightarrow> image_decode"
  parse_datetime :: "string \<Rightarrow> datetime option"
  infer :: "string \<Rightarrow> string + ModelOutput"
  model_healthcheck :: bool
  storage_healthcheck :: bool
  http_get :: "string \<Rightarrow> http_reply"
  loads :: "string \<Rightarrow> json option"
  py_str :: "json \<Rightarrow> string"
  evidence_dir :: "string \<Rightarrow> (string \<times> string) list option"
  sources :: source_files

definition digest :: "env \<Rightarrow> json \<Rightarrow> string" where
  "digest env j = sha256 env (dumps env j)"

text \<open>\<open>new_id(prefix)\<close>: the prefix and the hex of a fresh UUID; the n-th draw is written n.\<close>

definition new_id :: "string \<Rightarrow> nat \<Rightarrow> string" where
  "new_id pfx n = pfx @ ''_'' @ show_nat n"

definition action_status_value :: "ExternalActionStatus \<Rightarrow> string" where
  "action_status_value s = (case s of EA_PENDING \<Rightarrow> ''PENDING'' | EA_EXECUTING \<Rightarrow> ''EXECUTING''
     | EA_SUCCEEDED \<Rightarrow> ''SUCCEEDED'' | EA_FAILED \<Rightarrow> ''FAILED'' | EA_MANUAL_REVIEW \<Rightarrow> ''MANUAL_REVIEW'')"

definition choice_value :: "ReviewChoice \<Rightarrow> string" where
  "choice_value c = (case c of GOOD \<Rightarrow> ''GOOD'' | REWORK \<Rightarrow> ''REWORK'' | SCRAP \<Rightarrow> ''SCRAP''
     | INVESTIGATE \<Rightarrow> ''INVESTIGATE'' | UNABLE_TO_DETERMINE \<Rightarrow> ''UNABLE_TO_DETERMINE'')"

definition route_value :: "PolicyRoute \<Rightarrow> string" where
  "route_value r = (case r of AUTO_RELEASE \<Rightarrow> ''AUTO_RELEASE'' | MANUAL_REVIEW \<Rightarrow> ''MANUAL_REVIEW''
     | BATCH_HOLD_AND_REVIEW \<Rightarrow> ''BATCH_HOLD_AND_REVIEW'')"

section \<open>Injectivity of the identifiers\<close>

definition read_nat :: "string \<Rightarrow> nat" where
  "read_nat s = foldl (\<lambda>n c. n * 10 + (of_char c - 48)) 0 s"

lemma of_char_digit: "n < 10 \<Longrightarrow> of_char (char_of (48 + n :: nat)) = 48 + n"
  by simp

lemma read_show_nat: "read_nat (show_nat n) = n"
proof (induction n rule: show_nat.induct)
  case (1 n)
  show ?case
  proof (cases "n < 10")
    case True
    then show ?thesis
      using of_char_digit [of n] by (subst show_nat.simps) (simp add: read_nat_def)
  next
    case False
    with 1 have "read_nat (show_nat (n div 10)) = n div 10" by blast
    then show ?thesis
      using False of_char_digit [of "n mod 10"] by (subst show_nat.simps) (simp add: read_nat_def)
  qed
qed

lemma show_nat_inject [simp]: "show_nat m = show_nat n \<longleftrightarrow> m = n"
  by (metis read_show_nat)

lemma new_id_inject [simp]: "new_id pfx m = new_id pfx n \<longleftrightarrow> m = n"
  by (simp add: new_id_def)

end
