(* ===== verification/ServiceCore.thy ===== *)
theory ServiceCore
  imports Models
begin

text \<open>
  The common part of \<^verbatim>\<open>backend/app/services.py\<close>: service errors, the handlers as state-passing
  functions over the store that may raise, the primitives that write to it (the audit row, the guarded
  status change, inserts and updates), and the transaction around a request. A handler is a function
  from the store to what it raises or returns and the store it leaves.
\<close>

section \<open>Errors\<close>

datatype error_kind = NotFound | Conflict | Forbidden | InvalidInput | DependencyUnavailable

text \<open>What a handler raises: a service error with its message and details, or another exception of
  the given type and message (ValueError, IntegrityError, AssertionError), or an HTTP error of the API
  layer.\<close>

datatype exn = ServiceError error_kind string "json option" | OtherError string string
  | HTTPException nat string

fun status_code :: "error_kind \<Rightarrow> nat" where
  "status_code NotFound = 404"
| "status_code Conflict = 409"
| "status_code Forbidden = 403"
| "status_code InvalidInput = 422"
| "status_code DependencyUnavailable = 503"

section \<open>Handlers\<close>

type_synonym 'a svc = "world \<Rightarrow> (exn + 'a) \<times> world"

definition ret :: "'a \<Rightarrow> 'a svc" where
  "ret a w = (Inr a, w)"

definition throw :: "exn \<Rightarrow> 'a svc" where
  "throw e w = (Inl e, w)"

definition bnd :: "'a svc \<Rightarrow> ('a \<Rightarrow> 'b svc) \<Rightarrow> 'b svc" where
  "bnd m k w = (case m w of (Inl e, w') \<Rightarrow> (Inl e, w') | (Inr a, w') \<Rightarrow> k a w')"

definition andthen :: "'a svc \<Rightarrow> 'b svc \<Rightarrow> 'b svc" where
  "andthen m k = bnd m (\<lambda>_. k)"

abbreviation raise_error :: "error_kind \<Rightarrow> string \<Rightarrow> 'a svc" where
  "raise_error kind message \<equiv> throw (ServiceError kind message None)"

definition run_if :: "bool \<Rightarrow> unit svc \<Rightarrow> unit svc" where
  "run_if b m = (if b then m else ret ())"

definition query :: "(world \<Rightarrow> 'a) \<Rightarrow> 'a svc" where
  "query q w = (Inr (q w), w)"

definition modify :: "(world \<Rightarrow> world) \<Rightarrow> unit svc" where
  "modify f w = (Inr (), f w)"

text \<open>\<open>session.scalar(select(...).where(...))\<close>: the first row that satisfies the condition.\<close>

definition fetch :: "(world \<Rightarrow> 'r list) \<Rightarrow> ('r \<Rightarrow> bool) \<Rightarrow> 'r option svc" where
  "fetch table P = query (\<lambda>w. find P (table w))"

definition fetch_all :: "(world \<Rightarrow> 'r list) \<Rightarrow> ('r \<Rightarrow> bool) \<Rightarrow> 'r list svc" where
  "fetch_all table P = query (\<lambda>w. filter P (table w))"

definition try_catch :: "'a svc \<Rightarrow> (exn \<Rightarrow> 'a svc) \<Rightarrow> 'a svc" where
  "try_catch m h w = (case m w of (Inl e, w') \<Rightarrow> h e w' | (Inr a, w') \<Rightarrow> (Inr a, w'))"

fun for_each :: "('a \<Rightarrow> unit svc) \<Rightarrow> 'a list \<Rightarrow> unit svc" where
  "for_each f [] = ret ()"
| "for_each f (x # xs) = andthen (f x) (for_each f xs)"

text \<open>Statements in sequence.\<close>

fun run_all :: "unit svc list \<Rightarrow> unit svc" where
  "run_all [] = ret ()"
| "run_all (m # ms) = andthen m (run_all ms)"

lemma svc_simps [simp]:
  "ret a w = (Inr a, w)"
  "throw e w = (Inl e, w)"
  "query q w = (Inr (q w), w)"
  "modify f w = (Inr (), f w)"
  "fetch table P w = (Inr (find P (table w)), w)"
  "fetch_all table P w = (Inr (filter P (table w)), w)"
  by (simp_all add: ret_def throw_def query_def modify_def fetch_def fetch_all_def)

lemma bnd_Inr [simp]: "m w = (Inr a, w') \<Longrightarrow> bnd m k w = k a w'"
  and bnd_Inl [simp]: "m w = (Inl e, w') \<Longrightarrow> bnd m k w = (Inl e, w')"
  by (simp_all add: bnd_def)

lemma bnd_returns:
  "bnd m k w = (Inr b, w'') \<longleftrightarrow> (\<exists>a w'. m w = (Inr a, w') \<and> k a w' = (Inr b, w''))"
  by (auto simp: bnd_def split: prod.split sum.split)

lemma run_if_simps [simp]: "run_if True m = m" "run_if False m = ret ()"
  by (simp_all add: run_if_def)

section \<open>Identifiers and the audit row\<close>

definition fresh_id :: "string \<Rightarrow> string svc" where
  "fresh_id pfx w = (Inr (new_id pfx (draws w)), w\<lparr>draws := Suc (draws w)\<rparr>)"

definition audit_row ::
  "env \<Rightarrow> string \<Rightarrow> time \<Rightarrow> string \<Rightarrow> string \<Rightarrow> string \<Rightarrow> string \<Rightarrow> string \<Rightarrow> string \<Rightarrow> json \<Rightarrow> AuditEvent" where
  "audit_row env aid now tenant_id actor action target_type target_id correlation_id payload =
     (let (sanitized, hash) = canonical_payload (digest env) payload in
      \<lparr>aud_id = aid, aud_tenant = tenant_id, aud_actor = actor, aud_action = action,
       aud_target_type = target_type, aud_target_id = target_id, aud_correlation_id = correlation_id,
       aud_payload = sanitized, aud_payload_digest = hash, aud_occurred_at = now\<rparr>)"

definition record_audit ::
  "env \<Rightarrow> string \<Rightarrow> string \<Rightarrow> string \<Rightarrow> string \<Rightarrow> string \<Rightarrow> string \<Rightarrow> json \<Rightarrow> unit svc" where
  "record_audit env tenant_id actor action target_type target_id correlation_id payload =
     bnd (fresh_id ''aud'') (\<lambda>aid.
     modify (\<lambda>w. w\<lparr>audit_events := audit_events w @
       [audit_row env aid (clock w) tenant_id actor action target_type target_id correlation_id payload]\<rparr>))"

section \<open>The guarded status change\<close>

text \<open>An ORM object is a reference to its row: \<open>lookup_inspection\<close> reads the row an inspection
  reference points to, which exists as long as the store deletes nothing.\<close>

definition is_inspection :: "string \<Rightarrow> string \<Rightarrow> Inspection \<Rightarrow> bool" where
  "is_inspection iid tenant_id r \<longleftrightarrow> insp_id r = iid \<and> insp_tenant r = tenant_id"

definition lookup_inspection :: "string \<Rightarrow> string \<Rightarrow> world \<Rightarrow> Inspection option" where
  "lookup_inspection iid tenant_id w = find (is_inspection iid tenant_id) (inspections w)"

definition set_inspection_status :: "string \<Rightarrow> string \<Rightarrow> InspectionStatus \<Rightarrow> world \<Rightarrow> world" where
  "set_inspection_status iid tenant_id target w =
     w\<lparr>inspections := update_where (is_inspection iid tenant_id) (\<lambda>r. r\<lparr>insp_status := target\<rparr>) (inspections w)\<rparr>"

definition transition_row ::
  "string \<Rightarrow> time \<Rightarrow> Inspection \<Rightarrow> InspectionStatus \<Rightarrow> string \<Rightarrow> string \<Rightarrow> string \<Rightarrow> StateTransition" where
  "transition_row tid now inspection target actor reason correlation =
     \<lparr>trn_id = tid, trn_tenant = insp_tenant inspection, trn_entity_type = ''inspection'',
      trn_entity_id = insp_id inspection, trn_from_state = insp_status inspection, trn_to_state = target,
      trn_actor = actor, trn_reason = reason, trn_correlation_id = correlation, trn_occurred_at = now\<rparr>"

definition apply_transition ::
  "Inspection \<Rightarrow> InspectionStatus \<Rightarrow> string \<Rightarrow> string \<Rightarrow> string \<Rightarrow> unit svc" where
  "apply_transition inspection target actor reason correlation =
     bnd (fresh_id ''trn'') (\<lambda>tid.
     modify (\<lambda>w. (set_inspection_status (insp_id inspection) (insp_tenant inspection) target w)
       \<lparr>state_transitions := state_transitions w @
          [transition_row tid (clock w) inspection target actor reason correlation]\<rparr>))"

text \<open>\<open>_transition_inspection\<close> on the inspection with this id and tenant.\<close>

definition transition_inspection ::
  "env \<Rightarrow> string \<Rightarrow> string \<Rightarrow> InspectionStatus \<Rightarrow> string \<Rightarrow> string \<Rightarrow> string option \<Rightarrow> unit svc" where
  "transition_inspection env iid tenant_id target actor reason correlation_id =
     bnd (query (lookup_inspection iid tenant_id)) (\<lambda>found.
     case found of
       None \<Rightarrow> throw (OtherError ''ObjectDeletedError'' iid)
     | Some inspection \<Rightarrow>
         (case assert_inspection_transition (status_value (insp_status inspection)) (status_value target) of
            Inl message \<Rightarrow> raise_error Conflict message
          | Inr _ \<Rightarrow>
              let correlation = or_else correlation_id (insp_correlation_id inspection) in
              andthen (apply_transition inspection target actor reason correlation)
              (record_audit env tenant_id actor ''inspection.state_changed'' ''inspection'' iid correlation
                (JObj [(''before'', JStr (status_value (insp_status inspection))),
                       (''after'', JStr (status_value target)), (''reason'', JStr reason)]))))"

section \<open>Transactions\<close>

text \<open>A request runs in one session: a return commits, an exception rolls the tables back. The
  external systems, the object storage and the UUIDs drawn are outside the transaction, and the audit
  rows a handler committed in a session of its own stay.\<close>

definition settle :: "world \<Rightarrow> world" where
  "settle w = w\<lparr>audit_events := audit_events w @ side_audits w, side_audits := []\<rparr>"

definition rollback :: "world \<Rightarrow> world \<Rightarrow> world" where
  "rollback w0 after = w0\<lparr>side_audits := side_audits after, objects := objects after,
     remote_systems := remote_systems after, draws := draws after, clock := clock after\<rparr>"

definition transaction :: "'a svc \<Rightarrow> 'a svc" where
  "transaction m w = (case m w of
     (Inr a, w') \<Rightarrow> (Inr a, settle w')
   | (Inl e, w') \<Rightarrow> (Inl e, settle (rollback w w')))"

section \<open>Object storage\<close>

text \<open>\<open>LocalObjectStorage\<close> of \<^verbatim>\<open>backend/app/storage.py\<close>: keys are relative paths without
  parent segments; an object is written once.\<close>

definition path_parts :: "string \<Rightarrow> string list" where
  "path_parts key = filter (\<lambda>p. p \<noteq> '''' \<and> p \<noteq> ''.'') (split_on CHR ''/'' key)"

definition safe_key :: "string \<Rightarrow> string option" where
  "safe_key key =
     (if startswith ''/'' key \<or> ''..'' \<in> set (path_parts key) \<or> path_parts key = [] then None
      else Some (join_with ''/'' (path_parts key)))"

definition put_immutable :: "env \<Rightarrow> string \<Rightarrow> string \<Rightarrow> string svc" where
  "put_immutable env key data = (case safe_key key of
     None \<Rightarrow> throw (OtherError ''ValueError'' ''unsafe object key'')
   | Some normalized \<Rightarrow>
       bnd (query (\<lambda>w. map_of (objects w) normalized)) (\<lambda>present.
       case present of
         Some stored \<Rightarrow>
           if sha256 env stored \<noteq> sha256 env data then throw (OtherError ''ObjectAlreadyExists'' normalized)
           else ret (''local://'' @ normalized)
       | None \<Rightarrow>
           andthen (modify (\<lambda>w. w\<lparr>objects := objects w @ [(normalized, data)]\<rparr>))
             (ret (''local://'' @ normalized))))"

definition get_object :: "string \<Rightarrow> world \<Rightarrow> string + string" where
  "get_object uri w =
     (if \<not> startswith ''local://'' uri then Inl ''ValueError''
      else case safe_key (drop (length ''local://'') uri) of
        None \<Rightarrow> Inl ''ValueError''
      | Some normalized \<Rightarrow> (case map_of (objects w) normalized of
          None \<Rightarrow> Inl ''FileNotFoundError'' | Some data \<Rightarrow> Inr data))"

section \<open>Writing rows\<close>

text \<open>An insert fails when the new row clashes with a present one under the table's constraints.\<close>

definition insert_row ::
  "(world \<Rightarrow> 'r list) \<Rightarrow> (('r list \<Rightarrow> 'r list) \<Rightarrow> world \<Rightarrow> world) \<Rightarrow> string \<Rightarrow> ('r \<Rightarrow> 'r \<Rightarrow> bool) \<Rightarrow> 'r \<Rightarrow> unit svc" where
  "insert_row table upd constraint clash r =
     bnd (query (\<lambda>w. \<exists>x \<in> set (table w). clash x r)) (\<lambda>violated.
     if violated then throw (OtherError ''IntegrityError'' constraint)
     else modify (upd (\<lambda>rows. rows @ [r])))"

definition insert_inspection :: "Inspection \<Rightarrow> unit svc" where
  "insert_inspection = insert_row inspections inspections_update ''uq_inspection_idempotency''
     (\<lambda>x r. insp_tenant x = insp_tenant r \<and> insp_idempotency_key x = insp_idempotency_key r)"

text \<open>\<open>session.add(inspection)\<close> and the flush, with the IntegrityError caught: the id and whether the row
  is in.\<close>

definition add_inspection :: "(string \<Rightarrow> Inspection) \<Rightarrow> (string \<times> bool) svc" where
  "add_inspection mk =
     bnd (fresh_id ''insp'') (\<lambda>iid.
     try_catch (andthen (insert_inspection (mk iid)) (ret (iid, True))) (\<lambda>e. ret (iid, False)))"

definition insert_image_asset :: "ImageAsset \<Rightarrow> unit svc" where
  "insert_image_asset r =
     (if img_width r = 0 \<or> img_height r = 0 then throw (OtherError ''IntegrityError'' ''ck_image_dimensions'')
      else insert_row image_assets image_assets_update ''uq_image_asset_uri''
        (\<lambda>x r. img_tenant x = img_tenant r \<and> img_uri x = img_uri r) r)"

definition insert_inference_result :: "InferenceResult \<Rightarrow> unit svc" where
  "insert_inference_result r =
     (if \<not> (0 \<le> inf_score r \<and> inf_score r \<le> 1) then throw (OtherError ''IntegrityError'' ''ck_inference_score'')
      else insert_row inference_results inference_results_update ''uq_inference_attempt''
        (\<lambda>x r. inf_inspection_id x = inf_inspection_id r \<and> inf_attempt x = inf_attempt r) r)"

definition insert_policy_decision :: "PolicyDecision \<Rightarrow> unit svc" where
  "insert_policy_decision = insert_row policy_decisions policy_decisions_update ''uq_policy_inspection''
     (\<lambda>x r. pol_inspection_id x = pol_inspection_id r)"

definition insert_review_task :: "ReviewTask \<Rightarrow> unit svc" where
  "insert_review_task = insert_row review_tasks review_tasks_update ''review_tasks''
     (\<lambda>x r. rev_id x = rev_id r \<or> rev_inspection_id x = rev_inspection_id r)"

definition insert_review_decision :: "ReviewDecision \<Rightarrow> unit svc" where
  "insert_review_decision = insert_row review_decisions review_decisions_update ''uq_review_decision_task''
     (\<lambda>x r. rdec_review_task_id x = rdec_review_task_id r)"

definition insert_incident :: "QualityIncident \<Rightarrow> unit svc" where
  "insert_incident = insert_row quality_incidents quality_incidents_update ''uq_incident_inspection''
     (\<lambda>x r. inc_inspection_id x = inc_inspection_id r)"

definition insert_external_action :: "ExternalAction \<Rightarrow> unit svc" where
  "insert_external_action = insert_row external_actions external_actions_update ''uq_external_idempotency''
     (\<lambda>x r. ext_id x = ext_id r \<or> ext_tenant x = ext_tenant r \<and> ext_idempotency_key x = ext_idempotency_key r)"

definition insert_outbox_event :: "OutboxEvent \<Rightarrow> unit svc" where
  "insert_outbox_event r = modify (outbox_events_update (\<lambda>rows. rows @ [r]))"

definition insert_gateway :: "EdgeGateway \<Rightarrow> unit svc" where
  "insert_gateway = insert_row edge_gateways edge_gateways_update ''uq_edge_gateway_tenant_gateway''
     (\<lambda>x r. gwy_tenant x = gwy_tenant r \<and> gwy_gateway_id x = gwy_gateway_id r)"

definition insert_deployment :: "DeploymentPack \<Rightarrow> unit svc" where
  "insert_deployment = insert_row deployment_packs deployment_packs_update ''uq_deployment_tenant_version''
     (\<lambda>x r. dep_id x = dep_id r \<or> dep_tenant x = dep_tenant r \<and> dep_version x = dep_version r)"

definition insert_qualification :: "ModelQualification \<Rightarrow> unit svc" where
  "insert_qualification = insert_row model_qualifications model_qualifications_update
     ''uq_model_qualification_identity''
     (\<lambda>x r. mq_id x = mq_id r \<or> mq_tenant x = mq_tenant r \<and> mq_product_code x = mq_product_code r \<and>
        mq_model_id x = mq_model_id r \<and> mq_model_version x = mq_model_version r)"

definition insert_dataset :: "DatasetRegistrationRecord \<Rightarrow> unit svc" where
  "insert_dataset = insert_row dataset_registrations dataset_registrations_update ''uq_dataset_tenant_fingerprint''
     (\<lambda>x r. ds_id x = ds_id r \<or> ds_tenant x = ds_tenant r \<and> ds_fingerprint x = ds_fingerprint r)"

text \<open>Updates of the rows with a given id in a tenant; the review task has its conditional form.\<close>

definition set_failure_reason :: "string \<Rightarrow> string \<Rightarrow> string \<Rightarrow> unit svc" where
  "set_failure_reason iid tenant_id reason = modify (inspections_update
     (update_where (is_inspection iid tenant_id) (\<lambda>r. r\<lparr>insp_failure_reason := Some reason\<rparr>)))"

definition update_review_tasks :: "(ReviewTask \<Rightarrow> bool) \<Rightarrow> (ReviewTask \<Rightarrow> ReviewTask) \<Rightarrow> unit svc" where
  "update_review_tasks P f = modify (review_tasks_update (update_where P f))"

definition is_incident :: "string \<Rightarrow> string \<Rightarrow> QualityIncident \<Rightarrow> bool" where
  "is_incident cid tenant_id r \<longleftrightarrow> inc_id r = cid \<and> inc_tenant r = tenant_id"

definition update_incident :: "string \<Rightarrow> string \<Rightarrow> (QualityIncident \<Rightarrow> QualityIncident) \<Rightarrow> unit svc" where
  "update_incident cid tenant_id f =
     modify (quality_incidents_update (update_where (is_incident cid tenant_id) f))"

definition is_action :: "string \<Rightarrow> string \<Rightarrow> ExternalAction \<Rightarrow> bool" where
  "is_action xid tenant_id r \<longleftrightarrow> ext_id r = xid \<and> ext_tenant r = tenant_id"

definition update_action :: "string \<Rightarrow> string \<Rightarrow> (ExternalAction \<Rightarrow> ExternalAction) \<Rightarrow> unit svc" where
  "update_action xid tenant_id f =
     modify (external_actions_update (update_where (is_action xid tenant_id) f))"

definition is_event :: "string \<Rightarrow> string \<Rightarrow> OutboxEvent \<Rightarrow> bool" where
  "is_event eid tenant_id r \<longleftrightarrow> evt_id r = eid \<and> evt_tenant r = tenant_id"

definition update_event :: "string \<Rightarrow> string \<Rightarrow> (OutboxEvent \<Rightarrow> OutboxEvent) \<Rightarrow> unit svc" where
  "update_event eid tenant_id f = modify (outbox_events_update (update_where (is_event eid tenant_id) f))"

text \<open>The pending row of an external action is written before the next query and with the event that asks for
  it; when its row is gone the UPDATE finds nothing and the session raises.\<close>

definition flush_action :: "string \<Rightarrow> string \<Rightarrow> unit svc" where
  "flush_action xid tenant_id =
     bnd (fetch external_actions (is_action xid tenant_id)) (\<lambda>found.
     case found of None \<Rightarrow> throw (OtherError ''StaleDataError'' xid) | Some a \<Rightarrow> ret ())"

definition insert_action_event :: "OutboxEvent \<Rightarrow> unit svc" where
  "insert_action_event ev =
     andthen (flush_action (evt_aggregate_id ev) (evt_tenant ev)) (insert_outbox_event ev)"

definition is_gateway :: "string \<Rightarrow> string \<Rightarrow> EdgeGateway \<Rightarrow> bool" where
  "is_gateway gid tenant_id r \<longleftrightarrow> gwy_gateway_id r = gid \<and> gwy_tenant r = tenant_id"

definition update_gateway :: "string \<Rightarrow> string \<Rightarrow> (EdgeGateway \<Rightarrow> EdgeGateway) \<Rightarrow> unit svc" where
  "update_gateway gid tenant_id f = modify (edge_gateways_update (update_where (is_gateway gid tenant_id) f))"

definition is_deployment :: "string \<Rightarrow> string \<Rightarrow> DeploymentPack \<Rightarrow> bool" where
  "is_deployment did tenant_id r \<longleftrightarrow> dep_id r = did \<and> dep_tenant r = tenant_id"

definition update_deployment :: "string \<Rightarrow> string \<Rightarrow> (DeploymentPack \<Rightarrow> DeploymentPack) \<Rightarrow> unit svc" where
  "update_deployment did tenant_id f =
     modify (deployment_packs_update (update_where (is_deployment did tenant_id) f))"

definition is_qualification :: "string \<Rightarrow> string \<Rightarrow> ModelQualification \<Rightarrow> bool" where
  "is_qualification qid tenant_id r \<longleftrightarrow> mq_id r = qid \<and> mq_tenant r = tenant_id"

definition update_qualification ::
  "string \<Rightarrow> string \<Rightarrow> (ModelQualification \<Rightarrow> ModelQualification) \<Rightarrow> unit svc" where
  "update_qualification qid tenant_id f =
     modify (model_qualifications_update (update_where (is_qualification qid tenant_id) f))"

definition is_dataset :: "string \<Rightarrow> string \<Rightarrow> DatasetRegistrationRecord \<Rightarrow> bool" where
  "is_dataset did tenant_id r \<longleftrightarrow> ds_id r = did \<and> ds_tenant r = tenant_id"

definition update_dataset ::
  "string \<Rightarrow> string \<Rightarrow> (DatasetRegistrationRecord \<Rightarrow> DatasetRegistrationRecord) \<Rightarrow> unit svc" where
  "update_dataset did tenant_id f =
     modify (dataset_registrations_update (update_where (is_dataset did tenant_id) f))"

section \<open>What an update never changes\<close>

definition incident_identity :: "QualityIncident \<Rightarrow> string \<times> string \<times> string \<times> string" where
  [simp]: "incident_identity c = (inc_id c, inc_tenant c, inc_inspection_id c, inc_disposition c)"

definition action_identity :: "ExternalAction \<Rightarrow> string \<times> string \<times> string \<times> string \<times> string \<times> string \<times> json" where
  [simp]: "action_identity a = (ext_id a, ext_tenant a, ext_incident_id a, ext_connector a, ext_operation a,
     ext_idempotency_key a, ext_request_summary a)"

definition event_identity :: "OutboxEvent \<Rightarrow> string \<times> string \<times> string \<times> string" where
  [simp]: "event_identity e = (evt_id e, evt_tenant e, evt_topic e, evt_aggregate_id e)"

text \<open>What a revocation leaves of a registration.\<close>

definition dataset_identity :: "DatasetRegistrationRecord \<Rightarrow> DatasetRegistrationRecord" where
  "dataset_identity d = d\<lparr>ds_status := '''', ds_revoked_by := None, ds_revoked_at := None, ds_revoke_reason := None\<rparr>"

text \<open>The provenance of a registration names its tenant and confirms the customer's consent.\<close>

definition consenting :: "DatasetRegistrationRecord \<Rightarrow> bool" where
  "consenting d \<longleftrightarrow> (case jget ''customer_provenance'' (ds_metadata d) of
     Some (JObj p) \<Rightarrow> jget ''tenant'' p = Some (JStr (ds_tenant d)) \<and> jget ''consent'' p = Some (JBool True)
   | _ \<Rightarrow> False)"

definition sound_dataset :: "DatasetRegistrationRecord \<Rightarrow> bool" where
  "sound_dataset d \<longleftrightarrow> (ds_source_type d = ''CUSTOMER_PILOT'' \<longrightarrow> ds_status d = ''VALIDATED'' \<longrightarrow> consenting d)"

definition inspection_identity :: "Inspection \<Rightarrow> Inspection" where
  "inspection_identity i = i\<lparr>insp_status := RECEIVED, insp_failure_reason := None\<rparr>"

section \<open>The effect of the status change and of the insert\<close>

definition transitioned ::
  "env \<Rightarrow> Inspection \<Rightarrow> string \<Rightarrow> string \<Rightarrow> InspectionStatus \<Rightarrow> string \<Rightarrow> string \<Rightarrow> string option \<Rightarrow> world \<Rightarrow> world" where
  "transitioned env i iid tid target actor reason corr w =
     (let correlation = or_else corr (insp_correlation_id i) in
      w\<lparr>inspections := update_where (is_inspection iid tid) (\<lambda>r. r\<lparr>insp_status := target\<rparr>) (inspections w),
        state_transitions := state_transitions w @
          [transition_row (new_id ''trn'' (draws w)) (clock w) i target actor reason correlation],
        audit_events := audit_events w @
          [audit_row env (new_id ''aud'' (Suc (draws w))) (clock w) tid actor ''inspection.state_changed''
             ''inspection'' iid correlation
             (JObj [(''before'', JStr (status_value (insp_status i))),
                    (''after'', JStr (status_value target)), (''reason'', JStr reason)])],
        draws := Suc (Suc (draws w))\<rparr>)"

lemma lookup_inspectionD:
  "lookup_inspection iid tid w = Some i \<Longrightarrow> i \<in> set (inspections w) \<and> insp_id i = iid \<and> insp_tenant i = tid"
  by (auto simp: lookup_inspection_def is_inspection_def dest: find_SomeD1 find_SomeD2)

lemma transition_inspection_eq:
  "transition_inspection env iid tid target actor reason corr w =
     (case lookup_inspection iid tid w of
        None \<Rightarrow> (Inl (OtherError ''ObjectDeletedError'' iid), w)
      | Some i \<Rightarrow>
          if legal_edge (insp_status i) target then (Inr (), transitioned env i iid tid target actor reason corr w)
          else (Inl (ServiceError Conflict (''illegal inspection state transition: '' @
                  status_value (insp_status i) @ '' -> '' @ status_value target) None), w))"
proof (cases "lookup_inspection iid tid w")
  case None
  then show ?thesis by (simp add: transition_inspection_def bnd_def)
next
  case (Some i)
  have guard: "assert_inspection_transition (status_value (insp_status i)) (status_value target) =
      (if legal_edge (insp_status i) target then Inr ()
       else Inl (''illegal inspection state transition: '' @ status_value (insp_status i) @ '' -> '' @ status_value target))"
    by (simp add: assert_inspection_transition_def legal_edge_def)
  from Some lookup_inspectionD [OF Some] show ?thesis
    by (simp add: transition_inspection_def guard transitioned_def bnd_def andthen_def apply_transition_def
        fresh_id_def record_audit_def set_inspection_status_def Let_def)
qed

lemma transition_outcome:
  obtains (unchanged) "snd (transition_inspection env iid tid target actor reason corr w) = w"
      "\<exists>e. fst (transition_inspection env iid tid target actor reason corr w) = Inl e"
    | (changed) i where "lookup_inspection iid tid w = Some i" "legal_edge (insp_status i) target"
      "transition_inspection env iid tid target actor reason corr w
         = (Inr (), transitioned env i iid tid target actor reason corr w)"
proof (cases "\<exists>i. lookup_inspection iid tid w = Some i \<and> legal_edge (insp_status i) target")
  case True
  then show thesis by (auto simp: transition_inspection_eq intro: changed)
next
  case False
  then show thesis
    by (intro unchanged) (auto simp: transition_inspection_eq split: option.split)
qed

lemma add_inspection_eq:
  "add_inspection mk w =
     (let iid = new_id ''insp'' (draws w); r = mk iid; w1 = w\<lparr>draws := Suc (draws w)\<rparr> in
      if \<exists>x \<in> set (inspections w). insp_tenant x = insp_tenant r \<and> insp_idempotency_key x = insp_idempotency_key r
      then (Inr (iid, False), w1)
      else (Inr (iid, True), w1\<lparr>inspections := inspections w @ [r]\<rparr>))"
  by (simp add: add_inspection_def insert_inspection_def insert_row_def bnd_def andthen_def fresh_id_def
      try_catch_def Let_def)

end
