(* ===== verification/Frames.thy ===== *)
theory Frames
  imports ServiceCore
begin

text \<open>
  What a handler keeps. \<open>keeps R m\<close>: the store before and after \<open>m\<close> are related by \<open>R\<close>, whether
  it returns or raises. The locale states, for a tenant and a relation, that every primitive write of the
  services for that tenant keeps the relation; in it each handler is shown to keep it, once, and
  its interpretations are the frame properties of the whole service.
\<close>

definition keeps :: "(world \<Rightarrow> world \<Rightarrow> bool) \<Rightarrow> 'a svc \<Rightarrow> bool" where
  "keeps R m \<longleftrightarrow> (\<forall>w. R w (snd (m w)))"

text \<open>What is known of a value a computation returns.\<close>

definition returns :: "'a svc \<Rightarrow> 'a \<Rightarrow> bool" where
  "returns m a \<longleftrightarrow> (\<exists>w w'. m w = (Inr a, w'))"

lemma returns_simps [simp]:
  "returns (ret x) a \<longleftrightarrow> a = x"
  "\<not> returns (throw e) a"
  by (auto simp: returns_def)

lemma returns_fetch [dest]: "returns (fetch table P) a \<Longrightarrow> a = Some r \<Longrightarrow> P r"
  by (auto simp: returns_def dest: find_SomeD1)

lemma returns_fetch_Some: "returns (fetch table P) (Some r) \<Longrightarrow> P r"
  by (auto simp: returns_def dest: find_SomeD1)

lemma returns_lookup: "returns (query (lookup_inspection iid tid)) (Some i) \<Longrightarrow> insp_id i = iid \<and> insp_tenant i = tid"
  by (auto simp: returns_def lookup_inspection_def is_inspection_def dest: find_SomeD1)

lemma returns_bnd: "returns (bnd m k) b \<Longrightarrow> \<exists>a. returns m a \<and> returns (k a) b"
  by (auto simp: returns_def bnd_returns)

lemma keepsD: "keeps R m \<Longrightarrow> m w = (r, w') \<Longrightarrow> R w w'"
  by (metis keeps_def snd_conv)

lemmas returnsD = returns_fetch_Some returns_lookup

text \<open>Hoare triples: from a store with \<open>P\<close>, a return ends in \<open>Q\<close> and a raise in \<open>X\<close>.\<close>

definition hoare :: "(world \<Rightarrow> bool) \<Rightarrow> 'a svc \<Rightarrow> ('a \<Rightarrow> world \<Rightarrow> bool) \<Rightarrow> (world \<Rightarrow> bool) \<Rightarrow> bool" where
  "hoare P m Q X \<longleftrightarrow> (\<forall>w. P w \<longrightarrow> (case m w of (Inl e, w') \<Rightarrow> X w' | (Inr a, w') \<Rightarrow> Q a w'))"

lemma hoareI: "(\<And>w. P w \<Longrightarrow> case m w of (Inl e, w') \<Rightarrow> X w' | (Inr a, w') \<Rightarrow> Q a w') \<Longrightarrow> hoare P m Q X"
  by (simp add: hoare_def)

lemma hoare_bnd: "hoare P m M X \<Longrightarrow> (\<And>a. hoare (M a) (k a) Q X) \<Longrightarrow> hoare P (bnd m k) Q X"
  unfolding hoare_def bnd_def by (fastforce split: prod.splits sum.splits)

lemma hoare_andthen: "hoare P m (\<lambda>_. M) X \<Longrightarrow> hoare M k Q X \<Longrightarrow> hoare P (andthen m k) Q X"
  unfolding andthen_def by (rule hoare_bnd)

lemma hoare_run_all_Nil: "(\<And>w. P w \<Longrightarrow> Q () w) \<Longrightarrow> hoare P (run_all []) Q X"
  and hoare_run_all_Cons: "hoare P m (\<lambda>_. M) X \<Longrightarrow> hoare M (run_all ms) Q X \<Longrightarrow> hoare P (run_all (m # ms)) Q X"
  by (simp add: hoare_def) (simp add: hoare_andthen)

lemma hoare_conseq:
  "hoare P' m Q' X' \<Longrightarrow> (\<And>w. P w \<Longrightarrow> P' w) \<Longrightarrow> (\<And>a w. Q' a w \<Longrightarrow> Q a w) \<Longrightarrow> (\<And>w. X' w \<Longrightarrow> X w) \<Longrightarrow> hoare P m Q X"
  unfolding hoare_def by (fastforce split: prod.splits sum.splits)

lemma hoare_ret: "(\<And>w. P w \<Longrightarrow> Q a w) \<Longrightarrow> hoare P (ret a) Q X"
  by (simp add: hoare_def)

lemma hoare_throw: "(\<And>w. P w \<Longrightarrow> X w) \<Longrightarrow> hoare P (throw e) Q X"
  by (simp add: hoare_def)

lemma hoare_query: "(\<And>w. P w \<Longrightarrow> Q (q w) w) \<Longrightarrow> hoare P (query q) Q X"
  by (simp add: hoare_def)

lemma hoare_modify: "(\<And>w. P w \<Longrightarrow> Q () (f w)) \<Longrightarrow> hoare P (modify f) Q X"
  by (simp add: hoare_def)

lemma hoare_snd: "hoare P m (\<lambda>_. J) J \<Longrightarrow> P w \<Longrightarrow> J (snd (m w))"
  unfolding hoare_def by (fastforce split: prod.splits sum.splits)

lemma hoare_conj: "hoare P m Q X \<Longrightarrow> hoare P m Q' X' \<Longrightarrow> hoare P m (\<lambda>a w. Q a w \<and> Q' a w) (\<lambda>w. X w \<and> X' w)"
  unfolding hoare_def by (fastforce split: prod.splits sum.splits)

lemma hoare_any: "hoare P m (\<lambda>_ _. True) (\<lambda>_. True)"
  by (auto simp: hoare_def split: prod.split sum.split)

text \<open>An invariant is kept by what keeps the relation of its preservation.\<close>

lemma hoare_keeps: "keeps (\<lambda>w w'. J w \<longrightarrow> J w') m \<Longrightarrow> hoare J m (\<lambda>_. J) J"
  unfolding hoare_def keeps_def by (fastforce split: prod.splits sum.splits)

lemma keeps_hoare: "hoare J m (\<lambda>_. J) J \<Longrightarrow> keeps (\<lambda>w w'. J w \<longrightarrow> J w') m"
  by (simp add: keeps_def hoare_snd)

locale store_frame =
  fixes t :: string
    and R :: "world \<Rightarrow> world \<Rightarrow> bool"
    and ok_target :: "InspectionStatus \<Rightarrow> bool"
  assumes R_refl: "R w w"
    and R_trans: "R w w' \<Longrightarrow> R w' w'' \<Longrightarrow> R w w''"
    and R_draws: "R w (w\<lparr>draws := Suc (draws w)\<rparr>)"
    and R_audit: "aud_tenant a = t \<Longrightarrow> R w (w\<lparr>audit_events := audit_events w @ [a]\<rparr>)"
    and R_side_audit: "aud_tenant a = t \<Longrightarrow> aud_action a = ''security.upload_rejected'' \<Longrightarrow> R w (w\<lparr>side_audits := side_audits w @ [a]\<rparr>)"
    and R_objects: "R w (w\<lparr>objects := objects w @ [x]\<rparr>)"
    and R_remote: "R w (w\<lparr>remote_systems := c\<rparr>)"
    and R_transition: "ok_target target \<Longrightarrow>
      R w (snd (transition_inspection env iid t target actor reason corr w))"
    and R_add_inspection: "(\<And>iid. insp_tenant (mk iid) = t \<and> insp_id (mk iid) = iid \<and> insp_status (mk iid) = RECEIVED) \<Longrightarrow>
      R w (snd (add_inspection mk w))"
    and R_failure: "R w (snd (set_failure_reason iid t m w))"
    and R_image: "img_tenant im = t \<Longrightarrow>
      (\<forall>x \<in> set (image_assets w). \<not> (img_tenant x = img_tenant im \<and> img_uri x = img_uri im)) \<Longrightarrow>
      R w (image_assets_update (\<lambda>rows. rows @ [im]) w)"
    and R_inference: "inf_tenant f = t \<Longrightarrow>
      (\<forall>x \<in> set (inference_results w). \<not> (inf_inspection_id x = inf_inspection_id f \<and> inf_attempt x = inf_attempt f)) \<Longrightarrow>
      R w (inference_results_update (\<lambda>rows. rows @ [f]) w)"
    and R_policy: "pol_tenant p = t \<Longrightarrow>
      (\<forall>x \<in> set (policy_decisions w). pol_inspection_id x \<noteq> pol_inspection_id p) \<Longrightarrow>
      R w (policy_decisions_update (\<lambda>rows. rows @ [p]) w)"
    and R_task: "rev_tenant k = t \<Longrightarrow> rev_status k = ''OPEN'' \<Longrightarrow>
      (\<forall>x \<in> set (review_tasks w). rev_id x \<noteq> rev_id k \<and> rev_inspection_id x \<noteq> rev_inspection_id k) \<Longrightarrow>
      R w (review_tasks_update (\<lambda>rows. rows @ [k]) w)"
    and R_task_update: "(\<And>k. P k \<Longrightarrow> rev_tenant k = t \<and> rev_status k = ''OPEN'' \<and> rev_tenant (g k) = t \<and> rev_id (g k) = rev_id k \<and> rev_inspection_id (g k) = rev_inspection_id k) \<Longrightarrow>
      R w (review_tasks_update (update_where P g) w)"
    and R_decision: "rdec_tenant d = t \<Longrightarrow>
      (\<forall>x \<in> set (review_decisions w). rdec_review_task_id x \<noteq> rdec_review_task_id d) \<Longrightarrow>
      R w (review_decisions_update (\<lambda>rows. rows @ [d]) w)"
    and R_incident: "inc_tenant ci = t \<Longrightarrow>
      (\<forall>x \<in> set (quality_incidents w). inc_inspection_id x \<noteq> inc_inspection_id ci) \<Longrightarrow>
      R w (quality_incidents_update (\<lambda>rows. rows @ [ci]) w)"
    and R_incident_update: "(\<And>ci. incident_identity (h ci) = incident_identity ci) \<Longrightarrow> R w (snd (update_incident cid t h w))"
    and R_action: "ext_tenant x' = t \<Longrightarrow>
      (\<forall>x \<in> set (external_actions w). ext_id x \<noteq> ext_id x' \<and>
         \<not> (ext_tenant x = ext_tenant x' \<and> ext_idempotency_key x = ext_idempotency_key x')) \<Longrightarrow>
      R w (external_actions_update (\<lambda>rows. rows @ [x']) w)"
    and R_action_update: "(\<And>x. action_identity (q x) = action_identity x) \<Longrightarrow> R w (snd (update_action xid t q w))"
    and R_event: "evt_tenant ev = t \<Longrightarrow>
      (evt_topic ev = ''external_action.requested'' \<Longrightarrow>
        \<exists>x \<in> set (external_actions w). is_action (evt_aggregate_id ev) t x) \<Longrightarrow>
      R w (outbox_events_update (\<lambda>rows. rows @ [ev]) w)"
    and R_event_update: "(\<And>r. event_identity (e r) = event_identity r) \<Longrightarrow>
      etid = t \<or> (\<exists>ev \<in> set (outbox_events w). \<exists>x \<in> set (external_actions w). evt_tenant ev = etid \<and>
        evt_topic ev = ''external_action.requested'' \<and> is_action (evt_aggregate_id ev) t x) \<Longrightarrow>
      R w (snd (update_event eid etid e w))"
    and R_gateway: "gwy_tenant gw = t \<Longrightarrow> R w (edge_gateways_update (\<lambda>rows. rows @ [gw]) w)"
    and R_gateway_update: "(\<And>y. gwy_tenant (gu y) = gwy_tenant y) \<Longrightarrow> R w (snd (update_gateway gid t gu w))"
    and R_deployment: "dep_tenant dp = t \<Longrightarrow> dep_status dp = ''DRAFT'' \<Longrightarrow>
      (\<forall>x \<in> set (deployment_packs w). dep_id x \<noteq> dep_id dp) \<Longrightarrow>
      R w (deployment_packs_update (\<lambda>rows. rows @ [dp]) w)"
    and R_qualification: "mq_tenant mq = t \<Longrightarrow> mq_status mq = ''DRAFT'' \<Longrightarrow>
      (\<forall>x \<in> set (model_qualifications w). mq_id x \<noteq> mq_id mq) \<Longrightarrow>
      R w (model_qualifications_update (\<lambda>rows. rows @ [mq]) w)"
    and R_dataset: "ds_tenant ds = t \<Longrightarrow> sound_dataset ds \<Longrightarrow>
      (\<forall>x \<in> set (dataset_registrations w). ds_id x \<noteq> ds_id ds \<and>
         (ds_tenant x = t \<longrightarrow> ds_fingerprint x \<noteq> ds_fingerprint ds)) \<Longrightarrow>
      R w (dataset_registrations_update (\<lambda>rows. rows @ [ds]) w)"
    and R_dataset_update: "(\<And>x. dataset_identity (dsu x) = dataset_identity x \<and> ds_status (dsu x) = ''REVOKED'') \<Longrightarrow>
      R w (snd (update_dataset did t dsu w))"
begin

lemma keeps_bnd: "keeps R m \<Longrightarrow> (\<And>a. returns m a \<Longrightarrow> keeps R (k a)) \<Longrightarrow> keeps R (bnd m k)"
  unfolding keeps_def bnd_def returns_def
  by (auto split: prod.split sum.split intro: R_trans) (metis R_trans snd_conv)+

lemma keeps_andthen: "keeps R m \<Longrightarrow> keeps R k \<Longrightarrow> keeps R (andthen m k)"
  unfolding andthen_def by (rule keeps_bnd)

lemma keeps_ret: "keeps R (ret a)"
  and keeps_throw: "keeps R (throw e)"
  and keeps_query: "keeps R (query qu)"
  and keeps_fetch: "keeps R (fetch table P)"
  by (simp_all add: keeps_def R_refl)

lemma keeps_run_if: "(b \<Longrightarrow> keeps R m) \<Longrightarrow> keeps R (run_if b m)"
  by (simp add: run_if_def keeps_ret)

lemma keeps_run_all_Nil: "keeps R (run_all [])"
  and keeps_run_all_Cons: "keeps R m \<Longrightarrow> keeps R (run_all ms) \<Longrightarrow> keeps R (run_all (m # ms))"
  by (simp_all add: keeps_ret keeps_andthen)

lemma keeps_for_each: "(\<And>x. x \<in> set xs \<Longrightarrow> keeps R (f x)) \<Longrightarrow> keeps R (for_each f xs)"
  by (induction xs) (simp_all add: keeps_ret keeps_andthen)

lemma keeps_try_catch: "keeps R m \<Longrightarrow> (\<And>e. keeps R (h e)) \<Longrightarrow> keeps R (try_catch m h)"
  unfolding keeps_def try_catch_def
  by (auto split: prod.split sum.split) (metis R_trans snd_conv)+

lemma keeps_if: "(b \<Longrightarrow> keeps R m) \<Longrightarrow> (\<not> b \<Longrightarrow> keeps R m') \<Longrightarrow> keeps R (if b then m else m')"
  by simp

lemma keeps_option: "(x = None \<Longrightarrow> keeps R m) \<Longrightarrow> (\<And>y. x = Some y \<Longrightarrow> keeps R (k y)) \<Longrightarrow>
    keeps R (case x of None \<Rightarrow> m | Some y \<Rightarrow> k y)"
  by (cases x) simp_all

lemma keeps_sum: "(\<And>y. x = Inl y \<Longrightarrow> keeps R (m y)) \<Longrightarrow> (\<And>y. x = Inr y \<Longrightarrow> keeps R (k y)) \<Longrightarrow>
    keeps R (case x of Inl y \<Rightarrow> m y | Inr y \<Rightarrow> k y)"
  by (cases x) simp_all

lemma keeps_prod: "(\<And>a b. x = (a, b) \<Longrightarrow> keeps R (m a b)) \<Longrightarrow> keeps R (case x of (a, b) \<Rightarrow> m a b)"
  by (cases x) simp

lemma keeps_fresh: "keeps R (fresh_id pfx)"
  by (simp add: keeps_def fresh_id_def R_draws)

lemma keeps_insert_row:
  "(\<And>w. \<forall>x \<in> set (table w). \<not> clash x r \<Longrightarrow> R w (upd (\<lambda>rows. rows @ [r]) w)) \<Longrightarrow>
     keeps R (insert_row table upd constraint clash r)"
  by (simp add: keeps_def insert_row_def bnd_def R_refl)

lemma keeps_primitive: "(\<And>w. R w (snd (m w))) \<Longrightarrow> keeps R m"
  by (simp add: keeps_def)

lemma keeps_modify: "(\<And>w. R w (upd w)) \<Longrightarrow> keeps R (modify upd)"
  by (simp add: keeps_def)

lemma keeps_audit: "keeps R (record_audit env t actor action tt ti corr payload)"
  unfolding record_audit_def
  by (intro keeps_bnd keeps_fresh)
    (simp add: keeps_def R_audit audit_row_def canonical_payload_def Let_def)

lemma keeps_transition: "ok_target target \<Longrightarrow> keeps R (transition_inspection env iid t target actor reason corr)"
  by (simp add: keeps_def R_transition)

lemma keeps_add_inspection:
  "(\<And>iid. insp_tenant (mk iid) = t \<and> insp_id (mk iid) = iid \<and> insp_status (mk iid) = RECEIVED) \<Longrightarrow>
     keeps R (add_inspection mk)"
  by (rule keeps_primitive) (rule R_add_inspection)

lemma keeps_updates:
  shows "keeps R (set_failure_reason iid t m)"
    and "(\<And>ci. incident_identity (h ci) = incident_identity ci) \<Longrightarrow> keeps R (update_incident cid t h)"
    and "(\<And>x. action_identity (q x) = action_identity x) \<Longrightarrow> keeps R (update_action xid t q)"
    and "(\<And>r. event_identity (e r) = event_identity r) \<Longrightarrow> keeps R (update_event eid t e)"
    and "(\<And>y. gwy_tenant (gu y) = gwy_tenant y) \<Longrightarrow> keeps R (update_gateway gid t gu)"
    and "(\<And>x. dataset_identity (dsu x) = dataset_identity x \<and> ds_status (dsu x) = ''REVOKED'') \<Longrightarrow>
      keeps R (update_dataset did t dsu)"
  by (simp_all add: keeps_def R_failure R_incident_update R_action_update R_event_update R_gateway_update
      R_dataset_update)

lemma keeps_task_update:
  "(\<And>k. P k \<Longrightarrow> rev_tenant k = t \<and> rev_status k = ''OPEN'' \<and> rev_tenant (g k) = t \<and> rev_id (g k) = rev_id k \<and> rev_inspection_id (g k) = rev_inspection_id k) \<Longrightarrow>
     keeps R (update_review_tasks P g)"
  unfolding update_review_tasks_def by (rule keeps_modify) (rule R_task_update)

lemma keeps_inserts:
  shows "img_tenant im = t \<Longrightarrow> keeps R (insert_image_asset im)"
    and "inf_tenant f = t \<Longrightarrow> keeps R (insert_inference_result f)"
    and "pol_tenant p = t \<Longrightarrow> keeps R (insert_policy_decision p)"
    and "rev_tenant k = t \<Longrightarrow> rev_status k = ''OPEN'' \<Longrightarrow> keeps R (insert_review_task k)"
    and "rdec_tenant d = t \<Longrightarrow> keeps R (insert_review_decision d)"
    and "inc_tenant ci = t \<Longrightarrow> keeps R (insert_incident ci)"
    and "ext_tenant x' = t \<Longrightarrow> keeps R (insert_external_action x')"
    and "evt_tenant ev = t \<Longrightarrow> evt_topic ev \<noteq> ''external_action.requested'' \<Longrightarrow> keeps R (insert_outbox_event ev)"
    and "gwy_tenant gw = t \<Longrightarrow> keeps R (insert_gateway gw)"
    and "dep_tenant dp = t \<Longrightarrow> dep_status dp = ''DRAFT'' \<Longrightarrow> keeps R (insert_deployment dp)"
    and "mq_tenant mq = t \<Longrightarrow> mq_status mq = ''DRAFT'' \<Longrightarrow> keeps R (insert_qualification mq)"
    and "ds_tenant ds = t \<Longrightarrow> sound_dataset ds \<Longrightarrow> keeps R (insert_dataset ds)"
  unfolding insert_image_asset_def insert_inference_result_def insert_policy_decision_def insert_review_task_def
    insert_review_decision_def insert_incident_def insert_external_action_def insert_outbox_event_def insert_gateway_def
    insert_deployment_def insert_qualification_def insert_dataset_def
  by (intro keeps_if keeps_throw keeps_insert_row keeps_modify
      R_image R_inference R_policy R_task R_decision R_incident R_action R_event
      R_gateway R_deployment R_qualification R_dataset; simp)+

text \<open>The event of an external action is written after the row of the action.\<close>

lemma keeps_action_event:
  assumes "evt_tenant ev = t"
  shows "keeps R (insert_action_event ev)"
proof -
  have "R w (outbox_events_update (\<lambda>rows. rows @ [ev]) w)"
    if "\<exists>x \<in> set (external_actions w). is_action (evt_aggregate_id ev) t x" for w
    using assms that by (rule R_event)
  then show ?thesis
    unfolding insert_action_event_def flush_action_def insert_outbox_event_def keeps_def assms
    by (auto simp: andthen_def bnd_def find_None_iff2 R_refl split: option.split dest!: find_Some_iff_set)
qed

lemma keeps_put_immutable: "keeps R (put_immutable env key data)"
  unfolding put_immutable_def
  by (intro keeps_option keeps_throw keeps_bnd keeps_query keeps_if keeps_andthen keeps_ret)
    (simp add: keeps_def R_objects)

lemmas keeps_intros = keeps_bnd keeps_andthen keeps_ret keeps_throw keeps_query keeps_fetch keeps_run_if
  keeps_run_all_Nil keeps_run_all_Cons keeps_for_each keeps_try_catch keeps_if keeps_option keeps_sum keeps_prod
  keeps_fresh keeps_audit keeps_transition keeps_add_inspection keeps_updates keeps_task_update keeps_inserts
  keeps_action_event keeps_put_immutable

end

end
