(* ===== verification/Auth.thy ===== *)
theory Auth
  imports ServiceCore
begin

text \<open>
  \<^verbatim>\<open>backend/app/auth.py\<close>: roles, the principal read from a bearer token, and the role
  check in front of an endpoint. The signature check of the JWT library is a parameter: it yields the
  claims of a token it accepts.
\<close>

datatype Role = INSPECTOR | EDGE_GATEWAY | QUALITY_MANAGER | ML_ENGINEER | ADMIN | AUDITOR | FDE

fun role_value :: "Role \<Rightarrow> string" where
  "role_value INSPECTOR = ''inspector''"
| "role_value EDGE_GATEWAY = ''edge_gateway''"
| "role_value QUALITY_MANAGER = ''quality_manager''"
| "role_value ML_ENGINEER = ''ml_engineer''"
| "role_value ADMIN = ''admin''"
| "role_value AUDITOR = ''auditor''"
| "role_value FDE = ''fde''"

definition all_roles :: "Role list" where
  "all_roles = [INSPECTOR, EDGE_GATEWAY, QUALITY_MANAGER, ML_ENGINEER, ADMIN, AUDITOR, FDE]"

text \<open>\<open>Role(value)\<close>, with ValueError as \<open>None\<close>.\<close>

definition parse_role :: "string \<Rightarrow> Role option" where
  "parse_role v = find (\<lambda>r. role_value r = v) all_roles"

fun parse_roles :: "json list \<Rightarrow> Role list option" where
  "parse_roles [] = Some []"
| "parse_roles (JStr v # vs) =
     (case (parse_role v, parse_roles vs) of (Some r, Some rs) \<Rightarrow> Some (r # rs) | _ \<Rightarrow> None)"
| "parse_roles (_ # vs) = None"

record Principal =
  actor_id :: string
  tenant_id :: string
  roles :: "Role set"

text \<open>The claims of a new token, with \<open>expires_minutes or settings.access_token_minutes\<close>; the library
  writes the two times in seconds.\<close>

definition access_token_claims ::
  "string \<Rightarrow> int \<Rightarrow> time \<Rightarrow> string \<Rightarrow> string \<Rightarrow> Role list \<Rightarrow> int option \<Rightarrow> (string \<times> json) list" where
  "access_token_claims issuer token_minutes now actor tname rs expires_minutes =
     [(''sub'', JStr actor), (''tenant_id'', JStr tname),
      (''roles'', JList (map (\<lambda>r. JStr (role_value r)) rs)), (''iss'', JStr issuer),
      (''iat'', JInt (now div 1000000)),
      (''exp'', JInt ((now + 60 * 1000000 *
         (case expires_minutes of None \<Rightarrow> token_minutes | Some m \<Rightarrow> if m = 0 then token_minutes else m))
           div 1000000))]"

text \<open>\<open>get_principal\<close>: no credentials, a token the library refuses, an unknown role or a missing
  claim are all 401. The claims of an accepted token are a dict.\<close>

definition principal_of_claims :: "(string \<times> json) list \<Rightarrow> Principal option" where
  "principal_of_claims claims =
     (case (case jget ''roles'' claims of None \<Rightarrow> Some [] | Some (JList vs) \<Rightarrow> parse_roles vs | Some _ \<Rightarrow> None) of
        None \<Rightarrow> None
      | Some rs \<Rightarrow>
          (case (jget ''sub'' claims, jget ''tenant_id'' claims) of
             (Some (JStr a), Some (JStr t)) \<Rightarrow> Some \<lparr>actor_id = a, tenant_id = t, roles = set rs\<rparr>
           | _ \<Rightarrow> None))"

definition get_principal ::
  "(string \<Rightarrow> (string \<times> json) list option) \<Rightarrow> string option \<Rightarrow> exn + Principal" where
  "get_principal decode credentials = (case credentials of
     None \<Rightarrow> Inl (HTTPException 401 ''authentication required'')
   | Some token \<Rightarrow>
       (case decode token of
          None \<Rightarrow> Inl (HTTPException 401 ''invalid access token'')
        | Some claims \<Rightarrow>
            (case principal_of_claims claims of
               None \<Rightarrow> Inl (HTTPException 401 ''invalid access token'')
             | Some p \<Rightarrow> Inr p)))"

definition require_roles :: "Role list \<Rightarrow> Principal \<Rightarrow> exn + Principal" where
  "require_roles allowed pr =
     (if roles pr \<inter> set allowed = {} then Inl (HTTPException 403 ''insufficient role'') else Inr pr)"

lemma parse_role_value [simp]: "parse_role (role_value r) = Some r"
  by (cases r) (simp_all add: parse_role_def all_roles_def)

lemma parse_roles_values: "parse_roles (map (\<lambda>r. JStr (role_value r)) rs) = Some rs"
  by (induction rs) simp_all

text \<open>Round trip of the identity: a token minted for an actor, a tenant and a list of roles, once
  the JWT library accepts it with the claims it was minted with, authenticates exactly that actor of
  that tenant with exactly these roles.\<close>

theorem token_roundtrip:
  assumes "decode token = Some (access_token_claims issuer token_minutes now actor tname rs expires_minutes)"
  shows "get_principal decode (Some token) = Inr \<lparr>actor_id = actor, tenant_id = tname, roles = set rs\<rparr>"
  using assms
  by (simp add: get_principal_def principal_of_claims_def access_token_claims_def jget_def parse_roles_values)

theorem token_roundtrip_witness:
  "get_principal (\<lambda>_. Some (access_token_claims ''visionqc'' 60 0 ''inspector-1'' ''factory-a'' [INSPECTOR] None))
     (Some ''token'') = Inr \<lparr>actor_id = ''inspector-1'', tenant_id = ''factory-a'', roles = {INSPECTOR}\<rparr>"
  by (rule token_roundtrip [where rs = "[INSPECTOR]", simplified]) simp

end
