(* ===== verification/Inspections.thy ===== *)
theory Inspections
  imports Auth
begin

text \<open>
  The intake and the routing of an inspection in \<^verbatim>\<open>backend/app/services.py\<close>: image
  validation, the request fingerprint, the parsing of the customer's fields under the active pack, the
  creation of an inspection with its replay by idempotency key, the model run with its fail-safe, and
  the policy decision.
\<close>

section \<open>Image validation and the fingerprint\<close>

record ValidatedImage =
  vi_data :: string
  vi_sha256 :: string
  vi_mime_type :: string
  vi_extension :: string
  vi_width :: nat
  vi_height :: nat

definition allowed_type :: "string option \<Rightarrow> (string \<times> string) option" where
  "allowed_type content_type =
     (if content_type = Some ''image/jpeg'' then Some (''JPEG'', ''jpg'')
      else if content_type = Some ''image/png'' then Some (''PNG'', ''png'') else None)"

definition validate_image :: "env \<Rightarrow> string \<Rightarrow> string option \<Rightarrow> exn + ValidatedImage" where
  "validate_image env data content_type =
     (if data = [] then Inl (ServiceError InvalidInput ''empty image upload'' None)
      else if length data > max_upload_bytes (settings env)
      then Inl (ServiceError InvalidInput ''image exceeds configured byte limit'' None)
      else case allowed_type content_type of
        None \<Rightarrow> Inl (ServiceError InvalidInput ''only JPEG and PNG images are accepted'' None)
      | Some (expected_format, extension) \<Rightarrow>
          (case decode_image env data of
             NotDecoded \<Rightarrow> Inl (ServiceError InvalidInput ''image cannot be safely decoded'' None)
           | DecodeRaises exc \<Rightarrow> Inl (OtherError exc '''')
           | Decoded detected_format width height \<Rightarrow>
               if detected_format \<noteq> expected_format
               then Inl (ServiceError InvalidInput ''declared content type does not match decoded image'' None)
               else if width \<le> 0 \<or> height \<le> 0 \<or> width * height > max_image_pixels (settings env)
               then Inl (ServiceError InvalidInput ''image dimensions exceed configured safety limits'' None)
               else Inr \<lparr>vi_data = data, vi_sha256 = sha256 env data, vi_mime_type = the content_type,
                         vi_extension = extension, vi_width = width, vi_height = height\<rparr>))"

record InspectionContext =
  cx_product_code :: string
  cx_product_revision :: "string option"
  cx_batch_no :: string
  cx_station_code :: string
  cx_captured_at :: datetime
  cx_source :: string

definition validate_context :: "InspectionContext \<Rightarrow> string + unit" where
  "validate_context c = ensure_all
     [(len_between 1 128 (cx_product_code c), ''product_code''),
      (case cx_product_revision c of None \<Rightarrow> True | Some r \<Rightarrow> length r \<le> 64, ''product_revision''),
      (len_between 1 128 (cx_batch_no c), ''batch_no''),
      (len_between 1 128 (cx_station_code c), ''station_code''),
      (len_between 1 64 (cx_source c), ''source'')]"

definition fingerprint_payload :: "ValidatedImage \<Rightarrow> InspectionContext \<Rightarrow> json" where
  "fingerprint_payload img context =
     JObj [(''image_sha256'', JStr (vi_sha256 img)), (''product_code'', JStr (cx_product_code context)),
       (''product_revision'', JOpt (cx_product_revision context)), (''batch_no'', JStr (cx_batch_no context)),
       (''station_code'', JStr (cx_station_code context)),
       (''captured_at'', JStr (dt_iso (cx_captured_at context))), (''source'', JStr (cx_source context))]"

definition request_fingerprint :: "env \<Rightarrow> ValidatedImage \<Rightarrow> InspectionContext \<Rightarrow> string" where
  "request_fingerprint env img context = sha256 env (dumps env (sort_keys (fingerprint_payload img context)))"

section \<open>The active deployment\<close>

definition active_deployment :: "string \<Rightarrow> DeploymentPack svc" where
  "active_deployment tid =
     bnd (fetch deployment_packs (\<lambda>d. dep_tenant d = tid \<and> dep_status d = ''ACTIVE'')) (\<lambda>found.
     case found of
       None \<Rightarrow> raise_error DependencyUnavailable ''no active deployment pack is configured for this tenant''
     | Some d \<Rightarrow> ret d)"

definition deployment_manifest :: "DeploymentPack \<Rightarrow> DeploymentManifest svc" where
  "deployment_manifest d =
     (case dep_manifest d of
        Some m \<Rightarrow>
          (case validate_manifest m of
             Inr _ \<Rightarrow> ret m
           | Inl _ \<Rightarrow> throw (ServiceError DependencyUnavailable ''active deployment pack manifest is invalid''
               (Some (JObj [(''deployment_id'', JStr (dep_id d))]))))
      | None \<Rightarrow>
          bnd (fetch tenants (\<lambda>t. ten_id t = dep_tenant d)) (\<lambda>found.
          let tenant_name = (case found of None \<Rightarrow> dep_tenant d | Some t \<Rightarrow> ten_name t) in
          case andThen (validate_policy (dep_policy_config d)) (\<lambda>_.
                 legacy_manifest (dep_tenant d) tenant_name (dep_version d) (dep_model_config_snapshot d)
                   (dep_policy_config d) (dep_connector_config d)) of
            Inr m \<Rightarrow> ret m
          | Inl _ \<Rightarrow> throw (ServiceError DependencyUnavailable ''legacy deployment pack configuration is invalid''
              (Some (JObj [(''deployment_id'', JStr (dep_id d))])))))"

text \<open>\<open>_assert_gateway_pack_binding\<close>.\<close>

definition assert_gateway_pack_binding :: "Principal \<Rightarrow> DeploymentManifest \<Rightarrow> unit svc" where
  "assert_gateway_pack_binding pr m =
     (if EDGE_GATEWAY \<notin> roles pr then ret ()
      else case edge_gateway m of
        None \<Rightarrow> raise_error Forbidden ''gateway identity is not registered by the active deployment pack''
      | Some g \<Rightarrow>
          if eg_gateway_id g \<noteq> actor_id pr
          then raise_error Forbidden ''gateway identity is not registered by the active deployment pack''
          else ret ())"

section \<open>Reading the customer's fields\<close>

text \<open>A submitted form field is a text or (\<open>None\<close>) something else.\<close>

type_synonym form = "(string \<times> string option) list"

text \<open>\<open>{key!r}\<close> of a text without quotes or escapes.\<close>

definition py_repr :: "string \<Rightarrow> string" where
  "py_repr s = [CHR 0x27] @ s @ [CHR 0x27]"

definition read_field :: "DeploymentManifest \<Rightarrow> form \<Rightarrow> string \<Rightarrow> exn + string" where
  "read_field m ff canonical_name =
     (case key_for (field_mapping m) canonical_name of
        None \<Rightarrow> Inl (OtherError ''KeyError'' canonical_name)
      | Some submitted_key \<Rightarrow>
          (case map_of ff submitted_key of
             Some (Some value) \<Rightarrow>
               if strip value \<noteq> [] then Inr (strip value)
               else Inl (ServiceError InvalidInput (''required deployment field '' @ py_repr submitted_key @ '' is missing'')
                 (Some (JObj [(''canonical_field'', JStr canonical_name),
                    (''submitted_field'', JStr submitted_key), (''deployment_pack'', JStr (pack_key m))])))
           | _ \<Rightarrow> Inl (ServiceError InvalidInput (''required deployment field '' @ py_repr submitted_key @ '' is missing'')
                 (Some (JObj [(''canonical_field'', JStr canonical_name),
                    (''submitted_field'', JStr submitted_key), (''deployment_pack'', JStr (pack_key m))])))))"

definition read_optional_field :: "DeploymentManifest \<Rightarrow> form \<Rightarrow> string \<Rightarrow> string option" where
  "read_optional_field m ff canonical_name =
     (case key_for (field_mapping m) canonical_name of
        None \<Rightarrow> None
      | Some submitted_key \<Rightarrow>
          (case map_of ff submitted_key of
             Some (Some value) \<Rightarrow> if strip value \<noteq> [] then Some (strip value) else None
           | _ \<Rightarrow> None))"

definition build_context :: "env \<Rightarrow> DeploymentManifest \<Rightarrow> form \<Rightarrow> exn + InspectionContext" where
  "build_context env m ff =
     andThen (read_field m ff ''product_code'') (\<lambda>pc.
     andThen (read_field m ff ''batch_no'') (\<lambda>batch.
     andThen (read_field m ff ''station_code'') (\<lambda>sc.
     andThen (read_field m ff ''captured_at'') (\<lambda>captured.
     case parse_datetime env captured of
       None \<Rightarrow> Inl (OtherError ''ValidationError'' ''captured_at'')
     | Some dt \<Rightarrow>
         let context = \<lparr>cx_product_code = pc,
               cx_product_revision = read_optional_field m ff ''product_revision'',
               cx_batch_no = batch, cx_station_code = sc, cx_captured_at = dt,
               cx_source = or_else (read_optional_field m ff ''source'') ''api''\<rparr> in
         (case validate_context context of
            Inl field \<Rightarrow> Inl (OtherError ''ValidationError'' field)
          | Inr _ \<Rightarrow> Inr context)))))"

definition lift_result :: "exn + 'a \<Rightarrow> 'a svc" where
  "lift_result r = (case r of Inl e \<Rightarrow> throw e | Inr a \<Rightarrow> ret a)"

definition context_from_fields :: "env \<Rightarrow> Principal \<Rightarrow> form \<Rightarrow> InspectionContext svc" where
  "context_from_fields env pr ff =
     bnd (active_deployment (tenant_id pr)) (\<lambda>d.
     bnd (deployment_manifest d) (\<lambda>m.
     bnd (lift_result (build_context env m ff)) (\<lambda>context.
     if resolve_product m (cx_product_code context) = None
     then throw (ServiceError InvalidInput ''product is not enabled by the active deployment pack''
       (Some (JObj [(''product_code'', JStr (cx_product_code context)),
          (''allowed_products'', JList (map (\<lambda>p. JStr (pd_code p)) (products m)))])))
     else if resolve_station m (cx_station_code context) = None
     then throw (ServiceError InvalidInput ''station is not enabled by the active deployment pack''
       (Some (JObj [(''station_code'', JStr (cx_station_code context)),
          (''allowed_stations'', JList (map (\<lambda>s. JStr (st_code s)) (stations m)))])))
     else ret context)))"

section \<open>The response\<close>

record InspectionResponse =
  ir_inspection :: Inspection
  ir_images :: "ImageAsset list"
  ir_model :: "InferenceResult option"
  ir_policy :: "PolicyDecision option"
  ir_review_task_id :: "string option"
  ir_incident_id :: "string option"
  ir_idempotent_replay :: bool

text \<open>The result with the highest attempt number comes first.\<close>

definition latest_inference :: "string \<Rightarrow> string \<Rightarrow> world \<Rightarrow> InferenceResult option" where
  "latest_inference iid tid w =
     (case sort_key (\<lambda>r. - int (inf_attempt r))
        (filter (\<lambda>r. inf_inspection_id r = iid \<and> inf_tenant r = tid) (inference_results w)) of
        [] \<Rightarrow> None | r # _ \<Rightarrow> Some r)"

definition policy_of :: "string \<Rightarrow> string \<Rightarrow> world \<Rightarrow> PolicyDecision option" where
  "policy_of iid tid w = find (\<lambda>p. pol_inspection_id p = iid \<and> pol_tenant p = tid) (policy_decisions w)"

definition review_of :: "string \<Rightarrow> string \<Rightarrow> world \<Rightarrow> ReviewTask option" where
  "review_of iid tid w = find (\<lambda>r. rev_inspection_id r = iid \<and> rev_tenant r = tid) (review_tasks w)"

definition incident_of :: "string \<Rightarrow> string \<Rightarrow> world \<Rightarrow> QualityIncident option" where
  "incident_of iid tid w = find (\<lambda>c. inc_inspection_id c = iid \<and> inc_tenant c = tid) (quality_incidents w)"

definition response_of :: "Inspection \<Rightarrow> bool \<Rightarrow> world \<Rightarrow> InspectionResponse" where
  "response_of i replay w =
     \<lparr>ir_inspection = i,
      ir_images = sort_key img_created_at
        (filter (\<lambda>a. img_inspection_id a = insp_id i \<and> img_tenant a = insp_tenant i) (image_assets w)),
      ir_model = latest_inference (insp_id i) (insp_tenant i) w,
      ir_policy = policy_of (insp_id i) (insp_tenant i) w,
      ir_review_task_id = map_option rev_id (review_of (insp_id i) (insp_tenant i) w),
      ir_incident_id = map_option inc_id (incident_of (insp_id i) (insp_tenant i) w),
      ir_idempotent_replay = replay\<rparr>"

text \<open>\<open>inspection_response\<close> for the row an inspection reference points to.\<close>

definition inspection_response :: "string \<Rightarrow> string \<Rightarrow> bool \<Rightarrow> InspectionResponse svc" where
  "inspection_response iid tid replay =
     bnd (query (\<lambda>w. (lookup_inspection iid tid w, w))) (\<lambda>(found, w).
     case found of
       None \<Rightarrow> throw (OtherError ''ObjectDeletedError'' iid)
     | Some i \<Rightarrow> ret (response_of i replay w))"

definition get_inspection :: "string \<Rightarrow> string \<Rightarrow> InspectionResponse svc" where
  "get_inspection tid iid =
     bnd (fetch inspections (is_inspection iid tid)) (\<lambda>found.
     case found of
       None \<Rightarrow> raise_error NotFound ''inspection not found''
     | Some i \<Rightarrow> inspection_response (insp_id i) (insp_tenant i) False)"

definition list_inspections :: "string \<Rightarrow> nat \<Rightarrow> InspectionResponse list svc" where
  "list_inspections tid limit = query (\<lambda>w.
     map (\<lambda>i. response_of i False w)
       (take limit (sort_key (\<lambda>i. - insp_created_at i) (filter (\<lambda>i. insp_tenant i = tid) (inspections w)))))"

definition get_image_asset :: "string \<Rightarrow> string \<Rightarrow> ImageAsset svc" where
  "get_image_asset tid asset_id =
     bnd (fetch image_assets (\<lambda>a. img_id a = asset_id \<and> img_tenant a = tid)) (\<lambda>found.
     case found of None \<Rightarrow> raise_error NotFound ''image asset not found'' | Some a \<Rightarrow> ret a)"

section \<open>Routing an inspection\<close>

text \<open>\<open>_ensure_review_task\<close>.\<close>

definition ensure_review_task :: "env \<Rightarrow> string \<Rightarrow> string \<Rightarrow> unit svc" where
  "ensure_review_task env iid tid =
     bnd (query (\<lambda>w. (review_of iid tid w, lookup_inspection iid tid w, clock w))) (\<lambda>(task, insp, now).
     case (task, insp) of
       (Some t, _) \<Rightarrow> ret ()
     | (None, None) \<Rightarrow> throw (OtherError ''ObjectDeletedError'' iid)
     | (None, Some i) \<Rightarrow>
         bnd (fresh_id ''rev'') (\<lambda>rid.
         andthen (insert_review_task \<lparr>rev_id = rid, rev_tenant = tid, rev_inspection_id = iid,
             rev_status = ''OPEN'', rev_assignee = None, rev_sla_at = None, rev_version = 1,
             rev_created_at = now\<rparr>)
         (record_audit env tid ''system:policy'' ''review.required'' ''review_task'' rid
            (insp_correlation_id i)
            (JObj [(''inspection_status'', JStr (status_value (insp_status i)))]))))"

text \<open>\<open>_mark_inference_outbox_processed\<close>.\<close>

definition mark_inference_outbox_processed :: "string \<Rightarrow> string \<Rightarrow> unit svc" where
  "mark_inference_outbox_processed iid tid =
     bnd (fetch outbox_events (\<lambda>e. evt_aggregate_id e = iid \<and> evt_tenant e = tid \<and>
            evt_topic e = ''inspection.inference_requested'' \<and> evt_status e = ''PENDING'')) (\<lambda>found.
     bnd (query clock) (\<lambda>now.
     case found of
       None \<Rightarrow> ret ()
     | Some e \<Rightarrow> update_event (evt_id e) tid
         (\<lambda>r. r\<lparr>evt_status := ''PROCESSED'', evt_processed_at := Some now\<rparr>)))"

definition kind_name :: "error_kind \<Rightarrow> string" where
  "kind_name k = (case k of NotFound \<Rightarrow> ''NotFound'' | Conflict \<Rightarrow> ''Conflict'' | Forbidden \<Rightarrow> ''Forbidden''
     | InvalidInput \<Rightarrow> ''InvalidInput'' | DependencyUnavailable \<Rightarrow> ''DependencyUnavailable'')"

definition exn_type :: "exn \<Rightarrow> string" where
  "exn_type e = (case e of ServiceError k m d \<Rightarrow> kind_name k | OtherError t m \<Rightarrow> t
     | HTTPException c m \<Rightarrow> ''HTTPException'')"

text \<open>The body of the \<open>try\<close> in \<open>process_inference\<close>: the original image, the pack it was received
  under, and the model's output on the stored bytes.\<close>

definition run_model :: "env \<Rightarrow> Inspection \<Rightarrow> (ImageAsset \<times> DeploymentManifest \<times> ModelOutput) svc" where
  "run_model env i =
     bnd (fetch image_assets (\<lambda>a. img_inspection_id a = insp_id i \<and> img_tenant a = insp_tenant i \<and>
            img_kind a = ''ORIGINAL'')) (\<lambda>original.
     case original of
       None \<Rightarrow> throw (OtherError ''ModelUnavailable'' ''original image evidence missing'')
     | Some a \<Rightarrow>
         bnd (fetch deployment_packs (is_deployment (insp_deployment_pack_id i) (insp_tenant i))) (\<lambda>found.
         case found of
           None \<Rightarrow> throw (OtherError ''ModelUnavailable'' ''deployment pack evidence missing'')
         | Some d \<Rightarrow>
             bnd (deployment_manifest d) (\<lambda>m.
             bnd (query (get_object (img_uri a))) (\<lambda>stored.
             case stored of
               Inl exc \<Rightarrow> throw (OtherError exc '''')
             | Inr data \<Rightarrow>
                 (case infer env data of
                    Inl exc \<Rightarrow> throw (OtherError exc '''')
                  | Inr output \<Rightarrow> ret (a, m, output))))))"

text \<open>The handler of the \<open>try\<close>: no output means review, never release.\<close>

definition inference_failed :: "env \<Rightarrow> string \<Rightarrow> string \<Rightarrow> string \<Rightarrow> unit svc" where
  "inference_failed env iid tid reason =
     run_all
      [set_failure_reason iid tid reason,
       transition_inspection env iid tid INFERENCE_FAILED ''system:model-worker'' reason None,
       transition_inspection env iid tid REVIEW_REQUIRED ''system:policy''
         ''fail-safe routing; automatic release prohibited'' None,
       ensure_review_task env iid tid,
       mark_inference_outbox_processed iid tid]"

definition target_of_route :: "PolicyRoute \<Rightarrow> InspectionStatus" where
  "target_of_route r = (case r of AUTO_RELEASE \<Rightarrow> AUTO_RELEASED | BATCH_HOLD_AND_REVIEW \<Rightarrow> BATCH_HELD
     | MANUAL_REVIEW \<Rightarrow> REVIEW_REQUIRED)"

text \<open>The rows of a successful model run, up to the status SCORED.\<close>

definition record_result ::
  "env \<Rightarrow> Inspection \<Rightarrow> ImageAsset \<Rightarrow> DeploymentManifest \<Rightarrow> ModelOutput \<Rightarrow> unit svc" where
  "record_result env i original m output =
     (let heatmap_hash = sha256 env (mo_heatmap_png output);
          heatmap_key = insp_tenant i @ ''/heatmaps/'' @ insp_id i @ ''/'' @ heatmap_hash @ ''.png'' in
      bnd (put_immutable env heatmap_key (mo_heatmap_png output)) (\<lambda>heatmap_uri.
      bnd (query clock) (\<lambda>now.
      bnd (fresh_id ''img'') (\<lambda>aid.
      bnd (fresh_id ''inf'') (\<lambda>fid.
      run_all
       [insert_image_asset \<lparr>img_id = aid, img_tenant = insp_tenant i, img_inspection_id = insp_id i,
          img_kind = ''HEATMAP'', img_sha256 = heatmap_hash, img_uri = heatmap_uri,
          img_mime_type = ''image/png'', img_width = img_width original, img_height = img_height original,
          img_source = ''model'', img_created_at = now\<rparr>,
        insert_inference_result \<lparr>inf_id = fid, inf_tenant = insp_tenant i, inf_inspection_id = insp_id i,
          inf_attempt = 1, inf_model_id = md_id (model m), inf_model_version = md_version (model m),
          inf_feature_bank_version = md_feature_bank_version (model m),
          inf_runtime_device = mo_runtime_device output, inf_score = mo_score output,
          inf_heatmap_uri = heatmap_uri, inf_latency_ms = mo_latency_ms output,
          inf_semantic_defect_confirmed = False\<rparr>,
        transition_inspection env (insp_id i) (insp_tenant i) SCORED ''system:model-worker''
          ''immutable model result saved'' None])))))"

definition decide_policy :: "env \<Rightarrow> Inspection \<Rightarrow> DeploymentManifest \<Rightarrow> rat \<Rightarrow> unit svc" where
  "decide_policy env i m score =
     (case evaluate_policy (Some score) (Some (policy m)) (insp_product_code i) (insp_station_code i) of
        Inl message \<Rightarrow> throw (OtherError ''ValueError'' message)
      | Inr evaluation \<Rightarrow>
          bnd (fresh_id ''pol'') (\<lambda>pid.
          run_all
           [insert_policy_decision \<lparr>pol_id = pid, pol_tenant = insp_tenant i, pol_inspection_id = insp_id i,
              pol_policy_version = policy_version (policy m), pol_decision = ev_route evaluation,
              pol_reason = ev_reason evaluation, pol_snapshot_policy = policy m,
              pol_resolved_review_threshold = ev_review_threshold evaluation,
              pol_resolved_hold_threshold = ev_hold_threshold evaluation\<rparr>,
            transition_inspection env (insp_id i) (insp_tenant i) (target_of_route (ev_route evaluation))
              ''system:policy'' (ev_reason evaluation) None,
            run_if (ev_route evaluation \<noteq> AUTO_RELEASE) (ensure_review_task env (insp_id i) (insp_tenant i)),
            mark_inference_outbox_processed (insp_id i) (insp_tenant i)]))"

text \<open>The rest of \<open>process_inference\<close> once the model has answered.\<close>

definition route_result ::
  "env \<Rightarrow> Inspection \<Rightarrow> ImageAsset \<Rightarrow> DeploymentManifest \<Rightarrow> ModelOutput \<Rightarrow> unit svc" where
  "route_result env i original m output =
     andthen (record_result env i original m output) (decide_policy env i m (mo_score output))"

definition process_inference :: "env \<Rightarrow> string \<Rightarrow> string option \<Rightarrow> unit svc" where
  "process_inference env iid tid =
     bnd (fetch inspections (\<lambda>i. insp_id i = iid \<and> (case tid of None \<Rightarrow> True | Some t \<Rightarrow> insp_tenant i = t)))
     (\<lambda>found.
     case found of
       None \<Rightarrow> ret ()
     | Some i \<Rightarrow>
         if insp_status i \<noteq> VALIDATED then ret ()
         else
           andthen (transition_inspection env (insp_id i) (insp_tenant i) INFERENCING ''system:model-worker''
             ''model invocation started'' None)
           (bnd (try_catch (bnd (run_model env i) (\<lambda>r. ret (Inr r))) (\<lambda>e. ret (Inl e))) (\<lambda>outcome.
            case outcome of
              Inl e \<Rightarrow> inference_failed env (insp_id i) (insp_tenant i) (''model unavailable: '' @ exn_type e)
            | Inr (original, m, output) \<Rightarrow> route_result env i original m output)))"

section \<open>Creating an inspection\<close>

text \<open>\<open>_record_security_rejection\<close> commits in a session of its own.\<close>

definition record_security_rejection :: "env \<Rightarrow> Principal \<Rightarrow> string \<Rightarrow> string \<Rightarrow> string \<Rightarrow> unit svc" where
  "record_security_rejection env pr idempotency_key correlation_id reason =
     bnd (fetch tenants (\<lambda>t. ten_id t = tenant_id pr)) (\<lambda>found.
     case found of
       None \<Rightarrow> ret ()
     | Some t \<Rightarrow>
         bnd (fresh_id ''aud'') (\<lambda>aid.
         modify (\<lambda>w. w\<lparr>side_audits := side_audits w @
           [audit_row env aid (clock w) (tenant_id pr) (actor_id pr) ''security.upload_rejected'' ''upload''
              (take 32 (sha256 env idempotency_key)) correlation_id (JObj [(''reason'', JStr reason)])]\<rparr>)))"

text \<open>Everything from the check of the tenant on: the pack, the inspection row (a clash with a row that
  another session committed since the lookup is answered as a replay or a conflict), the stored image,
  the first status change, the outbox event, and the model run when processing is inline.\<close>

definition same_request :: "string \<Rightarrow> string \<Rightarrow> Inspection \<Rightarrow> bool" where
  "same_request tid idempotency_key i \<longleftrightarrow> insp_tenant i = tid \<and> insp_idempotency_key i = idempotency_key"

definition concurrent_replay :: "string \<Rightarrow> string \<Rightarrow> string \<Rightarrow> InspectionResponse svc" where
  "concurrent_replay tid idempotency_key fingerprint =
     bnd (fetch inspections (same_request tid idempotency_key)) (\<lambda>concurrent.
     case concurrent of
       Some i \<Rightarrow>
         if insp_request_fingerprint i = fingerprint then inspection_response (insp_id i) (insp_tenant i) True
         else raise_error Conflict ''idempotency key was concurrently used with a different request''
     | None \<Rightarrow> raise_error Conflict ''idempotency key was concurrently used with a different request'')"

definition receive_inspection ::
  "env \<Rightarrow> Principal \<Rightarrow> InspectionContext \<Rightarrow> ValidatedImage \<Rightarrow> string \<Rightarrow> string \<Rightarrow> InspectionResponse svc" where
  "receive_inspection env pr context img iid correlation_id =
     (let tid = tenant_id pr;
          key = tid @ ''/originals/'' @ iid @ ''/'' @ vi_sha256 img @ ''.'' @ vi_extension img in
      bnd (put_immutable env key (vi_data img)) (\<lambda>uri.
      bnd (query clock) (\<lambda>now.
      bnd (fresh_id ''img'') (\<lambda>aid.
      bnd (fresh_id ''evt'') (\<lambda>eid.
      andthen (run_all
       [insert_image_asset \<lparr>img_id = aid, img_tenant = tid, img_inspection_id = iid, img_kind = ''ORIGINAL'',
          img_sha256 = vi_sha256 img, img_uri = uri, img_mime_type = vi_mime_type img,
          img_width = vi_width img, img_height = vi_height img, img_source = cx_source context,
          img_created_at = now\<rparr>,
        record_audit env tid (actor_id pr) ''inspection.received'' ''inspection'' iid correlation_id
          (JObj [(''image_sha256'', JStr (vi_sha256 img)), (''source'', JStr (cx_source context))]),
        transition_inspection env iid tid VALIDATED (actor_id pr) ''input and tenant context validated'' None,
        insert_outbox_event \<lparr>evt_id = eid, evt_tenant = tid, evt_topic = ''inspection.inference_requested'',
          evt_aggregate_id = iid, evt_correlation_id = correlation_id,
          evt_payload = JObj [(''inspection_id'', JStr iid)], evt_status = ''PENDING'', evt_attempts = 0,
          evt_available_at = now, evt_processed_at = None, evt_last_error = None, evt_created_at = now\<rparr>,
        run_if (process_inline (settings env)) (process_inference env iid (Some tid))])
      (inspection_response iid tid False))))))"

definition new_inspection ::
  "env \<Rightarrow> Principal \<Rightarrow> InspectionContext \<Rightarrow> ValidatedImage \<Rightarrow> string \<Rightarrow> string \<Rightarrow> string \<Rightarrow> InspectionResponse svc" where
  "new_inspection env pr context img fingerprint idempotency_key correlation_id =
     (let tid = tenant_id pr in
      bnd (fetch tenants (\<lambda>t. ten_id t = tid)) (\<lambda>found.
      if (case found of None \<Rightarrow> True | Some t \<Rightarrow> ten_status t \<noteq> ''ACTIVE'')
      then raise_error Forbidden ''tenant is not active''
      else
        bnd (active_deployment tid) (\<lambda>d.
        bnd (deployment_manifest d) (\<lambda>m.
        if resolve_product m (cx_product_code context) = None
        then raise_error InvalidInput ''product is not enabled by the active deployment pack''
        else if resolve_station m (cx_station_code context) = None
        then raise_error InvalidInput ''station is not enabled by the active deployment pack''
        else
          bnd (query clock) (\<lambda>now.
          bnd (add_inspection (\<lambda>iid. \<lparr>insp_id = iid, insp_tenant = tid,
                 insp_deployment_pack_id = dep_id d, insp_idempotency_key = idempotency_key,
                 insp_request_fingerprint = fingerprint, insp_correlation_id = correlation_id,
                 insp_status = RECEIVED, insp_product_code = cx_product_code context,
                 insp_product_revision = cx_product_revision context, insp_batch_no = cx_batch_no context,
                 insp_station_code = cx_station_code context,
                 insp_captured_at = dt_time (cx_captured_at context), insp_source = cx_source context,
                 insp_failure_reason = None, insp_created_at = now\<rparr>)) (\<lambda>(iid, inserted).
          if inserted then receive_inspection env pr context img iid correlation_id
          else concurrent_replay tid idempotency_key fingerprint))))))"

text \<open>\<open>between\<close> is what other sessions commit after the lookup of the key and before the insert.\<close>

definition create_inspection ::
  "env \<Rightarrow> (world \<Rightarrow> world) \<Rightarrow> Principal \<Rightarrow> InspectionContext \<Rightarrow> string \<Rightarrow> string option \<Rightarrow> string \<Rightarrow> string
     \<Rightarrow> InspectionResponse svc" where
  "create_inspection env between pr context image_bytes content_type idempotency_key correlation_id =
     andthen (run_if (EDGE_GATEWAY \<in> roles pr)
       (bnd (active_deployment (tenant_id pr)) (\<lambda>d.
        bnd (deployment_manifest d) (assert_gateway_pack_binding pr))))
     (case validate_image env image_bytes content_type of
        Inl e \<Rightarrow>
          (case e of
             ServiceError InvalidInput message details \<Rightarrow>
               andthen (record_security_rejection env pr idempotency_key correlation_id message) (throw e)
           | _ \<Rightarrow> throw e)
      | Inr img \<Rightarrow>
          (let fingerprint = request_fingerprint env img context in
           bnd (fetch inspections (same_request (tenant_id pr) idempotency_key)) (\<lambda>existing.
           case existing of
             Some i \<Rightarrow>
               if insp_request_fingerprint i \<noteq> fingerprint
               then raise_error Conflict ''idempotency key was already used with a different request''
               else inspection_response (insp_id i) (insp_tenant i) True
           | None \<Rightarrow>
               andthen (modify between)
                 (new_inspection env pr context img fingerprint idempotency_key correlation_id))))"

end
