(* ===== verification/Incidents.thy ===== *)
theory Incidents
  imports Inspections
begin

text \<open>
  Quality incidents in \<^verbatim>\<open>backend/app/services.py\<close>: the incident opened on a confirmed
  nonconformance with its two external actions, the execution of external actions through the
  connectors, replay after a failure, additional actions on request, and closing.
\<close>

section \<open>Connectors in the store\<close>

text \<open>One call of the configured connector: the in-memory one answers from its own state, the HTTP one
  with the next reply of its script.\<close>

definition connector_call :: "string \<Rightarrow> json \<Rightarrow> string \<Rightarrow> connector \<Rightarrow> connector call" where
  "connector_call operation payload idempotency_key c = (case c of
     InMemory m \<Rightarrow>
       (let (res, m') = InMemoryConnector_execute operation payload idempotency_key m in (res, InMemory m'))
   | Http h script \<Rightarrow>
       (let (res, script') = HttpConnector_execute
              (\<lambda>url p k rs. case rs of [] \<Rightarrow> (TransportFailure, []) | r # rs' \<Rightarrow> (r, rs'))
              h operation payload idempotency_key script
        in (res, Http h script')))"

definition connector_healthcheck :: "env \<Rightarrow> connector \<Rightarrow> bool" where
  "connector_healthcheck env c = (case c of
     InMemory m \<Rightarrow> InMemoryConnector_healthcheck m
   | Http h script \<Rightarrow> HttpConnector_healthcheck (http_get env) h)"

definition service_executor :: "env \<Rightarrow> RetryingConnectorExecutor" where
  "service_executor env = \<lparr>max_attempts = connector_max_attempts (settings env),
     backoff_seconds = connector_backoff_seconds (settings env)\<rparr>"

text \<open>The executor on the connector of that name; the state of the external system is kept whatever
  happens. \<open>None\<close> when no connector has the name.\<close>

definition run_connector :: "env \<Rightarrow> string \<Rightarrow> string \<Rightarrow> json \<Rightarrow> string \<Rightarrow> ExecutionOutcome option svc" where
  "run_connector env name operation payload idempotency_key w =
     (case map_of (remote_systems w) name of
        None \<Rightarrow> (Inr None, w)
      | Some c \<Rightarrow>
          (case executor_execute (service_executor env) (connector_call operation payload idempotency_key) c of
             (Inr outcome, sleeps, c') \<Rightarrow> (Inr (Some outcome), w\<lparr>remote_systems := AList.update name c' (remote_systems w)\<rparr>)
           | (Inl message, sleeps, c') \<Rightarrow>
               (Inl (OtherError ''Exception'' message),
                w\<lparr>remote_systems := AList.update name c' (remote_systems w)\<rparr>)))"

section \<open>External actions\<close>

text \<open>\<open>_new_external_action\<close>: the pending action with its redacted payload, and its outbox event.\<close>

definition new_external_action ::
  "string \<Rightarrow> string \<Rightarrow> string \<Rightarrow> string \<Rightarrow> string \<Rightarrow> (string \<times> json) list \<Rightarrow> string \<Rightarrow> string svc" where
  "new_external_action tid incident_id connector_name operation idempotency_key payload correlation_id =
     bnd (query clock) (\<lambda>now.
     bnd (fresh_id ''ext'') (\<lambda>xid.
     bnd (fresh_id ''evt'') (\<lambda>eid.
     andthen (run_all
      [insert_external_action \<lparr>ext_id = xid, ext_tenant = tid, ext_incident_id = incident_id,
         ext_connector = connector_name, ext_operation = operation, ext_idempotency_key = idempotency_key,
         ext_request_summary = redact (JObj payload), ext_response_summary = None,
         ext_external_reference = None, ext_status = EA_PENDING, ext_attempts = 0, ext_last_error = None,
         ext_created_at = now\<rparr>,
       insert_action_event \<lparr>evt_id = eid, evt_tenant = tid, evt_topic = ''external_action.requested'',
         evt_aggregate_id = xid, evt_correlation_id = correlation_id,
         evt_payload = JObj [(''external_action_id'', JStr xid)], evt_status = ''PENDING'',
         evt_attempts = 0, evt_available_at = now, evt_processed_at = None, evt_last_error = None,
         evt_created_at = now\<rparr>])
     (ret xid))))"

definition py_str_error :: "ConnectorError option \<Rightarrow> string" where
  "py_str_error e = (case e of None \<Rightarrow> ''None'' | Some exc \<Rightarrow> error_message exc)"

text \<open>The fields of the action after the attempt.\<close>

definition action_outcome :: "ExecutionOutcome option \<Rightarrow> ExternalAction \<Rightarrow> ExternalAction" where
  "action_outcome outcome a = (case outcome of
     None \<Rightarrow> a\<lparr>ext_status := EA_MANUAL_REVIEW, ext_last_error := Some ''connector is not configured''\<rparr>
   | Some out \<Rightarrow>
       (case eo_result out of
          Some r \<Rightarrow> a\<lparr>ext_attempts := ext_attempts a + eo_attempts out, ext_status := EA_SUCCEEDED,
            ext_external_reference := Some (cr_external_reference r),
            ext_response_summary := Some (redact (cr_summary r)), ext_last_error := None\<rparr>
        | None \<Rightarrow> a\<lparr>ext_attempts := ext_attempts a + eo_attempts out,
            ext_status := (if (case eo_error out of None \<Rightarrow> False | Some e \<Rightarrow> requires_manual_review e)
              then EA_MANUAL_REVIEW else EA_FAILED),
            ext_last_error := Some (take 1000 (py_str_error (eo_error out)))\<rparr>))"

text \<open>The event is looked up by the id of the action, its topic and its status, without a tenant; the query
  flushes the row of the action first.\<close>

definition mark_action_outbox_processed :: "string \<Rightarrow> string \<Rightarrow> unit svc" where
  "mark_action_outbox_processed xid tid =
     andthen (flush_action xid tid)
     (bnd (fetch outbox_events (\<lambda>e. evt_aggregate_id e = xid \<and> evt_topic e = ''external_action.requested'' \<and>
            evt_status e = ''PENDING'')) (\<lambda>found.
     bnd (query clock) (\<lambda>now.
     case found of
       None \<Rightarrow> ret ()
     | Some e \<Rightarrow> update_event (evt_id e) (evt_tenant e)
         (\<lambda>r. r\<lparr>evt_status := ''PROCESSED'', evt_processed_at := Some now\<rparr>))))"

definition incident_action_statuses :: "string \<Rightarrow> string \<Rightarrow> world \<Rightarrow> ExternalActionStatus list" where
  "incident_action_statuses incident_id tid w =
     map ext_status (filter (\<lambda>a. ext_incident_id a = incident_id \<and> ext_tenant a = tid) (external_actions w))"

definition inspection_status_is :: "string \<Rightarrow> string \<Rightarrow> InspectionStatus \<Rightarrow> world \<Rightarrow> bool" where
  "inspection_status_is iid tid s w = (case lookup_inspection iid tid w of None \<Rightarrow> False | Some i \<Rightarrow> insp_status i = s)"

text \<open>The incident and the inspection follow the statuses of all actions of the incident.\<close>

definition settle_incident :: "env \<Rightarrow> string \<Rightarrow> string \<Rightarrow> string \<Rightarrow> unit svc" where
  "settle_incident env incident_id iid tid =
     bnd (query (\<lambda>w. (set (incident_action_statuses incident_id tid w),
                      inspection_status_is iid tid ACTION_EXECUTING w))) (\<lambda>(statuses, executing).
     if statuses \<subseteq> {EA_SUCCEEDED} then
       andthen (update_incident incident_id tid (\<lambda>c. c\<lparr>inc_status := ''ACTION_COMPLETED''\<rparr>))
         (run_if executing (transition_inspection env iid tid ACTION_COMPLETED ''system:connector-worker''
            ''all external actions completed idempotently'' None))
     else if statuses \<inter> {EA_FAILED, EA_MANUAL_REVIEW} \<noteq> {} then
       andthen (update_incident incident_id tid (\<lambda>c. c\<lparr>inc_status := ''ACTION_FAILED''\<rparr>))
         (run_if executing (transition_inspection env iid tid ACTION_FAILED ''system:connector-worker''
            ''external action failed; recovery or replay required'' None))
     else ret ())"

definition audit_action :: "env \<Rightarrow> string \<Rightarrow> string \<Rightarrow> string \<Rightarrow> unit svc" where
  "audit_action env xid tid correlation_id =
     bnd (fetch external_actions (is_action xid tid)) (\<lambda>found.
     case found of
       None \<Rightarrow> throw (OtherError ''ObjectDeletedError'' xid)
     | Some a \<Rightarrow>
         record_audit env tid ''system:connector-worker''
           (if ext_status a = EA_SUCCEEDED then ''external_action.completed'' else ''external_action.failed'')
           ''external_action'' xid correlation_id
           (JObj [(''status'', JStr (action_status_value (ext_status a))),
             (''attempts'', JInt (int (ext_attempts a))),
             (''external_reference'', JOpt (ext_external_reference a)), (''error'', JOpt (ext_last_error a))]))"

text \<open>\<open>_execute_external_action\<close> on the action row.\<close>

definition execute_external_action :: "env \<Rightarrow> ExternalAction \<Rightarrow> unit svc" where
  "execute_external_action env action =
     (let tid = ext_tenant action; xid = ext_id action in
      bnd (fetch quality_incidents (is_incident (ext_incident_id action) tid)) (\<lambda>found.
      case found of
        None \<Rightarrow> raise_error DependencyUnavailable ''external action incident boundary is invalid''
      | Some incident \<Rightarrow>
          bnd (query (lookup_inspection (inc_inspection_id incident) tid)) (\<lambda>found_inspection.
          case found_inspection of
            None \<Rightarrow> raise_error DependencyUnavailable ''external action inspection boundary is invalid''
          | Some inspection \<Rightarrow>
              andthen (run_all
               [update_action xid tid (\<lambda>a. a\<lparr>ext_status := EA_EXECUTING\<rparr>),
                run_if (insp_status inspection = ACTION_PENDING) (run_all
                 [transition_inspection env (insp_id inspection) tid ACTION_EXECUTING
                    ''system:connector-worker'' ''external action execution started'' None,
                  update_incident (inc_id incident) tid (\<lambda>c. c\<lparr>inc_status := ''ACTION_EXECUTING''\<rparr>)])])
              (bnd (run_connector env (ext_connector action) (ext_operation action)
                      (ext_request_summary action) (ext_idempotency_key action)) (\<lambda>outcome.
               run_all
                [update_action xid tid (action_outcome outcome),
                 mark_action_outbox_processed xid tid,
                 settle_incident env (inc_id incident) (insp_id inspection) tid,
                 audit_action env xid tid (insp_correlation_id inspection)])))))"

text \<open>\<open>process_pending_external_actions\<close>: the list is read first, then each action of it runs.\<close>

definition pending_actions :: "string option \<Rightarrow> string option \<Rightarrow> world \<Rightarrow> ExternalAction list" where
  "pending_actions incident_id tid w = sort_key ext_created_at (filter (\<lambda>a. ext_status a = EA_PENDING \<and>
     (if truthy incident_id then Some (ext_incident_id a) = incident_id else True) \<and>
     (if truthy tid then Some (ext_tenant a) = tid else True)) (external_actions w))"

definition process_pending_external_actions :: "env \<Rightarrow> string option \<Rightarrow> string option \<Rightarrow> nat svc" where
  "process_pending_external_actions env incident_id tid =
     bnd (query (pending_actions incident_id tid)) (\<lambda>actions.
     andthen (for_each (execute_external_action env) actions) (ret (length actions)))"

definition process_inline_actions :: "env \<Rightarrow> string \<Rightarrow> string \<Rightarrow> unit svc" where
  "process_inline_actions env incident_id tid =
     run_if (process_inline (settings env))
       (bnd (process_pending_external_actions env (Some incident_id) (Some tid)) (\<lambda>_. ret ()))"

section \<open>Opening an incident\<close>

text \<open>The canonical fields of the connector payload.\<close>

definition canonical_connector_payload :: "Inspection \<Rightarrow> string \<Rightarrow> string \<Rightarrow> (string \<times> json) list" where
  "canonical_connector_payload i disposition reason =
     [(''inspection_id'', JStr (insp_id i)), (''batch_no'', JStr (insp_batch_no i)),
      (''product_code'', JStr (insp_product_code i)), (''product_revision'', JOpt (insp_product_revision i)),
      (''station_code'', JStr (insp_station_code i)), (''disposition'', JStr disposition),
      (''reason'', JStr reason), (''root_cause'', JStr ''PENDING_INVESTIGATION'')]"

definition mes_payload :: "DeploymentManifest option \<Rightarrow> Inspection \<Rightarrow> string \<Rightarrow> string \<Rightarrow> (string \<times> json) list" where
  "mes_payload manifest i disposition reason = (case manifest of
     Some m \<Rightarrow> (case connector_payload m ''MES'' (canonical_connector_payload i disposition reason) of
         None \<Rightarrow> [] | Some p \<Rightarrow> p)
   | None \<Rightarrow> [(''batch_no'', JStr (insp_batch_no i)), (''reason'', JStr reason)])"

definition qms_payload :: "DeploymentManifest option \<Rightarrow> Inspection \<Rightarrow> string \<Rightarrow> string \<Rightarrow> (string \<times> json) list" where
  "qms_payload manifest i disposition reason = (case manifest of
     Some m \<Rightarrow> (case connector_payload m ''QMS'' (canonical_connector_payload i disposition reason) of
         None \<Rightarrow> [] | Some p \<Rightarrow> p)
   | None \<Rightarrow> [(''inspection_id'', JStr (insp_id i)), (''batch_no'', JStr (insp_batch_no i)),
       (''disposition'', JStr disposition), (''reason'', JStr reason),
       (''root_cause'', JStr ''PENDING_INVESTIGATION'')])"

definition incident_manifest :: "Inspection \<Rightarrow> DeploymentManifest option svc" where
  "incident_manifest i =
     bnd (fetch deployment_packs (is_deployment (insp_deployment_pack_id i) (insp_tenant i))) (\<lambda>found.
     case found of
       None \<Rightarrow> ret None
     | Some d \<Rightarrow> bnd (deployment_manifest d) (\<lambda>m. ret (Some m)))"

text \<open>\<open>_create_incident\<close> returns the id of the incident.\<close>

definition create_incident :: "env \<Rightarrow> Inspection \<Rightarrow> string \<Rightarrow> string \<Rightarrow> string \<Rightarrow> string \<Rightarrow> string svc" where
  "create_incident env i disposition actor reason correlation_id =
     (let tid = insp_tenant i in
      bnd (query (incident_of (insp_id i) tid)) (\<lambda>existing.
      case existing of
        Some c \<Rightarrow> ret (inc_id c)
      | None \<Rightarrow>
          bnd (fresh_id ''inc'') (\<lambda>cid.
          andthen (run_all
           [insert_incident \<lparr>inc_id = cid, inc_tenant = tid, inc_inspection_id = insp_id i,
              inc_status = ''ACTION_PENDING'', inc_disposition = disposition, inc_severity = ''MAJOR'',
              inc_owner = None, inc_outcome = None, inc_verification_record = None\<rparr>,
            transition_inspection env (insp_id i) tid Domain.ACTION_PENDING actor
              ''quality incident created; external actions pending'' (Some correlation_id),
            record_audit env tid actor ''quality_incident.created'' ''quality_incident'' cid correlation_id
              (JObj [(''disposition'', JStr disposition), (''reason'', JStr reason)])])
          (bnd (incident_manifest i) (\<lambda>m.
           bnd (new_external_action tid cid ''MES'' ''HOLD_BATCH'' (cid @ '':mes:hold'')
                  (mes_payload m i disposition reason) correlation_id) (\<lambda>_.
           bnd (new_external_action tid cid ''QMS'' ''CREATE_TICKET'' (cid @ '':qms:create'')
                  (qms_payload m i disposition reason) correlation_id) (\<lambda>_.
           andthen (process_inline_actions env cid tid) (ret cid))))))))"

section \<open>Actions on request, replay, closing\<close>

record IncidentActionRequest =
  ar_connector :: string
  ar_operation :: string
  ar_reason :: string
  ar_payload :: "(string \<times> json) list"
  ar_confirmed :: bool

definition validate_action_request :: "IncidentActionRequest \<Rightarrow> string + unit" where
  "validate_action_request r = ensure_all
     [(ar_connector r \<in> {''MES'', ''QMS''}, ''connector''),
      (ar_operation r \<in> {''HOLD_BATCH'', ''RELEASE_BATCH'', ''CREATE_TICKET'', ''UPDATE_TICKET'', ''CLOSE_TICKET''},
       ''operation''),
      (len_between 1 4000 (ar_reason r), ''reason'')]"

text \<open>The handlers return the id of the action.\<close>

definition request_incident_action ::
  "env \<Rightarrow> Principal \<Rightarrow> string \<Rightarrow> IncidentActionRequest \<Rightarrow> string \<Rightarrow> string \<Rightarrow> string svc" where
  "request_incident_action env pr incident_id request idempotency_key correlation_id =
     (let tid = tenant_id pr in
      bnd (fetch quality_incidents (is_incident incident_id tid)) (\<lambda>found.
      case found of
        None \<Rightarrow> raise_error NotFound ''quality incident not found''
      | Some incident \<Rightarrow>
          if \<not> ar_confirmed request
          then raise_error InvalidInput ''confirmed=true is required for external quality actions''
          else
            bnd (fetch external_actions (\<lambda>a. ext_tenant a = tid \<and> ext_idempotency_key a = idempotency_key))
            (\<lambda>existing.
             case existing of
               Some a \<Rightarrow> ret (ext_id a)
             | None \<Rightarrow>
                 bnd (new_external_action (inc_tenant incident) (inc_id incident) (ar_connector request)
                   (ar_operation request) idempotency_key
                   (dict_update (ar_payload request) [(''reason'', JStr (ar_reason request))]) correlation_id)
                 (\<lambda>xid.
                  andthen (run_all
                   [record_audit env tid (actor_id pr) ''external_action.requested'' ''external_action'' xid
                      correlation_id (JObj [(''connector'', JStr (ar_connector request)),
                        (''operation'', JStr (ar_operation request))]),
                    process_inline_actions env (inc_id incident) (inc_tenant incident)])
                  (ret xid)))))"

definition replay_external_action ::
  "env \<Rightarrow> Principal \<Rightarrow> string \<Rightarrow> string \<Rightarrow> string \<Rightarrow> string svc" where
  "replay_external_action env pr action_id reason correlation_id =
     (let tid = tenant_id pr in
      bnd (fetch external_actions (is_action action_id tid)) (\<lambda>found.
      case found of
        None \<Rightarrow> raise_error NotFound ''external action not found''
      | Some action \<Rightarrow>
          if ext_status action \<notin> {EA_FAILED, EA_MANUAL_REVIEW}
          then raise_error Conflict ''only failed or manual-review actions can be replayed''
          else
            bnd (fetch quality_incidents (is_incident (ext_incident_id action) tid)) (\<lambda>found_incident.
            case found_incident of
              None \<Rightarrow> raise_error NotFound ''quality incident for external action not found''
            | Some incident \<Rightarrow>
                bnd (query (lookup_inspection (inc_inspection_id incident) tid)) (\<lambda>found_inspection.
                case found_inspection of
                  None \<Rightarrow> raise_error NotFound ''inspection for quality incident not found''
                | Some inspection \<Rightarrow>
                    bnd (query clock) (\<lambda>now.
                    bnd (fresh_id ''evt'') (\<lambda>eid.
                    andthen (run_all
                     [update_action action_id tid (\<lambda>a. a\<lparr>ext_status := EA_PENDING, ext_last_error := None\<rparr>),
                      update_incident (inc_id incident) tid (\<lambda>c. c\<lparr>inc_status := ''ACTION_PENDING''\<rparr>),
                      run_if (insp_status inspection = Domain.ACTION_FAILED)
                        (transition_inspection env (insp_id inspection) tid Domain.ACTION_PENDING (actor_id pr)
                          (''authorized replay requested: '' @ reason) (Some correlation_id)),
                      insert_action_event \<lparr>evt_id = eid, evt_tenant = tid,
                        evt_topic = ''external_action.requested'', evt_aggregate_id = action_id,
                        evt_correlation_id = correlation_id,
                        evt_payload = JObj [(''external_action_id'', JStr action_id), (''replay'', JBool True)],
                        evt_status = ''PENDING'', evt_attempts = 0, evt_available_at = now,
                        evt_processed_at = None, evt_last_error = None, evt_created_at = now\<rparr>,
                      record_audit env tid (actor_id pr) ''external_action.replay_requested''
                        ''external_action'' action_id correlation_id
                        (JObj [(''reason'', JStr reason), (''idempotency_key_reused'', JBool True)]),
                      process_inline_actions env (inc_id incident) tid])
                    (ret action_id)))))))"

record CloseIncidentRequest =
  ci_owner :: string
  ci_outcome :: string
  ci_verification_record :: string

definition validate_close_request :: "CloseIncidentRequest \<Rightarrow> string + unit" where
  "validate_close_request r = ensure_all
     [(len_between 1 128 (ci_owner r), ''owner''), (len_between 1 8000 (ci_outcome r), ''outcome''),
      (len_between 1 8000 (ci_verification_record r), ''verification_record'')]"

definition close_incident ::
  "env \<Rightarrow> Principal \<Rightarrow> string \<Rightarrow> CloseIncidentRequest \<Rightarrow> string \<Rightarrow> string svc" where
  "close_incident env pr incident_id request correlation_id =
     (let tid = tenant_id pr in
      bnd (fetch quality_incidents (is_incident incident_id tid)) (\<lambda>found.
      case found of
        None \<Rightarrow> raise_error NotFound ''quality incident not found''
      | Some incident \<Rightarrow>
          bnd (query (\<lambda>w. set (incident_action_statuses (inc_id incident) tid w))) (\<lambda>statuses.
          if statuses = {} \<or> statuses \<noteq> {EA_SUCCEEDED}
          then raise_error Conflict ''incident cannot close before all external actions succeed''
          else
            andthen (update_incident (inc_id incident) tid (\<lambda>c. c\<lparr>inc_owner := Some (ci_owner request),
                inc_outcome := Some (ci_outcome request),
                inc_verification_record := Some (ci_verification_record request)\<rparr>))
            (bnd (query (lookup_inspection (inc_inspection_id incident) tid)) (\<lambda>found_inspection.
             case found_inspection of
               None \<Rightarrow> raise_error NotFound ''inspection for quality incident not found''
             | Some inspection \<Rightarrow>
                 if insp_status inspection \<noteq> Domain.ACTION_COMPLETED
                 then raise_error Conflict ''inspection is not ready for verification''
                 else
                   andthen (run_all
                    [transition_inspection env (insp_id inspection) tid VERIFYING (actor_id pr)
                       ''required disposition fields and verification record supplied'' (Some correlation_id),
                     transition_inspection env (insp_id inspection) tid CLOSED (actor_id pr)
                       ''quality incident verified and closed'' (Some correlation_id),
                     update_incident (inc_id incident) tid (\<lambda>c. c\<lparr>inc_status := ''CLOSED''\<rparr>),
                     record_audit env tid (actor_id pr) ''quality_incident.closed'' ''quality_incident''
                       (inc_id incident) correlation_id
                       (JObj [(''owner'', JStr (ci_owner request)), (''outcome'', JStr (ci_outcome request)),
                         (''verification_record'', JStr (ci_verification_record request))])])
                   (ret (inc_id incident)))))))"

end
