(* ===== verification/Reviews.thy ===== *)
theory Reviews
  imports Incidents
begin

text \<open>
  Human review in \<^verbatim>\<open>backend/app/services.py\<close>: the queue, claiming a task, and the decision,
  both under optimistic locking by the task's version.
\<close>

record ReviewTaskResponse =
  rr_task :: ReviewTask
  rr_priority :: string
  rr_route :: string
  rr_batch_no :: string
  rr_product_code :: string
  rr_station_code :: string
  rr_score :: "rat option"
  rr_thumbnail_asset_id :: "string option"
  rr_held :: bool

definition list_reviews :: "string \<Rightarrow> ReviewTask list svc" where
  "list_reviews tid = query (\<lambda>w. sort_key rev_created_at
     (filter (\<lambda>t. rev_tenant t = tid \<and> rev_status t = ''OPEN'') (review_tasks w)))"

definition original_of :: "string \<Rightarrow> string \<Rightarrow> world \<Rightarrow> ImageAsset option" where
  "original_of iid tid w = find (\<lambda>a. img_inspection_id a = iid \<and> img_tenant a = tid \<and> img_kind a = ''ORIGINAL'')
     (image_assets w)"

definition review_task_response :: "ReviewTask \<Rightarrow> ReviewTaskResponse svc" where
  "review_task_response t =
     bnd (query (\<lambda>w. (lookup_inspection (rev_inspection_id t) (rev_tenant t) w, w))) (\<lambda>(found, w).
     case found of
       None \<Rightarrow> raise_error NotFound ''inspection for review task not found''
     | Some i \<Rightarrow>
         let inference = latest_inference (insp_id i) (rev_tenant t) w;
             held = (insp_status i = BATCH_HELD);
             safe_degrade = (inference = None \<or> policy_of (insp_id i) (rev_tenant t) w = None)
         in ret \<lparr>rr_task = t,
              rr_priority = (if held then ''CRITICAL'' else if safe_degrade then ''HIGH'' else ''STANDARD''),
              rr_route = (if safe_degrade then ''SAFE_DEGRADE'' else if held then ''HIGH_SCORE_HOLD'' else ''GREY_ZONE''),
              rr_batch_no = insp_batch_no i, rr_product_code = insp_product_code i,
              rr_station_code = insp_station_code i, rr_score = map_option inf_score inference,
              rr_thumbnail_asset_id = map_option img_id (original_of (insp_id i) (rev_tenant t) w),
              rr_held = held\<rparr>)"

definition is_task :: "string \<Rightarrow> string \<Rightarrow> ReviewTask \<Rightarrow> bool" where
  "is_task rid tid t \<longleftrightarrow> rev_id t = rid \<and> rev_tenant t = tid"

text \<open>The \<open>WHERE\<close> clauses of the two conditional updates.\<close>

definition claimable :: "string \<Rightarrow> string \<Rightarrow> int \<Rightarrow> ReviewTask \<Rightarrow> bool" where
  "claimable rid tid expected_version t \<longleftrightarrow> is_task rid tid t \<and> rev_status t = ''OPEN'' \<and>
     rev_version t = expected_version \<and> rev_assignee t = None"

definition decidable :: "string \<Rightarrow> string \<Rightarrow> int \<Rightarrow> ReviewTask \<Rightarrow> bool" where
  "decidable rid tid expected_version t \<longleftrightarrow> is_task rid tid t \<and> rev_status t = ''OPEN'' \<and>
     rev_version t = expected_version"

definition claim_review :: "env \<Rightarrow> Principal \<Rightarrow> string \<Rightarrow> int \<Rightarrow> string \<Rightarrow> ReviewTask svc" where
  "claim_review env pr task_id expected_version correlation_id =
     (let tid = tenant_id pr in
      bnd (query (\<lambda>w. count_where (claimable task_id tid expected_version) (review_tasks w))) (\<lambda>rowcount.
      andthen (update_review_tasks (claimable task_id tid expected_version)
        (\<lambda>t. t\<lparr>rev_assignee := Some (actor_id pr), rev_version := rev_version t + 1\<rparr>))
      (bnd (fetch review_tasks (is_task task_id tid)) (\<lambda>found.
       if rowcount \<noteq> 1 then
         (if found = None then raise_error NotFound ''review task not found''
          else raise_error Conflict ''review task version or assignment changed'')
       else case found of
         None \<Rightarrow> throw (OtherError ''AssertionError'' '''')
       | Some t \<Rightarrow>
           andthen (record_audit env tid (actor_id pr) ''review.claimed'' ''review_task'' (rev_id t)
             correlation_id (JObj [(''version'', JInt (rev_version t))]))
           (ret t)))))"

record ReviewDecisionRequest =
  rq_expected_version :: int
  rq_decision :: ReviewChoice
  rq_reason :: "string option"
  rq_notes :: "string option"
  rq_confirmed :: bool
  rq_model_feedback :: "string option"

definition high_risk :: "ReviewChoice \<Rightarrow> bool" where
  "high_risk d \<longleftrightarrow> d = REWORK \<or> d = SCRAP \<or> d = INVESTIGATE"

definition validate_decision_request :: "ReviewDecisionRequest \<Rightarrow> string + unit" where
  "validate_decision_request r = ensure_all
     [(rq_expected_version r \<ge> 1, ''expected_version''),
      (case rq_reason r of None \<Rightarrow> True | Some s \<Rightarrow> length s \<le> 4000, ''reason''),
      (case rq_notes r of None \<Rightarrow> True | Some s \<Rightarrow> length s \<le> 8000, ''notes''),
      (rq_model_feedback r \<in> {None, Some ''FALSE_POSITIVE'', Some ''SUSPECTED_FALSE_NEGATIVE''}, ''model_feedback''),
      ((high_risk (rq_decision r) \<or> rq_decision r = UNABLE_TO_DETERMINE) \<longrightarrow>
         truthy (rq_reason r) \<and> strip (the (rq_reason r)) \<noteq> [], ''reason is required for this decision''),
      (high_risk (rq_decision r) \<longrightarrow> rq_confirmed r, ''confirmed=true is required for high-risk decisions'')]"

definition decision_target :: "ReviewChoice \<Rightarrow> InspectionStatus" where
  "decision_target d = (case d of GOOD \<Rightarrow> RELEASE_APPROVED | UNABLE_TO_DETERMINE \<Rightarrow> ESCALATED
     | REWORK \<Rightarrow> NONCONFORMANCE_CONFIRMED | SCRAP \<Rightarrow> NONCONFORMANCE_CONFIRMED
     | INVESTIGATE \<Rightarrow> NONCONFORMANCE_CONFIRMED)"

definition decision_reason :: "ReviewDecisionRequest \<Rightarrow> string" where
  "decision_reason r = (case rq_decision r of GOOD \<Rightarrow> ''named inspector approved release''
     | UNABLE_TO_DETERMINE \<Rightarrow> or_else (rq_reason r) ''unable to determine''
     | REWORK \<Rightarrow> or_else (rq_reason r) ''nonconformance confirmed''
     | SCRAP \<Rightarrow> or_else (rq_reason r) ''nonconformance confirmed''
     | INVESTIGATE \<Rightarrow> or_else (rq_reason r) ''nonconformance confirmed'')"

record ReviewDecisionResult =
  rx_decision_id :: string
  rx_inspection_id :: string
  rx_incident_id :: "string option"
  rx_task_version :: int

text \<open>After the conditional update: the decision row, the status change, the incident, the audit.\<close>

definition complete_review ::
  "env \<Rightarrow> Principal \<Rightarrow> ReviewTask \<Rightarrow> ReviewDecisionRequest \<Rightarrow> string \<Rightarrow> ReviewDecisionResult svc" where
  "complete_review env pr task request correlation_id =
     (let tid = tenant_id pr; reason = decision_reason request in
      bnd (fresh_id ''rdec'') (\<lambda>did.
      andthen (insert_review_decision \<lparr>rdec_id = did, rdec_tenant = tid, rdec_review_task_id = rev_id task,
        rdec_actor_id = actor_id pr, rdec_decision = rq_decision request, rdec_reason = rq_reason request,
        rdec_notes = rq_notes request, rdec_model_feedback = rq_model_feedback request\<rparr>)
      (bnd (query (lookup_inspection (rev_inspection_id task) tid)) (\<lambda>found.
       case found of
         None \<Rightarrow> raise_error NotFound ''inspection for review task not found''
       | Some i \<Rightarrow>
           andthen (transition_inspection env (insp_id i) tid (decision_target (rq_decision request))
             (actor_id pr) reason (Some correlation_id))
           (bnd (if high_risk (rq_decision request)
                 then bnd (create_incident env i (choice_value (rq_decision request)) (actor_id pr) reason
                        correlation_id) (\<lambda>cid. ret (Some cid))
                 else ret None) (\<lambda>incident_id.
            bnd (query (lookup_inspection (insp_id i) tid)) (\<lambda>after.
            andthen (record_audit env tid (actor_id pr) ''review.completed'' ''review_task'' (rev_id task)
              correlation_id (JObj [(''decision'', JStr (choice_value (rq_decision request))),
                (''reason'', JOpt (rq_reason request)), (''model_feedback'', JOpt (rq_model_feedback request)),
                (''inspection_status'', (case after of None \<Rightarrow> JNull
                   | Some i' \<Rightarrow> JStr (status_value (insp_status i'))))]))
            (ret \<lparr>rx_decision_id = did, rx_inspection_id = insp_id i, rx_incident_id = incident_id,
                  rx_task_version = rq_expected_version request + 1\<rparr>))))))))"

definition decide_review ::
  "env \<Rightarrow> Principal \<Rightarrow> string \<Rightarrow> ReviewDecisionRequest \<Rightarrow> string \<Rightarrow> ReviewDecisionResult svc" where
  "decide_review env pr task_id request correlation_id =
     (let tid = tenant_id pr in
      bnd (fetch review_tasks (is_task task_id tid)) (\<lambda>found.
      case found of
        None \<Rightarrow> raise_error NotFound ''review task not found''
      | Some task \<Rightarrow>
          if rev_assignee task \<noteq> None \<and> rev_assignee task \<noteq> Some (actor_id pr)
          then raise_error Forbidden ''review task is assigned to another actor''
          else if high_risk (rq_decision request) \<and> QUALITY_MANAGER \<notin> roles pr
          then raise_error Forbidden ''quality_manager role is required for nonconformance disposition''
          else
            bnd (query (\<lambda>w. count_where (decidable task_id tid (rq_expected_version request)) (review_tasks w)))
            (\<lambda>rowcount.
             andthen (update_review_tasks (decidable task_id tid (rq_expected_version request))
               (\<lambda>t. t\<lparr>rev_status := ''COMPLETED'', rev_assignee := Some (actor_id pr),
                      rev_version := rev_version t + 1\<rparr>))
             (if rowcount \<noteq> 1
              then raise_error Conflict ''review task was already decided or its version changed''
              else complete_review env pr task request correlation_id))))"

end
