(* ===== verification/Gateways.thy ===== *)
theory Gateways
  imports Inspections
begin

text \<open>
  Edge gateways in \<^verbatim>\<open>backend/app/services.py\<close>: the heartbeat of a gateway, its effective
  status, and the aggregates of the operations page.
\<close>

record GatewayHeartbeatRequest =
  hb_gateway_id :: string
  hb_gateway_version :: string
  hb_station_code :: string
  hb_reported_status :: string
  hb_queue_depth :: int
  hb_last_error :: "string option"
  hb_upload_success_count :: int
  hb_upload_failure_count :: int
  hb_pack_key :: "string option"
  hb_pack_version :: "string option"
  hb_metrics :: json

record GatewayStatusResponse =
  gs_gateway :: EdgeGateway
  gs_status :: string

definition effective_status :: "Settings \<Rightarrow> time \<Rightarrow> EdgeGateway \<Rightarrow> string" where
  "effective_status s now g =
     (let age = now - gwy_last_heartbeat_at g in
      if age > gateway_offline_seconds s * 1000000 then ''OFFLINE''
      else if age > gateway_stale_seconds s * 1000000 then ''STALE''
      else if gwy_reported_status g \<in> {''STARTING'', ''STOPPING''} then gwy_reported_status g
      else if gwy_reported_status g = ''DEGRADED'' \<or> gwy_queue_depth g > 0 then ''DEGRADED''
      else ''ONLINE'')"

definition gateway_status_response :: "env \<Rightarrow> time \<Rightarrow> EdgeGateway \<Rightarrow> GatewayStatusResponse" where
  "gateway_status_response env now g = \<lparr>gs_gateway = g, gs_status = effective_status (settings env) now g\<rparr>"

text \<open>The row a heartbeat creates, and what it changes in a present row.\<close>

definition gateway_of_request ::
  "string \<Rightarrow> string \<Rightarrow> DeploymentManifest \<Rightarrow> time \<Rightarrow> GatewayHeartbeatRequest \<Rightarrow> EdgeGateway" where
  "gateway_of_request gid tid m now r =
     \<lparr>gwy_id = gid, gwy_tenant = tid, gwy_gateway_id = hb_gateway_id r, gwy_version = hb_gateway_version r,
      gwy_station_code = hb_station_code r, gwy_reported_status = hb_reported_status r,
      gwy_queue_depth = hb_queue_depth r, gwy_last_error = hb_last_error r, gwy_last_heartbeat_at = now,
      gwy_last_upload_succeeded_at = None,
      gwy_last_upload_failed_at = (if truthy (hb_last_error r) then Some now else None),
      gwy_upload_success_count = hb_upload_success_count r,
      gwy_upload_failure_count = hb_upload_failure_count r,
      gwy_pack_key = Some (or_else (hb_pack_key r) (pack_key m)),
      gwy_pack_version = Some (or_else (hb_pack_version r) (version m)), gwy_metrics = hb_metrics r\<rparr>"

definition apply_heartbeat ::
  "DeploymentManifest \<Rightarrow> time \<Rightarrow> GatewayHeartbeatRequest \<Rightarrow> EdgeGateway \<Rightarrow> EdgeGateway" where
  "apply_heartbeat m now r g =
     (let failed = (if hb_upload_failure_count r > gwy_upload_failure_count g then Some now
                    else gwy_last_upload_failed_at g) in
      g\<lparr>gwy_version := hb_gateway_version r, gwy_station_code := hb_station_code r,
        gwy_reported_status := hb_reported_status r, gwy_queue_depth := hb_queue_depth r,
        gwy_last_error := hb_last_error r, gwy_last_heartbeat_at := now,
        gwy_upload_success_count := hb_upload_success_count r,
        gwy_upload_failure_count := hb_upload_failure_count r,
        gwy_pack_key := Some (or_else (hb_pack_key r) (pack_key m)),
        gwy_pack_version := Some (or_else (hb_pack_version r) (version m)), gwy_metrics := hb_metrics r,
        gwy_last_upload_succeeded_at :=
          (if hb_upload_success_count r > gwy_upload_success_count g then Some now
           else gwy_last_upload_succeeded_at g),
        gwy_last_upload_failed_at :=
          (if truthy (hb_last_error r) \<and> failed = None then Some now else failed)\<rparr>)"

definition record_gateway_heartbeat ::
  "env \<Rightarrow> Principal \<Rightarrow> GatewayHeartbeatRequest \<Rightarrow> string \<Rightarrow> GatewayStatusResponse svc" where
  "record_gateway_heartbeat env pr r correlation_id =
     (let tid = tenant_id pr in
      if hb_gateway_id r \<noteq> actor_id pr
      then raise_error Forbidden ''gateway identity does not match authenticated principal''
      else
        bnd (active_deployment tid) (\<lambda>d.
        bnd (deployment_manifest d) (\<lambda>m.
        andthen (assert_gateway_pack_binding pr m)
        (if truthy (hb_pack_key r) \<and> hb_pack_key r \<noteq> Some (pack_key m)
         then raise_error InvalidInput ''gateway deployment pack does not match the active tenant pack''
         else if truthy (hb_pack_version r) \<and> hb_pack_version r \<noteq> Some (version m)
         then raise_error InvalidInput ''gateway deployment pack version does not match the active tenant pack''
         else if resolve_station m (hb_station_code r) = None
         then raise_error InvalidInput ''gateway station is not enabled by the active deployment pack''
         else
           bnd (query clock) (\<lambda>now.
           bnd (fetch edge_gateways (is_gateway (hb_gateway_id r) tid)) (\<lambda>found.
           bnd (case found of
                  None \<Rightarrow> bnd (fresh_id ''gw'') (\<lambda>gid.
                    andthen (insert_gateway (gateway_of_request gid tid m now r)) (ret gid))
                | Some g \<Rightarrow>
                    andthen (update_gateway (hb_gateway_id r) tid (apply_heartbeat m now r)) (ret (gwy_id g)))
           (\<lambda>gid.
           andthen (run_if (case found of None \<Rightarrow> True | Some g \<Rightarrow> gwy_reported_status g \<noteq> hb_reported_status r)
             (record_audit env tid (actor_id pr) ''gateway.status_changed'' ''edge_gateway'' gid correlation_id
               (JObj [(''gateway_id'', JStr (hb_gateway_id r)), (''station_code'', JStr (hb_station_code r)),
                  (''reported_status'', JStr (hb_reported_status r)), (''queue_depth'', JInt (hb_queue_depth r))])))
           (bnd (fetch edge_gateways (is_gateway (hb_gateway_id r) tid)) (\<lambda>stored.
            case stored of
              None \<Rightarrow> throw (OtherError ''ObjectDeletedError'' gid)
            | Some g \<Rightarrow> ret (gateway_status_response env now g)))))))))) "

text \<open>\<open>ORDER BY station_code, gateway_id\<close>.\<close>

definition list_gateway_statuses :: "env \<Rightarrow> string \<Rightarrow> world \<Rightarrow> GatewayStatusResponse list" where
  "list_gateway_statuses env tid w =
     map (gateway_status_response env (clock w))
       (sort_key (\<lambda>g. gwy_station_code g)
         (sort_key (\<lambda>g. gwy_gateway_id g) (filter (\<lambda>g. gwy_tenant g = tid) (edge_gateways w))))"

text \<open>A grouped count: the groups in order of appearance.\<close>

definition group_counts :: "'k list \<Rightarrow> ('k \<times> nat) list" where
  "group_counts ks = map (\<lambda>k. (k, count_list ks k)) (remdups ks)"

record OperationsSummaryResponse =
  os_generated_at :: time
  os_inspections_24h :: nat
  os_route_counts :: "(PolicyRoute \<times> nat) list"
  os_review_backlog :: nat
  os_review_high_risk :: nat
  os_incident_counts :: "(string \<times> nat) list"
  os_gateways_total :: nat
  os_gateways_online :: nat
  os_gateway_online_rate :: "rat option"
  os_gateway_queue_depth :: int
  os_upload_success_count :: int
  os_upload_failure_count :: int

definition day_microseconds :: int where
  "day_microseconds = 24 * 60 * 60 * 1000000"

definition recent_inspection :: "world \<Rightarrow> Inspection \<Rightarrow> bool" where
  "recent_inspection w i \<longleftrightarrow> insp_created_at i \<ge> clock w - day_microseconds"

text \<open>The joins go by the inspection's id only, as in the code.\<close>

definition operations_summary :: "env \<Rightarrow> string \<Rightarrow> world \<Rightarrow> OperationsSummaryResponse" where
  "operations_summary env tid w =
     (let gateways = list_gateway_statuses env tid w;
          online = count_where (\<lambda>g. gs_status g = ''ONLINE'') gateways;
          open_tasks = filter (\<lambda>k. rev_tenant k = tid \<and> rev_status k = ''OPEN'') (review_tasks w)
      in \<lparr>os_generated_at = clock w,
          os_inspections_24h = sum_list (map snd (group_counts (map insp_status
            (filter (\<lambda>i. insp_tenant i = tid \<and> recent_inspection w i) (inspections w))))),
          os_route_counts = group_counts (concat (map (\<lambda>p. map (\<lambda>i. pol_decision p)
            (filter (\<lambda>i. insp_id i = pol_inspection_id p \<and> recent_inspection w i) (inspections w)))
            (filter (\<lambda>p. pol_tenant p = tid) (policy_decisions w)))),
          os_review_backlog = length open_tasks,
          os_review_high_risk = length (concat (map (\<lambda>k.
            filter (\<lambda>i. insp_id i = rev_inspection_id k \<and> insp_status i = BATCH_HELD) (inspections w)) open_tasks)),
          os_incident_counts = group_counts (map inc_status (filter (\<lambda>c. inc_tenant c = tid) (quality_incidents w))),
          os_gateways_total = length gateways, os_gateways_online = online,
          os_gateway_online_rate =
            (if gateways = [] then None else Some (of_nat online / of_nat (length gateways))),
          os_gateway_queue_depth = sum_list (map (\<lambda>g. gwy_queue_depth (gs_gateway g)) gateways),
          os_upload_success_count = sum_list (map (\<lambda>g. gwy_upload_success_count (gs_gateway g)) gateways),
          os_upload_failure_count = sum_list (map (\<lambda>g. gwy_upload_failure_count (gs_gateway g)) gateways)\<rparr>)"

end
