(* ===== verification/Deployments.thy ===== *)
theory Deployments
  imports Incidents
begin

text \<open>
  Deployment packs in \<^verbatim>\<open>backend/app/services.py\<close>: the creation of a draft (the stored
  manifest is redacted), and the activation with its checks, which retires the pack that was active.
\<close>

section \<open>What is stored of a manifest\<close>

text \<open>A redacted dict of strings: the value under a sensitive key becomes the placeholder.\<close>

definition redact_strings :: "(string \<times> string) list \<Rightarrow> (string \<times> string) list" where
  "redact_strings kvs = map (\<lambda>(k, v). (k, if sensitive_key k then ''[REDACTED]'' else v)) kvs"

definition redact_dict :: "(string \<times> json) list \<Rightarrow> (string \<times> json) list" where
  "redact_dict kvs = map (\<lambda>(k, v). (k, if sensitive_key k then JStr ''[REDACTED]'' else redact v)) kvs"

definition redact_connector :: "ConnectorDefinition \<Rightarrow> ConnectorDefinition" where
  "redact_connector c = c\<lparr>cd_payload_mapping := redact_strings (cd_payload_mapping c),
     cd_fixed_fields := redact_dict (cd_fixed_fields c)\<rparr>"

definition redact_edge :: "EdgeGatewayDefinition \<Rightarrow> EdgeGatewayDefinition" where
  "redact_edge g = g\<lparr>eg_watch := (eg_watch g)\<lparr>gw_capture_map := redact_strings (gw_capture_map (eg_watch g)),
       gw_defaults := redact_strings (gw_defaults (eg_watch g))\<rparr>,
     eg_simulator := map_option redact (eg_simulator g)\<rparr>"

text \<open>\<open>redact(manifest.model_dump())\<close>: none of the contract's own field names is sensitive, so only
  the dicts with free keys can change.\<close>

definition redact_manifest :: "DeploymentManifest \<Rightarrow> DeploymentManifest" where
  "redact_manifest m = m\<lparr>field_labels := redact_strings (field_labels m),
     connectors := \<lparr>cs_mes = redact_connector (cs_mes (connectors m)),
                    cs_qms = redact_connector (cs_qms (connectors m))\<rparr>,
     metadata := redact_dict (metadata m), edge_gateway := map_option redact_edge (edge_gateway m)\<rparr>"

definition strings_json :: "(string \<times> string) list \<Rightarrow> json" where
  "strings_json kvs = JObj (map (\<lambda>(k, v). (k, JStr v)) kvs)"

definition model_dump :: "ModelDefinition \<Rightarrow> (string \<times> json) list" where
  "model_dump m =
     [(''id'', JStr (md_id m)), (''version'', JStr (md_version m)),
      (''feature_bank_version'', JStr (md_feature_bank_version m)), (''adapter'', JStr (md_adapter m)),
      (''runtime'', JStr (md_runtime m)), (''device'', JStr (md_device m)),
      (''package_uri'', JStr (md_package_uri m)), (''package_sha256'', JOpt (md_package_sha256 m)),
      (''score_semantics'', JStr (md_score_semantics m)),
      (''limitations'', JList (map JStr (md_limitations m)))]"

definition connector_dump :: "ConnectorDefinition \<Rightarrow> json" where
  "connector_dump c = JObj
     [(''display_name'', JStr (cd_display_name c)), (''driver'', JStr (cd_driver c)),
      (''contract_version'', JStr (cd_contract_version c)), (''endpoint'', JStr (cd_endpoint c)),
      (''payload_mapping'', strings_json (cd_payload_mapping c)),
      (''fixed_fields'', JObj (cd_fixed_fields c)), (''operations'', JList (map JStr (cd_operations c)))]"

section \<open>Creation\<close>

record DeploymentCreateRequest =
  dr_manifest :: "DeploymentManifest option"
  dr_version :: "string option"
  dr_model :: "(string \<times> json) list"
  dr_policy :: "PolicyConfig option"
  dr_connectors :: "(string \<times> json) list"

definition validate_create_request :: "DeploymentCreateRequest \<Rightarrow> string + unit" where
  "validate_create_request r =
     andThen (case dr_manifest r of None \<Rightarrow> Inr () | Some m \<Rightarrow> validate_manifest m) (\<lambda>_.
     andThen (case dr_version r of None \<Rightarrow> Inr () | Some v \<Rightarrow> ensure (len_between 1 64 v) ''version'') (\<lambda>_.
     andThen (case dr_policy r of None \<Rightarrow> Inr () | Some p \<Rightarrow> validate_policy p) (\<lambda>_.
     ensure (dr_manifest r \<noteq> None \<or> (dr_version r \<noteq> None \<and> dr_policy r \<noteq> None))
       ''manifest or version plus policy is required'')))"

definition requested_manifest :: "Principal \<Rightarrow> Tenant \<Rightarrow> DeploymentCreateRequest \<Rightarrow> exn + DeploymentManifest" where
  "requested_manifest pr ten r = (case dr_manifest r of
     Some m \<Rightarrow>
       if td_id (tenant m) \<noteq> tenant_id pr
       then Inl (ServiceError Forbidden ''deployment manifest tenant does not match authenticated tenant'' None)
       else if td_name (tenant m) \<noteq> ten_name ten
       then Inl (ServiceError InvalidInput ''deployment manifest tenant name does not match tenant registry'' None)
       else Inr m
   | None \<Rightarrow>
       (case (dr_version r, dr_policy r) of
          (Some v, Some p) \<Rightarrow>
            (case legacy_manifest (tenant_id pr) (ten_name ten) v (dr_model r) p (dr_connectors r) of
               Inl field \<Rightarrow> Inl (OtherError ''ValidationError'' field)
             | Inr m \<Rightarrow> Inr m)
        | _ \<Rightarrow> Inl (OtherError ''AssertionError'' '''')))"

definition create_deployment :: "env \<Rightarrow> Principal \<Rightarrow> DeploymentCreateRequest \<Rightarrow> string \<Rightarrow> DeploymentPack svc" where
  "create_deployment env pr r correlation_id =
     (let tid = tenant_id pr in
      bnd (fetch tenants (\<lambda>x. ten_id x = tid)) (\<lambda>found.
      case found of
        None \<Rightarrow> raise_error Forbidden ''tenant is not active''
      | Some ten \<Rightarrow>
          if ten_status ten \<noteq> ''ACTIVE'' then raise_error Forbidden ''tenant is not active''
          else
            bnd (lift_result (requested_manifest pr ten r)) (\<lambda>m.
            bnd (query clock) (\<lambda>now.
            bnd (fresh_id ''dep'') (\<lambda>did.
            let d = \<lparr>dep_id = did, dep_tenant = tid, dep_version = version m, dep_status = ''DRAFT'',
                  dep_model_config_snapshot = redact_dict (model_dump (model m)), dep_policy_config = policy m,
                  dep_connector_config = redact_dict
                    [(''mes'', connector_dump (cs_mes (connectors m))), (''qms'', connector_dump (cs_qms (connectors m)))],
                  dep_manifest = Some (redact_manifest m), dep_approved_by = None, dep_activated_at = None,
                  dep_created_at = now\<rparr> in
            andthen (try_catch (insert_deployment d)
                (\<lambda>e. raise_error Conflict ''deployment version already exists for tenant''))
            (andthen (record_audit env tid (actor_id pr) ''deployment.created'' ''deployment_pack'' did correlation_id
                (JObj [(''version'', JStr (version m)), (''pack_key'', JStr (pack_key m))]))
             (ret d)))))))"

definition list_deployments :: "string \<Rightarrow> DeploymentPack list svc" where
  "list_deployments tid = query (\<lambda>w. sort_key (\<lambda>d. - dep_created_at d)
     (filter (\<lambda>d. dep_tenant d = tid) (deployment_packs w)))"

definition get_deployment :: "string \<Rightarrow> string \<Rightarrow> DeploymentPack svc" where
  "get_deployment tid did =
     bnd (fetch deployment_packs (is_deployment did tid)) (\<lambda>found.
     case found of None \<Rightarrow> raise_error NotFound ''deployment pack not found'' | Some d \<Rightarrow> ret d)"

section \<open>Activation\<close>

text \<open>The double loop over the catalogue.\<close>

definition policy_resolves :: "DeploymentManifest \<Rightarrow> bool" where
  "policy_resolves m \<longleftrightarrow> (\<forall>p \<in> set (products m). \<forall>s \<in> set (stations m).
     case resolve (policy m) (pd_code p) (st_code s) of Inl _ \<Rightarrow> False | Inr _ \<Rightarrow> True)"

definition active_evidence :: "string \<Rightarrow> DeploymentManifest \<Rightarrow> string \<Rightarrow> ModelQualification \<Rightarrow> bool" where
  "active_evidence tid m product_code q \<longleftrightarrow> mq_tenant q = tid \<and> mq_product_code q = product_code \<and>
     mq_model_id q = md_id (model m) \<and> mq_model_version q = md_version (model m) \<and>
     Some (mq_package_sha256 q) = md_package_sha256 (model m) \<and> mq_pack_key q = pack_key m \<and>
     mq_status q = ''ACTIVE'' \<and> mq_qualification_status q = ''GO''"

definition unqualified_product :: "string \<Rightarrow> DeploymentManifest \<Rightarrow> world \<Rightarrow> ProductDefinition option" where
  "unqualified_product tid m w =
     find (\<lambda>p. \<not> (\<exists>q \<in> set (model_qualifications w). active_evidence tid m (pd_code p) q)) (products m)"

definition preflight :: "env \<Rightarrow> world \<Rightarrow> (string \<times> bool) list" where
  "preflight env w =
     dict_of ([(''storage'', storage_healthcheck env), (''model'', model_healthcheck env)] @
       map (\<lambda>(name, c). (''connector:'' @ name, connector_healthcheck env c)) (remote_systems w))"

definition preflight_json :: "(string \<times> bool) list \<Rightarrow> json" where
  "preflight_json checks = JObj (map (\<lambda>(k, b). (k, JBool b)) checks)"

definition activate_deployment ::
  "env \<Rightarrow> Principal \<Rightarrow> string \<Rightarrow> string \<Rightarrow> string \<Rightarrow> DeploymentPack svc" where
  "activate_deployment env pr deployment_id reason correlation_id =
     (let tid = tenant_id pr in
      bnd (fetch deployment_packs (is_deployment deployment_id tid)) (\<lambda>found.
      case found of
        None \<Rightarrow> raise_error NotFound ''deployment pack not found''
      | Some d \<Rightarrow>
          bnd (deployment_manifest d) (\<lambda>m.
          if td_id (tenant m) \<noteq> tid
          then raise_error Forbidden ''deployment pack tenant boundary is invalid''
          else if \<not> policy_resolves m
          then raise_error InvalidInput ''deployment policy schema or overrides are invalid''
          else
            bnd (query (unqualified_product tid m)) (\<lambda>missing.
            if environment (settings env) = ''production'' \<and> missing \<noteq> None
            then throw (ServiceError InvalidInput
              ''production Deployment Pack requires a matching ACTIVE model qualification''
              (Some (JObj [(''product_code'', JStr (pd_code (the missing))), (''pack_key'', JStr (pack_key m))])))
            else
              bnd (query (preflight env)) (\<lambda>checks.
              if \<not> (\<forall>c \<in> set checks. snd c)
              then throw (ServiceError DependencyUnavailable
                ''deployment preflight failed; active deployment was not changed'' (Some (preflight_json checks)))
              else
                bnd (fetch deployment_packs (\<lambda>x. dep_tenant x = tid \<and> dep_status x = ''ACTIVE'')) (\<lambda>active.
                bnd (query clock) (\<lambda>now.
                andthen (run_all
                 [run_if (case active of None \<Rightarrow> False | Some a \<Rightarrow> dep_id a \<noteq> dep_id d)
                    (update_deployment (dep_id (the active)) tid (\<lambda>x. x\<lparr>dep_status := ''RETIRED''\<rparr>)),
                  update_deployment (dep_id d) tid (\<lambda>x. x\<lparr>dep_status := ''ACTIVE'',
                    dep_approved_by := Some (actor_id pr), dep_activated_at := Some now\<rparr>),
                  record_audit env tid (actor_id pr) ''deployment.activated'' ''deployment_pack'' (dep_id d)
                    correlation_id (JObj [(''version'', JStr (dep_version d)), (''pack_key'', JStr (pack_key m)),
                      (''reason'', JStr reason), (''preflight'', preflight_json checks)])])
                (bnd (get_deployment tid (dep_id d)) ret))))))))"

end
