(* ===== verification/Examples.thy ===== *)
theory Examples
  imports Inspections
begin

text \<open>
  A concrete environment and a concrete store, on which the witnesses of the properties evaluate: one
  tenant with an active pack, in-memory connectors, a model that gives every image the score in
  \<open>example_score\<close>.
\<close>

definition example_settings :: Settings where
  "example_settings = \<lparr>environment = ''test'', max_upload_bytes = 100, max_image_pixels = 1000,
     process_inline = True, connector_max_attempts = 3, connector_backoff_seconds = 0,
     gateway_stale_seconds = 30, gateway_offline_seconds = 120, auth_issuer = ''visionqc'',
     access_token_minutes = 60, bootstrap_tenant_id = ''t1'', demo_switchable_tenant_ids = ''t1,t2'',
     local_storage_path = ''/data'', dataset_max_upload_bytes = 100, dataset_max_uncompressed_bytes = 1000,
     dataset_max_files = 10, dataset_max_compression_ratio = 200, dataset_import_roots = ''''\<rparr>"

definition example_output :: "rat \<Rightarrow> ModelOutput" where
  "example_output score = \<lparr>mo_score = score, mo_heatmap_png = ''heat'', mo_model_id = ''m'',
     mo_model_version = ''1'', mo_feature_bank_version = ''fb'', mo_runtime_device = ''cpu'',
     mo_latency_ms = 1\<rparr>"

text \<open>A file system with one mounted archive of two images.\<close>

definition example_members :: "zip_info list" where
  "example_members =
     [\<lparr>zi_filename = ''good/b.png'', zi_is_dir = False, zi_external_attr = 0, zi_file_size = 3, zi_data = Inr ''bbb''\<rparr>,
      \<lparr>zi_filename = ''good/a.png'', zi_is_dir = False, zi_external_attr = 0, zi_file_size = 2, zi_data = Inr ''aa''\<rparr>]"

definition example_sources :: source_files where
  "example_sources = \<lparr>expanduser = (\<lambda>p. p), is_symlink = (\<lambda>p. False), resolve_path = (\<lambda>p. p),
     node_at = (\<lambda>p. if p = ''/mnt/set.zip'' then FileNode else NoNode), walk = (\<lambda>p. []),
     read_node = (\<lambda>p. Inr ''zipped''), reread_node = (\<lambda>p. Inr ''zipped''),
     open_zip = (\<lambda>b. if b = ''zipped'' then Inr example_members else Inl (ArchiveFailure ''bad'')),
     open_tar = (\<lambda>b. Inl (ArchiveFailure ''bad''))\<rparr>"

definition example_env :: "rat \<Rightarrow> env" where
  "example_env score = \<lparr>settings = example_settings, sha256 = (\<lambda>s. s), dumps = (\<lambda>j. case j of JObj ((k, JStr s) # kvs) \<Rightarrow> s | _ \<Rightarrow> ''json''),
     decode_image = (\<lambda>b. Decoded ''PNG'' 4 4), parse_datetime = (\<lambda>s. Some \<lparr>dt_iso = s, dt_time = 0\<rparr>),
     infer = (\<lambda>b. Inr (example_output score)), model_healthcheck = True, storage_healthcheck = True,
     http_get = (\<lambda>u. TransportFailure), loads = (\<lambda>s. None), py_str = (\<lambda>j. ''''), evidence_dir = (\<lambda>p. None),
     sources = example_sources\<rparr>"

definition example_tenant :: Tenant where
  "example_tenant = \<lparr>ten_id = ''t1'', ten_name = ''Tenant'', ten_status = ''ACTIVE''\<rparr>"

definition example_pack :: DeploymentPack where
  "example_pack = \<lparr>dep_id = ''dep_0'', dep_tenant = ''t1'', dep_version = ''v1'', dep_status = ''ACTIVE'',
     dep_model_config_snapshot = [], dep_policy_config = example_policy, dep_connector_config = [],
     dep_manifest = Some example_manifest, dep_approved_by = None, dep_activated_at = None,
     dep_created_at = 0\<rparr>"

definition empty_world :: world where
  "empty_world = \<lparr>tenants = [], edge_gateways = [], deployment_packs = [], model_qualifications = [],
     dataset_registrations = [], inspections = [], image_assets = [], inference_results = [],
     policy_decisions = [], review_tasks = [], review_decisions = [], quality_incidents = [],
     external_actions = [], audit_events = [], state_transitions = [], outbox_events = [],
     side_audits = [], objects = [], remote_systems = [], draws = 0, clock = 0\<rparr>"

definition example_world :: world where
  "example_world = empty_world\<lparr>tenants := [example_tenant], deployment_packs := [example_pack],
     remote_systems := [(''MES'', InMemory (InMemoryConnector_init ''mes'')),
                        (''QMS'', InMemory (InMemoryConnector_init ''qms''))]\<rparr>"

definition inspector :: Principal where
  "inspector = \<lparr>actor_id = ''inspector-1'', tenant_id = ''t1'', roles = {INSPECTOR}\<rparr>"

definition manager :: Principal where
  "manager = \<lparr>actor_id = ''manager-1'', tenant_id = ''t1'', roles = {QUALITY_MANAGER}\<rparr>"

definition example_form :: form where
  "example_form = [(''product_code'', Some ''P2''), (''batch_no'', Some ''B1''), (''station_code'', Some ''S1''),
     (''captured_at'', Some ''2024'')]"

end
