(* ===== verification/Evidence.thy ===== *)
theory Evidence
  imports Examples
begin

text \<open>
  \<^verbatim>\<open>backend/app/qualification.py\<close>: the check of an evidence package on disk, as the
  files of a directory with their contents. A ValueError names the check that failed.
\<close>

definition REQUIRED_EVIDENCE_FILES :: "string list" where
  "REQUIRED_EVIDENCE_FILES =
     [''qualification-summary.json'', ''model-card.md'', ''evaluation-report.md'', ''metrics.json'',
      ''confidence-intervals.json'', ''split-manifest.json'', ''provenance.json'',
      ''release-decision.json'', ''error-cases.json'', ''source-evidence.json'',
      ''evidence-manifest.json'']"

type_synonym directory = "(string \<times> string) list"

definition value_error :: "string \<Rightarrow> exn + 'a" where
  "value_error message = Inl (OtherError ''ValueError'' message)"

definition check :: "bool \<Rightarrow> string \<Rightarrow> exn + unit" where
  "check b message = (if b then Inr () else value_error message)"

text \<open>A dict, where the code calls \<open>.get\<close> on a value.\<close>

definition as_dict :: "json \<Rightarrow> exn + (string \<times> json) list" where
  "as_dict j = (case j of JObj kvs \<Rightarrow> Inr kvs | _ \<Rightarrow> Inl (OtherError ''AttributeError'' ''get''))"

definition get_default :: "string \<Rightarrow> json \<Rightarrow> (string \<times> json) list \<Rightarrow> json" where
  "get_default k d kvs = (case jget k kvs of None \<Rightarrow> d | Some v \<Rightarrow> v)"

abbreviation get_or_null :: "string \<Rightarrow> (string \<times> json) list \<Rightarrow> json" where
  "get_or_null k kvs \<equiv> get_default k JNull kvs"

definition read_json :: "env \<Rightarrow> directory \<Rightarrow> string \<Rightarrow> exn + (string \<times> json) list" where
  "read_json env files name = (case map_of files name of
     None \<Rightarrow> Inl (OtherError ''FileNotFoundError'' name)
   | Some contents \<Rightarrow> (case loads env contents of
       None \<Rightarrow> value_error ''JSONDecodeError'' | Some j \<Rightarrow> as_dict j))"

text \<open>\<open>{name: {"sha256": ..., "size_bytes": ...}}\<close> over the files outside a set of names.\<close>

definition file_entry :: "env \<Rightarrow> string \<Rightarrow> json" where
  "file_entry env contents = JObj [(''sha256'', JStr (sha256 env contents)), (''size_bytes'', JInt (int (length contents)))]"

definition inventory_of :: "env \<Rightarrow> string list \<Rightarrow> directory \<Rightarrow> (string \<times> json) list" where
  "inventory_of env excluded files =
     map (\<lambda>(name, contents). (name, file_entry env contents))
       (sort_key fst (filter (\<lambda>(name, contents). name \<notin> set excluded) files))"

definition core_digest :: "env \<Rightarrow> directory \<Rightarrow> string" where
  "core_digest env files =
     digest env (sort_keys (JObj (inventory_of env [''release-decision.json'', ''evidence-manifest.json''] files)))"

text \<open>The loop over the declared files.\<close>

fun check_inventory :: "env \<Rightarrow> directory \<Rightarrow> (string \<times> json) list \<Rightarrow> exn + unit" where
  "check_inventory env files [] = Inr ()"
| "check_inventory env files ((relative, details) # rest) =
     (if \<not> safe_relative relative
      then value_error (''qualification evidence inventory contains an unsafe path: '' @ relative)
      else andThen (as_dict details) (\<lambda>d.
        case map_of files relative of
          None \<Rightarrow> value_error (''qualification evidence file mismatch: '' @ relative)
        | Some contents \<Rightarrow>
            if get_or_null ''sha256'' d \<noteq> JStr (sha256 env contents) \<or>
               \<not> equals_int (get_or_null ''size_bytes'' d) (int (length contents))
            then value_error (''qualification evidence file mismatch: '' @ relative)
            else check_inventory env files rest))"

record EvidencePackage =
  evp_digest :: string
  evp_decision :: json
  evp_gate_decision :: json
  evp_source_type :: string
  evp_dataset_fingerprint :: json
  evp_approval_status :: json
  evp_gates :: json
  evp_metrics :: json

definition source_type_of :: "(string \<times> json) list \<Rightarrow> exn + string" where
  "source_type_of provenance =
     (case get_default ''source_type'' (get_default ''data_status'' (JStr '''') provenance) provenance of
        JStr s \<Rightarrow> if s \<in> {''DEMO_SYNTHETIC'', ''OFFICIAL_BENCHMARK'', ''CUSTOMER_PILOT''} then Inr s
                  else value_error ''qualification evidence source type is invalid''
      | _ \<Rightarrow> value_error ''qualification evidence source type is invalid'')"

definition REQUIRED_PROVENANCE :: "string list" where
  "REQUIRED_PROVENANCE = [''tenant'', ''site'', ''line'', ''camera'', ''product'', ''capture_window_start'',
     ''capture_window_end'', ''label_source'', ''approver'', ''consent'', ''retention_policy'']"

definition customer_provenance_complete :: "(string \<times> json) list \<Rightarrow> bool" where
  "customer_provenance_complete provenance =
     (case get_or_null ''customer_provenance'' provenance of
        JObj cp \<Rightarrow> set REQUIRED_PROVENANCE \<subseteq> set (map fst cp) \<and> json_truthy (get_or_null ''consent'' cp)
      | _ \<Rightarrow> False)"

text \<open>The checks on the contents once the inventory stands.\<close>

definition check_evidence_contents ::
  "env \<Rightarrow> directory \<Rightarrow> string \<Rightarrow> exn + EvidencePackage" where
  "check_evidence_contents env files expected =
     andThen (read_json env files ''provenance.json'') (\<lambda>provenance.
     andThen (check (get_or_null ''model_package_sha256'' provenance = JStr expected)
       ''qualification evidence model package digest mismatch'') (\<lambda>_.
     andThen (read_json env files ''release-decision.json'') (\<lambda>release.
     andThen (check (get_or_null ''evidence_package_sha256'' release = JStr (core_digest env files))
       ''qualification evidence package digest mismatch'') (\<lambda>_.
     andThen (read_json env files ''metrics.json'') (\<lambda>metrics.
     andThen (read_json env files ''qualification-summary.json'') (\<lambda>summary.
     andThen (check (get_or_null ''decision'' release = get_or_null ''qualification_status'' summary)
       ''qualification summary decision does not match release decision'') (\<lambda>_.
     andThen (as_dict (get_default ''gates'' (JObj []) metrics)) (\<lambda>gates.
     andThen (check (get_or_null ''decision'' release = get_or_null ''decision'' gates \<or>
                     get_or_null ''decision'' release = get_or_null ''report_status'' gates)
       ''qualification metrics report status does not match release decision'') (\<lambda>_.
     andThen (check (get_or_null ''model_package_sha256'' release = get_or_null ''model_package_sha256'' provenance)
       ''qualification release and provenance package digests do not match'') (\<lambda>_.
     andThen (source_type_of provenance) (\<lambda>source_type.
     andThen (check (get_default ''source_type'' (JStr source_type) summary = JStr source_type)
       ''qualification summary and provenance source types do not match'') (\<lambda>_.
     andThen (check (get_default ''source_type'' (JStr source_type) release = JStr source_type)
       ''qualification release and provenance source types do not match'') (\<lambda>_.
     andThen (check (get_or_null ''dataset_fingerprint'' release = get_or_null ''dataset_fingerprint'' provenance)
       ''qualification release and provenance dataset fingerprints do not match'') (\<lambda>_.
     andThen (check (source_type = ''CUSTOMER_PILOT'' \<longrightarrow> customer_provenance_complete provenance)
       ''CUSTOMER_PILOT evidence lacks complete consented customer provenance'') (\<lambda>_.
     Inr \<lparr>evp_digest = core_digest env files, evp_decision = get_or_null ''decision'' release,
          evp_gate_decision = get_default ''gate_decision'' (get_or_null ''decision'' gates) release,
          evp_source_type = source_type,
          evp_dataset_fingerprint = get_or_null ''dataset_fingerprint'' provenance,
          evp_approval_status = get_or_null ''approval_status'' release,
          evp_gates = get_default ''gates'' (get_default ''gates'' (JObj []) release) metrics,
          evp_metrics = get_default ''metrics'' (JObj []) metrics\<rparr>)))))))))))))))"

definition verify_evidence_package :: "env \<Rightarrow> string \<Rightarrow> string \<Rightarrow> exn + EvidencePackage" where
  "verify_evidence_package env path expected =
     (case evidence_dir env path of
        None \<Rightarrow> value_error ''qualification evidence package is incomplete''
      | Some files \<Rightarrow>
          if \<not> set REQUIRED_EVIDENCE_FILES \<subseteq> set (map fst files)
          then value_error ''qualification evidence package is incomplete''
          else
            andThen (read_json env files ''evidence-manifest.json'') (\<lambda>inventory.
            andThen (check (get_or_null ''schema_version'' inventory = JStr ''visionqc.evidence-manifest.v1'')
              ''qualification evidence manifest schema is invalid'') (\<lambda>_.
            case get_or_null ''files'' inventory of
              JObj declared \<Rightarrow>
                if set (map fst declared) \<noteq> set (map fst (inventory_of env [''evidence-manifest.json''] files))
                then value_error ''qualification evidence inventory does not cover the complete package''
                else andThen (check_inventory env files declared) (\<lambda>_.
                  check_evidence_contents env files expected)
            | _ \<Rightarrow> value_error ''qualification evidence inventory does not cover the complete package'')))"

section \<open>What the verification establishes\<close>

lemma check_Inr [simp]: "check b m = Inr u \<longleftrightarrow> b"
  by (simp add: check_def value_error_def)

lemma value_error_Inr [simp]: "value_error m \<noteq> Inr u"
  by (simp add: value_error_def)

lemma case_JObj_Inr:
  "(case j of JObj d \<Rightarrow> k d | _ \<Rightarrow> value_error m) = Inr x \<longleftrightarrow> (\<exists>d. j = JObj d \<and> k d = Inr x)"
  by (cases j) simp_all

lemma check_inventory_Inr:
  assumes "check_inventory env files declared = Inr ()" "(name, details) \<in> set declared"
  shows "\<exists>contents d. map_of files name = Some contents \<and> details = JObj d \<and>
     get_or_null ''sha256'' d = JStr (sha256 env contents) \<and>
     equals_int (get_or_null ''size_bytes'' d) (int (length contents))"
  using assms
  by (induction env files declared rule: check_inventory.induct)
    (auto simp: as_dict_def split: if_splits option.splits json.splits)

lemma names_inventory_of: "set (map fst (inventory_of env excluded files)) = set (map fst files) - set excluded"
  by (force simp: inventory_of_def)

text \<open>Evidence that verifies is complete and untampered: every file of the directory but the
  inventory itself has its current SHA-256 and size declared in the inventory, nothing else is declared, the
  provenance names the expected model package, and the release decision carries the digest of the package;
  customer evidence has complete provenance with consent.\<close>

theorem verified_evidence_untampered:
  assumes "verify_evidence_package env path expected = Inr ev"
  shows "\<exists>files inventory declared provenance release.
     evidence_dir env path = Some files \<and> set REQUIRED_EVIDENCE_FILES \<subseteq> set (map fst files) \<and>
     read_json env files ''evidence-manifest.json'' = Inr inventory \<and>
     get_or_null ''files'' inventory = JObj declared \<and>
     set (map fst declared) = set (map fst files) - {''evidence-manifest.json''} \<and>
     (\<forall>name details. (name, details) \<in> set declared \<longrightarrow>
        (\<exists>contents d. map_of files name = Some contents \<and> details = JObj d \<and>
           get_or_null ''sha256'' d = JStr (sha256 env contents) \<and>
           equals_int (get_or_null ''size_bytes'' d) (int (length contents)))) \<and>
     read_json env files ''provenance.json'' = Inr provenance \<and>
     get_or_null ''model_package_sha256'' provenance = JStr expected \<and>
     read_json env files ''release-decision.json'' = Inr release \<and>
     get_or_null ''evidence_package_sha256'' release = JStr (evp_digest ev) \<and>
     evp_digest ev = core_digest env files \<and>
     (evp_source_type ev = ''CUSTOMER_PILOT'' \<longrightarrow> customer_provenance_complete provenance)"
proof -
  obtain files inventory declared where
    files: "evidence_dir env path = Some files" "set REQUIRED_EVIDENCE_FILES \<subseteq> set (map fst files)"
    and inv: "read_json env files ''evidence-manifest.json'' = Inr inventory"
      "get_or_null ''files'' inventory = JObj declared"
    and names: "set (map fst declared) = set (map fst (inventory_of env [''evidence-manifest.json''] files))"
    and decl: "check_inventory env files declared = Inr ()"
    and contents: "check_evidence_contents env files expected = Inr ev"
    using assms unfolding verify_evidence_package_def
    by (auto simp: case_JObj_Inr split: option.splits if_splits)
  obtain provenance release where
    "read_json env files ''provenance.json'' = Inr provenance"
    "get_or_null ''model_package_sha256'' provenance = JStr expected"
    "read_json env files ''release-decision.json'' = Inr release"
    "get_or_null ''evidence_package_sha256'' release = JStr (core_digest env files)"
    "evp_digest ev = core_digest env files"
    "evp_source_type ev = ''CUSTOMER_PILOT'' \<longrightarrow> customer_provenance_complete provenance"
    using contents unfolding check_evidence_contents_def by auto
  then show ?thesis
    using files inv names [unfolded names_inventory_of] check_inventory_Inr [OF decl]
    by (intro exI [of _ files] exI [of _ inventory] exI [of _ declared] exI [of _ provenance] exI [of _ release])
      simp
qed

section \<open>A package that verifies\<close>

definition example_inventory :: json where
  "example_inventory = JObj [(''schema_version'', JStr ''visionqc.evidence-manifest.v1''),
     (''files'', JObj
       [(''qualification-summary.json'', JObj [(''sha256'', JStr ''0''), (''size_bytes'', JInt 1)]),
        (''model-card.md'', JObj [(''sha256'', JStr ''1''), (''size_bytes'', JInt 1)]),
        (''evaluation-report.md'', JObj [(''sha256'', JStr ''2''), (''size_bytes'', JInt 1)]),
        (''metrics.json'', JObj [(''sha256'', JStr ''3''), (''size_bytes'', JInt 1)]),
        (''confidence-intervals.json'', JObj [(''sha256'', JStr ''4''), (''size_bytes'', JInt 1)]),
        (''split-manifest.json'', JObj [(''sha256'', JStr ''5''), (''size_bytes'', JInt 1)]),
        (''provenance.json'', JObj [(''sha256'', JStr ''6''), (''size_bytes'', JInt 1)]),
        (''release-decision.json'', JObj [(''sha256'', JStr ''7''), (''size_bytes'', JInt 1)]),
        (''error-cases.json'', JObj [(''sha256'', JStr ''8''), (''size_bytes'', JInt 1)]),
        (''source-evidence.json'', JObj [(''sha256'', JStr ''9''), (''size_bytes'', JInt 1)])])]"

definition example_directory :: directory where
  "example_directory =
     [(''qualification-summary.json'', ''0''),
      (''model-card.md'', ''1''),
      (''evaluation-report.md'', ''2''),
      (''metrics.json'', ''3''),
      (''confidence-intervals.json'', ''4''),
      (''split-manifest.json'', ''5''),
      (''provenance.json'', ''6''),
      (''release-decision.json'', ''7''),
      (''error-cases.json'', ''8''),
      (''source-evidence.json'', ''9''),
      (''evidence-manifest.json'', ''M'')]"

definition example_loads :: "string \<Rightarrow> json option" where
  "example_loads s =
     (if s = ''M'' then Some example_inventory
      else if s = ''6'' then Some (JObj [(''model_package_sha256'', JStr ''pkg''), (''source_type'', JStr ''DEMO_SYNTHETIC'')])
      else if s = ''7'' then Some (JObj [(''evidence_package_sha256'', JStr ''json''), (''decision'', JStr ''GO''),
        (''model_package_sha256'', JStr ''pkg'')])
      else if s = ''3'' then Some (JObj [(''gates'', JObj [(''decision'', JStr ''GO'')])])
      else if s = ''0'' then Some (JObj [(''qualification_status'', JStr ''GO'')])
      else None)"

definition evidence_env :: env where
  "evidence_env = (example_env 0)\<lparr>loads := example_loads, evidence_dir := (\<lambda>p. Some example_directory)\<rparr>"

definition example_evidence :: EvidencePackage where
  "example_evidence = \<lparr>evp_digest = ''json'', evp_decision = JStr ''GO'', evp_gate_decision = JStr ''GO'',
     evp_source_type = ''DEMO_SYNTHETIC'', evp_dataset_fingerprint = JNull, evp_approval_status = JNull,
     evp_gates = JObj [(''decision'', JStr ''GO'')], evp_metrics = JObj []\<rparr>"

lemma example_evidence_verifies: "verify_evidence_package evidence_env ''dir'' ''pkg'' = Inr example_evidence"
  by code_simp

theorem verified_evidence_untampered_witness:
  "\<exists>files. evidence_dir evidence_env ''dir'' = Some files \<and>
     evp_digest example_evidence = core_digest evidence_env files"
  using verified_evidence_untampered [OF example_evidence_verifies] by blast

end
