(* ===== verification/Qualifications.thy ===== *)
theory Qualifications
  imports Evidence Inspections
begin

text \<open>
  Model qualifications in \<^verbatim>\<open>backend/app/services.py\<close>: registration of evidence,
  evaluation, approval and activation by distinct actors, retirement and rollback.
\<close>

record QualificationCreateRequest =
  qr_product_code :: string
  qr_model_id :: string
  qr_model_version :: string
  qr_feature_bank_version :: string
  qr_package_sha256 :: string
  qr_evidence_path :: string
  qr_evidence_sha256 :: string
  qr_pack_key :: string
  qr_dataset_id :: "string option"
  qr_dataset_source_type :: "string option"
  qr_dataset_fingerprint :: "string option"

definition list_qualifications :: "string \<Rightarrow> ModelQualification list svc" where
  "list_qualifications tid = query (\<lambda>w. sort_key (\<lambda>q. - mq_created_at q)
     (filter (\<lambda>q. mq_tenant q = tid) (model_qualifications w)))"

text \<open>The dataset registration a new qualification binds.\<close>

definition bound_dataset ::
  "string \<Rightarrow> QualificationCreateRequest \<Rightarrow> DatasetRegistrationRecord option svc" where
  "bound_dataset tid r =
     (if truthy (qr_dataset_id r) then
        bnd (fetch dataset_registrations (\<lambda>d. Some (ds_id d) = qr_dataset_id r \<and> ds_tenant d = tid)) (\<lambda>found.
        case found of
          None \<Rightarrow> raise_error NotFound ''dataset registration not found''
        | Some d \<Rightarrow>
            if ds_status d = ''REVOKED''
            then raise_error InvalidInput ''revoked dataset registrations cannot bind new evidence''
            else if qr_dataset_source_type r \<noteq> None \<and> qr_dataset_source_type r \<noteq> Some (ds_source_type d)
            then raise_error InvalidInput ''dataset source type does not match the registered dataset''
            else if truthy (qr_dataset_fingerprint r) \<and> qr_dataset_fingerprint r \<noteq> Some (ds_fingerprint d)
            then raise_error InvalidInput ''dataset fingerprint does not match the registered dataset''
            else ret (Some d))
      else if qr_dataset_source_type r \<notin> {None, Some ''DEMO_SYNTHETIC''}
      then raise_error InvalidInput ''non-demo qualification evidence must bind a dataset registration''
      else ret None)"

definition create_qualification ::
  "env \<Rightarrow> Principal \<Rightarrow> QualificationCreateRequest \<Rightarrow> string \<Rightarrow> ModelQualification svc" where
  "create_qualification env pr r correlation_id =
     (let tid = tenant_id pr in
      bnd (fetch tenants (\<lambda>x. ten_id x = tid)) (\<lambda>found.
      if (case found of None \<Rightarrow> True | Some x \<Rightarrow> ten_status x \<noteq> ''ACTIVE'')
      then raise_error Forbidden ''tenant is not active''
      else
        bnd (bound_dataset tid r) (\<lambda>d.
        bnd (query clock) (\<lambda>now.
        bnd (fresh_id ''qual'') (\<lambda>qid.
        let item = \<lparr>mq_id = qid, mq_tenant = tid, mq_product_code = qr_product_code r,
              mq_model_id = qr_model_id r, mq_model_version = qr_model_version r,
              mq_feature_bank_version = qr_feature_bank_version r, mq_package_sha256 = qr_package_sha256 r,
              mq_evidence_path = qr_evidence_path r, mq_evidence_sha256 = qr_evidence_sha256 r,
              mq_pack_key = qr_pack_key r, mq_status = ''DRAFT'',
              mq_qualification_status = ''INSUFFICIENT_EVIDENCE'', mq_metrics = JObj [], mq_gates = JObj [],
              mq_dataset_id = map_option ds_id d,
              mq_dataset_source_type = (case d of Some x \<Rightarrow> Some (ds_source_type x) | None \<Rightarrow> qr_dataset_source_type r),
              mq_dataset_fingerprint = (case d of Some x \<Rightarrow> Some (ds_fingerprint x) | None \<Rightarrow> qr_dataset_fingerprint r),
              mq_evaluated_by = None, mq_approved_by = None, mq_activated_by = None,
              mq_decision_reason = None, mq_activated_at = None, mq_created_at = now\<rparr> in
        andthen (try_catch (insert_qualification item)
          (\<lambda>e. raise_error Conflict ''model qualification identity already exists for tenant/product''))
        (andthen (record_audit env tid (actor_id pr) ''model_qualification.created'' ''model_qualification'' qid
           correlation_id (JObj [(''product_code'', JStr (mq_product_code item)),
             (''model_id'', JStr (mq_model_id item)), (''model_version'', JStr (mq_model_version item)),
             (''deployment_pack_key'', JStr (mq_pack_key item)),
             (''dataset_registration_id'', JOpt (mq_dataset_id item)),
             (''dataset_source_type'', JOpt (mq_dataset_source_type item)),
             (''dataset_fingerprint'', JOpt (mq_dataset_fingerprint item)),
             (''reason'', JStr ''draft evidence candidate registered'')]))
         (ret item)))))))"

definition the_qualification :: "string \<Rightarrow> string \<Rightarrow> ModelQualification svc" where
  "the_qualification tid qid =
     bnd (fetch model_qualifications (is_qualification qid tid)) (\<lambda>found.
     case found of None \<Rightarrow> raise_error NotFound ''model qualification not found'' | Some q \<Rightarrow> ret q)"

text \<open>\<open>str(x or default)\<close> of a value of the evidence.\<close>

definition str_or :: "env \<Rightarrow> json \<Rightarrow> string \<Rightarrow> string" where
  "str_or env j dflt = (if json_truthy j then (case j of JStr s \<Rightarrow> s | _ \<Rightarrow> py_str env j) else dflt)"

text \<open>\<open>_verified_qualification_evidence\<close>: an OSError or ValueError of the verification is invalid input,
  any other exception passes.\<close>

definition verified_qualification_evidence ::
  "env \<Rightarrow> ModelQualification \<Rightarrow> bool \<Rightarrow> exn + EvidencePackage" where
  "verified_qualification_evidence env q require_approval =
     (case verify_evidence_package env (mq_evidence_path q) (mq_package_sha256 q) of
        Inl (OtherError t m) \<Rightarrow>
          if t = ''ValueError'' \<or> t = ''FileNotFoundError''
          then Inl (ServiceError InvalidInput ''qualification evidence verification failed''
            (Some (JObj [(''reason'', JStr m)])))
          else Inl (OtherError t m)
      | Inl e \<Rightarrow> Inl e
      | Inr ev \<Rightarrow>
          let source_type = evp_source_type ev in
          if evp_digest ev \<noteq> mq_evidence_sha256 q
          then Inl (ServiceError InvalidInput ''qualification evidence digest does not match registered digest'' None)
          else if truthy (mq_dataset_source_type q) \<and> Some source_type \<noteq> mq_dataset_source_type q
          then Inl (ServiceError InvalidInput ''qualification evidence source type does not match the registered dataset'' None)
          else if truthy (mq_dataset_fingerprint q) \<and> evp_dataset_fingerprint ev \<noteq> JOpt (mq_dataset_fingerprint q)
          then Inl (ServiceError InvalidInput ''qualification evidence dataset fingerprint does not match the registration'' None)
          else if source_type \<noteq> ''DEMO_SYNTHETIC'' \<and> \<not> truthy (mq_dataset_id q)
          then Inl (ServiceError InvalidInput ''benchmark/customer evidence must bind a dataset registration'' None)
          else if require_approval \<and> (evp_gate_decision ev \<noteq> JStr ''GO'' \<or>
            evp_approval_status ev \<noteq> JStr ''PENDING_APPROVAL'' \<or> source_type \<noteq> ''CUSTOMER_PILOT'')
          then Inl (ServiceError InvalidInput ''qualification evidence is not eligible for customer approval'' None)
          else Inr ev)"

text \<open>The customer's dataset behind a qualification: validated, with the same fingerprint, its
  provenance naming the tenant and consenting. \<open>err\<close> is the kind of error the caller raises.\<close>

definition consented :: "string \<Rightarrow> DatasetRegistrationRecord \<Rightarrow> exn + bool" where
  "consented tid d =
     andThen (as_dict (get_default ''customer_provenance'' (JObj []) (ds_metadata d))) (\<lambda>p.
     Inr (get_or_null ''tenant'' p = JStr tid \<and> get_or_null ''consent'' p = JBool True))"

definition require_activation_dataset :: "Principal \<Rightarrow> ModelQualification \<Rightarrow> unit svc" where
  "require_activation_dataset pr q =
     (let tid = tenant_id pr in
      if mq_dataset_source_type q \<noteq> Some ''CUSTOMER_PILOT'' \<or> \<not> truthy (mq_dataset_id q)
      then raise_error Forbidden ''only CUSTOMER_PILOT evidence with provenance can be activated''
      else
        bnd (fetch dataset_registrations (\<lambda>d. Some (ds_id d) = mq_dataset_id q \<and> ds_tenant d = tid)) (\<lambda>found.
        case found of
          None \<Rightarrow> raise_error Forbidden ''customer dataset registration is missing, revoked, or fingerprint-mismatched''
        | Some d \<Rightarrow>
            if ds_source_type d \<noteq> ''CUSTOMER_PILOT'' \<or> ds_status d \<noteq> ''VALIDATED'' \<or>
               Some (ds_fingerprint d) \<noteq> mq_dataset_fingerprint q
            then raise_error Forbidden ''customer dataset registration is missing, revoked, or fingerprint-mismatched''
            else
              bnd (lift_result (consented tid d)) (\<lambda>ok.
              if \<not> ok then raise_error Forbidden ''customer data provenance consent is not complete'' else ret ())))"

section \<open>The lifecycle\<close>

definition evaluate_qualification :: "env \<Rightarrow> Principal \<Rightarrow> string \<Rightarrow> string \<Rightarrow> string \<Rightarrow> ModelQualification svc" where
  "evaluate_qualification env pr qid reason correlation_id =
     (let tid = tenant_id pr in
      bnd (the_qualification tid qid) (\<lambda>q.
      if mq_status q \<noteq> ''DRAFT''
      then raise_error Conflict (''only DRAFT qualifications can be evaluated, got '' @ mq_status q)
      else
        bnd (lift_result (verified_qualification_evidence env q False)) (\<lambda>ev.
        let gate_decision = str_or env (evp_gate_decision ev) ''INSUFFICIENT_EVIDENCE'';
            approval_status = str_or env (evp_approval_status ev) ''BLOCKED'';
            new_status = (if gate_decision = ''GO'' \<and> approval_status = ''PENDING_APPROVAL'' then ''EVALUATED'' else ''DRAFT'');
            decision = str_or env (evp_decision ev) ''INSUFFICIENT_EVIDENCE'' in
        andthen (run_all
         [update_qualification qid tid (\<lambda>x. x\<lparr>mq_status := new_status, mq_qualification_status := decision,
            mq_metrics := evp_metrics ev, mq_gates := evp_gates ev, mq_evaluated_by := Some (actor_id pr),
            mq_decision_reason := Some reason\<rparr>),
          record_audit env tid (actor_id pr) ''model_qualification.evaluated'' ''model_qualification'' qid
            correlation_id (JObj [(''reason'', JStr reason), (''evidence_package_sha256'', JStr (mq_evidence_sha256 q)),
              (''decision'', JStr decision), (''gate_decision'', JStr gate_decision),
              (''source_type'', JStr (evp_source_type ev)), (''dataset_fingerprint'', JOpt (mq_dataset_fingerprint q)),
              (''lifecycle_status'', JStr new_status)])])
        (the_qualification tid qid))))"

text \<open>The gates of an evaluated item: decided GO, and every check passed.\<close>

fun all_checks_pass :: "(string \<times> json) list \<Rightarrow> exn + bool" where
  "all_checks_pass [] = Inr True"
| "all_checks_pass ((name, c) # rest) =
     andThen (as_dict c) (\<lambda>d. if get_or_null ''status'' d \<noteq> JStr ''PASS'' then Inr False else all_checks_pass rest)"

definition gates_pass :: "json \<Rightarrow> exn + bool" where
  "gates_pass gates =
     andThen (as_dict gates) (\<lambda>g.
     if get_or_null ''decision'' g \<noteq> JStr ''GO'' then Inr False
     else andThen (as_dict (get_default ''checks'' (JObj []) g)) all_checks_pass)"

definition approve_qualification :: "env \<Rightarrow> Principal \<Rightarrow> string \<Rightarrow> string \<Rightarrow> string \<Rightarrow> ModelQualification svc" where
  "approve_qualification env pr qid reason correlation_id =
     (let tid = tenant_id pr in
      bnd (the_qualification tid qid) (\<lambda>q.
      if mq_status q \<noteq> ''EVALUATED''
      then raise_error Conflict (''only EVALUATED qualifications can be approved, got '' @ mq_status q)
      else if mq_evaluated_by q = Some (actor_id pr)
      then raise_error Forbidden ''the evaluator cannot approve the same qualification''
      else
        bnd (lift_result (gates_pass (mq_gates q))) (\<lambda>passed.
        if \<not> passed \<or> mq_dataset_source_type q \<noteq> Some ''CUSTOMER_PILOT'' \<or> \<not> truthy (mq_dataset_id q)
        then raise_error InvalidInput ''all mandatory gates and CUSTOMER_PILOT provenance must pass before approval; benchmark/demo evidence is not approvable''
        else
          bnd (fetch dataset_registrations (\<lambda>d. Some (ds_id d) = mq_dataset_id q \<and> ds_tenant d = tid)) (\<lambda>found.
          case found of
            None \<Rightarrow> raise_error InvalidInput ''customer dataset registration is missing, revoked, or fingerprint-mismatched''
          | Some d \<Rightarrow>
              if ds_status d \<noteq> ''VALIDATED'' \<or> Some (ds_fingerprint d) \<noteq> mq_dataset_fingerprint q
              then raise_error InvalidInput ''customer dataset registration is missing, revoked, or fingerprint-mismatched''
              else
                bnd (lift_result (consented tid d)) (\<lambda>ok.
                if \<not> ok then raise_error InvalidInput ''customer data provenance gate is incomplete''
                else
                  bnd (lift_result (verified_qualification_evidence env q True)) (\<lambda>ev.
                  andthen (run_all
                   [update_qualification qid tid (\<lambda>x. x\<lparr>mq_status := ''APPROVED'',
                      mq_approved_by := Some (actor_id pr), mq_decision_reason := Some reason\<rparr>),
                    record_audit env tid (actor_id pr) ''model_qualification.approved'' ''model_qualification'' qid
                      correlation_id (JObj [(''reason'', JStr reason),
                        (''evidence_package_sha256'', JStr (mq_evidence_sha256 q))])])
                  (the_qualification tid qid)))))))"

text \<open>The one active item of the product makes way for the new one.\<close>

definition install_qualification ::
  "env \<Rightarrow> Principal \<Rightarrow> ModelQualification \<Rightarrow> string \<Rightarrow> string \<Rightarrow> string \<Rightarrow> json \<Rightarrow> ModelQualification svc" where
  "install_qualification env pr q decision_reason action correlation_id payload =
     (let tid = tenant_id pr in
      bnd (fetch model_qualifications (\<lambda>x. mq_tenant x = tid \<and> mq_product_code x = mq_product_code q \<and>
             mq_status x = ''ACTIVE'')) (\<lambda>current.
      bnd (query clock) (\<lambda>now.
      andthen (run_all
       [run_if (case current of None \<Rightarrow> False | Some c \<Rightarrow> mq_id c \<noteq> mq_id q)
          (update_qualification (mq_id (the current)) tid (\<lambda>x. x\<lparr>mq_status := ''RETIRED''\<rparr>)),
        update_qualification (mq_id q) tid (\<lambda>x. x\<lparr>mq_status := ''ACTIVE'', mq_activated_by := Some (actor_id pr),
          mq_activated_at := Some now, mq_decision_reason := Some decision_reason\<rparr>),
        record_audit env tid (actor_id pr) action ''model_qualification'' (mq_id q) correlation_id payload])
      (the_qualification tid (mq_id q)))))"

definition activate_qualification :: "env \<Rightarrow> Principal \<Rightarrow> string \<Rightarrow> string \<Rightarrow> string \<Rightarrow> ModelQualification svc" where
  "activate_qualification env pr qid reason correlation_id =
     (let tid = tenant_id pr in
      bnd (the_qualification tid qid) (\<lambda>q.
      if mq_status q \<noteq> ''APPROVED''
      then raise_error Conflict (''only APPROVED qualifications can be activated, got '' @ mq_status q)
      else if Some (actor_id pr) \<in> {mq_evaluated_by q, mq_approved_by q}
      then raise_error Forbidden ''evaluation, approval, and activation require distinct actors''
      else
        bnd (active_deployment tid) (\<lambda>d.
        bnd (deployment_manifest d) (\<lambda>m.
        if pack_key m \<noteq> mq_pack_key q \<or> mq_product_code q \<notin> set (map pd_code (products m))
        then raise_error Forbidden ''qualification deployment pack or product does not match the active tenant pack''
        else if md_id (model m) \<noteq> mq_model_id q \<or> md_version (model m) \<noteq> mq_model_version q \<or>
          md_package_sha256 (model m) \<noteq> Some (mq_package_sha256 q)
        then raise_error Forbidden ''active Deployment Pack model identity or package digest does not match qualification evidence''
        else
          andthen (require_activation_dataset pr q)
          (bnd (lift_result (verified_qualification_evidence env q True)) (\<lambda>ev.
           install_qualification env pr q reason ''model_qualification.activated'' correlation_id
             (JObj [(''reason'', JStr reason), (''deployment_pack_key'', JStr (mq_pack_key q)),
                (''package_sha256'', JStr (mq_package_sha256 q))])))))))"

definition retire_qualification :: "env \<Rightarrow> Principal \<Rightarrow> string \<Rightarrow> string \<Rightarrow> string \<Rightarrow> ModelQualification svc" where
  "retire_qualification env pr qid reason correlation_id =
     (let tid = tenant_id pr in
      bnd (the_qualification tid qid) (\<lambda>q.
      if mq_status q \<noteq> ''APPROVED'' \<and> mq_status q \<noteq> ''ACTIVE''
      then raise_error Conflict (''only APPROVED or ACTIVE qualifications can be retired, got '' @ mq_status q)
      else
        andthen (run_all
         [update_qualification qid tid (\<lambda>x. x\<lparr>mq_status := ''RETIRED'', mq_decision_reason := Some reason\<rparr>),
          record_audit env tid (actor_id pr) ''model_qualification.retired'' ''model_qualification'' qid
            correlation_id (JObj [(''reason'', JStr reason)])])
        (the_qualification tid qid)))"

definition rollback_qualification :: "env \<Rightarrow> Principal \<Rightarrow> string \<Rightarrow> string \<Rightarrow> string \<Rightarrow> ModelQualification svc" where
  "rollback_qualification env pr qid reason correlation_id =
     (let tid = tenant_id pr in
      bnd (the_qualification tid qid) (\<lambda>q.
      if mq_status q \<noteq> ''RETIRED'' then raise_error Conflict ''rollback target must be RETIRED''
      else if Some (actor_id pr) \<in> {mq_evaluated_by q, mq_approved_by q}
      then raise_error Forbidden ''rollback requires an operator distinct from evaluation and approval''
      else
        bnd (active_deployment tid) (\<lambda>d.
        bnd (deployment_manifest d) (\<lambda>m.
        if pack_key m \<noteq> mq_pack_key q \<or> md_package_sha256 (model m) \<noteq> Some (mq_package_sha256 q)
        then raise_error Forbidden ''rollback package is not bound to the active Deployment Pack''
        else
          andthen (require_activation_dataset pr q)
          (bnd (lift_result (verified_qualification_evidence env q True)) (\<lambda>ev.
           install_qualification env pr q (''rollback: '' @ reason) ''model_qualification.rollback'' correlation_id
             (JObj [(''reason'', JStr reason)])))))))"

end
