(* ===== verification/DatasetSources.thy ===== *)
theory DatasetSources
  imports ServiceCore
begin

unbundle bit_operations_syntax

text \<open>
  \<^verbatim>\<open>backend/app/dataset_sources.py\<close>: the inspection of an archive or a mounted directory before any
  byte is stored, and the storing of what was inspected; \<open>put_stream\<close> of
  \<^verbatim>\<open>backend/app/storage.py\<close>. The file system and the archive library are those of \<open>sources env\<close>.
\<close>

definition ALLOWED_ARCHIVE_SUFFIXES :: "string list" where
  "ALLOWED_ARCHIVE_SUFFIXES = [''.zip'', ''.tar'', ''.gz'', ''.tgz'', ''.xz'', ''.txz'']"

definition OFFICIAL_IMAGE_SUFFIXES :: "string list" where
  "OFFICIAL_IMAGE_SUFFIXES = [''.png'']"

definition CUSTOMER_FILE_SUFFIXES :: "string list" where
  "CUSTOMER_FILE_SUFFIXES = [''.png'', ''.jpg'', ''.jpeg'', ''.bmp'', ''.tif'', ''.tiff'', ''.json'', ''.csv'']"

text \<open>What an inspection raises: the module's own error, or what reading a file raised.\<close>

datatype import_exn = DatasetImportError string | Unreadable read_error

type_synonym 'a import = "import_exn + 'a"

abbreviation refuse :: "string \<Rightarrow> 'a import" where
  "refuse message \<equiv> Inl (DatasetImportError message)"

definition reading :: "read_error + 'a \<Rightarrow> 'a import" where
  "reading r = (case r of Inl e \<Rightarrow> Inl (Unreadable e) | Inr a \<Rightarrow> Inr a)"

section \<open>Paths and digests\<close>

definition digest_stream :: "env \<Rightarrow> nat \<Rightarrow> string \<Rightarrow> (string \<times> nat) import" where
  "digest_stream env max_bytes data =
     (if length data > max_bytes then refuse ''dataset source exceeds the configured compressed size limit''
      else Inr (sha256 env data, length data))"

text \<open>\<open>_safe_member_path\<close>: the parts of the relative path.\<close>

definition forward_slashes :: "string \<Rightarrow> string" where
  "forward_slashes = map (\<lambda>c. if c = CHR 0x5C then CHR ''/'' else c)"

definition safe_member_path :: "string \<Rightarrow> string list import" where
  "safe_member_path name =
     (let text = forward_slashes name; parts = path_parts text in
      if startswith ''/'' text \<or> ''..'' \<in> set parts \<or> parts = []
      then refuse (''archive member path is unsafe: '' @ name) else Inr parts)"

text \<open>\<open>_category_relative\<close>: the path from its first component named like the category.\<close>

definition category_relative :: "string \<Rightarrow> string list \<Rightarrow> string list option" where
  "category_relative category parts =
     (let rest = dropWhile (\<lambda>p. p \<noteq> category) parts in if rest = [] then None else Some rest)"

definition path_name :: "string \<Rightarrow> string" where
  "path_name p = (case path_parts p of [] \<Rightarrow> '''' | parts \<Rightarrow> last parts)"

definition file_suffix :: "string \<Rightarrow> string" where
  "file_suffix p = lower (path_suffix (path_name p))"

definition join_path :: "string \<Rightarrow> string \<Rightarrow> string" where
  "join_path dir p = (if startswith ''/'' p then p else dir @ ''/'' @ p)"

section \<open>The manifest\<close>

record source_member =
  sm_path :: string
  sm_sha256 :: string
  sm_size :: nat

record source_manifest =
  mf_sha256 :: string
  mf_fingerprint :: string
  mf_file_count :: nat
  mf_total_bytes :: nat
  mf_members :: "source_member list"

definition member_json :: "source_member \<Rightarrow> json" where
  "member_json m = JObj [(''path'', JStr (sm_path m)), (''sha256'', JStr (sm_sha256 m)),
     (''size_bytes'', JInt (int (sm_size m)))]"

definition members_json :: "source_member list \<Rightarrow> json" where
  "members_json ms = JList (map member_json ms)"

definition fingerprint_of :: "env \<Rightarrow> string \<Rightarrow> string \<Rightarrow> source_member list \<Rightarrow> string" where
  "fingerprint_of env source_type category ms =
     digest env (JObj [(''source_type'', JStr source_type), (''category'', JStr category),
       (''manifest'', members_json ms)])"

definition manifest_of :: "env \<Rightarrow> string \<Rightarrow> string \<Rightarrow> nat \<Rightarrow> source_member list \<Rightarrow> source_manifest" where
  "manifest_of env source_type category amount ms =
     \<lparr>mf_sha256 = digest env (members_json ms), mf_fingerprint = fingerprint_of env source_type category ms,
      mf_file_count = length ms, mf_total_bytes = amount, mf_members = ms\<rparr>"

text \<open>The files the layout of a benchmark may hold: images, and the licence texts of the category.\<close>

definition required_prefixes :: "string \<Rightarrow> string list" where
  "required_prefixes category =
     [category @ ''/train/good/'', category @ ''/test/good/'', category @ ''/ground_truth/'']"

definition has_layout :: "string \<Rightarrow> string list \<Rightarrow> bool" where
  "has_layout category paths \<longleftrightarrow>
     (\<forall>p \<in> set (required_prefixes category). \<exists>path \<in> set paths. startswith p path)"

definition licence_file :: "string \<Rightarrow> bool" where
  "licence_file path \<longleftrightarrow> length (path_parts path) = 2 \<and> path_name path \<in> {''license.txt'', ''readme.txt''}"

text \<open>\<open>_validate_official_members\<close>; the path of every member is set.\<close>

definition validate_members ::
  "env \<Rightarrow> string \<Rightarrow> string \<Rightarrow> nat \<Rightarrow> nat \<Rightarrow> source_member list \<Rightarrow> source_manifest import" where
  "validate_members env source_type category max_files max_uncompressed_bytes members =
     (let paths = map sm_path members; amount = sum_list (map sm_size members) in
      if length members > max_files then refuse ''archive contains too many members''
      else if members = [] then refuse (''archive contains no '' @ category @ '' members'')
      else if amount > max_uncompressed_bytes
      then refuse ''archive uncompressed size exceeds the configured limit''
      else if \<not> distinct paths then refuse ''archive contains duplicate canonical member paths''
      else if source_type = ''OFFICIAL_BENCHMARK'' \<and> \<not> has_layout category paths
      then refuse ''official benchmark archive does not contain the required MVTec layout''
      else if source_type = ''OFFICIAL_BENCHMARK'' \<and>
        (\<exists>p \<in> set paths. file_suffix p \<notin> set OFFICIAL_IMAGE_SUFFIXES \<and> \<not> licence_file p)
      then refuse ''official benchmark archive may contain PNG images and category license metadata only''
      else if source_type \<noteq> ''OFFICIAL_BENCHMARK'' \<and> (\<exists>p \<in> set paths. file_suffix p \<notin> set CUSTOMER_FILE_SUFFIXES)
      then refuse ''dataset archive contains a file extension outside the allow-list''
      else Inr (manifest_of env source_type category amount (sort_key sm_path members)))"

section \<open>Archives\<close>

text \<open>The member's place in the data set: below the category for a benchmark, its own path otherwise.\<close>

definition member_place :: "string \<Rightarrow> string \<Rightarrow> string list \<Rightarrow> string list option" where
  "member_place source_type category parts =
     (if source_type = ''OFFICIAL_BENCHMARK'' then category_relative category parts else Some parts)"

text \<open>The rest of the loop body once the member is known to be a plain file.\<close>

definition read_member ::
  "env \<Rightarrow> string \<Rightarrow> string \<Rightarrow> nat \<Rightarrow> string list \<Rightarrow> string import \<Rightarrow> source_member list \<Rightarrow> source_member list import" where
  "read_member env source_type category limit parts data members =
     (case member_place source_type category parts of
        None \<Rightarrow> Inr members
      | Some place \<Rightarrow>
          andThen data (\<lambda>bytes. andThen (digest_stream env limit bytes) (\<lambda>(hash, n).
          Inr (members @ [\<lparr>sm_path = join_with ''/'' place, sm_sha256 = hash, sm_size = n\<rparr>]))))"

definition zip_link :: "zip_info \<Rightarrow> bool" where
  "zip_link z \<longleftrightarrow> drop_bit 16 (zi_external_attr z) AND 0xF000 = 0xA000"

fun zip_members ::
  "env \<Rightarrow> string \<Rightarrow> string \<Rightarrow> nat \<Rightarrow> zip_info list \<Rightarrow> nat \<Rightarrow> source_member list \<Rightarrow> source_member list import" where
  "zip_members env st category limit [] amount members = Inr members"
| "zip_members env st category limit (z # zs) amount members =
     andThen (safe_member_path (zi_filename z)) (\<lambda>parts.
     if zi_is_dir z then zip_members env st category limit zs amount members
     else if zip_link z then refuse (''archive links are not allowed: '' @ zi_filename z)
     else if amount + zi_file_size z > limit
     then refuse ''archive uncompressed size exceeds the configured limit''
     else
       andThen (read_member env st category limit parts (reading (zi_data z)) members) (\<lambda>members'.
       zip_members env st category limit zs (amount + zi_file_size z) members'))"

fun tar_members ::
  "env \<Rightarrow> string \<Rightarrow> string \<Rightarrow> nat \<Rightarrow> tar_info list \<Rightarrow> nat \<Rightarrow> source_member list \<Rightarrow> source_member list import" where
  "tar_members env st category limit [] amount members = Inr members"
| "tar_members env st category limit (t # ts) amount members =
     andThen (safe_member_path (ti_name t)) (\<lambda>parts.
     if ti_isdir t then tar_members env st category limit ts amount members
     else if ti_issym t \<or> ti_islnk t \<or> \<not> ti_isfile t
     then refuse (''archive links or special files are not allowed: '' @ ti_name t)
     else if amount + ti_size t > limit
     then refuse ''archive uncompressed size exceeds the configured limit''
     else
       andThen (read_member env st category limit parts
         (case ti_data t of None \<Rightarrow> refuse (''cannot read archive member: '' @ ti_name t) | Some d \<Rightarrow> reading d) members)
       (\<lambda>members'. tar_members env st category limit ts (amount + ti_size t) members'))"

text \<open>The exceptions of the archive library and \<open>OSError\<close> become the module's error.\<close>

definition inspectable :: "'a import \<Rightarrow> 'a import" where
  "inspectable r = (case r of
     Inl (Unreadable (OSFailure m)) \<Rightarrow> refuse (''dataset archive cannot be inspected: '' @ m)
   | Inl (Unreadable (ArchiveFailure m)) \<Rightarrow> refuse (''dataset archive cannot be inspected: '' @ m)
   | _ \<Rightarrow> r)"

definition archive_members :: "env \<Rightarrow> string \<Rightarrow> string \<Rightarrow> string \<Rightarrow> string \<Rightarrow> source_member list import" where
  "archive_members env name source_type category data =
     (let files = dataset_max_files (settings env); limit = dataset_max_uncompressed_bytes (settings env) in
      inspectable
       (if endswith ''.zip'' name then
          andThen (reading (open_zip (sources env) data)) (\<lambda>infos.
          if length infos > files then refuse ''archive contains too many members''
          else zip_members env source_type category limit infos 0 [])
        else
          andThen (reading (open_tar (sources env) data)) (\<lambda>infos.
          if length infos > files then refuse ''archive contains too many members''
          else tar_members env source_type category limit infos 0 [])))"

definition inspect_archive :: "env \<Rightarrow> string \<Rightarrow> string \<Rightarrow> string \<Rightarrow> string \<Rightarrow> source_manifest import" where
  "inspect_archive env path source_type category data =
     (let name = lower (path_name path); cfg = settings env in
      if \<not> (\<exists>ext \<in> set ALLOWED_ARCHIVE_SUFFIXES. endswith ext name)
      then refuse ''dataset archive extension is not allowed''
      else
        andThen (archive_members env name source_type category data) (\<lambda>members.
        andThen (validate_members env source_type category (dataset_max_files cfg)
          (dataset_max_uncompressed_bytes cfg) members) (\<lambda>result.
        if of_nat (mf_total_bytes result) > of_nat (max 1 (length data)) * dataset_max_compression_ratio cfg
        then refuse ''archive compression ratio exceeds the configured safety limit''
        else Inr result)))"

section \<open>Mounted directories\<close>

text \<open>Where the walk starts and how its paths are written: below the category directory when there is
  one, else at the path itself, whose files are given the category's prefix for a benchmark.\<close>

definition own_root :: "env \<Rightarrow> string \<Rightarrow> string \<Rightarrow> bool" where
  "own_root env path category \<longleftrightarrow>
     node_at (sources env) (join_path path category) \<noteq> DirectoryNode \<or>
     path_parts category = [] \<and> \<not> startswith ''/'' category"

definition walk_root :: "env \<Rightarrow> string \<Rightarrow> string \<Rightarrow> string" where
  "walk_root env path category = (if own_root env path category then path else join_path path category)"

definition entry_place :: "env \<Rightarrow> string \<Rightarrow> string \<Rightarrow> string \<Rightarrow> string \<Rightarrow> string" where
  "entry_place env path source_type category rel =
     (if source_type = ''OFFICIAL_BENCHMARK'' \<or> \<not> own_root env path category
      then category @ ''/'' @ rel else rel)"

definition check_entry :: "string \<Rightarrow> string \<Rightarrow> unit import" where
  "check_entry source_type place =
     (if source_type = ''OFFICIAL_BENCHMARK'' \<and> file_suffix place \<notin> set OFFICIAL_IMAGE_SUFFIXES then
        (if path_name place \<notin> {''license.txt'', ''readme.txt''}
         then refuse ''official benchmark directory may contain PNG images and license metadata only'' else Inr ())
      else if source_type = ''CUSTOMER_PILOT'' \<and> file_suffix place \<notin> set CUSTOMER_FILE_SUFFIXES
      then refuse (''customer dataset file extension is not allowed: '' @ place)
      else Inr ())"

fun directory_members ::
  "env \<Rightarrow> string \<Rightarrow> string \<Rightarrow> string \<Rightarrow> (string \<times> walk_item) list \<Rightarrow> nat \<Rightarrow> source_member list
     \<Rightarrow> (nat \<times> source_member list) import" where
  "directory_members env path st category [] amount files = Inr (amount, files)"
| "directory_members env path st category ((rel, item) # rest) amount files =
     (case item of
        LinkItem \<Rightarrow> refuse (''dataset symlinks are not allowed: '' @ rel)
      | OtherItem \<Rightarrow> directory_members env path st category rest amount files
      | FileItem len data \<Rightarrow>
          let place = entry_place env path st category rel; max_bytes = dataset_max_upload_bytes (settings env) in
          andThen (check_entry st place) (\<lambda>_.
          if length files \<ge> dataset_max_files (settings env) \<or> amount + len > max_bytes
          then refuse ''dataset directory exceeds the configured file or size limit''
          else
            andThen (reading data) (\<lambda>bytes. andThen (digest_stream env max_bytes bytes) (\<lambda>(hash, n).
            directory_members env path st category rest (amount + len)
              (files @ [\<lparr>sm_path = place, sm_sha256 = hash, sm_size = n\<rparr>])))))"

definition inspect_directory :: "env \<Rightarrow> string \<Rightarrow> string \<Rightarrow> string \<Rightarrow> source_manifest import" where
  "inspect_directory env path source_type category =
     (if node_at (sources env) path \<noteq> DirectoryNode then refuse ''dataset directory does not exist''
      else
        andThen (directory_members env path source_type category
          (walk (sources env) (walk_root env path category)) 0 []) (\<lambda>(amount, files).
        if files = [] then refuse ''dataset directory contains no allowed files''
        else if source_type = ''OFFICIAL_BENCHMARK'' \<and> \<not> has_layout category (map sm_path files)
        then refuse ''official benchmark directory does not contain the required MVTec layout''
        else Inr (manifest_of env source_type category amount files)))"

section \<open>The inspection\<close>

record source_inspection =
  si_source_path :: string
  si_source_sha256 :: "string option"
  si_source_size :: nat
  si_manifest :: source_manifest

definition inspect_dataset_source :: "env \<Rightarrow> string \<Rightarrow> string \<Rightarrow> string \<Rightarrow> source_inspection import" where
  "inspect_dataset_source env path source_type category =
     (let fs = sources env; requested = expanduser fs path; resolved = resolve_path fs requested in
      if is_symlink fs requested then refuse ''dataset source root symlinks are not allowed''
      else case node_at fs resolved of
        NoNode \<Rightarrow> refuse (''dataset source does not exist: '' @ resolved)
      | FileNode \<Rightarrow>
          andThen (reading (read_node fs resolved)) (\<lambda>data.
          andThen (digest_stream env (dataset_max_upload_bytes (settings env)) data) (\<lambda>(hash, n).
          andThen (inspect_archive env resolved source_type category data) (\<lambda>m.
          Inr \<lparr>si_source_path = resolved, si_source_sha256 = Some hash, si_source_size = n, si_manifest = m\<rparr>)))
      | _ \<Rightarrow>
          andThen (inspect_directory env resolved source_type category) (\<lambda>m.
          Inr \<lparr>si_source_path = resolved, si_source_sha256 = None, si_source_size = mf_total_bytes m,
               si_manifest = m\<rparr>))"

section \<open>Storing what was inspected\<close>

text \<open>\<open>LocalObjectStorage.put_stream\<close>: the URI, the digest and the size of what was read.\<close>

definition put_stream :: "env \<Rightarrow> string \<Rightarrow> string \<Rightarrow> nat \<Rightarrow> (string \<times> string \<times> nat) svc" where
  "put_stream env key data max_bytes =
     (if safe_key key \<noteq> None \<and> length data > max_bytes
      then throw (OtherError ''ValueError'' ''object exceeds the configured size limit'')
      else bnd (put_immutable env key data) (\<lambda>uri. ret (uri, sha256 env data, length data)))"

definition read_again :: "env \<Rightarrow> string \<Rightarrow> string svc" where
  "read_again env path = (case reread_node (sources env) path of
     Inr data \<Rightarrow> ret data
   | Inl (OSFailure m) \<Rightarrow> throw (OtherError ''OSError'' m)
   | Inl (ArchiveFailure m) \<Rightarrow> throw (OtherError ''ArchiveError'' m)
   | Inl (OtherReadFailure t m) \<Rightarrow> throw (OtherError t m))"

definition import_error :: "string \<Rightarrow> 'a svc" where
  "import_error message = throw (OtherError ''DatasetImportError'' message)"

text \<open>The manifest as it is stored: the source type, the category, and the inspection.\<close>

definition inspection_json :: "string \<Rightarrow> string \<Rightarrow> source_inspection \<Rightarrow> json" where
  "inspection_json source_type category si =
     (let m = si_manifest si in
      JObj [(''source_type'', JStr source_type), (''category'', JStr category),
        (''source_path'', JStr (si_source_path si)), (''source_sha256'', JOpt (si_source_sha256 si)),
        (''source_size_bytes'', JInt (int (si_source_size si))), (''manifest_sha256'', JStr (mf_sha256 m)),
        (''dataset_fingerprint'', JStr (mf_fingerprint m)), (''file_count'', JInt (int (mf_file_count m))),
        (''total_bytes'', JInt (int (mf_total_bytes m))), (''manifest'', members_json (mf_members m))])"

definition base_key :: "string \<Rightarrow> string \<Rightarrow> string" where
  "base_key tid registration_id = ''datasets/'' @ tid @ ''/'' @ registration_id"

text \<open>The mounted file of a member: the member's path below the source, or, when there is no file there
  and the path starts with the category, the path without the category. \<open>inside\<close> decides on the
  resolved paths, component by component.\<close>

definition inside :: "string \<Rightarrow> string \<Rightarrow> bool" where
  "inside p dir \<longleftrightarrow> prefix (path_parts dir) (path_parts p)"

definition member_file :: "env \<Rightarrow> string \<Rightarrow> string \<Rightarrow> string \<Rightarrow> string" where
  "member_file env dir category place =
     (let parts = path_parts place;
          direct = (if startswith ''/'' place then place else join_path dir (join_with ''/'' parts)) in
      if node_at (sources env) direct \<noteq> FileNode \<and> take 1 parts = [category] \<and> \<not> startswith ''/'' place
      then join_path dir (join_with ''/'' (drop 1 parts)) else direct)"

definition store_member :: "env \<Rightarrow> string \<Rightarrow> string \<Rightarrow> string \<Rightarrow> source_member \<Rightarrow> unit svc" where
  "store_member env base dir category m =
     (let fs = sources env; path = member_file env dir category (sm_path m) in
      if node_at fs path \<noteq> FileNode \<or> \<not> inside (resolve_path fs path) (resolve_path fs dir)
      then import_error (''dataset source member is outside the mounted source: '' @ sm_path m)
      else
        bnd (read_again env path) (\<lambda>data.
        bnd (put_stream env (base @ ''/source/'' @ sm_path m) data (dataset_max_upload_bytes (settings env)))
        (\<lambda>(uri, hash, len).
        if hash \<noteq> sm_sha256 m then import_error (''dataset source changed during import: '' @ sm_path m)
        else ret ())))"

definition store_dataset_source ::
  "env \<Rightarrow> string \<Rightarrow> string \<Rightarrow> string \<Rightarrow> string \<Rightarrow> source_inspection \<Rightarrow> (string \<times> string) svc" where
  "store_dataset_source env tid registration_id source_type category si =
     (let base = base_key tid registration_id; dir = si_source_path si;
          manifest = dumps env (inspection_json source_type category si) in
      if node_at (sources env) dir = FileNode then
        bnd (read_again env dir) (\<lambda>data.
        bnd (put_stream env (base @ ''/source/'' @ path_name dir) data (dataset_max_upload_bytes (settings env)))
        (\<lambda>(uri, hash, len).
        if Some hash \<noteq> si_source_sha256 si then import_error ''dataset source changed during import''
        else bnd (put_immutable env (base @ ''/manifest.json'') manifest) (\<lambda>manifest_uri. ret (uri, manifest_uri))))
      else
        andthen (for_each (store_member env base dir category) (mf_members (si_manifest si)))
        (bnd (put_immutable env (base @ ''/manifest.json'') manifest) (\<lambda>manifest_uri. ret (manifest_uri, manifest_uri))))"

end
