(* ===== verification/Datasets.thy ===== *)
theory Datasets
  imports DatasetSources Inspections
begin

text \<open>
  Data set registrations in \<^verbatim>\<open>backend/app/services.py\<close>: the registration of a mounted or
  uploaded source after its inspection, the listing, and the revocation; the request of
  \<^verbatim>\<open>backend/app/schemas.py\<close>.
\<close>

section \<open>The request\<close>

record CustomerDataProvenance =
  cp_tenant :: string
  cp_site :: string
  cp_line :: string
  cp_camera :: string
  cp_product :: string
  cp_capture_window_start :: datetime
  cp_capture_window_end :: datetime
  cp_label_source :: string
  cp_approver :: string
  cp_consent :: bool
  cp_retention_policy :: string

definition validate_provenance :: "CustomerDataProvenance \<Rightarrow> string + unit" where
  "validate_provenance p = ensure_all
     [(len_between 1 128 (cp_tenant p), ''tenant''), (len_between 1 128 (cp_site p), ''site''),
      (len_between 1 128 (cp_line p), ''line''), (len_between 1 256 (cp_camera p), ''camera''),
      (len_between 1 128 (cp_product p), ''product''), (len_between 1 512 (cp_label_source p), ''label_source''),
      (len_between 1 128 (cp_approver p), ''approver''),
      (len_between 1 512 (cp_retention_policy p), ''retention_policy''),
      (dt_time (cp_capture_window_end p) > dt_time (cp_capture_window_start p),
         ''capture_window_end must be after capture_window_start'')]"

record DatasetRegistrationRequest =
  dr_source_type :: string
  dr_name :: string
  dr_category :: string
  dr_source_path :: "string option"
  dr_expected_sha256 :: "string option"
  dr_license_acknowledged :: bool
  dr_customer_provenance :: "CustomerDataProvenance option"
  dr_metadata :: "(string \<times> json) list"

definition hex_digest :: "string \<Rightarrow> bool" where
  "hex_digest s \<longleftrightarrow> length s = 64 \<and> set s \<subseteq> set ''0123456789abcdef''"

definition validate_registration_request :: "DatasetRegistrationRequest \<Rightarrow> string + unit" where
  "validate_registration_request r =
     andThen (ensure_all
       [(dr_source_type r \<in> {''DEMO_SYNTHETIC'', ''OFFICIAL_BENCHMARK'', ''CUSTOMER_PILOT''}, ''source_type''),
        (len_between 1 256 (dr_name r), ''name''), (len_between 1 128 (dr_category r), ''category''),
        (case dr_source_path r of None \<Rightarrow> True | Some p \<Rightarrow> len_between 1 2000 p, ''source_path''),
        (case dr_expected_sha256 r of None \<Rightarrow> True | Some s \<Rightarrow> hex_digest s, ''expected_sha256'')]) (\<lambda>_.
     andThen (case dr_customer_provenance r of None \<Rightarrow> Inr () | Some p \<Rightarrow> validate_provenance p) (\<lambda>_.
     ensure (dr_source_type r = ''OFFICIAL_BENCHMARK'' \<longrightarrow> dr_license_acknowledged r)
       ''OFFICIAL_BENCHMARK requires license_acknowledged=true''))"

text \<open>\<open>provenance.model_dump(mode="json")\<close>.\<close>

definition provenance_json :: "CustomerDataProvenance \<Rightarrow> json" where
  "provenance_json p = JObj
     [(''tenant'', JStr (cp_tenant p)), (''site'', JStr (cp_site p)), (''line'', JStr (cp_line p)),
      (''camera'', JStr (cp_camera p)), (''product'', JStr (cp_product p)),
      (''capture_window_start'', JStr (dt_iso (cp_capture_window_start p))),
      (''capture_window_end'', JStr (dt_iso (cp_capture_window_end p))),
      (''label_source'', JStr (cp_label_source p)), (''approver'', JStr (cp_approver p)),
      (''consent'', JBool (cp_consent p)), (''retention_policy'', JStr (cp_retention_policy p))]"

section \<open>Registration\<close>

definition parsed_dataset_import_roots :: "env \<Rightarrow> string list" where
  "parsed_dataset_import_roots env =
     map (\<lambda>i. resolve_path (sources env) (expanduser (sources env) (strip i)))
       (filter (\<lambda>i. strip i \<noteq> []) (split_on CHR '','' (dataset_import_roots (settings env))))"

text \<open>The checks on a mounted path, before anything is read.\<close>

definition check_mount :: "env \<Rightarrow> string \<Rightarrow> unit svc" where
  "check_mount env path =
     (let resolved = resolve_path (sources env) (expanduser (sources env) path);
          allowed = parsed_dataset_import_roots env in
      if environment (settings env) = ''production'' \<and> allowed = []
      then raise_error InvalidInput ''mounted dataset imports require VQC_DATASET_IMPORT_ROOTS in production; use the controlled upload endpoint otherwise''
      else if allowed \<noteq> [] \<and> \<not> (\<exists>dir \<in> set allowed. inside resolved dir)
      then raise_error InvalidInput ''dataset source is outside the configured import roots''
      else ret ())"

definition registration_risks :: "DatasetRegistrationRequest \<Rightarrow> string list" where
  "registration_risks r =
     (if dr_source_type r = ''CUSTOMER_PILOT'' then
        (case dr_customer_provenance r of
           None \<Rightarrow> [''CUSTOMER_PROVENANCE_INCOMPLETE'', ''PILOT_APPROVAL_BLOCKED'']
         | Some p \<Rightarrow> if \<not> cp_consent p then [''CUSTOMER_CONSENT_NOT_CONFIRMED'', ''PILOT_APPROVAL_BLOCKED''] else [])
      else []) @
     (if dr_source_type r = ''OFFICIAL_BENCHMARK'' then [''NON_COMMERCIAL_BENCHMARK'', ''NOT_FACTORY_DATA''] else [])"

text \<open>A failure of the inspection or of the storing that the handler turns into invalid input.\<close>

definition invalid_source :: "string \<Rightarrow> string \<Rightarrow> exn" where
  "invalid_source message reason = ServiceError InvalidInput message (Some (JObj [(''reason'', JStr reason)]))"

definition inspect_source :: "env \<Rightarrow> string \<Rightarrow> DatasetRegistrationRequest \<Rightarrow> exn + source_inspection" where
  "inspect_source env path r =
     (case inspect_dataset_source env path (dr_source_type r) (dr_category r) of
        Inl (DatasetImportError m) \<Rightarrow> Inl (invalid_source ''dataset source validation failed'' m)
      | Inl (Unreadable (OSFailure m)) \<Rightarrow> Inl (invalid_source ''dataset source validation failed'' m)
      | Inl (Unreadable (ArchiveFailure m)) \<Rightarrow> Inl (OtherError ''ArchiveError'' m)
      | Inl (Unreadable (OtherReadFailure t m)) \<Rightarrow> Inl (OtherError t m)
      | Inr si \<Rightarrow> Inr si)"

definition store_source :: "env \<Rightarrow> string \<Rightarrow> string \<Rightarrow> DatasetRegistrationRequest \<Rightarrow> source_inspection \<Rightarrow> (string \<times> string) svc" where
  "store_source env tid registration_id r si =
     try_catch (store_dataset_source env tid registration_id (dr_source_type r) (dr_category r) si) (\<lambda>e.
     throw (case e of
        OtherError t m \<Rightarrow> if t \<in> {''DatasetImportError'', ''OSError'', ''ValueError''}
          then invalid_source ''dataset source storage failed'' m else e
      | _ \<Rightarrow> e))"

definition expected_digest :: "source_inspection \<Rightarrow> string" where
  "expected_digest si = or_else (si_source_sha256 si) (mf_sha256 (si_manifest si))"

definition registration_id_of :: "env \<Rightarrow> string \<Rightarrow> string \<Rightarrow> string" where
  "registration_id_of env tid expected_sha = ''ds_'' @ take 32 (sha256 env (tid @ '':'' @ expected_sha))"

definition registration_status :: "DatasetRegistrationRequest \<Rightarrow> string" where
  "registration_status r =
     (if dr_source_type r = ''CUSTOMER_PILOT'' \<and>
        (case dr_customer_provenance r of None \<Rightarrow> True | Some p \<Rightarrow> \<not> cp_consent p) then ''DRAFT'' else ''VALIDATED'')"

definition registration_metadata ::
  "DatasetRegistrationRequest \<Rightarrow> string \<Rightarrow> bool \<Rightarrow> source_inspection \<Rightarrow> (string \<times> json) list" where
  "registration_metadata r path uploaded si =
     dict_update (case dr_customer_provenance r of
         None \<Rightarrow> dr_metadata r
       | Some p \<Rightarrow> dict_update (dr_metadata r) [(''customer_provenance'', provenance_json p)])
       [(''source_name'', JStr (path_name path)), (''import_mode'', JStr (if uploaded then ''upload'' else ''mounted'')),
        (''file_count'', JInt (int (mf_file_count (si_manifest si)))),
        (''total_bytes'', JInt (int (mf_total_bytes (si_manifest si)))),
        (''source_size_bytes'', JInt (int (si_source_size si))),
        (''manifest_sha256'', JStr (mf_sha256 (si_manifest si)))]"

definition registration_row ::
  "Principal \<Rightarrow> DatasetRegistrationRequest \<Rightarrow> string \<Rightarrow> bool \<Rightarrow> source_inspection \<Rightarrow> string \<Rightarrow> string \<times> string \<Rightarrow> time
     \<Rightarrow> DatasetRegistrationRecord" where
  "registration_row pr r path uploaded si registration_id uris now =
     \<lparr>ds_id = registration_id, ds_tenant = tenant_id pr, ds_name = dr_name r, ds_source_type = dr_source_type r,
      ds_category = dr_category r, ds_status = registration_status r,
      ds_fingerprint = mf_fingerprint (si_manifest si), ds_manifest_sha256 = mf_sha256 (si_manifest si),
      ds_source_sha256 = si_source_sha256 si, ds_storage_uri = fst uris, ds_manifest_uri = snd uris,
      ds_license_acknowledged = dr_license_acknowledged r,
      ds_metadata = registration_metadata r path uploaded si,
      ds_risk_labels = sort (remdups (registration_risks r)), ds_created_by = actor_id pr,
      ds_revoked_by = None, ds_revoked_at = None, ds_revoke_reason = None, ds_created_at = now\<rparr>"

text \<open>The rest of the body from the row on.\<close>

definition add_registration :: "env \<Rightarrow> Principal \<Rightarrow> string \<Rightarrow> DatasetRegistrationRecord \<Rightarrow> DatasetRegistrationRecord svc" where
  "add_registration env pr correlation_id item =
     andthen (try_catch (insert_dataset item)
       (\<lambda>e. raise_error Conflict ''dataset fingerprint is already registered for this tenant''))
     (andthen (record_audit env (tenant_id pr) (actor_id pr) ''dataset_registration.created''
        ''dataset_registration'' (ds_id item) correlation_id
        (JObj [(''source_type'', JStr (ds_source_type item)), (''category'', JStr (ds_category item)),
          (''status'', JStr (ds_status item)), (''dataset_fingerprint'', JStr (ds_fingerprint item)),
          (''manifest_sha256'', JStr (ds_manifest_sha256 item)), (''source_sha256'', JOpt (ds_source_sha256 item)),
          (''risk_labels'', JList (map JStr (ds_risk_labels item)))]))
      (ret item))"

definition register_dataset ::
  "env \<Rightarrow> Principal \<Rightarrow> DatasetRegistrationRequest \<Rightarrow> string option \<Rightarrow> string \<Rightarrow> DatasetRegistrationRecord svc" where
  "register_dataset env pr r uploaded_path correlation_id =
     (let tid = tenant_id pr in
      bnd (fetch tenants (\<lambda>x. ten_id x = tid)) (\<lambda>found.
      if (case found of None \<Rightarrow> True | Some x \<Rightarrow> ten_status x \<noteq> ''ACTIVE'')
      then raise_error Forbidden ''tenant is not active''
      else if dr_source_type r = ''DEMO_SYNTHETIC''
      then raise_error InvalidInput ''DEMO_SYNTHETIC is built into the application and does not accept imported bytes''
      else
        case (case uploaded_path of Some p \<Rightarrow> Some p | None \<Rightarrow> if truthy (dr_source_path r) then dr_source_path r else None) of
          None \<Rightarrow> raise_error InvalidInput ''a mounted source_path or upload is required for optional dataset registration''
        | Some path \<Rightarrow>
            andthen (run_if (uploaded_path = None) (check_mount env path))
            (if (case dr_customer_provenance r of None \<Rightarrow> False | Some p \<Rightarrow> cp_tenant p \<noteq> tid)
             then raise_error Forbidden ''customer dataset provenance tenant does not match the authenticated tenant''
             else
               bnd (lift_result (inspect_source env path r)) (\<lambda>si.
               let expected_sha = expected_digest si; registration_id = registration_id_of env tid expected_sha in
               if truthy (dr_expected_sha256 r) \<and> dr_expected_sha256 r \<noteq> Some expected_sha
               then throw (ServiceError InvalidInput ''dataset source SHA-256 does not match the declared digest''
                 (Some (JObj [(''expected'', JOpt (dr_expected_sha256 r)), (''actual'', JStr expected_sha)])))
               else
                 bnd (store_source env tid registration_id r si) (\<lambda>uris.
                 bnd (query clock) (\<lambda>now.
                 add_registration env pr correlation_id
                   (registration_row pr r path (uploaded_path \<noteq> None) si registration_id uris now)))))))"

section \<open>Uploads\<close>

text \<open>The staged file: it holds the uploaded bytes, at a path of its own without links.\<close>

definition with_staged :: "string \<Rightarrow> string \<Rightarrow> env \<Rightarrow> env" where
  "with_staged path data env = env\<lparr>sources := (sources env)\<lparr>
     expanduser := (expanduser (sources env))(path := path),
     is_symlink := (is_symlink (sources env))(path := False),
     resolve_path := (resolve_path (sources env))(path := path),
     node_at := (node_at (sources env))(path := FileNode),
     read_node := (read_node (sources env))(path := Inr data),
     reread_node := (reread_node (sources env))(path := Inr data)\<rparr>\<rparr>"

text \<open>The random part of the temporary file's name is a fresh draw.\<close>

definition register_dataset_upload ::
  "env \<Rightarrow> Principal \<Rightarrow> DatasetRegistrationRequest \<Rightarrow> string \<Rightarrow> string \<Rightarrow> string \<Rightarrow> DatasetRegistrationRecord svc" where
  "register_dataset_upload env pr r data filename correlation_id =
     (let ext = file_suffix filename in
      if ext \<notin> {''.zip'', ''.tar'', ''.gz'', ''.xz'', ''.tgz'', ''.txz''}
      then raise_error InvalidInput ''dataset upload extension is not allowed''
      else if length data > dataset_max_upload_bytes (settings env)
      then raise_error InvalidInput ''dataset upload exceeds the configured size limit''
      else
        bnd (fresh_id ''dataset'') (\<lambda>name.
        let path = local_storage_path (settings env) @ ''/dataset-staging/'' @ name @ ext in
        register_dataset (with_staged path data env) pr r (Some path) correlation_id))"

section \<open>Listing and revoking\<close>

definition list_dataset_registrations :: "string \<Rightarrow> DatasetRegistrationRecord list svc" where
  "list_dataset_registrations tid = query (\<lambda>w. sort_key (\<lambda>d. - ds_created_at d)
     (filter (\<lambda>d. ds_tenant d = tid) (dataset_registrations w)))"

definition revoke_dataset_registration ::
  "env \<Rightarrow> Principal \<Rightarrow> string \<Rightarrow> string \<Rightarrow> string \<Rightarrow> DatasetRegistrationRecord svc" where
  "revoke_dataset_registration env pr registration_id reason correlation_id =
     (let tid = tenant_id pr in
      bnd (fetch dataset_registrations (is_dataset registration_id tid)) (\<lambda>found.
      case found of
        None \<Rightarrow> raise_error NotFound ''dataset registration not found''
      | Some item \<Rightarrow>
          if ds_status item = ''REVOKED'' then raise_error Conflict ''dataset registration is already revoked''
          else
            bnd (query clock) (\<lambda>now.
            andthen (run_all
             [update_dataset registration_id tid (\<lambda>d. d\<lparr>ds_status := ''REVOKED'', ds_revoked_by := Some (actor_id pr),
                ds_revoked_at := Some now, ds_revoke_reason := Some reason\<rparr>),
              record_audit env tid (actor_id pr) ''dataset_registration.revoked'' ''dataset_registration''
                (ds_id item) correlation_id
                (JObj [(''reason'', JStr reason), (''dataset_fingerprint'', JStr (ds_fingerprint item)),
                  (''evidence_binding_unchanged'', JBool True)])])
            (ret (item\<lparr>ds_status := ''REVOKED'', ds_revoked_by := Some (actor_id pr),
                ds_revoked_at := Some now, ds_revoke_reason := Some reason\<rparr>)))))"

text \<open>\<open>dataset_response\<close>: what the endpoints answer with; the validation of the answer by the schema
  library is not modelled.\<close>

record DatasetSource =
  dso_source_type :: string
  dso_registration_id :: string
  dso_name :: string
  dso_category :: string
  dso_status :: string
  dso_dataset_fingerprint :: string
  dso_manifest_sha256 :: string
  dso_source_sha256 :: "string option"
  dso_license_acknowledged :: bool
  dso_customer_provenance :: "json option"
  dso_risk_labels :: "string list"

record DatasetRegistrationResponse =
  drr_id :: string
  drr_tenant_id :: string
  drr_source :: DatasetSource
  drr_metadata :: "(string \<times> json) list"
  drr_created_by :: string
  drr_created_at :: time
  drr_revoked_by :: "string option"
  drr_revoked_at :: "time option"
  drr_revoke_reason :: "string option"

definition dataset_response :: "DatasetRegistrationRecord \<Rightarrow> DatasetRegistrationResponse" where
  "dataset_response item =
     \<lparr>drr_id = ds_id item, drr_tenant_id = ds_tenant item,
      drr_source = \<lparr>dso_source_type = ds_source_type item, dso_registration_id = ds_id item,
        dso_name = ds_name item, dso_category = ds_category item, dso_status = ds_status item,
        dso_dataset_fingerprint = ds_fingerprint item, dso_manifest_sha256 = ds_manifest_sha256 item,
        dso_source_sha256 = ds_source_sha256 item, dso_license_acknowledged = ds_license_acknowledged item,
        dso_customer_provenance = jget ''customer_provenance'' (ds_metadata item),
        dso_risk_labels = ds_risk_labels item\<rparr>,
      drr_metadata = ds_metadata item, drr_created_by = ds_created_by item, drr_created_at = ds_created_at item,
      drr_revoked_by = ds_revoked_by item, drr_revoked_at = ds_revoked_at item,
      drr_revoke_reason = ds_revoke_reason item\<rparr>"

section \<open>Registered customer data carries consent\<close>

lemma jget_update [simp]: "jget k (AList.update k' v d) = (if k = k' then Some v else jget k d)"
  by (simp add: jget_def update_conv)

lemma jget_metadata:
  "jget ''customer_provenance'' (registration_metadata r path uploaded si) =
     (case dr_customer_provenance r of None \<Rightarrow> jget ''customer_provenance'' (dr_metadata r)
      | Some p \<Rightarrow> Some (provenance_json p))"
  by (simp add: registration_metadata_def dict_update_def split: option.split)

lemma jget_Cons: "jget k ((k', v) # kvs) = (if k = k' then Some v else jget k kvs)"
  by (simp add: jget_def)

lemma sound_registration:
  assumes "\<not> (case dr_customer_provenance r of None \<Rightarrow> False | Some p \<Rightarrow> cp_tenant p \<noteq> tenant_id pr)"
  shows "sound_dataset (registration_row pr r path uploaded si rid uris now)"
  using assms
  by (auto simp: sound_dataset_def registration_row_def registration_status_def consenting_def jget_metadata
      provenance_json_def jget_Cons split: option.splits if_splits)

end
