(* ===== verification/Workflow.thy ===== *)
theory Workflow
  imports Frames Reviews Gateways Deployments Qualifications Datasets
begin

text \<open>
  Every handler of the inspection workflow keeps a frame of its tenant: proved once inside the
  locale, for all its interpretations.
\<close>

locale workflow_frame = store_frame +
  assumes ok_targets: "target \<noteq> AUTO_RELEASED \<Longrightarrow> target \<noteq> RELEASE_APPROVED \<Longrightarrow> ok_target target"
begin

lemma keeps_ensure_review_task: "keeps R (ensure_review_task env iid t)"
  unfolding ensure_review_task_def by (intro keeps_intros; simp)

lemma keeps_mark_inference: "keeps R (mark_inference_outbox_processed iid t)"
  unfolding mark_inference_outbox_processed_def by (intro keeps_intros; simp)

lemma keeps_active_deployment: "keeps R (active_deployment tid)"
  unfolding active_deployment_def by (intro keeps_intros)

lemma keeps_deployment_manifest: "keeps R (deployment_manifest d)"
  unfolding deployment_manifest_def Let_def by (intro keeps_intros)

lemma keeps_inference_failed: "keeps R (inference_failed env iid t reason)"
  unfolding inference_failed_def
  by (intro keeps_intros keeps_ensure_review_task keeps_mark_inference ok_targets; simp)

lemma keeps_run_model: "keeps R (run_model env i)"
  unfolding run_model_def by (intro keeps_intros keeps_deployment_manifest)

lemma keeps_record_result:
  assumes "insp_tenant i = t"
  shows "keeps R (record_result env i a m output)"
  unfolding record_result_def Let_def assms by (intro keeps_intros ok_targets; simp)

lemma keeps_run_connector: "keeps R (run_connector env name operation payload k)"
  unfolding keeps_def run_connector_def
  by (auto intro: R_refl R_remote split: option.split prod.split sum.split)

lemma keeps_new_external_action:
  "keeps R (new_external_action t cid name operation k payload corr)"
  unfolding new_external_action_def by (intro keeps_intros; simp)

lemma keeps_settle_incident: "keeps R (settle_incident env cid iid t)"
  unfolding settle_incident_def by (intro keeps_intros ok_targets; simp)

lemma keeps_audit_action: "keeps R (audit_action env xid t corr)"
  unfolding audit_action_def by (intro keeps_intros)

lemma keeps_action_update: "keeps R (update_action xid t (action_outcome outcome))"
  by (rule keeps_updates) (simp add: action_outcome_def split: option.split)

lemma keeps_mark_action: "keeps R (mark_action_outbox_processed xid t)"
proof -
  have "R w (snd (update_event (evt_id e) (evt_tenant e) (\<lambda>r. r\<lparr>evt_status := ''PROCESSED'', evt_processed_at := Some now\<rparr>) w))"
    if "e \<in> set (outbox_events w)" "evt_topic e = ''external_action.requested''"
      "\<exists>x \<in> set (external_actions w). is_action (evt_aggregate_id e) t x" for e now w
    using that by (intro R_event_update) auto
  then show ?thesis
    unfolding mark_action_outbox_processed_def flush_action_def keeps_def
    by (auto simp: andthen_def bnd_def R_refl split: option.split dest!: find_Some_iff_set)
qed

lemma keeps_execute_external_action:
  assumes "ext_tenant a = t"
  shows "keeps R (execute_external_action env a)"
  unfolding execute_external_action_def Let_def assms
  by (intro keeps_intros keeps_run_connector keeps_settle_incident keeps_audit_action keeps_mark_action
      keeps_action_update ok_targets; simp)

lemma keeps_process_pending: "t \<noteq> [] \<Longrightarrow> keeps R (process_pending_external_actions env c (Some t))"
  unfolding process_pending_external_actions_def
  by (intro keeps_intros keeps_execute_external_action) (auto simp: returns_def pending_actions_def)

lemma keeps_inline: "t \<noteq> [] \<Longrightarrow> keeps R (process_inline_actions env c t)"
  unfolding process_inline_actions_def by (intro keeps_intros keeps_process_pending; assumption)

lemma keeps_incident_manifest: "keeps R (incident_manifest i)"
  unfolding incident_manifest_def by (intro keeps_intros keeps_deployment_manifest)

lemma keeps_create_incident:
  assumes "insp_tenant i = t" "t \<noteq> []"
  shows "keeps R (create_incident env i d actor reason corr)"
  unfolding create_incident_def Let_def assms(1)
  by (intro keeps_intros keeps_incident_manifest keeps_new_external_action keeps_inline ok_targets; simp add: assms(2))

lemma keeps_request_incident_action:
  assumes "tenant_id pr = t" "t \<noteq> []"
  shows "keeps R (request_incident_action env pr cid request k corr)"
proof -
  have "inc_tenant c = t" if "returns (fetch quality_incidents (is_incident cid t)) (Some c)" for c
    using returns_fetch_Some [OF that] by (simp add: is_incident_def)
  then show ?thesis
    unfolding request_incident_action_def Let_def assms(1)
    by (intro keeps_intros; simp add: assms(2) keeps_new_external_action keeps_inline)
qed

lemma keeps_replay:
  assumes "tenant_id pr = t" "t \<noteq> []"
  shows "keeps R (replay_external_action env pr xid reason corr)"
  unfolding replay_external_action_def Let_def assms(1)
  by (intro keeps_intros keeps_inline ok_targets; simp add: assms(2))

lemma keeps_close:
  assumes "tenant_id pr = t"
  shows "keeps R (close_incident env pr cid request corr)"
  unfolding close_incident_def Let_def assms by (intro keeps_intros ok_targets; simp)

lemma keeps_claim:
  assumes "tenant_id pr = t"
  shows "keeps R (claim_review env pr rid v corr)"
  unfolding claim_review_def Let_def assms
  by (intro keeps_intros; simp add: claimable_def is_task_def)

lemma keeps_lift_result: "keeps R (lift_result r)"
  unfolding lift_result_def by (intro keeps_intros)

lemma keeps_gateway_binding: "keeps R (assert_gateway_pack_binding pr m)"
  unfolding assert_gateway_pack_binding_def by (intro keeps_intros)

lemma keeps_heartbeat:
  assumes "tenant_id pr = t"
  shows "keeps R (record_gateway_heartbeat env pr r corr)"
  unfolding record_gateway_heartbeat_def Let_def assms
  by (intro keeps_intros keeps_active_deployment keeps_deployment_manifest keeps_gateway_binding;
      simp add: gateway_of_request_def apply_heartbeat_def Let_def)

lemma keeps_create_deployment:
  assumes "tenant_id pr = t"
  shows "keeps R (create_deployment env pr r corr)"
  unfolding create_deployment_def Let_def assms
  by (intro keeps_intros keeps_lift_result; simp)

lemma keeps_get_deployment: "keeps R (get_deployment tid did)"
  unfolding get_deployment_def by (intro keeps_intros)

lemma keeps_the_qualification: "keeps R (the_qualification tid qid)"
  unfolding the_qualification_def by (intro keeps_intros)

lemma keeps_create_qualification:
  assumes "tenant_id pr = t"
  shows "keeps R (create_qualification env pr r corr)"
  unfolding create_qualification_def bound_dataset_def Let_def assms by (intro keeps_intros; simp)

lemma keeps_put_stream: "keeps R (put_stream env key data m)"
  unfolding put_stream_def by (intro keeps_intros)

lemma keeps_read_again: "keeps R (read_again env path)"
  unfolding read_again_def by (simp add: keeps_ret keeps_throw split: sum.split read_error.split)

lemma keeps_store_source: "keeps R (store_source env tid rid r si)"
  unfolding store_source_def store_dataset_source_def store_member_def import_error_def Let_def
  by (intro keeps_intros keeps_read_again keeps_put_stream)

lemma keeps_check_mount: "keeps R (check_mount env path)"
  unfolding check_mount_def Let_def by (intro keeps_intros)

lemma keeps_add_registration:
  assumes "tenant_id pr = t" "ds_tenant item = t" "sound_dataset item"
  shows "keeps R (add_registration env pr corr item)"
  unfolding add_registration_def assms(1) by (intro keeps_intros assms(2,3))

lemma keeps_register_dataset:
  assumes "tenant_id pr = t"
  shows "keeps R (register_dataset env pr r path corr)"
  unfolding register_dataset_def Let_def
  by (intro keeps_intros keeps_check_mount keeps_lift_result keeps_store_source keeps_add_registration sound_registration;
      simp add: assms registration_row_def)

lemma keeps_register_upload:
  assumes "tenant_id pr = t"
  shows "keeps R (register_dataset_upload env pr r data filename corr)"
  unfolding register_dataset_upload_def Let_def by (intro keeps_intros keeps_register_dataset assms)

lemma keeps_revoke_dataset:
  assumes "tenant_id pr = t"
  shows "keeps R (revoke_dataset_registration env pr rid reason corr)"
  unfolding revoke_dataset_registration_def Let_def assms
  by (intro keeps_intros; simp add: dataset_identity_def)

lemma keeps_require_activation_dataset: "keeps R (require_activation_dataset pr q)"
  unfolding require_activation_dataset_def Let_def by (intro keeps_intros keeps_lift_result)

end

context workflow_frame
begin

lemma keeps_complete_review:
  assumes "tenant_id pr = t" "t \<noteq> []" "ok_target (decision_target (rq_decision request))"
  shows "keeps R (complete_review env pr task request corr)"
proof -
  have "insp_tenant i = t" if "returns (query (lookup_inspection iid t)) (Some i)" for i iid
    using returns_lookup [OF that] by simp
  then show ?thesis
    unfolding complete_review_def Let_def assms(1)
    by (intro keeps_intros keeps_create_incident assms(3);
        simp add: assms(2))
qed

lemma ok_decisions: "ok_target RELEASE_APPROVED \<Longrightarrow> ok_target (decision_target d)"
  using ok_targets by (cases d) (simp_all add: decision_target_def)

lemma keeps_decide_review:
  assumes "tenant_id pr = t" "t \<noteq> []" "ok_target RELEASE_APPROVED"
  shows "keeps R (decide_review env pr rid request corr)"
  unfolding decide_review_def Let_def assms(1)
  by (intro keeps_intros keeps_complete_review ok_decisions assms; simp add: decidable_def is_task_def)

lemma ok_any: "ok_target AUTO_RELEASED \<Longrightarrow> ok_target RELEASE_APPROVED \<Longrightarrow> ok_target target"
  using ok_targets by (cases "target = AUTO_RELEASED"; cases "target = RELEASE_APPROVED") simp_all

lemma keeps_decide_policy:
  assumes "insp_tenant i = t" "ok_target AUTO_RELEASED" "ok_target RELEASE_APPROVED"
  shows "keeps R (decide_policy env i m score)"
proof -
  have ok: "ok_target target" for target
    using assms(2,3) by (rule ok_any)
  show ?thesis
    unfolding decide_policy_def assms(1)
    by (intro keeps_intros keeps_ensure_review_task keeps_mark_inference ok; simp)
qed

lemma keeps_route_result:
  assumes "insp_tenant i = t" "ok_target AUTO_RELEASED" "ok_target RELEASE_APPROVED"
  shows "keeps R (route_result env i a m output)"
  unfolding route_result_def by (intro keeps_andthen keeps_record_result keeps_decide_policy assms)

text \<open>The model run, whatever its routing.\<close>

lemma keeps_routing:
  assumes "\<And>i a m output. insp_tenant i = t \<Longrightarrow> keeps R (route_result env i a m output)"
  shows "keeps R (process_inference env iid (Some t))"
proof -
  have "insp_tenant i = t"
    if "returns (fetch inspections (\<lambda>i. insp_id i = iid \<and> (case Some t of None \<Rightarrow> True | Some u \<Rightarrow> insp_tenant i = u))) (Some i)" for i
    using returns_fetch_Some [OF that] by simp
  then show ?thesis
    unfolding process_inference_def
    by (intro keeps_intros keeps_run_model keeps_inference_failed;
        simp add: keeps_transition ok_targets keeps_inference_failed assms)
qed

lemma keeps_run_inference:
  assumes "ok_target AUTO_RELEASED" "ok_target RELEASE_APPROVED"
  shows "keeps R (process_inference env iid (Some t))"
  by (rule keeps_routing) (rule keeps_route_result [OF _ assms])

end

text \<open>The activation of a pack and the lifecycle of a qualification keep a frame that any change of these
  rows keeps.\<close>

locale update_frame = workflow_frame +
  assumes R_deployment_update: "(\<And>y. dep_tenant (du y) = dep_tenant y) \<Longrightarrow> R w (snd (update_deployment did t du w))"
    and R_qualification_update: "(\<And>y. mq_tenant (qu y) = mq_tenant y) \<Longrightarrow> R w (snd (update_qualification qid t qu w))"
begin

lemma keeps_row_updates:
  shows "(\<And>y. dep_tenant (du y) = dep_tenant y) \<Longrightarrow> keeps R (update_deployment did t du)"
    and "(\<And>y. mq_tenant (qu y) = mq_tenant y) \<Longrightarrow> keeps R (update_qualification qid t qu)"
  by (simp_all add: keeps_def R_deployment_update R_qualification_update)

lemma keeps_pack_activation:
  assumes "tenant_id pr = t"
  shows "keeps R (activate_deployment env pr did reason corr)"
  unfolding activate_deployment_def Let_def assms
  by (intro keeps_intros keeps_row_updates keeps_deployment_manifest keeps_get_deployment; simp)

lemma keeps_install_qualification:
  assumes "tenant_id pr = t"
  shows "keeps R (install_qualification env pr q dr action corr payload)"
  unfolding install_qualification_def Let_def assms
  by (intro keeps_intros keeps_row_updates keeps_the_qualification; simp)

lemmas qualification_parts = keeps_the_qualification keeps_lift_result keeps_active_deployment
  keeps_deployment_manifest keeps_require_activation_dataset keeps_install_qualification

lemma keeps_lifecycle:
  assumes "tenant_id pr = t"
  shows "keeps R (evaluate_qualification env pr qid reason corr)"
    and "keeps R (approve_qualification env pr qid reason corr)"
    and "keeps R (activate_qualification env pr qid reason corr)"
    and "keeps R (retire_qualification env pr qid reason corr)"
    and "keeps R (rollback_qualification env pr qid reason corr)"
  unfolding evaluate_qualification_def approve_qualification_def activate_qualification_def
    retire_qualification_def rollback_qualification_def Let_def assms
  by (intro keeps_intros keeps_row_updates qualification_parts; simp add: assms)+

end

text \<open>The handlers whose effect a frame may single out: the model run and the review decision may release
  an inspection, an activation changes which pack or model is in force.\<close>

locale release_frame = workflow_frame +
  assumes R_process_inference: "R w (snd (process_inference env iid (Some t) w))"
    and R_decide_review: "tenant_id pr = t \<Longrightarrow> t \<noteq> [] \<Longrightarrow> R w (snd (decide_review env pr rid request corr w))"
    and R_activate_deployment: "tenant_id pr = t \<Longrightarrow> R w (snd (activate_deployment env pr did reason corr w))"
    and R_evaluate: "tenant_id pr = t \<Longrightarrow> R w (snd (evaluate_qualification env pr qid reason corr w))"
    and R_approve: "tenant_id pr = t \<Longrightarrow> R w (snd (approve_qualification env pr qid reason corr w))"
    and R_activate: "tenant_id pr = t \<Longrightarrow> R w (snd (activate_qualification env pr qid reason corr w))"
    and R_retire: "tenant_id pr = t \<Longrightarrow> R w (snd (retire_qualification env pr qid reason corr w))"
    and R_rollback_qualification: "tenant_id pr = t \<Longrightarrow> R w (snd (rollback_qualification env pr qid reason corr w))"
begin

lemma keeps_activate_deployment: "tenant_id pr = t \<Longrightarrow> keeps R (activate_deployment env pr did reason corr)"
  by (rule keeps_primitive) (rule R_activate_deployment)

lemma keeps_qualification_steps:
  assumes "tenant_id pr = t"
  shows "keeps R (evaluate_qualification env pr qid reason corr)"
    and "keeps R (approve_qualification env pr qid reason corr)"
    and "keeps R (activate_qualification env pr qid reason corr)"
    and "keeps R (retire_qualification env pr qid reason corr)"
    and "keeps R (rollback_qualification env pr qid reason corr)"
  by (simp_all add: keeps_def R_evaluate R_approve R_activate R_retire R_rollback_qualification assms)

lemma keeps_review_decision:
  "tenant_id pr = t \<Longrightarrow> t \<noteq> [] \<Longrightarrow> keeps R (decide_review env pr rid request corr)"
  by (rule keeps_primitive) (rule R_decide_review)

lemma keeps_process_inference: "keeps R (process_inference env iid (Some t))"
  by (rule keeps_primitive) (rule R_process_inference)

lemma keeps_inspection_response: "keeps R (inspection_response iid tid replay)"
  unfolding inspection_response_def by (intro keeps_intros)

lemma keeps_receive_inspection:
  assumes "tenant_id pr = t"
  shows "keeps R (receive_inspection env pr cx img iid corr)"
  unfolding receive_inspection_def Let_def assms
  by (intro keeps_intros keeps_inspection_response keeps_process_inference ok_targets; simp)

lemma keeps_new_inspection:
  assumes "tenant_id pr = t"
  shows "keeps R (new_inspection env pr cx img fp k corr)"
  unfolding new_inspection_def concurrent_replay_def Let_def assms
  by (intro keeps_intros keeps_inspection_response keeps_receive_inspection keeps_active_deployment
      keeps_deployment_manifest assms; simp)

lemma keeps_security_rejection:
  assumes "tenant_id pr = t"
  shows "keeps R (record_security_rejection env pr k corr reason)"
  unfolding record_security_rejection_def assms
  by (intro keeps_intros keeps_modify R_side_audit; simp add: audit_row_def canonical_payload_def Let_def)

lemma keeps_create_inspection:
  assumes "tenant_id pr = t" "\<And>w. R w (between w)"
  shows "keeps R (create_inspection env between pr cx bytes ct k corr)"
proof -
  have "keeps R (modify between)" by (rule keeps_modify) (rule assms(2))
  moreover have "keeps R (assert_gateway_pack_binding pr m)" for m
    unfolding assert_gateway_pack_binding_def by (intro keeps_intros)
  ultimately show ?thesis
    unfolding create_inspection_def Let_def assms(1)
    by (auto intro!: keeps_intros keeps_security_rejection keeps_inspection_response keeps_new_inspection
        keeps_active_deployment keeps_deployment_manifest assms(1)
        split: sum.split exn.split error_kind.split)
qed

end

text \<open>A frame that singles out none of them.\<close>

locale plain_frame = update_frame t R "\<lambda>_. True" for t R

sublocale plain_frame \<subseteq> release_frame t R "\<lambda>_. True"
  by unfold_locales
    (simp_all add: keeps_run_inference [unfolded keeps_def, rule_format] keeps_decide_review [unfolded keeps_def, rule_format]
      keeps_pack_activation [unfolded keeps_def, rule_format] keeps_lifecycle [unfolded keeps_def, rule_format])

end
