(* ===== verification/Worker.thy ===== *)
theory Worker
  imports Reviews
begin

text \<open>
  The outbox: \<open>process_one_outbox\<close> of \<^verbatim>\<open>backend/app/services.py\<close> and the loop body of
  \<^verbatim>\<open>backend/app/worker.py\<close>, which commits a processed event and rolls back a failed one.
\<close>

text \<open>The oldest pending event that is due.\<close>

definition next_event :: "world \<Rightarrow> OutboxEvent option" where
  "next_event w =
     (case sort_key evt_created_at
        (filter (\<lambda>e. evt_status e = ''PENDING'' \<and> evt_available_at e \<le> clock w) (outbox_events w)) of
        [] \<Rightarrow> None | e # _ \<Rightarrow> Some e)"

definition show_exn :: "exn \<Rightarrow> string" where
  "show_exn e = (case e of ServiceError k m d \<Rightarrow> kind_name k @ '': '' @ m | OtherError t m \<Rightarrow> t @ '': '' @ m
     | HTTPException c m \<Rightarrow> ''HTTPException: '' @ m)"

text \<open>What the event asks for.\<close>

definition dispatch_event :: "env \<Rightarrow> OutboxEvent \<Rightarrow> unit svc" where
  "dispatch_event env e =
     (if evt_topic e = ''inspection.inference_requested''
      then process_inference env (evt_aggregate_id e) (Some (evt_tenant e))
      else if evt_topic e = ''external_action.requested''
      then bnd (fetch external_actions (is_action (evt_aggregate_id e) (evt_tenant e))) (\<lambda>found.
        case found of
          None \<Rightarrow> ret ()
        | Some a \<Rightarrow> run_if (ext_status a = EA_PENDING) (execute_external_action env a))
      else update_event (evt_id e) (evt_tenant e)
        (\<lambda>r. r\<lparr>evt_status := ''FAILED'', evt_last_error := Some ''unknown outbox topic''\<rparr>))"

definition finish_event :: "OutboxEvent \<Rightarrow> unit svc" where
  "finish_event e =
     bnd (fetch outbox_events (is_event (evt_id e) (evt_tenant e))) (\<lambda>found.
     bnd (query clock) (\<lambda>now.
     run_if (case found of None \<Rightarrow> False | Some r \<Rightarrow> evt_status r = ''PENDING'')
       (update_event (evt_id e) (evt_tenant e)
          (\<lambda>r. r\<lparr>evt_status := ''PROCESSED'', evt_processed_at := Some now\<rparr>))))"

definition fail_event :: "OutboxEvent \<Rightarrow> exn \<Rightarrow> unit svc" where
  "fail_event e exc =
     andthen (update_event (evt_id e) (evt_tenant e)
       (\<lambda>r. r\<lparr>evt_last_error := Some (take 1000 (show_exn exc)),
              evt_status := (if evt_attempts r \<ge> 3 then ''FAILED'' else evt_status r)\<rparr>))
     (throw exc)"

definition process_event :: "env \<Rightarrow> OutboxEvent \<Rightarrow> unit svc" where
  "process_event env e =
     andthen (update_event (evt_id e) (evt_tenant e) (\<lambda>r. r\<lparr>evt_attempts := evt_attempts r + 1\<rparr>))
     (try_catch (run_all [dispatch_event env e, finish_event e]) (fail_event e))"

definition process_one_outbox :: "env \<Rightarrow> bool svc" where
  "process_one_outbox env =
     bnd (query next_event) (\<lambda>event.
     case event of
       None \<Rightarrow> ret False
     | Some e \<Rightarrow> andthen (process_event env e) (ret True))"

text \<open>One round of \<open>run_forever\<close>: an exception is logged after the rollback and the loop goes on.\<close>

definition worker_round :: "env \<Rightarrow> world \<Rightarrow> world" where
  "worker_round env w = snd (transaction (process_one_outbox env) w)"

end
