(* ===== verification/Views.thy ===== *)
theory Views
  imports Reviews
begin

text \<open>
  The read side of incidents in \<^verbatim>\<open>backend/app/services.py\<close>: the incident page with its
  evidence, and the merged timelines of audit rows and status changes.
\<close>

record TimelineEntry =
  tl_occurred_at :: time
  tl_source :: string
  tl_action :: string
  tl_actor :: string
  tl_details :: json
  tl_correlation_id :: string

definition entry_of_audit :: "AuditEvent \<Rightarrow> TimelineEntry" where
  "entry_of_audit a = \<lparr>tl_occurred_at = aud_occurred_at a, tl_source = ''audit'', tl_action = aud_action a,
     tl_actor = aud_actor a, tl_details = aud_payload a, tl_correlation_id = aud_correlation_id a\<rparr>"

definition entry_of_transition :: "StateTransition \<Rightarrow> TimelineEntry" where
  "entry_of_transition s = \<lparr>tl_occurred_at = trn_occurred_at s, tl_source = ''state_transition'',
     tl_action = status_value (trn_from_state s) @ ''->'' @ status_value (trn_to_state s),
     tl_actor = trn_actor s,
     tl_details = JObj [(''reason'', JStr (trn_reason s)), (''entity_type'', JStr (trn_entity_type s))],
     tl_correlation_id = trn_correlation_id s\<rparr>"

text \<open>The audit rows of some targets and the status changes of an inspection, by time.\<close>

definition merged_timeline :: "string \<Rightarrow> string list \<Rightarrow> string \<Rightarrow> world \<Rightarrow> TimelineEntry list" where
  "merged_timeline tid targets iid w = sort_key tl_occurred_at
     (map entry_of_audit (filter (\<lambda>a. aud_tenant a = tid \<and> aud_target_id a \<in> set targets) (audit_events w)) @
      map entry_of_transition (filter (\<lambda>s. trn_tenant s = tid \<and> trn_entity_id s = iid) (state_transitions w)))"

definition inspection_timeline :: "string \<Rightarrow> string \<Rightarrow> TimelineEntry list svc" where
  "inspection_timeline tid iid =
     bnd (fetch inspections (is_inspection iid tid)) (\<lambda>found.
     case found of
       None \<Rightarrow> raise_error NotFound ''inspection not found''
     | Some i \<Rightarrow> query (merged_timeline tid [iid] iid))"

definition incident_targets :: "string \<Rightarrow> QualityIncident \<Rightarrow> world \<Rightarrow> string list" where
  "incident_targets tid c w =
     [inc_id c, inc_inspection_id c] @
     (case review_of (inc_inspection_id c) tid w of None \<Rightarrow> [] | Some r \<Rightarrow> [rev_id r]) @
     map ext_id (filter (\<lambda>a. ext_incident_id a = inc_id c \<and> ext_tenant a = tid) (external_actions w))"

definition timeline :: "string \<Rightarrow> string \<Rightarrow> TimelineEntry list svc" where
  "timeline tid cid =
     bnd (fetch quality_incidents (is_incident cid tid)) (\<lambda>found.
     case found of
       None \<Rightarrow> raise_error NotFound ''quality incident not found''
     | Some c \<Rightarrow> query (\<lambda>w. merged_timeline tid (incident_targets tid c w) (inc_inspection_id c) w))"

record QualityIncidentResponse =
  qv_incident :: QualityIncident
  qv_batch_no :: string
  qv_product_code :: string
  qv_station_code :: string
  qv_score :: rat
  qv_model_version :: string
  qv_policy_version :: string
  qv_decision_actor :: string
  qv_decision_reason :: string
  qv_external_actions :: "ExternalAction list"
  qv_timeline :: "TimelineEntry list"
  qv_correlation_id :: string

definition decision_of :: "string \<Rightarrow> string \<Rightarrow> world \<Rightarrow> ReviewDecision option" where
  "decision_of iid tid w = (case review_of iid tid w of
     None \<Rightarrow> None
   | Some r \<Rightarrow> find (\<lambda>d. rdec_review_task_id d = rev_id r \<and> rdec_tenant d = tid) (review_decisions w))"

definition get_incident :: "string \<Rightarrow> string \<Rightarrow> QualityIncidentResponse svc" where
  "get_incident tid cid =
     bnd (fetch quality_incidents (is_incident cid tid)) (\<lambda>found.
     case found of
       None \<Rightarrow> raise_error NotFound ''quality incident not found''
     | Some c \<Rightarrow>
         bnd (query (\<lambda>w. (lookup_inspection (inc_inspection_id c) tid w, w))) (\<lambda>(found_inspection, w).
         case found_inspection of
           None \<Rightarrow> raise_error NotFound ''inspection for quality incident not found''
         | Some i \<Rightarrow>
             bnd (timeline tid cid) (\<lambda>entries.
             let inference = latest_inference (insp_id i) tid w;
                 decision = decision_of (insp_id i) tid w
             in ret \<lparr>qv_incident = c, qv_batch_no = insp_batch_no i, qv_product_code = insp_product_code i,
                  qv_station_code = insp_station_code i,
                  qv_score = (case inference of None \<Rightarrow> 0 | Some f \<Rightarrow> inf_score f),
                  qv_model_version = (case inference of None \<Rightarrow> ''unavailable'' | Some f \<Rightarrow> inf_model_version f),
                  qv_policy_version = (case policy_of (insp_id i) tid w of
                      None \<Rightarrow> ''unavailable'' | Some p \<Rightarrow> pol_policy_version p),
                  qv_decision_actor = (case decision of None \<Rightarrow> ''unavailable'' | Some d \<Rightarrow> rdec_actor_id d),
                  qv_decision_reason = (case decision of None \<Rightarrow> ''not recorded''
                    | Some d \<Rightarrow> or_else (rdec_reason d) (or_else (rdec_notes d) ''not recorded'')),
                  qv_external_actions = sort_key ext_created_at
                    (filter (\<lambda>a. ext_incident_id a = inc_id c \<and> ext_tenant a = tid) (external_actions w)),
                  qv_timeline = entries, qv_correlation_id = insp_correlation_id i\<rparr>)))"

definition get_external_action :: "string \<Rightarrow> string \<Rightarrow> ExternalAction svc" where
  "get_external_action tid xid =
     bnd (fetch external_actions (is_action xid tid)) (\<lambda>found.
     case found of None \<Rightarrow> raise_error NotFound ''external action not found'' | Some a \<Rightarrow> ret a)"

definition list_audit_events :: "string \<Rightarrow> string option \<Rightarrow> world \<Rightarrow> AuditEvent list" where
  "list_audit_events tid target_id w = sort_key aud_occurred_at
     (filter (\<lambda>a. aud_tenant a = tid \<and> (if truthy target_id then Some (aud_target_id a) = target_id else True))
       (audit_events w))"

end
