(* ===== verification/Api.thy ===== *)
theory Api
  imports Views Gateways Deployments Qualifications Datasets
begin

text \<open>
  The endpoints of \<^verbatim>\<open>backend/app/api.py\<close>: the role each asks for, the validation of the
  request body, and the service call, in the transaction of \<open>get_session\<close>. The endpoints that
  change state are the constructors of \<open>mutation\<close>.
\<close>

definition guarded :: "Role list \<Rightarrow> Principal \<Rightarrow> 'a svc \<Rightarrow> 'a svc" where
  "guarded allowed pr m = bnd (lift_result (require_roles allowed pr)) (\<lambda>_. m)"

text \<open>A body that fails its schema is answered with 422 before the endpoint runs.\<close>

definition valid_body :: "string + unit \<Rightarrow> 'a svc \<Rightarrow> 'a svc" where
  "valid_body v m = (case v of Inl field \<Rightarrow> throw (HTTPException 422 field) | Inr _ \<Rightarrow> m)"

definition valid_key :: "string \<Rightarrow> string + unit" where
  "valid_key k = ensure (len_between 1 200 k) ''Idempotency-Key''"

section \<open>Endpoints that change state\<close>

definition api_create_inspection ::
  "env \<Rightarrow> (world \<Rightarrow> world) \<Rightarrow> Principal \<Rightarrow> string \<Rightarrow> form \<Rightarrow> string \<Rightarrow> string option \<Rightarrow> string \<Rightarrow> string option
     \<Rightarrow> InspectionResponse svc" where
  "api_create_inspection env between pr corr ff upload content_type idempotency_key gateway_id =
     guarded [INSPECTOR, QUALITY_MANAGER, ADMIN, EDGE_GATEWAY] pr
     (valid_body (valid_key idempotency_key)
     (if EDGE_GATEWAY \<in> roles pr \<and> gateway_id \<noteq> Some (actor_id pr)
      then throw (HTTPException 403 ''gateway identity header does not match token'')
      else
        bnd (context_from_fields env pr ff) (\<lambda>context.
        create_inspection env between pr context (take (max_upload_bytes (settings env) + 1) upload)
          content_type idempotency_key corr)))"

definition api_claim_review :: "env \<Rightarrow> Principal \<Rightarrow> string \<Rightarrow> string \<Rightarrow> int \<Rightarrow> ReviewTaskResponse svc" where
  "api_claim_review env pr corr task_id expected_version =
     guarded [INSPECTOR, QUALITY_MANAGER] pr
     (valid_body (ensure (expected_version \<ge> 1) ''expected_version'')
     (bnd (claim_review env pr task_id expected_version corr) review_task_response))"

definition api_decide_review ::
  "env \<Rightarrow> Principal \<Rightarrow> string \<Rightarrow> string \<Rightarrow> ReviewDecisionRequest \<Rightarrow> ReviewDecisionResult svc" where
  "api_decide_review env pr corr task_id request =
     guarded [INSPECTOR, QUALITY_MANAGER] pr
     (valid_body (validate_decision_request request) (decide_review env pr task_id request corr))"

definition api_incident_action ::
  "env \<Rightarrow> Principal \<Rightarrow> string \<Rightarrow> string \<Rightarrow> IncidentActionRequest \<Rightarrow> string \<Rightarrow> ExternalAction svc" where
  "api_incident_action env pr corr incident_id request idempotency_key =
     guarded [QUALITY_MANAGER] pr
     (valid_body (andThen (valid_key idempotency_key) (\<lambda>_. validate_action_request request))
     (bnd (request_incident_action env pr incident_id request idempotency_key corr)
        (get_external_action (tenant_id pr))))"

definition api_replay_action :: "env \<Rightarrow> Principal \<Rightarrow> string \<Rightarrow> string \<Rightarrow> string \<Rightarrow> ExternalAction svc" where
  "api_replay_action env pr corr action_id reason =
     guarded [QUALITY_MANAGER, ADMIN] pr
     (valid_body (ensure (len_between 1 4000 reason) ''reason'')
     (bnd (replay_external_action env pr action_id reason corr) (get_external_action (tenant_id pr))))"

definition api_close_incident ::
  "env \<Rightarrow> Principal \<Rightarrow> string \<Rightarrow> string \<Rightarrow> CloseIncidentRequest \<Rightarrow> string svc" where
  "api_close_incident env pr corr incident_id request =
     guarded [QUALITY_MANAGER] pr
     (valid_body (validate_close_request request) (close_incident env pr incident_id request corr))"

definition valid_heartbeat :: "GatewayHeartbeatRequest \<Rightarrow> string + unit" where
  "valid_heartbeat r = ensure_all
     [(len_between 1 128 (hb_gateway_id r), ''gateway_id''),
      (len_between 1 64 (hb_gateway_version r), ''gateway_version''),
      (len_between 1 128 (hb_station_code r), ''station_code''),
      (hb_reported_status r \<in> {''ONLINE'', ''DEGRADED'', ''STARTING'', ''STOPPING''}, ''reported_status''),
      (0 \<le> hb_queue_depth r, ''queue_depth''),
      (case hb_last_error r of None \<Rightarrow> True | Some e \<Rightarrow> length e \<le> 1000, ''last_error''),
      (0 \<le> hb_upload_success_count r, ''upload_success_count''),
      (0 \<le> hb_upload_failure_count r, ''upload_failure_count''),
      (case hb_pack_key r of None \<Rightarrow> True | Some k \<Rightarrow> length k \<le> 128, ''deployment_pack_key''),
      (case hb_pack_version r of None \<Rightarrow> True | Some v \<Rightarrow> length v \<le> 64, ''deployment_pack_version'')]"

definition api_heartbeat ::
  "env \<Rightarrow> Principal \<Rightarrow> string \<Rightarrow> GatewayHeartbeatRequest \<Rightarrow> GatewayStatusResponse svc" where
  "api_heartbeat env pr corr request =
     guarded [EDGE_GATEWAY] pr
     (valid_body (valid_heartbeat request) (record_gateway_heartbeat env pr request corr))"

definition api_create_deployment ::
  "env \<Rightarrow> Principal \<Rightarrow> string \<Rightarrow> DeploymentCreateRequest \<Rightarrow> (DeploymentPack \<times> DeploymentManifest) svc" where
  "api_create_deployment env pr corr request =
     guarded [ADMIN, FDE] pr
     (valid_body (validate_create_request request)
     (bnd (create_deployment env pr request corr) (\<lambda>d.
      bnd (deployment_manifest d) (\<lambda>m. ret (d, m)))))"

definition api_activate_deployment ::
  "env \<Rightarrow> Principal \<Rightarrow> string \<Rightarrow> string \<Rightarrow> string \<Rightarrow> (DeploymentPack \<times> DeploymentManifest) svc" where
  "api_activate_deployment env pr corr deployment_id reason =
     guarded [QUALITY_MANAGER, ADMIN, FDE] pr
     (valid_body (ensure (len_between 1 4000 reason) ''reason'')
     (bnd (activate_deployment env pr deployment_id reason corr) (\<lambda>d.
      bnd (deployment_manifest d) (\<lambda>m. ret (d, m)))))"

definition valid_reason :: "string \<Rightarrow> string + unit" where
  "valid_reason reason = ensure (len_between 10 4000 reason) ''reason''"

definition is_sha256_hex :: "string \<Rightarrow> bool" where
  "is_sha256_hex s \<longleftrightarrow> length s = 64 \<and>
     (\<forall>c \<in> set s. is_digit c \<or> (let n = (of_char c :: nat) in 97 \<le> n \<and> n \<le> 102))"

definition valid_qualification :: "QualificationCreateRequest \<Rightarrow> string + unit" where
  "valid_qualification r = ensure_all
     [(len_between 1 128 (qr_product_code r), ''product_code''),
      (len_between 1 128 (qr_model_id r), ''model_id''),
      (len_between 1 64 (qr_model_version r), ''model_version''),
      (len_between 1 128 (qr_feature_bank_version r), ''feature_bank_version''),
      (is_sha256_hex (qr_package_sha256 r), ''package_sha256''),
      (len_between 1 1000 (qr_evidence_path r), ''evidence_path''),
      (is_sha256_hex (qr_evidence_sha256 r), ''evidence_sha256''),
      (len_between 1 128 (qr_pack_key r), ''deployment_pack_key''),
      (case qr_dataset_id r of None \<Rightarrow> True | Some i \<Rightarrow> len_between 1 64 i, ''dataset_registration_id''),
      (qr_dataset_source_type r \<in> {None, Some ''DEMO_SYNTHETIC'', Some ''OFFICIAL_BENCHMARK'', Some ''CUSTOMER_PILOT''},
       ''dataset_source_type''),
      (case qr_dataset_fingerprint r of None \<Rightarrow> True | Some f \<Rightarrow> is_sha256_hex f, ''dataset_fingerprint'')]"

definition api_create_qualification ::
  "env \<Rightarrow> Principal \<Rightarrow> string \<Rightarrow> QualificationCreateRequest \<Rightarrow> ModelQualification svc" where
  "api_create_qualification env pr corr request =
     guarded [ML_ENGINEER, FDE] pr
     (valid_body (valid_qualification request) (create_qualification env pr request corr))"

definition api_evaluate_qualification :: "env \<Rightarrow> Principal \<Rightarrow> string \<Rightarrow> string \<Rightarrow> string \<Rightarrow> ModelQualification svc" where
  "api_evaluate_qualification env pr corr qid reason =
     guarded [ML_ENGINEER] pr (valid_body (valid_reason reason) (evaluate_qualification env pr qid reason corr))"

definition api_approve_qualification :: "env \<Rightarrow> Principal \<Rightarrow> string \<Rightarrow> string \<Rightarrow> string \<Rightarrow> ModelQualification svc" where
  "api_approve_qualification env pr corr qid reason =
     guarded [QUALITY_MANAGER] pr (valid_body (valid_reason reason) (approve_qualification env pr qid reason corr))"

definition api_activate_qualification :: "env \<Rightarrow> Principal \<Rightarrow> string \<Rightarrow> string \<Rightarrow> string \<Rightarrow> ModelQualification svc" where
  "api_activate_qualification env pr corr qid reason =
     guarded [ADMIN, FDE] pr (valid_body (valid_reason reason) (activate_qualification env pr qid reason corr))"

definition api_retire_qualification :: "env \<Rightarrow> Principal \<Rightarrow> string \<Rightarrow> string \<Rightarrow> string \<Rightarrow> ModelQualification svc" where
  "api_retire_qualification env pr corr qid reason =
     guarded [ADMIN, QUALITY_MANAGER] pr (valid_body (valid_reason reason) (retire_qualification env pr qid reason corr))"

definition api_rollback_qualification :: "env \<Rightarrow> Principal \<Rightarrow> string \<Rightarrow> string \<Rightarrow> string \<Rightarrow> ModelQualification svc" where
  "api_rollback_qualification env pr corr qid reason =
     guarded [ADMIN, FDE] pr (valid_body (valid_reason reason) (rollback_qualification env pr qid reason corr))"

text \<open>The claims of the token for the other tenant; the roles in sorted order.\<close>

definition api_switch_tenant :: "env \<Rightarrow> Principal \<Rightarrow> string \<Rightarrow> string \<Rightarrow> ((string \<times> json) list) svc" where
  "api_switch_tenant env pr corr target_id =
     guarded [FDE, ADMIN] pr
     (valid_body (ensure (len_between 1 64 target_id) ''tenant_id'')
     (if environment (settings env) \<notin> {''demo'', ''test''}
      then throw (HTTPException 403 ''tenant switching is disabled in this environment'')
      else if target_id \<notin> set (parsed_demo_switchable_tenant_ids (settings env))
      then throw (HTTPException 403 ''tenant is not enabled for demo switching'')
      else
        bnd (fetch tenants (\<lambda>x. ten_id x = target_id)) (\<lambda>found.
        if (case found of None \<Rightarrow> True | Some x \<Rightarrow> ten_status x \<noteq> ''ACTIVE'')
        then throw (HTTPException 404 ''target tenant not found'')
        else
          andthen (record_audit env (tenant_id pr) (actor_id pr) ''tenant.switch_requested'' ''tenant'' target_id
            corr (JObj [(''from_tenant'', JStr (tenant_id pr)), (''to_tenant'', JStr target_id)]))
          (bnd (query clock) (\<lambda>now.
           ret (access_token_claims (auth_issuer (settings env)) (access_token_minutes (settings env)) now
             (actor_id pr) target_id (sort_key role_value (filter (\<lambda>r. r \<in> roles pr) all_roles)) None))))))"

text \<open>The data set endpoints. Of an upload, \<open>parsed\<close> is what the JSON and schema libraries make of the
  form fields, before the request's own validation.\<close>

definition dataset_editors :: "Role list" where
  "dataset_editors = [ML_ENGINEER, FDE, QUALITY_MANAGER]"

definition api_create_dataset_registration ::
  "env \<Rightarrow> Principal \<Rightarrow> string \<Rightarrow> DatasetRegistrationRequest \<Rightarrow> DatasetRegistrationResponse svc" where
  "api_create_dataset_registration env pr corr body =
     guarded dataset_editors pr
     (valid_body (validate_registration_request body)
     (bnd (register_dataset env pr body None corr) (\<lambda>d. ret (dataset_response d))))"

definition api_upload_dataset_registration ::
  "env \<Rightarrow> Principal \<Rightarrow> string \<Rightarrow> string + DatasetRegistrationRequest \<Rightarrow> string \<Rightarrow> string option
     \<Rightarrow> DatasetRegistrationResponse svc" where
  "api_upload_dataset_registration env pr corr parsed data filename =
     guarded dataset_editors pr
     (case andThen parsed (\<lambda>body. andThen (validate_registration_request body) (\<lambda>_. Inr body)) of
        Inl reason \<Rightarrow> throw (invalid_source ''dataset upload registration fields are invalid'' reason)
      | Inr body \<Rightarrow>
          bnd (register_dataset_upload env pr body data (or_else filename ''dataset.bin'') corr)
            (\<lambda>d. ret (dataset_response d)))"

definition api_revoke_dataset_registration ::
  "env \<Rightarrow> Principal \<Rightarrow> string \<Rightarrow> string \<Rightarrow> string \<Rightarrow> DatasetRegistrationResponse svc" where
  "api_revoke_dataset_registration env pr corr registration_id reason =
     guarded dataset_editors pr
     (valid_body (valid_reason reason)
     (bnd (revoke_dataset_registration env pr registration_id reason corr) (\<lambda>d. ret (dataset_response d))))"

section \<open>Endpoints that read\<close>

definition api_operations_summary :: "env \<Rightarrow> Principal \<Rightarrow> OperationsSummaryResponse svc" where
  "api_operations_summary env pr = guarded [INSPECTOR, QUALITY_MANAGER, ADMIN, AUDITOR, FDE] pr
     (query (operations_summary env (tenant_id pr)))"

definition api_gateway_status :: "env \<Rightarrow> Principal \<Rightarrow> GatewayStatusResponse list svc" where
  "api_gateway_status env pr = guarded [INSPECTOR, QUALITY_MANAGER, ADMIN, AUDITOR, FDE] pr
     (query (list_gateway_statuses env (tenant_id pr)))"

definition api_station_status :: "env \<Rightarrow> Principal \<Rightarrow> GatewayStatusResponse list svc" where
  "api_station_status env pr = guarded [INSPECTOR, QUALITY_MANAGER, ADMIN, AUDITOR, FDE] pr
     (query (list_gateway_statuses env (tenant_id pr)))"

definition api_list_dataset_registrations :: "Principal \<Rightarrow> DatasetRegistrationResponse list svc" where
  "api_list_dataset_registrations pr = guarded [ML_ENGINEER, QUALITY_MANAGER, ADMIN, AUDITOR, FDE] pr
     (bnd (list_dataset_registrations (tenant_id pr)) (\<lambda>ds. ret (map dataset_response ds)))"

definition api_list_inspections :: "Principal \<Rightarrow> InspectionResponse list svc" where
  "api_list_inspections pr = guarded [INSPECTOR, QUALITY_MANAGER, ML_ENGINEER, ADMIN, AUDITOR] pr
     (list_inspections (tenant_id pr) 20)"

definition api_get_inspection :: "Principal \<Rightarrow> string \<Rightarrow> InspectionResponse svc" where
  "api_get_inspection pr iid = guarded [INSPECTOR, QUALITY_MANAGER, ML_ENGINEER, ADMIN, AUDITOR] pr
     (get_inspection (tenant_id pr) iid)"

definition api_inspection_timeline :: "Principal \<Rightarrow> string \<Rightarrow> TimelineEntry list svc" where
  "api_inspection_timeline pr iid = guarded [INSPECTOR, QUALITY_MANAGER, ADMIN, AUDITOR] pr
     (inspection_timeline (tenant_id pr) iid)"

definition api_get_asset :: "Principal \<Rightarrow> string \<Rightarrow> (string \<times> string) svc" where
  "api_get_asset pr asset_id = guarded [INSPECTOR, QUALITY_MANAGER, ML_ENGINEER, ADMIN, AUDITOR] pr
     (bnd (get_image_asset (tenant_id pr) asset_id) (\<lambda>a.
      bnd (query (get_object (img_uri a))) (\<lambda>stored.
      case stored of Inl exc \<Rightarrow> throw (OtherError exc '''') | Inr data \<Rightarrow> ret (data, img_mime_type a))))"

fun each :: "('a \<Rightarrow> 'b svc) \<Rightarrow> 'a list \<Rightarrow> 'b list svc" where
  "each f [] = ret []"
| "each f (x # xs) = bnd (f x) (\<lambda>y. bnd (each f xs) (\<lambda>ys. ret (y # ys)))"

definition api_list_reviews :: "Principal \<Rightarrow> ReviewTaskResponse list svc" where
  "api_list_reviews pr = guarded [INSPECTOR, QUALITY_MANAGER, AUDITOR] pr
     (bnd (list_reviews (tenant_id pr)) (each review_task_response))"

definition api_get_incident :: "Principal \<Rightarrow> string \<Rightarrow> QualityIncidentResponse svc" where
  "api_get_incident pr cid = guarded [INSPECTOR, QUALITY_MANAGER, ADMIN, AUDITOR] pr (get_incident (tenant_id pr) cid)"

definition api_incident_timeline :: "Principal \<Rightarrow> string \<Rightarrow> TimelineEntry list svc" where
  "api_incident_timeline pr cid = guarded [INSPECTOR, QUALITY_MANAGER, ADMIN, AUDITOR] pr (timeline (tenant_id pr) cid)"

definition api_get_external_action :: "Principal \<Rightarrow> string \<Rightarrow> ExternalAction svc" where
  "api_get_external_action pr xid = guarded [QUALITY_MANAGER, ADMIN, AUDITOR] pr (get_external_action (tenant_id pr) xid)"

definition api_list_audit_events :: "Principal \<Rightarrow> string option \<Rightarrow> AuditEvent list svc" where
  "api_list_audit_events pr target_id = guarded [AUDITOR, ADMIN] pr (query (list_audit_events (tenant_id pr) target_id))"

definition api_list_deployments :: "Principal \<Rightarrow> (DeploymentPack \<times> DeploymentManifest) list svc" where
  "api_list_deployments pr = guarded [ADMIN, FDE, QUALITY_MANAGER, AUDITOR] pr
     (bnd (list_deployments (tenant_id pr)) (each (\<lambda>d. bnd (deployment_manifest d) (\<lambda>m. ret (d, m)))))"

definition api_export_manifest :: "Principal \<Rightarrow> string \<Rightarrow> (DeploymentPack \<times> DeploymentManifest) svc" where
  "api_export_manifest pr did = guarded [ADMIN, QUALITY_MANAGER, ML_ENGINEER, AUDITOR, FDE] pr
     (bnd (get_deployment (tenant_id pr) did) (\<lambda>d. bnd (deployment_manifest d) (\<lambda>m. ret (d, m))))"

definition api_list_qualifications :: "Principal \<Rightarrow> ModelQualification list svc" where
  "api_list_qualifications pr = guarded [ML_ENGINEER, QUALITY_MANAGER, ADMIN, AUDITOR, FDE] pr
     (list_qualifications (tenant_id pr))"

definition api_tenant_context ::
  "env \<Rightarrow> Principal \<Rightarrow> (Tenant \<times> (DeploymentPack \<times> DeploymentManifest) option \<times> Tenant list) svc" where
  "api_tenant_context env pr =
     guarded [INSPECTOR, QUALITY_MANAGER, ML_ENGINEER, ADMIN, AUDITOR, FDE] pr
     (bnd (fetch tenants (\<lambda>x. ten_id x = tenant_id pr)) (\<lambda>found.
      case found of
        None \<Rightarrow> throw (HTTPException 404 ''tenant not found'')
      | Some ten \<Rightarrow>
          if ten_status ten \<noteq> ''ACTIVE'' then throw (HTTPException 404 ''tenant not found'')
          else
            bnd (list_deployments (tenant_id pr)) (\<lambda>ds.
            bnd (case find (\<lambda>d. dep_status d = ''ACTIVE'') ds of
                   None \<Rightarrow> ret None
                 | Some d \<Rightarrow> bnd (deployment_manifest d) (\<lambda>m. ret (Some (d, m)))) (\<lambda>current.
            let allowed = insert (tenant_id pr) (if FDE \<in> roles pr \<or> ADMIN \<in> roles pr
                  then set (parsed_demo_switchable_tenant_ids (settings env)) else {}) in
            bnd (query (\<lambda>w. sort_key ten_id
              (filter (\<lambda>x. ten_id x \<in> allowed \<and> ten_status x = ''ACTIVE'') (tenants w)))) (\<lambda>available.
            ret (ten, current, available))))))"

end
