(* ===== verification/System.thy ===== *)
theory System
  imports Workflow Worker Api
begin

text \<open>
  The running system: requests of authenticated principals, each in its transaction, and rounds of
  the outbox worker, in any order; between them time passes and the external systems change.
\<close>

datatype mutation =
    CreateInspection form string "string option" string "string option"
  | ClaimReview string int
  | DecideReview string ReviewDecisionRequest
  | IncidentAction string IncidentActionRequest string
  | ReplayAction string string
  | CloseIncident string CloseIncidentRequest
  | Heartbeat GatewayHeartbeatRequest
  | CreateDeployment DeploymentCreateRequest
  | ActivateDeployment string string
  | CreateQualification QualificationCreateRequest
  | EvaluateQualification string string
  | ApproveQualification string string
  | ActivateQualification string string
  | RetireQualification string string
  | RollbackQualification string string
  | SwitchTenant string
  | RegisterDataset DatasetRegistrationRequest
  | UploadDataset "string + DatasetRegistrationRequest" string "string option"
  | RevokeDataset string string

definition drop_result :: "'a svc \<Rightarrow> unit svc" where
  "drop_result m = bnd m (\<lambda>_. ret ())"

fun serve :: "env \<Rightarrow> Principal \<Rightarrow> string \<Rightarrow> mutation \<Rightarrow> unit svc" where
  "serve env pr corr (CreateInspection ff upload ct k gw) =
     drop_result (api_create_inspection env id pr corr ff upload ct k gw)"
| "serve env pr corr (ClaimReview i v) = drop_result (api_claim_review env pr corr i v)"
| "serve env pr corr (DecideReview i r) = drop_result (api_decide_review env pr corr i r)"
| "serve env pr corr (IncidentAction i r k) = drop_result (api_incident_action env pr corr i r k)"
| "serve env pr corr (ReplayAction i reason) = drop_result (api_replay_action env pr corr i reason)"
| "serve env pr corr (CloseIncident i r) = drop_result (api_close_incident env pr corr i r)"
| "serve env pr corr (Heartbeat r) = drop_result (api_heartbeat env pr corr r)"
| "serve env pr corr (CreateDeployment r) = drop_result (api_create_deployment env pr corr r)"
| "serve env pr corr (ActivateDeployment i reason) = drop_result (api_activate_deployment env pr corr i reason)"
| "serve env pr corr (CreateQualification r) = drop_result (api_create_qualification env pr corr r)"
| "serve env pr corr (EvaluateQualification i reason) = drop_result (api_evaluate_qualification env pr corr i reason)"
| "serve env pr corr (ApproveQualification i reason) = drop_result (api_approve_qualification env pr corr i reason)"
| "serve env pr corr (ActivateQualification i reason) = drop_result (api_activate_qualification env pr corr i reason)"
| "serve env pr corr (RetireQualification i reason) = drop_result (api_retire_qualification env pr corr i reason)"
| "serve env pr corr (RollbackQualification i reason) = drop_result (api_rollback_qualification env pr corr i reason)"
| "serve env pr corr (SwitchTenant i) = drop_result (api_switch_tenant env pr corr i)"
| "serve env pr corr (RegisterDataset r) = drop_result (api_create_dataset_registration env pr corr r)"
| "serve env pr corr (UploadDataset parsed data filename) =
     drop_result (api_upload_dataset_registration env pr corr parsed data filename)"
| "serve env pr corr (RevokeDataset i reason) = drop_result (api_revoke_dataset_registration env pr corr i reason)"

definition request :: "env \<Rightarrow> Principal \<Rightarrow> string \<Rightarrow> mutation \<Rightarrow> unit svc" where
  "request env pr corr m = transaction (serve env pr corr m)"

text \<open>Each step has an environment of its own: between two steps the model, the settings and the
  answers of the libraries may change.\<close>

inductive step :: "world \<Rightarrow> world \<Rightarrow> bool" where
  served: "tenant_id pr \<noteq> [] \<Longrightarrow> step w (snd (request env pr corr m w))"
| worked: "step w (worker_round env w)"
| passed: "step w (w\<lparr>clock := now, remote_systems := systems\<rparr>)"

inductive_cases stepE: "step w w'"

inductive reachable :: "world \<Rightarrow> world \<Rightarrow> bool" for start where
  started: "reachable start start"
| stepped: "reachable start w \<Longrightarrow> step w w' \<Longrightarrow> reachable start w'"

section \<open>Every endpoint and the worker keep a frame\<close>

context release_frame
begin

lemma keeps_guarded: "keeps R m \<Longrightarrow> keeps R (guarded allowed pr m)"
  unfolding guarded_def by (intro keeps_bnd keeps_lift_result)

lemma keeps_valid_body: "keeps R m \<Longrightarrow> keeps R (valid_body v m)"
  unfolding valid_body_def by (intro keeps_sum keeps_throw)

lemma keeps_review_task_response: "keeps R (review_task_response k)"
  unfolding review_task_response_def Let_def by (intro keeps_intros)

lemma keeps_get_external_action: "keeps R (get_external_action tid xid)"
  unfolding get_external_action_def by (intro keeps_intros)

lemma keeps_context: "keeps R (context_from_fields env pr ff)"
  unfolding context_from_fields_def
  by (intro keeps_intros keeps_active_deployment keeps_deployment_manifest keeps_lift_result)

lemma keeps_drop_result: "keeps R m \<Longrightarrow> keeps R (drop_result m)"
  unfolding drop_result_def by (intro keeps_bnd keeps_ret)

lemma keeps_switch_tenant:
  assumes "tenant_id pr = t"
  shows "keeps R (api_switch_tenant env pr corr target)"
  unfolding api_switch_tenant_def assms by (intro keeps_guarded keeps_valid_body keeps_intros)

lemma keeps_serve:
  assumes "tenant_id pr = t" "t \<noteq> []"
  shows "keeps R (serve env pr corr m)"
  by (cases m; simp only: serve.simps api_create_inspection_def api_claim_review_def api_decide_review_def
      api_incident_action_def api_replay_action_def api_close_incident_def api_heartbeat_def
      api_create_deployment_def api_activate_deployment_def api_create_qualification_def
      api_evaluate_qualification_def api_approve_qualification_def api_activate_qualification_def
      api_retire_qualification_def api_rollback_qualification_def api_create_dataset_registration_def
      api_revoke_dataset_registration_def api_upload_dataset_registration_def;
    intro keeps_drop_result keeps_guarded keeps_valid_body keeps_if keeps_throw keeps_bnd keeps_ret keeps_context
      keeps_create_inspection keeps_claim keeps_review_task_response keeps_review_decision
      keeps_request_incident_action keeps_get_external_action keeps_replay keeps_close keeps_heartbeat
      keeps_create_deployment keeps_deployment_manifest keeps_activate_deployment keeps_create_qualification
      keeps_qualification_steps keeps_switch_tenant keeps_sum keeps_register_dataset keeps_register_upload
      keeps_revoke_dataset; simp add: assms R_refl)

lemma keeps_process_event:
  assumes "evt_tenant e = t"
  shows "keeps R (process_event env e)"
proof -
  have "ext_tenant a = t" if "returns (fetch external_actions (is_action (evt_aggregate_id e) t)) (Some a)" for a
    using returns_fetch_Some [OF that] by (simp add: is_action_def)
  then show ?thesis
    unfolding process_event_def dispatch_event_def finish_event_def fail_event_def assms
    by (intro keeps_intros keeps_process_inference; simp add: keeps_execute_external_action)
qed

end

text \<open>A relation that every handler of every tenant keeps, that the two ends of a transaction and the
  passing of time keep, relates the start to every reachable store.\<close>

locale system_frame =
  fixes R :: "world \<Rightarrow> world \<Rightarrow> bool" and ok_target :: "InspectionStatus \<Rightarrow> bool"
  assumes handlers: "release_frame t R ok_target"
    and R_settle: "R w (settle w)"
    and R_rollback: "R w w' \<Longrightarrow> R w (rollback w w')"
    and R_passed: "R w (w\<lparr>clock := now, remote_systems := systems\<rparr>)"
begin

lemma store: "store_frame t R ok_target"
  using handlers by (simp add: release_frame_def workflow_frame_def)

lemmas transitive = store_frame.R_trans [OF store]
lemmas reflexive = store_frame.R_refl [OF store]

lemma R_transaction: "keeps R m \<Longrightarrow> R w (snd (transaction m w))"
  unfolding transaction_def
  by (auto split: prod.split sum.split dest: keepsD intro: transitive R_settle R_rollback)

lemma R_worker: "R w (worker_round env w)"
proof (cases "next_event w")
  case None
  then show ?thesis by (simp add: worker_round_def transaction_def process_one_outbox_def bnd_def R_settle)
next
  case (Some e)
  let ?m = "andthen (process_event env e) (ret True)"
  have "keeps R ?m"
    by (intro store_frame.keeps_andthen [OF store] store_frame.keeps_ret [OF store]
        release_frame.keeps_process_event [OF handlers]) (rule refl)
  then have "R w (snd (transaction ?m w))" by (rule R_transaction)
  moreover have "worker_round env w = snd (transaction ?m w)"
    using Some by (simp add: worker_round_def transaction_def process_one_outbox_def bnd_def)
  ultimately show ?thesis by simp
qed

lemma R_step: "step w w' \<Longrightarrow> R w w'"
proof (erule stepE)
  fix pr env corr m
  assume "tenant_id pr \<noteq> []" "w' = snd (request env pr corr m w)"
  then show "R w w'"
    unfolding request_def
    using R_transaction [OF release_frame.keeps_serve [OF handlers refl]] by simp
qed (simp_all add: R_worker R_passed)

lemma R_reachable: "reachable start w \<Longrightarrow> R start w"
  by (induction rule: reachable.induct) (auto intro: reflexive transitive R_step)

end

end
