(* ===== verification/Isolation.thy ===== *)
theory Isolation
  imports System
begin

text \<open>
  Tenant isolation of the inspection workflow: a request of one tenant leaves every row of every
  other tenant as it was.
\<close>

text \<open>What the store holds of a tenant.\<close>

definition same_rows :: "string \<Rightarrow> world \<Rightarrow> world \<Rightarrow> bool" where
  "same_rows u w w' \<longleftrightarrow>
     filter (\<lambda>r. gwy_tenant r = u) (edge_gateways w') = filter (\<lambda>r. gwy_tenant r = u) (edge_gateways w) \<and>
     filter (\<lambda>r. dep_tenant r = u) (deployment_packs w') = filter (\<lambda>r. dep_tenant r = u) (deployment_packs w) \<and>
     filter (\<lambda>r. mq_tenant r = u) (model_qualifications w') = filter (\<lambda>r. mq_tenant r = u) (model_qualifications w) \<and>
     filter (\<lambda>r. ds_tenant r = u) (dataset_registrations w') = filter (\<lambda>r. ds_tenant r = u) (dataset_registrations w) \<and>
     filter (\<lambda>r. insp_tenant r = u) (inspections w') = filter (\<lambda>r. insp_tenant r = u) (inspections w) \<and>
     filter (\<lambda>r. img_tenant r = u) (image_assets w') = filter (\<lambda>r. img_tenant r = u) (image_assets w) \<and>
     filter (\<lambda>r. inf_tenant r = u) (inference_results w') = filter (\<lambda>r. inf_tenant r = u) (inference_results w) \<and>
     filter (\<lambda>r. pol_tenant r = u) (policy_decisions w') = filter (\<lambda>r. pol_tenant r = u) (policy_decisions w) \<and>
     filter (\<lambda>r. rev_tenant r = u) (review_tasks w') = filter (\<lambda>r. rev_tenant r = u) (review_tasks w) \<and>
     filter (\<lambda>r. rdec_tenant r = u) (review_decisions w') = filter (\<lambda>r. rdec_tenant r = u) (review_decisions w) \<and>
     filter (\<lambda>r. inc_tenant r = u) (quality_incidents w') = filter (\<lambda>r. inc_tenant r = u) (quality_incidents w) \<and>
     filter (\<lambda>r. ext_tenant r = u) (external_actions w') = filter (\<lambda>r. ext_tenant r = u) (external_actions w) \<and>
     filter (\<lambda>r. trn_tenant r = u) (state_transitions w') = filter (\<lambda>r. trn_tenant r = u) (state_transitions w) \<and>
     filter (\<lambda>r. aud_tenant r = u) (audit_events w') = filter (\<lambda>r. aud_tenant r = u) (audit_events w) \<and>
     filter (\<lambda>r. aud_tenant r = u) (side_audits w') = filter (\<lambda>r. aud_tenant r = u) (side_audits w) \<and>
     filter (\<lambda>r. evt_tenant r = u) (outbox_events w') = filter (\<lambda>r. evt_tenant r = u) (outbox_events w) \<and>
     tenants w' = tenants w"

text \<open>The bookkeeping of the outbox finds the event of an external action by the action's id alone, without a
  tenant. It stays inside the tenant because the ids of the actions are unique and each event that asks
  for an action names one of its own tenant.\<close>

definition owned_events :: "world \<Rightarrow> bool" where
  "owned_events w \<longleftrightarrow> distinct (map ext_id (external_actions w)) \<and>
     (\<forall>e \<in> set (outbox_events w). evt_topic e = ''external_action.requested'' \<longrightarrow>
        (\<exists>x \<in> set (external_actions w). is_action (evt_aggregate_id e) (evt_tenant e) x))"

abbreviation keeps_owned :: "world \<Rightarrow> world \<Rightarrow> bool" where
  "keeps_owned w w' \<equiv> owned_events w \<longrightarrow> owned_events w'"

lemma owned_frame:
  assumes "map action_identity (external_actions w') = map action_identity (external_actions w)"
    "map event_identity (outbox_events w') = map event_identity (outbox_events w)"
  shows "keeps_owned w w'"
proof
  assume own: "owned_events w"
  define ids where "ids = (\<lambda>w :: world. set (map action_identity (external_actions w)))"
  define evs where "evs = (\<lambda>w :: world. set (map event_identity (outbox_events w)))"
  have owned: "owned_events v \<longleftrightarrow> distinct (map ext_id (external_actions v)) \<and>
      (\<forall>y \<in> evs v. fst (snd (snd y)) = ''external_action.requested'' \<longrightarrow>
         (\<exists>z \<in> ids v. fst z = snd (snd (snd y)) \<and> fst (snd z) = fst (snd y)))" for v
    by (simp add: owned_events_def ids_def evs_def is_action_def)
  have "map ext_id (external_actions w') = map ext_id (external_actions w)"
    using arg_cong [OF assms(1), of "map fst"] by (simp add: comp_def)
  moreover have "ids w' = ids w" "evs w' = evs w"
    unfolding ids_def evs_def assms by (rule refl)+
  ultimately show "owned_events w'"
    using own unfolding owned by simp
qed

text \<open>An event found by the id of an action is one of the action's tenant.\<close>

lemma owned_tenant:
  assumes "owned_events w" "e \<in> set (outbox_events w)" "evt_topic e = ''external_action.requested''"
    "x \<in> set (external_actions w)" "is_action (evt_aggregate_id e) t x"
  shows "evt_tenant e = t"
proof -
  obtain y where y: "y \<in> set (external_actions w)" "is_action (evt_aggregate_id e) (evt_tenant e) y"
    using assms(1-3) unfolding owned_events_def by blast
  then have "ext_id y = ext_id x" using assms(5) by (simp add: is_action_def)
  then have "y = x" using assms(1,4) y(1) by (auto simp: owned_events_def distinct_map inj_on_def)
  then show ?thesis using y(2) assms(5) by (simp add: is_action_def)
qed

lemma owned_action_added:
  assumes "\<forall>x \<in> set (external_actions w). ext_id x \<noteq> ext_id x'"
  shows "keeps_owned w (external_actions_update (\<lambda>rows. rows @ [x']) w)"
  using assms by (auto simp: owned_events_def)

lemma owned_event_added:
  assumes "evt_topic ev = ''external_action.requested'' \<Longrightarrow>
     \<exists>x \<in> set (external_actions w). is_action (evt_aggregate_id ev) (evt_tenant ev) x"
  shows "keeps_owned w (outbox_events_update (\<lambda>rows. rows @ [ev]) w)"
  using assms by (auto simp: owned_events_def)

lemma owned_updates:
  shows "(\<And>x. action_identity (q x) = action_identity x) \<Longrightarrow> keeps_owned w (snd (update_action xid t q w))"
    and "(\<And>r. event_identity (e r) = event_identity r) \<Longrightarrow> keeps_owned w (snd (update_event eid etid e w))"
  by (rule owned_frame; simp add: update_action_def update_event_def map_update_where del: action_identity_def event_identity_def)+

text \<open>The frame of a tenant: what the others hold, and the ownership of the events.\<close>

definition isolated :: "string \<Rightarrow> world \<Rightarrow> world \<Rightarrow> bool" where
  "isolated t w w' \<longleftrightarrow> (owned_events w \<longrightarrow> owned_events w' \<and> (\<forall>u. t \<noteq> u \<longrightarrow> same_rows u w w'))"

lemma isolatedI: "keeps_owned w w' \<Longrightarrow> (\<And>u. t \<noteq> u \<Longrightarrow> same_rows u w w') \<Longrightarrow> isolated t w w'"
  by (simp add: isolated_def)

lemma same_rows_refl: "same_rows u w w"
  by (simp add: same_rows_def)

lemma same_rows_trans: "same_rows u w w' \<Longrightarrow> same_rows u w' w'' \<Longrightarrow> same_rows u w w''"
  by (simp add: same_rows_def)

lemma audit_row_tenant [simp]:
  "aud_tenant (audit_row env aid now tid actor action tt ti corr payload) = tid"
  by (simp add: audit_row_def canonical_payload_def Let_def)

lemma filter_other:
  shows "tid \<noteq> u \<Longrightarrow> (\<And>r. insp_tenant (f r) = insp_tenant r) \<Longrightarrow>
      filter (\<lambda>r. insp_tenant r = u) (update_where (is_inspection iid tid) f irs) = filter (\<lambda>r. insp_tenant r = u) irs"
    and "tid \<noteq> u \<Longrightarrow> (\<And>r. inc_tenant (g r) = inc_tenant r) \<Longrightarrow>
      filter (\<lambda>r. inc_tenant r = u) (update_where (is_incident cid tid) g crs) = filter (\<lambda>r. inc_tenant r = u) crs"
    and "tid \<noteq> u \<Longrightarrow> (\<And>r. ext_tenant (h r) = ext_tenant r) \<Longrightarrow>
      filter (\<lambda>r. ext_tenant r = u) (update_where (is_action xid tid) h ers) = filter (\<lambda>r. ext_tenant r = u) ers"
    and "tid \<noteq> u \<Longrightarrow> (\<And>r. gwy_tenant (gu r) = gwy_tenant r) \<Longrightarrow>
      filter (\<lambda>r. gwy_tenant r = u) (update_where (is_gateway gid tid) gu grs) = filter (\<lambda>r. gwy_tenant r = u) grs"
    and "tid \<noteq> u \<Longrightarrow> (\<And>r. dep_tenant (du r) = dep_tenant r) \<Longrightarrow>
      filter (\<lambda>r. dep_tenant r = u) (update_where (is_deployment did tid) du drs) = filter (\<lambda>r. dep_tenant r = u) drs"
    and "tid \<noteq> u \<Longrightarrow> (\<And>r. mq_tenant (qu r) = mq_tenant r) \<Longrightarrow>
      filter (\<lambda>r. mq_tenant r = u) (update_where (is_qualification qid tid) qu qrs) = filter (\<lambda>r. mq_tenant r = u) qrs"
    and "tid \<noteq> u \<Longrightarrow> (\<And>r. ds_tenant (dsu r) = ds_tenant r) \<Longrightarrow>
      filter (\<lambda>r. ds_tenant r = u) (update_where (is_dataset did tid) dsu dsrs) = filter (\<lambda>r. ds_tenant r = u) dsrs"
    and "tid \<noteq> u \<Longrightarrow> (\<And>r. event_identity (eu r) = event_identity r) \<Longrightarrow>
      filter (\<lambda>r. evt_tenant r = u) (update_where (is_event eid tid) eu ers') = filter (\<lambda>r. evt_tenant r = u) ers'"
    and "(\<And>r. P r \<Longrightarrow> rev_tenant r \<noteq> u \<and> rev_tenant (k r) \<noteq> u) \<Longrightarrow>
      filter (\<lambda>r. rev_tenant r = u) (update_where P k rrs) = filter (\<lambda>r. rev_tenant r = u) rrs"
  by (rule filter_update_where_frame; auto simp: is_inspection_def is_incident_def is_action_def is_gateway_def
      is_deployment_def is_qualification_def is_dataset_def is_event_def)+

lemma same_rows_transitioned:
  assumes "tid \<noteq> u" "insp_tenant i = tid"
  shows "same_rows u w (transitioned env i iid tid target actor reason corr w)"
  using assms by (simp add: same_rows_def transitioned_def Let_def transition_row_def
      filter_other)

lemma dataset_identity_tenant: "dataset_identity x = dataset_identity y \<Longrightarrow> ds_tenant x = ds_tenant y"
  by (auto simp: dataset_identity_def dest: arg_cong [where f = ds_tenant])

interpretation isolation_store: plain_frame t "isolated t" for t
proof
  show "isolated t w w''" if "isolated t w w'" "isolated t w' w''" for w w' w''
    using that by (auto simp: isolated_def intro: same_rows_trans)
  show "isolated t w (snd (transition_inspection env iid t target actor reason corr w))"
    for w env iid target actor reason corr
  proof (rule isolatedI)
    show "keeps_owned w (snd (transition_inspection env iid t target actor reason corr w))"
      by (cases rule: transition_outcome [of env iid t target actor reason corr w])
        (auto simp: transitioned_def owned_events_def Let_def)
    show "same_rows u w (snd (transition_inspection env iid t target actor reason corr w))" if "t \<noteq> u" for u
      using that by (cases rule: transition_outcome [of env iid t target actor reason corr w])
        (auto simp: same_rows_transitioned same_rows_refl dest: lookup_inspectionD)
  qed
  show "isolated t w (snd (add_inspection mk w))"
    if "\<And>iid. insp_tenant (mk iid) = t \<and> insp_id (mk iid) = iid \<and> insp_status (mk iid) = RECEIVED" for mk w
    using that by (intro isolatedI) (simp_all add: same_rows_def add_inspection_eq owned_events_def Let_def)
  show "isolated t w (snd (update_dataset did t dsu w))"
    if "\<And>x. dataset_identity (dsu x) = dataset_identity x \<and> ds_status (dsu x) = ''REVOKED''" for did dsu w
  proof -
    have "ds_tenant (dsu x) = ds_tenant x" for x
      using that [of x] by (blast intro: dataset_identity_tenant)
    then show ?thesis
      by (intro isolatedI) (simp_all add: same_rows_def update_dataset_def filter_other owned_events_def)
  qed
  show "isolated t w (external_actions_update (\<lambda>rows. rows @ [x']) w)"
    if "ext_tenant x' = t" "\<forall>x \<in> set (external_actions w). ext_id x \<noteq> ext_id x' \<and>
       \<not> (ext_tenant x = ext_tenant x' \<and> ext_idempotency_key x = ext_idempotency_key x')" for x' w
    using that by (intro isolatedI owned_action_added) (simp_all add: same_rows_def)
  show "isolated t w (outbox_events_update (\<lambda>rows. rows @ [ev]) w)"
    if "evt_tenant ev = t" "evt_topic ev = ''external_action.requested'' \<Longrightarrow>
       \<exists>x \<in> set (external_actions w). is_action (evt_aggregate_id ev) t x" for ev w
    using that by (intro isolatedI owned_event_added) (simp_all add: same_rows_def)
  show "isolated t w (snd (update_action xid t q w))"
    if "\<And>x. action_identity (q x) = action_identity x" for xid q w
    using that by (intro isolatedI owned_updates) (simp_all add: same_rows_def update_action_def filter_other)
  show "isolated t w (snd (update_event eid etid e w))"
    if same: "\<And>r. event_identity (e r) = event_identity r"
      and mine: "etid = t \<or> (\<exists>ev \<in> set (outbox_events w). \<exists>x \<in> set (external_actions w). evt_tenant ev = etid \<and>
        evt_topic ev = ''external_action.requested'' \<and> is_action (evt_aggregate_id ev) t x)" for eid etid e w
  proof -
    have "etid = t" if "owned_events w"
      using mine owned_tenant [OF that] by blast
    then have "same_rows u w (snd (update_event eid etid e w))" if "owned_events w" "t \<noteq> u" for u
      using that same by (simp add: same_rows_def update_event_def filter_other)
    then show ?thesis
      using owned_updates(2) [OF same] by (simp add: isolated_def)
  qed
qed (auto simp: isolated_def owned_events_def same_rows_def set_failure_reason_def update_incident_def
      update_gateway_def update_deployment_def update_qualification_def filter_other)

text \<open>Every event that asks for an action names one of its own tenant, in every reachable store.\<close>

interpretation owned_store: plain_frame t keeps_owned for t
proof
  show "keeps_owned w (snd (transition_inspection env iid t target actor reason corr w))"
    for w env iid target actor reason corr
    by (cases rule: transition_outcome [of env iid t target actor reason corr w])
      (auto simp: transitioned_def owned_events_def Let_def)
  show "keeps_owned w (snd (add_inspection mk w))" for mk w
    by (simp add: add_inspection_eq owned_events_def Let_def)
  show "keeps_owned w (external_actions_update (\<lambda>rows. rows @ [x']) w)"
    if "\<forall>x \<in> set (external_actions w). ext_id x \<noteq> ext_id x' \<and>
       \<not> (ext_tenant x = ext_tenant x' \<and> ext_idempotency_key x = ext_idempotency_key x')" for x' w
    using that by (intro owned_action_added) simp
  show "keeps_owned w (outbox_events_update (\<lambda>rows. rows @ [ev]) w)"
    if "evt_tenant ev = t" "evt_topic ev = ''external_action.requested'' \<Longrightarrow>
       \<exists>x \<in> set (external_actions w). is_action (evt_aggregate_id ev) t x" for ev w
    using that by (intro owned_event_added) simp
  show "keeps_owned w (snd (update_action xid t q w))"
    if "\<And>x. action_identity (q x) = action_identity x" for xid q w
    using that by (rule owned_updates)
  show "keeps_owned w (snd (update_event eid etid e w))"
    if "\<And>r. event_identity (e r) = event_identity r" for eid etid e w
    using that by (rule owned_updates)
qed (auto simp: owned_events_def set_failure_reason_def update_incident_def update_gateway_def
      update_deployment_def update_qualification_def update_dataset_def)

interpretation owned: system_frame keeps_owned "\<lambda>_. True"
  by unfold_locales (simp_all add: owned_events_def settle_def rollback_def)

lemma reachable_owned: "owned_events start \<Longrightarrow> reachable start w \<Longrightarrow> owned_events w"
  using owned.R_reachable by blast

text \<open>A transaction that starts with no pending side rows keeps the isolation, commit or rollback.\<close>

lemma isolated_transaction:
  assumes "keeps (isolated t) m" "side_audits w = []"
  shows "isolated t w (snd (transaction m w))"
proof -
  have "isolated t w (snd (m w))" using assms(1) by (simp add: keeps_def)
  then show ?thesis
    using assms(2)
    by (auto simp: transaction_def isolated_def same_rows_def owned_events_def settle_def rollback_def
        split: prod.split sum.split)
qed

section \<open>Requests and the worker\<close>

text \<open>C1. Tenant isolation: whatever a principal of one tenant sends to any of the mutating endpoints,
  and whether the handler returns or raises, every row of every other tenant (inspections, images,
  results, policy decisions, review tasks and decisions, incidents, external actions, transitions,
  audit events, outbox events, gateways, packs, qualifications, datasets) is left exactly as it was, and
  so are the tenants themselves. The store is one where each outbox event that asks for an external
  action names an action of its own tenant, and the request keeps that; every reachable store is one
  (\<open>reachable_owned\<close>).\<close>

theorem tenant_isolation:
  assumes "tenant_id pr \<noteq> []" "side_audits w = []" "owned_events w" "u \<noteq> tenant_id pr"
  shows "same_rows u w (snd (request env pr corr m w)) \<and> owned_events (snd (request env pr corr m w))"
proof -
  have "isolated (tenant_id pr) w (snd (request env pr corr m w))"
    unfolding request_def using isolation_store.keeps_serve [OF refl assms(1)] assms(2) by (rule isolated_transaction)
  with assms(3,4) show ?thesis by (simp add: isolated_def)
qed

definition foreign_task :: ReviewTask where
  "foreign_task = \<lparr>rev_id = ''rev_9'', rev_tenant = ''t2'', rev_inspection_id = ''insp_9'',
     rev_status = ''OPEN'', rev_assignee = None, rev_sla_at = None, rev_version = 1, rev_created_at = 0\<rparr>"

definition foreign_action :: ExternalAction where
  "foreign_action = \<lparr>ext_id = ''ext_9'', ext_tenant = ''t2'', ext_incident_id = ''inc_9'', ext_connector = ''MES'',
     ext_operation = ''hold'', ext_idempotency_key = ''k'', ext_request_summary = JNull, ext_response_summary = None,
     ext_external_reference = None, ext_status = EA_PENDING, ext_attempts = 0, ext_last_error = None,
     ext_created_at = 0\<rparr>"

definition requested_event :: OutboxEvent where
  "requested_event = \<lparr>evt_id = ''evt_8'', evt_tenant = ''t2'', evt_topic = ''external_action.requested'',
     evt_aggregate_id = ''ext_9'', evt_correlation_id = ''c'', evt_payload = JNull, evt_status = ''PENDING'',
     evt_attempts = 0, evt_available_at = 0, evt_processed_at = None, evt_last_error = None, evt_created_at = 0\<rparr>"

definition two_tenants :: world where
  "two_tenants = example_world\<lparr>review_tasks := [foreign_task], external_actions := [foreign_action],
     outbox_events := [requested_event]\<rparr>"

lemma two_tenants_owned: "owned_events two_tenants"
  by (simp add: owned_events_def two_tenants_def foreign_action_def requested_event_def is_action_def)

lemma tenant_isolation_witness:
  "same_rows ''t2'' two_tenants (snd (request (example_env 0) inspector ''c'' (ClaimReview ''rev_9'' 1) two_tenants)) \<and>
   owned_events (snd (request (example_env 0) inspector ''c'' (ClaimReview ''rev_9'' 1) two_tenants))"
  by (rule tenant_isolation [OF _ _ two_tenants_owned])
    (simp_all add: inspector_def two_tenants_def example_world_def empty_world_def)

text \<open>The worker works for one tenant at a time: a round that picks an event of one tenant
  leaves every row of every other tenant as it was, also when the handler of the event raises and the
  round is rolled back.\<close>

theorem worker_isolation:
  assumes "side_audits w = []" "owned_events w" "\<And>e. next_event w = Some e \<Longrightarrow> evt_tenant e \<noteq> u"
  shows "same_rows u w (worker_round env w)"
proof (cases "next_event w")
  case None
  then show ?thesis
    using assms(1) by (simp add: worker_round_def transaction_def process_one_outbox_def bnd_def settle_def same_rows_def)
next
  case (Some e)
  let ?m = "andthen (process_event env e) (ret True)"
  have "keeps (isolated (evt_tenant e)) ?m"
    by (intro isolation_store.keeps_andthen isolation_store.keeps_process_event isolation_store.keeps_ret) (rule refl)
  then have "isolated (evt_tenant e) w (snd (transaction ?m w))"
    using assms(1) by (rule isolated_transaction)
  moreover have "worker_round env w = snd (transaction ?m w)"
    using Some by (simp add: worker_round_def transaction_def process_one_outbox_def bnd_def)
  ultimately have "isolated (evt_tenant e) w (worker_round env w)" by simp
  with assms(2) assms(3) [OF Some] show ?thesis by (simp add: isolated_def)
qed

definition foreign_event :: OutboxEvent where
  "foreign_event = \<lparr>evt_id = ''evt_9'', evt_tenant = ''t1'', evt_topic = ''unknown'', evt_aggregate_id = ''x'',
     evt_correlation_id = ''c'', evt_payload = JNull, evt_status = ''PENDING'', evt_attempts = 0,
     evt_available_at = 0, evt_processed_at = None, evt_last_error = None, evt_created_at = 0\<rparr>"

lemma worker_isolation_witness:
  "let w = two_tenants\<lparr>outbox_events := [foreign_event, requested_event]\<rparr> in
   same_rows ''t2'' w (worker_round (example_env 0) w)"
  unfolding Let_def
proof (rule worker_isolation)
  show "owned_events (two_tenants\<lparr>outbox_events := [foreign_event, requested_event]\<rparr>)"
    using two_tenants_owned by (simp add: owned_events_def two_tenants_def foreign_event_def)
qed (simp_all add: two_tenants_def example_world_def empty_world_def next_event_def foreign_event_def requested_event_def)

end
