(* ===== verification/History.thy ===== *)
theory History
  imports System Examples
begin

text \<open>
  The record of the service is append-only: no request, worker round or rollback removes or rewrites
  an audit event, a status transition, an image, a model result, a policy or review decision, a stored
  object, a completed review task, or what an inspection, an incident, an external action or a data set registration is about.
\<close>

definition tasks_kept :: "world \<Rightarrow> world \<Rightarrow> bool" where
  "tasks_kept w w' \<longleftrightarrow>
     (\<forall>k \<in> set (review_tasks w). rev_status k \<noteq> ''OPEN'' \<longrightarrow> k \<in> set (review_tasks w'))"

definition append_only :: "world \<Rightarrow> world \<Rightarrow> bool" where
  "append_only w w' \<longleftrightarrow>
     extends (audit_events w) (audit_events w') \<and>
     extends (state_transitions w) (state_transitions w') \<and>
     extends (image_assets w) (image_assets w') \<and>
     extends (inference_results w) (inference_results w') \<and>
     extends (policy_decisions w) (policy_decisions w') \<and>
     extends (review_decisions w) (review_decisions w') \<and>
     extends (objects w) (objects w') \<and>
     extends (map inspection_identity (inspections w)) (map inspection_identity (inspections w')) \<and>
     extends (map incident_identity (quality_incidents w)) (map incident_identity (quality_incidents w')) \<and>
     extends (map action_identity (external_actions w)) (map action_identity (external_actions w')) \<and>
     extends (map dataset_identity (dataset_registrations w)) (map dataset_identity (dataset_registrations w')) \<and>
     tasks_kept w w'"

lemma extends_appended [simp]: "extends l (l @ l')"
  by (auto simp: extends_iff)

lemma tasks_kept_refl [simp]: "review_tasks w' = review_tasks w \<Longrightarrow> tasks_kept w w'"
  by (simp add: tasks_kept_def)

lemma append_only_refl: "append_only w w"
  by (simp add: append_only_def)

lemma append_only_trans: "append_only w w' \<Longrightarrow> append_only w' w'' \<Longrightarrow> append_only w w''"
  unfolding append_only_def tasks_kept_def by (intro conjI) (meson extends_trans | blast)+

lemma inspection_identity_updates [simp]:
  "inspection_identity (r\<lparr>insp_status := s\<rparr>) = inspection_identity r"
  "inspection_identity (r\<lparr>insp_failure_reason := m\<rparr>) = inspection_identity r"
  by (simp_all add: inspection_identity_def)

lemma append_only_transition:
  "append_only w (snd (transition_inspection env iid tid target actor reason corr w))"
  by (cases rule: transition_outcome [of env iid tid target actor reason corr w])
    (auto simp: append_only_refl append_only_def transitioned_def Let_def)

lemma append_only_task_update:
  assumes "\<And>k. P k \<Longrightarrow> rev_status k = ''OPEN''"
  shows "append_only w (review_tasks_update (update_where P g) w)"
  using assms by (auto simp: append_only_def tasks_kept_def set_update_where intro!: image_eqI)

interpretation history_store: plain_frame t append_only for t
proof
  show "append_only w w''" if "append_only w w'" "append_only w' w''" for w w' w''
    using that by (rule append_only_trans)
  show "append_only w (review_tasks_update (update_where P g) w)"
    if "\<And>k. P k \<Longrightarrow> rev_tenant k = t \<and> rev_status k = ''OPEN'' \<and> rev_tenant (g k) = t \<and> rev_id (g k) = rev_id k \<and>
          rev_inspection_id (g k) = rev_inspection_id k" for P g w
    using that by (intro append_only_task_update) blast
  show "append_only w (snd (add_inspection mk w))" for mk w
    by (simp add: append_only_def add_inspection_eq Let_def)
  show "append_only w (snd (transition_inspection env iid t target actor reason corr w))"
    for w env iid target actor reason corr by (rule append_only_transition)
qed (simp_all add: append_only_def tasks_kept_def set_failure_reason_def
      update_incident_def update_action_def update_event_def update_gateway_def update_deployment_def
      update_qualification_def update_dataset_def del: incident_identity_def action_identity_def)

interpretation history: system_frame append_only "\<lambda>_. True"
  by unfold_locales (simp_all add: append_only_def tasks_kept_def settle_def rollback_def)

text \<open>C6. The record is append-only in every reachable store: whatever requests are served, in
  whatever order and for whatever tenants, and whatever the worker does between them, the audit events,
  status transitions, images, results, policy decisions and review decisions of an earlier moment are a
  prefix of the later ones, stored objects keep their content, completed review tasks stay as they are,
  and inspections, incidents, actions and data set registrations keep everything but their status fields.\<close>

theorem record_append_only:
  assumes "reachable start w"
  shows "append_only start w"
  using assms by (rule history.R_reachable)

lemma record_append_only_witness:
  "append_only example_world (snd (request (example_env 0) inspector ''c'' (ClaimReview ''r'' 1) example_world))"
  by (rule record_append_only, rule stepped, rule started, rule served) (simp add: inspector_def)

end
