(* ===== verification/Runs.thy ===== *)
theory Runs
  imports System Examples
begin

text \<open>
  Concrete runs of the workflow on the example store, evaluated step by step: an image that is
  released automatically and one that goes to review. The witnesses of the properties use them.
\<close>

named_theorems run_simps \<open>evaluation of a handler on a concrete store\<close>

lemma bnd_eval [run_simps]: "bnd m k w = (case m w of (Inl e, w') \<Rightarrow> (Inl e, w') | (Inr a, w') \<Rightarrow> k a w')"
  by (simp add: bnd_def)

lemma try_catch_eval [run_simps]:
  "try_catch m h w = (case m w of (Inl e, w') \<Rightarrow> h e w' | (Inr a, w') \<Rightarrow> (Inr a, w'))"
  by (simp add: try_catch_def)

lemma andthen_eval [run_simps]: "andthen m k w = (case m w of (Inl e, w') \<Rightarrow> (Inl e, w') | (Inr a, w') \<Rightarrow> k w')"
  by (simp add: andthen_def bnd_def)

lemma fresh_id_eval [run_simps]: "fresh_id pfx w = (Inr (new_id pfx (draws w)), w\<lparr>draws := Suc (draws w)\<rparr>)"
  by (simp add: fresh_id_def)

lemma env_eval [run_simps]:
  "settings (example_env s) = example_settings" "sha256 (example_env s) d = d"
  "decode_image (example_env s) d = Decoded ''PNG'' 4 4"
  "infer (example_env s) d = Inr (example_output s)"
  "process_inline example_settings" "max_upload_bytes example_settings = 100"
  "max_image_pixels example_settings = 1000"
  "mo_score (example_output s) = s" "mo_heatmap_png (example_output s) = ''heat''"
  by (simp_all add: example_env_def example_settings_def example_output_def)

lemma pack_eval [run_simps]:
  "dep_id example_pack = ''dep_0''" "dep_tenant example_pack = ''t1''" "dep_status example_pack = ''ACTIVE''"
  "deployment_manifest example_pack w = (Inr example_manifest, w)"
  by (simp_all add: example_pack_def deployment_manifest_def valid_example_manifest)

lemma tenant_eval [run_simps]: "ten_id example_tenant = ''t1''" "ten_status example_tenant = ''ACTIVE''"
  by (simp_all add: example_tenant_def)

lemma principal_eval [run_simps]:
  "tenant_id inspector = ''t1''" "actor_id inspector = ''inspector-1''" "roles inspector = {INSPECTOR}"
  "tenant_id manager = ''t1''" "actor_id manager = ''manager-1''" "roles manager = {QUALITY_MANAGER}"
  by (simp_all add: inspector_def manager_def)

definition example_image :: ValidatedImage where
  "example_image = \<lparr>vi_data = ''img'', vi_sha256 = ''img'', vi_mime_type = ''image/png'',
     vi_extension = ''png'', vi_width = 4, vi_height = 4\<rparr>"

definition example_context :: InspectionContext where
  "example_context = \<lparr>cx_product_code = ''P2'', cx_product_revision = None, cx_batch_no = ''B1'',
     cx_station_code = ''S1'', cx_captured_at = \<lparr>dt_iso = ''2024'', dt_time = 0\<rparr>, cx_source = ''api''\<rparr>"

lemma intake_eval [run_simps]:
  "validate_image (example_env s) ''img'' (Some ''image/png'') = Inr example_image"
  "build_context (example_env s) example_manifest example_form = Inr example_context"
  by code_simp+

lemma catalog_eval [run_simps]:
  "resolve_product example_manifest ''P2'' = None \<longleftrightarrow> False" "resolve_station example_manifest ''S1'' = None \<longleftrightarrow> False"
  by code_simp+

lemma keys_eval [run_simps]:
  "safe_key ''t1/originals/insp_0/img.png'' = Some ''t1/originals/insp_0/img.png''"
  "safe_key ''t1/heatmaps/insp_0/heat.png'' = Some ''t1/heatmaps/insp_0/heat.png''"
  "new_id ''insp'' 0 = ''insp_0''" "valid_key ''key-0001'' = Inr ()"
  by code_simp+

lemma guards_eval [run_simps]:
  "require_roles [INSPECTOR, QUALITY_MANAGER, ADMIN, EDGE_GATEWAY] inspector = Inr inspector"
  "require_roles [INSPECTOR, QUALITY_MANAGER] inspector = Inr inspector"
  "require_roles [QUALITY_MANAGER] manager = Inr manager"
  "require_roles [INSPECTOR, QUALITY_MANAGER] manager = Inr manager"
  by code_simp+

lemma fields_eval [run_simps]:
  "vi_data example_image = ''img''" "vi_sha256 example_image = ''img''" "vi_mime_type example_image = ''image/png''"
  "vi_extension example_image = ''png''" "vi_width example_image = 4" "vi_height example_image = 4"
  "cx_product_code example_context = ''P2''" "cx_product_revision example_context = None"
  "cx_batch_no example_context = ''B1''" "cx_station_code example_context = ''S1''"
  "dt_time (cx_captured_at example_context) = 0" "cx_source example_context = ''api''"
  by (simp_all add: example_image_def example_context_def)

lemma world_eval [run_simps]:
  "example_world = empty_world\<lparr>tenants := [example_tenant], deployment_packs := [example_pack],
     remote_systems := [(''MES'', InMemory (InMemoryConnector_init ''mes'')),
                        (''QMS'', InMemory (InMemoryConnector_init ''qms''))]\<rparr>"
  "empty_world = \<lparr>tenants = [], edge_gateways = [], deployment_packs = [], model_qualifications = [],
     dataset_registrations = [], inspections = [], image_assets = [], inference_results = [],
     policy_decisions = [], review_tasks = [], review_decisions = [], quality_incidents = [],
     external_actions = [], audit_events = [], state_transitions = [], outbox_events = [],
     side_audits = [], objects = [], remote_systems = [], draws = 0, clock = 0\<rparr>"
  by (simp_all add: example_world_def empty_world_def)

lemmas handler_simps = drop_result_def guarded_def valid_body_def lift_result_def context_from_fields_def
  active_deployment_def create_inspection_def new_inspection_def receive_inspection_def add_inspection_eq
  put_immutable_def insert_image_asset_def insert_row_def record_audit_def transition_inspection_eq
  lookup_inspection_def is_inspection_def transitioned_def legal_edge_def insert_outbox_event_def insert_action_event_def
  flush_action_def
  process_inference_def run_model_def is_deployment_def get_object_def insert_policy_decision_def
  insert_inference_result_def record_result_def route_result_def decide_policy_def inspection_response_def
  mark_inference_outbox_processed_def ensure_review_task_def insert_review_task_def review_of_def
  update_event_def is_event_def target_of_route_def same_request_def startswith_def

definition example_upload :: mutation where
  "example_upload = CreateInspection example_form ''img'' (Some ''image/png'') ''key-0001'' None"

lemma policy_eval [run_simps]: "policy example_manifest = example_policy" "policy_version example_policy = ''v1''"
  by (simp_all add: example_manifest_def legacy_manifest_value_def example_policy_def)

lemma resolve_eval [run_simps]: "resolve example_policy ''P2'' ''S1'' = Inr (policy_default example_policy)"
  by (simp add: resolve_reference [OF valid_example_policy] resolve_by_selector_def)
    (simp add: rule_for_def example_policy_def selector_def)

lemma thresholds_eval [run_simps]:
  "review_threshold (policy_default example_policy) = 1 / 2"
  "hold_threshold (policy_default example_policy) = 4 / 5"
  by (simp_all add: example_policy_def)

definition auto_run :: world where
  "auto_run = snd (request (example_env (1 / 10)) inspector ''c'' example_upload example_world)"

definition grey_run :: world where
  "grey_run = snd (request (example_env (3 / 5)) inspector ''c'' example_upload example_world)"

lemmas upload_simps = example_upload_def request_def transaction_def settle_def api_create_inspection_def
  run_simps handler_simps Let_def run_if_def evaluate_policy_def

lemma auto_run_eval:
  "map insp_id (inspections auto_run) = [''insp_0'']"
  "map insp_status (inspections auto_run) = [AUTO_RELEASED]"
  by (simp_all add: auto_run_def upload_simps)

lemma grey_run_eval:
  "map insp_id (inspections grey_run) = [''insp_0'']"
  "map insp_status (inspections grey_run) = [REVIEW_REQUIRED]"
  by (simp_all add: grey_run_def upload_simps)

lemma runs_reachable: "reachable example_world auto_run" "reachable example_world grey_run"
  unfolding auto_run_def grey_run_def
  by (rule stepped, rule started, rule served, simp add: run_simps)+

lemma example_world_empty: "inspections example_world = []" "state_transitions example_world = []"
  by (simp_all add: run_simps)

text \<open>The grey inspection, released by the inspector.\<close>

definition good_decision :: ReviewDecisionRequest where
  "good_decision = \<lparr>rq_expected_version = 1, rq_decision = GOOD, rq_reason = None, rq_notes = None,
     rq_confirmed = False, rq_model_feedback = None\<rparr>"

definition released_run :: world where
  "released_run = snd (request (example_env (3 / 5)) inspector ''c''
     (DecideReview (new_id ''rev'' 15) good_decision) grey_run)"

lemma released_reachable: "reachable example_world released_run"
  unfolding released_run_def
  by (rule stepped, rule runs_reachable(2), rule served) (simp add: run_simps)

lemma good_decision_eval [run_simps]: "validate_decision_request good_decision = Inr ()"
  "rq_expected_version good_decision = 1" "rq_decision good_decision = GOOD"
  by code_simp+

lemma released_run_eval: "map insp_status (inspections released_run) = [RELEASE_APPROVED]"
  by (simp add: released_run_def grey_run_def upload_simps api_decide_review_def decide_review_def
      complete_review_def is_task_def decidable_def high_risk_def decision_target_def count_where_def
      update_review_tasks_def insert_review_decision_def run_simps)

end
