(* ===== verification/Trail.thy ===== *)
theory Trail
  imports Runs History
begin

text \<open>
  The trail of an inspection: in every reachable store its recorded transitions are a path of the
  transition table from \<open>RECEIVED\<close> to its current status.
\<close>

section \<open>The invariant\<close>

definition transitions_of :: "world \<Rightarrow> string \<Rightarrow> StateTransition list" where
  "transitions_of w iid = filter (\<lambda>t. trn_entity_id t = iid) (state_transitions w)"

definition trail :: "world \<Rightarrow> string \<Rightarrow> InspectionStatus list" where
  "trail w iid = RECEIVED # map trn_to_state (transitions_of w iid)"

definition trail_ok :: "world \<Rightarrow> Inspection \<Rightarrow> bool" where
  "trail_ok w i \<longleftrightarrow>
     legal_path (trail w (insp_id i)) \<and> last (trail w (insp_id i)) = insp_status i \<and>
     map trn_from_state (transitions_of w (insp_id i)) = butlast (trail w (insp_id i)) \<and>
     (\<forall>tr \<in> set (transitions_of w (insp_id i)). trn_tenant tr = insp_tenant i)"

definition trails :: "world \<Rightarrow> bool" where
  "trails w \<longleftrightarrow>
     distinct (map insp_id (inspections w)) \<and>
     (\<forall>i \<in> set (inspections w). \<exists>n < draws w. insp_id i = new_id ''insp'' n) \<and>
     (\<forall>tr \<in> set (state_transitions w). trn_entity_id tr \<in> insp_id ` set (inspections w)) \<and>
     (\<forall>i \<in> set (inspections w). trail_ok w i)"

definition keeps_trails :: "world \<Rightarrow> world \<Rightarrow> bool" where
  "keeps_trails w w' \<longleftrightarrow> draws w \<le> draws w' \<and> (trails w \<longrightarrow> trails w')"

section \<open>Every primitive keeps it\<close>

lemma trailsI:
  assumes "distinct (map insp_id (inspections w))"
    and "\<And>i. i \<in> set (inspections w) \<Longrightarrow> \<exists>n < draws w. insp_id i = new_id ''insp'' n"
    and "\<And>tr. tr \<in> set (state_transitions w) \<Longrightarrow> trn_entity_id tr \<in> insp_id ` set (inspections w)"
    and "\<And>i. i \<in> set (inspections w) \<Longrightarrow> trail_ok w i"
  shows "trails w"
  using assms by (simp add: trails_def)

lemma trailsD:
  assumes "trails w"
  shows "distinct (map insp_id (inspections w))"
    and "i \<in> set (inspections w) \<Longrightarrow> \<exists>n < draws w. insp_id i = new_id ''insp'' n"
    and "tr \<in> set (state_transitions w) \<Longrightarrow> trn_entity_id tr \<in> insp_id ` set (inspections w)"
    and "i \<in> set (inspections w) \<Longrightarrow> trail_ok w i"
  using assms by (simp_all add: trails_def)

lemma trails_frame:
  assumes "inspections w' = map g (inspections w)"
    and g: "\<And>r. insp_id (g r) = insp_id r \<and> insp_status (g r) = insp_status r \<and> insp_tenant (g r) = insp_tenant r"
    and "state_transitions w' = state_transitions w" "draws w \<le> draws w'" "trails w"
  shows "trails w'"
proof -
  have "trail_ok w' (g i)" if "trail_ok w i" for i
    using that g [of i] assms(3) by (simp add: trail_ok_def trail_def transitions_of_def)
  moreover have "\<exists>n < draws w'. insp_id (g i) = new_id ''insp'' n" if "\<exists>n < draws w. insp_id i = new_id ''insp'' n" for i
    using that g [of i] assms(4) by (metis order_less_le_trans)
  moreover have "map insp_id (inspections w') = map insp_id (inspections w)"
    using assms(1) g by simp
  moreover have "insp_id ` set (inspections w') = insp_id ` set (inspections w)"
    using assms(1) g by (simp add: image_image)
  ultimately show ?thesis
    using assms(1,3) trailsD [OF assms(5)] by (intro trailsI) (auto simp del: map_map)
qed

lemma keeps_trails_same:
  assumes "inspections w' = inspections w" "state_transitions w' = state_transitions w" "draws w \<le> draws w'"
  shows "keeps_trails w w'"
  using trails_frame [of w' "\<lambda>r. r" w] assms by (simp add: keeps_trails_def)

lemma trail_add [simp]:
  "transitions_of (w\<lparr>state_transitions := state_transitions w @ [tr]\<rparr>) iid =
     transitions_of w iid @ (if trn_entity_id tr = iid then [tr] else [])"
  by (simp add: transitions_of_def)

lemma trail_ok_step:
  assumes "trail_ok w i" "legal_edge (insp_status i) target"
    and "transitions_of w' (insp_id i) = transitions_of w (insp_id i) @ [tr]"
    and "trn_to_state tr = target" "trn_from_state tr = insp_status i" "trn_tenant tr = insp_tenant i"
    and "insp_id i' = insp_id i" "insp_status i' = target" "insp_tenant i' = insp_tenant i"
  shows "trail_ok w' i'"
proof -
  let ?old = "trail w (insp_id i)"
  have new: "trail w' (insp_id i) = ?old @ [target]"
    using assms(3,4) by (simp add: trail_def)
  have "legal_path (trail w' (insp_id i))"
    using assms(1,2) unfolding new by (subst legal_path_snoc_last) (auto simp: trail_ok_def trail_def)
  moreover have "map trn_from_state (transitions_of w' (insp_id i)) = butlast (trail w' (insp_id i))"
    using assms(1,3,5) append_butlast_last_id [of ?old] unfolding new by (simp add: trail_ok_def trail_def)
  ultimately show ?thesis
    using assms new by (auto simp: trail_ok_def)
qed

lemma trails_transitioned:
  assumes "trails w" "lookup_inspection iid tid w = Some i" "legal_edge (insp_status i) target"
  shows "trails (transitioned env i iid tid target actor reason corr w)" (is "trails ?w'")
proof -
  have i: "i \<in> set (inspections w)" "insp_id i = iid" "insp_tenant i = tid"
    using lookup_inspectionD [OF assms(2)] by auto
  have same: "x = i" if "x \<in> set (inspections w)" "insp_id x = iid" for x
    using assms(1) i that by (auto simp: trails_def distinct_map inj_on_def)
  obtain tr where tr: "state_transitions ?w' = state_transitions w @ [tr]" "trn_entity_id tr = iid"
      "trn_to_state tr = target" "trn_from_state tr = insp_status i" "trn_tenant tr = tid"
    by (simp add: transitioned_def Let_def transition_row_def i)
  have moves: "transitions_of ?w' x = transitions_of w x @ (if x = iid then [tr] else [])" for x
    using tr by (simp add: transitions_of_def)
  have insp: "set (inspections ?w') = (\<lambda>r. if is_inspection iid tid r then r\<lparr>insp_status := target\<rparr> else r) ` set (inspections w)"
    by (simp add: transitioned_def Let_def set_update_where)
  have ids: "map insp_id (inspections ?w') = map insp_id (inspections w)"
    by (simp add: transitioned_def Let_def)
  have "trail_ok ?w' x'" if "x' \<in> set (inspections ?w')" for x'
  proof -
    obtain x where x: "x \<in> set (inspections w)" "x' = (if is_inspection iid tid x then x\<lparr>insp_status := target\<rparr> else x)"
      using \<open>x' \<in> _\<close> unfolding insp by blast
    have ok: "trail_ok w x" using assms(1) x by (simp add: trails_def)
    show ?thesis
    proof (cases "insp_id x = iid")
      case True
      then have "x = i" using same x by blast
      then have x': "x' = i\<lparr>insp_status := target\<rparr>" using x i by (simp add: is_inspection_def)
      have before: "trail_ok w i" using ok \<open>x = i\<close> by simp
      have moved: "transitions_of ?w' (insp_id i) = transitions_of w (insp_id i) @ [tr]"
        using moves [of iid] i by simp
      show ?thesis
        unfolding x' by (rule trail_ok_step [OF before assms(3) moved tr(3,4)]) (simp_all add: tr(5) i(3))
    next
      case False
      then show ?thesis
        using ok x moves by (simp add: trail_ok_def trail_def is_inspection_def)
    qed
  qed
  moreover have "\<exists>n < draws ?w'. insp_id x' = new_id ''insp'' n" if "x' \<in> set (inspections ?w')" for x'
  proof -
    have "insp_id x' \<in> insp_id ` set (inspections w)" using that ids by (metis image_eqI list.set_map)
    then obtain n where "n < draws w" "insp_id x' = new_id ''insp'' n" using assms(1) by (auto simp: trails_def)
    then show ?thesis by (intro exI [of _ n]) (simp add: transitioned_def Let_def)
  qed
  moreover have "insp_id ` set (inspections ?w') = insp_id ` set (inspections w)"
    using ids by (metis list.set_map)
  moreover have "trn_entity_id x \<in> insp_id ` set (inspections w)" if "x \<in> set (state_transitions ?w')" for x
    using that tr(1,2) imageI [OF i(1), of insp_id] i(2) trailsD(3) [OF assms(1), of x] by auto
  ultimately show ?thesis
    using trailsD(1) [OF assms(1)] ids by (intro trailsI) auto
qed

lemma trails_add_inspection:
  assumes "trails w" "\<And>iid. insp_id (mk iid) = iid \<and> insp_status (mk iid) = RECEIVED"
  shows "trails (snd (add_inspection mk w))"
proof -
  let ?iid = "new_id ''insp'' (draws w)"
  have fresh: "?iid \<notin> insp_id ` set (inspections w)"
    using assms(1) by (auto simp: trails_def)
  then have "trn_entity_id tr \<noteq> ?iid" if "tr \<in> set (state_transitions w)" for tr
    using trailsD(3) [OF assms(1) that] by metis
  then have none: "transitions_of w ?iid = []"
    by (simp add: transitions_of_def filter_empty_conv)
  have id: "insp_id (mk ?iid) = ?iid" "insp_status (mk ?iid) = RECEIVED" using assms(2) by auto
  have "trails (w\<lparr>draws := Suc (draws w)\<rparr>)"
    using assms(1) keeps_trails_same [of "w\<lparr>draws := Suc (draws w)\<rparr>" w] by (simp add: keeps_trails_def)
  moreover have "trails (w\<lparr>draws := Suc (draws w), inspections := inspections w @ [mk ?iid]\<rparr>)" (is "trails ?w'")
  proof (rule trailsI)
    have same: "trail_ok ?w' x \<longleftrightarrow> trail_ok w x" for x
      by (simp add: trail_ok_def trail_def transitions_of_def)
    have "trail_ok w (mk ?iid)"
      using none id by (simp add: trail_ok_def trail_def)
    then show "trail_ok ?w' x" if "x \<in> set (inspections ?w')" for x
      using that trailsD(4) [OF assms(1), of x] unfolding same by auto
    show "\<exists>n < draws ?w'. insp_id x = new_id ''insp'' n" if "x \<in> set (inspections ?w')" for x
      using that trailsD(2) [OF assms(1), of x] id less_Suc_eq by auto
    show "trn_entity_id tr \<in> insp_id ` set (inspections ?w')" if "tr \<in> set (state_transitions ?w')" for tr
      using that trailsD(3) [OF assms(1), of tr] by auto
    show "distinct (map insp_id (inspections ?w'))"
      using trailsD(1) [OF assms(1)] fresh id by simp
  qed
  ultimately show ?thesis
    by (simp add: add_inspection_eq Let_def)
qed

section \<open>Every reachable store has it\<close>

interpretation trail_store: plain_frame t keeps_trails for t
proof
  show "keeps_trails w (snd (transition_inspection env iid t target actor reason corr w))"
    for w env iid target actor reason corr
    by (cases rule: transition_outcome [of env iid t target actor reason corr w])
      (auto simp: keeps_trails_def trails_transitioned, simp add: transitioned_def Let_def)
  show "keeps_trails w (snd (add_inspection mk w))"
    if "\<And>iid. insp_tenant (mk iid) = t \<and> insp_id (mk iid) = iid \<and> insp_status (mk iid) = RECEIVED" for mk w
    using that trails_add_inspection [of w mk] by (auto simp: keeps_trails_def add_inspection_eq Let_def)
  show "keeps_trails w (snd (set_failure_reason iid t m w))" for w iid m
    using trails_frame [of "snd (set_failure_reason iid t m w)"
        "\<lambda>r. if is_inspection iid t r then r\<lparr>insp_failure_reason := Some m\<rparr> else r" w]
    by (simp add: keeps_trails_def set_failure_reason_def update_where_def)
  show "keeps_trails w w''" if "keeps_trails w w'" "keeps_trails w' w''" for w w' w''
    using that by (simp add: keeps_trails_def)
qed (rule TrueI | rule keeps_trails_same; simp add: update_incident_def update_action_def update_event_def
      update_gateway_def update_deployment_def update_qualification_def update_dataset_def)+

interpretation trails: system_frame keeps_trails "\<lambda>_. True"
proof
  show "keeps_trails w (rollback w w')" if "keeps_trails w w'" for w w'
    using that by (intro keeps_trails_same) (simp_all add: rollback_def keeps_trails_def)
qed (rule keeps_trails_same; simp add: settle_def)+

text \<open>C2. The workflow is a path of the transition table: starting from a store without inspections,
  after any requests and worker rounds, the recorded transitions of every inspection start at
  \<open>RECEIVED\<close>, follow the edges of \<open>INSPECTION_TRANSITIONS\<close>, each from where the last one ended, and
  end at the status the inspection has; they all belong to its tenant. So no handler moves a status
  except by a recorded legal transition.\<close>

theorem status_follows_recorded_trail:
  assumes "inspections start = []" "state_transitions start = []"
    and "reachable start w" "i \<in> set (inspections w)"
  shows "trail_ok w i"
proof -
  have "trails start" using assms(1,2) by (simp add: trails_def)
  then have "trails w" using trails.R_reachable [OF assms(3)] by (simp add: keeps_trails_def)
  then show ?thesis using assms(4) by (simp add: trails_def)
qed

lemma status_follows_recorded_trail_witness:
  "\<exists>i. i \<in> set (inspections auto_run) \<and> insp_status i = AUTO_RELEASED \<and> trail_ok auto_run i"
proof -
  obtain i where i: "i \<in> set (inspections auto_run)" "insp_status i = AUTO_RELEASED"
    using auto_run_eval(2) by auto
  then have "trail_ok auto_run i"
    using status_follows_recorded_trail [OF example_world_empty runs_reachable(1)] by blast
  with i show ?thesis by blast
qed

section \<open>Final statuses\<close>

lemma legal_path_after_final: "legal_path (xs @ y # ys) \<Longrightarrow> xs \<noteq> [] \<Longrightarrow> \<not> final_status (last xs)"
  by (induction xs rule: legal_path.induct) (auto simp: legal_edge_not_final)

lemma reachable_trans: "reachable w w'' \<Longrightarrow> reachable start w \<Longrightarrow> reachable start w''"
  by (induction rule: reachable.induct) (auto intro: reachable.intros)

lemma reachable_trails: "inspections start = [] \<Longrightarrow> state_transitions start = [] \<Longrightarrow> reachable start w \<Longrightarrow> trails w"
  using trails.R_reachable [of start w] by (simp add: keeps_trails_def trails_def)

text \<open>An inspection that was released automatically, released by a reviewer, closed or rejected
  keeps that status forever: no later request and no worker round changes it.\<close>

theorem final_statuses_absorbing:
  assumes "inspections start = []" "state_transitions start = []"
    and "reachable start w" "reachable w w'"
    and "i \<in> set (inspections w)" "i' \<in> set (inspections w')" "insp_id i' = insp_id i"
    and "insp_status i \<in> {AUTO_RELEASED, RELEASE_APPROVED, CLOSED, REJECTED_INPUT}"
  shows "insp_status i' = insp_status i"
proof -
  have ok: "trail_ok w i" "trail_ok w' i'"
    using reachable_trails [OF assms(1,2)] assms(3-6) reachable_trans by (auto simp: trails_def)
  obtain ext where "state_transitions w' = state_transitions w @ ext"
    using history.R_reachable [OF assms(4)] by (auto simp: append_only_def extends_iff)
  then obtain more where more: "trail w' (insp_id i) = trail w (insp_id i) @ more"
    by (auto simp: trail_def transitions_of_def)
  have "final_status (last (trail w (insp_id i)))"
    using ok(1) assms(8) by (simp add: trail_ok_def final_status_iff)
  moreover have "legal_path (trail w (insp_id i) @ more)"
    using ok(2) more assms(7) by (simp add: trail_ok_def)
  ultimately have "more = []"
    using legal_path_after_final [of "trail w (insp_id i)"] by (cases more) (auto simp: trail_def)
  then show ?thesis
    using ok more assms(7) by (simp add: trail_ok_def)
qed

lemma final_statuses_absorbing_witness:
  "\<exists>i. i \<in> set (inspections auto_run) \<and> insp_status i = AUTO_RELEASED \<and>
     (\<forall>i' \<in> set (inspections (worker_round (example_env 0) auto_run)). insp_id i' = insp_id i \<longrightarrow>
        insp_status i' = AUTO_RELEASED)"
proof -
  obtain i where i: "i \<in> set (inspections auto_run)" "insp_status i = AUTO_RELEASED"
    using auto_run_eval(2) by auto
  have "reachable auto_run (worker_round (example_env 0) auto_run)"
    by (rule stepped, rule started, rule worked)
  with i show ?thesis
    using final_statuses_absorbing [OF example_world_empty runs_reachable(1)] by fastforce
qed

end
