(* ===== verification/Release.thy ===== *)
theory Release
  imports Runs
begin

text \<open>
  What a released inspection is backed by: an automatic release by a stored policy decision over a
  stored model score below the review threshold, a manual one by the decision \<open>GOOD\<close> of the actor to
  whom the completed review task belongs.
\<close>

section \<open>The evidence\<close>

definition auto_evidence :: "world \<Rightarrow> string \<Rightarrow> string \<Rightarrow> bool" where
  "auto_evidence w iid tid \<longleftrightarrow>
     (\<exists>p \<in> set (policy_decisions w). \<exists>f \<in> set (inference_results w).
        pol_inspection_id p = iid \<and> pol_tenant p = tid \<and> pol_decision p = AUTO_RELEASE \<and>
        inf_inspection_id f = iid \<and> inf_tenant f = tid \<and> inf_score f < pol_resolved_review_threshold p)"

definition human_evidence :: "world \<Rightarrow> string \<Rightarrow> string \<Rightarrow> bool" where
  "human_evidence w iid tid \<longleftrightarrow>
     (\<exists>k \<in> set (review_tasks w). \<exists>d \<in> set (review_decisions w).
        rev_inspection_id k = iid \<and> rev_tenant k = tid \<and> rev_status k = ''COMPLETED'' \<and>
        rdec_review_task_id d = rev_id k \<and> rdec_tenant d = tid \<and> rdec_decision d = GOOD \<and>
        rev_assignee k = Some (rdec_actor_id d))"

definition release_evidence :: "world \<Rightarrow> Inspection \<Rightarrow> bool" where
  "release_evidence w i \<longleftrightarrow>
     (insp_status i = AUTO_RELEASED \<longrightarrow> auto_evidence w (insp_id i) (insp_tenant i)) \<and>
     (insp_status i = RELEASE_APPROVED \<longrightarrow> human_evidence w (insp_id i) (insp_tenant i))"

definition evidenced :: "world \<Rightarrow> bool" where
  "evidenced w \<longleftrightarrow> distinct (map rev_id (review_tasks w)) \<and> (\<forall>i \<in> set (inspections w). release_evidence w i)"

abbreviation keeps_evidence :: "world \<Rightarrow> world \<Rightarrow> bool" where
  "keeps_evidence \<equiv> \<lambda>w w'. evidenced w \<longrightarrow> evidenced w'"

abbreviation not_release :: "InspectionStatus \<Rightarrow> bool" where
  "not_release \<equiv> \<lambda>target. target \<noteq> AUTO_RELEASED \<and> target \<noteq> RELEASE_APPROVED"

section \<open>Every write keeps it\<close>

text \<open>Evidence only grows: results and decisions are appended, completed tasks stay.\<close>

lemma evidence_mono:
  assumes "set (policy_decisions w) \<subseteq> set (policy_decisions w')"
    and "set (inference_results w) \<subseteq> set (inference_results w')"
    and "set (review_decisions w) \<subseteq> set (review_decisions w')"
    and "\<And>k. k \<in> set (review_tasks w) \<Longrightarrow> rev_status k = ''COMPLETED'' \<Longrightarrow> k \<in> set (review_tasks w')"
  shows "auto_evidence w iid tid \<Longrightarrow> auto_evidence w' iid tid"
    and "human_evidence w iid tid \<Longrightarrow> human_evidence w' iid tid"
  using assms unfolding auto_evidence_def human_evidence_def by (meson subsetD)+

lemma evidenced_frame:
  assumes "evidenced w" and "inspections w' = inspections w"
    and "distinct (map rev_id (review_tasks w)) \<Longrightarrow> distinct (map rev_id (review_tasks w'))"
    and "set (policy_decisions w) \<subseteq> set (policy_decisions w')"
    and "set (inference_results w) \<subseteq> set (inference_results w')"
    and "set (review_decisions w) \<subseteq> set (review_decisions w')"
    and "\<And>k. k \<in> set (review_tasks w) \<Longrightarrow> rev_status k = ''COMPLETED'' \<Longrightarrow> k \<in> set (review_tasks w')"
  shows "evidenced w'"
  using assms(1-3) evidence_mono [OF assms(4-7)] by (auto simp: evidenced_def release_evidence_def)

lemma evidenced_same:
  "inspections w' = inspections w \<Longrightarrow> review_tasks w' = review_tasks w \<Longrightarrow>
   policy_decisions w' = policy_decisions w \<Longrightarrow> inference_results w' = inference_results w \<Longrightarrow>
   review_decisions w' = review_decisions w \<Longrightarrow> evidenced w' \<longleftrightarrow> evidenced w"
  by (simp add: evidenced_def release_evidence_def auto_evidence_def human_evidence_def)

lemma keeps_evidence_same:
  assumes "inspections w' = inspections w" "review_tasks w' = review_tasks w"
    "policy_decisions w' = policy_decisions w" "inference_results w' = inference_results w"
    "review_decisions w' = review_decisions w"
  shows "keeps_evidence w w'"
  using evidenced_same [OF assms] by simp

lemma evidenced_transitioned:
  assumes "evidenced w" "target = AUTO_RELEASED \<Longrightarrow> auto_evidence w iid tid"
    "target = RELEASE_APPROVED \<Longrightarrow> human_evidence w iid tid"
  shows "evidenced (transitioned env i iid tid target actor reason corr w)" (is "evidenced ?w'")
proof -
  have rows: "policy_decisions ?w' = policy_decisions w" "inference_results ?w' = inference_results w"
    "review_decisions ?w' = review_decisions w" "review_tasks ?w' = review_tasks w"
    "inspections ?w' = update_where (is_inspection iid tid) (\<lambda>r. r\<lparr>insp_status := target\<rparr>) (inspections w)"
    by (simp_all add: transitioned_def Let_def)
  have "auto_evidence ?w' = auto_evidence w" "human_evidence ?w' = human_evidence w"
    by (intro ext; simp add: auto_evidence_def human_evidence_def rows)+
  then show ?thesis
    using assms by (auto simp: evidenced_def release_evidence_def rows set_update_where is_inspection_def)
qed

lemma evidenced_transition:
  assumes "evidenced w" "target = AUTO_RELEASED \<Longrightarrow> auto_evidence w iid tid"
    "target = RELEASE_APPROVED \<Longrightarrow> human_evidence w iid tid"
  shows "evidenced (snd (transition_inspection env iid tid target actor reason corr w))"
  using assms by (cases rule: transition_outcome [of env iid tid target actor reason corr w])
    (auto simp: evidenced_transitioned)

lemma evidenced_task_update:
  assumes "evidenced w" "\<And>k. P k \<Longrightarrow> rev_status k = ''OPEN'' \<and> rev_id (g k) = rev_id k"
  shows "evidenced (review_tasks_update (update_where P g) w)"
proof (rule evidenced_frame [OF assms(1)])
  have "map rev_id (update_where P g (review_tasks w)) = map rev_id (review_tasks w)"
    using assms(2) by (auto simp: update_where_def)
  then show "distinct (map rev_id (review_tasks (review_tasks_update (update_where P g) w)))"
    if "distinct (map rev_id (review_tasks w))" using that by simp
  show "k \<in> set (review_tasks (review_tasks_update (update_where P g) w))"
    if "k \<in> set (review_tasks w)" "rev_status k = ''COMPLETED''" for k
    using that assms(2) [of k] by (auto simp: set_update_where intro!: image_eqI [of _ _ k])
qed simp_all

interpretation evidence_store: update_frame t keeps_evidence not_release for t
proof
  show "keeps_evidence w (snd (transition_inspection env iid t target actor reason corr w))"
    if "not_release target" for target w env iid actor reason corr
    using that evidenced_transition by blast
  show "keeps_evidence w (snd (add_inspection mk w))"
    if "\<And>iid. insp_tenant (mk iid) = t \<and> insp_id (mk iid) = iid \<and> insp_status (mk iid) = RECEIVED" for mk w
    using that by (auto simp: add_inspection_eq Let_def evidenced_def release_evidence_def
        auto_evidence_def human_evidence_def)
  show "keeps_evidence w (snd (set_failure_reason iid t m w))" for w iid m
    by (auto simp: set_failure_reason_def evidenced_def release_evidence_def auto_evidence_def human_evidence_def
        set_update_where)
  show "keeps_evidence w (review_tasks_update (update_where P g) w)"
    if "\<And>k. P k \<Longrightarrow> rev_tenant k = t \<and> rev_status k = ''OPEN'' \<and> rev_tenant (g k) = t \<and> rev_id (g k) = rev_id k \<and>
          rev_inspection_id (g k) = rev_inspection_id k" for P g w
    using that evidenced_task_update by blast
  show "keeps_evidence w (policy_decisions_update (\<lambda>rows. rows @ [p]) w)" for w p
    by (rule impI, erule evidenced_frame) auto
  show "keeps_evidence w (inference_results_update (\<lambda>rows. rows @ [f]) w)" for w f
    by (rule impI, erule evidenced_frame) auto
  show "keeps_evidence w (review_decisions_update (\<lambda>rows. rows @ [d]) w)" for w d
    by (rule impI, erule evidenced_frame) auto
  show "keeps_evidence w (review_tasks_update (\<lambda>rows. rows @ [k]) w)"
    if "\<forall>x \<in> set (review_tasks w). rev_id x \<noteq> rev_id k \<and> rev_inspection_id x \<noteq> rev_inspection_id k" for w k
    using that by - (rule impI, erule evidenced_frame, auto)
  show "keeps_evidence w w''" if "keeps_evidence w w'" "keeps_evidence w' w''" for w w' w''
    using that by blast
qed (simp | (rule keeps_evidence_same; simp add: update_incident_def update_action_def update_event_def
      update_gateway_def update_deployment_def update_qualification_def update_dataset_def))+

section \<open>The automatic release\<close>

definition scored_below :: "string \<Rightarrow> string \<Rightarrow> rat \<Rightarrow> world \<Rightarrow> bool" where
  "scored_below iid tid score w \<longleftrightarrow>
     (\<exists>f \<in> set (inference_results w). inf_inspection_id f = iid \<and> inf_tenant f = tid \<and> inf_score f = score)"

lemma case_result: "J (snd x) \<Longrightarrow> case x of (Inl e, w') \<Rightarrow> J w' | (Inr a, w') \<Rightarrow> J w'"
  by (auto split: prod.split sum.split)

lemma hoare_transition:
  assumes "\<And>w. P w \<Longrightarrow> evidenced w"
    and "\<And>w. P w \<Longrightarrow> target = AUTO_RELEASED \<Longrightarrow> auto_evidence w iid tid"
    and "\<And>w. P w \<Longrightarrow> target = RELEASE_APPROVED \<Longrightarrow> human_evidence w iid tid"
  shows "hoare P (transition_inspection env iid tid target actor reason corr) (\<lambda>_. evidenced) evidenced"
proof (rule hoareI, rule case_result)
  fix w
  assume "P w"
  then show "evidenced (snd (transition_inspection env iid tid target actor reason corr w))"
    using assms by (intro evidenced_transition) blast+
qed

lemma evaluate_auto_release:
  "evaluate_policy (Some score) (Some p) pc sc = Inr ev \<Longrightarrow> ev_route ev = AUTO_RELEASE \<Longrightarrow>
     score < ev_review_threshold ev"
  by (auto simp: evaluate_policy_def andThen_def split: sum.splits if_splits)

lemma hoare_insert_auto_policy:
  assumes "pol_inspection_id p = iid" "pol_tenant p = tid" "pol_decision p = AUTO_RELEASE"
    "score < pol_resolved_review_threshold p"
  shows "hoare (\<lambda>w. evidenced w \<and> scored_below iid tid score w) (insert_policy_decision p)
    (\<lambda>_ w. evidenced w \<and> auto_evidence w iid tid) evidenced"
proof (rule hoareI)
  fix w
  assume w: "evidenced w \<and> scored_below iid tid score w"
  let ?w' = "policy_decisions_update (\<lambda>rows. rows @ [p]) w"
  have "evidenced ?w'" using w by (intro evidenced_frame [of w ?w']) auto
  moreover have "auto_evidence ?w' iid tid"
    using w assms unfolding auto_evidence_def scored_below_def by simp blast
  moreover have "insert_policy_decision p w = (Inr (), ?w') \<or> (\<exists>e. insert_policy_decision p w = (Inl e, w))"
    by (simp add: insert_policy_decision_def insert_row_def bnd_def)
  ultimately show "case insert_policy_decision p w of (Inl e, w') \<Rightarrow> evidenced w'
      | (Inr a, w') \<Rightarrow> evidenced w' \<and> auto_evidence w' iid tid"
    using w by auto
qed

lemma hoare_fresh:
  assumes "\<And>w n. P w \<Longrightarrow> Q (w\<lparr>draws := n\<rparr>)"
  shows "hoare P (fresh_id pfx) (\<lambda>_. Q) X"
  using assms by (auto simp: hoare_def fresh_id_def)

lemma evidenced_draws [simp]: "evidenced (w\<lparr>draws := n\<rparr>) = evidenced w"
  "scored_below iid tid score (w\<lparr>draws := n\<rparr>) = scored_below iid tid score w"
  by (rule evidenced_same; simp) (simp add: scored_below_def)

lemma hoare_decide_policy:
  assumes "insp_tenant i = t"
  shows "hoare (\<lambda>w. evidenced w \<and> scored_below (insp_id i) t score w) (decide_policy env i m score) (\<lambda>_. evidenced) evidenced"
proof (cases "\<exists>ev. evaluate_policy (Some score) (Some (policy m)) (insp_product_code i) (insp_station_code i) = Inr ev
    \<and> ev_route ev = AUTO_RELEASE")
  case True
  then obtain ev where ev: "evaluate_policy (Some score) (Some (policy m)) (insp_product_code i) (insp_station_code i) = Inr ev"
      "ev_route ev = AUTO_RELEASE" by blast
  note below = evaluate_auto_release [OF ev]
  have mark: "hoare evidenced (mark_inference_outbox_processed (insp_id i) t) (\<lambda>_. evidenced) evidenced"
    by (rule hoare_keeps) (rule evidence_store.keeps_mark_inference)
  let ?P = "\<lambda>w. evidenced w \<and> scored_below (insp_id i) t score w"
  let ?E = "\<lambda>w. evidenced w \<and> auto_evidence w (insp_id i) t"
  have fresh: "hoare ?P (fresh_id pfx) (\<lambda>_. ?P) evidenced" for pfx
    by (rule hoare_fresh) simp
  have transition: "hoare ?E (transition_inspection env (insp_id i) t AUTO_RELEASED actor reason corr)
      (\<lambda>_. evidenced) evidenced" for actor reason corr
    by (rule hoare_transition) simp_all
  have rest: "hoare evidenced (run_all [run_if (ev_route ev \<noteq> AUTO_RELEASE) (ensure_review_task env (insp_id i) t),
      mark_inference_outbox_processed (insp_id i) t]) (\<lambda>_. evidenced) evidenced"
    by (rule hoare_run_all_Cons [where M = evidenced], simp add: ev(2) hoare_ret,
        rule hoare_run_all_Cons [OF mark], rule hoare_run_all_Nil)
  show ?thesis
    unfolding decide_policy_def ev(1) assms sum.case
    by (rule hoare_bnd [OF fresh], rule hoare_run_all_Cons [OF hoare_insert_auto_policy [where score = score]],
        simp_all only: PolicyDecision.simps ev(2) target_of_route_def PolicyRoute.case below)
      (rule hoare_run_all_Cons [OF transition], use rest ev(2) in simp)
next
  case False
  have "keeps keeps_evidence (decide_policy env i m score)"
    unfolding decide_policy_def assms
    by (intro evidence_store.keeps_intros evidence_store.keeps_ensure_review_task evidence_store.keeps_mark_inference)
      (use False in \<open>auto simp: target_of_route_def split: PolicyRoute.split\<close>)
  then show ?thesis
    by (rule hoare_keeps [THEN hoare_conseq]) simp_all
qed

lemma hoare_insert_inference:
  "hoare (\<lambda>_. True) (insert_inference_result f) (\<lambda>_. scored_below (inf_inspection_id f) (inf_tenant f) (inf_score f)) (\<lambda>_. True)"
  by (auto simp: hoare_def insert_inference_result_def insert_row_def bnd_def scored_below_def)

lemma scored_transition:
  "hoare (scored_below iid tid score) (transition_inspection env jid u target actor reason corr) (\<lambda>_. scored_below iid tid score) (\<lambda>_. True)"
proof (rule hoareI)
  fix w
  assume "scored_below iid tid score w"
  then show "case transition_inspection env jid u target actor reason corr w of
      (Inl e, w') \<Rightarrow> True | (Inr a, w') \<Rightarrow> scored_below iid tid score w'"
    by (auto simp: transition_inspection_eq transitioned_def scored_below_def Let_def split: option.split)
qed

lemma hoare_record_result:
  assumes "insp_tenant i = t"
  shows "hoare evidenced (record_result env i a m output)
    (\<lambda>_ w. evidenced w \<and> scored_below (insp_id i) t (mo_score output) w) evidenced"
proof -
  have "hoare evidenced (record_result env i a m output) (\<lambda>_. evidenced) evidenced"
    by (rule hoare_keeps) (rule evidence_store.keeps_record_result [OF assms])
  moreover have "hoare evidenced (record_result env i a m output)
      (\<lambda>_. scored_below (insp_id i) t (mo_score output)) (\<lambda>_. True)"
    unfolding record_result_def Let_def assms
    by (rule hoare_bnd [OF hoare_any], rule hoare_bnd [OF hoare_any], rule hoare_bnd [OF hoare_any],
        rule hoare_bnd [OF hoare_any], rule hoare_run_all_Cons [OF hoare_any],
        rule hoare_run_all_Cons, rule hoare_insert_inference [THEN hoare_conseq], rule TrueI, assumption, rule TrueI)
      (simp only: InferenceResult.select_convs, rule hoare_run_all_Cons [OF scored_transition], rule hoare_run_all_Nil)
  ultimately show ?thesis
    by (rule hoare_conj [THEN hoare_conseq]) simp_all
qed

lemma keeps_evidence_route:
  assumes "insp_tenant i = t"
  shows "keeps keeps_evidence (route_result env i a m output)"
  unfolding route_result_def
  by (rule keeps_hoare, rule hoare_andthen [OF hoare_record_result [OF assms] hoare_decide_policy [OF assms]])

section \<open>The release by a reviewer\<close>

definition completed_task :: "Principal \<Rightarrow> ReviewTask \<Rightarrow> world \<Rightarrow> bool" where
  "completed_task pr task w \<longleftrightarrow>
     (\<exists>k \<in> set (review_tasks w). rev_id k = rev_id task \<and> rev_inspection_id k = rev_inspection_id task \<and>
        rev_tenant k = tenant_id pr \<and> rev_status k = ''COMPLETED'' \<and> rev_assignee k = Some (actor_id pr))"

lemma completed_draws [simp]: "completed_task pr task (w\<lparr>draws := n\<rparr>) = completed_task pr task w"
  by (simp add: completed_task_def)

lemma hoare_insert_good:
  assumes "rdec_review_task_id d = rev_id task" "rdec_tenant d = tenant_id pr" "rdec_actor_id d = actor_id pr"
    "rdec_decision d = GOOD"
  shows "hoare (\<lambda>w. evidenced w \<and> completed_task pr task w) (insert_review_decision d)
    (\<lambda>_ w. evidenced w \<and> human_evidence w (rev_inspection_id task) (tenant_id pr)) evidenced"
proof (rule hoareI)
  fix w
  assume w: "evidenced w \<and> completed_task pr task w"
  let ?w' = "review_decisions_update (\<lambda>rows. rows @ [d]) w"
  have "evidenced ?w'" using w by (intro evidenced_frame [of w ?w']) auto
  moreover have "human_evidence ?w' (rev_inspection_id task) (tenant_id pr)"
  proof -
    obtain k where k: "k \<in> set (review_tasks w)" "rev_id k = rev_id task"
        "rev_inspection_id k = rev_inspection_id task" "rev_tenant k = tenant_id pr"
        "rev_status k = ''COMPLETED''" "rev_assignee k = Some (actor_id pr)"
      using w by (auto simp: completed_task_def)
    then show ?thesis
      unfolding human_evidence_def using assms by (intro bexI [of _ k] bexI [of _ d] conjI) simp_all
  qed
  moreover have "insert_review_decision d w = (Inr (), ?w') \<or> (\<exists>e. insert_review_decision d w = (Inl e, w))"
    by (simp add: insert_review_decision_def insert_row_def bnd_def)
  ultimately show "case insert_review_decision d w of (Inl e, w') \<Rightarrow> evidenced w'
      | (Inr a, w') \<Rightarrow> evidenced w' \<and> human_evidence w' (rev_inspection_id task) (tenant_id pr)"
    using w by auto
qed

lemma hoare_complete_review:
  assumes "tenant_id pr = t" "t \<noteq> []"
  shows "hoare (\<lambda>w. evidenced w \<and> completed_task pr task w) (complete_review env pr task rq corr) (\<lambda>_. evidenced) evidenced"
proof (cases "rq_decision rq = GOOD")
  case True
  let ?P = "\<lambda>w. evidenced w \<and> completed_task pr task w"
  let ?H = "\<lambda>w. evidenced w \<and> human_evidence w (rev_inspection_id task) (tenant_id pr)"
  have fresh: "hoare ?P (fresh_id pfx) (\<lambda>_. ?P) evidenced" for pfx
    by (rule hoare_fresh) simp
  have lookup: "hoare ?H (query (lookup_inspection (rev_inspection_id task) tid))
      (\<lambda>found w. ?H w \<and> (\<forall>i. found = Some i \<longrightarrow> insp_id i = rev_inspection_id task)) evidenced" for tid
    by (auto simp: hoare_def dest: lookup_inspectionD)
  have rest: "hoare evidenced (bnd (ret None) (\<lambda>incident_id. bnd (query (lookup_inspection (insp_id i) t)) (\<lambda>after.
      andthen (record_audit env t actor action ty tid corr (pl after)) (ret (res incident_id)))))
      (\<lambda>_. evidenced) evidenced" for i actor action ty tid corr pl res
    by (rule hoare_keeps) (intro evidence_store.keeps_intros)
  have transition: "hoare (\<lambda>w. ?H w \<and> (\<forall>j. Some i = Some j \<longrightarrow> insp_id j = rev_inspection_id task))
      (transition_inspection env (insp_id i) t RELEASE_APPROVED actor reason c) (\<lambda>_. evidenced) evidenced"
    for i actor reason c
    by (rule hoare_transition) (use assms(1) in auto)
  have after: "hoare (\<lambda>w. ?H w \<and> (\<forall>i. found = Some i \<longrightarrow> insp_id i = rev_inspection_id task))
      (case found of None \<Rightarrow> raise_error NotFound m
       | Some i \<Rightarrow> andthen (transition_inspection env (insp_id i) t RELEASE_APPROVED actor reason c) (k i))
      (\<lambda>_. evidenced) evidenced"
    if "\<And>i. hoare evidenced (k i) (\<lambda>_. evidenced) evidenced" for found m actor reason c and k :: "Inspection \<Rightarrow> 'x svc"
  proof (cases found)
    case None
    then show ?thesis by (simp add: hoare_def)
  next
    case (Some i)
    show ?thesis unfolding Some option.case by (rule hoare_andthen [OF transition that])
  qed
  show ?thesis
    unfolding complete_review_def Let_def True high_risk_def decision_target_def assms(1)
    by (rule hoare_bnd [OF fresh], rule hoare_andthen [OF hoare_insert_good], simp_all only: ReviewDecision.select_convs
        assms(1) ReviewChoice.case ReviewChoice.distinct simp_thms if_False)
      (rule hoare_bnd [OF lookup [unfolded assms(1)]], rule after [unfolded assms(1)], rule rest)
next
  case False
  have "keeps keeps_evidence (complete_review env pr task rq corr)"
    by (rule evidence_store.keeps_complete_review [OF assms])
      (use False in \<open>cases "rq_decision rq"; simp add: decision_target_def\<close>)
  then show ?thesis
    by (rule hoare_keeps [THEN hoare_conseq]) simp_all
qed

lemma decided_task_completed:
  assumes "distinct (map rev_id (review_tasks w))" "task \<in> set (review_tasks w)" "is_task rid (tenant_id pr) task"
    "count_where (decidable rid (tenant_id pr) v) (review_tasks w) = 1"
  shows "completed_task pr task (review_tasks_update (update_where (decidable rid (tenant_id pr) v)
     (\<lambda>t. t\<lparr>rev_status := ''COMPLETED'', rev_assignee := Some (actor_id pr), rev_version := rev_version t + 1\<rparr>)) w)"
proof -
  have "filter (decidable rid (tenant_id pr) v) (review_tasks w) \<noteq> []"
    using assms(4) by (auto simp: count_where_def)
  then obtain k where k: "k \<in> set (review_tasks w)" "decidable rid (tenant_id pr) v k"
    by (auto simp: filter_empty_conv)
  then have "k = task"
    using assms(1-3) by (auto simp: decidable_def is_task_def distinct_map inj_on_def)
  let ?g = "\<lambda>t :: ReviewTask. t\<lparr>rev_status := ''COMPLETED'', rev_assignee := Some (actor_id pr), rev_version := rev_version t + 1\<rparr>"
  have "?g k \<in> set (update_where (decidable rid (tenant_id pr) v) ?g (review_tasks w))"
    unfolding set_update_where using k by (intro image_eqI [of _ _ k]) simp_all
  then show ?thesis
    unfolding completed_task_def using \<open>k = task\<close> assms(3)
    by (intro bexI [of _ "?g k"]) (simp_all add: is_task_def)
qed

lemma evidenced_decide_review:
  assumes "tenant_id pr = t" "t \<noteq> []" "evidenced w"
  shows "evidenced (snd (decide_review env pr rid rq corr w))"
proof (cases "find (is_task rid t) (review_tasks w)")
  case None
  then show ?thesis using assms(3) by (simp add: decide_review_def Let_def bnd_def assms(1))
next
  case (Some task)
  let ?v = "rq_expected_version rq"
  let ?w' = "review_tasks_update (update_where (decidable rid t ?v)
     (\<lambda>t. t\<lparr>rev_status := ''COMPLETED'', rev_assignee := Some (actor_id pr), rev_version := rev_version t + 1\<rparr>)) w"
  have "evidenced ?w'"
    using assms(3) by (rule evidenced_task_update) (simp add: decidable_def)
  moreover have "evidenced (snd (complete_review env pr task rq corr ?w'))"
    if "count_where (decidable rid t ?v) (review_tasks w) = 1"
  proof -
    have "completed_task pr task ?w'"
      using decided_task_completed [of w task rid pr ?v] assms that find_SomeD1 [OF Some] find_SomeD2 [OF Some]
      by (simp add: evidenced_def)
    with \<open>evidenced ?w'\<close> show ?thesis
      using hoare_snd [OF hoare_complete_review [OF assms(1,2)]] by blast
  qed
  ultimately show ?thesis
    using Some assms(3)
    by (simp add: decide_review_def Let_def bnd_def andthen_def assms(1) update_review_tasks_def)
qed

section \<open>Every reachable store\<close>

interpretation evidence_handlers: release_frame t keeps_evidence not_release for t
proof
  show "keeps_evidence w (snd (process_inference env iid (Some t) w))" for w env iid
    using evidence_store.keeps_routing [OF keeps_evidence_route] by (simp add: keeps_def)
  show "keeps_evidence w (snd (decide_review env pr rid rq corr w))"
    if "tenant_id pr = t" "t \<noteq> []" for w env pr rid rq corr
    using evidenced_decide_review [OF that] by blast
qed (simp_all add: evidence_store.keeps_pack_activation [unfolded keeps_def, rule_format]
    evidence_store.keeps_lifecycle [unfolded keeps_def, rule_format])

interpretation evidence_system: system_frame keeps_evidence not_release
proof
  show "keeps_evidence w (settle w)" for w
    by (rule keeps_evidence_same) (simp_all add: settle_def)
  show "keeps_evidence w (rollback w w')" for w w'
    by (rule keeps_evidence_same) (simp_all add: rollback_def)
  show "keeps_evidence w (w\<lparr>clock := now, remote_systems := systems\<rparr>)" for w now systems
    by (rule keeps_evidence_same) simp_all
qed

lemma reachable_evidenced:
  assumes "inspections start = []" "review_tasks start = []" "reachable start w"
  shows "evidenced w"
  using evidence_system.R_reachable [OF assms(3)] assms(1,2) by (simp add: evidenced_def)

text \<open>C3. No automatic release without evidence: in every reachable store, whatever requests were served
  and whatever the models answered, an inspection that is \<open>AUTO_RELEASED\<close> has a stored policy decision
  \<open>AUTO_RELEASE\<close> and a stored model score strictly below the review threshold that the decision resolved.
  A failing model, a missing image or an invalid pack never releases a part.\<close>

theorem auto_release_evidence:
  assumes "inspections start = []" "review_tasks start = []" "reachable start w"
    and "i \<in> set (inspections w)" "insp_status i = AUTO_RELEASED"
  shows "\<exists>p \<in> set (policy_decisions w). \<exists>f \<in> set (inference_results w).
    pol_inspection_id p = insp_id i \<and> pol_tenant p = insp_tenant i \<and> pol_decision p = AUTO_RELEASE \<and>
    inf_inspection_id f = insp_id i \<and> inf_tenant f = insp_tenant i \<and>
    inf_score f < pol_resolved_review_threshold p"
  using reachable_evidenced [OF assms(1-3)] assms(4,5)
  by (simp add: evidenced_def release_evidence_def auto_evidence_def)

lemma example_world_tasks: "review_tasks example_world = []"
  by (simp add: run_simps)

lemma auto_release_evidence_witness:
  "\<exists>f \<in> set (inference_results auto_run). \<exists>p \<in> set (policy_decisions auto_run).
     pol_decision p = AUTO_RELEASE \<and> inf_score f < pol_resolved_review_threshold p"
proof -
  obtain i where i: "i \<in> set (inspections auto_run)" "insp_status i = AUTO_RELEASED"
    using auto_run_eval(2) by auto
  from auto_release_evidence [OF example_world_empty(1) example_world_tasks runs_reachable(1) i]
  show ?thesis by blast
qed

text \<open>C4. No manual release without a named reviewer: in every reachable store an inspection that is
  \<open>RELEASE_APPROVED\<close> has a completed review task, and the stored decision on that task is \<open>GOOD\<close>, taken in
  the inspection's tenant by the actor the task is assigned to.\<close>

theorem manual_release_evidence:
  assumes "inspections start = []" "review_tasks start = []" "reachable start w"
    and "i \<in> set (inspections w)" "insp_status i = RELEASE_APPROVED"
  shows "\<exists>k \<in> set (review_tasks w). \<exists>d \<in> set (review_decisions w).
    rev_inspection_id k = insp_id i \<and> rev_tenant k = insp_tenant i \<and> rev_status k = ''COMPLETED'' \<and>
    rdec_review_task_id d = rev_id k \<and> rdec_tenant d = insp_tenant i \<and> rdec_decision d = GOOD \<and>
    rev_assignee k = Some (rdec_actor_id d)"
  using reachable_evidenced [OF assms(1-3)] assms(4,5)
  by (simp add: evidenced_def release_evidence_def human_evidence_def)

lemma manual_release_evidence_witness:
  "\<exists>k \<in> set (review_tasks released_run). \<exists>d \<in> set (review_decisions released_run).
     rev_status k = ''COMPLETED'' \<and> rdec_review_task_id d = rev_id k \<and> rdec_decision d = GOOD"
proof -
  obtain i where i: "i \<in> set (inspections released_run)" "insp_status i = RELEASE_APPROVED"
    using released_run_eval by auto
  from manual_release_evidence [OF example_world_empty(1) example_world_tasks released_reachable i]
  show ?thesis by blast
qed

end
