(* ===== verification/Rejection.thy ===== *)
theory Rejection
  imports System Examples
begin

text \<open>
  A request that raises leaves no trace in the tables but the audit rows of rejected uploads, which
  are committed in a session of their own.
\<close>

definition rejection_row :: "string \<Rightarrow> AuditEvent \<Rightarrow> bool" where
  "rejection_row tid a \<longleftrightarrow> aud_action a = ''security.upload_rejected'' \<and> aud_tenant a = tid"

definition side_rows :: "string \<Rightarrow> world \<Rightarrow> world \<Rightarrow> bool" where
  "side_rows tid w w' \<longleftrightarrow> (\<exists>rows. side_audits w' = side_audits w @ rows \<and> (\<forall>a \<in> set rows. rejection_row tid a))"

lemma side_rows_same: "side_audits w' = side_audits w \<Longrightarrow> side_rows tid w w'"
  by (simp add: side_rows_def)

lemma side_rows_add: "rejection_row tid a \<Longrightarrow> side_rows tid w (w\<lparr>side_audits := side_audits w @ [a]\<rparr>)"
  by (simp add: side_rows_def)

lemma side_rows_trans: "side_rows tid w w' \<Longrightarrow> side_rows tid w' w'' \<Longrightarrow> side_rows tid w w''"
  unfolding side_rows_def by fastforce

interpretation rejection_store: plain_frame t "side_rows t" for t
proof
  show "side_rows t w (snd (transition_inspection env iid t target actor reason corr w))"
    for w env iid target actor reason corr
    by (rule side_rows_same, cases rule: transition_outcome [of env iid t target actor reason corr w])
      (simp_all add: transitioned_def Let_def)
  show "side_rows t w (snd (add_inspection mk w))" for mk w
    by (rule side_rows_same) (simp add: add_inspection_eq Let_def)
  show "side_rows t w w''" if "side_rows t w w'" "side_rows t w' w''" for w w' w''
    using that by (rule side_rows_trans)
  show "side_rows t w (w\<lparr>side_audits := side_audits w @ [a]\<rparr>)"
    if "aud_tenant a = t" "aud_action a = ''security.upload_rejected''" for a w
    using that by (intro side_rows_add) (simp add: rejection_row_def)
qed (rule TrueI | rule side_rows_same; simp add: set_failure_reason_def update_incident_def update_action_def
      update_event_def update_gateway_def update_deployment_def update_qualification_def update_dataset_def)+

definition same_tables :: "world \<Rightarrow> world \<Rightarrow> bool" where
  "same_tables w w' \<longleftrightarrow> tenants w' = tenants w \<and> edge_gateways w' = edge_gateways w \<and>
     deployment_packs w' = deployment_packs w \<and> model_qualifications w' = model_qualifications w \<and>
     dataset_registrations w' = dataset_registrations w \<and> inspections w' = inspections w \<and>
     image_assets w' = image_assets w \<and> inference_results w' = inference_results w \<and>
     policy_decisions w' = policy_decisions w \<and> review_tasks w' = review_tasks w \<and>
     review_decisions w' = review_decisions w \<and> quality_incidents w' = quality_incidents w \<and>
     external_actions w' = external_actions w \<and> state_transitions w' = state_transitions w \<and>
     outbox_events w' = outbox_events w"

text \<open>C5. A request is all or nothing: when a handler raises anything (a service error, a failed constraint,
  an exception of a library), every table is as it was before the request, whatever the handler had
  written, except that the audit log may have gained rows \<open>security.upload_rejected\<close> of the caller's
  own tenant.\<close>

theorem failed_request_leaves_tables:
  assumes "tenant_id pr \<noteq> []" "side_audits w = []" "request env pr corr m w = (Inl e, w')"
  shows "same_tables w w' \<and> (\<exists>rows. audit_events w' = audit_events w @ rows \<and>
      (\<forall>a \<in> set rows. aud_action a = ''security.upload_rejected'' \<and> aud_tenant a = tenant_id pr))"
proof -
  obtain w1 where w1: "serve env pr corr m w = (Inl e, w1)" "w' = settle (rollback w w1)"
    using assms(3) by (auto simp: request_def transaction_def split: prod.splits sum.splits)
  have "side_rows (tenant_id pr) w w1"
    using rejection_store.keeps_serve [OF refl assms(1)] w1(1) by (rule keepsD)
  then obtain rows where "side_audits w1 = rows" "\<forall>a \<in> set rows. rejection_row (tenant_id pr) a"
    using assms(2) by (auto simp: side_rows_def)
  then show "same_tables w w' \<and> (\<exists>rows. audit_events w' = audit_events w @ rows \<and>
      (\<forall>a \<in> set rows. aud_action a = ''security.upload_rejected'' \<and> aud_tenant a = tenant_id pr))"
    using w1(2) by (simp add: same_tables_def settle_def rollback_def rejection_row_def)
qed

lemma forbidden_example:
  "\<exists>e w'. request (example_env 0) inspector ''c'' (ActivateDeployment ''dep_0'' ''go'') example_world = (Inl e, w')"
proof -
  have "require_roles [QUALITY_MANAGER, ADMIN, FDE] inspector = Inl (HTTPException 403 ''insufficient role'')" by code_simp
  then show ?thesis
    by (simp add: request_def transaction_def api_activate_deployment_def drop_result_def guarded_def lift_result_def bnd_def)
qed

lemma failed_request_leaves_tables_witness:
  "\<exists>w'. w' = snd (request (example_env 0) inspector ''c'' (ActivateDeployment ''dep_0'' ''go'') example_world) \<and>
     same_tables example_world w'"
proof -
  obtain e w' where "request (example_env 0) inspector ''c'' (ActivateDeployment ''dep_0'' ''go'') example_world = (Inl e, w')"
    using forbidden_example by blast
  with failed_request_leaves_tables [OF _ _ this] show ?thesis
    by (simp add: inspector_def example_world_def empty_world_def)
qed

end
