(* ===== verification/Uniqueness.thy ===== *)
theory Uniqueness
  imports History Runs
begin

text \<open>
  The uniqueness constraints of the tables, as an invariant of the running system, and what rests on
  them: a review task is decided once.
\<close>

definition image_key :: "ImageAsset \<Rightarrow> string \<times> string" where
  "image_key a = (img_tenant a, img_uri a)"

definition attempt_key :: "InferenceResult \<Rightarrow> string \<times> nat" where
  "attempt_key f = (inf_inspection_id f, inf_attempt f)"

definition upload_key :: "Inspection \<Rightarrow> string \<times> string" where
  "upload_key i = (insp_tenant i, insp_idempotency_key i)"

definition action_key :: "ExternalAction \<Rightarrow> string \<times> string" where
  "action_key a = (ext_tenant a, ext_idempotency_key a)"

definition unique_rows :: "world \<Rightarrow> bool" where
  "unique_rows w \<longleftrightarrow> distinct (map upload_key (inspections w)) \<and> distinct (map image_key (image_assets w)) \<and>
     distinct (map attempt_key (inference_results w)) \<and> distinct (map pol_inspection_id (policy_decisions w)) \<and>
     distinct (map rev_id (review_tasks w)) \<and> distinct (map rev_inspection_id (review_tasks w)) \<and>
     distinct (map rdec_review_task_id (review_decisions w)) \<and>
     distinct (map inc_inspection_id (quality_incidents w)) \<and> distinct (map action_key (external_actions w))"

abbreviation keeps_unique :: "world \<Rightarrow> world \<Rightarrow> bool" where
  "keeps_unique w w' \<equiv> unique_rows w \<longrightarrow> unique_rows w'"

lemma keeps_unique_same:
  assumes "map upload_key (inspections w') = map upload_key (inspections w)"
    "image_assets w' = image_assets w" "inference_results w' = inference_results w"
    "policy_decisions w' = policy_decisions w"
    "map rev_id (review_tasks w') = map rev_id (review_tasks w)"
    "map rev_inspection_id (review_tasks w') = map rev_inspection_id (review_tasks w)"
    "review_decisions w' = review_decisions w"
    "map inc_inspection_id (quality_incidents w') = map inc_inspection_id (quality_incidents w)"
    "map action_key (external_actions w') = map action_key (external_actions w)"
  shows "keeps_unique w w'"
  using assms unfolding unique_rows_def by simp

lemma map_update_same: "(\<And>x. P x \<Longrightarrow> g (f x) = g x) \<Longrightarrow> map g (update_where P f xs) = map g xs"
  by (rule map_update_where)

interpretation unique_store: plain_frame t keeps_unique for t
proof
  show "keeps_unique w (snd (transition_inspection env iid t target actor reason corr w))"
    for w env iid target actor reason corr
    by (cases rule: transition_outcome [of env iid t target actor reason corr w]; rule keeps_unique_same)
      (simp_all add: transitioned_def Let_def upload_key_def)
  show "keeps_unique w (snd (add_inspection mk w))" for mk w
    by (auto simp: add_inspection_eq Let_def unique_rows_def upload_key_def)
  show "keeps_unique w (review_tasks_update (update_where P g) w)"
    if "\<And>k. P k \<Longrightarrow> rev_tenant k = t \<and> rev_status k = ''OPEN'' \<and> rev_tenant (g k) = t \<and> rev_id (g k) = rev_id k \<and>
          rev_inspection_id (g k) = rev_inspection_id k" for P g w
    using that by (intro keeps_unique_same) simp_all
  show "keeps_unique w (snd (update_incident cid t h w))"
    if "\<And>ci. incident_identity (h ci) = incident_identity ci" for cid h w
    using that by (intro keeps_unique_same) (simp_all add: update_incident_def)
  show "keeps_unique w (snd (update_action xid t q w))"
    if "\<And>x. action_identity (q x) = action_identity x" for xid q w
    using that by (intro keeps_unique_same) (simp_all add: update_action_def action_key_def)
qed (auto simp: unique_rows_def set_failure_reason_def update_event_def update_gateway_def update_deployment_def
      update_qualification_def update_dataset_def upload_key_def image_key_def attempt_key_def action_key_def)

interpretation unique: system_frame keeps_unique "\<lambda>_. True"
  by unfold_locales (simp_all add: unique_rows_def settle_def rollback_def)

lemma reachable_unique: "unique_rows start \<Longrightarrow> reachable start w \<Longrightarrow> unique_rows w"
  using unique.R_reachable by blast

lemma example_world_unique: "unique_rows example_world"
  by (simp add: unique_rows_def run_simps)



section \<open>A review task is decided once\<close>

definition task_decided :: "string \<Rightarrow> world \<Rightarrow> bool" where
  "task_decided rid w \<longleftrightarrow> (\<exists>k \<in> set (review_tasks w). rev_id k = rid \<and> rev_status k \<noteq> ''OPEN'')"

lemma task_decided_kept: "append_only w w' \<Longrightarrow> task_decided rid w \<Longrightarrow> task_decided rid w'"
  by (auto simp: append_only_def tasks_kept_def task_decided_def)

lemma decided_no_row:
  assumes "unique_rows w" "task_decided rid w"
  shows "count_where (decidable rid tid v) (review_tasks w) = 0"
  using assms
  by (auto simp: unique_rows_def task_decided_def count_where_def filter_empty_conv decidable_def is_task_def
      distinct_map inj_on_def)

lemma decide_decided:
  assumes "unique_rows w" "task_decided rid w"
  shows "\<exists>e. fst (decide_review env pr rid rq corr w) = Inl e"
  using decided_no_row [OF assms]
  by (auto simp: decide_review_def Let_def bnd_def andthen_def update_review_tasks_def split: option.split)

text \<open>What a decision that returns found and left.\<close>

definition decided_tasks :: "Principal \<Rightarrow> string \<Rightarrow> int \<Rightarrow> world \<Rightarrow> world" where
  "decided_tasks pr rid v w = review_tasks_update (update_where (decidable rid (tenant_id pr) v)
     (\<lambda>t. t\<lparr>rev_status := ''COMPLETED'', rev_assignee := Some (actor_id pr), rev_version := rev_version t + 1\<rparr>)) w"

lemma decide_returns:
  assumes "decide_review env pr rid rq corr w = (Inr r, w')"
  obtains task where "find (is_task rid (tenant_id pr)) (review_tasks w) = Some task"
    "rev_assignee task = None \<or> rev_assignee task = Some (actor_id pr)"
    "high_risk (rq_decision rq) \<longrightarrow> QUALITY_MANAGER \<in> roles pr"
    "count_where (decidable rid (tenant_id pr) (rq_expected_version rq)) (review_tasks w) = 1"
    "complete_review env pr task rq corr (decided_tasks pr rid (rq_expected_version rq) w) = (Inr r, w')"
  using assms by (auto simp: decide_review_def Let_def bnd_def andthen_def update_review_tasks_def decided_tasks_def
      split: option.splits if_splits)

lemma count_one: "count_where P xs = 1 \<Longrightarrow> \<exists>x \<in> set xs. P x"
  by (metis count_where_def filter_False list.size(3) zero_neq_one)

lemma decided_tasks_decided:
  assumes "count_where (decidable rid (tenant_id pr) v) (review_tasks w) = 1"
  shows "task_decided rid (decided_tasks pr rid v w)"
proof -
  obtain k where "k \<in> set (review_tasks w)" "decidable rid (tenant_id pr) v k"
    using count_one [OF assms] by blast
  then show ?thesis
    unfolding task_decided_def decided_tasks_def
    by (intro bexI [of _ "k\<lparr>rev_status := ''COMPLETED'', rev_assignee := Some (actor_id pr), rev_version := rev_version k + 1\<rparr>"])
      (auto simp: set_update_where decidable_def is_task_def)
qed

lemma decide_leaves_decided:
  assumes "decide_review env pr rid rq corr w = (Inr r, w')" "tenant_id pr \<noteq> []"
  shows "task_decided rid w'"
proof -
  obtain task where "count_where (decidable rid (tenant_id pr) (rq_expected_version rq)) (review_tasks w) = 1"
    and rest: "complete_review env pr task rq corr (decided_tasks pr rid (rq_expected_version rq) w) = (Inr r, w')"
    using assms(1) by (rule decide_returns)
  then have "task_decided rid (decided_tasks pr rid (rq_expected_version rq) w)" by (intro decided_tasks_decided)
  moreover have "append_only (decided_tasks pr rid (rq_expected_version rq) w) w'"
    using keepsD [OF history_store.keeps_complete_review [OF refl assms(2) TrueI] rest] .
  ultimately show ?thesis by (rule task_decided_kept [rotated])
qed

lemma reachable_decided:
  assumes "decide_review env pr rid rq corr w = (Inr r, w1)" "tenant_id pr \<noteq> []" "reachable (settle w1) w2"
  shows "task_decided rid w2"
proof -
  have "task_decided rid (settle w1)"
    using decide_leaves_decided [OF assms(1,2)] by (simp add: task_decided_def settle_def)
  then show ?thesis using task_decided_kept history.R_reachable [OF assms(3)] by blast
qed

text \<open>C9. A review task is decided once: after a decision returned, no decision on the same task ever returns
  again, whoever sends it, with whatever version, after any other requests and worker rounds. Of two
  reviewers who race, one gets an error.\<close>

theorem review_decided_once:
  assumes "unique_rows w" "tenant_id pr \<noteq> []" "decide_review env pr rid rq corr w = (Inr r, w1)"
    and "reachable (settle w1) w2"
  shows "\<exists>e. fst (decide_review env' pr' rid rq' corr' w2) = Inl e"
proof -
  have "unique_rows w1"
    using keepsD [OF unique_store.keeps_decide_review [OF refl assms(2) TrueI] assms(3)] assms(1) by blast
  then have "unique_rows w2"
    using reachable_unique [OF _ assms(4)] by (simp add: unique_rows_def settle_def)
  then show ?thesis by (rule decide_decided) (rule reachable_decided [OF assms(3,2,4)])
qed

text \<open>A decision that returns was allowed: the task was open in the caller's tenant at the version the caller
  saw, unassigned or assigned to the caller, a decision of high risk was taken by a quality manager, and the
  answer carries the next version.\<close>

theorem review_decision_allowed:
  assumes "unique_rows w" "decide_review env pr rid rq corr w = (Inr r, w1)"
  shows "\<exists>k \<in> set (review_tasks w). rev_id k = rid \<and> rev_tenant k = tenant_id pr \<and> rev_status k = ''OPEN'' \<and>
    rev_version k = rq_expected_version rq \<and> rev_assignee k \<in> {None, Some (actor_id pr)} \<and>
    rx_task_version r = rev_version k + 1 \<and>
    (high_risk (rq_decision rq) \<longrightarrow> QUALITY_MANAGER \<in> roles pr)"
proof -
  obtain task where task: "find (is_task rid (tenant_id pr)) (review_tasks w) = Some task"
    "rev_assignee task \<in> {None, Some (actor_id pr)}" "high_risk (rq_decision rq) \<longrightarrow> QUALITY_MANAGER \<in> roles pr"
    and one: "count_where (decidable rid (tenant_id pr) (rq_expected_version rq)) (review_tasks w) = 1"
    and rest: "complete_review env pr task rq corr (decided_tasks pr rid (rq_expected_version rq) w) = (Inr r, w1)"
    using assms(2) by (auto elim!: decide_returns)
  obtain k where k: "k \<in> set (review_tasks w)" "decidable rid (tenant_id pr) (rq_expected_version rq) k"
    using count_one [OF one] by blast
  have "k = task"
    using k find_SomeD1 [OF task(1)] find_SomeD2 [OF task(1)] assms(1)
    by (auto simp: unique_rows_def decidable_def is_task_def distinct_map inj_on_def)
  moreover have "rx_task_version r = rq_expected_version rq + 1"
    using rest by (auto simp: complete_review_def Let_def bnd_returns andthen_def split: option.splits if_splits)
  ultimately show ?thesis
    using k task(2,3) by (intro bexI [of _ k]) (simp_all add: decidable_def is_task_def)
qed

definition example_task :: string where
  "example_task = new_id ''rev'' 15"

lemma example_decision_returns:
  "\<exists>r w1. decide_review (example_env (3 / 5)) inspector example_task good_decision ''c'' grey_run = (Inr r, w1)"
  by (simp add: example_task_def grey_run_def upload_simps decide_review_def
      complete_review_def is_task_def decidable_def high_risk_def decision_target_def count_where_def
      update_review_tasks_def insert_review_decision_def run_simps)

lemma grey_run_unique: "unique_rows grey_run"
  by (rule reachable_unique [OF example_world_unique runs_reachable(2)])

lemma inspector_tenant: "tenant_id inspector \<noteq> []"
  by (simp add: inspector_def)

lemma review_decided_once_witness:
  "\<exists>r w1 e. decide_review (example_env (3 / 5)) inspector example_task good_decision ''c'' grey_run = (Inr r, w1) \<and>
     fst (decide_review (example_env (3 / 5)) manager example_task good_decision ''c'' (settle w1)) = Inl e"
  using example_decision_returns review_decided_once [OF grey_run_unique inspector_tenant _ started] by metis

lemma review_decision_allowed_witness:
  "\<exists>k \<in> set (review_tasks grey_run). rev_id k = example_task \<and> rev_status k = ''OPEN'' \<and> rev_version k = 1"
proof -
  obtain r w1 where r: "decide_review (example_env (3 / 5)) inspector example_task good_decision ''c'' grey_run = (Inr r, w1)"
    using example_decision_returns by blast
  show ?thesis using review_decision_allowed [OF grey_run_unique r] good_decision_eval(2) by auto
qed

end
