(* ===== verification/Replay.thy ===== *)
theory Replay
  imports History Runs
begin

text \<open>
  Uploads are idempotent: an idempotency key names one inspection for good, so a client that never saw
  the answer may send the same upload again, at any later moment, and gets the same inspection.
\<close>

lemma find_extends:
  assumes "extends (map g xs) (map g ys)" "\<And>x y. g x = g y \<Longrightarrow> P x = P y" "find P xs = Some x"
  shows "\<exists>y. find P ys = Some y \<and> g y = g x"
  using assms
proof (induction xs arbitrary: ys)
  case (Cons a xs)
  from Cons.prems(1) obtain b zs where ys: "ys = b # zs" "g b = g a" "extends (map g xs) (map g zs)"
    by (cases ys) (auto simp: extends_def)
  show ?case
  proof (cases "P a")
    case True
    then show ?thesis using Cons.prems(2) [OF ys(2)] Cons.prems(3) ys by auto
  next
    case False
    then show ?thesis using Cons.prems(2) [OF ys(2)] Cons.prems(3) ys Cons.IH [OF ys(3) Cons.prems(2)] by auto
  qed
qed simp

lemma inspection_identity_fields:
  "inspection_identity i = inspection_identity j \<Longrightarrow>
     insp_id i = insp_id j \<and> insp_tenant i = insp_tenant j \<and> insp_idempotency_key i = insp_idempotency_key j \<and>
     insp_request_fingerprint i = insp_request_fingerprint j"
  by (cases i; cases j) (simp add: inspection_identity_def)

text \<open>The inspection a key names.\<close>

definition names_inspection :: "string \<Rightarrow> string \<Rightarrow> string \<Rightarrow> string \<Rightarrow> world \<Rightarrow> bool" where
  "names_inspection tid k fp iid w \<longleftrightarrow> (\<exists>i. find (same_request tid k) (inspections w) = Some i \<and>
     insp_id i = iid \<and> insp_tenant i = tid \<and> insp_request_fingerprint i = fp)"

lemma names_inspection_kept:
  assumes "append_only w w'" "names_inspection tid k fp iid w"
  shows "names_inspection tid k fp iid w'"
proof -
  from assms(2) obtain i where i: "find (same_request tid k) (inspections w) = Some i"
    "insp_id i = iid" "insp_tenant i = tid" "insp_request_fingerprint i = fp"
    by (auto simp: names_inspection_def)
  have "extends (map inspection_identity (inspections w)) (map inspection_identity (inspections w'))"
    using assms(1) by (simp add: append_only_def)
  moreover have "same_request tid k x = same_request tid k y" if "inspection_identity x = inspection_identity y" for x y
    using inspection_identity_fields [OF that] by (simp add: same_request_def)
  ultimately obtain j where "find (same_request tid k) (inspections w') = Some j"
    "inspection_identity j = inspection_identity i"
    using find_extends [OF _ _ i(1)] by blast
  with i inspection_identity_fields [of j i] show ?thesis by (simp add: names_inspection_def)
qed

lemma inspection_response_returns:
  "inspection_response iid tid replay w = (Inr resp, w') \<longleftrightarrow>
     w' = w \<and> (\<exists>i. lookup_inspection iid tid w = Some i \<and> resp = response_of i replay w)"
  by (auto simp: inspection_response_def bnd_def split: option.splits)

lemma response_of_fields [simp]: "ir_inspection (response_of i replay w) = i"
  "ir_idempotent_replay (response_of i replay w) = replay"
  by (simp_all add: response_of_def)

lemma inspection_response_id:
  "inspection_response iid tid replay w = (Inr resp, w') \<Longrightarrow> insp_id (ir_inspection resp) = iid"
  by (auto simp: inspection_response_returns dest: lookup_inspectionD)

lemma receive_inspection_id:
  "receive_inspection env pr cx img iid corr w = (Inr resp, w') \<Longrightarrow> insp_id (ir_inspection resp) = iid"
  by (auto simp: receive_inspection_def Let_def bnd_returns andthen_def dest: inspection_response_id)

lemma replayed_names:
  assumes "find (same_request tid k) (inspections w) = Some i" "insp_request_fingerprint i = fp"
    "inspection_response (insp_id i) (insp_tenant i) True w = (Inr resp, w')"
  shows "names_inspection tid k fp (insp_id (ir_inspection resp)) w'"
  using assms inspection_response_id [OF assms(3)]
  by (auto simp: inspection_response_returns names_inspection_def same_request_def dest: find_SomeD1)

lemma find_None_clash: "\<forall>x\<in>set rows. insp_tenant x = t \<longrightarrow> insp_idempotency_key x \<noteq> k \<Longrightarrow> find (same_request t k) rows = None"
  by (auto simp: find_None_iff same_request_def)

lemma add_inspection_names:
  assumes "add_inspection mk w = (Inr (iid, True), w1)"
    "insp_id (mk iid) = iid" "insp_tenant (mk iid) = tid" "insp_idempotency_key (mk iid) = k"
    "insp_request_fingerprint (mk iid) = fp"
  shows "names_inspection tid k fp iid w1"
  using assms
  by (auto simp: add_inspection_eq Let_def names_inspection_def find_None_clash same_request_def split: if_splits)

lemma concurrent_replay_names:
  "concurrent_replay tid k fp w = (Inr resp, w') \<Longrightarrow> names_inspection tid k fp (insp_id (ir_inspection resp)) w'"
  by (auto simp: concurrent_replay_def bnd_def split: option.splits if_splits intro: replayed_names)

lemma new_inspection_names:
  assumes "new_inspection env pr cx img fp k corr w = (Inr resp, w')"
  shows "names_inspection (tenant_id pr) k fp (insp_id (ir_inspection resp)) w'"
proof -
  from assms obtain mk iid inserted w0 w1 where
    added: "add_inspection mk w0 = (Inr (iid, inserted), w1)"
    and row: "\<And>iid. insp_id (mk iid) = iid" "\<And>iid. insp_tenant (mk iid) = tenant_id pr"
      "\<And>iid. insp_idempotency_key (mk iid) = k" "\<And>iid. insp_request_fingerprint (mk iid) = fp"
    and rest: "(if inserted then receive_inspection env pr cx img iid corr
      else concurrent_replay (tenant_id pr) k fp) w1 = (Inr resp, w')"
    by (auto simp: new_inspection_def Let_def bnd_returns split: if_splits)
  show ?thesis
  proof (cases inserted)
    case True
    with rest have r: "receive_inspection env pr cx img iid corr w1 = (Inr resp, w')" by simp
    have "names_inspection (tenant_id pr) k fp iid w1"
      using added True row by (intro add_inspection_names) simp_all
    then show ?thesis
      using keepsD [OF history_store.keeps_receive_inspection [OF refl] r] receive_inspection_id [OF r]
      by (simp add: names_inspection_kept)
  next
    case False
    with rest show ?thesis by (simp add: concurrent_replay_names)
  qed
qed

lemma create_inspection_names:
  assumes "create_inspection env btw pr cx bytes ct k corr w = (Inr resp, w')"
  shows "\<exists>img. validate_image env bytes ct = Inr img \<and>
    names_inspection (tenant_id pr) k (request_fingerprint env img cx) (insp_id (ir_inspection resp)) w'"
  using assms
  by (auto simp: create_inspection_def andthen_def bnd_returns Let_def
      intro: replayed_names new_inspection_names split: sum.splits exn.splits error_kind.splits option.splits if_splits)

text \<open>The binding of a gateway to the active pack, when the caller is one.\<close>

definition gateway_admitted :: "Principal \<Rightarrow> world \<Rightarrow> bool" where
  "gateway_admitted pr w \<longleftrightarrow> EDGE_GATEWAY \<in> roles pr \<longrightarrow>
     (\<exists>d m. active_deployment (tenant_id pr) w = (Inr d, w) \<and> deployment_manifest d w = (Inr m, w) \<and>
        assert_gateway_pack_binding pr m w = (Inr (), w))"

lemma gateway_admitted_check:
  "gateway_admitted pr w \<Longrightarrow> run_if (EDGE_GATEWAY \<in> roles pr)
     (bnd (active_deployment (tenant_id pr)) (\<lambda>d.
      bnd (deployment_manifest d) (assert_gateway_pack_binding pr))) w = (Inr (), w)"
  by (auto simp: gateway_admitted_def run_if_def)

lemma named_response:
  assumes "names_inspection tid k fp iid w"
  shows "\<exists>resp. inspection_response iid tid True w = (Inr resp, w) \<and> ir_idempotent_replay resp \<and>
    insp_id (ir_inspection resp) = iid"
proof -
  from assms have "lookup_inspection iid tid w \<noteq> None"
    by (auto simp: names_inspection_def lookup_inspection_def find_None_iff is_inspection_def dest: find_SomeD2)
  then obtain j where "lookup_inspection iid tid w = Some j" by blast
  then show ?thesis by (auto simp: inspection_response_returns dest: lookup_inspectionD)
qed

lemma create_inspection_known:
  assumes "validate_image env bytes ct = Inr img" "names_inspection (tenant_id pr) k fp iid w" "gateway_admitted pr w"
  shows "create_inspection env btw pr cx bytes ct k corr w =
    (if fp = request_fingerprint env img cx then inspection_response iid (tenant_id pr) True w
     else (Inl (ServiceError Conflict ''idempotency key was already used with a different request'' None), w))"
proof -
  from assms(2) obtain i where "find (same_request (tenant_id pr) k) (inspections w) = Some i"
    "insp_id i = iid" "insp_tenant i = tenant_id pr" "insp_request_fingerprint i = fp"
    by (auto simp: names_inspection_def)
  with assms(1) gateway_admitted_check [OF assms(3)] show ?thesis
    by (simp add: create_inspection_def andthen_def Let_def)
qed

lemma settled_names: "names_inspection tid k fp iid w \<Longrightarrow> reachable (settle w) w' \<Longrightarrow> names_inspection tid k fp iid w'"
  using names_inspection_kept [OF history.R_reachable, of "settle w" w' tid k fp iid]
  by (simp add: names_inspection_def settle_def)

text \<open>C8. Uploads are idempotent. Once an upload was answered with an inspection, the same upload (the same
  image, context and idempotency key, by a caller still admitted) sent again at any later moment, after any
  requests, worker rounds and rollbacks, is answered with that inspection, marked as a replay, and changes
  nothing: a client that lost the answer may retry for ever.\<close>

theorem upload_idempotent:
  assumes "create_inspection env btw pr cx bytes ct k corr w = (Inr resp, w1)"
    and "reachable (settle w1) w2" "gateway_admitted pr w2"
  shows "\<exists>resp'. create_inspection env btw' pr cx bytes ct k corr' w2 = (Inr resp', w2) \<and>
    ir_idempotent_replay resp' \<and> insp_id (ir_inspection resp') = insp_id (ir_inspection resp)"
proof -
  from create_inspection_names [OF assms(1)] obtain img where img: "validate_image env bytes ct = Inr img"
    and "names_inspection (tenant_id pr) k (request_fingerprint env img cx) (insp_id (ir_inspection resp)) w1"
    by blast
  then have "names_inspection (tenant_id pr) k (request_fingerprint env img cx) (insp_id (ir_inspection resp)) w2"
    using assms(2) by (blast intro: settled_names)
  then show ?thesis
    using create_inspection_known [OF img _ assms(3)] named_response by metis
qed

text \<open>An idempotency key is never reused for another request: once a key names an inspection, an upload
  with that key and any other image or context is answered with a conflict at every later moment and
  changes nothing.\<close>

theorem key_reuse_conflicts:
  assumes "create_inspection env btw pr cx bytes ct k corr w = (Inr resp, w1)"
    and "validate_image env bytes ct = Inr img" "validate_image env bytes' ct' = Inr img'"
    and "request_fingerprint env img' cx' \<noteq> request_fingerprint env img cx"
    and "reachable (settle w1) w2" "gateway_admitted pr w2"
  shows "create_inspection env btw' pr cx' bytes' ct' k corr' w2 =
    (Inl (ServiceError Conflict ''idempotency key was already used with a different request'' None), w2)"
proof -
  have "names_inspection (tenant_id pr) k (request_fingerprint env img cx) (insp_id (ir_inspection resp)) w2"
    using create_inspection_names [OF assms(1)] assms(2,5) by (auto intro: settled_names)
  from create_inspection_known [OF assms(3) this assms(6)] assms(4) show ?thesis by simp
qed

lemma example_upload_returns:
  "\<exists>resp w1. create_inspection (example_env (1 / 10)) id inspector example_context ''img'' (Some ''image/png'')
     ''key-0001'' ''c'' example_world = (Inr resp, w1)"
  by (simp add: upload_simps)

lemma inspector_admitted: "gateway_admitted inspector w"
  by (simp add: gateway_admitted_def inspector_def)

lemma upload_idempotent_witness:
  "\<exists>resp w1 resp'. create_inspection (example_env (1 / 10)) id inspector example_context ''img'' (Some ''image/png'')
     ''key-0001'' ''c'' example_world = (Inr resp, w1) \<and>
   create_inspection (example_env (1 / 10)) id inspector example_context ''img'' (Some ''image/png'')
     ''key-0001'' ''again'' (settle w1) = (Inr resp', settle w1) \<and> ir_idempotent_replay resp'"
  using example_upload_returns upload_idempotent [OF _ started inspector_admitted] by meson

definition other_context :: InspectionContext where
  "other_context = example_context\<lparr>cx_batch_no := ''B2''\<rparr>"

lemma other_fingerprint:
  "request_fingerprint (example_env x) example_image other_context
     \<noteq> request_fingerprint (example_env x) example_image example_context"
  by code_simp

lemma key_reuse_conflicts_witness:
  "\<exists>w1 e. create_inspection (example_env (1 / 10)) id inspector other_context ''img'' (Some ''image/png'')
     ''key-0001'' ''again'' (settle w1) = (Inl e, settle w1)"
proof -
  obtain resp w1 where "create_inspection (example_env (1 / 10)) id inspector example_context ''img''
      (Some ''image/png'') ''key-0001'' ''c'' example_world = (Inr resp, w1)"
    using example_upload_returns by blast
  from key_reuse_conflicts [OF this intake_eval(1) intake_eval(1) other_fingerprint started inspector_admitted]
  show ?thesis by blast
qed

end
