(* ===== verification/ModelOps.thy ===== *)
theory ModelOps
  imports Api Examples
begin

text \<open>
  \<open>modelops_status\<close> of \<^verbatim>\<open>backend/app/services.py\<close>, the status of the model of a tenant for the
  dashboard, and the endpoints of \<^verbatim>\<open>backend/app/api.py\<close> that answer it and issue the demonstration token.
\<close>

section \<open>The report on disk\<close>

text \<open>
  A file of the report directory is absent, unreadable or not JSON, or a document. The directory of a factory and
  product is a parameter, and so is \<open>int\<close> of a text.
\<close>

datatype report_read = NoFile | Broken | Document json

record report_dir =
  rd_exists :: bool
  rd_file :: "string \<Rightarrow> report_read"
  rd_mtime :: time
  rd_path :: string

record ops_env =
  oe_reports :: "string \<Rightarrow> string \<Rightarrow> report_dir"
  oe_int_of :: "string \<Rightarrow> int option"

definition factory_of :: "string \<Rightarrow> string" where
  "factory_of tid = (if tid = ''factory-a'' then ''Factory A'' else ''Factory B'')"

definition insufficient_status :: "string \<Rightarrow> string" where
  "insufficient_status source_type = (if source_type = ''CUSTOMER_PILOT''
     then ''CUSTOMER_PILOT_INSUFFICIENT_EVIDENCE'' else ''BENCHMARK_INSUFFICIENT_EVIDENCE'')"

text \<open>What the three files contribute.\<close>

record ops_report =
  or_qualification_status :: string
  or_report_status :: string
  or_metrics :: json
  or_gates :: json
  or_evidence_sha256 :: json

definition read_binding :: "report_dir \<Rightarrow> string \<Rightarrow> DatasetRegistrationRecord \<Rightarrow> exn + bool" where
  "read_binding dir source_type d = (case rd_file dir ''provenance.json'' of
     Document j \<Rightarrow> andThen (as_dict j) (\<lambda>p. Inr (get_or_null ''source_type'' p = JStr source_type \<and>
       get_or_null ''dataset_fingerprint'' p = JStr (ds_fingerprint d)))
   | _ \<Rightarrow> Inr False)"

definition broken_report :: "string \<Rightarrow> ops_report \<Rightarrow> ops_report" where
  "broken_report source_type r = r\<lparr>or_qualification_status := insufficient_status source_type,
     or_report_status := insufficient_status source_type\<rparr>"

definition read_report_metrics :: "report_dir \<Rightarrow> string \<Rightarrow> ops_report \<Rightarrow> exn + ops_report" where
  "read_report_metrics dir source_type r = (case rd_file dir ''metrics.json'' of
     NoFile \<Rightarrow> Inr r
   | Broken \<Rightarrow> Inr (broken_report source_type r)
   | Document j \<Rightarrow> andThen (as_dict j) (\<lambda>p.
       Inr (r\<lparr>or_metrics := get_default ''metrics'' (JObj []) p, or_gates := get_default ''gates'' (JObj []) p\<rparr>)))"

definition py_text :: "env \<Rightarrow> json \<Rightarrow> string" where
  "py_text env j = (case j of JStr s \<Rightarrow> s | _ \<Rightarrow> py_str env j)"

definition read_report_decision ::
  "env \<Rightarrow> report_dir \<Rightarrow> string \<Rightarrow> ModelQualification option \<Rightarrow> ops_report \<Rightarrow> exn + ops_report" where
  "read_report_decision env dir source_type q r = (case rd_file dir ''release-decision.json'' of
     NoFile \<Rightarrow> Inr r
   | Broken \<Rightarrow> Inr (broken_report source_type r)
   | Document j \<Rightarrow> andThen (as_dict j) (\<lambda>p.
       let s = py_text env (get_default ''decision'' (JStr (or_report_status r)) p);
           r' = r\<lparr>or_evidence_sha256 := get_or_null ''evidence_package_sha256'' p\<rparr> in
       Inr (if q = None then r'\<lparr>or_report_status := s, or_qualification_status := s\<rparr> else r')))"

definition initial_report :: "ModelQualification option \<Rightarrow> DatasetRegistrationRecord option \<Rightarrow> string \<Rightarrow> ops_report" where
  "initial_report q d source_type =
     (let s = (case q of Some x \<Rightarrow> mq_qualification_status x
        | None \<Rightarrow> if d = None then ''DEMO_ONLY'' else insufficient_status source_type) in
     \<lparr>or_qualification_status = s, or_report_status = s, or_metrics = JObj [], or_gates = JObj [],
      or_evidence_sha256 = JNull\<rparr>)"

definition ops_report_of ::
  "env \<Rightarrow> report_dir \<Rightarrow> ModelQualification option \<Rightarrow> DatasetRegistrationRecord option \<Rightarrow> string \<Rightarrow> exn + ops_report" where
  "ops_report_of env dir q d source_type =
     (let start = initial_report q d source_type in
     case d of
       None \<Rightarrow> Inr (start\<lparr>or_report_status := ''DEMO_ONLY'', or_qualification_status := ''DEMO_ONLY''\<rparr>)
     | Some x \<Rightarrow>
         andThen (read_binding dir source_type x) (\<lambda>bound.
         andThen (if bound then andThen (read_report_metrics dir source_type start)
             (read_report_decision env dir source_type q) else Inr start) (\<lambda>r.
         Inr (case q of None \<Rightarrow> r | Some y \<Rightarrow> r\<lparr>or_report_status := mq_qualification_status y\<rparr>))))"

section \<open>Gates and counts\<close>

fun checks_are_safe :: "(string \<times> json) list \<Rightarrow> exn + bool" where
  "checks_are_safe [] = Inr True"
| "checks_are_safe ((name, c) # rest) =
     andThen (as_dict c) (\<lambda>d. case get_or_null ''status'' d of
         JList _ \<Rightarrow> Inl (OtherError ''TypeError'' ''unhashable type'')
       | JObj _ \<Rightarrow> Inl (OtherError ''TypeError'' ''unhashable type'')
       | s \<Rightarrow> if s \<in> {JStr ''PASS'', JStr ''NOT_APPLICABLE''} then checks_are_safe rest else Inr False)"

definition gate_values_are_safe :: "json \<Rightarrow> exn + bool" where
  "gate_values_are_safe gates =
     (let checks = (case gates of JObj g \<Rightarrow> get_default ''checks'' (JObj []) g | _ \<Rightarrow> JObj []) in
      if \<not> json_truthy checks then Inr False else andThen (as_dict checks) checks_are_safe)"

text \<open>\<open>int(x or 0)\<close>.\<close>

definition int_or_zero :: "ops_env \<Rightarrow> json \<Rightarrow> exn + int" where
  "int_or_zero oe j = (if \<not> json_truthy j then Inr 0 else (case j of
       JInt i \<Rightarrow> Inr i
     | JBool b \<Rightarrow> Inr 1
     | JFloat x \<Rightarrow> Inr (if x \<ge> 0 then floor x else ceiling x)
     | JStr s \<Rightarrow> (case oe_int_of oe s of None \<Rightarrow> Inl (OtherError ''ValueError'' s) | Some i \<Rightarrow> Inr i)
     | _ \<Rightarrow> Inl (OtherError ''TypeError'' ''int'')))"

definition consents :: "DatasetRegistrationRecord \<Rightarrow> exn + bool" where
  "consents d = andThen (as_dict (get_default ''customer_provenance'' (JObj []) (ds_metadata d))) (\<lambda>p.
     Inr (get_or_null ''consent'' p = JBool True))"

definition customer_data_gate :: "DatasetRegistrationRecord option \<Rightarrow> string \<Rightarrow> exn + string" where
  "customer_data_gate d source_type =
     andThen (case d of
         Some x \<Rightarrow> if source_type = ''CUSTOMER_PILOT'' \<and> ds_status x = ''VALIDATED'' then consents x else Inr False
       | None \<Rightarrow> Inr False) (\<lambda>pass.
     Inr (if pass then ''PASS'' else if source_type \<noteq> ''CUSTOMER_PILOT'' then ''BLOCKED_NO_CUSTOMER_DATA''
       else ''BLOCKED_CUSTOMER_PROVENANCE_INCOMPLETE''))"

definition activation_is_allowed :: "ModelQualification option \<Rightarrow> string \<Rightarrow> string \<Rightarrow> exn + bool" where
  "activation_is_allowed q source_type gate = (case q of
     None \<Rightarrow> Inr False
   | Some x \<Rightarrow> if mq_status x \<noteq> ''APPROVED'' then Inr False
       else andThen (as_dict (mq_gates x)) (\<lambda>g. Inr (get_or_null ''decision'' g = JStr ''GO'' \<and>
         source_type = ''CUSTOMER_PILOT'' \<and> gate = ''PASS'')))"

section \<open>The answer\<close>

record ModelOpsStatusResponse =
  ms_tenant_id :: string
  ms_pack_key :: string
  ms_deployment_version :: string
  ms_deployment_status :: string
  ms_product_code :: string
  ms_model :: ModelDefinition
  ms_package_verified :: bool
  ms_model_release_status :: string
  ms_smoke_checks :: "bool \<times> int \<times> int"
  ms_test_samples :: int
  ms_mvtec_metrics_available :: bool
  ms_calibration_constraints_satisfied :: bool
  ms_report_generated_at :: time
  ms_evidence_source :: string
  ms_limitations :: "string list"
  ms_release_recommendation :: "string list"
  ms_qualification_status :: string
  ms_model_package_sha256 :: "string option"
  ms_evidence_package_sha256 :: "string option"
  ms_gate_results :: "(string \<times> json) list"
  ms_activation_allowed :: bool
  ms_dataset_source_type :: string
  ms_dataset_source_status :: "string option"
  ms_dataset_registration_id :: "string option"
  ms_dataset_fingerprint :: "string option"
  ms_report_status :: string
  ms_customer_data_gate :: string
  ms_risk_labels :: "string list"

definition RELEASE_STATUSES :: "string list" where
  "RELEASE_STATUSES = [''DRAFT'', ''EVALUATED'', ''APPROVED'', ''ACTIVE'', ''RETIRED'', ''INSUFFICIENT_EVIDENCE'', ''REJECTED'']"

definition ops_limitations :: "string list" where
  "ops_limitations =
     [''A release must be refused when the package digests of the qualification and the model do not match.'',
      ''DEMO_SYNTHETIC only demonstrates the workflow and must not be used for effect claims.'',
      ''MVTec AD is for Benchmark Qualification / Pre-Pilot Lab Validation only and says nothing about a factory.'',
      ''Pilot approval needs complete CUSTOMER_PILOT provenance and a passed customer data gate.'']"

definition ops_recommendation :: "string list" where
  "ops_recommendation =
     [''Stay DEMO_ONLY without optional data; the demo fixture is no evidence of effect.'',
      ''MVTec results reach at most BENCHMARK_PASS / READY_FOR_CUSTOMER_DATA, never APPROVED/ACTIVE.'',
      ''Evaluate and calibrate again with customer data and its complete provenance.'',
      ''Apply for release after the shadow comparison, the review of feedback and of the rollback conditions.'']"

text \<open>The constraints of the response model on the values read from files.\<close>

definition response_text :: "json \<Rightarrow> exn + string option" where
  "response_text j = (case j of JNull \<Rightarrow> Inr None | JStr s \<Rightarrow> Inr (Some s) | _ \<Rightarrow> Inl (OtherError ''ValidationError'' ''string_type''))"

definition response_dict :: "json \<Rightarrow> exn + (string \<times> json) list" where
  "response_dict j = (case j of JObj kvs \<Rightarrow> Inr kvs | _ \<Rightarrow> Inl (OtherError ''ValidationError'' ''dict_type''))"

definition ops_response ::
  "env \<Rightarrow> ops_env \<Rightarrow> string \<Rightarrow> DeploymentPack \<Rightarrow> DeploymentManifest \<Rightarrow> string \<Rightarrow> ModelQualification option \<Rightarrow>
   DatasetRegistrationRecord option \<Rightarrow> exn + ModelOpsStatusResponse" where
  "ops_response env oe tid d m product q ds =
     (let source_type = (case ds of None \<Rightarrow> ''DEMO_SYNTHETIC'' | Some x \<Rightarrow> ds_source_type x);
          dir = oe_reports oe (factory_of tid) product;
          release_status = (case q of None \<Rightarrow> ''DRAFT'' | Some x \<Rightarrow> mq_status x) in
      if source_type \<notin> {''DEMO_SYNTHETIC'', ''OFFICIAL_BENCHMARK'', ''CUSTOMER_PILOT''}
      then Inl (OtherError ''ValueError'' ''DatasetSourceType'')
      else if (case ds of None \<Rightarrow> False | Some x \<Rightarrow> ds_status x \<notin> {''DRAFT'', ''VALIDATED'', ''REVOKED''})
      then Inl (OtherError ''ValueError'' ''DatasetRegistrationStatus'')
      else
        andThen (customer_data_gate ds source_type) (\<lambda>gate.
        andThen (ops_report_of env dir q ds source_type) (\<lambda>r.
        andThen (gate_values_are_safe (or_gates r)) (\<lambda>safe.
        andThen (as_dict (or_metrics r)) (\<lambda>metrics.
        andThen (int_or_zero oe (get_default ''test_samples'' (get_default ''sample_count'' (JInt 0) metrics) metrics)) (\<lambda>samples.
        andThen (activation_is_allowed q source_type gate) (\<lambda>allowed.
        andThen (if release_status \<in> set RELEASE_STATUSES then Inr () else Inl (OtherError ''ValidationError'' ''literal_error'')) (\<lambda>_.
        andThen (response_text (or_evidence_sha256 r)) (\<lambda>evidence_sha.
        andThen (response_dict (or_gates r)) (\<lambda>gate_results.
        Inr \<lparr>ms_tenant_id = tid, ms_pack_key = pack_key m, ms_deployment_version = version m,
          ms_deployment_status = dep_status d, ms_product_code = product, ms_model = model m,
          ms_package_verified = truthy (md_package_sha256 (model m)), ms_model_release_status = release_status,
          ms_smoke_checks = (True, 1, 1), ms_test_samples = samples,
          ms_mvtec_metrics_available = (source_type = ''OFFICIAL_BENCHMARK'' \<and> get_or_null ''image_auroc'' metrics \<noteq> JNull),
          ms_calibration_constraints_satisfied = safe,
          ms_report_generated_at = (if rd_exists dir then rd_mtime dir else 1785854280000000),
          ms_evidence_source = (if rd_exists dir then rd_path dir else ''reports/pilot-qualification (not available)''),
          ms_limitations = md_limitations (model m) @ ops_limitations, ms_release_recommendation = ops_recommendation,
          ms_qualification_status = or_qualification_status r,
          ms_model_package_sha256 = (if truthy (md_package_sha256 (model m)) then md_package_sha256 (model m) else None),
          ms_evidence_package_sha256 = evidence_sha, ms_gate_results = gate_results, ms_activation_allowed = allowed,
          ms_dataset_source_type = source_type, ms_dataset_source_status = map_option ds_status ds,
          ms_dataset_registration_id = map_option ds_id ds, ms_dataset_fingerprint = map_option ds_fingerprint ds,
          ms_report_status = or_report_status r, ms_customer_data_gate = gate,
          ms_risk_labels = (case ds of None \<Rightarrow> [''DEMO_ONLY'', ''NO_EFFECT_CLAIM''] | Some x \<Rightarrow> ds_risk_labels x)\<rparr>))))))))))"

text \<open>The newest data set of the category that is not revoked.\<close>

definition newest_dataset :: "string \<Rightarrow> string \<Rightarrow> world \<Rightarrow> DatasetRegistrationRecord option" where
  "newest_dataset tid category w = (case sort_key (\<lambda>d. - ds_created_at d)
     (filter (\<lambda>d. ds_tenant d = tid \<and> ds_category d = category \<and> ds_status d \<noteq> ''REVOKED'') (dataset_registrations w)) of
       [] \<Rightarrow> None | d # _ \<Rightarrow> Some d)"

definition modelops_status :: "env \<Rightarrow> ops_env \<Rightarrow> string \<Rightarrow> ModelOpsStatusResponse svc" where
  "modelops_status env oe tid =
     bnd (active_deployment tid) (\<lambda>d.
     bnd (deployment_manifest d) (\<lambda>m.
     case products m of
       [] \<Rightarrow> raise_error DependencyUnavailable ''active deployment pack has no product evidence''
     | p # _ \<Rightarrow>
         bnd (fetch model_qualifications (\<lambda>q. mq_tenant q = tid \<and> mq_product_code q = pd_code p \<and>
           mq_model_id q = md_id (model m) \<and> mq_model_version q = md_version (model m))) (\<lambda>q.
         bnd (query (newest_dataset tid (pd_code p))) (\<lambda>ds.
         lift_result (ops_response env oe tid d m (pd_code p) q ds)))))"

section \<open>Endpoints\<close>

definition api_modelops_status :: "env \<Rightarrow> ops_env \<Rightarrow> Principal \<Rightarrow> ModelOpsStatusResponse svc" where
  "api_modelops_status env oe pr = guarded [INSPECTOR, QUALITY_MANAGER, ML_ENGINEER, ADMIN, AUDITOR, FDE] pr
     (modelops_status env oe (tenant_id pr))"

text \<open>The token of the demonstration, by its claims.\<close>

record DemoTokenResponse =
  dt_claims :: "(string \<times> json) list"
  dt_tenant_id :: string
  dt_actor_id :: string
  dt_roles :: "string list"

definition api_demo_token :: "env \<Rightarrow> DemoTokenResponse svc" where
  "api_demo_token env =
     (if environment (settings env) = ''production'' then throw (HTTPException 404 ''not found'')
      else
        let rs = [INSPECTOR, QUALITY_MANAGER, AUDITOR, FDE]; actor = ''demo-quality-manager'';
            tid = bootstrap_tenant_id (settings env) in
        query (\<lambda>w. \<lparr>dt_claims = access_token_claims (auth_issuer (settings env)) (access_token_minutes (settings env))
            (clock w) actor tid rs None,
          dt_tenant_id = tid, dt_actor_id = actor, dt_roles = map role_value rs\<rparr>))"

section \<open>What the status says\<close>

lemma sort_key_first: "sort_key f xs = x # ys \<Longrightarrow> x \<in> set xs"
  by (metis list.set_intros(1) set_sort)

text \<open>The data set the status looks at is the newest of those not revoked.\<close>

lemma sort_key_least: "sort_key f xs = x # ys \<Longrightarrow> y \<in> set xs \<Longrightarrow> f x \<le> f y"
proof -
  assume s: "sort_key f xs = x # ys" and y: "y \<in> set xs"
  have "sorted (map f (x # ys))" using sorted_sort_key [of f xs] by (simp only: s)
  moreover have "y \<in> set (x # ys)" using y s by (metis set_sort)
  ultimately show ?thesis by auto
qed

lemma newest_dataset_Some:
  assumes "newest_dataset tid category w = Some d"
  shows "d \<in> set (dataset_registrations w)" "ds_tenant d = tid" "ds_category d = category" "ds_status d \<noteq> ''REVOKED''"
    and "d' \<in> set (dataset_registrations w) \<Longrightarrow> ds_tenant d' = tid \<Longrightarrow> ds_category d' = category \<Longrightarrow>
      ds_status d' \<noteq> ''REVOKED'' \<Longrightarrow> ds_created_at d' \<le> ds_created_at d"
proof -
  let ?rows = "filter (\<lambda>d. ds_tenant d = tid \<and> ds_category d = category \<and> ds_status d \<noteq> ''REVOKED'') (dataset_registrations w)"
  obtain ds where s: "sort_key (\<lambda>d. - ds_created_at d) ?rows = d # ds"
    using assms by (auto simp: newest_dataset_def split: list.splits)
  then have "d \<in> set ?rows" by (rule sort_key_first)
  then show "d \<in> set (dataset_registrations w)" "ds_tenant d = tid" "ds_category d = category" "ds_status d \<noteq> ''REVOKED''"
    by simp_all
  show "ds_created_at d' \<le> ds_created_at d"
    if "d' \<in> set (dataset_registrations w)" "ds_tenant d' = tid" "ds_category d' = category" "ds_status d' \<noteq> ''REVOKED''"
    using sort_key_least [OF s, of d'] that by simp
qed

lemma modelops_status_Inr:
  assumes "modelops_status env oe tid w = (Inr r, w')"
  obtains d m and p :: ProductDefinition where "w' = w"
    "ops_response env oe tid d m (pd_code p) (find (\<lambda>q. mq_tenant q = tid \<and> mq_product_code q = pd_code p \<and> mq_model_id q = md_id (model m) \<and>
        mq_model_version q = md_version (model m)) (model_qualifications w))
      (newest_dataset tid (pd_code p) w) = Inr r"
proof -
  have keep: "active_deployment tid w = (Inr d, w1) \<Longrightarrow> w1 = w" for d w1
    by (auto simp: active_deployment_def bnd_returns split: option.splits)
  have keep': "deployment_manifest d w = (Inr m, w1) \<Longrightarrow> w1 = w" for d m w1
    by (auto simp: deployment_manifest_def bnd_returns Let_def split: option.splits sum.splits)
  from assms obtain d m w1 w2 where "active_deployment tid w = (Inr d, w1)" "deployment_manifest d w1 = (Inr m, w2)"
    and r: "(case products m of [] \<Rightarrow> raise_error DependencyUnavailable ''active deployment pack has no product evidence''
       | p # _ \<Rightarrow> bnd (fetch model_qualifications (\<lambda>q. mq_tenant q = tid \<and> mq_product_code q = pd_code p \<and>
           mq_model_id q = md_id (model m) \<and> mq_model_version q = md_version (model m))) (\<lambda>q.
         bnd (query (newest_dataset tid (pd_code p))) (\<lambda>ds.
         lift_result (ops_response env oe tid d m (pd_code p) q ds)))) w2 = (Inr r, w')"
    unfolding modelops_status_def bnd_returns by blast
  then have "w2 = w" using keep keep' by blast
  obtain p ps where "products m = p # ps" using r by (cases "products m") simp_all
  with r \<open>w2 = w\<close> have "w' = w \<and> ops_response env oe tid d m (pd_code p)
      (find (\<lambda>q. mq_tenant q = tid \<and> mq_product_code q = pd_code p \<and> mq_model_id q = md_id (model m) \<and>
        mq_model_version q = md_version (model m)) (model_qualifications w)) (newest_dataset tid (pd_code p) w) = Inr r"
    by (simp add: bnd_returns lift_result_def split: sum.splits)
  then show thesis using that [of d m p] by blast
qed

text \<open>The customer's data behind a status.\<close>

definition consented_data :: "string \<Rightarrow> string \<Rightarrow> DatasetRegistrationRecord \<Rightarrow> bool" where
  "consented_data tid product d \<longleftrightarrow> ds_tenant d = tid \<and> ds_category d = product \<and> ds_source_type d = ''CUSTOMER_PILOT'' \<and>
     ds_status d = ''VALIDATED'' \<and>
     (\<exists>p. jget ''customer_provenance'' (ds_metadata d) = Some (JObj p) \<and> jget ''consent'' p = Some (JBool True))"

lemma consents_Inr: "consents d = Inr True \<Longrightarrow>
    \<exists>p. jget ''customer_provenance'' (ds_metadata d) = Some (JObj p) \<and> jget ''consent'' p = Some (JBool True)"
  by (auto simp: consents_def as_dict_def get_default_def jget_def split: option.splits json.splits)

lemma allowed_Inr:
  assumes "activation_is_allowed q source_type gate = Inr True"
  shows "\<exists>x. q = Some x \<and> mq_status x = ''APPROVED'' \<and> jfield ''decision'' (mq_gates x) = JStr ''GO'' \<and>
     source_type = ''CUSTOMER_PILOT'' \<and> gate = ''PASS''"
  using assms
  by (auto simp: activation_is_allowed_def as_dict_def get_default_def jfield_def split: option.splits json.splits if_splits)

lemma gate_Inr:
  assumes "customer_data_gate ds source_type = Inr ''PASS''"
  shows "\<exists>x. ds = Some x \<and> source_type = ''CUSTOMER_PILOT'' \<and> ds_status x = ''VALIDATED'' \<and> consents x = Inr True"
  using assms by (auto simp: customer_data_gate_def split: option.splits if_splits)

lemma ops_response_allowed:
  assumes "ops_response env oe tid d m product q ds = Inr r" "ms_activation_allowed r"
  shows "ms_product_code r = product \<and> ms_model r = model m \<and>
     (\<exists>x. q = Some x \<and> mq_status x = ''APPROVED'' \<and> jfield ''decision'' (mq_gates x) = JStr ''GO'') \<and>
     (\<exists>x. ds = Some x \<and> ds_source_type x = ''CUSTOMER_PILOT'' \<and> ds_status x = ''VALIDATED'' \<and> consents x = Inr True)"
proof -
  let ?st = "case ds of None \<Rightarrow> ''DEMO_SYNTHETIC'' | Some x \<Rightarrow> ds_source_type x"
  obtain gate where g: "customer_data_gate ds ?st = Inr gate" "activation_is_allowed q ?st gate = Inr True"
    and p: "ms_product_code r = product" "ms_model r = model m"
    using assms unfolding ops_response_def Let_def by (auto split: if_splits)
  from allowed_Inr [OF g(2)] have gate: "gate = ''PASS''" and q: "\<exists>x. q = Some x \<and> mq_status x = ''APPROVED'' \<and>
      jfield ''decision'' (mq_gates x) = JStr ''GO''" by blast+
  from gate_Inr [OF g(1) [unfolded gate]] have "\<exists>x. ds = Some x \<and> ds_source_type x = ''CUSTOMER_PILOT'' \<and>
      ds_status x = ''VALIDATED'' \<and> consents x = Inr True" by auto
  with p q show ?thesis by blast
qed

text \<open>C22. The status allows an activation only of an approved model of the tenant whose gates are GO, when the newest data
  set of the tenant for the product, of those not revoked, is validated customer data with consent; asking changes
  nothing.\<close>

theorem activation_allowed_needs:
  assumes "modelops_status env oe tid w = (Inr r, w')" "ms_activation_allowed r"
  shows "w' = w \<and>
     (\<exists>q \<in> set (model_qualifications w). mq_tenant q = tid \<and> mq_product_code q = ms_product_code r \<and>
        mq_model_id q = md_id (ms_model r) \<and> mq_model_version q = md_version (ms_model r) \<and>
        mq_status q = ''APPROVED'' \<and> jfield ''decision'' (mq_gates q) = JStr ''GO'') \<and>
     (\<exists>d \<in> set (dataset_registrations w). newest_dataset tid (ms_product_code r) w = Some d \<and>
        consented_data tid (ms_product_code r) d \<and>
        (\<forall>d' \<in> set (dataset_registrations w). ds_tenant d' = tid \<and> ds_category d' = ms_product_code r \<and>
           ds_status d' \<noteq> ''REVOKED'' \<longrightarrow> ds_created_at d' \<le> ds_created_at d))"
proof -
  obtain d m and p :: ProductDefinition where s: "w' = w" and resp:
    "ops_response env oe tid d m (pd_code p) (find (\<lambda>q. mq_tenant q = tid \<and> mq_product_code q = pd_code p \<and> mq_model_id q = md_id (model m) \<and>
        mq_model_version q = md_version (model m)) (model_qualifications w))
      (newest_dataset tid (pd_code p) w) = Inr r"
    by (rule modelops_status_Inr [OF assms(1)])
  note a = ops_response_allowed [OF resp assms(2)]
  obtain x where found: "find (\<lambda>q. mq_tenant q = tid \<and> mq_product_code q = pd_code p \<and> mq_model_id q = md_id (model m) \<and>
      mq_model_version q = md_version (model m)) (model_qualifications w) = Some x"
    and x: "mq_status x = ''APPROVED''" "jfield ''decision'' (mq_gates x) = JStr ''GO''" using a by blast
  obtain y where y: "newest_dataset tid (pd_code p) w = Some y" "ds_source_type y = ''CUSTOMER_PILOT''"
    "ds_status y = ''VALIDATED''" "consents y = Inr True"
    using a by blast
  have "x \<in> set (model_qualifications w) \<and> mq_tenant x = tid \<and> mq_product_code x = pd_code p \<and>
      mq_model_id x = md_id (model m) \<and> mq_model_version x = md_version (model m)"
    using found by (auto simp: find_Some_iff)
  moreover have "consented_data tid (pd_code p) y"
    using newest_dataset_Some(1-4) [OF y(1)] y consents_Inr [OF y(4)] unfolding consented_data_def by blast
  ultimately show ?thesis using s a x y(1) newest_dataset_Some(1,5) [OF y(1)] by auto
qed

text \<open>Without data the status is the demonstration's, whatever the report directory holds.\<close>

lemma no_data_is_demo:
  assumes "ops_response env oe tid d m product q None = Inr r"
  shows "ms_report_status r = ''DEMO_ONLY'' \<and> ms_qualification_status r = ''DEMO_ONLY'' \<and> ms_test_samples r = 0 \<and>
     ms_gate_results r = [] \<and> \<not> ms_activation_allowed r \<and> ms_customer_data_gate r = ''BLOCKED_NO_CUSTOMER_DATA''"
proof -
  have g: "customer_data_gate None ''DEMO_SYNTHETIC'' = Inr ''BLOCKED_NO_CUSTOMER_DATA''"
    by (simp add: customer_data_gate_def)
  have "\<not> ms_activation_allowed r" using ops_response_allowed [OF assms] by blast
  then show ?thesis
    using assms unfolding ops_response_def Let_def option.case
    by (auto simp: g ops_report_of_def initial_report_def Let_def as_dict_def int_or_zero_def get_default_def jget_def response_dict_def)
qed

text \<open>An approved model with validated customer data.\<close>

definition ops_qualification :: ModelQualification where
  "ops_qualification = \<lparr>mq_id = ''mq_0'', mq_tenant = ''t1'', mq_product_code = pd_code (hd (products example_manifest)),
     mq_model_id = md_id (model example_manifest), mq_model_version = md_version (model example_manifest),
     mq_feature_bank_version = ''fb'', mq_package_sha256 = ''p'', mq_evidence_path = ''e'',
     mq_evidence_sha256 = ''s'', mq_pack_key = ''k'', mq_status = ''APPROVED'', mq_qualification_status = ''CUSTOMER_PILOT_PASS'',
     mq_metrics = JObj [], mq_gates = JObj [(''decision'', JStr ''GO'')], mq_dataset_id = None, mq_dataset_source_type = None,
     mq_dataset_fingerprint = None, mq_evaluated_by = Some ''ann'', mq_approved_by = Some ''bob'',
     mq_activated_by = None, mq_decision_reason = None, mq_activated_at = None, mq_created_at = 0\<rparr>"

definition ops_dataset :: DatasetRegistrationRecord where
  "ops_dataset = \<lparr>ds_id = ''ds_1'', ds_tenant = ''t1'', ds_name = ''n'', ds_source_type = ''CUSTOMER_PILOT'',
     ds_category = pd_code (hd (products example_manifest)), ds_status = ''VALIDATED'', ds_fingerprint = ''fp'',
     ds_manifest_sha256 = ''m'', ds_source_sha256 = None, ds_storage_uri = ''u'', ds_manifest_uri = ''u'',
     ds_license_acknowledged = False,
     ds_metadata = [(''customer_provenance'', JObj [(''tenant'', JStr ''t1''), (''consent'', JBool True)])],
     ds_risk_labels = [], ds_created_by = ''dan'', ds_revoked_by = None, ds_revoked_at = None,
     ds_revoke_reason = None, ds_created_at = 0\<rparr>"

definition ops_world :: world where
  "ops_world = example_world\<lparr>dataset_registrations := [ops_dataset], model_qualifications := [ops_qualification]\<rparr>"

definition ops_example :: ops_env where
  "ops_example = \<lparr>oe_reports = (\<lambda>_ _. \<lparr>rd_exists = False, rd_file = (\<lambda>_. NoFile), rd_mtime = 0, rd_path = []\<rparr>), oe_int_of = (\<lambda>_. None)\<rparr>"

lemma ops_example_runs: "\<exists>r. modelops_status (example_env 0) ops_example ''t1'' ops_world = (Inr r, ops_world) \<and> ms_activation_allowed r"
proof -
  have "map_prod (map_sum id ms_activation_allowed) (\<lambda>w. ()) (modelops_status (example_env 0) ops_example ''t1'' ops_world) = (Inr True, ())"
    by code_simp
  then obtain r w where r: "modelops_status (example_env 0) ops_example ''t1'' ops_world = (Inr r, w)" "ms_activation_allowed r"
    by (cases "modelops_status (example_env 0) ops_example ''t1'' ops_world"; cases "fst (modelops_status (example_env 0) ops_example ''t1'' ops_world)") auto
  moreover have "w = ops_world" using r(1) by (rule modelops_status_Inr)
  ultimately show ?thesis by blast
qed

theorem activation_allowed_needs_witness:
  "\<exists>r. modelops_status (example_env 0) ops_example ''t1'' ops_world = (Inr r, ops_world) \<and>
     (\<exists>d. newest_dataset ''t1'' (ms_product_code r) ops_world = Some d \<and> consented_data ''t1'' (ms_product_code r) d)"
proof -
  obtain r where "modelops_status (example_env 0) ops_example ''t1'' ops_world = (Inr r, ops_world)" "ms_activation_allowed r"
    using ops_example_runs by blast
  from activation_allowed_needs [OF this] this(1) show ?thesis by blast
qed

end
