(* ===== verification/Reads.thy ===== *)
theory Reads
  imports Runs ModelOps
begin

text \<open>
  What a handler that writes nothing depends on. \<open>reads V m\<close>: \<open>m\<close> leaves the store as it is, and its
  answer is the same on stores that look the same through \<open>V\<close>. The read endpoints are shown to
  depend on the rows of the caller's tenant only.
\<close>

named_theorems reads_intros \<open>composition of handlers that only read\<close>

definition reads :: "(world \<Rightarrow> 'v) \<Rightarrow> 'a svc \<Rightarrow> bool" where
  "reads V m \<longleftrightarrow> (\<forall>w. snd (m w) = w) \<and> (\<forall>w w'. V w = V w' \<longrightarrow> fst (m w) = fst (m w'))"

lemma readsI: "(\<And>w. snd (m w) = w) \<Longrightarrow> (\<And>w w'. V w = V w' \<Longrightarrow> fst (m w) = fst (m w')) \<Longrightarrow> reads V m"
  unfolding reads_def by blast

lemma reads_same: "reads V m \<Longrightarrow> V w = V w' \<Longrightarrow> fst (m w) = fst (m w')"
  and reads_pure: "reads V m \<Longrightarrow> snd (m w) = w"
  unfolding reads_def by blast+

lemma reads_eval: "reads V m \<Longrightarrow> m w = (fst (m w), w)"
  using reads_pure [of V m w] by (cases "m w") simp

lemma reads_ret [reads_intros]: "reads V (ret a)"
  and reads_throw [reads_intros]: "reads V (throw e)"
  by (rule readsI; simp)+

lemma reads_lift [reads_intros]: "reads V (lift_result r)"
  by (cases r) (rule readsI; simp add: lift_result_def)+

lemma reads_query:
  assumes "\<And>w w'. V w = V w' \<Longrightarrow> q w = q w'"
  shows "reads V (query q)"
proof (rule readsI)
  show "fst (query q w) = fst (query q w')" if "V w = V w'" for w w'
    using assms [OF that] by simp
qed simp

lemma reads_fetch:
  assumes "\<And>w w'. V w = V w' \<Longrightarrow> find P (table w) = find P (table w')"
  shows "reads V (fetch table P)"
  unfolding fetch_def using assms by (rule reads_query)

lemma bnd_reads:
  assumes "reads V m"
  shows "bnd m k w = (case fst (m w) of Inl e \<Rightarrow> (Inl e, w) | Inr a \<Rightarrow> k a w)"
  by (subst bnd_def, subst reads_eval [OF assms]) (simp split: sum.split)

lemma reads_returns: "reads V m \<Longrightarrow> fst (m w) = Inr a \<Longrightarrow> returns m a"
  unfolding returns_def using reads_eval [of V m w] by metis

lemma reads_bnd [reads_intros]:
  assumes m: "reads V m" and k: "\<And>a. returns m a \<Longrightarrow> reads V (k a)"
  shows "reads V (bnd m k)"
proof (rule readsI)
  show "snd (bnd m k w) = w" for w
    unfolding bnd_reads [OF m]
    by (cases "fst (m w)") (simp_all add: reads_pure [OF k [OF reads_returns [OF m]]])
  show "fst (bnd m k w) = fst (bnd m k w')" if "V w = V w'" for w w'
    unfolding bnd_reads [OF m] reads_same [OF m that]
    by (cases "fst (m w')") (simp_all add: reads_same [OF k [OF reads_returns [OF m]] that])
qed

text \<open>A query that hands the store on: the rest reads that snapshot.\<close>

lemma reads_snapshot:
  assumes f: "\<And>w w'. V w = V w' \<Longrightarrow> f w = f w'"
    and k: "\<And>x u. returns (query f) x \<Longrightarrow> reads V (k x u)"
    and snap: "\<And>x u u'. returns (query f) x \<Longrightarrow> V u = V u' \<Longrightarrow> k x u = k x u'"
  shows "reads V (bnd (query (\<lambda>w. (f w, w))) (\<lambda>(x, u). k x u))"
proof (rule readsI)
  have r: "returns (query f) (f w)" for w by (auto simp: returns_def)
  show "snd (bnd (query (\<lambda>w. (f w, w))) (\<lambda>(x, u). k x u) w) = w" for w
    by (simp add: reads_pure [OF k [OF r]])
  show "fst (bnd (query (\<lambda>w. (f w, w))) (\<lambda>(x, u). k x u) w) =
      fst (bnd (query (\<lambda>w. (f w, w))) (\<lambda>(x, u). k x u) w')" if "V w = V w'" for w w'
    using snap [OF r that, of w'] reads_same [OF k [OF r] that, of w' w'] f [OF that] by simp
qed

lemma reads_if [reads_intros]: "(b \<Longrightarrow> reads V m) \<Longrightarrow> (\<not> b \<Longrightarrow> reads V m') \<Longrightarrow> reads V (if b then m else m')"
  by simp

lemma reads_option [reads_intros]: "(x = None \<Longrightarrow> reads V m) \<Longrightarrow> (\<And>y. x = Some y \<Longrightarrow> reads V (k y)) \<Longrightarrow>
    reads V (case x of None \<Rightarrow> m | Some y \<Rightarrow> k y)"
  by (cases x) simp_all

lemma reads_sum [reads_intros]: "(\<And>y. x = Inl y \<Longrightarrow> reads V (m y)) \<Longrightarrow> (\<And>y. x = Inr y \<Longrightarrow> reads V (k y)) \<Longrightarrow>
    reads V (case x of Inl y \<Rightarrow> m y | Inr y \<Rightarrow> k y)"
  by (cases x) simp_all

lemma reads_guarded [reads_intros]: "reads V m \<Longrightarrow> reads V (guarded allowed pr m)"
  unfolding guarded_def by (intro reads_intros)

lemma reads_each [reads_intros]: "(\<And>x. x \<in> set xs \<Longrightarrow> reads V (f x)) \<Longrightarrow> reads V (each f xs)"
  by (induction xs) (simp_all add: reads_ret reads_bnd)

lemma reads_manifest:
  assumes "\<And>w w'. V w = V w' \<Longrightarrow> tenants w = tenants w'"
  shows "reads V (deployment_manifest d)"
  unfolding deployment_manifest_def Let_def
  by (intro reads_intros reads_fetch) (drule assms, simp)

text \<open>Running a handler statement by statement.\<close>

lemma fresh_id_runs: "bnd (fresh_id pfx) k w = k (new_id pfx (draws w)) (w\<lparr>draws := Suc (draws w)\<rparr>)"
  by (simp add: bnd_def fresh_id_def)

lemma query_runs: "bnd (query q) k w = k (q w) w"
  by (simp add: bnd_def)

lemma andthen_runs: "m w = (Inr a, w') \<Longrightarrow> andthen m k w = k w'"
  by (simp add: andthen_def)

lemma run_all_runs: "m w = (Inr (), w') \<Longrightarrow> run_all (m # ms) w = run_all ms w'"
  by (simp add: andthen_def)

section \<open>The rows of one tenant\<close>

definition visible where
  "visible t (w :: world) =
     (filter (\<lambda>r. insp_tenant r = t) (inspections w), filter (\<lambda>r. img_tenant r = t) (image_assets w),
      filter (\<lambda>r. inf_tenant r = t) (inference_results w), filter (\<lambda>r. pol_tenant r = t) (policy_decisions w),
      filter (\<lambda>r. rev_tenant r = t) (review_tasks w), filter (\<lambda>r. rdec_tenant r = t) (review_decisions w),
      filter (\<lambda>r. inc_tenant r = t) (quality_incidents w), filter (\<lambda>r. ext_tenant r = t) (external_actions w),
      filter (\<lambda>r. aud_tenant r = t) (audit_events w), filter (\<lambda>r. trn_tenant r = t) (state_transitions w),
      filter (\<lambda>r. dep_tenant r = t) (deployment_packs w), filter (\<lambda>r. mq_tenant r = t) (model_qualifications w),
      filter (\<lambda>r. gwy_tenant r = t) (edge_gateways w),
      filter (\<lambda>r. ds_tenant r = t) (dataset_registrations w), tenants w, objects w, clock w)"

lemma filter_narrow: "(\<And>r. P r \<Longrightarrow> Q r) \<Longrightarrow> filter Q xs = filter Q ys \<Longrightarrow> filter P xs = filter P ys"
  by (metis (no_types, lifting) filter_cong filter_filter)

lemma find_narrow: "(\<And>r. P r \<Longrightarrow> Q r) \<Longrightarrow> filter Q xs = filter Q ys \<Longrightarrow> find P xs = find P ys"
proof -
  have "find P zs = (case filter P zs of [] \<Rightarrow> None | z # _ \<Rightarrow> Some z)" for zs
    by (induction zs) auto
  then show "find P xs = find P ys" if "\<And>r. P r \<Longrightarrow> Q r" "filter Q xs = filter Q ys"
    using filter_narrow [OF that] by simp
qed

text \<open>What a query sees of the store.\<close>

definition sees :: "string \<Rightarrow> (world \<Rightarrow> 'a) \<Rightarrow> bool" where
  "sees t q \<longleftrightarrow> (\<forall>w w'. visible t w = visible t w' \<longrightarrow> q w = q w')"

lemma seesI: "(\<And>w w'. visible t w = visible t w' \<Longrightarrow> q w = q w') \<Longrightarrow> sees t q"
  and seesD: "sees t q \<Longrightarrow> visible t w = visible t w' \<Longrightarrow> q w = q w'"
  unfolding sees_def by blast+

lemma sees_filterI:
  assumes "\<And>w w'. visible t w = visible t w' \<Longrightarrow> filter Q (table w) = filter Q (table w')" "\<And>r. P r \<Longrightarrow> Q r"
  shows "sees t (\<lambda>w. filter P (table w))"
  by (rule seesI, rule filter_narrow [OF assms(2) assms(1)])

lemma sees_findI:
  assumes "\<And>w w'. visible t w = visible t w' \<Longrightarrow> filter Q (table w) = filter Q (table w')" "\<And>r. P r \<Longrightarrow> Q r"
  shows "sees t (\<lambda>w. find P (table w))"
  by (rule seesI, rule find_narrow [OF assms(2) assms(1)])

lemma sees_filter:
  "(\<And>r. P r \<Longrightarrow> insp_tenant r = t) \<Longrightarrow> sees t (\<lambda>w. filter P (inspections w))"
  "(\<And>r. P1 r \<Longrightarrow> img_tenant r = t) \<Longrightarrow> sees t (\<lambda>w. filter P1 (image_assets w))"
  "(\<And>r. P2 r \<Longrightarrow> inf_tenant r = t) \<Longrightarrow> sees t (\<lambda>w. filter P2 (inference_results w))"
  "(\<And>r. P3 r \<Longrightarrow> rev_tenant r = t) \<Longrightarrow> sees t (\<lambda>w. filter P3 (review_tasks w))"
  "(\<And>r. P4 r \<Longrightarrow> ext_tenant r = t) \<Longrightarrow> sees t (\<lambda>w. filter P4 (external_actions w))"
  "(\<And>r. P5 r \<Longrightarrow> aud_tenant r = t) \<Longrightarrow> sees t (\<lambda>w. filter P5 (audit_events w))"
  "(\<And>r. P6 r \<Longrightarrow> trn_tenant r = t) \<Longrightarrow> sees t (\<lambda>w. filter P6 (state_transitions w))"
  "(\<And>r. P7 r \<Longrightarrow> dep_tenant r = t) \<Longrightarrow> sees t (\<lambda>w. filter P7 (deployment_packs w))"
  "(\<And>r. P8 r \<Longrightarrow> mq_tenant r = t) \<Longrightarrow> sees t (\<lambda>w. filter P8 (model_qualifications w))"
  "(\<And>r. P9 r \<Longrightarrow> gwy_tenant r = t) \<Longrightarrow> sees t (\<lambda>w. filter P9 (edge_gateways w))"
  "(\<And>r. P10 r \<Longrightarrow> ds_tenant r = t) \<Longrightarrow> sees t (\<lambda>w. filter P10 (dataset_registrations w))"
  by (erule sees_filterI [rotated]; simp add: visible_def)+

lemma sees_find:
  "(\<And>r. P r \<Longrightarrow> insp_tenant r = t) \<Longrightarrow> sees t (\<lambda>w. find P (inspections w))"
  "(\<And>r. P1 r \<Longrightarrow> img_tenant r = t) \<Longrightarrow> sees t (\<lambda>w. find P1 (image_assets w))"
  "(\<And>r. P2 r \<Longrightarrow> pol_tenant r = t) \<Longrightarrow> sees t (\<lambda>w. find P2 (policy_decisions w))"
  "(\<And>r. P3 r \<Longrightarrow> rev_tenant r = t) \<Longrightarrow> sees t (\<lambda>w. find P3 (review_tasks w))"
  "(\<And>r. P4 r \<Longrightarrow> rdec_tenant r = t) \<Longrightarrow> sees t (\<lambda>w. find P4 (review_decisions w))"
  "(\<And>r. P5 r \<Longrightarrow> inc_tenant r = t) \<Longrightarrow> sees t (\<lambda>w. find P5 (quality_incidents w))"
  "(\<And>r. P6 r \<Longrightarrow> ext_tenant r = t) \<Longrightarrow> sees t (\<lambda>w. find P6 (external_actions w))"
  "(\<And>r. P7 r \<Longrightarrow> dep_tenant r = t) \<Longrightarrow> sees t (\<lambda>w. find P7 (deployment_packs w))"
  "(\<And>r. P8 r \<Longrightarrow> mq_tenant r = t) \<Longrightarrow> sees t (\<lambda>w. find P8 (model_qualifications w))"
  by (erule sees_findI [rotated]; simp add: visible_def)+

lemma sees_plain: "sees t tenants" "sees t objects" "sees t clock"
  unfolding visible_def sees_def by simp_all

lemma reads_seen: "sees t q \<Longrightarrow> reads (visible t) (query q)"
  by (rule reads_query) (rule seesD)

lemma reads_seen_fetch: "sees t (\<lambda>w. find P (table w)) \<Longrightarrow> reads (visible t) (fetch table P)"
  unfolding fetch_def by (rule reads_seen)

lemma reads_seen_manifest: "reads (visible t) (deployment_manifest d)"
  by (rule reads_manifest) (rule seesD [OF sees_plain(1)])

lemma sees_lookups:
  "sees t (lookup_inspection iid t)" "sees t (policy_of iid t)" "sees t (review_of iid t)" "sees t (incident_of iid t)"
  "sees t (original_of iid t)"
  unfolding lookup_inspection_def policy_of_def review_of_def incident_of_def original_of_def
  by (rule sees_find; simp add: is_inspection_def)+

text \<open>What two stores that look the same to a tenant have in common.\<close>

lemma visible_filters:
  assumes v: "visible t w = visible t w'"
  shows "(\<And>r. P r \<Longrightarrow> insp_tenant r = t) \<Longrightarrow> filter P (inspections w) = filter P (inspections w')"
  "(\<And>r. P1 r \<Longrightarrow> img_tenant r = t) \<Longrightarrow> filter P1 (image_assets w) = filter P1 (image_assets w')"
  "(\<And>r. P2 r \<Longrightarrow> inf_tenant r = t) \<Longrightarrow> filter P2 (inference_results w) = filter P2 (inference_results w')"
  "(\<And>r. P3 r \<Longrightarrow> rev_tenant r = t) \<Longrightarrow> filter P3 (review_tasks w) = filter P3 (review_tasks w')"
  "(\<And>r. P4 r \<Longrightarrow> ext_tenant r = t) \<Longrightarrow> filter P4 (external_actions w) = filter P4 (external_actions w')"
  "(\<And>r. P5 r \<Longrightarrow> aud_tenant r = t) \<Longrightarrow> filter P5 (audit_events w) = filter P5 (audit_events w')"
  "(\<And>r. P6 r \<Longrightarrow> trn_tenant r = t) \<Longrightarrow> filter P6 (state_transitions w) = filter P6 (state_transitions w')"
  "(\<And>r. P7 r \<Longrightarrow> dep_tenant r = t) \<Longrightarrow> filter P7 (deployment_packs w) = filter P7 (deployment_packs w')"
  "(\<And>r. P8 r \<Longrightarrow> mq_tenant r = t) \<Longrightarrow> filter P8 (model_qualifications w) = filter P8 (model_qualifications w')"
  "(\<And>r. P9 r \<Longrightarrow> gwy_tenant r = t) \<Longrightarrow> filter P9 (edge_gateways w) = filter P9 (edge_gateways w')"
  "(\<And>r. Q r \<Longrightarrow> rdec_tenant r = t) \<Longrightarrow> find Q (review_decisions w) = find Q (review_decisions w')"
  "lookup_inspection iid t w = lookup_inspection iid t w'" "policy_of iid t w = policy_of iid t w'"
  "review_of iid t w = review_of iid t w'" "incident_of iid t w = incident_of iid t w'"
  "original_of iid t w = original_of iid t w'" "clock w = clock w'" "objects w = objects w'" "tenants w = tenants w'"
  by (rule seesD [OF sees_filter(1) v] seesD [OF sees_filter(2) v] seesD [OF sees_filter(3) v] seesD [OF sees_filter(4) v]
      seesD [OF sees_filter(5) v] seesD [OF sees_filter(6) v] seesD [OF sees_filter(7) v] seesD [OF sees_filter(8) v]
      seesD [OF sees_filter(9) v] seesD [OF sees_filter(10) v] seesD [OF sees_find(5) v]
      seesD [OF sees_lookups(1) v] seesD [OF sees_lookups(2) v] seesD [OF sees_lookups(3) v]
      seesD [OF sees_lookups(4) v] seesD [OF sees_lookups(5) v] seesD [OF sees_plain(3) v] seesD [OF sees_plain(2) v]
      seesD [OF sees_plain(1) v]; blast)+

lemma visible_rows:
  assumes v: "visible t w = visible t w'"
  shows "filter (\<lambda>r. inf_inspection_id r = iid \<and> inf_tenant r = t) (inference_results w) =
      filter (\<lambda>r. inf_inspection_id r = iid \<and> inf_tenant r = t) (inference_results w')"
    "filter (\<lambda>a. img_inspection_id a = iid \<and> img_tenant a = t) (image_assets w) =
      filter (\<lambda>a. img_inspection_id a = iid \<and> img_tenant a = t) (image_assets w')"
    "filter (\<lambda>a. ext_incident_id a = cid \<and> ext_tenant a = t) (external_actions w) =
      filter (\<lambda>a. ext_incident_id a = cid \<and> ext_tenant a = t) (external_actions w')"
    "filter (\<lambda>a. aud_tenant a = t \<and> A a) (audit_events w) = filter (\<lambda>a. aud_tenant a = t \<and> A a) (audit_events w')"
    "filter (\<lambda>s. trn_tenant s = t \<and> B s) (state_transitions w) =
      filter (\<lambda>s. trn_tenant s = t \<and> B s) (state_transitions w')"
    "find (\<lambda>d. rdec_review_task_id d = rid \<and> rdec_tenant d = t) (review_decisions w) =
      find (\<lambda>d. rdec_review_task_id d = rid \<and> rdec_tenant d = t) (review_decisions w')"
    "filter (\<lambda>i. insp_tenant i = t) (inspections w) = filter (\<lambda>i. insp_tenant i = t) (inspections w')"
    "filter (\<lambda>k. rev_tenant k = t \<and> C k) (review_tasks w) = filter (\<lambda>k. rev_tenant k = t \<and> C k) (review_tasks w')"
    "filter (\<lambda>d. dep_tenant d = t) (deployment_packs w) = filter (\<lambda>d. dep_tenant d = t) (deployment_packs w')"
    "filter (\<lambda>q. mq_tenant q = t) (model_qualifications w) = filter (\<lambda>q. mq_tenant q = t) (model_qualifications w')"
    "filter (\<lambda>g. gwy_tenant g = t) (edge_gateways w) = filter (\<lambda>g. gwy_tenant g = t) (edge_gateways w')"
  by (rule visible_filters [OF v]; blast)+

lemma sees_views:
  "sees t (latest_inference iid t)" "sees t (decision_of iid t)" "sees t (incident_targets t c)"
  "sees t (merged_timeline t targets iid)" "sees t (list_audit_events t target)" "sees t (list_gateway_statuses env t)"
proof -
  have "latest_inference iid t w = latest_inference iid t w' \<and> decision_of iid t w = decision_of iid t w' \<and>
      incident_targets t c w = incident_targets t c w' \<and> merged_timeline t targets iid w = merged_timeline t targets iid w' \<and>
      list_audit_events t target w = list_audit_events t target w' \<and>
      list_gateway_statuses env t w = list_gateway_statuses env t w'" if v: "visible t w = visible t w'" for w w'
    by (simp only: latest_inference_def decision_of_def incident_targets_def merged_timeline_def list_audit_events_def
        list_gateway_statuses_def visible_filters(12-19) [OF v] visible_rows [OF v] simp_thms)
  then show "sees t (latest_inference iid t)" "sees t (decision_of iid t)" "sees t (incident_targets t c)"
    "sees t (merged_timeline t targets iid)" "sees t (list_audit_events t target)" "sees t (list_gateway_statuses env t)"
    unfolding sees_def by blast+
qed

lemma sees_response:
  assumes "insp_tenant i = t"
  shows "sees t (response_of i replay)"
proof (rule seesI)
  fix w w'
  assume v: "visible t w = visible t w'"
  show "response_of i replay w = response_of i replay w'"
    by (simp only: response_of_def assms visible_filters(12-19) [OF v] visible_rows [OF v]
        seesD [OF sees_views(1) v])
qed

section \<open>The read endpoints\<close>

lemma reads_inspection_response: "reads (visible t) (inspection_response iid t replay)"
  unfolding inspection_response_def
proof (rule reads_snapshot)
  show "reads (visible t) (case x of None \<Rightarrow> throw (OtherError ''ObjectDeletedError'' iid)
      | Some i \<Rightarrow> ret (response_of i replay u))" for x u
    by (intro reads_intros)
  show "(case x of None \<Rightarrow> throw (OtherError ''ObjectDeletedError'' iid) | Some i \<Rightarrow> ret (response_of i replay u)) =
      (case x of None \<Rightarrow> throw (OtherError ''ObjectDeletedError'' iid) | Some i \<Rightarrow> ret (response_of i replay u'))"
    if "returns (query (lookup_inspection iid t)) x" "visible t u = visible t u'" for x u u'
    using returns_lookup that seesD [OF sees_response that(2)] by (cases x) auto
qed (rule seesD [OF sees_lookups(1)])

lemma reads_get_inspection: "reads (visible t) (get_inspection t iid)"
  unfolding get_inspection_def
proof (intro reads_intros reads_seen_fetch sees_find)
  show "reads (visible t) (inspection_response (insp_id i) (insp_tenant i) False)"
    if "returns (fetch inspections (is_inspection iid t)) a" "a = Some i" for a i
    using returns_fetch [OF that] reads_inspection_response by (auto simp: is_inspection_def)
qed (simp add: is_inspection_def)

lemma reads_list_inspections: "reads (visible t) (list_inspections t n)"
  unfolding list_inspections_def
proof (rule reads_query)
  fix w w'
  assume v: "visible t w = visible t w'"
  let ?rows = "take n (sort_key (\<lambda>i. - insp_created_at i) (filter (\<lambda>i. insp_tenant i = t) (inspections w')))"
  have "map (\<lambda>i. response_of i False w) ?rows = map (\<lambda>i. response_of i False w') ?rows"
    by (rule map_cong [OF refl], rule seesD [OF sees_response v]) (auto dest: in_set_takeD)
  then show "map (\<lambda>i. response_of i False w)
      (take n (sort_key (\<lambda>i. - insp_created_at i) (filter (\<lambda>i. insp_tenant i = t) (inspections w)))) =
    map (\<lambda>i. response_of i False w') ?rows"
    by (simp only: visible_rows(7) [OF v])
qed

lemma reads_views:
  "reads (visible t) (inspection_timeline t iid)"
  "reads (visible t) (get_external_action t xid)" "reads (visible t) (get_image_asset t aid)"
  "reads (visible t) (get_deployment t did)"
  unfolding inspection_timeline_def get_external_action_def get_image_asset_def get_deployment_def
  by (intro reads_intros reads_seen_fetch sees_find reads_seen sees_views;
      simp add: is_inspection_def is_action_def is_deployment_def)+

lemma sees_incident_entries: "sees t (\<lambda>w. merged_timeline t (incident_targets t c w) iid w)"
proof (rule seesI)
  show "merged_timeline t (incident_targets t c w) iid w = merged_timeline t (incident_targets t c w') iid w'"
    if v: "visible t w = visible t w'" for w w'
    by (simp only: seesD [OF sees_views(3) v] seesD [OF sees_views(4) v])
qed

lemma reads_timeline: "reads (visible t) (timeline t cid)"
  unfolding timeline_def
  by (intro reads_intros reads_seen_fetch sees_find reads_seen sees_incident_entries; simp add: is_incident_def)

lemma sees_all_incident:
  assumes v: "visible t w = visible t w'"
  shows "latest_inference iid t w = latest_inference iid t w'" "decision_of iid t w = decision_of iid t w'"
    "policy_of iid t w = policy_of iid t w'"
  by (rule seesD [OF sees_views(1) v] seesD [OF sees_views(2) v] seesD [OF sees_lookups(2) v])+

lemma reads_get_incident: "reads (visible t) (get_incident t cid)"
  unfolding get_incident_def Let_def
  apply (rule reads_bnd, rule reads_seen_fetch, rule sees_find, simp add: is_incident_def)
  apply (rule reads_option, rule reads_throw, rule reads_snapshot)
    apply (erule seesD [OF sees_lookups(1)])
   apply (intro reads_intros reads_timeline)
  subgoal premises p
    by (simp only: visible_rows [OF p(4)] sees_all_incident [OF p(4)])
  done

text \<open>The answers of the read endpoints; \<open>get_object\<close> on the address of the tenant's own asset is the only
  use of the object storage.\<close>

lemma get_object_same: "objects w = objects w' \<Longrightarrow> get_object uri w = get_object uri w'"
  by (simp only: get_object_def)

lemma reads_asset_bytes: "reads (visible t) (query (get_object uri))"
  by (rule reads_query, rule get_object_same, erule seesD [OF sees_plain(2)])

lemma reads_review_task_response:
  assumes "rev_tenant k = t"
  shows "reads (visible t) (review_task_response k)"
  unfolding review_task_response_def Let_def assms
  apply (rule reads_snapshot)
    apply (erule seesD [OF sees_lookups(1)])
   apply (intro reads_intros)
  subgoal premises p
    by (simp only: visible_filters(12-16) [OF p(2)] sees_all_incident [OF p(2)])
  done

lemma reads_list_reviews: "reads (visible t) (bnd (list_reviews t) (each review_task_response))"
proof (intro reads_bnd reads_each)
  show "reads (visible t) (list_reviews t)"
    unfolding list_reviews_def by (rule reads_query, rule arg_cong, erule visible_rows)
  show "reads (visible t) (review_task_response k)" if "returns (list_reviews t) ks" "k \<in> set ks" for k ks
    using that by (intro reads_review_task_response) (auto simp: returns_def list_reviews_def)
qed

lemma reads_lists:
  "reads (visible t) (list_deployments t)" "reads (visible t) (list_qualifications t)"
  unfolding list_deployments_def list_qualifications_def by (rule reads_query, rule arg_cong, erule visible_rows)+

lemma reads_tenants: "reads (visible t) (query (\<lambda>w. f (tenants w)))"
  by (rule reads_query, rule arg_cong [where f = f], erule seesD [OF sees_plain(1)])

lemma reads_fetch_tenant: "reads (visible t) (fetch tenants P)"
  unfolding fetch_def by (rule reads_tenants)

abbreviation own_rows_only :: "Principal \<Rightarrow> 'a svc \<Rightarrow> bool" where
  "own_rows_only pr m \<equiv> reads (visible (tenant_id pr)) m"

text \<open>The list of the data sets and the status of the model.\<close>

lemma sees_datasets:
  "sees t (\<lambda>w. f (filter (\<lambda>d. ds_tenant d = t) (dataset_registrations w)))"
  "sees t (newest_dataset t category)"
proof -
  have rows: "filter P (dataset_registrations w) = filter P (dataset_registrations w')"
    if "visible t w = visible t w'" "\<And>d. P d \<Longrightarrow> ds_tenant d = t" for P w w'
    using seesD [OF sees_filter(11) that(1)] that(2) by blast
  show "sees t (\<lambda>w. f (filter (\<lambda>d. ds_tenant d = t) (dataset_registrations w)))"
    by (rule seesI, rule arg_cong [where f = f], erule rows) simp
  show "sees t (newest_dataset t category)"
    unfolding newest_dataset_def
    by (rule seesI, rule arg_cong [where f = "\<lambda>ds. case sort_key (\<lambda>d. - ds_created_at d) ds of [] \<Rightarrow> None | d # _ \<Rightarrow> Some d"],
        erule rows) simp
qed

lemma reads_list_datasets: "reads (visible t) (list_dataset_registrations t)"
  unfolding list_dataset_registrations_def by (rule reads_seen) (rule sees_datasets(1))

lemma reads_active_deployment: "reads (visible t) (active_deployment t)"
  unfolding active_deployment_def by (intro reads_intros reads_seen_fetch sees_find) simp

lemma reads_modelops_status: "reads (visible t) (modelops_status env oe t)"
  unfolding modelops_status_def
  by (intro reads_bnd reads_active_deployment reads_seen_manifest)
    (auto split: list.split
      intro!: reads_intros reads_seen_fetch sees_find reads_seen sees_datasets(2))


text \<open>The operations summary shows the tenant's own rows only while its policy decisions and review tasks name
  no inspection of another tenant.\<close>

definition local_joins :: "string \<Rightarrow> world \<Rightarrow> bool" where
  "local_joins t w \<longleftrightarrow> (\<forall>i \<in> set (inspections w).
     (\<exists>p \<in> set (policy_decisions w). pol_tenant p = t \<and> pol_inspection_id p = insp_id i) \<or>
     (\<exists>k \<in> set (review_tasks w). rev_tenant k = t \<and> rev_inspection_id k = insp_id i) \<longrightarrow> insp_tenant i = t)"

lemma local_inspections:
  assumes "local_joins t w"
    and "(\<exists>p \<in> set (policy_decisions w). pol_tenant p = t \<and> pol_inspection_id p = iid) \<or>
      (\<exists>k \<in> set (review_tasks w). rev_tenant k = t \<and> rev_inspection_id k = iid)"
  shows "filter (\<lambda>i. insp_id i = iid \<and> Q i) (inspections w) =
    filter (\<lambda>i. insp_tenant i = t \<and> insp_id i = iid \<and> Q i) (inspections w)"
proof -
  have "insp_tenant i = t" if "i \<in> set (inspections w)" "insp_id i = iid" for i
    using assms(1) [unfolded local_joins_def, rule_format, OF that(1)] assms(2) that(2) by simp
  then show ?thesis by (intro filter_cong) auto
qed

lemma visible_tables:
  assumes "visible t w = visible t w'"
  shows "filter (\<lambda>p. pol_tenant p = t) (policy_decisions w) = filter (\<lambda>p. pol_tenant p = t) (policy_decisions w')"
    "filter (\<lambda>k. rev_tenant k = t) (review_tasks w) = filter (\<lambda>k. rev_tenant k = t) (review_tasks w')"
    "filter (\<lambda>c. inc_tenant c = t) (quality_incidents w) = filter (\<lambda>c. inc_tenant c = t) (quality_incidents w')"
    "filter (\<lambda>i. insp_tenant i = t) (inspections w) = filter (\<lambda>i. insp_tenant i = t) (inspections w')"
    "clock w = clock w'"
  using assms by (simp_all add: visible_def)

lemma operations_summary_local:
  assumes v: "visible t w = visible t w'" and l: "local_joins t w" "local_joins t w'"
  shows "operations_summary env t w = operations_summary env t w'"
proof -
  have tasks: "filter (\<lambda>k. rev_tenant k = t \<and> rev_status k = ''OPEN'') (review_tasks w) =
      filter (\<lambda>k. rev_tenant k = t \<and> rev_status k = ''OPEN'') (review_tasks w')"
    by (rule visible_rows(8) [OF v])
  have mine: "filter (\<lambda>i. insp_tenant i = t \<and> Q i) (inspections w) = filter (\<lambda>i. insp_tenant i = t \<and> Q i) (inspections w')" for Q
    by (rule visible_filters(1) [OF v]) simp
  have recent: "recent_inspection w = recent_inspection w'"
    by (simp add: recent_inspection_def visible_tables(5) [OF v] fun_eq_iff)
  have same: "filter (\<lambda>i. insp_id i = iid \<and> Q i) (inspections w) = filter (\<lambda>i. insp_id i = iid \<and> Q i) (inspections w')"
    if "(\<exists>p \<in> set (policy_decisions w'). pol_tenant p = t \<and> pol_inspection_id p = iid) \<or>
      (\<exists>k \<in> set (review_tasks w'). rev_tenant k = t \<and> rev_inspection_id k = iid)" for iid Q
  proof -
    have "(\<exists>p \<in> set (filter (\<lambda>p. pol_tenant p = t) (policy_decisions w)). pol_inspection_id p = iid) \<or>
      (\<exists>k \<in> set (filter (\<lambda>k. rev_tenant k = t) (review_tasks w)). rev_inspection_id k = iid)"
      using that unfolding visible_tables(1,2) [OF v] by auto
    then show ?thesis
      using local_inspections [OF l(1), of iid Q] local_inspections [OF l(2) that, of Q] mine by auto
  qed
  have routes: "map (\<lambda>p. map (\<lambda>i. pol_decision p) (filter (\<lambda>i. insp_id i = pol_inspection_id p \<and> recent_inspection w' i) (inspections w)))
      (filter (\<lambda>p. pol_tenant p = t) (policy_decisions w')) =
    map (\<lambda>p. map (\<lambda>i. pol_decision p) (filter (\<lambda>i. insp_id i = pol_inspection_id p \<and> recent_inspection w' i) (inspections w')))
      (filter (\<lambda>p. pol_tenant p = t) (policy_decisions w'))"
    by (rule map_cong [OF refl], rule arg_cong [where f = "map f" for f], rule same) auto
  have risks: "map (\<lambda>k. filter (\<lambda>i. insp_id i = rev_inspection_id k \<and> insp_status i = BATCH_HELD) (inspections w))
      (filter (\<lambda>k. rev_tenant k = t \<and> rev_status k = ''OPEN'') (review_tasks w')) =
    map (\<lambda>k. filter (\<lambda>i. insp_id i = rev_inspection_id k \<and> insp_status i = BATCH_HELD) (inspections w'))
      (filter (\<lambda>k. rev_tenant k = t \<and> rev_status k = ''OPEN'') (review_tasks w'))"
    by (rule map_cong [OF refl], rule same) auto
  show ?thesis
    by (simp only: operations_summary_def Let_def recent routes risks tasks mine visible_tables [OF v]
        seesD [OF sees_views(6) v])
qed

end
