(* ===== verification/FailSafe.thy ===== *)
theory FailSafe
  imports Reads
begin

text \<open>
  Routing of an inspection, case by case: a model that fails sends it to review, a score sends it where
  the policy says. In both cases the handler returns and the rows it leaves are stated.
\<close>

lemma find_update_where:
  "(\<And>r. P (f r) = P r) \<Longrightarrow> find P (update_where P f rows) = map_option f (find P rows)"
  by (induction rows) auto

lemma is_inspection_updates [simp]:
  "is_inspection iid tid (r\<lparr>insp_status := s\<rparr>) = is_inspection iid tid r"
  "is_inspection iid tid (r\<lparr>insp_failure_reason := m\<rparr>) = is_inspection iid tid r"
  by (simp_all add: is_inspection_def)

definition model_inputs :: "world \<Rightarrow> ImageAsset list \<times> DeploymentPack list \<times> Tenant list \<times> (string \<times> string) list" where
  "model_inputs w = (image_assets w, deployment_packs w, tenants w, objects w)"

lemma reads_run_model: "reads model_inputs (run_model env i)"
  unfolding run_model_def
  by (intro reads_intros reads_fetch reads_query reads_manifest get_object_same; simp add: model_inputs_def)

text \<open>One inspection's row after a transition, found by its key.\<close>

lemma lookup_transitioned:
  "lookup_inspection iid tid w = Some i \<Longrightarrow>
     lookup_inspection iid tid (transitioned env j iid tid target actor reason corr w) = Some (i\<lparr>insp_status := target\<rparr>)"
  by (simp add: lookup_inspection_def transitioned_def Let_def find_update_where)

lemma lookup_failure_reason:
  "lookup_inspection iid tid w = Some i \<Longrightarrow>
     lookup_inspection iid tid (snd (set_failure_reason iid tid m w)) = Some (i\<lparr>insp_failure_reason := Some m\<rparr>)"
  by (simp add: lookup_inspection_def set_failure_reason_def find_update_where)

lemma transition_runs:
  assumes "lookup_inspection iid tid w = Some i" "legal_edge (insp_status i) target"
  shows "transition_inspection env iid tid target actor reason corr w =
    (Inr (), transitioned env i iid tid target actor reason corr w)"
  using assms by (simp add: transition_inspection_eq)

text \<open>The tables a transition leaves alone.\<close>

lemma transitioned_tables [simp]:
  "image_assets (transitioned env i iid tid target actor reason corr w) = image_assets w"
  "deployment_packs (transitioned env i iid tid target actor reason corr w) = deployment_packs w"
  "tenants (transitioned env i iid tid target actor reason corr w) = tenants w"
  "objects (transitioned env i iid tid target actor reason corr w) = objects w"
  "review_tasks (transitioned env i iid tid target actor reason corr w) = review_tasks w"
  "inference_results (transitioned env i iid tid target actor reason corr w) = inference_results w"
  "policy_decisions (transitioned env i iid tid target actor reason corr w) = policy_decisions w"
  "outbox_events (transitioned env i iid tid target actor reason corr w) = outbox_events w"
  "draws (transitioned env i iid tid target actor reason corr w) = draws w + 2"
  "clock (transitioned env i iid tid target actor reason corr w) = clock w"
  by (simp_all add: transitioned_def Let_def)

lemma failure_reason_tables [simp]:
  "image_assets (snd (set_failure_reason iid tid m w)) = image_assets w"
  "review_tasks (snd (set_failure_reason iid tid m w)) = review_tasks w"
  "inference_results (snd (set_failure_reason iid tid m w)) = inference_results w"
  "policy_decisions (snd (set_failure_reason iid tid m w)) = policy_decisions w"
  "outbox_events (snd (set_failure_reason iid tid m w)) = outbox_events w"
  "draws (snd (set_failure_reason iid tid m w)) = draws w"
  by (simp_all add: set_failure_reason_def)

text \<open>No review task exists for the inspection, and none has an id still to be drawn.\<close>

definition no_task :: "string \<Rightarrow> world \<Rightarrow> bool" where
  "no_task iid w \<longleftrightarrow>
     (\<forall>k \<in> set (review_tasks w). rev_inspection_id k \<noteq> iid \<and> (\<forall>n \<ge> draws w. rev_id k \<noteq> new_id ''rev'' n))"

definition opened_task :: "string \<Rightarrow> string \<Rightarrow> world \<Rightarrow> ReviewTask" where
  "opened_task iid tid w = \<lparr>rev_id = new_id ''rev'' (draws w), rev_tenant = tid, rev_inspection_id = iid,
     rev_status = ''OPEN'', rev_assignee = None, rev_sla_at = None, rev_version = 1, rev_created_at = clock w\<rparr>"

lemma ensure_opens:
  assumes "no_task iid w" "lookup_inspection iid tid w = Some i"
  shows "fst (ensure_review_task env iid tid w) = Inr () \<and>
    review_tasks (snd (ensure_review_task env iid tid w)) = review_tasks w @ [opened_task iid tid w] \<and>
    inspections (snd (ensure_review_task env iid tid w)) = inspections w \<and>
    inference_results (snd (ensure_review_task env iid tid w)) = inference_results w \<and>
    policy_decisions (snd (ensure_review_task env iid tid w)) = policy_decisions w"
proof -
  have "review_of iid tid w = None"
    using assms(1) by (auto simp: review_of_def no_task_def find_None_iff)
  moreover have "\<not> (\<exists>x\<in>set (review_tasks w). rev_id x = new_id ''rev'' (draws w) \<or> rev_inspection_id x = iid)"
    using assms(1) by (auto simp: no_task_def)
  ultimately show ?thesis
    using assms(2)
    by (simp add: ensure_review_task_def insert_review_task_def insert_row_def bnd_def andthen_def fresh_id_def
        record_audit_def opened_task_def)
qed

lemma mark_inference_returns:
  "fst (mark_inference_outbox_processed iid tid w) = Inr () \<and>
   inspections (snd (mark_inference_outbox_processed iid tid w)) = inspections w \<and>
   review_tasks (snd (mark_inference_outbox_processed iid tid w)) = review_tasks w \<and>
   inference_results (snd (mark_inference_outbox_processed iid tid w)) = inference_results w \<and>
   policy_decisions (snd (mark_inference_outbox_processed iid tid w)) = policy_decisions w"
  by (simp add: mark_inference_outbox_processed_def bnd_def update_event_def split: option.split)

text \<open>What the handler leaves when the model failed.\<close>

definition routed_to_review :: "Inspection \<Rightarrow> string \<Rightarrow> world \<Rightarrow> world \<Rightarrow> bool" where
  "routed_to_review i reason w w' \<longleftrightarrow>
     lookup_inspection (insp_id i) (insp_tenant i) w' =
       Some (i\<lparr>insp_status := REVIEW_REQUIRED, insp_failure_reason := Some reason\<rparr>) \<and>
     (\<exists>k. review_tasks w' = review_tasks w @ [k] \<and> rev_inspection_id k = insp_id i \<and> rev_tenant k = insp_tenant i \<and>
        rev_status k = ''OPEN'' \<and> rev_assignee k = None) \<and>
     inference_results w' = inference_results w \<and> policy_decisions w' = policy_decisions w"

lemma no_task_mono:
  "no_task iid w \<Longrightarrow> review_tasks w' = review_tasks w \<Longrightarrow> draws w \<le> draws w' \<Longrightarrow> no_task iid w'"
  by (auto simp: no_task_def)

lemma inference_failed_routes:
  assumes i: "lookup_inspection (insp_id i) (insp_tenant i) w = Some (i\<lparr>insp_status := INFERENCING\<rparr>)"
    and no: "no_task (insp_id i) w"
  shows "\<exists>w'. inference_failed env (insp_id i) (insp_tenant i) reason w = (Inr (), w') \<and> routed_to_review i reason w w'"
proof -
  let ?iid = "insp_id i" and ?tid = "insp_tenant i"
  define w1 where "w1 = snd (set_failure_reason ?iid ?tid reason w)"
  define w2 where "w2 = transitioned env (i\<lparr>insp_status := INFERENCING, insp_failure_reason := Some reason\<rparr>)
    ?iid ?tid INFERENCE_FAILED ''system:model-worker'' reason None w1"
  define w3 where "w3 = transitioned env (i\<lparr>insp_status := INFERENCE_FAILED, insp_failure_reason := Some reason\<rparr>)
    ?iid ?tid REVIEW_REQUIRED ''system:policy'' ''fail-safe routing; automatic release prohibited'' None w2"
  define w4 where "w4 = snd (ensure_review_task env ?iid ?tid w3)"
  define w5 where "w5 = snd (mark_inference_outbox_processed ?iid ?tid w4)"
  have l1: "lookup_inspection ?iid ?tid w1 = Some (i\<lparr>insp_status := INFERENCING, insp_failure_reason := Some reason\<rparr>)"
    using lookup_failure_reason [OF i] by (simp add: w1_def)
  have l2: "lookup_inspection ?iid ?tid w2 = Some (i\<lparr>insp_status := INFERENCE_FAILED, insp_failure_reason := Some reason\<rparr>)"
    using lookup_transitioned [OF l1] by (simp add: w2_def)
  have l3: "lookup_inspection ?iid ?tid w3 = Some (i\<lparr>insp_status := REVIEW_REQUIRED, insp_failure_reason := Some reason\<rparr>)"
    using lookup_transitioned [OF l2] by (simp add: w3_def)
  have t: "review_tasks w3 = review_tasks w" "inference_results w3 = inference_results w"
    "policy_decisions w3 = policy_decisions w" "draws w \<le> draws w3"
    by (simp_all add: w3_def w2_def w1_def)
  note task = ensure_opens [OF no_task_mono [OF no t(1,4)] l3, of env, folded w4_def]
  note mark = mark_inference_returns [of ?iid ?tid w4, folded w5_def]
  have "set_failure_reason ?iid ?tid reason w = (Inr (), w1)"
    by (simp add: w1_def set_failure_reason_def)
  moreover have "transition_inspection env ?iid ?tid INFERENCE_FAILED ''system:model-worker'' reason None w1 = (Inr (), w2)"
    unfolding w2_def by (rule transition_runs [OF l1]) (simp add: legal_edge_def)
  moreover have "transition_inspection env ?iid ?tid REVIEW_REQUIRED ''system:policy''
      ''fail-safe routing; automatic release prohibited'' None w2 = (Inr (), w3)"
    unfolding w3_def by (rule transition_runs [OF l2]) (simp add: legal_edge_def)
  moreover have "ensure_review_task env ?iid ?tid w3 = (Inr (), w4)"
    using task unfolding w4_def by (metis prod.collapse)
  moreover have "mark_inference_outbox_processed ?iid ?tid w4 = (Inr (), w5)"
    using mark unfolding w5_def by (metis prod.collapse)
  ultimately have "inference_failed env ?iid ?tid reason w = (Inr (), w5)"
    by (simp add: inference_failed_def andthen_def)
  moreover have "routed_to_review i reason w w5"
    using l3 task mark t by (simp add: routed_to_review_def lookup_inspection_def opened_task_def)
  ultimately show ?thesis by blast
qed

text \<open>C10. The model never decides by failing: when the model call of a validated inspection fails in any
  way (no image, no pack, an unreadable object, an exception of the adapter), the handler does not raise; it
  leaves the inspection in \<open>REVIEW_REQUIRED\<close> with the reason, opens one unassigned review task for it, and
  stores no model result and no policy decision.\<close>

theorem model_failure_goes_to_review:
  assumes "lookup_inspection iid tid w = Some i" "insp_status i = VALIDATED" "no_task iid w"
    and "fst (run_model env i w) = Inl e"
  shows "\<exists>w'. process_inference env iid (Some tid) w = (Inr (), w') \<and>
    routed_to_review i (''model unavailable: '' @ exn_type e) w w'"
proof -
  let ?reason = "''model unavailable: '' @ exn_type e"
  let ?w1 = "transitioned env i iid tid INFERENCING ''system:model-worker'' ''model invocation started'' None w"
  have id: "insp_id i = iid" "insp_tenant i = tid" using lookup_inspectionD [OF assms(1)] by simp_all
  have find: "find (\<lambda>i. insp_id i = iid \<and> insp_tenant i = tid) (inspections w) = Some i"
    using assms(1) by (simp add: lookup_inspection_def is_inspection_def [abs_def])
  have started: "transition_inspection env iid tid INFERENCING ''system:model-worker''
      ''model invocation started'' None w = (Inr (), ?w1)"
    by (rule transition_runs [OF assms(1)]) (simp add: assms(2) legal_edge_def)
  have "run_model env i ?w1 = (Inl e, ?w1)"
    using reads_eval [OF reads_run_model, of env i ?w1] reads_same [OF reads_run_model, of ?w1 w env i] assms(4)
    by (simp add: model_inputs_def)
  then have "process_inference env iid (Some tid) w = inference_failed env iid tid ?reason ?w1"
    using find assms(2) started id
    by (simp add: process_inference_def andthen_def try_catch_def bnd_def)
  moreover have "no_task iid ?w1" by (rule no_task_mono [OF assms(3)]) simp_all
  moreover have "lookup_inspection iid tid ?w1 = Some (i\<lparr>insp_status := INFERENCING\<rparr>)"
    by (rule lookup_transitioned [OF assms(1)])
  ultimately show ?thesis
    using inference_failed_routes [of i ?w1 env ?reason] id by (simp add: routed_to_review_def)
qed

section \<open>A score is routed by the policy\<close>

lemma lookup_same: "inspections w' = inspections w \<Longrightarrow> lookup_inspection iid tid w' = lookup_inspection iid tid w"
  by (simp add: lookup_inspection_def)

lemma put_immutable_tables:
  assumes "put_immutable env key data w = (Inr uri, w')"
  shows "inspections w' = inspections w \<and> image_assets w' = image_assets w \<and> inference_results w' = inference_results w \<and>
    policy_decisions w' = policy_decisions w \<and> review_tasks w' = review_tasks w \<and> draws w' = draws w"
  using assms by (auto simp: put_immutable_def bnd_def andthen_def split: option.splits if_splits)

text \<open>The rows of the model run can be stored: the heat map's address is free and no result of the attempt exists.\<close>

definition heatmap_key :: "env \<Rightarrow> Inspection \<Rightarrow> ModelOutput \<Rightarrow> string" where
  "heatmap_key env i output = insp_tenant i @ ''/heatmaps/'' @ insp_id i @ ''/'' @
     sha256 env (mo_heatmap_png output) @ ''.png''"

definition storable :: "env \<Rightarrow> Inspection \<Rightarrow> ImageAsset \<Rightarrow> ModelOutput \<Rightarrow> world \<Rightarrow> bool" where
  "storable env i original output w \<longleftrightarrow>
     (\<exists>uri w'. put_immutable env (heatmap_key env i output) (mo_heatmap_png output) w = (Inr uri, w') \<and>
        (\<forall>x \<in> set (image_assets w). \<not> (img_tenant x = insp_tenant i \<and> img_uri x = uri))) \<and>
     img_width original \<noteq> 0 \<and> img_height original \<noteq> 0 \<and> 0 \<le> mo_score output \<and> mo_score output \<le> 1 \<and>
     (\<forall>x \<in> set (inference_results w). \<not> (inf_inspection_id x = insp_id i \<and> inf_attempt x = 1)) \<and>
     (\<forall>x \<in> set (policy_decisions w). pol_inspection_id x \<noteq> insp_id i)"

definition result_stored :: "Inspection \<Rightarrow> ModelOutput \<Rightarrow> world \<Rightarrow> world \<Rightarrow> bool" where
  "result_stored i output w w' \<longleftrightarrow> (\<exists>f. inference_results w' = inference_results w @ [f] \<and>
     inf_inspection_id f = insp_id i \<and> inf_tenant f = insp_tenant i \<and> inf_score f = mo_score output)"

lemma insert_row_runs:
  "(\<And>x. x \<in> set (table w) \<Longrightarrow> \<not> clash x r) \<Longrightarrow>
     insert_row table upd constraint clash r w = (Inr (), upd (\<lambda>rows. rows @ [r]) w)"
  by (auto simp: insert_row_def bnd_def)

lemma insert_image_runs:
  "img_width r \<noteq> 0 \<Longrightarrow> img_height r \<noteq> 0 \<Longrightarrow>
     (\<And>x. x \<in> set (image_assets w) \<Longrightarrow> \<not> (img_tenant x = img_tenant r \<and> img_uri x = img_uri r)) \<Longrightarrow>
     insert_image_asset r w = (Inr (), image_assets_update (\<lambda>rows. rows @ [r]) w)"
  unfolding insert_image_asset_def by (simp add: insert_row_runs)

lemma insert_inference_runs:
  "0 \<le> inf_score r \<Longrightarrow> inf_score r \<le> 1 \<Longrightarrow>
     (\<And>x. x \<in> set (inference_results w) \<Longrightarrow> \<not> (inf_inspection_id x = inf_inspection_id r \<and> inf_attempt x = inf_attempt r)) \<Longrightarrow>
     insert_inference_result r w = (Inr (), inference_results_update (\<lambda>rows. rows @ [r]) w)"
  unfolding insert_inference_result_def by (simp add: insert_row_runs)

lemma insert_policy_runs:
  "(\<And>x. x \<in> set (policy_decisions w) \<Longrightarrow> pol_inspection_id x \<noteq> pol_inspection_id r) \<Longrightarrow>
     insert_policy_decision r w = (Inr (), policy_decisions_update (\<lambda>rows. rows @ [r]) w)"
  unfolding insert_policy_decision_def by (rule insert_row_runs)

lemma record_result_runs:
  assumes i: "lookup_inspection (insp_id i) (insp_tenant i) w = Some (j\<lparr>insp_status := INFERENCING\<rparr>)"
    and s: "storable env i original output w"
  shows "\<exists>w'. record_result env i original m output w = (Inr (), w') \<and>
    lookup_inspection (insp_id i) (insp_tenant i) w' = Some (j\<lparr>insp_status := SCORED\<rparr>) \<and> result_stored i output w w' \<and>
    policy_decisions w' = policy_decisions w \<and> review_tasks w' = review_tasks w \<and> draws w \<le> draws w'"
proof -
  obtain uri w1 where "put_immutable env (heatmap_key env i output) (mo_heatmap_png output) w = (Inr uri, w1)"
    and free: "\<And>x. x \<in> set (image_assets w) \<Longrightarrow> \<not> (img_tenant x = insp_tenant i \<and> img_uri x = uri)"
    using s by (auto simp: storable_def)
  then have put: "put_immutable env (insp_tenant i @ ''/heatmaps/'' @ insp_id i @ ''/'' @ sha256 env (mo_heatmap_png output)
      @ ''.png'') (mo_heatmap_png output) w = (Inr uri, w1)"
    by (simp add: heatmap_key_def)
  note tables = put_immutable_tables [OF put]
  define w2 where "w2 = w1\<lparr>draws := Suc (Suc (draws w1))\<rparr>"
  define im where "im = \<lparr>img_id = new_id ''img'' (draws w1), img_tenant = insp_tenant i, img_inspection_id = insp_id i,
    img_kind = ''HEATMAP'', img_sha256 = sha256 env (mo_heatmap_png output), img_uri = uri, img_mime_type = ''image/png'',
    img_width = img_width original, img_height = img_height original, img_source = ''model'', img_created_at = clock w1\<rparr>"
  define f where "f = \<lparr>inf_id = new_id ''inf'' (Suc (draws w1)), inf_tenant = insp_tenant i, inf_inspection_id = insp_id i,
    inf_attempt = 1, inf_model_id = md_id (model m), inf_model_version = md_version (model m),
    inf_feature_bank_version = md_feature_bank_version (model m), inf_runtime_device = mo_runtime_device output,
    inf_score = mo_score output, inf_heatmap_uri = uri, inf_latency_ms = mo_latency_ms output,
    inf_semantic_defect_confirmed = False\<rparr>"
  define w3 where "w3 = image_assets_update (\<lambda>rows. rows @ [im]) w2"
  define w4 where "w4 = inference_results_update (\<lambda>rows. rows @ [f]) w3"
  define w5 where "w5 = transitioned env (j\<lparr>insp_status := INFERENCING\<rparr>) (insp_id i) (insp_tenant i) SCORED
    ''system:model-worker'' ''immutable model result saved'' None w4"
  have image: "insert_image_asset im w2 = (Inr (), w3)"
    unfolding w3_def by (rule insert_image_runs) (use s free tables in \<open>auto simp: im_def storable_def w2_def\<close>)
  have result: "insert_inference_result f w3 = (Inr (), w4)"
    unfolding w4_def
    by (rule insert_inference_runs) (use s tables in \<open>auto simp: f_def storable_def w3_def w2_def\<close>)
  have l4: "lookup_inspection (insp_id i) (insp_tenant i) w4 = Some (j\<lparr>insp_status := INFERENCING\<rparr>)"
    using i tables by (simp add: lookup_inspection_def w4_def w3_def w2_def)
  have status: "transition_inspection env (insp_id i) (insp_tenant i) SCORED ''system:model-worker''
      ''immutable model result saved'' None w4 = (Inr (), w5)"
    unfolding w5_def by (rule transition_runs [OF l4]) (simp add: legal_edge_def)
  have "record_result env i original m output w = (Inr (), w5)"
    unfolding record_result_def Let_def
    by (subst bnd_Inr, rule put, unfold query_runs fresh_id_runs)
      (use image result status in \<open>simp add: w2_def im_def f_def andthen_runs\<close>)
  moreover have "lookup_inspection (insp_id i) (insp_tenant i) w5 = Some (j\<lparr>insp_status := SCORED\<rparr>)"
    using lookup_transitioned [OF l4] by (simp add: w5_def)
  ultimately show ?thesis
    using tables by (intro exI [of _ w5]) (simp add: result_stored_def w5_def w4_def w3_def w2_def f_def)
qed

definition decision_stored :: "Inspection \<Rightarrow> PolicyEvaluation \<Rightarrow> world \<Rightarrow> world \<Rightarrow> bool" where
  "decision_stored i ev w w' \<longleftrightarrow> (\<exists>p. policy_decisions w' = policy_decisions w @ [p] \<and>
     pol_inspection_id p = insp_id i \<and> pol_tenant p = insp_tenant i \<and> pol_decision p = ev_route ev \<and>
     pol_resolved_review_threshold p = ev_review_threshold ev \<and> pol_resolved_hold_threshold p = ev_hold_threshold ev)"

definition task_opened_unless_released :: "Inspection \<Rightarrow> PolicyEvaluation \<Rightarrow> world \<Rightarrow> world \<Rightarrow> bool" where
  "task_opened_unless_released i ev w w' \<longleftrightarrow>
     (ev_route ev = AUTO_RELEASE \<longrightarrow> review_tasks w' = review_tasks w) \<and>
     (ev_route ev \<noteq> AUTO_RELEASE \<longrightarrow> (\<exists>k. review_tasks w' = review_tasks w @ [k] \<and>
        rev_inspection_id k = insp_id i \<and> rev_tenant k = insp_tenant i \<and> rev_status k = ''OPEN'' \<and> rev_assignee k = None))"

lemma scored_edges: "legal_edge SCORED (target_of_route r)"
  by (cases r) (simp_all add: legal_edge_def target_of_route_def)

lemma decide_policy_runs:
  assumes i: "lookup_inspection (insp_id i) (insp_tenant i) w = Some (j\<lparr>insp_status := SCORED\<rparr>)"
    and none: "\<And>x. x \<in> set (policy_decisions w) \<Longrightarrow> pol_inspection_id x \<noteq> insp_id i"
    and no: "no_task (insp_id i) w"
    and ev: "evaluate_policy (Some score) (Some (policy m)) (insp_product_code i) (insp_station_code i) = Inr ev"
  shows "\<exists>w'. decide_policy env i m score w = (Inr (), w') \<and>
    lookup_inspection (insp_id i) (insp_tenant i) w' = Some (j\<lparr>insp_status := target_of_route (ev_route ev)\<rparr>) \<and>
    decision_stored i ev w w' \<and> task_opened_unless_released i ev w w' \<and> inference_results w' = inference_results w"
proof -
  let ?iid = "insp_id i" and ?tid = "insp_tenant i"
  define p where "p = \<lparr>pol_id = new_id ''pol'' (draws w), pol_tenant = ?tid, pol_inspection_id = ?iid,
    pol_policy_version = policy_version (policy m), pol_decision = ev_route ev, pol_reason = ev_reason ev,
    pol_snapshot_policy = policy m, pol_resolved_review_threshold = ev_review_threshold ev,
    pol_resolved_hold_threshold = ev_hold_threshold ev\<rparr>"
  define w1 where "w1 = w\<lparr>draws := Suc (draws w)\<rparr>"
  define w2 where "w2 = policy_decisions_update (\<lambda>rows. rows @ [p]) w1"
  define w3 where "w3 = transitioned env (j\<lparr>insp_status := SCORED\<rparr>) ?iid ?tid (target_of_route (ev_route ev))
    ''system:policy'' (ev_reason ev) None w2"
  define w4 where "w4 = snd (run_if (ev_route ev \<noteq> AUTO_RELEASE) (ensure_review_task env ?iid ?tid) w3)"
  define w5 where "w5 = snd (mark_inference_outbox_processed ?iid ?tid w4)"
  have stored: "insert_policy_decision p w1 = (Inr (), w2)"
    unfolding w2_def by (rule insert_policy_runs) (use none in \<open>auto simp: p_def w1_def\<close>)
  have l2: "lookup_inspection ?iid ?tid w2 = Some (j\<lparr>insp_status := SCORED\<rparr>)"
    using i by (simp add: lookup_inspection_def w2_def w1_def)
  have status: "transition_inspection env ?iid ?tid (target_of_route (ev_route ev)) ''system:policy'' (ev_reason ev) None w2
      = (Inr (), w3)"
    unfolding w3_def by (rule transition_runs [OF l2]) (simp add: scored_edges)
  have l3: "lookup_inspection ?iid ?tid w3 = Some (j\<lparr>insp_status := target_of_route (ev_route ev)\<rparr>)"
    using lookup_transitioned [OF l2] by (simp add: w3_def)
  have no3: "no_task ?iid w3" by (rule no_task_mono [OF no]) (simp_all add: w3_def w2_def w1_def)
  have task: "run_if (ev_route ev \<noteq> AUTO_RELEASE) (ensure_review_task env ?iid ?tid) w3 = (Inr (), w4) \<and>
      inspections w4 = inspections w3 \<and> policy_decisions w4 = policy_decisions w3 \<and>
      inference_results w4 = inference_results w3 \<and> task_opened_unless_released i ev w3 w4"
    using ensure_opens [OF no3 l3, of env]
    by (cases "ev_route ev = AUTO_RELEASE"; cases "ensure_review_task env ?iid ?tid w3")
      (auto simp: w4_def task_opened_unless_released_def opened_task_def)
  note mark = mark_inference_returns [of ?iid ?tid w4, folded w5_def]
  have marked: "mark_inference_outbox_processed ?iid ?tid w4 = (Inr (), w5)"
    using mark unfolding w5_def by (metis prod.collapse)
  have "decide_policy env i m score w = (Inr (), w5)"
    unfolding decide_policy_def ev sum.case fresh_id_runs
    using stored status task marked by (simp add: p_def w1_def andthen_runs)
  moreover have "lookup_inspection ?iid ?tid w5 = Some (j\<lparr>insp_status := target_of_route (ev_route ev)\<rparr>)"
    using l3 task mark by (simp add: lookup_inspection_def)
  moreover have "review_tasks w3 = review_tasks w" "inference_results w3 = inference_results w"
    "policy_decisions w3 = policy_decisions w @ [p]"
    by (simp_all add: w3_def w2_def w1_def)
  ultimately show ?thesis
    using task mark
    by (intro exI [of _ w5]) (simp add: decision_stored_def task_opened_unless_released_def p_def)
qed

text \<open>C11. A model result is routed by the policy: when the model answers a validated inspection with a score and the
  policy evaluates it, the handler returns, the inspection has the status of the route, exactly one result
  with that score and one decision with that route and its thresholds are stored, and an open review task
  exists unless the route is \<open>AUTO_RELEASE\<close>.\<close>

theorem model_result_is_routed:
  assumes "lookup_inspection iid tid w = Some i" "insp_status i = VALIDATED" "no_task iid w"
    and "fst (run_model env i w) = Inr (original, m, output)" "storable env i original output w"
    and "evaluate_policy (Some (mo_score output)) (Some (policy m)) (insp_product_code i) (insp_station_code i) = Inr ev"
  shows "\<exists>w'. process_inference env iid (Some tid) w = (Inr (), w') \<and>
    lookup_inspection iid tid w' = Some (i\<lparr>insp_status := target_of_route (ev_route ev)\<rparr>) \<and>
    result_stored i output w w' \<and> decision_stored i ev w w' \<and> task_opened_unless_released i ev w w'"
proof -
  let ?w1 = "transitioned env i iid tid INFERENCING ''system:model-worker'' ''model invocation started'' None w"
  have id: "insp_id i = iid" "insp_tenant i = tid" using lookup_inspectionD [OF assms(1)] by simp_all
  have find: "find (\<lambda>i. insp_id i = iid \<and> insp_tenant i = tid) (inspections w) = Some i"
    using assms(1) by (simp add: lookup_inspection_def is_inspection_def [abs_def])
  have started: "transition_inspection env iid tid INFERENCING ''system:model-worker''
      ''model invocation started'' None w = (Inr (), ?w1)"
    by (rule transition_runs [OF assms(1)]) (simp add: assms(2) legal_edge_def)
  have "run_model env i ?w1 = (Inr (original, m, output), ?w1)"
    using reads_eval [OF reads_run_model, of env i ?w1] reads_same [OF reads_run_model, of ?w1 w env i] assms(4)
    by (simp add: model_inputs_def)
  then have run: "process_inference env iid (Some tid) w = route_result env i original m output ?w1"
    using find assms(2) started id
    by (simp add: process_inference_def andthen_def try_catch_def bnd_def)
  have l1: "lookup_inspection (insp_id i) (insp_tenant i) ?w1 = Some (i\<lparr>insp_status := INFERENCING\<rparr>)"
    using lookup_transitioned [OF assms(1)] id by simp
  have "storable env i original output ?w1"
    using assms(5) by (auto simp: storable_def put_immutable_def bnd_def andthen_def split: option.splits if_splits)
  from record_result_runs [OF l1 this, of m] obtain w2 where
    w2: "record_result env i original m output ?w1 = (Inr (), w2)"
      "lookup_inspection (insp_id i) (insp_tenant i) w2 = Some (i\<lparr>insp_status := SCORED\<rparr>)"
      "result_stored i output w w2" "policy_decisions w2 = policy_decisions w" "review_tasks w2 = review_tasks w"
      "draws w \<le> draws w2"
    by (auto simp: result_stored_def)
  have "no_task (insp_id i) w2" using no_task_mono [OF assms(3) w2(5,6)] id by simp
  moreover have "pol_inspection_id x \<noteq> insp_id i" if "x \<in> set (policy_decisions w2)" for x
    using that assms(5) w2(4) by (auto simp: storable_def)
  ultimately obtain w3 where
    w3: "decide_policy env i m (mo_score output) w2 = (Inr (), w3)"
      "lookup_inspection (insp_id i) (insp_tenant i) w3 = Some (i\<lparr>insp_status := target_of_route (ev_route ev)\<rparr>)"
      "decision_stored i ev w2 w3" "task_opened_unless_released i ev w2 w3" "inference_results w3 = inference_results w2"
    using decide_policy_runs [OF w2(2) _ _ assms(6), of env] by blast
  have "process_inference env iid (Some tid) w = (Inr (), w3)"
    using run w2(1) w3(1) by (simp add: route_result_def andthen_runs)
  then show ?thesis
    using w2 w3 id by (simp add: result_stored_def decision_stored_def task_opened_unless_released_def)
qed

section \<open>Witnesses\<close>

definition waiting_inspection :: Inspection where
  "waiting_inspection = \<lparr>insp_id = ''insp_0'', insp_tenant = ''t1'', insp_deployment_pack_id = ''dep_0'',
     insp_idempotency_key = ''key-0001'', insp_request_fingerprint = ''f'', insp_correlation_id = ''c'',
     insp_status = VALIDATED, insp_product_code = ''P2'', insp_product_revision = None, insp_batch_no = ''B1'',
     insp_station_code = ''S1'', insp_captured_at = 0, insp_source = ''api'', insp_failure_reason = None,
     insp_created_at = 0\<rparr>"

definition waiting_image :: ImageAsset where
  "waiting_image = \<lparr>img_id = ''img_0'', img_tenant = ''t1'', img_inspection_id = ''insp_0'', img_kind = ''ORIGINAL'',
     img_sha256 = ''img'', img_uri = ''local://x'', img_mime_type = ''image/png'', img_width = 4, img_height = 4,
     img_source = ''api'', img_created_at = 0\<rparr>"

definition waiting_world :: world where
  "waiting_world = example_world\<lparr>inspections := [waiting_inspection], image_assets := [waiting_image],
     objects := [(''x'', ''img'')], draws := 5\<rparr>"

lemma waiting_lookup: "lookup_inspection ''insp_0'' ''t1'' waiting_world = Some waiting_inspection"
  "insp_status waiting_inspection = VALIDATED" "no_task ''insp_0'' waiting_world"
  by (simp_all add: waiting_world_def waiting_inspection_def lookup_inspection_def is_inspection_def no_task_def run_simps)

lemma stored_key: "safe_key ''x'' = Some ''x''"
  by code_simp

lemma waiting_model:
  "fst (run_model (env\<lparr>infer := infer'\<rparr>) waiting_inspection waiting_world) =
     (case infer' ''img'' of Inl exc \<Rightarrow> Inl (OtherError exc '''') | Inr out \<Rightarrow> Inr (waiting_image, example_manifest, out))"
  by (simp add: run_model_def waiting_world_def waiting_inspection_def waiting_image_def run_simps is_deployment_def
      get_object_def startswith_def stored_key split: sum.split)

lemma model_failure_goes_to_review_witness:
  "\<exists>w'. process_inference ((example_env 0)\<lparr>infer := (\<lambda>b. Inl ''ModelUnavailable'')\<rparr>) ''insp_0'' (Some ''t1'') waiting_world
       = (Inr (), w') \<and> routed_to_review waiting_inspection ''model unavailable: ModelUnavailable'' waiting_world w'"
  using model_failure_goes_to_review [OF waiting_lookup,
      of "(example_env 0)\<lparr>infer := (\<lambda>b. Inl ''ModelUnavailable'')\<rparr>" "OtherError ''ModelUnavailable'' ''''"]
    waiting_model [where env = "example_env 0" and infer' = "\<lambda>b. Inl ''ModelUnavailable''"]
  by (simp add: exn_type_def)

definition answering_env :: env where
  "answering_env = (example_env 0)\<lparr>infer := (\<lambda>b. Inr (example_output (3 / 5)))\<rparr>"

lemma waiting_storable:
  "storable answering_env waiting_inspection waiting_image (example_output (3 / 5)) waiting_world"
proof -
  have put: "put_immutable answering_env (heatmap_key answering_env waiting_inspection (example_output (3 / 5)))
      (mo_heatmap_png (example_output (3 / 5))) waiting_world =
    (Inr ''local://t1/heatmaps/insp_0/heat.png'',
     waiting_world\<lparr>objects := objects waiting_world @ [(''t1/heatmaps/insp_0/heat.png'', ''heat'')]\<rparr>)"
    by (simp add: put_immutable_def heatmap_key_def answering_env_def waiting_inspection_def waiting_world_def run_simps)
  show ?thesis
    unfolding storable_def
    by (intro conjI exI, rule put)
      (simp_all add: waiting_world_def waiting_image_def waiting_inspection_def run_simps)
qed

lemma waiting_evaluation:
  "\<exists>ev. evaluate_policy (Some (mo_score (example_output (3 / 5)))) (Some (policy example_manifest))
     (insp_product_code waiting_inspection) (insp_station_code waiting_inspection) = Inr ev \<and> ev_route ev = MANUAL_REVIEW"
  by (simp add: evaluate_policy_def waiting_inspection_def run_simps)

lemma model_result_is_routed_witness:
  "\<exists>w'. process_inference answering_env ''insp_0'' (Some ''t1'') waiting_world = (Inr (), w') \<and>
     lookup_inspection ''insp_0'' ''t1'' w' = Some (waiting_inspection\<lparr>insp_status := REVIEW_REQUIRED\<rparr>)"
proof -
  obtain ev where ev: "evaluate_policy (Some (mo_score (example_output (3 / 5)))) (Some (policy example_manifest))
     (insp_product_code waiting_inspection) (insp_station_code waiting_inspection) = Inr ev" "ev_route ev = MANUAL_REVIEW"
    using waiting_evaluation by blast
  have "fst (run_model answering_env waiting_inspection waiting_world) =
      Inr (waiting_image, example_manifest, example_output (3 / 5))"
    unfolding answering_env_def waiting_model by simp
  from model_result_is_routed [OF waiting_lookup this waiting_storable ev(1)] show ?thesis
    by (auto simp: ev(2) target_of_route_def)
qed

end
