(* ===== verification/Lifecycle.thy ===== *)
theory Lifecycle
  imports Reads
begin

text \<open>
  Which pack and which model are in force: at most one active pack per tenant and one active model
  qualification per product, and a qualification is evaluated, approved and activated by three
  different people, in every reachable store.
\<close>

section \<open>Handlers that read before they write\<close>

lemma hoare_read_bnd:
  assumes "reads (\<lambda>w. w) m" "\<And>a. hoare P (k a) Q X" "\<And>w. P w \<Longrightarrow> X w"
  shows "hoare P (bnd m k) Q X"
proof (rule hoareI)
  fix w
  assume w: "P w"
  show "case bnd m k w of (Inl e, w') \<Rightarrow> X w' | (Inr a, w') \<Rightarrow> Q a w'"
    unfolding bnd_reads [OF assms(1)]
  proof (cases "fst (m w)")
    case (Inr a)
    then show "case case fst (m w) of Inl e \<Rightarrow> (Inl e, w) | Inr a \<Rightarrow> k a w of (Inl e, w') \<Rightarrow> X w' | (Inr a, w') \<Rightarrow> Q a w'"
      using assms(2) [of a, unfolded hoare_def, rule_format, OF w] by simp
  qed (simp add: assms(3) w)
qed

lemma hoare_if: "(b \<Longrightarrow> hoare P m Q X) \<Longrightarrow> (\<not> b \<Longrightarrow> hoare P m' Q X) \<Longrightarrow> hoare P (if b then m else m') Q X"
  by simp

lemma hoare_option: "(x = None \<Longrightarrow> hoare P m Q X) \<Longrightarrow> (\<And>y. x = Some y \<Longrightarrow> hoare P (k y) Q X) \<Longrightarrow>
    hoare P (case x of None \<Rightarrow> m | Some y \<Rightarrow> k y) Q X"
  by (cases x) simp_all

definition found_qualification :: "string \<Rightarrow> string \<Rightarrow> ModelQualification \<Rightarrow> world \<Rightarrow> bool" where
  "found_qualification tid qid q w \<longleftrightarrow> find (is_qualification qid tid) (model_qualifications w) = Some q"

lemma hoare_the_qualification:
  assumes "\<And>q. hoare (\<lambda>w. J w \<and> found_qualification tid qid q w) (k q) (\<lambda>_. J) J"
  shows "hoare J (bnd (the_qualification tid qid) k) (\<lambda>_. J) J"
proof (rule hoare_bnd)
  show "hoare J (the_qualification tid qid) (\<lambda>q w. J w \<and> found_qualification tid qid q w) J"
    by (simp add: hoare_def the_qualification_def bnd_def found_qualification_def split: option.split)
qed (rule assms)

lemma reads_steps:
  "reads (\<lambda>w. w) (the_qualification tid qid)" "reads (\<lambda>w. w) (active_deployment tid)"
  "reads (\<lambda>w. w) (deployment_manifest d)" "reads (\<lambda>w. w) (require_activation_dataset pr q)"
  "reads (\<lambda>w. w) (get_deployment tid did)" "reads (\<lambda>w. w) (fetch table P)" "reads (\<lambda>w. w) (query g)"
  unfolding the_qualification_def active_deployment_def require_activation_dataset_def get_deployment_def Let_def
  by (intro reads_intros reads_fetch reads_query reads_manifest; simp)+

lemmas hoare_reads = hoare_read_bnd hoare_if hoare_option hoare_throw reads_steps reads_lift

section \<open>The invariant\<close>

definition separated :: "ModelQualification \<Rightarrow> bool" where
  "separated q \<longleftrightarrow>
     (mq_status q \<in> {''EVALUATED'', ''APPROVED'', ''ACTIVE'', ''RETIRED''} \<longrightarrow> mq_evaluated_by q \<noteq> None) \<and>
     (mq_status q \<in> {''APPROVED'', ''ACTIVE'', ''RETIRED''} \<longrightarrow>
        mq_approved_by q \<noteq> None \<and> mq_approved_by q \<noteq> mq_evaluated_by q) \<and>
     (mq_status q = ''ACTIVE'' \<longrightarrow> mq_activated_by q \<noteq> None \<and>
        mq_activated_by q \<noteq> mq_evaluated_by q \<and> mq_activated_by q \<noteq> mq_approved_by q)"

definition one_active_model :: "ModelQualification list \<Rightarrow> bool" where
  "one_active_model qs \<longleftrightarrow> (\<forall>a \<in> set qs. \<forall>b \<in> set qs. mq_status a = ''ACTIVE'' \<longrightarrow> mq_status b = ''ACTIVE'' \<longrightarrow>
     mq_tenant a = mq_tenant b \<longrightarrow> mq_product_code a = mq_product_code b \<longrightarrow> a = b)"

definition one_active_pack :: "DeploymentPack list \<Rightarrow> bool" where
  "one_active_pack ds \<longleftrightarrow> (\<forall>a \<in> set ds. \<forall>b \<in> set ds. dep_status a = ''ACTIVE'' \<longrightarrow> dep_status b = ''ACTIVE'' \<longrightarrow>
     dep_tenant a = dep_tenant b \<longrightarrow> a = b)"

definition registry :: "world \<Rightarrow> bool" where
  "registry w \<longleftrightarrow> distinct (map mq_id (model_qualifications w)) \<and> distinct (map dep_id (deployment_packs w)) \<and>
     (\<forall>q \<in> set (model_qualifications w). separated q) \<and>
     one_active_model (model_qualifications w) \<and> one_active_pack (deployment_packs w)"

abbreviation keeps_registry :: "world \<Rightarrow> world \<Rightarrow> bool" where
  "keeps_registry w w' \<equiv> registry w \<longrightarrow> registry w'"

lemma keeps_registry_same:
  "model_qualifications w' = model_qualifications w \<Longrightarrow> deployment_packs w' = deployment_packs w \<Longrightarrow> keeps_registry w w'"
  by (simp add: registry_def)

interpretation registry_store: workflow_frame t keeps_registry "\<lambda>_. True" for t
proof
  show "keeps_registry w (snd (transition_inspection env iid t target actor reason corr w))"
    for w env iid target actor reason corr
    by (cases rule: transition_outcome [of env iid t target actor reason corr w]; rule keeps_registry_same)
      (simp_all add: transitioned_def Let_def)
  show "keeps_registry w (deployment_packs_update (\<lambda>rows. rows @ [dp]) w)"
    if "dep_tenant dp = t" "dep_status dp = ''DRAFT''" "\<forall>x \<in> set (deployment_packs w). dep_id x \<noteq> dep_id dp" for dp w
    using that by (auto simp: registry_def one_active_pack_def)
  show "keeps_registry w (model_qualifications_update (\<lambda>rows. rows @ [mq]) w)"
    if "mq_tenant mq = t" "mq_status mq = ''DRAFT''" "\<forall>x \<in> set (model_qualifications w). mq_id x \<noteq> mq_id mq" for mq w
    using that by (auto simp: registry_def one_active_model_def separated_def)
  show "keeps_registry w w''" if "keeps_registry w w'" "keeps_registry w' w''" for w w' w''
    using that by blast
qed (rule TrueI | rule keeps_registry_same; simp add: set_failure_reason_def update_incident_def update_action_def
      update_event_def update_gateway_def update_dataset_def add_inspection_eq Let_def)+

section \<open>The lifecycle of a qualification\<close>

lemma distinct_key_eq: "distinct (map g xs) \<Longrightarrow> x \<in> set xs \<Longrightarrow> y \<in> set xs \<Longrightarrow> g x = g y \<Longrightarrow> x = y"
  by (auto simp: distinct_map inj_on_def)

lemma update_one:
  assumes "distinct (map g xs)" "q \<in> set xs" "\<And>x. P x \<Longrightarrow> g x = g q" "P q"
  shows "set (update_where P f xs) = insert (f q) (set xs - {q})"
proof -
  have "P x \<longleftrightarrow> x = q" if "x \<in> set xs" for x
    using distinct_key_eq [OF assms(1) that assms(2)] assms(3,4) by blast
  then show ?thesis using assms(2) by (auto simp: set_update_where)
qed

lemma registry_update_qualification:
  assumes w: "registry w" "found_qualification tid qid q w" "separated (f q)"
    and f: "\<And>x. mq_id (f x) = mq_id x \<and> mq_tenant (f x) = mq_tenant x \<and> mq_product_code (f x) = mq_product_code x"
    and only: "mq_status (f q) = ''ACTIVE'' \<Longrightarrow> \<forall>x \<in> set (model_qualifications w). mq_status x = ''ACTIVE'' \<longrightarrow>
      mq_tenant x = tid \<longrightarrow> mq_product_code x = mq_product_code q \<longrightarrow> x = q"
  shows "registry (snd (update_qualification qid tid f w))"
proof -
  let ?qs = "model_qualifications w" and ?P = "is_qualification qid tid"
  have q: "q \<in> set ?qs" "mq_id q = qid" "mq_tenant q = tid"
    using w(2) by (auto simp: found_qualification_def is_qualification_def dest: find_SomeD1 find_SomeD2)
  have d: "distinct (map mq_id ?qs)" using w(1) by (simp add: registry_def)
  have rows: "set (update_where ?P f ?qs) = insert (f q) (set ?qs - {q})"
    using q by (intro update_one [OF d]) (auto simp: is_qualification_def)
  have "one_active_model (update_where ?P f ?qs)"
    using w(1) only f [of q] q unfolding one_active_model_def rows registry_def by (auto simp: q)
  moreover have "\<forall>x \<in> set (update_where ?P f ?qs). separated x"
    using w(1,3) unfolding rows registry_def by auto
  ultimately show ?thesis
    using w(1) f by (simp add: registry_def update_qualification_def)
qed

lemma registry_others:
  assumes "registry w" "model_qualifications w' = model_qualifications w" "deployment_packs w' = deployment_packs w"
  shows "registry w'"
  using assms by (simp add: registry_def)

text \<open>The last statements of every step: one update, the audit row, the answer.\<close>

lemma hoare_finish:
  assumes "\<And>w. registry w \<Longrightarrow> found_qualification tid qid q w \<Longrightarrow> registry (snd (update_qualification qid tid f w))"
  shows "hoare (\<lambda>w. registry w \<and> found_qualification tid qid q w)
    (andthen (run_all [update_qualification qid tid f, record_audit env tid actor action ty ti corr payload])
       (the_qualification tid qid)) (\<lambda>_. registry) registry"
proof (rule hoareI)
  fix w
  assume "registry w \<and> found_qualification tid qid q w"
  then have r: "registry (snd (update_qualification qid tid f w))" using assms by blast
  show "case andthen (run_all [update_qualification qid tid f, record_audit env tid actor action ty ti corr payload])
      (the_qualification tid qid) w of (Inl e, w') \<Rightarrow> registry w' | (Inr a, w') \<Rightarrow> registry w'"
    using registry_others [OF r]
    by (simp add: andthen_def bnd_def update_qualification_def record_audit_def fresh_id_def the_qualification_def
        split: option.split)
qed

text \<open>A step on an item in a given state.\<close>

lemma registry_step:
  assumes "registry w" "found_qualification tid qid q w" "mq_status (f q) \<noteq> ''ACTIVE''"
    and "separated q \<Longrightarrow> separated (f q)"
    and "\<And>x. mq_id (f x) = mq_id x \<and> mq_tenant (f x) = mq_tenant x \<and> mq_product_code (f x) = mq_product_code x"
  shows "registry (snd (update_qualification qid tid f w))"
proof (rule registry_update_qualification [OF assms(1,2) _ assms(5)])
  have "separated q"
    using assms(1,2) by (auto simp: registry_def found_qualification_def dest: find_SomeD2)
  then show "separated (f q)" by (rule assms(4))
qed (simp add: assms(3))

lemma keeps_evaluate: "keeps keeps_registry (evaluate_qualification env pr qid reason corr)"
  unfolding evaluate_qualification_def Let_def
  by (rule keeps_hoare, rule hoare_the_qualification, intro hoare_reads hoare_finish, auto intro!: registry_step)
    (auto simp: separated_def)

lemma keeps_approve: "keeps keeps_registry (approve_qualification env pr qid reason corr)"
  unfolding approve_qualification_def Let_def
  by (rule keeps_hoare, rule hoare_the_qualification, intro hoare_reads hoare_finish, auto intro!: registry_step)
    (auto simp: separated_def)

lemma keeps_retire: "keeps keeps_registry (retire_qualification env pr qid reason corr)"
  unfolding retire_qualification_def Let_def
  by (rule keeps_hoare, rule hoare_the_qualification, intro hoare_reads hoare_finish, auto intro!: registry_step)
    (auto simp: separated_def)

section \<open>Installing a qualification\<close>

definition current_model :: "string \<Rightarrow> ModelQualification \<Rightarrow> world \<Rightarrow> ModelQualification option" where
  "current_model tid q w = find (\<lambda>x. mq_tenant x = tid \<and> mq_product_code x = mq_product_code q \<and>
     mq_status x = ''ACTIVE'') (model_qualifications w)"

definition make_way :: "string \<Rightarrow> ModelQualification \<Rightarrow> world \<Rightarrow> world" where
  "make_way tid q w = snd (run_if (case current_model tid q w of None \<Rightarrow> False | Some c \<Rightarrow> mq_id c \<noteq> mq_id q)
     (update_qualification (mq_id (the (current_model tid q w))) tid (\<lambda>x. x\<lparr>mq_status := ''RETIRED''\<rparr>)) w)"

lemma find_unique:
  assumes "distinct (map g xs)" "x \<in> set xs" "P x" "\<And>y. P y \<Longrightarrow> g y = g x"
  shows "find P xs = Some x"
proof -
  have "find P xs \<noteq> None" using assms(2,3) by (auto simp: find_None_iff)
  then obtain y where y: "find P xs = Some y" by blast
  then have "y = x"
    using distinct_key_eq [OF assms(1) find_SomeD2 [OF y] assms(2)] assms(4) find_SomeD1 [OF y] by blast
  with y show ?thesis by simp
qed

lemma registry_make_way:
  assumes w: "registry w" "found_qualification tid (mq_id q) q w"
  shows "registry (make_way tid q w)" "found_qualification tid (mq_id q) q (make_way tid q w)"
    "\<forall>x \<in> set (model_qualifications (make_way tid q w)). mq_status x = ''ACTIVE'' \<longrightarrow> mq_tenant x = tid \<longrightarrow>
       mq_product_code x = mq_product_code q \<longrightarrow> x = q"
proof -
  let ?qs = "model_qualifications w"
  have d: "distinct (map mq_id ?qs)" using w(1) by (simp add: registry_def)
  have q: "q \<in> set ?qs" "mq_tenant q = tid"
    using w(2) by (auto simp: found_qualification_def is_qualification_def dest: find_SomeD1 find_SomeD2)
  have active: "x = c" if "current_model tid q w = Some c" "x \<in> set ?qs" "mq_status x = ''ACTIVE''" "mq_tenant x = tid"
      "mq_product_code x = mq_product_code q" for x c
    using w(1) that find_SomeD1 [OF that(1) [unfolded current_model_def]] find_SomeD2 [OF that(1) [unfolded current_model_def]]
    by (auto simp: registry_def one_active_model_def)
  have none: "\<not> (mq_status x = ''ACTIVE'' \<and> mq_tenant x = tid \<and> mq_product_code x = mq_product_code q)"
    if "current_model tid q w = None" "x \<in> set ?qs" for x
    using that by (auto simp: current_model_def find_None_iff)
  show "registry (make_way tid q w)" "found_qualification tid (mq_id q) q (make_way tid q w)"
    "\<forall>x \<in> set (model_qualifications (make_way tid q w)). mq_status x = ''ACTIVE'' \<longrightarrow> mq_tenant x = tid \<longrightarrow>
       mq_product_code x = mq_product_code q \<longrightarrow> x = q"
  proof (atomize(full), cases "\<exists>c. current_model tid q w = Some c \<and> mq_id c \<noteq> mq_id q")
    case True
    then obtain c where c: "current_model tid q w = Some c" "mq_id c \<noteq> mq_id q" by blast
    then have cw: "c \<in> set ?qs" "mq_status c = ''ACTIVE''" "mq_tenant c = tid"
      by (auto simp: current_model_def dest: find_SomeD1 find_SomeD2)
    let ?f = "\<lambda>x :: ModelQualification. x\<lparr>mq_status := ''RETIRED''\<rparr>"
    have way: "make_way tid q w = snd (update_qualification (mq_id c) tid ?f w)"
      using c by (simp add: make_way_def)
    have rows: "set (update_where (is_qualification (mq_id c) tid) ?f ?qs) = insert (?f c) (set ?qs - {c})"
      using cw by (intro update_one [OF d]) (auto simp: is_qualification_def)
    have found: "found_qualification tid (mq_id c) c w"
      unfolding found_qualification_def using cw by (intro find_unique [OF d]) (auto simp: is_qualification_def)
    have "registry (make_way tid q w)"
      unfolding way by (rule registry_step [OF w(1) found]) (auto simp: separated_def cw(2))
    moreover have "q \<in> set (update_where (is_qualification (mq_id c) tid) ?f ?qs)"
      using q(1) c(2) unfolding rows by auto
    then have "found_qualification tid (mq_id q) q (make_way tid q w)"
      unfolding found_qualification_def
      using d q by (intro find_unique [where g = mq_id]) (auto simp: is_qualification_def way update_qualification_def)
    moreover have "x = q" if "x \<in> set (model_qualifications (make_way tid q w))" "mq_status x = ''ACTIVE''" "mq_tenant x = tid"
        "mq_product_code x = mq_product_code q" for x
    proof -
      have "x \<in> insert (?f c) (set ?qs - {c})" using that(1) rows by (simp add: way update_qualification_def)
      then have "x \<in> set ?qs - {c}"
      proof (rule insertE)
        assume "x = ?f c"
        then show ?thesis using that(2) by simp
      qed
      then show ?thesis using active [OF c(1) _ that(2-4)] by blast
    qed
    ultimately show "registry (make_way tid q w) \<and> found_qualification tid (mq_id q) q (make_way tid q w) \<and>
        (\<forall>x\<in>set (model_qualifications (make_way tid q w)). mq_status x = ''ACTIVE'' \<longrightarrow> mq_tenant x = tid \<longrightarrow>
           mq_product_code x = mq_product_code q \<longrightarrow> x = q)"
      by blast
  next
    case False
    then have way: "make_way tid q w = w" by (cases "current_model tid q w") (simp_all add: make_way_def)
    have "x = q" if x: "x \<in> set ?qs" "mq_status x = ''ACTIVE''" "mq_tenant x = tid" "mq_product_code x = mq_product_code q" for x
    proof (cases "current_model tid q w")
      case None
      then show ?thesis using none x by blast
    next
      case (Some c)
      then have "mq_id c = mq_id q" "c \<in> set ?qs"
        using False by (auto simp: current_model_def dest: find_SomeD2)
      then show ?thesis using active [OF Some x] distinct_key_eq [OF d _ q(1)] by blast
    qed
    then show "registry (make_way tid q w) \<and> found_qualification tid (mq_id q) q (make_way tid q w) \<and>
        (\<forall>x\<in>set (model_qualifications (make_way tid q w)). mq_status x = ''ACTIVE'' \<longrightarrow> mq_tenant x = tid \<longrightarrow>
           mq_product_code x = mq_product_code q \<longrightarrow> x = q)"
      using w unfolding way by blast
  qed
qed

lemma registry_install:
  assumes w: "registry w" "found_qualification (tenant_id pr) (mq_id q) q w"
    and q: "mq_status q = ''APPROVED'' \<or> mq_status q = ''RETIRED''"
      "Some (actor_id pr) \<noteq> mq_evaluated_by q" "Some (actor_id pr) \<noteq> mq_approved_by q"
  shows "registry (snd (install_qualification env pr q dr action corr payload w))"
proof -
  let ?t = "tenant_id pr"
  let ?w1 = "make_way ?t q w"
  let ?f = "\<lambda>x :: ModelQualification. x\<lparr>mq_status := ''ACTIVE'', mq_activated_by := Some (actor_id pr),
    mq_activated_at := Some (clock w), mq_decision_reason := Some dr\<rparr>"
  note way = registry_make_way [OF w]
  have "separated q" using w by (auto simp: registry_def found_qualification_def dest: find_SomeD2)
  then have "separated (?f q)" using q by (auto simp: separated_def)
  then have r: "registry (snd (update_qualification (mq_id q) ?t ?f ?w1))"
    using way by (intro registry_update_qualification [where q = q]) simp_all
  let ?rest = "andthen (run_all [update_qualification (mq_id q) ?t ?f,
      record_audit env ?t (actor_id pr) action ''model_qualification'' (mq_id q) corr payload]) (the_qualification ?t (mq_id q))"
  have "run_if (case current_model ?t q w of None \<Rightarrow> False | Some c \<Rightarrow> mq_id c \<noteq> mq_id q)
     (update_qualification (mq_id (the (current_model ?t q w))) ?t (\<lambda>x. x\<lparr>mq_status := ''RETIRED''\<rparr>)) w = (Inr (), ?w1)"
    by (simp add: make_way_def run_if_def update_qualification_def)
  then have "install_qualification env pr q dr action corr payload w = ?rest ?w1"
    unfolding install_qualification_def Let_def fetch_def query_runs current_model_def [symmetric]
    by (simp add: andthen_def bnd_def)
  moreover have "registry (snd (?rest ?w1))"
    using registry_others [OF r]
    by (simp add: andthen_def bnd_def update_qualification_def record_audit_def fresh_id_def the_qualification_def
        split: option.split)
  ultimately show ?thesis by simp
qed

lemma hoare_install:
  assumes "mq_status q = ''APPROVED'' \<or> mq_status q = ''RETIRED''"
    "Some (actor_id pr) \<noteq> mq_evaluated_by q" "Some (actor_id pr) \<noteq> mq_approved_by q"
  shows "hoare (\<lambda>w. registry w \<and> found_qualification (tenant_id pr) qid q w)
    (install_qualification env pr q dr action corr payload) (\<lambda>_. registry) registry"
proof (rule hoareI)
  fix w
  assume w: "registry w \<and> found_qualification (tenant_id pr) qid q w"
  then have "mq_id q = qid"
    by (auto simp: found_qualification_def is_qualification_def dest: find_SomeD1)
  then have "registry (snd (install_qualification env pr q dr action corr payload w))"
    using w assms by (intro registry_install) auto
  then show "case install_qualification env pr q dr action corr payload w of
      (Inl e, w') \<Rightarrow> registry w' | (Inr a, w') \<Rightarrow> registry w'"
    by (cases "install_qualification env pr q dr action corr payload w") (auto split: sum.split)
qed

lemma hoare_andthen_read:
  "reads (\<lambda>w. w) m \<Longrightarrow> hoare P k Q X \<Longrightarrow> (\<And>w. P w \<Longrightarrow> X w) \<Longrightarrow> hoare P (andthen m k) Q X"
  unfolding andthen_def by (rule hoare_read_bnd)

lemma keeps_activate: "keeps keeps_registry (activate_qualification env pr qid reason corr)"
  unfolding activate_qualification_def Let_def
  by (rule keeps_hoare, rule hoare_the_qualification, intro hoare_reads hoare_andthen_read hoare_install) auto

lemma keeps_rollback: "keeps keeps_registry (rollback_qualification env pr qid reason corr)"
  unfolding rollback_qualification_def Let_def
  by (rule keeps_hoare, rule hoare_the_qualification, intro hoare_reads hoare_andthen_read hoare_install) auto

section \<open>Activating a pack\<close>

text \<open>The rows after the activation of \<open>did\<close>: the pack that was active makes way, the chosen one is active.\<close>

definition activated_row :: "string \<Rightarrow> string \<Rightarrow> string \<Rightarrow> time \<Rightarrow> DeploymentPack option \<Rightarrow> DeploymentPack \<Rightarrow> DeploymentPack" where
  "activated_row tid did actor now current x =
     (if is_deployment did tid x
      then x\<lparr>dep_status := ''ACTIVE'', dep_approved_by := Some actor, dep_activated_at := Some now\<rparr>
      else if (case current of None \<Rightarrow> False | Some c \<Rightarrow> dep_id c \<noteq> did \<and> is_deployment (dep_id c) tid x)
      then x\<lparr>dep_status := ''RETIRED''\<rparr> else x)"

definition current_pack :: "string \<Rightarrow> world \<Rightarrow> DeploymentPack option" where
  "current_pack tid w = find (\<lambda>x. dep_tenant x = tid \<and> dep_status x = ''ACTIVE'') (deployment_packs w)"

lemma activated_row_fields [simp]:
  "dep_id (activated_row tid did actor now current x) = dep_id x"
  "dep_tenant (activated_row tid did actor now current x) = dep_tenant x"
  by (auto simp: activated_row_def split: option.split)

lemma activated_still_active:
  assumes w: "registry w" "x \<in> set (deployment_packs w)" "dep_tenant x = tid"
    and "dep_status (activated_row tid did actor now (current_pack tid w) x) = ''ACTIVE''"
  shows "dep_id x = did"
proof (rule ccontr)
  assume ne: "dep_id x \<noteq> did"
  then have x: "dep_status x = ''ACTIVE''"
    using assms(4) by (simp add: activated_row_def is_deployment_def split: option.splits if_splits)
  then obtain c where c: "current_pack tid w = Some c"
    using w(2,3) by (cases "current_pack tid w") (auto simp: current_pack_def find_None_iff)
  then have "c = x"
    using w x find_SomeD1 [OF c [unfolded current_pack_def]] find_SomeD2 [OF c [unfolded current_pack_def]]
    by (auto simp: registry_def one_active_pack_def)
  then show False
    using assms(4) ne c w(3) by (simp add: activated_row_def is_deployment_def)
qed

lemma registry_activated:
  assumes w: "registry w"
  shows "registry (deployment_packs_update (map (activated_row tid did actor now (current_pack tid w))) w)"
proof -
  let ?h = "activated_row tid did actor now (current_pack tid w)"
  have d: "distinct (map dep_id (deployment_packs w))" using w by (simp add: registry_def)
  have "?h a = ?h b"
    if ab: "a \<in> set (deployment_packs w)" "b \<in> set (deployment_packs w)" "dep_status (?h a) = ''ACTIVE''"
      "dep_status (?h b) = ''ACTIVE''" "dep_tenant a = dep_tenant b" for a b
  proof (cases "dep_tenant a = tid")
    case True
    then show ?thesis
      using activated_still_active [OF w ab(1) _ ab(3)] activated_still_active [OF w ab(2) _ ab(4)] ab
        distinct_key_eq [OF d ab(1,2)] by simp
  next
    case False
    then have "?h a = a" "?h b = b"
      using ab(5) by (auto simp: activated_row_def is_deployment_def split: option.split)
    then show ?thesis using w ab by (simp add: registry_def one_active_pack_def)
  qed
  then have "one_active_pack (map ?h (deployment_packs w))"
    by (auto simp: one_active_pack_def)
  then show ?thesis using w by (simp add: registry_def comp_def)
qed

lemma activation_rows:
  "update_where (is_deployment did tid)
     (\<lambda>x. x\<lparr>dep_status := ''ACTIVE'', dep_approved_by := Some actor, dep_activated_at := Some now\<rparr>)
     (if case current of None \<Rightarrow> False | Some c \<Rightarrow> dep_id c \<noteq> did
      then update_where (is_deployment (dep_id (the current)) tid) (\<lambda>x. x\<lparr>dep_status := ''RETIRED''\<rparr>) ds else ds)
   = map (activated_row tid did actor now current) ds"
  by (cases current) (auto simp: update_where_def activated_row_def is_deployment_def)

definition activation_writes ::
  "env \<Rightarrow> Principal \<Rightarrow> DeploymentPack \<Rightarrow> DeploymentManifest \<Rightarrow> (string \<times> bool) list \<Rightarrow> string \<Rightarrow> string \<Rightarrow> DeploymentPack svc" where
  "activation_writes env pr d m checks reason correlation_id =
     (let tid = tenant_id pr in
      bnd (fetch deployment_packs (\<lambda>x. dep_tenant x = tid \<and> dep_status x = ''ACTIVE'')) (\<lambda>active.
      bnd (query clock) (\<lambda>now.
      andthen (run_all
       [run_if (case active of None \<Rightarrow> False | Some a \<Rightarrow> dep_id a \<noteq> dep_id d)
          (update_deployment (dep_id (the active)) tid (\<lambda>x. x\<lparr>dep_status := ''RETIRED''\<rparr>)),
        update_deployment (dep_id d) tid (\<lambda>x. x\<lparr>dep_status := ''ACTIVE'',
          dep_approved_by := Some (actor_id pr), dep_activated_at := Some now\<rparr>),
        record_audit env tid (actor_id pr) ''deployment.activated'' ''deployment_pack'' (dep_id d)
          correlation_id (JObj [(''version'', JStr (dep_version d)), (''pack_key'', JStr (pack_key m)),
            (''reason'', JStr reason), (''preflight'', preflight_json checks)])])
      (bnd (get_deployment tid (dep_id d)) ret))))"

lemma activation_writes_packs:
  "deployment_packs (snd (activation_writes env pr d m checks reason corr w)) =
     map (activated_row (tenant_id pr) (dep_id d) (actor_id pr) (clock w) (current_pack (tenant_id pr) w)) (deployment_packs w) \<and>
   model_qualifications (snd (activation_writes env pr d m checks reason corr w)) = model_qualifications w"
  unfolding activation_rows [symmetric]
  by (simp add: activation_writes_def Let_def fetch_def query_runs current_pack_def [symmetric] andthen_def bnd_def run_if_def
      update_deployment_def record_audit_def fresh_id_def get_deployment_def split: option.split)

lemma hoare_activation_writes:
  "hoare registry (activation_writes env pr d m checks reason corr) (\<lambda>_. registry) registry"
proof (rule hoareI)
  fix w
  assume w: "registry w"
  have "registry (snd (activation_writes env pr d m checks reason corr w))"
    by (rule registry_others [OF registry_activated [OF w, of "tenant_id pr" "dep_id d" "actor_id pr" "clock w"]])
      (simp_all add: activation_writes_packs)
  then show "case activation_writes env pr d m checks reason corr w of (Inl e, w') \<Rightarrow> registry w' | (Inr a, w') \<Rightarrow> registry w'"
    by (cases "activation_writes env pr d m checks reason corr w") (auto split: sum.split)
qed

lemma registry_pack_activation: "keeps keeps_registry (activate_deployment env pr did reason corr)"
  unfolding activate_deployment_def Let_def activation_writes_def [unfolded Let_def, symmetric]
  by (rule keeps_hoare, intro hoare_activation_writes hoare_reads) simp_all

interpretation registry_handlers: release_frame t keeps_registry "\<lambda>_. True" for t
  by unfold_locales
    (use registry_store.keeps_run_inference registry_store.keeps_decide_review registry_pack_activation keeps_evaluate
      keeps_approve keeps_activate keeps_retire keeps_rollback in \<open>simp_all add: keeps_def\<close>)

interpretation registry_system: system_frame keeps_registry "\<lambda>_. True"
  by unfold_locales (simp_all add: registry_def settle_def rollback_def)

lemma reachable_registry: "registry start \<Longrightarrow> reachable start w \<Longrightarrow> registry w"
  using registry_system.R_reachable by blast

lemma one_row:
  assumes "distinct xs" "\<And>a b. a \<in> set xs \<Longrightarrow> b \<in> set xs \<Longrightarrow> P a \<Longrightarrow> P b \<Longrightarrow> a = b"
  shows "length (filter P xs) \<le> 1"
proof -
  have "set (filter P xs) \<subseteq> {a}" if "a \<in> set (filter P xs)" for a
    using assms(2) that by auto
  then have "card (set (filter P xs)) \<le> 1"
    by (cases "filter P xs = []") (fastforce dest: card_mono [rotated] hd_in_set)+
  then show ?thesis using assms(1) distinct_card [of "filter P xs"] by simp
qed

text \<open>C12. Four eyes and more: in every reachable store a model qualification that is \<open>ACTIVE\<close> was evaluated,
  approved and activated by three different people, whatever requests were sent, in whatever order, also
  after rollbacks to an earlier model.\<close>

theorem active_model_three_people:
  assumes "registry start" "reachable start w" "q \<in> set (model_qualifications w)" "mq_status q = ''ACTIVE''"
  shows "\<exists>evaluator approver operator. mq_evaluated_by q = Some evaluator \<and> mq_approved_by q = Some approver \<and>
    mq_activated_by q = Some operator \<and> distinct [evaluator, approver, operator]"
proof -
  have "separated q" using reachable_registry [OF assms(1,2)] assms(3) by (simp add: registry_def)
  then show ?thesis using assms(4) by (auto simp: separated_def)
qed

text \<open>C14. What is in force is unambiguous: in every reachable store a tenant has at most one active deployment
  pack, and a product of a tenant at most one active model qualification.\<close>

theorem at_most_one_active:
  assumes "registry start" "reachable start w"
  shows "length (filter (\<lambda>d. dep_tenant d = tid \<and> dep_status d = ''ACTIVE'') (deployment_packs w)) \<le> 1 \<and>
    length (filter (\<lambda>q. mq_tenant q = tid \<and> mq_product_code q = product \<and> mq_status q = ''ACTIVE'')
      (model_qualifications w)) \<le> 1"
proof -
  have r: "registry w" by (rule reachable_registry [OF assms])
  then have d: "distinct (deployment_packs w)" "distinct (model_qualifications w)"
    by (simp_all add: registry_def distinct_map)
  show ?thesis
    using r by (intro conjI one_row d) (auto simp: registry_def one_active_pack_def one_active_model_def)
qed

definition active_qualification :: ModelQualification where
  "active_qualification = \<lparr>mq_id = ''mq_0'', mq_tenant = ''t1'', mq_product_code = ''P2'', mq_model_id = ''m'',
     mq_model_version = ''1'', mq_feature_bank_version = ''fb'', mq_package_sha256 = ''p'', mq_evidence_path = ''e'',
     mq_evidence_sha256 = ''s'', mq_pack_key = ''k'', mq_status = ''ACTIVE'', mq_qualification_status = ''GO'',
     mq_metrics = JObj [], mq_gates = JObj [], mq_dataset_id = None, mq_dataset_source_type = None,
     mq_dataset_fingerprint = None, mq_evaluated_by = Some ''ann'', mq_approved_by = Some ''bob'',
     mq_activated_by = Some ''cho'', mq_decision_reason = None, mq_activated_at = Some 0, mq_created_at = 0\<rparr>"

definition qualified_world :: world where
  "qualified_world = example_world\<lparr>model_qualifications := [active_qualification]\<rparr>"

lemma qualified_registry: "registry qualified_world"
  by (simp add: registry_def qualified_world_def run_simps active_qualification_def separated_def one_active_model_def
      one_active_pack_def)

lemma active_model_three_people_witness:
  "\<exists>e a. mq_evaluated_by active_qualification = Some e \<and> mq_approved_by active_qualification = Some a \<and> e \<noteq> a"
proof -
  have "active_qualification \<in> set (model_qualifications qualified_world)" "mq_status active_qualification = ''ACTIVE''"
    by (simp_all add: qualified_world_def active_qualification_def)
  from active_model_three_people [OF qualified_registry started this] show ?thesis by auto
qed

lemma at_most_one_active_witness:
  "length (filter (\<lambda>d. dep_tenant d = ''t1'' \<and> dep_status d = ''ACTIVE'')
     (deployment_packs (worker_round (example_env 0) qualified_world))) \<le> 1"
  using at_most_one_active [OF qualified_registry stepped [OF started worked]] by blast

end
