(* ===== verification/Consent.thy ===== *)
theory Consent
  imports Lifecycle
begin

text \<open>
  What an approved model rests on: a registered data set of its own tenant with the same fingerprint,
  whose customer provenance names the tenant and confirms consent, in every reachable store.
\<close>

section \<open>Hoare rules for the steps that read\<close>

lemma hoare_fetch_bnd:
  assumes "\<And>x. hoare (\<lambda>w. P w \<and> find S (table w) = x) (k x) Q X"
  shows "hoare P (bnd (fetch table S) k) Q X"
  using assms by (auto simp: hoare_def bnd_def fetch_def query_def)

lemma hoare_lift_bnd:
  assumes "\<And>a. r = Inr a \<Longrightarrow> hoare P (k a) Q X" "\<And>w. P w \<Longrightarrow> X w"
  shows "hoare P (bnd (lift_result r) k) Q X"
  using assms by (cases r) (auto simp: hoare_def bnd_def lift_result_def)

lemma hoare_weaken: "hoare P m Q X \<Longrightarrow> (\<And>w. P' w \<Longrightarrow> P w) \<Longrightarrow> hoare P' m Q X"
  by (auto simp: hoare_def)

section \<open>The invariant\<close>

definition rests_on :: "DatasetRegistrationRecord list \<Rightarrow> ModelQualification \<Rightarrow> bool" where
  "rests_on ds q \<longleftrightarrow> (\<exists>d \<in> set ds. Some (ds_id d) = mq_dataset_id q \<and> ds_tenant d = mq_tenant q \<and>
     Some (ds_fingerprint d) = mq_dataset_fingerprint q \<and> consenting d)"

definition consent_based :: "world \<Rightarrow> bool" where
  "consent_based w \<longleftrightarrow> distinct (map mq_id (model_qualifications w)) \<and>
     (\<forall>d \<in> set (dataset_registrations w). sound_dataset d) \<and>
     (\<forall>q \<in> set (model_qualifications w). mq_status q \<in> {''APPROVED'', ''ACTIVE''} \<longrightarrow>
        rests_on (dataset_registrations w) q)"

abbreviation keeps_consent :: "world \<Rightarrow> world \<Rightarrow> bool" where
  "keeps_consent w w' \<equiv> consent_based w \<longrightarrow> consent_based w'"

lemma keeps_consent_same:
  "model_qualifications w' = model_qualifications w \<Longrightarrow> dataset_registrations w' = dataset_registrations w \<Longrightarrow>
     keeps_consent w w'"
  by (simp add: consent_based_def)

lemma dataset_identity_fields:
  "ds_id (dataset_identity d) = ds_id d" "ds_tenant (dataset_identity d) = ds_tenant d"
  "ds_fingerprint (dataset_identity d) = ds_fingerprint d" "ds_metadata (dataset_identity d) = ds_metadata d"
  by (simp_all add: dataset_identity_def)

lemma consenting_identity: "consenting (dataset_identity d) = consenting d"
  unfolding consenting_def dataset_identity_fields ..

lemma identity_fields:
  assumes "dataset_identity d' = dataset_identity d"
  shows "ds_id d' = ds_id d" "ds_tenant d' = ds_tenant d" "ds_fingerprint d' = ds_fingerprint d"
    "consenting d' = consenting d"
  using dataset_identity_fields [of d] dataset_identity_fields [of d'] consenting_identity [of d]
    consenting_identity [of d'] unfolding assms by simp_all

lemma rests_on_append: "rests_on ds q \<Longrightarrow> rests_on (ds @ ds') q"
  by (auto simp: rests_on_def)

lemma rests_on_update:
  assumes "\<And>x. dataset_identity (f x) = dataset_identity x" "rests_on ds q"
  shows "rests_on (update_where P f ds) q"
proof -
  obtain d where d: "d \<in> set ds" "Some (ds_id d) = mq_dataset_id q" "ds_tenant d = mq_tenant q"
    "Some (ds_fingerprint d) = mq_dataset_fingerprint q" "consenting d"
    using assms(2) by (auto simp: rests_on_def)
  let ?d = "if P d then f d else d"
  have "?d \<in> set (update_where P f ds)" using d(1) by (simp add: set_update_where)
  then show ?thesis
    using d(2-5) identity_fields [OF assms(1) [of d]] unfolding rests_on_def by (intro bexI [of _ ?d]) simp_all
qed

lemma consent_revoked:
  assumes f: "\<And>x. dataset_identity (f x) = dataset_identity x \<and> ds_status (f x) = ''REVOKED''"
    and w: "consent_based w"
  shows "consent_based (snd (update_dataset did t f w))"
proof -
  have "sound_dataset (f x)" for x using f [of x] by (simp add: sound_dataset_def)
  then have "\<forall>d \<in> set (update_where (is_dataset did t) f (dataset_registrations w)). sound_dataset d"
    using w by (auto simp: consent_based_def set_update_where)
  then show ?thesis
    using w f by (simp add: consent_based_def update_dataset_def rests_on_update)
qed

interpretation consent_store: workflow_frame t keeps_consent "\<lambda>_. True" for t
proof
  show "keeps_consent w (snd (transition_inspection env iid t target actor reason corr w))"
    for w env iid target actor reason corr
    by (cases rule: transition_outcome [of env iid t target actor reason corr w]; rule keeps_consent_same)
      (simp_all add: transitioned_def Let_def)
  show "keeps_consent w (model_qualifications_update (\<lambda>rows. rows @ [mq]) w)"
    if "mq_status mq = ''DRAFT''" "\<forall>x \<in> set (model_qualifications w). mq_id x \<noteq> mq_id mq" for mq w
    using that by (auto simp: consent_based_def)
  show "keeps_consent w (dataset_registrations_update (\<lambda>rows. rows @ [d]) w)" if "sound_dataset d" for d w
    using that by (auto simp: consent_based_def rests_on_append)
  show "keeps_consent w (snd (update_dataset did t dsu w))"
    if "\<And>x. dataset_identity (dsu x) = dataset_identity x \<and> ds_status (dsu x) = ''REVOKED''" for did dsu w
    using consent_revoked [OF that] by blast
  show "keeps_consent w w''" if "keeps_consent w w'" "keeps_consent w' w''" for w w' w''
    using that by blast
qed (rule TrueI | rule keeps_consent_same; simp add: set_failure_reason_def update_incident_def update_action_def
      update_event_def update_gateway_def add_inspection_eq Let_def)+

section \<open>The steps of the lifecycle\<close>

text \<open>Every row with the identity rests on a consented data set.\<close>

definition grounded :: "string \<Rightarrow> string \<Rightarrow> world \<Rightarrow> bool" where
  "grounded tid qid w \<longleftrightarrow>
     (\<forall>x \<in> set (model_qualifications w). is_qualification qid tid x \<longrightarrow> rests_on (dataset_registrations w) x)"

definition same_binding :: "(ModelQualification \<Rightarrow> ModelQualification) \<Rightarrow> bool" where
  "same_binding f \<longleftrightarrow> (\<forall>x. mq_id (f x) = mq_id x \<and> mq_tenant (f x) = mq_tenant x \<and>
     mq_dataset_id (f x) = mq_dataset_id x \<and> mq_dataset_fingerprint (f x) = mq_dataset_fingerprint x)"

lemma rests_on_binding: "same_binding f \<Longrightarrow> rests_on ds (f q) = rests_on ds q"
  by (simp add: same_binding_def rests_on_def)

lemma consent_update_qualification:
  assumes "consent_based w" "same_binding f"
    and "\<And>x. mq_status (f x) \<in> {''APPROVED'', ''ACTIVE''} \<Longrightarrow> grounded tid qid w"
  shows "consent_based (snd (update_qualification qid tid f w))"
proof -
  have "rests_on (dataset_registrations w) (f x)"
    if "x \<in> set (model_qualifications w)" "is_qualification qid tid x" "mq_status (f x) \<in> {''APPROVED'', ''ACTIVE''}" for x
    using assms(3) [OF that(3)] that(1,2) rests_on_binding [OF assms(2)] by (simp add: grounded_def)
  then show ?thesis
    using assms(1,2) by (auto simp: consent_based_def update_qualification_def set_update_where same_binding_def)
qed

lemma grounded_found:
  assumes "consent_based w" "found_qualification tid qid q w" "rests_on (dataset_registrations w) q"
  shows "grounded tid qid w"
proof -
  have q: "q \<in> set (model_qualifications w)" "mq_id q = qid"
    using assms(2) by (auto simp: found_qualification_def is_qualification_def dest: find_SomeD1 find_SomeD2)
  have d: "distinct (map mq_id (model_qualifications w))" using assms(1) by (simp add: consent_based_def)
  have "x = q" if x: "x \<in> set (model_qualifications w)" "is_qualification qid tid x" for x
    using x(2) q(2) by (intro distinct_key_eq [OF d x(1) q(1)]) (simp add: is_qualification_def)
  with assms(3) show ?thesis by (auto simp: grounded_def)
qed

lemma hoare_update_finish:
  assumes "same_binding f" "\<And>w. P w \<Longrightarrow> consent_based w"
    and "\<And>x w. P w \<Longrightarrow> mq_status (f x) \<in> {''APPROVED'', ''ACTIVE''} \<Longrightarrow> grounded tid qid w"
  shows "hoare P (andthen (run_all [update_qualification qid tid f, record_audit env tid actor action ty ti corr payload])
      (the_qualification tid qid)) (\<lambda>_. consent_based) consent_based"
proof (rule hoareI)
  fix w
  assume w: "P w"
  have "consent_based (snd (update_qualification qid tid f w))"
    by (rule consent_update_qualification [OF assms(2) [OF w] assms(1) assms(3) [OF w]])
  then show "case andthen (run_all [update_qualification qid tid f, record_audit env tid actor action ty ti corr payload])
      (the_qualification tid qid) w of (Inl e, w') \<Rightarrow> consent_based w' | (Inr a, w') \<Rightarrow> consent_based w'"
    by (simp add: andthen_def bnd_def update_qualification_def record_audit_def fresh_id_def the_qualification_def
        consent_based_def split: option.split)
qed

lemma consent_evaluate: "keeps keeps_consent (evaluate_qualification env pr qid reason corr)"
  unfolding evaluate_qualification_def Let_def
  by (rule keeps_hoare, rule hoare_the_qualification,
      intro hoare_lift_bnd hoare_if hoare_throw hoare_update_finish)
    (auto simp: same_binding_def split: if_splits)

lemma consent_retire: "keeps keeps_consent (retire_qualification env pr qid reason corr)"
  unfolding retire_qualification_def Let_def
  by (rule keeps_hoare, rule hoare_the_qualification,
      intro hoare_if hoare_throw hoare_update_finish)
    (auto simp: same_binding_def split: if_splits)

lemma consented_consenting: "consented tid d = Inr True \<Longrightarrow> ds_tenant d = tid \<Longrightarrow> consenting d"
  by (auto simp: consented_def consenting_def as_dict_def get_default_def jget_def split: option.splits json.splits)

lemma consent_approve: "keeps keeps_consent (approve_qualification env pr qid reason corr)"
  unfolding approve_qualification_def Let_def
proof (rule keeps_hoare, rule hoare_the_qualification,
    intro hoare_if hoare_throw hoare_lift_bnd hoare_fetch_bnd hoare_option hoare_update_finish)
  show "same_binding (\<lambda>x. x\<lparr>mq_status := ''APPROVED'', mq_approved_by := Some (actor_id pr),
      mq_decision_reason := Some reason\<rparr>)"
    by (simp add: same_binding_def)
next
  fix q found d ok w
  assume ok: "consented (tenant_id pr) d = Inr ok" "\<not> \<not> ok"
    and "\<not> (ds_status d \<noteq> ''VALIDATED'' \<or> Some (ds_fingerprint d) \<noteq> mq_dataset_fingerprint q)" "found = Some d"
    and w: "(consent_based w \<and> found_qualification (tenant_id pr) qid q w) \<and>
      find (\<lambda>d. Some (ds_id d) = mq_dataset_id q \<and> ds_tenant d = tenant_id pr) (dataset_registrations w) = found"
  then have d: "d \<in> set (dataset_registrations w)" "Some (ds_id d) = mq_dataset_id q" "ds_tenant d = tenant_id pr"
      "Some (ds_fingerprint d) = mq_dataset_fingerprint q"
    by (auto dest: find_SomeD1 find_SomeD2)
  have "consenting d" using ok d(3) by (intro consented_consenting) simp_all
  moreover have "mq_tenant q = tenant_id pr"
    using w by (auto simp: found_qualification_def is_qualification_def dest: find_SomeD1)
  ultimately have "rests_on (dataset_registrations w) q" using d by (auto simp: rests_on_def)
  then show "grounded (tenant_id pr) qid w" using w by (intro grounded_found) auto
qed auto

section \<open>Installing a qualification\<close>

lemma hoare_require_dataset:
  assumes "hoare (\<lambda>w. (consent_based w \<and> found_qualification tid qid q w) \<and> grounded tid qid w) k Q X"
    and "\<And>w. consent_based w \<Longrightarrow> X w" "tid = tenant_id pr"
  shows "hoare (\<lambda>w. consent_based w \<and> found_qualification tid qid q w) (andthen (require_activation_dataset pr q) k) Q X"
  unfolding andthen_def
proof (rule hoare_bnd)
  show "hoare (\<lambda>w. consent_based w \<and> found_qualification tid qid q w) (require_activation_dataset pr q)
      (\<lambda>_ w. (consent_based w \<and> found_qualification tid qid q w) \<and> grounded tid qid w) X"
    unfolding require_activation_dataset_def Let_def
  proof (intro hoare_if hoare_throw hoare_fetch_bnd hoare_option hoare_lift_bnd hoare_ret)
    fix found d ok w
    assume ok: "consented (tenant_id pr) d = Inr ok" "\<not> \<not> ok"
      and s: "\<not> (ds_source_type d \<noteq> ''CUSTOMER_PILOT'' \<or> ds_status d \<noteq> ''VALIDATED'' \<or>
        Some (ds_fingerprint d) \<noteq> mq_dataset_fingerprint q)" and f: "found = Some d"
      and w: "(consent_based w \<and> found_qualification tid qid q w) \<and>
        find (\<lambda>d. Some (ds_id d) = mq_dataset_id q \<and> ds_tenant d = tenant_id pr) (dataset_registrations w) = found"
    from w f have d: "d \<in> set (dataset_registrations w)" "Some (ds_id d) = mq_dataset_id q" "ds_tenant d = tenant_id pr"
      by (auto dest: find_SomeD1 find_SomeD2)
    have "consenting d" using ok d(3) by (intro consented_consenting) simp_all
    moreover have "mq_tenant q = tenant_id pr"
      using w assms(3) by (auto simp: found_qualification_def is_qualification_def dest: find_SomeD1)
    ultimately have "rests_on (dataset_registrations w) q" using d s by (auto simp: rests_on_def)
    then show "(consent_based w \<and> found_qualification tid qid q w) \<and> grounded tid qid w"
      using w by (intro conjI grounded_found) auto
  qed (use assms(2) in auto)
qed (rule assms(1))

lemma grounded_retired:
  assumes "grounded tid qid w" "same_binding f"
  shows "grounded tid qid (snd (update_qualification c tid f w))"
  unfolding grounded_def
proof (intro ballI impI)
  fix x
  assume x: "x \<in> set (model_qualifications (snd (update_qualification c tid f w)))" "is_qualification qid tid x"
  then obtain y where y: "y \<in> set (model_qualifications w)" "x = f y \<or> x = y"
    by (auto simp: update_qualification_def set_update_where)
  have "is_qualification qid tid (f y) = is_qualification qid tid y"
    using assms(2) by (simp add: is_qualification_def same_binding_def)
  then have "is_qualification qid tid y" using x(2) y(2) by metis
  then have "rests_on (dataset_registrations w) y" using assms(1) y(1) by (simp add: grounded_def)
  then have "rests_on (dataset_registrations w) x" using y(2) rests_on_binding [OF assms(2)] by metis
  then show "rests_on (dataset_registrations (snd (update_qualification c tid f w))) x"
    by (simp add: update_qualification_def)
qed

lemma hoare_install_consent:
  "hoare (\<lambda>w. consent_based w \<and> grounded (tenant_id pr) (mq_id q) w)
     (install_qualification env pr q dr action corr payload) (\<lambda>_. consent_based) consent_based"
proof -
  let ?t = "tenant_id pr"
  have retire: "hoare (\<lambda>w. consent_based w \<and> grounded ?t (mq_id q) w)
      (run_if b (update_qualification c ?t (\<lambda>x. x\<lparr>mq_status := ''RETIRED''\<rparr>)))
      (\<lambda>_ w. consent_based w \<and> grounded ?t (mq_id q) w) consent_based" for b c
  proof (rule hoareI)
    fix w
    assume w: "consent_based w \<and> grounded ?t (mq_id q) w"
    let ?w = "snd (update_qualification c ?t (\<lambda>x. x\<lparr>mq_status := ''RETIRED''\<rparr>) w)"
    have "consent_based ?w" by (rule consent_update_qualification) (use w in \<open>simp_all add: same_binding_def\<close>)
    moreover have "grounded ?t (mq_id q) ?w" by (rule grounded_retired) (use w in \<open>simp_all add: same_binding_def\<close>)
    ultimately show "case run_if b (update_qualification c ?t (\<lambda>x. x\<lparr>mq_status := ''RETIRED''\<rparr>)) w of
        (Inl e, w') \<Rightarrow> consent_based w' | (Inr a, w') \<Rightarrow> consent_based w' \<and> grounded ?t (mq_id q) w'"
      using w by (cases b) (simp_all add: update_qualification_def)
  qed
  have rest: "hoare (\<lambda>w. consent_based w \<and> grounded ?t (mq_id q) w)
      (andthen (run_all [update_qualification (mq_id q) ?t f, record_audit env ?t actor action ty ti corr payload])
        (the_qualification ?t (mq_id q))) (\<lambda>_. consent_based) consent_based" if "same_binding f" for f actor ty ti
    by (rule hoare_update_finish [OF that]) auto
  have assoc: "andthen (run_all (m # ms)) k = andthen m (andthen (run_all ms) k)" for m ms and k :: "ModelQualification svc"
    by (rule ext) (simp add: andthen_def bnd_def split: prod.split sum.split)
  show ?thesis
    unfolding install_qualification_def Let_def assoc [where ms = "[x, y]" for x y]
    by (intro hoare_read_bnd [OF reads_steps(6)] hoare_read_bnd [OF reads_steps(7)] hoare_andthen [OF retire] rest)
      (auto simp: same_binding_def)
qed

lemma hoare_install_found:
  "hoare (\<lambda>w. (consent_based w \<and> found_qualification (tenant_id pr) qid q w) \<and> grounded (tenant_id pr) qid w)
     (install_qualification env pr q dr action corr payload) (\<lambda>_. consent_based) consent_based"
  by (rule hoare_weaken [OF hoare_install_consent])
    (auto simp: found_qualification_def is_qualification_def dest: find_SomeD1)

lemmas hoare_parts = hoare_if hoare_throw hoare_read_bnd [OF reads_steps(2)] hoare_read_bnd [OF reads_steps(3)]
  hoare_require_dataset hoare_lift_bnd hoare_install_found

lemma consent_activate: "keeps keeps_consent (activate_qualification env pr qid reason corr)"
  unfolding activate_qualification_def Let_def
  by (rule keeps_hoare, rule hoare_the_qualification, intro hoare_parts) blast+

lemma consent_rollback: "keeps keeps_consent (rollback_qualification env pr qid reason corr)"
  unfolding rollback_qualification_def Let_def
  by (rule keeps_hoare, rule hoare_the_qualification, intro hoare_parts) blast+

lemma consent_pack_activation: "keeps keeps_consent (activate_deployment env pr did reason corr)"
proof -
  have "keeps keeps_consent (update_deployment d u f)" for d u f
    by (simp add: keeps_def update_deployment_def consent_based_def)
  then show ?thesis
    unfolding activate_deployment_def Let_def
    by (intro consent_store.keeps_intros consent_store.keeps_deployment_manifest consent_store.keeps_get_deployment)
qed

interpretation consent_handlers: release_frame t keeps_consent "\<lambda>_. True" for t
  by unfold_locales
    (use consent_store.keeps_run_inference consent_store.keeps_decide_review consent_pack_activation consent_evaluate
      consent_approve consent_activate consent_retire consent_rollback in \<open>simp_all add: keeps_def\<close>)

interpretation consent_system: system_frame keeps_consent "\<lambda>_. True"
  by unfold_locales (simp_all add: consent_based_def settle_def rollback_def)

lemma reachable_consent: "consent_based start \<Longrightarrow> reachable start w \<Longrightarrow> consent_based w"
  using consent_system.R_reachable by blast

section \<open>Approved models rest on consented data\<close>

text \<open>C13. Customer data needs consent: in every reachable store a model qualification that is \<open>APPROVED\<close> or
  \<open>ACTIVE\<close> is bound to a registered data set of its own tenant with the fingerprint the evidence was made
  for, whose stored provenance names that tenant and confirms consent; data sets are registered, uploaded and revoked
  and qualifications created, evaluated, approved, activated, retired and rolled back in any order.\<close>

theorem approved_models_rest_on_consent:
  assumes "consent_based start" "reachable start w" "q \<in> set (model_qualifications w)"
    and "mq_status q = ''APPROVED'' \<or> mq_status q = ''ACTIVE''"
  shows "\<exists>d \<in> set (dataset_registrations w). Some (ds_id d) = mq_dataset_id q \<and> ds_tenant d = mq_tenant q \<and>
    Some (ds_fingerprint d) = mq_dataset_fingerprint q \<and>
    (\<exists>p. jget ''customer_provenance'' (ds_metadata d) = Some (JObj p) \<and>
       jget ''tenant'' p = Some (JStr (mq_tenant q)) \<and> jget ''consent'' p = Some (JBool True))"
proof -
  have "rests_on (dataset_registrations w) q"
    using reachable_consent [OF assms(1,2)] assms(3,4) by (auto simp: consent_based_def)
  then obtain d where d: "d \<in> set (dataset_registrations w)" "Some (ds_id d) = mq_dataset_id q" "ds_tenant d = mq_tenant q"
      "Some (ds_fingerprint d) = mq_dataset_fingerprint q" "consenting d"
    by (auto simp: rests_on_def)
  then show ?thesis by (intro bexI [OF _ d(1)]) (auto simp: consenting_def split: option.splits json.splits)
qed

definition pilot_dataset :: DatasetRegistrationRecord where
  "pilot_dataset = \<lparr>ds_id = ''ds_1'', ds_tenant = ''t1'', ds_name = ''n'', ds_source_type = ''CUSTOMER_PILOT'',
     ds_category = ''P2'', ds_status = ''VALIDATED'', ds_fingerprint = ''fp'', ds_manifest_sha256 = ''m'',
     ds_source_sha256 = None, ds_storage_uri = ''u'', ds_manifest_uri = ''u'', ds_license_acknowledged = False,
     ds_metadata = [(''customer_provenance'', JObj [(''tenant'', JStr ''t1''), (''consent'', JBool True)])],
     ds_risk_labels = [], ds_created_by = ''dan'', ds_revoked_by = None, ds_revoked_at = None,
     ds_revoke_reason = None, ds_created_at = 0\<rparr>"

definition pilot_world :: world where
  "pilot_world = example_world\<lparr>dataset_registrations := [pilot_dataset], model_qualifications :=
     [active_qualification\<lparr>mq_dataset_id := Some ''ds_1'', mq_dataset_fingerprint := Some ''fp''\<rparr>]\<rparr>"

lemma pilot_consent: "consent_based pilot_world"
  by (simp add: consent_based_def pilot_world_def run_simps active_qualification_def pilot_dataset_def rests_on_def
      consenting_def sound_dataset_def jget_def)

definition engineer :: Principal where
  "engineer = \<lparr>actor_id = ''eva'', tenant_id = ''t1'', roles = {ML_ENGINEER}\<rparr>"

definition revoked_run :: world where
  "revoked_run = snd (request (example_env 0) engineer ''c'' (RevokeDataset ''ds_1'' ''withdrawn by customer'') pilot_world)"

lemma revoked_run_rows:
  "map ds_status (dataset_registrations revoked_run) = [''REVOKED'']"
  "model_qualifications revoked_run = model_qualifications pilot_world"
  by (simp_all add: revoked_run_def request_def transaction_def api_revoke_dataset_registration_def drop_result_def
      guarded_def dataset_editors_def engineer_def require_roles_def lift_result_def bnd_def valid_body_def
      valid_reason_def ensure_def len_between_def revoke_dataset_registration_def Let_def fetch_def query_def
      pilot_world_def is_dataset_def pilot_dataset_def andthen_def update_dataset_def record_audit_def fresh_id_def
      settle_def run_simps dataset_response_def)

text \<open>A model in force keeps its binding after the data set is revoked.\<close>

lemma approved_models_rest_on_consent_witness:
  "\<exists>d \<in> set (dataset_registrations revoked_run). ds_id d = ''ds_1'' \<and> ds_tenant d = ''t1''"
proof -
  let ?q = "active_qualification\<lparr>mq_dataset_id := Some ''ds_1'', mq_dataset_fingerprint := Some ''fp''\<rparr>"
  have "reachable pilot_world revoked_run"
    unfolding revoked_run_def by (rule stepped [OF started served]) (simp add: engineer_def)
  moreover have "?q \<in> set (model_qualifications revoked_run)"
    by (simp add: revoked_run_rows pilot_world_def)
  moreover have "mq_status ?q = ''APPROVED'' \<or> mq_status ?q = ''ACTIVE''" by (simp add: active_qualification_def)
  ultimately show ?thesis
    using approved_models_rest_on_consent [OF pilot_consent] by (fastforce simp: active_qualification_def)
qed

end
