(* ===== verification/Imports.thy ===== *)
theory Imports
  imports Consent History
begin

text \<open>
  What an accepted data set import guarantees: every entry of its manifest is a plain file of the archive at
  a safe relative path, within the configured limits; the bytes in the object storage are those that
  were inspected.
\<close>

section \<open>Normal paths\<close>

lemma split_join:
  "ps \<noteq> [] \<Longrightarrow> (\<And>p. p \<in> set ps \<Longrightarrow> c \<notin> set p) \<Longrightarrow> split_on c (join_with [c] ps) = ps"
proof (induction ps)
  case (Cons p ps)
  then have p: "split_on c p = [p]" by (simp add: split_on_single)
  show ?case
  proof (cases ps)
    case Nil
    with p show ?thesis by simp
  next
    case (Cons q qs)
    then have "split_on c (join_with [c] (p # ps)) = split_on c p @ split_on c (join_with [c] ps)"
      using split_on_append_sep [of c p "join_with [c] ps"] by simp
    with Cons Cons.IH Cons.prems p show ?thesis by simp
  qed
qed simp

definition plain_part :: "string \<Rightarrow> bool" where
  "plain_part p \<longleftrightarrow> CHR ''/'' \<notin> set p \<and> p \<noteq> '''' \<and> p \<noteq> ''.'' \<and> p \<noteq> ''..''"

lemma path_parts_plain: "p \<in> set (path_parts s) \<Longrightarrow> CHR ''/'' \<notin> set p \<and> p \<noteq> '''' \<and> p \<noteq> ''.''"
  by (auto simp: path_parts_def dest: split_on_no_sep)

lemma parts_join:
  assumes "ps \<noteq> []" "\<And>p. p \<in> set ps \<Longrightarrow> plain_part p"
  shows "path_parts (join_with ''/'' ps) = ps"
proof -
  have "split_on CHR ''/'' (join_with ''/'' ps) = ps"
    using assms by (intro split_join) (auto simp: plain_part_def)
  moreover have "filter (\<lambda>p. p \<noteq> '''' \<and> p \<noteq> ''.'') ps = ps"
    using assms(2) by (auto simp: plain_part_def intro!: filter_True)
  ultimately show ?thesis by (simp add: path_parts_def)
qed

lemma relative_join:
  assumes "ps \<noteq> []" "\<And>p. p \<in> set ps \<Longrightarrow> plain_part p"
  shows "\<not> startswith ''/'' (join_with ''/'' ps)"
proof -
  obtain p rest where ps: "ps = p # rest" using assms(1) by (cases ps) simp_all
  then obtain c p' where p: "p = c # p'" using assms(2) [of p] by (cases p) (auto simp: plain_part_def)
  then have "c \<noteq> CHR ''/''" using assms(2) [of p] ps by (auto simp: plain_part_def)
  with ps p show ?thesis by (cases rest) (simp_all add: startswith_def)
qed

text \<open>A safe path is its own key in the object storage.\<close>

lemma safe_join:
  assumes "ps \<noteq> []" "\<And>p. p \<in> set ps \<Longrightarrow> plain_part p"
  shows "safe_key (join_with ''/'' ps) = Some (join_with ''/'' ps)"
proof -
  have "''..'' \<notin> set ps" using assms(2) by (auto simp: plain_part_def)
  then show ?thesis
    using relative_join [OF assms] assms(1) by (simp add: safe_key_def parts_join [OF assms])
qed

lemma safe_key_parts:
  assumes "safe_key key = Some k"
  shows "\<exists>ps. ps \<noteq> [] \<and> (\<forall>p \<in> set ps. plain_part p) \<and> k = join_with ''/'' ps"
  using assms path_parts_plain [of _ key]
  by (intro exI [of _ "path_parts key"]) (auto simp: safe_key_def plain_part_def split: if_splits)

lemma safe_key_idem: "safe_key key = Some k \<Longrightarrow> safe_key k = Some k"
  using safe_key_parts safe_join by metis

lemma member_parts:
  assumes "safe_member_path name = Inr parts"
  shows "parts \<noteq> [] \<and> (\<forall>p \<in> set parts. plain_part p)"
  using assms path_parts_plain [of _ "forward_slashes name"]
  by (auto simp: safe_member_path_def Let_def plain_part_def split: if_splits)

lemma place_parts:
  assumes "parts \<noteq> [] \<and> (\<forall>p \<in> set parts. plain_part p)" "member_place st category parts = Some place"
  shows "place \<noteq> [] \<and> (\<forall>p \<in> set place. plain_part p)"
  using assms by (auto simp: member_place_def category_relative_def Let_def split: if_splits dest: set_dropWhileD)

section \<open>The members of an accepted archive\<close>

text \<open>A file of an archive as the inspection takes it: in a zip archive no directory and no symbolic link (other
  special modes are not looked at), in a tar archive a regular file, so no directory, link or device.\<close>

definition archive_file :: "env \<Rightarrow> string \<Rightarrow> string \<Rightarrow> string \<Rightarrow> string \<Rightarrow> bool" where
  "archive_file env name data fname bytes \<longleftrightarrow>
     (if endswith ''.zip'' name then
        (\<exists>infos z. open_zip (sources env) data = Inr infos \<and> z \<in> set infos \<and> \<not> zi_is_dir z \<and> \<not> zip_link z \<and>
           zi_filename z = fname \<and> zi_data z = Inr bytes)
      else
        (\<exists>infos z. open_tar (sources env) data = Inr infos \<and> z \<in> set infos \<and> \<not> ti_isdir z \<and> \<not> ti_issym z \<and>
           \<not> ti_islnk z \<and> ti_isfile z \<and> ti_name z = fname \<and> ti_data z = Some (Inr bytes)))"

text \<open>How a manifest entry comes from a file.\<close>

definition came_from :: "env \<Rightarrow> string \<Rightarrow> string \<Rightarrow> string \<Rightarrow> string \<Rightarrow> source_member \<Rightarrow> bool" where
  "came_from env st category fname bytes m \<longleftrightarrow>
     (\<exists>parts place. safe_member_path fname = Inr parts \<and> member_place st category parts = Some place \<and>
        m = \<lparr>sm_path = join_with ''/'' place, sm_sha256 = sha256 env bytes, sm_size = length bytes\<rparr>)"

lemma read_member_adds:
  assumes "read_member env st category limit parts data members = Inr members'" "safe_member_path fname = Inr parts"
  shows "members' = members \<or> (\<exists>m bytes. members' = members @ [m] \<and> data = Inr bytes \<and> came_from env st category fname bytes m)"
  using assms by (auto simp: read_member_def came_from_def digest_stream_def split: option.splits if_splits)

lemma zip_members_from:
  assumes "zip_members env st category limit zs amount members = Inr members'" "m \<in> set members'" "m \<notin> set members"
  shows "\<exists>z \<in> set zs. \<exists>bytes. \<not> zi_is_dir z \<and> \<not> zip_link z \<and> zi_data z = Inr bytes \<and>
    came_from env st category (zi_filename z) bytes m"
  using assms
proof (induction zs arbitrary: amount members)
  case (Cons z zs)
  from Cons.prems(1) obtain parts where parts: "safe_member_path (zi_filename z) = Inr parts" by auto
  show ?case
  proof (cases "zi_is_dir z")
    case True
    with Cons.prems parts show ?thesis using Cons.IH [of amount members] by auto
  next
    case False
    with Cons.prems(1) parts obtain ms where z: "\<not> zip_link z"
      and ms: "read_member env st category limit parts (reading (zi_data z)) members = Inr ms"
      and rest: "zip_members env st category limit zs (amount + zi_file_size z) ms = Inr members'"
      by (auto split: if_splits)
    show ?thesis
    proof (cases "m \<in> set ms")
      case True
      with read_member_adds [OF ms parts] Cons.prems(3) obtain bytes
        where "reading (zi_data z) = Inr bytes" "came_from env st category (zi_filename z) bytes m" by auto
      with False z show ?thesis by (auto simp: reading_def split: sum.splits)
    next
      case F: False
      with Cons.IH [OF rest Cons.prems(2)] show ?thesis by auto
    qed
  qed
qed simp

lemma tar_members_from:
  assumes "tar_members env st category limit zs amount members = Inr members'" "m \<in> set members'" "m \<notin> set members"
  shows "\<exists>z \<in> set zs. \<exists>bytes. \<not> ti_isdir z \<and> \<not> ti_issym z \<and> \<not> ti_islnk z \<and> ti_isfile z \<and> ti_data z = Some (Inr bytes) \<and>
    came_from env st category (ti_name z) bytes m"
  using assms
proof (induction zs arbitrary: amount members)
  case (Cons z zs)
  from Cons.prems(1) obtain parts where parts: "safe_member_path (ti_name z) = Inr parts" by auto
  show ?case
  proof (cases "ti_isdir z")
    case True
    with Cons.prems parts show ?thesis using Cons.IH [of amount members] by auto
  next
    case False
    with Cons.prems(1) parts obtain ms d where z: "\<not> ti_issym z" "\<not> ti_islnk z" "ti_isfile z"
      and d: "d = (case ti_data z of None \<Rightarrow> refuse (''cannot read archive member: '' @ ti_name z) | Some d \<Rightarrow> reading d)"
      and ms: "read_member env st category limit parts d members = Inr ms"
      and rest: "tar_members env st category limit zs (amount + ti_size z) ms = Inr members'"
      by (auto split: if_splits)
    show ?thesis
    proof (cases "m \<in> set ms")
      case True
      with read_member_adds [OF ms parts] Cons.prems(3) obtain bytes
        where "d = Inr bytes" "came_from env st category (ti_name z) bytes m" by auto
      with False z d show ?thesis by (auto simp: reading_def split: sum.splits option.splits)
    next
      case F: False
      with Cons.IH [OF rest Cons.prems(2)] show ?thesis by auto
    qed
  qed
qed simp

lemma inspectable_Inr [simp]: "inspectable r = Inr a \<longleftrightarrow> r = Inr a"
  by (auto simp: inspectable_def split: sum.splits import_exn.splits read_error.splits)

lemma reading_Inr [simp]: "reading r = Inr a \<longleftrightarrow> r = Inr a"
  by (auto simp: reading_def split: sum.splits)

lemma archive_members_from:
  assumes "archive_members env name st category data = Inr members" "m \<in> set members"
  shows "\<exists>fname bytes. archive_file env name data fname bytes \<and> came_from env st category fname bytes m"
  using assms zip_members_from [where members = "[]" and m = m] tar_members_from [where members = "[]" and m = m]
  by (fastforce simp: archive_members_def archive_file_def Let_def split: if_splits)

lemma came_from_safe:
  assumes "came_from env st category fname bytes m"
  shows "safe_key (sm_path m) = Some (sm_path m) \<and> ''..'' \<notin> set (path_parts (sm_path m))"
proof -
  from assms obtain parts place where p: "safe_member_path fname = Inr parts" "member_place st category parts = Some place"
      "sm_path m = join_with ''/'' place"
    by (auto simp: came_from_def)
  have place: "place \<noteq> []" "\<And>x. x \<in> set place \<Longrightarrow> plain_part x"
    using place_parts [OF member_parts [OF p(1)] p(2)] by auto
  then show ?thesis using safe_join [OF place] parts_join [OF place] p(3) by (auto simp: plain_part_def)
qed

text \<open>The extensions a member may have.\<close>

definition allowed_file :: "string \<Rightarrow> string \<Rightarrow> bool" where
  "allowed_file st path \<longleftrightarrow>
     (if st = ''OFFICIAL_BENCHMARK'' then file_suffix path = ''.png'' \<or> licence_file path
      else file_suffix path \<in> set CUSTOMER_FILE_SUFFIXES)"

lemma validate_members_accepts:
  assumes "validate_members env st category files limit members = Inr m"
  shows "mf_members m = sort_key sm_path members" "\<forall>f \<in> set members. allowed_file st (sm_path f)"
    "distinct (map sm_path members)" "length members \<le> files" "mf_file_count m = length members"
    "mf_total_bytes m = sum_list (map sm_size members)" "mf_total_bytes m \<le> limit" "members \<noteq> []"
  using assms
  by (auto simp: validate_members_def manifest_of_def Let_def allowed_file_def OFFICIAL_IMAGE_SUFFIXES_def split: if_splits)

lemma sorted_distinct_key:
  fixes g :: "'a \<Rightarrow> 'b :: linorder"
  assumes "distinct (map g xs)"
  shows "sorted_wrt (\<lambda>x y. g x < g y) (sort_key g xs)"
proof -
  have "distinct (map g (sort_key g xs))"
    using assms mset_sort [of g xs] by (metis distinct_map mset_eq_setD mset_map mset_eq_imp_distinct_iff)
  then have "sorted_wrt (<) (map g (sort_key g xs))"
    by (simp add: strict_sorted_iff)
  then show ?thesis by (simp add: sorted_wrt_map)
qed

section \<open>Accepted imports are safe\<close>

text \<open>C32. Archive imports are safe: when the inspection accepts an archive, every entry of the manifest is
  a file of the archive (in a zip archive no directory and no symbolic link, in a tar archive a regular file), at a relative path that contains no
  parent step and is its own key in the object storage, with an extension on the allow-list, and carries the digest and size
  of that file's bytes; the paths are in strictly ascending order; the number of files, their
  total size and the ratio of that size to the archive's respect the configured limits.\<close>

theorem imported_archive_is_safe:
  assumes "inspect_archive env path st category data = Inr m"
  shows "(\<forall>f \<in> set (mf_members m).
      safe_key (sm_path f) = Some (sm_path f) \<and> ''..'' \<notin> set (path_parts (sm_path f)) \<and> allowed_file st (sm_path f) \<and>
      (\<exists>fname bytes. archive_file env (lower (path_name path)) data fname bytes \<and>
         sm_sha256 f = sha256 env bytes \<and> sm_size f = length bytes)) \<and>
    sorted_wrt (\<lambda>f g. sm_path f < sm_path g) (mf_members m) \<and>
    mf_file_count m = length (mf_members m) \<and> mf_file_count m \<le> dataset_max_files (settings env) \<and>
    mf_total_bytes m = sum_list (map sm_size (mf_members m)) \<and>
    mf_total_bytes m \<le> dataset_max_uncompressed_bytes (settings env) \<and>
    of_nat (mf_total_bytes m) \<le> of_nat (max 1 (length data)) * dataset_max_compression_ratio (settings env)"
proof -
  from assms obtain members where
    a: "archive_members env (lower (path_name path)) st category data = Inr members" and
    v: "validate_members env st category (dataset_max_files (settings env))
      (dataset_max_uncompressed_bytes (settings env)) members = Inr m" and
    ratio: "of_nat (mf_total_bytes m) \<le> of_nat (max 1 (length data)) * dataset_max_compression_ratio (settings env)"
    by (auto simp: inspect_archive_def Let_def split: if_splits)
  note v = validate_members_accepts [OF v]
  have entry: "safe_key (sm_path f) = Some (sm_path f) \<and> ''..'' \<notin> set (path_parts (sm_path f)) \<and> allowed_file st (sm_path f) \<and>
      (\<exists>fname bytes. archive_file env (lower (path_name path)) data fname bytes \<and>
         sm_sha256 f = sha256 env bytes \<and> sm_size f = length bytes)" if f: "f \<in> set members" for f
  proof -
    from archive_members_from [OF a f] obtain fname bytes
      where "archive_file env (lower (path_name path)) data fname bytes" "came_from env st category fname bytes f" by blast
    with came_from_safe v(2) f show ?thesis by (fastforce simp: came_from_def)
  qed
  have "sum_list (map sm_size (sort_key sm_path members)) = sum_list (map sm_size members)"
    by (metis mset_map mset_sort sum_mset_sum_list)
  with entry ratio v sorted_distinct_key [OF v(3)] show ?thesis by simp
qed

lemmas import_simps = inspect_archive_def archive_members_def example_env_def example_settings_def example_sources_def
  example_members_def safe_member_path_def forward_slashes_def path_parts_def path_name_def file_suffix_def
  path_suffix_def lower_def lower_char_def endswith_def startswith_def ALLOWED_ARCHIVE_SUFFIXES_def
  CUSTOMER_FILE_SUFFIXES_def zip_link_def read_member_def member_place_def digest_stream_def validate_members_def
  manifest_of_def inspectable_def reading_def Let_def

lemma imported_archive_is_safe_witness:
  "\<exists>m. inspect_archive (example_env 0) ''/mnt/set.zip'' ''CUSTOMER_PILOT'' ''P2'' ''zipped'' = Inr m \<and>
     map sm_path (mf_members m) = [''good/a.png'', ''good/b.png''] \<and>
     safe_key ''good/a.png'' = Some ''good/a.png'' \<and> mf_total_bytes m \<le> 1000"
proof -
  let ?r = "inspect_archive (example_env 0) ''/mnt/set.zip'' ''CUSTOMER_PILOT'' ''P2'' ''zipped''"
  have r: "case ?r of Inr m \<Rightarrow> map sm_path (mf_members m) = [''good/a.png'', ''good/b.png''] | _ \<Rightarrow> False"
    by (simp add: import_simps)
  then obtain m where m: "?r = Inr m" "map sm_path (mf_members m) = [''good/a.png'', ''good/b.png'']"
    by (cases ?r) simp_all
  then obtain f where f: "f \<in> set (mf_members m)" "sm_path f = ''good/a.png''"
    by (cases "mf_members m") auto
  have "mf_total_bytes m \<le> 1000"
    using imported_archive_is_safe [OF m(1)] by (simp add: example_env_def example_settings_def)
  with imported_archive_is_safe [OF m(1)] m f show ?thesis by metis
qed

section \<open>The stored bytes are the inspected ones\<close>

definition stored_as :: "env \<Rightarrow> string \<Rightarrow> string \<Rightarrow> world \<Rightarrow> bool" where
  "stored_as env uri hash w \<longleftrightarrow> (\<exists>data. get_object uri w = Inr data \<and> sha256 env data = hash)"

lemma local_uri:
  "safe_key key = Some k \<Longrightarrow> get_object (''local://'' @ k) w =
     (case map_of (objects w) k of None \<Rightarrow> Inl ''FileNotFoundError'' | Some data \<Rightarrow> Inr data)"
  using safe_key_idem [of key k] by (simp add: get_object_def startswith_def)

lemma put_immutable_stores:
  assumes "put_immutable env key data w = (Inr uri, w')"
  shows "stored_as env uri (sha256 env data) w'"
proof -
  from assms obtain k where k: "safe_key key = Some k" "uri = ''local://'' @ k"
    by (auto simp: put_immutable_def bnd_def andthen_def split: option.splits if_splits)
  moreover from assms k(1) obtain stored where "map_of (objects w') k = Some stored" "sha256 env stored = sha256 env data"
    by (auto simp: put_immutable_def bnd_def andthen_def map_add_def split: option.splits if_splits)
  ultimately show ?thesis unfolding stored_as_def k(2) local_uri [OF k(1)] by simp
qed

lemma stored_kept:
  assumes "stored_as env uri hash w" "extends (objects w) (objects w')"
  shows "stored_as env uri hash w'"
proof -
  obtain xs where "objects w' = objects w @ xs" using assms(2) by (auto simp: extends_iff)
  then show ?thesis
    using assms(1) by (auto simp: stored_as_def get_object_def split: if_splits option.splits)
qed

lemma keeps_objects:
  assumes "keeps append_only m" "m w = (r, w')"
  shows "extends (objects w) (objects w')"
  using keepsD [OF assms] by (simp add: append_only_def)

lemma store_source_stores:
  assumes "store_source env tid rid r si w = (Inr (uri, manifest_uri), w')"
  shows "stored_as env manifest_uri
      (sha256 env (dumps env (inspection_json (dr_source_type r) (dr_category r) si))) w' \<and>
    (\<forall>h. node_at (sources env) (si_source_path si) = FileNode \<longrightarrow> si_source_sha256 si = Some h \<longrightarrow> stored_as env uri h w')"
proof -
  let ?manifest = "dumps env (inspection_json (dr_source_type r) (dr_category r) si)"
  let ?key = "base_key tid rid @ ''/manifest.json''"
  from assms have s: "store_dataset_source env tid rid (dr_source_type r) (dr_category r) si w = (Inr (uri, manifest_uri), w')"
    by (auto simp: store_source_def try_catch_def split: prod.splits sum.splits)
  show ?thesis
  proof (cases "node_at (sources env) (si_source_path si) = FileNode")
    case True
    with s obtain data w1 w2 where
      put: "put_immutable env (base_key tid rid @ ''/source/'' @ path_name (si_source_path si)) data w1 = (Inr uri, w2)"
      and hash: "Some (sha256 env data) = si_source_sha256 si"
      and manifest: "put_immutable env ?key ?manifest w2 = (Inr manifest_uri, w')"
      by (auto simp: store_dataset_source_def Let_def bnd_returns put_stream_def import_error_def split: if_splits)
    have "extends (objects w2) (objects w')"
      by (rule keeps_objects [OF history_store.keeps_put_immutable manifest])
    with put_immutable_stores [OF put] put_immutable_stores [OF manifest] hash stored_kept show ?thesis
      by (metis option.inject)
  next
    case False
    with s obtain w2 where "put_immutable env ?key ?manifest w2 = (Inr manifest_uri, w')"
      by (auto simp: store_dataset_source_def Let_def bnd_returns andthen_def)
    with False put_immutable_stores show ?thesis by metis
  qed
qed

lemma inspected_file:
  assumes "inspect_dataset_source env path st category = Inr si" "si_source_sha256 si = Some h"
  shows "node_at (sources env) (si_source_path si) = FileNode"
  using assms by (auto simp: inspect_dataset_source_def Let_def split: if_splits node_kind.splits)

lemma register_dataset_returns:
  assumes "register_dataset env pr r uploaded corr w = (Inr d, w')"
  obtains path si uris now w1 w2 where "inspect_dataset_source env path (dr_source_type r) (dr_category r) = Inr si"
    "store_source env (tenant_id pr) (registration_id_of env (tenant_id pr) (expected_digest si)) r si w1 = (Inr uris, w2)"
    "d = registration_row pr r path (uploaded \<noteq> None) si
       (registration_id_of env (tenant_id pr) (expected_digest si)) uris now"
    "add_registration env pr corr d w2 = (Inr d, w')"
proof -
  have returned: "item = d" if "add_registration env pr corr item u = (Inr d, w')" for item u
    using that by (auto simp: add_registration_def andthen_def bnd_returns)
  from assms returned that show thesis
    by (fastforce simp: register_dataset_def Let_def bnd_returns andthen_def lift_result_def inspect_source_def
        split: if_splits option.splits sum.splits import_exn.splits read_error.splits)
qed

text \<open>What is registered is what is stored: when the registration of a data set returns, its row is in the
  table, the manifest object it points to holds the serialized inspection, and the stored source of an
  archive hashes to the recorded source digest; a source that changed between the inspection and the
  storing is never registered.\<close>

theorem registered_dataset_is_stored:
  assumes "register_dataset env pr r uploaded corr w = (Inr d, w')"
  shows "d \<in> set (dataset_registrations w') \<and> ds_tenant d = tenant_id pr \<and>
    (\<exists>path si. inspect_dataset_source env path (dr_source_type r) (dr_category r) = Inr si \<and>
       ds_fingerprint d = mf_fingerprint (si_manifest si) \<and> ds_source_sha256 d = si_source_sha256 si \<and>
       stored_as env (ds_manifest_uri d) (sha256 env (dumps env (inspection_json (dr_source_type r) (dr_category r) si))) w') \<and>
    (\<forall>h. ds_source_sha256 d = Some h \<longrightarrow> stored_as env (ds_storage_uri d) h w')"
proof -
  from register_dataset_returns [OF assms] obtain path si uris now w1 w2 where
    inspected: "inspect_dataset_source env path (dr_source_type r) (dr_category r) = Inr si" and
    stored: "store_source env (tenant_id pr) (registration_id_of env (tenant_id pr) (expected_digest si)) r si w1 = (Inr uris, w2)" and
    d: "d = registration_row pr r path (uploaded \<noteq> None) si
       (registration_id_of env (tenant_id pr) (expected_digest si)) uris now" and
    added: "add_registration env pr corr d w2 = (Inr d, w')" .
  have rows: "d \<in> set (dataset_registrations w') \<and> objects w' = objects w2"
    using added by (auto simp: add_registration_def andthen_def bnd_def try_catch_def insert_dataset_def insert_row_def
        record_audit_def fresh_id_def split: if_splits)
  obtain uri manifest_uri where u: "uris = (uri, manifest_uri)" by (cases uris)
  have keep: "stored_as env x h w2 \<Longrightarrow> stored_as env x h w'" for x h
    using rows by (elim stored_kept) (simp add: extends_iff)
  note s = store_source_stores [OF stored [unfolded u]]
  have "stored_as env uri h w'" if "si_source_sha256 si = Some h" for h
    using s inspected_file [OF inspected that] that keep by blast
  moreover have "stored_as env manifest_uri
      (sha256 env (dumps env (inspection_json (dr_source_type r) (dr_category r) si))) w'"
    using s by (intro keep) simp
  moreover have "ds_tenant d = tenant_id pr" "ds_fingerprint d = mf_fingerprint (si_manifest si)"
      "ds_source_sha256 d = si_source_sha256 si" "ds_manifest_uri d = manifest_uri" "ds_storage_uri d = uri"
    unfolding d u by (simp_all add: registration_row_def)
  ultimately show ?thesis using rows inspected by metis
qed

definition pilot_request :: DatasetRegistrationRequest where
  "pilot_request = \<lparr>dr_source_type = ''CUSTOMER_PILOT'', dr_name = ''n'', dr_category = ''P2'',
     dr_source_path = Some ''/mnt/set.zip'', dr_expected_sha256 = None, dr_license_acknowledged = False,
     dr_customer_provenance = None, dr_metadata = []\<rparr>"

lemmas register_simps = register_dataset_def bnd_def andthen_def fetch_def query_def run_simps run_if_def pilot_request_def
  engineer_def check_mount_def parsed_dataset_import_roots_def lift_result_def inspect_source_def inspect_dataset_source_def
  expected_digest_def store_source_def store_dataset_source_def try_catch_def read_again_def put_stream_def
  put_immutable_def base_key_def registration_id_of_def safe_key_def add_registration_def insert_dataset_def insert_row_def
  record_audit_def fresh_id_def registration_row_def registration_status_def strip_def

lemma register_runs:
  "case register_dataset (example_env 0) engineer pilot_request None ''c'' example_world of
     (Inr d, w') \<Rightarrow> ds_source_sha256 d = Some ''zipped'' \<and> ds_status d = ''DRAFT'' | _ \<Rightarrow> False"
  by (simp add: import_simps register_simps)

lemma registered_dataset_is_stored_witness:
  "\<exists>d w'. register_dataset (example_env 0) engineer pilot_request None ''c'' example_world = (Inr d, w') \<and>
     get_object (ds_storage_uri d) w' = Inr ''zipped''"
proof -
  obtain d w' where r: "register_dataset (example_env 0) engineer pilot_request None ''c'' example_world = (Inr d, w')"
      "ds_source_sha256 d = Some ''zipped''"
    using register_runs by (auto split: prod.splits sum.splits)
  have "stored_as (example_env 0) (ds_storage_uri d) ''zipped'' w'"
    using registered_dataset_is_stored [OF r(1)] r(2) by blast
  with r(1) show ?thesis by (auto simp: stored_as_def example_env_def)
qed

section \<open>The same archive a second time\<close>

text \<open>The stored manifest contains the path of the source, and a staged upload gets a random name: a second
  upload of the same archive by the same tenant meets the first manifest under the same key with other
  bytes and raises \<open>ObjectAlreadyExists\<close>, which \<open>register_dataset\<close> does not turn into an answer; the conflict it
  prepares for the unique fingerprint is not reached.\<close>

lemma manifest_conflict_escapes:
  assumes "node_at (sources env) (si_source_path si) = FileNode"
    and "reread_node (sources env) (si_source_path si) = Inr data" "si_source_sha256 si = Some (sha256 env data)"
    and "length data \<le> dataset_max_upload_bytes (settings env)"
    and "put_immutable env (base_key tid rid @ ''/source/'' @ path_name (si_source_path si)) data w = (Inr uri, w1)"
    and "safe_key (base_key tid rid @ ''/manifest.json'') = Some k" "map_of (objects w1) k = Some stored"
    and "sha256 env stored \<noteq> sha256 env (dumps env (inspection_json (dr_source_type r) (dr_category r) si))"
  shows "fst (store_source env tid rid r si w) = Inl (OtherError ''ObjectAlreadyExists'' k)"
proof -
  have "put_stream env (base_key tid rid @ ''/source/'' @ path_name (si_source_path si)) data
      (dataset_max_upload_bytes (settings env)) w = (Inr (uri, sha256 env data, length data), w1)"
    using assms(4,5) by (simp add: put_stream_def bnd_def)
  then have "store_dataset_source env tid rid (dr_source_type r) (dr_category r) si w =
      (Inl (OtherError ''ObjectAlreadyExists'' k), w1)"
    using assms(1-3,6-8)
    by (simp add: store_dataset_source_def Let_def read_again_def bnd_def put_immutable_def)
  then show ?thesis by (simp add: store_source_def try_catch_def)
qed

end
