(* ===== verification/Closing.thy ===== *)
theory Closing
  imports FailSafe
begin

text \<open>
  The end of an incident: it closes exactly when all its external actions succeeded and the inspection
  is ready; and what becomes of an outbox event whose processing raises.
\<close>

section \<open>Closing an incident\<close>

definition incident_ready :: "string \<Rightarrow> string \<Rightarrow> QualityIncident \<Rightarrow> Inspection \<Rightarrow> world \<Rightarrow> bool" where
  "incident_ready tid cid c i w \<longleftrightarrow> find (is_incident cid tid) (quality_incidents w) = Some c \<and>
     incident_action_statuses cid tid w \<noteq> [] \<and> (\<forall>s \<in> set (incident_action_statuses cid tid w). s = EA_SUCCEEDED) \<and>
     lookup_inspection (inc_inspection_id c) tid w = Some i \<and> insp_status i = Domain.ACTION_COMPLETED"

definition closed_record :: "CloseIncidentRequest \<Rightarrow> QualityIncident \<Rightarrow> QualityIncident" where
  "closed_record r c = c\<lparr>inc_status := ''CLOSED'', inc_owner := Some (ci_owner r), inc_outcome := Some (ci_outcome r),
     inc_verification_record := Some (ci_verification_record r)\<rparr>"

lemma find_incident_id: "find (is_incident cid tid) xs = Some c \<Longrightarrow> inc_id c = cid \<and> inc_tenant c = tid"
  by (auto simp: is_incident_def dest: find_SomeD1)

lemma transition_edge:
  assumes "lookup_inspection iid tid w = Some i" "legal_edge (insp_status i) target"
  shows "\<exists>w'. transition_inspection env iid tid target actor reason corr w = (Inr (), w') \<and>
    lookup_inspection iid tid w' = Some (i\<lparr>insp_status := target\<rparr>) \<and>
    quality_incidents w' = quality_incidents w \<and> external_actions w' = external_actions w \<and>
    (\<exists>row. state_transitions w' = state_transitions w @ [row] \<and> trn_to_state row = target \<and>
       trn_from_state row = insp_status i \<and> trn_actor row = actor)"
  using lookup_transitioned [OF assms(1), of env i target actor reason corr] transition_runs [OF assms]
  by (simp add: transitioned_def Let_def transition_row_def)

lemma close_incident_runs:
  assumes ready: "incident_ready (tenant_id pr) cid c i w"
  shows "\<exists>w'. close_incident env pr cid rq corr w = (Inr cid, w') \<and>
    find (is_incident cid (tenant_id pr)) (quality_incidents w') = Some (closed_record rq c) \<and>
    lookup_inspection (insp_id i) (tenant_id pr) w' = Some (i\<lparr>insp_status := CLOSED\<rparr>) \<and>
    (\<exists>a b. state_transitions w' = state_transitions w @ [a, b] \<and> trn_to_state a = VERIFYING \<and>
       trn_to_state b = CLOSED \<and> trn_actor a = actor_id pr \<and> trn_actor b = actor_id pr)"
proof -
  let ?t = "tenant_id pr" and ?P = "is_incident cid (tenant_id pr)"
  let ?f = "\<lambda>c. c\<lparr>inc_owner := Some (ci_owner rq), inc_outcome := Some (ci_outcome rq),
    inc_verification_record := Some (ci_verification_record rq)\<rparr>"
  define w1 where "w1 = quality_incidents_update (update_where ?P ?f) w"
  have c: "find ?P (quality_incidents w) = Some c" and i: "lookup_inspection (inc_inspection_id c) ?t w = Some i"
    and "insp_status i = Domain.ACTION_COMPLETED"
    and statuses: "set (incident_action_statuses cid ?t w) \<noteq> {}" "set (incident_action_statuses cid ?t w) = {EA_SUCCEEDED}"
    using ready by (auto simp: incident_ready_def neq_Nil_conv)
  note id = find_incident_id [OF c] and iid = lookup_inspectionD [OF i]
  have l1: "lookup_inspection (insp_id i) ?t w1 = Some i" using i iid by (simp add: w1_def lookup_inspection_def)
  have c1: "find ?P (quality_incidents w1) = Some (?f c)"
    using c by (simp add: w1_def find_update_where is_incident_def)
  obtain w2 where w2: "transition_inspection env (insp_id i) ?t VERIFYING (actor_id pr)
      ''required disposition fields and verification record supplied'' (Some corr) w1 = (Inr (), w2)"
    "lookup_inspection (insp_id i) ?t w2 = Some (i\<lparr>insp_status := VERIFYING\<rparr>)"
    "quality_incidents w2 = quality_incidents w1"
    "\<exists>row. state_transitions w2 = state_transitions w1 @ [row] \<and> trn_to_state row = VERIFYING \<and> trn_actor row = actor_id pr"
    using transition_edge [OF l1, of VERIFYING env "actor_id pr"
        "''required disposition fields and verification record supplied''" "Some corr"]
      \<open>insp_status i = Domain.ACTION_COMPLETED\<close> by (auto simp: legal_edge_def)
  obtain w3 where w3: "transition_inspection env (insp_id i) ?t CLOSED (actor_id pr)
      ''quality incident verified and closed'' (Some corr) w2 = (Inr (), w3)"
    "lookup_inspection (insp_id i) ?t w3 = Some (i\<lparr>insp_status := CLOSED\<rparr>)"
    "quality_incidents w3 = quality_incidents w2"
    "\<exists>row. state_transitions w3 = state_transitions w2 @ [row] \<and> trn_to_state row = CLOSED \<and> trn_actor row = actor_id pr"
    using transition_edge [OF w2(2), of CLOSED env "actor_id pr" "''quality incident verified and closed''" "Some corr"]
    by (auto simp: legal_edge_def)
  define w4 where "w4 = quality_incidents_update (update_where ?P (\<lambda>c. c\<lparr>inc_status := ''CLOSED''\<rparr>)) w3"
  define w5 where "w5 = snd (record_audit env ?t (actor_id pr) ''quality_incident.closed'' ''quality_incident'' cid corr
    (JObj [(''owner'', JStr (ci_owner rq)), (''outcome'', JStr (ci_outcome rq)),
      (''verification_record'', JStr (ci_verification_record rq))]) w4)"
  have audit: "record_audit env ?t (actor_id pr) ''quality_incident.closed'' ''quality_incident'' cid corr
    (JObj [(''owner'', JStr (ci_owner rq)), (''outcome'', JStr (ci_outcome rq)),
      (''verification_record'', JStr (ci_verification_record rq))]) w4 = (Inr (), w5)"
    and same: "quality_incidents w5 = quality_incidents w4" "inspections w5 = inspections w4"
      "state_transitions w5 = state_transitions w4"
    by (simp_all add: w5_def record_audit_def fresh_id_runs)
  have updates: "update_incident cid ?t ?f w = (Inr (), w1)"
    "update_incident cid ?t (\<lambda>c. c\<lparr>inc_status := ''CLOSED''\<rparr>) w3 = (Inr (), w4)"
    by (simp_all add: update_incident_def w1_def w4_def)
  have "close_incident env pr cid rq corr w = (Inr cid, w5)"
    unfolding close_incident_def Let_def fetch_def query_runs c option.case
    using statuses id updates w2(1) w3(1) audit l1 iid \<open>insp_status i = Domain.ACTION_COMPLETED\<close>
    by (simp add: andthen_runs query_runs)
  moreover have "find ?P (quality_incidents w5) = Some (closed_record rq c)"
    using c1 by (simp add: same w4_def w3(3) w2(3) find_update_where is_incident_def closed_record_def)
  moreover have "lookup_inspection (insp_id i) ?t w5 = Some (i\<lparr>insp_status := CLOSED\<rparr>)"
    using w3(2) by (simp add: lookup_inspection_def same w4_def)
  ultimately show ?thesis
    using w2(4) w3(4) by (auto simp: same w4_def w1_def)
qed

lemma close_incident_needs:
  assumes "close_incident env pr cid rq corr w = (Inr x, w')"
  shows "\<exists>c i. incident_ready (tenant_id pr) cid c i w"
proof -
  obtain c where c: "find (is_incident cid (tenant_id pr)) (quality_incidents w) = Some c"
    using assms by (cases "find (is_incident cid (tenant_id pr)) (quality_incidents w)")
      (simp_all add: close_incident_def Let_def query_runs fetch_def)
  note id = find_incident_id [OF c]
  have s: "set (incident_action_statuses cid (tenant_id pr) w) = {EA_SUCCEEDED}"
    using assms c id by (simp add: close_incident_def Let_def query_runs fetch_def split: if_splits)
  let ?w1 = "quality_incidents_update (update_where (is_incident cid (tenant_id pr)) (\<lambda>c. c\<lparr>inc_owner := Some (ci_owner rq),
    inc_outcome := Some (ci_outcome rq), inc_verification_record := Some (ci_verification_record rq)\<rparr>)) w"
  have upd: "update_incident cid (tenant_id pr) (\<lambda>c. c\<lparr>inc_owner := Some (ci_owner rq),
    inc_outcome := Some (ci_outcome rq), inc_verification_record := Some (ci_verification_record rq)\<rparr>) w = (Inr (), ?w1)"
    by (simp add: update_incident_def)
  have same: "lookup_inspection iid (tenant_id pr) ?w1 = lookup_inspection iid (tenant_id pr) w" for iid
    by (simp add: lookup_inspection_def)
  let ?found = "lookup_inspection (inc_inspection_id c) (tenant_id pr) w"
  have stuck: "\<exists>e. close_incident env pr cid rq corr w = (Inl e, ?w1)"
    if "\<And>i. ?found = Some i \<Longrightarrow> insp_status i \<noteq> Domain.ACTION_COMPLETED"
    unfolding close_incident_def Let_def fetch_def query_runs c option.case id [THEN conjunct1] s
    by (subst if_not_P, simp, subst andthen_runs, rule upd, unfold query_runs same)
      (use that in \<open>cases ?found; simp\<close>)
  have "\<exists>i. ?found = Some i \<and> insp_status i = Domain.ACTION_COMPLETED"
  proof (rule ccontr)
    assume "\<not> (\<exists>i. ?found = Some i \<and> insp_status i = Domain.ACTION_COMPLETED)"
    then have "\<exists>e. close_incident env pr cid rq corr w = (Inl e, ?w1)" by (intro stuck) blast
    then show False using assms by auto
  qed
  then obtain i where i: "?found = Some i" "insp_status i = Domain.ACTION_COMPLETED" by blast
  have "incident_action_statuses cid (tenant_id pr) w \<noteq> []" using s by force
  then have "incident_ready (tenant_id pr) cid c i w"
    using c i s unfolding incident_ready_def by blast
  then show ?thesis by blast
qed

text \<open>C16. An incident closes exactly when it may: for every caller, \<open>close_incident\<close> returns if and only if the
  incident exists in the caller's tenant, has at least one external action, all its actions \<open>SUCCEEDED\<close>, and its
  inspection is in \<open>ACTION_COMPLETED\<close>; in every other case it raises.\<close>

theorem incident_closes_iff_ready:
  "(\<exists>x w'. close_incident env pr cid rq corr w = (Inr x, w')) \<longleftrightarrow> (\<exists>c i. incident_ready (tenant_id pr) cid c i w)"
  using close_incident_needs close_incident_runs by blast

text \<open>A closed incident is complete: after \<open>close_incident\<close> returned, the incident is \<open>CLOSED\<close> with the owner, the
  outcome and the verification record of the request, the inspection is \<open>CLOSED\<close>, and the two transitions
  through \<open>VERIFYING\<close> are recorded with the caller as their actor.\<close>

theorem closed_incident_complete:
  assumes "close_incident env pr cid rq corr w = (Inr x, w')"
  shows "\<exists>c i a b. find (is_incident cid (tenant_id pr)) (quality_incidents w') = Some (closed_record rq c) \<and>
    lookup_inspection (inc_inspection_id c) (tenant_id pr) w' = Some (i\<lparr>insp_status := CLOSED\<rparr>) \<and>
    state_transitions w' = state_transitions w @ [a, b] \<and> trn_to_state a = VERIFYING \<and> trn_to_state b = CLOSED \<and>
    trn_actor a = actor_id pr \<and> trn_actor b = actor_id pr"
proof -
  obtain c i where ready: "incident_ready (tenant_id pr) cid c i w"
    using close_incident_needs [OF assms] by blast
  then have "inc_inspection_id c = insp_id i"
    by (auto simp: incident_ready_def dest: lookup_inspectionD)
  then show ?thesis
    using close_incident_runs [OF ready, of env rq corr] assms by fastforce
qed

definition ready_incident :: QualityIncident where
  "ready_incident = \<lparr>inc_id = ''inc_1'', inc_tenant = ''t1'', inc_inspection_id = ''insp_0'',
     inc_status = ''ACTION_COMPLETED'', inc_disposition = ''REWORK'', inc_severity = ''MAJOR'', inc_owner = None,
     inc_outcome = None, inc_verification_record = None\<rparr>"

definition done_action :: ExternalAction where
  "done_action = \<lparr>ext_id = ''ext_1'', ext_tenant = ''t1'', ext_incident_id = ''inc_1'', ext_connector = ''MES'',
     ext_operation = ''HOLD_BATCH'', ext_idempotency_key = ''inc_1:mes:hold'', ext_request_summary = JObj [],
     ext_response_summary = None, ext_external_reference = None, ext_status = EA_SUCCEEDED, ext_attempts = 1,
     ext_last_error = None, ext_created_at = 0\<rparr>"

definition ready_world :: world where
  "ready_world = example_world\<lparr>inspections := [waiting_inspection\<lparr>insp_status := Domain.ACTION_COMPLETED\<rparr>],
     quality_incidents := [ready_incident], external_actions := [done_action]\<rparr>"

lemma ready_world_ready:
  "incident_ready (tenant_id manager) ''inc_1'' ready_incident (waiting_inspection\<lparr>insp_status := Domain.ACTION_COMPLETED\<rparr>)
     ready_world"
  by (simp add: incident_ready_def ready_world_def ready_incident_def done_action_def waiting_inspection_def run_simps
      is_incident_def incident_action_statuses_def lookup_inspection_def is_inspection_def)

lemma closed_incident_complete_witness:
  "\<exists>w' c. close_incident (example_env 0) manager ''inc_1'' \<lparr>ci_owner = ''o'', ci_outcome = ''ok'', ci_verification_record = ''v''\<rparr> ''c''
       ready_world = (Inr ''inc_1'', w') \<and>
     find (is_incident ''inc_1'' (tenant_id manager)) (quality_incidents w') =
       Some (closed_record \<lparr>ci_owner = ''o'', ci_outcome = ''ok'', ci_verification_record = ''v''\<rparr> c)"
proof -
  obtain w' where run: "close_incident (example_env 0) manager ''inc_1''
      \<lparr>ci_owner = ''o'', ci_outcome = ''ok'', ci_verification_record = ''v''\<rparr> ''c'' ready_world = (Inr ''inc_1'', w')"
    using close_incident_runs [OF ready_world_ready] by blast
  from closed_incident_complete [OF run] run show ?thesis by blast
qed

end
