(* ===== verification/EdgePack.thy ===== *)
theory EdgePack
  imports Deployment
begin

text \<open>
  \<^verbatim>\<open>edge_gateway/config.py\<close> and \<^verbatim>\<open>edge_gateway/deployment.py\<close>: the settings of one gateway
  process, the part of a Deployment Pack it reads with the checks of that model, product and
  station lookup, and the normalization of capture times.

  The regular expressions of the pack, \<open>datetime.fromisoformat\<close>, \<open>datetime.strptime\<close>, the hash, the
  image library and the spool directory's answers are parameters, the fields of \<open>edge_env\<close>. Instants
  are microseconds since 1970 in UTC.
\<close>

section \<open>Parameters\<close>

text \<open>A \<open>datetime\<close>: its wall clock reading in microseconds, and its offset from UTC in seconds when
  it has a \<open>tzinfo\<close>.\<close>

record edge_datetime =
  dt_wall :: int
  dt_offset :: "int option"

text \<open>A decoded image as Pillow's \<open>convert("L")\<close> gives it, and what opening a file may meet: one of the
  errors the gate catches (its class name), a \<open>RuntimeError\<close> or a subclass of it, which passes the gate and
  is caught by the scan loop (its message), any other exception, or an image whose pixels may still
  fail to load.\<close>

record gray_image =
  g_width :: nat
  g_height :: nat
  g_pixels :: "nat list"

datatype decoder_error = Caught string | Raised string | Escaped string string

record opened_image =
  op_format :: string
  op_width :: int
  op_height :: int
  op_load :: "decoder_error + gray_image"

record edge_env =
  re_compiles :: "string \<Rightarrow> bool"
  re_fullmatch :: "string \<Rightarrow> string \<Rightarrow> (string \<times> string option) list option"
  fromisoformat :: "string \<Rightarrow> edge_datetime option"
  strptime :: "string \<Rightarrow> string \<Rightarrow> edge_datetime option"
  isoformat :: "int \<Rightarrow> string"
  sha256_bytes :: "string \<Rightarrow> string"
  sha256_json :: "json \<Rightarrow> string"
  image_open :: "string \<Rightarrow> decoder_error + opened_image"
  gray_resize :: "gray_image \<Rightarrow> nat \<times> nat \<Rightarrow> gray_image"
  json_text :: "json \<Rightarrow> string"
  jwt_encode :: "(string \<times> json) list \<Rightarrow> string"

section \<open>Exceptions\<close>

text \<open>What the gateway's code raises: the auditable quality rejection, the errors of the file system
  and \<open>RuntimeError\<close> that the scan handles, and any other exception (its class and message).\<close>

datatype edge_exn =
    QualityReject (reject_code: string) (reject_reason: string) (reject_metrics: "(string \<times> json) list")
  | LocalError string
  | EdgeError string string

section \<open>Settings\<close>

record GatewaySettings =
  gs_mode :: string
  gs_version :: string
  gs_gateway_id :: string
  gs_heartbeat_interval :: rat
  gs_stable_for :: "rat option"
  gs_status_token :: "string option"
  gs_auth_token :: "string option"
  gs_auth_issuer :: string
  gs_max_upload_bytes :: int
  gs_max_image_pixels :: int
  gs_min_width :: int
  gs_min_height :: int
  gs_dark_mean :: rat
  gs_overexposed_mean :: rat
  gs_overexposed_ratio :: rat
  gs_min_sharpness :: rat

definition validate_gateway_settings :: "GatewaySettings \<Rightarrow> string + unit" where
  "validate_gateway_settings s = ensure_all
     [(gs_mode s \<in> {''demo'', ''production''}, ''mode''),
      (0 < gs_heartbeat_interval s \<and> gs_heartbeat_interval s \<le> 300, ''heartbeat_interval_seconds''),
      (case gs_stable_for s of None \<Rightarrow> True | Some x \<Rightarrow> 0 \<le> x \<and> x \<le> 3600, ''stable_for_seconds''),
      (0 < gs_max_upload_bytes s, ''max_upload_bytes''),
      (0 < gs_max_image_pixels s, ''max_image_pixels''),
      (0 < gs_min_width s, ''min_width''), (0 < gs_min_height s, ''min_height''),
      (0 \<le> gs_dark_mean s \<and> gs_dark_mean s \<le> 255, ''dark_mean_threshold''),
      (0 \<le> gs_overexposed_mean s \<and> gs_overexposed_mean s \<le> 255, ''overexposed_mean_threshold''),
      (0 \<le> gs_overexposed_ratio s \<and> gs_overexposed_ratio s \<le> 1, ''overexposed_pixel_ratio''),
      (0 \<le> gs_min_sharpness s, ''min_sharpness'')]"

definition validate_mode :: "GatewaySettings \<Rightarrow> string + unit" where
  "validate_mode s =
     (if gs_mode s = ''production'' \<and> gs_auth_token s = None
      then Inl ''production edge gateway requires VQC_GATEWAY_AUTH_TOKEN''
      else if gs_mode s = ''production'' \<and> gs_status_token s = None
      then Inl ''production edge gateway requires VQC_GATEWAY_STATUS_TOKEN''
      else Inr ())"

section \<open>The pack as the edge reads it\<close>

record GatewayProduct =
  gp_code :: string
  gp_display_name :: string
  gp_revision :: string
  gp_aliases :: "string list"

definition gateway_product_matches :: "GatewayProduct \<Rightarrow> string \<Rightarrow> bool" where
  "gateway_product_matches p value \<longleftrightarrow> gp_code p = ''*'' \<or> value = gp_code p \<or> value \<in> set (gp_aliases p)"

record GatewayStation =
  gst_code :: string
  gst_display_name :: string
  gst_description :: string
  gst_camera_profile :: string

record GatewayFieldMapping =
  gf_product_code :: string
  gf_product_revision :: string
  gf_batch_no :: string
  gf_station_code :: string
  gf_captured_at :: string
  gf_source :: string

definition gateway_mapping_values :: "GatewayFieldMapping \<Rightarrow> string list" where
  "gateway_mapping_values m = [gf_product_code m, gf_product_revision m, gf_batch_no m,
     gf_station_code m, gf_captured_at m, gf_source m]"

definition unique_keys :: "GatewayFieldMapping \<Rightarrow> string + unit" where
  "unique_keys m =
     (if length (gateway_mapping_values m) \<noteq> card (set (gateway_mapping_values m))
      then Inl ''Deployment Pack field mapping keys must be unique'' else Inr ())"

text \<open>\<open>getattr(self, canonical_name)\<close>; \<open>None\<close> is the AttributeError.\<close>

definition gateway_key_for :: "GatewayFieldMapping \<Rightarrow> string \<Rightarrow> string option" where
  "gateway_key_for m canonical_name =
     map_of (zip CANONICAL_FIELDS (gateway_mapping_values m)) canonical_name"

record WatchDefinition =
  wd_root :: string
  wd_relative_path_regex :: string
  wd_filename_regex :: string
  wd_capture_map :: "(string \<times> string) list"
  wd_defaults :: "(string \<times> string) list"
  wd_source :: string
  wd_allowed_extensions :: "string list"
  wd_timestamp_formats :: "string list"
  wd_timezone_offset :: string
  wd_stable_for_seconds :: rat
  wd_archive_subdir :: string
  wd_quarantine_subdir :: string

definition normalized_extensions :: "WatchDefinition \<Rightarrow> string list" where
  "normalized_extensions w =
     map (\<lambda>item. if startswith ''.'' item then lower item else ''.'' @ lower item) (wd_allowed_extensions w)"

definition validate_patterns :: "edge_env \<Rightarrow> WatchDefinition \<Rightarrow> string + unit" where
  "validate_patterns env w =
     (if \<not> (re_compiles env (wd_relative_path_regex w) \<and> re_compiles env (wd_filename_regex w))
      then Inl ''invalid gateway filename/path regex''
      else if set (normalized_extensions w) \<inter> {''.png'', ''.jpg'', ''.jpeg''} = {}
      then Inl ''gateway must allow at least one PNG/JPEG extension''
      else Inr ())"

record GatewayEdgeDefinition =
  ge_gateway_id :: string
  ge_target_tenant_id :: string
  ge_watch :: WatchDefinition

record GatewayDeploymentPack =
  dp_pack_key :: string
  dp_version :: string
  dp_display_name :: string
  dp_tenant :: "(string \<times> string) list"
  dp_products :: "GatewayProduct list"
  dp_stations :: "GatewayStation list"
  dp_field_mapping :: GatewayFieldMapping
  dp_edge_gateway :: GatewayEdgeDefinition

definition validate_tenant_binding :: "GatewayDeploymentPack \<Rightarrow> string + unit" where
  "validate_tenant_binding p =
     (let tenant_id = map_of (dp_tenant p) ''id'' in
      if \<not> truthy tenant_id \<or> tenant_id \<noteq> Some (ge_target_tenant_id (dp_edge_gateway p))
      then Inl ''edge gateway target_tenant_id must match Deployment Pack tenant.id''
      else if card (set (map gp_code (dp_products p))) \<noteq> length (dp_products p)
      then Inl ''Deployment Pack product codes must be unique''
      else if card (set (map gst_code (dp_stations p))) \<noteq> length (dp_stations p)
      then Inl ''Deployment Pack station codes must be unique''
      else Inr ())"

text \<open>\<open>pack.tenant_id\<close> is \<open>tenant["id"]\<close>, which the validation made present.\<close>

definition pack_tenant_id :: "GatewayDeploymentPack \<Rightarrow> string" where
  "pack_tenant_id p = (case map_of (dp_tenant p) ''id'' of Some t \<Rightarrow> t | None \<Rightarrow> [])"

definition pack_gateway_id :: "GatewayDeploymentPack \<Rightarrow> string" where
  "pack_gateway_id p = ge_gateway_id (dp_edge_gateway p)"

definition gateway_resolve_product :: "GatewayDeploymentPack \<Rightarrow> string \<Rightarrow> GatewayProduct option" where
  "gateway_resolve_product p value = find (\<lambda>item. gateway_product_matches item value) (dp_products p)"

definition gateway_resolve_station :: "GatewayDeploymentPack \<Rightarrow> string \<Rightarrow> GatewayStation option" where
  "gateway_resolve_station p value = find (\<lambda>item. gst_code item = value \<or> gst_code item = ''*'') (dp_stations p)"

section \<open>Validation of a pack\<close>

definition at_least_one :: "string \<Rightarrow> bool" where
  "at_least_one s \<longleftrightarrow> 1 \<le> length s"

definition validate_gateway_product :: "GatewayProduct \<Rightarrow> string + unit" where
  "validate_gateway_product p = ensure_all
     [(at_least_one (gp_code p), ''code''), (at_least_one (gp_display_name p), ''display_name''),
      (at_least_one (gp_revision p), ''revision'')]"

definition validate_gateway_station :: "GatewayStation \<Rightarrow> string + unit" where
  "validate_gateway_station s = ensure_all
     [(at_least_one (gst_code s), ''code''), (at_least_one (gst_display_name s), ''display_name'')]"

definition validate_gateway_mapping :: "GatewayFieldMapping \<Rightarrow> string + unit" where
  "validate_gateway_mapping m =
     andThen (validate_all (\<lambda>v. ensure (at_least_one v) ''field_mapping'') (gateway_mapping_values m))
       (\<lambda>_. unique_keys m)"

definition validate_watch_definition :: "edge_env \<Rightarrow> WatchDefinition \<Rightarrow> string + unit" where
  "validate_watch_definition env w =
     andThen (ensure_all
       [(at_least_one (wd_relative_path_regex w), ''relative_path_regex''),
        (at_least_one (wd_filename_regex w), ''filename_regex''),
        (at_least_one (wd_source w), ''source''),
        (0 \<le> wd_stable_for_seconds w \<and> wd_stable_for_seconds w \<le> 3600, ''stable_for_seconds'')])
     (\<lambda>_. validate_patterns env w)"

definition validate_gateway_edge :: "edge_env \<Rightarrow> GatewayEdgeDefinition \<Rightarrow> string + unit" where
  "validate_gateway_edge env e =
     andThen (ensure_all
       [(len_between 1 128 (ge_gateway_id e), ''gateway_id''),
        (len_between 1 64 (ge_target_tenant_id e), ''target_tenant_id'')])
     (\<lambda>_. validate_watch_definition env (ge_watch e))"

definition validate_gateway_pack :: "edge_env \<Rightarrow> GatewayDeploymentPack \<Rightarrow> string + unit" where
  "validate_gateway_pack env p =
     andThen (ensure_all
       [(at_least_one (dp_pack_key p), ''pack_key''), (at_least_one (dp_version p), ''version''),
        (at_least_one (dp_display_name p), ''display_name''),
        (dp_products p \<noteq> [], ''products''), (dp_stations p \<noteq> [], ''stations'')])
     (\<lambda>_. andThen (validate_all validate_gateway_product (dp_products p))
     (\<lambda>_. andThen (validate_all validate_gateway_station (dp_stations p))
     (\<lambda>_. andThen (validate_gateway_mapping (dp_field_mapping p))
     (\<lambda>_. andThen (validate_gateway_edge env (dp_edge_gateway p))
     (\<lambda>_. validate_tenant_binding p)))))"

section \<open>Capture times\<close>

definition digit_value :: "char \<Rightarrow> int" where
  "digit_value c = int (of_char c :: nat) - 48"

text \<open>\<open>re.fullmatch(r"([+-])(\d{2}):(\d{2})", value)\<close> and the offset in seconds; \<open>datetime.timezone\<close>
  only takes offsets of less than a day.\<close>

definition parse_timezone_offset :: "string \<Rightarrow> edge_exn + int" where
  "parse_timezone_offset value =
     (if \<not> timezone_offset_ok value then Inl (EdgeError ''ValueError'' (''invalid timezone offset '' @ value))
      else (case value of
        [sign, a, b, colon, c, d] \<Rightarrow>
          let total = ((digit_value a * 10 + digit_value b) * 60 + (digit_value c * 10 + digit_value d)) * 60;
              seconds = (if sign = CHR ''-'' then total * (- 1) else total)
          in if \<bar>seconds\<bar> < 86400 then Inr seconds
             else Inl (EdgeError ''ValueError'' ''offset must be strictly between -24 and 24 hours'')
      | _ \<Rightarrow> Inl (EdgeError ''ValueError'' (''invalid timezone offset '' @ value))))"

definition replace_Z :: "string \<Rightarrow> string" where
  "replace_Z s = concat (map (\<lambda>c. if c = CHR ''Z'' then ''+00:00'' else [c]) s)"

text \<open>The first format that parses.\<close>

fun first_format :: "edge_env \<Rightarrow> string \<Rightarrow> string list \<Rightarrow> edge_datetime option" where
  "first_format env value [] = None"
| "first_format env value (fmt # fmts) =
     (case strptime env value fmt of Some d \<Rightarrow> Some d | None \<Rightarrow> first_format env value fmts)"

definition parse_captured_at :: "edge_env \<Rightarrow> string \<Rightarrow> string list \<Rightarrow> edge_datetime option" where
  "parse_captured_at env value formats =
     (case fromisoformat env (replace_Z value) of
        Some d \<Rightarrow> Some d
      | None \<Rightarrow> first_format env value formats)"

text \<open>The years 1 to 9999, outside of which \<open>astimezone\<close> raises.\<close>

definition in_datetime_range :: "int \<Rightarrow> bool" where
  "in_datetime_range t \<longleftrightarrow> - 62135596800 * 10 ^ 6 \<le> t \<and> t < 253402300800 * 10 ^ 6"

definition normalize_captured_at :: "edge_env \<Rightarrow> string \<Rightarrow> WatchDefinition \<Rightarrow> edge_exn + string" where
  "normalize_captured_at env raw watch =
     (case parse_captured_at env (strip raw) (wd_timestamp_formats watch) of
        None \<Rightarrow> Inl (EdgeError ''ValueError''
          (''captured_at value '' @ raw @ '' does not match Deployment Pack formats''))
      | Some d \<Rightarrow>
          andThen (case dt_offset d of Some z \<Rightarrow> Inr z | None \<Rightarrow> parse_timezone_offset (wd_timezone_offset watch))
          (\<lambda>offset. let t = dt_wall d - offset * 10 ^ 6 in
             if in_datetime_range t then Inr (isoformat env t)
             else Inl (EdgeError ''OverflowError'' ''date value out of range'')))"

end
