(* ===== verification/EdgeQueue.thy ===== *)
theory EdgeQueue
  imports EdgePack AuditLog
begin

text \<open>
  \<^verbatim>\<open>edge_gateway/queue.py\<close>: the SQLite ledger of the gateway. A store is the list of the rows of
  \<open>queue_items\<close> and the counter of AUTOINCREMENT. Every operation is one transaction of the code and
  a function from the store to its result and the new store; \<open>iso_now()\<close> is an argument. Time stamps,
  which the table keeps as UTC texts that compare like the instants, are microseconds.
\<close>

section \<open>Rows\<close>

record QueueItem =
  qi_id :: nat
  qi_gateway_id :: string
  qi_tenant_id :: string
  qi_pack_key :: string
  qi_pack_version :: string
  qi_source_path :: string
  qi_source_fingerprint :: string
  qi_spool_path :: "string option"
  qi_original_filename :: string
  qi_content_sha256 :: "string option"
  qi_mime_type :: "string option"
  qi_width :: "int option"
  qi_height :: "int option"
  qi_context :: "(string \<times> string) list"
  qi_idempotency_key :: "string option"
  qi_status :: string
  qi_attempts :: nat
  qi_last_attempt_at :: "int option"
  qi_next_attempt_at :: "int option"
  qi_last_error :: "string option"
  qi_error_code :: "string option"
  qi_rejection_reason :: "string option"
  qi_inspection_id :: "string option"
  qi_dedup_of_id :: "nat option"
  qi_retryable :: bool
  qi_created_at :: int
  qi_updated_at :: int
  qi_uploaded_at :: "int option"

record QueueStore =
  qs_rows :: "QueueItem list"
  qs_last_rowid :: nat

definition empty_store :: QueueStore where
  "empty_store = \<lparr>qs_rows = [], qs_last_rowid = 0\<rparr>"

text \<open>\<open>_row\<close> reads empty texts as absent.\<close>

definition nonempty :: "string option \<Rightarrow> string option" where
  "nonempty s = (if truthy s then s else None)"

definition row_item :: "QueueItem \<Rightarrow> QueueItem" where
  "row_item r = r\<lparr>qi_spool_path := nonempty (qi_spool_path r),
     qi_content_sha256 := nonempty (qi_content_sha256 r), qi_mime_type := nonempty (qi_mime_type r),
     qi_idempotency_key := nonempty (qi_idempotency_key r), qi_last_error := nonempty (qi_last_error r),
     qi_error_code := nonempty (qi_error_code r), qi_rejection_reason := nonempty (qi_rejection_reason r),
     qi_inspection_id := nonempty (qi_inspection_id r),
     qi_dedup_of_id := (if qi_dedup_of_id r = Some 0 then None else qi_dedup_of_id r)\<rparr>"

definition queue_get :: "nat \<Rightarrow> QueueStore \<Rightarrow> QueueItem option" where
  "queue_get item_id q = map_option row_item (find (\<lambda>r. qi_id r = item_id) (qs_rows q))"

definition find_source :: "string \<Rightarrow> QueueStore \<Rightarrow> QueueItem option" where
  "find_source fp q = map_option row_item (find (\<lambda>r. qi_source_fingerprint r = fp) (qs_rows q))"

section \<open>Inserting\<close>

text \<open>An INSERT assigns the next rowid and is refused when the fingerprint exists (UNIQUE) or the row
  that is named as the original does not (FOREIGN KEY).\<close>

definition insert_item :: "QueueItem \<Rightarrow> QueueStore \<Rightarrow> (edge_exn + QueueItem) \<times> QueueStore" where
  "insert_item r q =
     (if qi_source_fingerprint r \<in> set (map qi_source_fingerprint (qs_rows q)) \<or>
         (case qi_dedup_of_id r of None \<Rightarrow> False | Some d \<Rightarrow> d \<notin> set (map qi_id (qs_rows q)))
      then (Inl (EdgeError ''IntegrityError'' ''constraint failed''), q)
      else (let n = r\<lparr>qi_id := Suc (qs_last_rowid q)\<rparr> in
        (Inr (row_item n), \<lparr>qs_rows = qs_rows q @ [n], qs_last_rowid = Suc (qs_last_rowid q)\<rparr>)))"

text \<open>The keyword arguments of \<open>enqueue\<close>.\<close>

record EnqueueArgs =
  ea_gateway_id :: string
  ea_tenant_id :: string
  ea_pack_key :: string
  ea_pack_version :: string
  ea_source_path :: string
  ea_source_fingerprint :: string
  ea_spool_path :: string
  ea_original_filename :: string
  ea_content_sha256 :: string
  ea_mime_type :: string
  ea_width :: int
  ea_height :: int
  ea_context :: "(string \<times> string) list"
  ea_idempotency_key :: string

text \<open>The context column is \<open>json.dumps(context, sort_keys=True)\<close>, read back as the sorted dict.\<close>

definition queued_row :: "EnqueueArgs \<Rightarrow> int \<Rightarrow> QueueItem" where
  "queued_row a now = \<lparr>qi_id = 0, qi_gateway_id = ea_gateway_id a, qi_tenant_id = ea_tenant_id a,
     qi_pack_key = ea_pack_key a, qi_pack_version = ea_pack_version a,
     qi_source_path = ea_source_path a, qi_source_fingerprint = ea_source_fingerprint a,
     qi_spool_path = Some (ea_spool_path a), qi_original_filename = ea_original_filename a,
     qi_content_sha256 = Some (ea_content_sha256 a), qi_mime_type = Some (ea_mime_type a),
     qi_width = Some (ea_width a), qi_height = Some (ea_height a),
     qi_context = sort_key fst (ea_context a), qi_idempotency_key = Some (ea_idempotency_key a),
     qi_status = ''QUEUED'', qi_attempts = 0, qi_last_attempt_at = None, qi_next_attempt_at = Some now,
     qi_last_error = None, qi_error_code = None, qi_rejection_reason = None, qi_inspection_id = None,
     qi_dedup_of_id = None, qi_retryable = True, qi_created_at = now, qi_updated_at = now,
     qi_uploaded_at = None\<rparr>"

definition duplicate_row :: "EnqueueArgs \<Rightarrow> nat \<Rightarrow> int \<Rightarrow> QueueItem" where
  "duplicate_row a primary now = (queued_row a now)\<lparr>qi_spool_path := None, qi_status := ''DUPLICATE'',
     qi_next_attempt_at := None, qi_retryable := False, qi_dedup_of_id := Some primary\<rparr>"

definition is_primary :: "string \<Rightarrow> string \<Rightarrow> QueueItem \<Rightarrow> bool" where
  "is_primary tid key r \<longleftrightarrow> qi_tenant_id r = tid \<and> qi_idempotency_key r = Some key \<and>
     qi_status r \<noteq> ''DUPLICATE''"

definition enqueue :: "EnqueueArgs \<Rightarrow> int \<Rightarrow> QueueStore \<Rightarrow> (edge_exn + QueueItem) \<times> QueueStore" where
  "enqueue a now q =
     (case find_source (ea_source_fingerprint a) q of
        Some existing \<Rightarrow> (Inr existing, q)
      | None \<Rightarrow>
         (case sort_key qi_id (filter (is_primary (ea_tenant_id a) (ea_idempotency_key a)) (qs_rows q)) of
            primary # _ \<Rightarrow> insert_item (duplicate_row a (qi_id primary) now) q
          | [] \<Rightarrow> insert_item (queued_row a now) q))"

text \<open>The keyword arguments of \<open>record_rejection\<close>.\<close>

record RejectionArgs =
  ra_gateway_id :: string
  ra_tenant_id :: string
  ra_pack_key :: string
  ra_pack_version :: string
  ra_source_path :: string
  ra_source_fingerprint :: string
  ra_original_filename :: string
  ra_error_code :: string
  ra_rejection_reason :: string
  ra_context :: "(string \<times> string) list"
  ra_content_sha256 :: "string option"

definition rejected_row :: "RejectionArgs \<Rightarrow> int \<Rightarrow> QueueItem" where
  "rejected_row a now = \<lparr>qi_id = 0, qi_gateway_id = ra_gateway_id a, qi_tenant_id = ra_tenant_id a,
     qi_pack_key = ra_pack_key a, qi_pack_version = ra_pack_version a,
     qi_source_path = ra_source_path a, qi_source_fingerprint = ra_source_fingerprint a,
     qi_spool_path = None, qi_original_filename = ra_original_filename a,
     qi_content_sha256 = ra_content_sha256 a, qi_mime_type = None, qi_width = None, qi_height = None,
     qi_context = sort_key fst (ra_context a), qi_idempotency_key = None,
     qi_status = ''REJECTED'', qi_attempts = 0, qi_last_attempt_at = None, qi_next_attempt_at = None,
     qi_last_error = None, qi_error_code = Some (ra_error_code a),
     qi_rejection_reason = Some (ra_rejection_reason a), qi_inspection_id = None,
     qi_dedup_of_id = None, qi_retryable = False, qi_created_at = now, qi_updated_at = now,
     qi_uploaded_at = None\<rparr>"

definition record_rejection :: "RejectionArgs \<Rightarrow> int \<Rightarrow> QueueStore \<Rightarrow> (edge_exn + QueueItem) \<times> QueueStore" where
  "record_rejection a now q =
     (case find_source (ra_source_fingerprint a) q of
        Some existing \<Rightarrow> (Inr existing, q)
      | None \<Rightarrow> insert_item (rejected_row a now) q)"

section \<open>Updating\<close>

definition update_items :: "(QueueItem \<Rightarrow> bool) \<Rightarrow> (QueueItem \<Rightarrow> QueueItem) \<Rightarrow> QueueStore \<Rightarrow> QueueStore" where
  "update_items P f q = q\<lparr>qs_rows := update_where P f (qs_rows q)\<rparr>"

definition interrupted :: "int \<Rightarrow> QueueItem \<Rightarrow> QueueItem" where
  "interrupted now r = r\<lparr>qi_status := ''FAILED'', qi_retryable := True, qi_next_attempt_at := Some now,
     qi_error_code := Some ''PROCESS_RESTARTED'',
     qi_last_error := Some ''restarted while uploading, waiting for retry'', qi_updated_at := now\<rparr>"

definition recover_inflight :: "int \<Rightarrow> QueueStore \<Rightarrow> nat \<times> QueueStore" where
  "recover_inflight now q =
     (count_where (\<lambda>r. qi_status r = ''UPLOADING'') (qs_rows q),
      update_items (\<lambda>r. qi_status r = ''UPLOADING'') (interrupted now) q)"

definition is_due :: "int \<Rightarrow> QueueItem \<Rightarrow> bool" where
  "is_due current r \<longleftrightarrow> qi_retryable r \<and> qi_status r \<in> {''QUEUED'', ''FAILED''} \<and>
     (case qi_next_attempt_at r of None \<Rightarrow> True | Some t \<Rightarrow> t \<le> current)"

definition claimed :: "int \<Rightarrow> QueueItem \<Rightarrow> QueueItem" where
  "claimed updated r = r\<lparr>qi_status := ''UPLOADING'', qi_attempts := qi_attempts r + 1,
     qi_last_attempt_at := Some updated, qi_updated_at := updated\<rparr>"

definition claim_due :: "int \<Rightarrow> int \<Rightarrow> QueueStore \<Rightarrow> QueueItem option \<times> QueueStore" where
  "claim_due current updated q =
     (case sort_key qi_created_at (sort_key qi_id (filter (is_due current) (qs_rows q))) of
        [] \<Rightarrow> (None, q)
      | row # _ \<Rightarrow>
          let q' = update_items (\<lambda>r. qi_id r = qi_id row) (claimed updated) q
          in (queue_get (qi_id row) q', q'))"

definition uploaded :: "string \<Rightarrow> int \<Rightarrow> QueueItem \<Rightarrow> QueueItem" where
  "uploaded inspection_id now r = r\<lparr>qi_status := ''UPLOADED'', qi_retryable := False,
     qi_next_attempt_at := None, qi_inspection_id := Some inspection_id, qi_uploaded_at := Some now,
     qi_updated_at := now, qi_last_error := None, qi_error_code := None\<rparr>"

definition mark_uploaded :: "nat \<Rightarrow> string \<Rightarrow> int \<Rightarrow> QueueStore \<Rightarrow> QueueItem option \<times> QueueStore" where
  "mark_uploaded item_id inspection_id now q =
     (let q' = update_items (\<lambda>r. qi_id r = item_id) (uploaded inspection_id now) q
      in (queue_get item_id q', q'))"

text \<open>\<open>timedelta(seconds=max(0, delay))\<close> in microseconds.\<close>

definition delay_microseconds :: "rat \<Rightarrow> int" where
  "delay_microseconds delay = round_half_even (max 0 delay * 1000000)"

definition failed :: "string \<Rightarrow> string \<Rightarrow> bool \<Rightarrow> rat \<Rightarrow> int \<Rightarrow> QueueItem \<Rightarrow> QueueItem" where
  "failed error_code err retry delay now r = r\<lparr>qi_status := ''FAILED'', qi_retryable := retry,
     qi_next_attempt_at := (if retry then Some (now + delay_microseconds delay) else None),
     qi_error_code := Some error_code, qi_last_error := Some (take 1000 err), qi_updated_at := now\<rparr>"

definition mark_failed :: "nat \<Rightarrow> string \<Rightarrow> string \<Rightarrow> bool \<Rightarrow> rat \<Rightarrow> int \<Rightarrow> QueueStore \<Rightarrow>
    QueueItem option \<times> QueueStore" where
  "mark_failed item_id error_code err retry delay now q =
     (let q' = update_items (\<lambda>r. qi_id r = item_id) (failed error_code err retry delay now) q
      in (queue_get item_id q', q'))"

definition rearmed :: "int \<Rightarrow> QueueItem \<Rightarrow> QueueItem" where
  "rearmed now r = r\<lparr>qi_retryable := True, qi_status := ''FAILED'', qi_next_attempt_at := Some now,
     qi_updated_at := now\<rparr>"

definition queue_retry :: "nat \<Rightarrow> int \<Rightarrow> QueueStore \<Rightarrow> (edge_exn + QueueItem) \<times> QueueStore" where
  "queue_retry item_id now q =
     (let q' = update_items (\<lambda>r. qi_id r = item_id \<and> qi_status r = ''FAILED'') (rearmed now) q
      in (case queue_get item_id q' of
            None \<Rightarrow> Inl (EdgeError ''KeyError'' (''queue item '' @ show_nat item_id @ '' not found''))
          | Some item \<Rightarrow> Inr item, q'))"

section \<open>Reading\<close>

definition list_items :: "int \<Rightarrow> QueueStore \<Rightarrow> QueueItem list" where
  "list_items limit q = map row_item (take (nat (max 1 (min limit 500))) (rev (sort_key qi_id (qs_rows q))))"

record QueueError =
  qe_queue_id :: nat
  qe_status :: string
  qe_code :: "string option"
  qe_message :: "string option"
  qe_updated_at :: int

record QueueSummary =
  sm_depth :: nat
  sm_counts :: "(string \<times> nat) list"
  sm_recent_errors :: "QueueError list"

definition queue_error :: "QueueItem \<Rightarrow> QueueError" where
  "queue_error r = \<lparr>qe_queue_id = qi_id r, qe_status = qi_status r, qe_code = qi_error_code r,
     qe_message = (if truthy (qi_rejection_reason r) then qi_rejection_reason r else qi_last_error r),
     qe_updated_at = qi_updated_at r\<rparr>"

definition status_counts :: "QueueItem list \<Rightarrow> (string \<times> nat) list" where
  "status_counts rs = map (\<lambda>s. (s, count_where (\<lambda>r. qi_status r = s) rs)) (remdups (map qi_status rs))"

definition count_for :: "(string \<times> nat) list \<Rightarrow> string \<Rightarrow> nat" where
  "count_for counts s = (case map_of counts s of None \<Rightarrow> 0 | Some n \<Rightarrow> n)"

definition queue_summary :: "int \<Rightarrow> QueueStore \<Rightarrow> QueueSummary" where
  "queue_summary recent_limit q =
     (let counts = status_counts (qs_rows q) in
      \<lparr>sm_depth = sum_list (map (count_for counts) [''QUEUED'', ''UPLOADING'', ''FAILED'']),
       sm_counts = counts,
       sm_recent_errors = map queue_error (take (nat (max 1 (min recent_limit 50)))
         (rev (sort_key qi_updated_at (sort_key qi_id
           (filter (\<lambda>r. qi_status r \<in> {''REJECTED'', ''FAILED''}) (qs_rows q))))))\<rparr>)"

end
