(* ===== verification/EdgeUploader.thy ===== *)
theory EdgeUploader
  imports EdgeQueue
begin

text \<open>
  \<^verbatim>\<open>edge_gateway/uploader.py\<close>: the tenant-bound token, the upload request of a queue item and the
  classification of what comes back, the heartbeat request, and the idempotency key. The backend on
  the other side of the HTTP client is a parameter: a state of any type and what it answers.
\<close>

section \<open>Requests and replies\<close>

datatype upload_exn = UploadError (ue_code: string) (ue_message: string) (ue_retryable: bool)
  | UploadEscape string string

record UploadResult =
  ur_inspection_id :: string
  ur_idempotent_replay :: bool
  ur_status :: string

record UploadRequest =
  uq_headers :: "(string \<times> string) list"
  uq_filename :: string
  uq_image :: string
  uq_mime_type :: string
  uq_form :: "(string \<times> string) list"

text \<open>A response with its status and its JSON body, if it has one; a timeout or network error; another
  failure of the client library. The strings are class names.\<close>

datatype edge_reply = EdgeResponse nat "json option" | TransportError string | ClientError string

record 'b Backend =
  be_upload :: "UploadRequest \<Rightarrow> 'b \<Rightarrow> edge_reply \<times> 'b"
  be_heartbeat :: "(string \<times> string) list \<Rightarrow> (string \<times> json) list \<Rightarrow> 'b \<Rightarrow> edge_reply \<times> 'b"

section \<open>The token\<close>

definition GatewayTokenProvider_init :: "GatewaySettings \<Rightarrow> GatewayDeploymentPack \<Rightarrow> edge_exn + unit" where
  "GatewayTokenProvider_init s pack =
     (case validate_mode s of
        Inl m \<Rightarrow> Inl (EdgeError ''ValueError'' m)
      | Inr _ \<Rightarrow>
          if gs_gateway_id s \<notin> {''gateway-local'', pack_gateway_id pack}
          then Inl (EdgeError ''ValueError'' ''VQC_GATEWAY_ID does not match the Deployment Pack gateway_id'')
          else Inr ())"

definition provider_gateway_id :: "GatewaySettings \<Rightarrow> GatewayDeploymentPack \<Rightarrow> string" where
  "provider_gateway_id s pack =
     (if gs_gateway_id s = ''gateway-local'' then pack_gateway_id pack else gs_gateway_id s)"

text \<open>\<open>iat\<close> and \<open>exp\<close> are seconds.\<close>

definition gateway_token :: "edge_env \<Rightarrow> GatewaySettings \<Rightarrow> GatewayDeploymentPack \<Rightarrow> int \<Rightarrow> upload_exn + string" where
  "gateway_token env s pack now =
     (case gs_auth_token s of
        Some t \<Rightarrow> Inr t
      | None \<Rightarrow>
          if gs_mode s \<noteq> ''demo''
          then Inl (UploadError ''AUTH_CONFIGURATION_ERROR''
            ''no token from an IdP or secret provider is configured'' False)
          else Inr (jwt_encode env
            [(''sub'', JStr (provider_gateway_id s pack)), (''tenant_id'', JStr (pack_tenant_id pack)),
             (''roles'', JList [JStr ''edge_gateway'']), (''iss'', JStr (gs_auth_issuer s)),
             (''iat'', JInt (now div 1000000)), (''exp'', JInt (now div 1000000 + 5 * 60))]))"

definition upload_headers :: "edge_env \<Rightarrow> GatewaySettings \<Rightarrow> GatewayDeploymentPack \<Rightarrow> int \<Rightarrow> QueueItem option \<Rightarrow>
    upload_exn + (string \<times> string) list" where
  "upload_headers env s pack now item =
     (let gateway_id = provider_gateway_id s pack;
          correlation = (case item of
            Some i \<Rightarrow> ''gw_'' @ gateway_id @ ''_'' @ show_nat (qi_id i)
          | None \<Rightarrow> ''gw_'' @ gateway_id @ ''_heartbeat'')
      in andThen (gateway_token env s pack now) (\<lambda>token. Inr
        [(''Authorization'', ''Bearer '' @ token), (''X-Gateway-ID'', gateway_id),
         (''X-Correlation-ID'', take 128 correlation), (''Accept'', ''application/json'')]))"

section \<open>Uploading\<close>

definition upload_form :: "GatewayDeploymentPack \<Rightarrow> (string \<times> string) list \<Rightarrow> (string \<times> string) list" where
  "upload_form pack context = dict_of (List.map_filter (\<lambda>(canonical, value).
     if canonical \<in> set CANONICAL_FIELDS
     then map_option (\<lambda>k. (k, value)) (gateway_key_for (dp_field_mapping pack) canonical)
     else None) context)"

definition edge_json_truthy :: "json \<Rightarrow> bool" where
  "edge_json_truthy j = (case j of JNull \<Rightarrow> False | JBool b \<Rightarrow> b | JInt i \<Rightarrow> i \<noteq> 0 | JFloat x \<Rightarrow> x \<noteq> 0
     | JStr s \<Rightarrow> s \<noteq> [] | JList l \<Rightarrow> l \<noteq> [] | JObj d \<Rightarrow> d \<noteq> [])"

text \<open>Python's \<open>str()\<close> of a JSON value.\<close>

definition json_str :: "edge_env \<Rightarrow> json \<Rightarrow> string" where
  "json_str env j = (case j of JStr s \<Rightarrow> s | _ \<Rightarrow> json_text env j)"

definition accepted_code :: "nat \<Rightarrow> bool" where
  "accepted_code code \<longleftrightarrow> code \<in> {200, 201, 202}"

definition retryable_code :: "nat \<Rightarrow> bool" where
  "retryable_code code \<longleftrightarrow> code = 429 \<or> code \<ge> 500"

text \<open>A refusal takes its message from the body; a JSON body that is not an object has no \<open>get\<close>.\<close>

definition refused :: "edge_env \<Rightarrow> nat \<Rightarrow> json option \<Rightarrow> upload_exn" where
  "refused env code body =
     (let raise = (\<lambda>m. UploadError (if retryable_code code then ''UPLOAD_RETRYABLE'' else ''UPLOAD_REJECTED'')
            m (retryable_code code));
          default = ''the backend refused the upload''
      in case body of
           None \<Rightarrow> raise default
         | Some (JObj d) \<Rightarrow>
             let pick = (\<lambda>k. case jget k d of None \<Rightarrow> JNull | Some v \<Rightarrow> v) in
             raise (take 300
               (if edge_json_truthy (pick ''message'') then json_str env (pick ''message'')
                else if edge_json_truthy (pick ''detail'') then json_str env (pick ''detail'')
                else default))
         | Some _ \<Rightarrow> UploadEscape ''AttributeError'' ''the body has no attribute get'')"

definition response_invalid :: upload_exn where
  "response_invalid = UploadError ''UPLOAD_RESPONSE_INVALID'' ''the answer has no inspection_id'' True"

definition upload_result :: "edge_env \<Rightarrow> json option \<Rightarrow> upload_exn + UploadResult" where
  "upload_result env body = (case body of
     Some (JObj d) \<Rightarrow>
       (case jget ''inspection_id'' d of
          None \<Rightarrow> Inl response_invalid
        | Some i \<Rightarrow> Inr \<lparr>ur_inspection_id = json_str env i,
            ur_idempotent_replay = (case jget ''idempotent_replay'' d of None \<Rightarrow> False | Some v \<Rightarrow> edge_json_truthy v),
            ur_status = (case jget ''status'' d of None \<Rightarrow> ''RECEIVED'' | Some v \<Rightarrow> json_str env v)\<rparr>)
   | _ \<Rightarrow> Inl response_invalid)"

definition classify_reply :: "edge_env \<Rightarrow> edge_reply \<Rightarrow> upload_exn + UploadResult" where
  "classify_reply env reply = (case reply of
     TransportError c \<Rightarrow> Inl (UploadError ''UPLOAD_TRANSPORT_ERROR'' (''backend unreachable: '' @ c) True)
   | ClientError c \<Rightarrow> Inl (UploadError ''UPLOAD_HTTP_CLIENT_ERROR'' (''upload request failed: '' @ c) True)
   | EdgeResponse code body \<Rightarrow>
       if accepted_code code then upload_result env body else Inl (refused env code body))"

definition upload_request :: "edge_env \<Rightarrow> GatewaySettings \<Rightarrow> GatewayDeploymentPack \<Rightarrow> int \<Rightarrow> QueueItem \<Rightarrow> string \<Rightarrow>
    upload_exn + UploadRequest" where
  "upload_request env s pack now item data =
     (if \<not> truthy (qi_idempotency_key item) \<or> \<not> truthy (qi_mime_type item)
      then Inl (UploadError ''QUEUE_ITEM_INVALID'' ''the item has no idempotency key or media type'' False)
      else andThen (upload_headers env s pack now (Some item)) (\<lambda>headers. Inr
        \<lparr>uq_headers = dict_update headers [(''Idempotency-Key'', the (qi_idempotency_key item))],
         uq_filename = qi_original_filename item, uq_image = data,
         uq_mime_type = the (qi_mime_type item), uq_form = upload_form pack (qi_context item)\<rparr>))"

definition upload :: "edge_env \<Rightarrow> 'b Backend \<Rightarrow> GatewaySettings \<Rightarrow> GatewayDeploymentPack \<Rightarrow> int \<Rightarrow> QueueItem \<Rightarrow> string \<Rightarrow>
    'b \<Rightarrow> (upload_exn + UploadResult) \<times> 'b" where
  "upload env backend s pack now item data b =
     (case upload_request env s pack now item data of
        Inl e \<Rightarrow> (Inl e, b)
      | Inr request \<Rightarrow>
          let (reply, b') = be_upload backend request b in (classify_reply env reply, b'))"

text \<open>A heartbeat fails on a refusal and on a client error; the token's error escapes.\<close>

definition send_heartbeat :: "edge_env \<Rightarrow> 'b Backend \<Rightarrow> GatewaySettings \<Rightarrow> GatewayDeploymentPack \<Rightarrow> int \<Rightarrow>
    (string \<times> json) list \<Rightarrow> 'b \<Rightarrow> (upload_exn + bool) \<times> 'b" where
  "send_heartbeat env backend s pack now payload b =
     (case upload_headers env s pack now None of
        Inl e \<Rightarrow> (Inl e, b)
      | Inr headers \<Rightarrow>
          let (reply, b') = be_heartbeat backend headers payload b in
          (Inr (case reply of EdgeResponse code _ \<Rightarrow> accepted_code code | _ \<Rightarrow> False), b'))"

section \<open>The idempotency key\<close>

definition deterministic_idempotency_key :: "edge_env \<Rightarrow> string \<Rightarrow> string \<Rightarrow> string \<Rightarrow> string \<Rightarrow>
    (string \<times> string) list \<Rightarrow> string" where
  "deterministic_idempotency_key env tid pk pv sha context =
     ''edge_'' @ sha256_json env (sort_keys (JObj
       [(''schema'', JStr ''visionqc-edge-idempotency.v1''), (''tenant_id'', JStr tid),
        (''pack_key'', JStr pk), (''pack_version'', JStr pv),
        (''content_sha256'', JStr sha),
        (''context'', JObj (map (\<lambda>(k, v). (k, JStr v)) context))]))"

section \<open>What an upload comes to\<close>

lemma token_available: "GatewayTokenProvider_init s pack = Inr u \<Longrightarrow> gs_mode s \<in> {''demo'', ''production''} \<Longrightarrow>
    \<exists>t. gateway_token env s pack now = Inr t"
  by (auto simp: GatewayTokenProvider_init_def validate_mode_def gateway_token_def split: sum.splits if_splits option.splits)

lemma provider_is_pack: "GatewayTokenProvider_init s pack = Inr u \<Longrightarrow> provider_gateway_id s pack = pack_gateway_id pack"
  by (auto simp: GatewayTokenProvider_init_def provider_gateway_id_def split: sum.splits if_splits)

lemma canonical_has_key: "c \<in> set CANONICAL_FIELDS \<Longrightarrow> \<exists>k. gateway_key_for m c = Some k"
  by (auto simp: CANONICAL_FIELDS_def gateway_key_for_def gateway_mapping_values_def)

end
