(* ===== verification/EdgeQuality.thy ===== *)
theory EdgeQuality
  imports EdgePack
begin

text \<open>
  \<^verbatim>\<open>edge_gateway/quality.py\<close>: the image measurements and the gate every file passes before it is
  queued. Decoding, gray conversion and resampling are Pillow's and parameters; the measurements
  are computed here as the code computes them, on exact rationals in place of floats.
\<close>

section \<open>Measurements\<close>

definition fmean :: "int list \<Rightarrow> rat" where
  "fmean xs = of_int (sum_list xs) / of_nat (length xs)"

definition pvariance :: "int list \<Rightarrow> rat" where
  "pvariance xs = (let mu = fmean xs in
     (\<Sum>x \<leftarrow> xs. (of_int x - mu) * (of_int x - mu)) / of_nat (length xs))"

definition round_digits :: "nat \<Rightarrow> rat \<Rightarrow> rat" where
  "round_digits n x = of_int (round_half_even (x * 10 ^ n)) / 10 ^ n"

text \<open>The reduction to at most 256 pixels a side that both functions begin with, \<open>int\<close> truncating.\<close>

definition scaled_side :: "nat \<Rightarrow> nat \<Rightarrow> nat" where
  "scaled_side m side = max 2 (nat \<lfloor>of_nat side * (256 / of_nat m) :: rat\<rfloor>)"

definition shrink :: "edge_env \<Rightarrow> gray_image \<Rightarrow> gray_image" where
  "shrink env g = (let m = max (g_width g) (g_height g) in
     if m > 256 then gray_resize env g (scaled_side m (g_width g), scaled_side m (g_height g)) else g)"

definition sample_grayscale :: "edge_env \<Rightarrow> gray_image \<Rightarrow> int list" where
  "sample_grayscale env g = map int (g_pixels (shrink env g))"

text \<open>The differences between horizontal neighbours, row by row, then between vertical ones.\<close>

definition horizontal_edges :: "int list \<Rightarrow> nat \<Rightarrow> nat \<Rightarrow> int list" where
  "horizontal_edges pixels width height =
     concat (map (\<lambda>y. map (\<lambda>x. \<bar>pixels ! (y * width + x) - pixels ! (y * width + x + 1)\<bar>)
       [0..<width - 1]) [0..<height])"

definition vertical_edges :: "int list \<Rightarrow> nat \<Rightarrow> nat \<Rightarrow> int list" where
  "vertical_edges pixels width height =
     concat (map (\<lambda>y. map (\<lambda>x. \<bar>pixels ! (y * width + x) - pixels ! ((y + 1) * width + x)\<bar>)
       [0..<width]) [0..<height - 1])"

record image_metrics =
  mean_luminance :: rat
  dark_pixel_ratio :: rat
  overexposed_pixel_ratio :: rat
  sharpness :: rat
  sharpness_variance :: rat

definition ratio_of :: "(int \<Rightarrow> bool) \<Rightarrow> int list \<Rightarrow> rat" where
  "ratio_of P pixels = of_nat (count_where P pixels) / of_nat (max 1 (length pixels))"

definition measure_image :: "edge_env \<Rightarrow> gray_image \<Rightarrow> image_metrics" where
  "measure_image env img =
     (let gray = shrink env img;
          pixels = sample_grayscale env gray;
          edges = horizontal_edges pixels (g_width gray) (g_height gray)
            @ vertical_edges pixels (g_width gray) (g_height gray)
      in \<lparr>mean_luminance = round_digits 4 (if pixels = [] then 0 else fmean pixels),
          dark_pixel_ratio = round_digits 6 (ratio_of (\<lambda>v. v \<le> 12) pixels),
          overexposed_pixel_ratio = round_digits 6 (ratio_of (\<lambda>v. v \<ge> 250) pixels),
          sharpness = round_digits 4 (if edges = [] then 0 else fmean edges),
          sharpness_variance = round_digits 4 (if 1 < length edges then pvariance edges else 0)\<rparr>)"

definition metrics_json :: "image_metrics \<Rightarrow> (string \<times> json) list" where
  "metrics_json m =
     [(''mean_luminance'', JFloat (mean_luminance m)),
      (''dark_pixel_ratio'', JFloat (dark_pixel_ratio m)),
      (''overexposed_pixel_ratio'', JFloat (overexposed_pixel_ratio m)),
      (''sharpness'', JFloat (sharpness m)),
      (''sharpness_variance'', JFloat (sharpness_variance m))]"

section \<open>The gate\<close>

record QualityAssessment =
  qa_data :: string
  qa_sha256 :: string
  qa_mime_type :: string
  qa_extension :: string
  qa_width :: int
  qa_height :: int
  qa_metrics :: image_metrics

text \<open>\<open>filename.rsplit(".", 1)[-1].lower()\<close> of a name with a dot.\<close>

definition suffix_of :: "string \<Rightarrow> string" where
  "suffix_of filename =
     (if CHR ''.'' \<in> set filename then lower (last (split_on (CHR ''.'') filename)) else [])"

definition extension_to_mime :: "(string \<times> string \<times> string) list" where
  "extension_to_mime =
     [(''png'', (''PNG'', ''image/png'')), (''jpg'', (''JPEG'', ''image/jpeg'')),
      (''jpeg'', (''JPEG'', ''image/jpeg''))]"

definition decode_failure :: "decoder_error \<Rightarrow> edge_exn" where
  "decode_failure e = (case e of
     Caught t \<Rightarrow> QualityReject ''SECURITY_DECODE_FAILED'' ''image cannot be decoded safely''
       [(''decoder_error'', JStr t)]
   | Raised m \<Rightarrow> LocalError m
   | Escaped t m \<Rightarrow> EdgeError t m)"

text \<open>The \<open>try\<close> block: open, check the size before loading, load, measure.\<close>

definition decode_and_measure :: "edge_env \<Rightarrow> GatewaySettings \<Rightarrow> string \<Rightarrow>
    edge_exn + (string \<times> int \<times> int \<times> image_metrics)" where
  "decode_and_measure env s data =
     (case image_open env data of
        Inl e \<Rightarrow> Inl (decode_failure e)
      | Inr img \<Rightarrow>
          if op_width img \<le> 0 \<or> op_height img \<le> 0 \<or>
             op_width img * op_height img > gs_max_image_pixels s
          then Inl (QualityReject ''IMAGE_DIMENSIONS_UNSAFE'' ''image size above the safe limit''
            [(''width'', JInt (op_width img)), (''height'', JInt (op_height img)),
             (''max_pixels'', JInt (gs_max_image_pixels s))])
          else (case op_load img of
              Inl e \<Rightarrow> Inl (decode_failure e)
            | Inr gray \<Rightarrow> Inr (op_format img, op_width img, op_height img, measure_image env gray)))"

text \<open>The gate on what was measured; \<open>Inr ()\<close> is falling through all the rejections.\<close>

definition quality_gate :: "GatewaySettings \<Rightarrow> string \<Rightarrow> string \<Rightarrow> string \<Rightarrow> int \<Rightarrow> int \<Rightarrow>
    image_metrics \<Rightarrow> edge_exn + unit" where
  "quality_gate s sfx expected_format detected_format width height m =
     (if detected_format \<noteq> expected_format
      then Inl (QualityReject ''FORMAT_MISMATCH'' ''extension does not match the image format''
        [(''declared_extension'', JStr sfx), (''detected_format'', JStr detected_format)])
      else if width < gs_min_width s \<or> height < gs_min_height s
      then Inl (QualityReject ''IMAGE_TOO_SMALL'' ''image below the minimum size''
        [(''width'', JInt width), (''height'', JInt height),
         (''min_width'', JInt (gs_min_width s)), (''min_height'', JInt (gs_min_height s))])
      else if mean_luminance m \<le> gs_dark_mean s
      then Inl (QualityReject ''TOO_DARK'' ''image too dark'' (metrics_json m))
      else if mean_luminance m \<ge> gs_overexposed_mean s \<or>
        overexposed_pixel_ratio m \<ge> gs_overexposed_ratio s
      then Inl (QualityReject ''OVEREXPOSED'' ''image overexposed'' (metrics_json m))
      else if sharpness m < gs_min_sharpness s
      then Inl (QualityReject ''BLURRY'' ''image below the sharpness threshold'' (metrics_json m))
      else Inr ())"

definition assess_image :: "edge_env \<Rightarrow> string \<Rightarrow> string \<Rightarrow> GatewaySettings \<Rightarrow>
    edge_exn + QualityAssessment" where
  "assess_image env data filename s =
     (let sfx = suffix_of filename in
      if data = [] then Inl (QualityReject ''EMPTY_FILE'' ''empty file'' [])
      else if int (length data) > gs_max_upload_bytes s
      then Inl (QualityReject ''FILE_TOO_LARGE'' ''file above the byte limit''
        [(''bytes'', JInt (int (length data))), (''max_bytes'', JInt (gs_max_upload_bytes s))])
      else (case map_of extension_to_mime sfx of
        None \<Rightarrow> Inl (QualityReject ''UNSUPPORTED_FORMAT'' ''only PNG/JPEG files''
          [(''extension'', JStr sfx)])
      | Some (expected_format, mime_type) \<Rightarrow>
          andThen (decode_and_measure env s data) (\<lambda>(detected_format, width, height, metrics).
          andThen (quality_gate s sfx expected_format detected_format width height metrics) (\<lambda>_.
          Inr \<lparr>qa_data = data, qa_sha256 = sha256_bytes env data, qa_mime_type = mime_type,
               qa_extension = (if sfx \<in> {''jpg'', ''jpeg''} then ''jpg'' else ''png''),
               qa_width = width, qa_height = height, qa_metrics = metrics\<rparr>))))"

section \<open>Bounds of the measurements\<close>

lemma round_half_even_int: "round_half_even (of_int i) = i"
  by (simp add: round_half_even_def)

lemma round_half_even_floor: "\<lfloor>x\<rfloor> \<le> round_half_even x" "round_half_even x \<le> \<lfloor>x\<rfloor> + 1"
  by (simp_all add: round_half_even_def Let_def)

lemma round_half_even_mono: 
  assumes "x \<le> y" shows "round_half_even x \<le> round_half_even y"
proof (cases "\<lfloor>x\<rfloor> = \<lfloor>y\<rfloor>")
  case True
  with assms show ?thesis
    by (simp add: round_half_even_def Let_def)
next
  case False
  with floor_mono [OF assms] have "\<lfloor>x\<rfloor> + 1 \<le> \<lfloor>y\<rfloor>" by linarith
  with round_half_even_floor [of x] round_half_even_floor [of y] show ?thesis by linarith
qed

lemma round_digits_ge:
  assumes "of_int a \<le> x"
  shows "of_int a \<le> round_digits n x"
proof -
  have "round_half_even (of_int (a * 10 ^ n)) \<le> round_half_even (x * 10 ^ n)"
    using assms by (intro round_half_even_mono) simp
  then have "a * 10 ^ n \<le> round_half_even (x * 10 ^ n)" by (simp only: round_half_even_int)
  then have "(of_int (a * 10 ^ n) :: rat) \<le> of_int (round_half_even (x * 10 ^ n))" by (simp only: of_int_le_iff)
  then show ?thesis
    by (simp add: round_digits_def pos_le_divide_eq)
qed

lemma round_digits_le:
  assumes "x \<le> of_int b"
  shows "round_digits n x \<le> of_int b"
proof -
  have "round_half_even (x * 10 ^ n) \<le> round_half_even (of_int (b * 10 ^ n))"
    using assms by (intro round_half_even_mono) simp
  then have "round_half_even (x * 10 ^ n) \<le> b * 10 ^ n" by (simp only: round_half_even_int)
  then have "(of_int (round_half_even (x * 10 ^ n)) :: rat) \<le> of_int (b * 10 ^ n)" by (simp only: of_int_le_iff)
  then show ?thesis
    by (simp add: round_digits_def pos_divide_le_eq)
qed

lemma sum_list_between:
  assumes "\<forall>x \<in> set xs. lo \<le> x \<and> x \<le> (hi :: int)"
  shows "int (length xs) * lo \<le> sum_list xs \<and> sum_list xs \<le> int (length xs) * hi"
  using assms by (induction xs) (auto simp: algebra_simps)

lemma fmean_between:
  assumes "\<forall>x \<in> set xs. lo \<le> x \<and> x \<le> hi" "xs \<noteq> []"
  shows "of_int lo \<le> fmean xs" "fmean xs \<le> of_int hi"
proof -
  have pos: "(0 :: rat) < of_nat (length xs)" using assms(2) by simp
  have "int (length xs) * lo \<le> sum_list xs" "sum_list xs \<le> int (length xs) * hi"
    using sum_list_between [OF assms(1)] by simp_all
  then have "(of_int (int (length xs) * lo) :: rat) \<le> of_int (sum_list xs)"
    "(of_int (sum_list xs) :: rat) \<le> of_int (int (length xs) * hi)" by (simp_all only: of_int_le_iff)
  then have "of_nat (length xs) * of_int lo \<le> (of_int (sum_list xs) :: rat)"
    "(of_int (sum_list xs) :: rat) \<le> of_nat (length xs) * of_int hi" by simp_all
  then show "of_int lo \<le> fmean xs" "fmean xs \<le> of_int hi"
    using pos by (simp_all add: fmean_def pos_le_divide_eq pos_divide_le_eq mult.commute)
qed

lemma ratio_of_between: "0 \<le> ratio_of P xs" "ratio_of P xs \<le> 1"
proof -
  show "0 \<le> ratio_of P xs" by (simp add: ratio_of_def)
  have "count_where P xs \<le> max 1 (length xs)"
    by (metis count_where_def le_max_iff_disj length_filter_le)
  then have "(of_nat (count_where P xs) :: rat) \<le> of_nat (max 1 (length xs))" by (simp only: of_nat_le_iff)
  then show "ratio_of P xs \<le> 1" by (simp add: ratio_of_def)
qed

text \<open>What Pillow promises of a gray image: one byte per pixel, row by row.\<close>

definition gray_ok :: "gray_image \<Rightarrow> bool" where
  "gray_ok g \<longleftrightarrow> length (g_pixels g) = g_width g * g_height g \<and> (\<forall>v \<in> set (g_pixels g). v \<le> 255)"

definition resize_ok :: "edge_env \<Rightarrow> gray_image \<Rightarrow> bool" where
  "resize_ok env g \<longleftrightarrow> (\<forall>w h. gray_ok (gray_resize env g (w, h)) \<and>
     g_width (gray_resize env g (w, h)) = w \<and> g_height (gray_resize env g (w, h)) = h)"

lemma shrink_ok: "gray_ok g \<Longrightarrow> resize_ok env g \<Longrightarrow> gray_ok (shrink env g)"
  by (simp add: shrink_def Let_def resize_ok_def)

lemma scaled_side_small:
  assumes "side \<le> m" "0 < m" shows "scaled_side m side \<le> 256"
proof -
  have "of_nat side * (256 / of_nat m) \<le> (256 :: rat)"
    using assms by (simp add: pos_divide_le_eq)
  then have "\<lfloor>of_nat side * (256 / of_nat m) :: rat\<rfloor> \<le> 256" by linarith
  then have "nat \<lfloor>of_nat side * (256 / of_nat m) :: rat\<rfloor> \<le> 256" by linarith
  then show ?thesis by (simp only: scaled_side_def)
qed

lemma shrink_idem: "resize_ok env g \<Longrightarrow> shrink env (shrink env g) = shrink env g"
proof -
  assume r: "resize_ok env g"
  show ?thesis
  proof (cases "max (g_width g) (g_height g) > 256")
    case True
    let ?m = "max (g_width g) (g_height g)"
    have "scaled_side ?m (g_width g) \<le> 256" "scaled_side ?m (g_height g) \<le> 256"
      using True by (auto intro: scaled_side_small)
    with True r show ?thesis by (simp add: shrink_def Let_def resize_ok_def)
  qed (simp add: shrink_def Let_def)
qed

lemma edges_between:
  assumes "\<forall>x \<in> set pixels. 0 \<le> x \<and> x \<le> (255 :: int)" "length pixels = w * h"
  shows "\<forall>d \<in> set (horizontal_edges pixels w h @ vertical_edges pixels w h). 0 \<le> d \<and> d \<le> 255"
proof -
  have at: "0 \<le> pixels ! i \<and> pixels ! i \<le> 255" if "i < w * h" for i
    using assms that by (auto intro: nth_mem)
  have diff: "\<bar>pixels ! i - pixels ! j\<bar> \<le> 255" if "i < w * h" "j < w * h" for i j
    using at [OF that(1)] at [OF that(2)] by linarith
  have inside: "y * w + x < w * h" if "x < w" "y < h" for x y
  proof -
    have "y * w + x < (y + 1) * w" using that by simp
    also have "\<dots> \<le> h * w" using that by (intro mult_le_mono1) simp
    finally show ?thesis by (simp add: mult.commute)
  qed
  have "\<bar>pixels ! (y * w + x) - pixels ! (y * w + x + 1)\<bar> \<le> 255" if "x < w - 1" "y < h" for x y
    using that inside [of x y] inside [of "x + 1" y] by (intro diff) (simp_all add: add.assoc)
  moreover have "\<bar>pixels ! (y * w + x) - pixels ! ((y + 1) * w + x)\<bar> \<le> 255" if "x < w" "y < h - 1" for x y
    using that inside [of x y] inside [of x "y + 1"] by (intro diff) simp_all
  ultimately show ?thesis
    by (auto simp: horizontal_edges_def vertical_edges_def)
qed

text \<open>The measurements the gate compares with its thresholds are on the scale of the thresholds: for every
  image Pillow hands over as bytes, mean luminance and sharpness lie between 0 and 255, the dark and the
  overexposed ratio between 0 and 1, and the variance is not negative; the rounding does not leave these
  ranges.\<close>

theorem metrics_in_range:
  assumes "gray_ok img" "resize_ok env img"
  shows "let m = measure_image env img in
    0 \<le> mean_luminance m \<and> mean_luminance m \<le> 255 \<and> 0 \<le> dark_pixel_ratio m \<and> dark_pixel_ratio m \<le> 1 \<and>
    0 \<le> overexposed_pixel_ratio m \<and> overexposed_pixel_ratio m \<le> 1 \<and>
    0 \<le> sharpness m \<and> sharpness m \<le> 255 \<and> 0 \<le> sharpness_variance m"
proof -
  define g where "g = shrink env img"
  define px where "px = sample_grayscale env g"
  define es where "es = horizontal_edges px (g_width g) (g_height g) @ vertical_edges px (g_width g) (g_height g)"
  have px: "px = map int (g_pixels g)" "\<forall>x \<in> set px. 0 \<le> x \<and> x \<le> 255" "length px = g_width g * g_height g"
    using shrink_ok [OF assms] shrink_idem [OF assms(2)]
    by (auto simp: px_def g_def sample_grayscale_def gray_ok_def)
  have es: "\<forall>d \<in> set es. 0 \<le> d \<and> d \<le> 255"
    unfolding es_def by (rule edges_between [OF px(2,3)])
  have within: "0 \<le> round_digits n (if xs = [] then 0 else fmean xs)"
    "round_digits n (if xs = [] then 0 else fmean xs) \<le> 255" if "\<forall>x \<in> set xs. 0 \<le> x \<and> x \<le> 255" for n xs
    using fmean_between [OF that] round_digits_ge [of 0 "if xs = [] then 0 else fmean xs" n]
      round_digits_le [of "if xs = [] then 0 else fmean xs" 255 n] by auto
  have ratio: "0 \<le> round_digits n (ratio_of P px)" "round_digits n (ratio_of P px) \<le> 1" for n P
    using ratio_of_between [of P px] round_digits_ge [of 0] round_digits_le [of _ 1] by simp_all
  have "(0 :: rat) \<le> (if 1 < length es then pvariance es else 0)"
    by (auto simp: pvariance_def Let_def intro!: divide_nonneg_nonneg sum_list_nonneg)
  then have "0 \<le> round_digits 4 (if 1 < length es then pvariance es else 0)"
    using round_digits_ge [of 0] by simp
  moreover have "measure_image env img =
    \<lparr>mean_luminance = round_digits 4 (if px = [] then 0 else fmean px),
     dark_pixel_ratio = round_digits 6 (ratio_of (\<lambda>v. v \<le> 12) px),
     overexposed_pixel_ratio = round_digits 6 (ratio_of (\<lambda>v. v \<ge> 250) px),
     sharpness = round_digits 4 (if es = [] then 0 else fmean es),
     sharpness_variance = round_digits 4 (if 1 < length es then pvariance es else 0)\<rparr>"
    by (simp only: measure_image_def Let_def g_def px_def es_def)
  ultimately show ?thesis
    using within [OF px(2)] within [OF es] ratio
    by (simp only: Let_def image_metrics.select_convs simp_thms)
qed

section \<open>What the gate lets through\<close>

lemma quality_gate_passes:
  "quality_gate s sfx expected fmt w h m = Inr u \<longleftrightarrow>
     fmt = expected \<and> gs_min_width s \<le> w \<and> gs_min_height s \<le> h \<and> gs_dark_mean s < mean_luminance m \<and>
     mean_luminance m < gs_overexposed_mean s \<and> overexposed_pixel_ratio m < gs_overexposed_ratio s \<and>
     gs_min_sharpness s \<le> sharpness m"
  by (auto simp: quality_gate_def)

lemma decode_and_measure_returns:
  "decode_and_measure env s data = Inr (fmt, w, h, m) \<longleftrightarrow>
     (\<exists>img gray. image_open env data = Inr img \<and> op_load img = Inr gray \<and> 0 < w \<and> 0 < h \<and>
        w * h \<le> gs_max_image_pixels s \<and> fmt = op_format img \<and> w = op_width img \<and> h = op_height img \<and>
        m = measure_image env gray)"
  by (auto simp: decode_and_measure_def split: sum.splits)

text \<open>The input gate accepts exactly the files it should: a non-empty file within the byte limit, with a PNG or
  JPEG extension, that decodes to the format of its extension, within the pixel limit and not below the
  minimum size, neither too dark nor overexposed nor blurred; and the assessment carries the untouched
  bytes, their hash, and the size and media type of that image. Everything else raises.\<close>

theorem assess_image_accepts_iff:
  "assess_image env data filename s = Inr a \<longleftrightarrow>
     data \<noteq> [] \<and> int (length data) \<le> gs_max_upload_bytes s \<and>
     (\<exists>expected mime img gray.
        map_of extension_to_mime (suffix_of filename) = Some (expected, mime) \<and>
        image_open env data = Inr img \<and> op_load img = Inr gray \<and> op_format img = expected \<and>
        0 < op_width img \<and> 0 < op_height img \<and> op_width img * op_height img \<le> gs_max_image_pixels s \<and>
        gs_min_width s \<le> op_width img \<and> gs_min_height s \<le> op_height img \<and>
        gs_dark_mean s < mean_luminance (measure_image env gray) \<and>
        mean_luminance (measure_image env gray) < gs_overexposed_mean s \<and>
        overexposed_pixel_ratio (measure_image env gray) < gs_overexposed_ratio s \<and>
        gs_min_sharpness s \<le> sharpness (measure_image env gray) \<and>
        a = \<lparr>qa_data = data, qa_sha256 = sha256_bytes env data, qa_mime_type = mime,
             qa_extension = (if suffix_of filename = ''png'' then ''png'' else ''jpg''),
             qa_width = op_width img, qa_height = op_height img, qa_metrics = measure_image env gray\<rparr>)"
proof -
  have ext: "suffix_of filename \<in> {''jpg'', ''jpeg''} \<longleftrightarrow> suffix_of filename \<noteq> ''png''"
    if "map_of extension_to_mime (suffix_of filename) = Some r" for r
    using that by (auto simp: extension_to_mime_def split: if_splits)
  show ?thesis
    by (cases "map_of extension_to_mime (suffix_of filename)")
      (auto simp: assess_image_def Let_def quality_gate_passes decode_and_measure_returns dest: ext)
qed


end
