(* ===== verification/EdgeLedger.thy ===== *)
theory EdgeLedger
  imports EdgeQueue
begin

text \<open>
  What the gateway's ledger guarantees: the well-formedness of its rows, how a row may evolve, and
  that every operation of \<^verbatim>\<open>queue.py\<close> keeps both, with the laws the runtime relies on.
\<close>

section \<open>Well-formed rows\<close>

definition live :: "QueueItem \<Rightarrow> bool" where
  "live r \<longleftrightarrow> qi_status r \<in> {''QUEUED'', ''UPLOADING'', ''FAILED''}"

definition carries_upload :: "QueueItem \<Rightarrow> bool" where
  "carries_upload r \<longleftrightarrow> qi_spool_path r \<noteq> None \<and> qi_idempotency_key r \<noteq> None \<and> qi_mime_type r \<noteq> None \<and>
     qi_content_sha256 r \<noteq> None \<and> qi_dedup_of_id r = None \<and> qi_rejection_reason r = None"

definition waiting_ok :: "QueueItem \<Rightarrow> bool" where
  "waiting_ok r \<longleftrightarrow> live r \<and> carries_upload r \<and> qi_inspection_id r = None \<and> qi_uploaded_at r = None \<and>
     (if qi_status r = ''QUEUED'' then qi_retryable r \<and> qi_attempts r = 0 \<and> qi_next_attempt_at r \<noteq> None
      else 1 \<le> qi_attempts r) \<and>
     (qi_status r = ''UPLOADING'' \<longrightarrow> qi_retryable r) \<and>
     (qi_status r = ''FAILED'' \<longrightarrow> qi_error_code r \<noteq> None \<and> (qi_retryable r \<longleftrightarrow> qi_next_attempt_at r \<noteq> None))"

definition uploaded_ok :: "QueueItem \<Rightarrow> bool" where
  "uploaded_ok r \<longleftrightarrow> qi_status r = ''UPLOADED'' \<and> carries_upload r \<and> qi_inspection_id r \<noteq> None \<and>
     qi_uploaded_at r \<noteq> None \<and> 1 \<le> qi_attempts r \<and> \<not> qi_retryable r \<and> qi_next_attempt_at r = None \<and>
     qi_error_code r = None"

definition rejected_ok :: "QueueItem \<Rightarrow> bool" where
  "rejected_ok r \<longleftrightarrow> qi_status r = ''REJECTED'' \<and> qi_rejection_reason r \<noteq> None \<and> qi_error_code r \<noteq> None \<and>
     qi_idempotency_key r = None \<and> qi_spool_path r = None \<and> qi_inspection_id r = None \<and>
     qi_dedup_of_id r = None \<and> \<not> qi_retryable r \<and> qi_attempts r = 0"

definition duplicate_ok :: "QueueItem \<Rightarrow> bool" where
  "duplicate_ok r \<longleftrightarrow> qi_status r = ''DUPLICATE'' \<and> qi_dedup_of_id r \<noteq> None \<and> qi_idempotency_key r \<noteq> None \<and>
     qi_spool_path r = None \<and> qi_inspection_id r = None \<and> \<not> qi_retryable r \<and> qi_attempts r = 0"

definition item_ok :: "QueueItem \<Rightarrow> bool" where
  "item_ok r \<longleftrightarrow> waiting_ok r \<or> uploaded_ok r \<or> rejected_ok r \<or> duplicate_ok r"

lemmas item_defs = item_ok_def waiting_ok_def uploaded_ok_def rejected_ok_def duplicate_ok_def
  carries_upload_def live_def

lemma item_ok_status:
  "item_ok r \<Longrightarrow> qi_status r \<in> {''QUEUED'', ''UPLOADING'', ''FAILED'', ''UPLOADED'', ''REJECTED'', ''DUPLICATE''}"
  by (auto simp: item_defs)

lemma item_ok_live: "item_ok r \<Longrightarrow> live r \<Longrightarrow> waiting_ok r"
  by (auto simp: item_defs)

section \<open>How a row evolves\<close>

text \<open>A row without the columns that uploading writes.\<close>

definition identity :: "QueueItem \<Rightarrow> QueueItem" where
  "identity r = r\<lparr>qi_status := [], qi_attempts := 0, qi_last_attempt_at := None, qi_next_attempt_at := None,
     qi_last_error := None, qi_error_code := None, qi_inspection_id := None, qi_retryable := False,
     qi_updated_at := 0, qi_uploaded_at := None\<rparr>"

lemma identity_columns:
  assumes "identity r' = identity r"
  shows "qi_id r' = qi_id r"
    "qi_source_fingerprint r' = qi_source_fingerprint r"
    "qi_tenant_id r' = qi_tenant_id r"
    "qi_idempotency_key r' = qi_idempotency_key r"
    "qi_dedup_of_id r' = qi_dedup_of_id r"
    "qi_spool_path r' = qi_spool_path r"
    "qi_content_sha256 r' = qi_content_sha256 r"
    "qi_context r' = qi_context r"
    "qi_created_at r' = qi_created_at r"
    "qi_mime_type r' = qi_mime_type r"
    "qi_rejection_reason r' = qi_rejection_reason r"
    "qi_original_filename r' = qi_original_filename r"
  using arg_cong [OF assms, of qi_id]
    arg_cong [OF assms, of qi_source_fingerprint]
    arg_cong [OF assms, of qi_tenant_id]
    arg_cong [OF assms, of qi_idempotency_key]
    arg_cong [OF assms, of qi_dedup_of_id]
    arg_cong [OF assms, of qi_spool_path]
    arg_cong [OF assms, of qi_content_sha256]
    arg_cong [OF assms, of qi_context]
    arg_cong [OF assms, of qi_created_at]
    arg_cong [OF assms, of qi_mime_type]
    arg_cong [OF assms, of qi_rejection_reason]
    arg_cong [OF assms, of qi_original_filename]
  by (simp_all add: identity_def)

definition row_evolves :: "QueueItem \<Rightarrow> QueueItem \<Rightarrow> bool" where
  "row_evolves r r' \<longleftrightarrow> r' = r \<or>
     identity r' = identity r \<and> live r \<and> (live r' \<or> qi_status r' = ''UPLOADED'') \<and> qi_attempts r \<le> qi_attempts r'"

lemma row_evolves_refl [simp, intro]: "row_evolves r r"
  by (simp add: row_evolves_def)

lemma row_evolves_trans: "row_evolves a b \<Longrightarrow> row_evolves b c \<Longrightarrow> row_evolves a c"
  by (auto simp: row_evolves_def live_def)

lemma row_evolves_identity: "row_evolves r r' \<Longrightarrow> identity r' = identity r"
  by (auto simp: row_evolves_def)

lemmas row_evolves_columns = identity_columns [OF row_evolves_identity]

lemma row_evolves_duplicate: "row_evolves r r' \<Longrightarrow> qi_status r' = ''DUPLICATE'' \<longleftrightarrow> qi_status r = ''DUPLICATE''"
  by (auto simp: row_evolves_def live_def)

definition store_evolves :: "QueueStore \<Rightarrow> QueueStore \<Rightarrow> bool" where
  "store_evolves q q' \<longleftrightarrow> (\<exists>us ns. qs_rows q' = us @ ns \<and> list_all2 row_evolves (qs_rows q) us)"

lemma store_evolves_refl [simp, intro]: "store_evolves q q"
  unfolding store_evolves_def by (rule exI [of _ "qs_rows q"], rule exI [of _ "[]"]) (simp add: list.rel_refl)

lemma store_evolves_trans:
  assumes "store_evolves a b" "store_evolves b c" shows "store_evolves a c"
proof -
  obtain us ns where b: "qs_rows b = us @ ns" "list_all2 row_evolves (qs_rows a) us"
    using assms(1) by (auto simp: store_evolves_def)
  obtain vs ms where c: "qs_rows c = vs @ ms" "list_all2 row_evolves (us @ ns) vs"
    using assms(2) b(1) by (auto simp: store_evolves_def)
  then obtain v1 v2 where v: "vs = v1 @ v2" "list_all2 row_evolves us v1"
    by (auto simp: list_all2_append1)
  have "list_all2 row_evolves (qs_rows a) v1"
    using b(2) v(2) by (rule list_all2_trans [of row_evolves row_evolves row_evolves, rotated])
      (rule row_evolves_trans)
  then show ?thesis using c v unfolding store_evolves_def by auto
qed

lemma store_evolves_row:
  assumes "store_evolves q q'" "r \<in> set (qs_rows q)"
  shows "\<exists>r' \<in> set (qs_rows q'). row_evolves r r'"
  using assms by (fastforce simp: store_evolves_def in_set_conv_nth list_all2_conv_all_nth nth_append)

section \<open>Well-formed stores\<close>

definition ids_ok :: "QueueStore \<Rightarrow> bool" where
  "ids_ok q \<longleftrightarrow> sorted_wrt (<) (map qi_id (qs_rows q)) \<and>
     (\<forall>r \<in> set (qs_rows q). 1 \<le> qi_id r \<and> qi_id r \<le> qs_last_rowid q)"

lemma ids_ok_by_list:
  "ids_ok q \<longleftrightarrow> sorted_wrt (<) (map qi_id (qs_rows q)) \<and>
     list_all (\<lambda>i. 1 \<le> i \<and> i \<le> qs_last_rowid q) (map qi_id (qs_rows q))"
  by (simp add: ids_ok_def list_all_iff)

definition sources_ok :: "QueueStore \<Rightarrow> bool" where
  "sources_ok q \<longleftrightarrow> distinct (map qi_source_fingerprint (qs_rows q))"

text \<open>The rows that stand for an upload, and what they are uploaded as.\<close>

definition primaries :: "QueueStore \<Rightarrow> QueueItem list" where
  "primaries q = filter (\<lambda>r. qi_status r \<noteq> ''DUPLICATE'' \<and> qi_idempotency_key r \<noteq> None) (qs_rows q)"

definition keys_ok :: "QueueStore \<Rightarrow> bool" where
  "keys_ok q \<longleftrightarrow> distinct (map (\<lambda>r. (qi_tenant_id r, qi_idempotency_key r)) (primaries q))"

definition duplicate_of :: "QueueItem \<Rightarrow> QueueItem \<Rightarrow> bool" where
  "duplicate_of r p \<longleftrightarrow> qi_dedup_of_id r = Some (qi_id p) \<and> qi_id p < qi_id r \<and> qi_status p \<noteq> ''DUPLICATE'' \<and>
     qi_tenant_id p = qi_tenant_id r \<and> qi_idempotency_key p = qi_idempotency_key r"

definition duplicates_ok :: "QueueStore \<Rightarrow> bool" where
  "duplicates_ok q \<longleftrightarrow> (\<forall>r \<in> set (qs_rows q). qi_status r = ''DUPLICATE'' \<longrightarrow>
     (\<exists>p \<in> set (qs_rows q). duplicate_of r p))"

definition store_ok :: "QueueStore \<Rightarrow> bool" where
  "store_ok q \<longleftrightarrow> ids_ok q \<and> sources_ok q \<and> keys_ok q \<and> duplicates_ok q \<and> (\<forall>r \<in> set (qs_rows q). item_ok r)"

lemma empty_store_ok: "store_ok empty_store"
  by (simp add: store_ok_def ids_ok_def sources_ok_def keys_ok_def primaries_def duplicates_ok_def empty_store_def)

lemma store_ok_distinct_ids: "store_ok q \<Longrightarrow> distinct (map qi_id (qs_rows q))"
  by (simp add: store_ok_def ids_ok_def strict_sorted_iff)

lemma store_ok_item: "store_ok q \<Longrightarrow> r \<in> set (qs_rows q) \<Longrightarrow> item_ok r"
  by (simp add: store_ok_def)

text \<open>Rows are found by their id.\<close>

lemma find_by_key:
  assumes "distinct (map g rs)" "r \<in> set rs"
  shows "find (\<lambda>x. g x = g r) rs = Some r"
  using assms by (induction rs) (auto simp: image_iff)

lemma find_id: "store_ok q \<Longrightarrow> r \<in> set (qs_rows q) \<Longrightarrow> find (\<lambda>x. qi_id x = qi_id r) (qs_rows q) = Some r"
  by (rule find_by_key) (rule store_ok_distinct_ids)

lemma same_id: "store_ok q \<Longrightarrow> r \<in> set (qs_rows q) \<Longrightarrow> r' \<in> set (qs_rows q) \<Longrightarrow> qi_id r = qi_id r' \<Longrightarrow> r = r'"
  using store_ok_distinct_ids by (fastforce simp: distinct_map inj_on_def)

lemma find_source_None:
  "find_source fp q = None \<longleftrightarrow> fp \<notin> set (map qi_source_fingerprint (qs_rows q))"
  by (auto simp: find_source_def find_None_iff)

section \<open>Updates\<close>

lemma update_items_rows [simp]: "qs_rows (update_items P f q) = update_where P f (qs_rows q)"
  and update_items_rowid [simp]: "qs_last_rowid (update_items P f q) = qs_last_rowid q"
  by (simp_all add: update_items_def)

lemma map_update_where_on:
  assumes "\<And>r. r \<in> set rs \<Longrightarrow> P r \<Longrightarrow> g (f r) = g r"
  shows "map g (update_where P f rs) = map g rs"
  using assms by (induction rs) auto

lemma filter_update_where_on:
  assumes "\<And>r. r \<in> set rs \<Longrightarrow> P r \<Longrightarrow> Q (f r) \<longleftrightarrow> Q r"
  shows "filter Q (update_where P f rs) = update_where P f (filter Q rs)"
  using assms by (induction rs) auto

lemma update_evolves:
  assumes "\<And>r. r \<in> set (qs_rows q) \<Longrightarrow> P r \<Longrightarrow> row_evolves r (f r)"
  shows "store_evolves q (update_items P f q)"
proof -
  have "list_all2 row_evolves rs (update_where P f rs)" if "set rs \<subseteq> set (qs_rows q)" for rs
    using that assms by (induction rs) auto
  then have "list_all2 row_evolves (qs_rows q) (update_where P f (qs_rows q))" by blast
  then show ?thesis
    unfolding store_evolves_def update_items_rows by (metis append_Nil2)
qed

lemma update_keeps_ok:
  assumes "store_ok q"
    and step: "\<And>r. r \<in> set (qs_rows q) \<Longrightarrow> P r \<Longrightarrow> row_evolves r (f r) \<and> item_ok (f r)"
  shows "store_ok (update_items P f q)"
proof -
  let ?u = "\<lambda>r. if P r then f r else r"
  have ev: "row_evolves r (?u r)" if "r \<in> set (qs_rows q)" for r using step that by simp
  have col: "map g (qs_rows (update_items P f q)) = map g (qs_rows q)"
    if "\<And>r r'. row_evolves r r' \<Longrightarrow> g r' = g r" for g :: "QueueItem \<Rightarrow> 'x"
    unfolding update_items_rows by (rule map_update_where_on) (use step that in blast)
  have "ids_ok (update_items P f q)"
  proof -
    have "qs_last_rowid (update_items P f q) = qs_last_rowid q" by simp
    then show ?thesis
      using assms(1) by (simp add: store_ok_def ids_ok_by_list row_evolves_columns col del: update_items_rows)
  qed
  moreover have "sources_ok (update_items P f q)"
    using assms(1) by (simp add: store_ok_def sources_ok_def row_evolves_columns col del: update_items_rows)
  moreover have "keys_ok (update_items P f q)"
  proof -
    have "primaries (update_items P f q) = update_where P f (primaries q)"
      unfolding primaries_def update_items_rows
    proof (rule filter_update_where_on)
      fix r assume "r \<in> set (qs_rows q)" "P r"
      then have "row_evolves r (f r)" using step by blast
      then show "qi_status (f r) \<noteq> ''DUPLICATE'' \<and> qi_idempotency_key (f r) \<noteq> None \<longleftrightarrow>
          qi_status r \<noteq> ''DUPLICATE'' \<and> qi_idempotency_key r \<noteq> None"
        by (simp only: row_evolves_columns row_evolves_duplicate)
    qed
    moreover have "map (\<lambda>r. (qi_tenant_id r, qi_idempotency_key r)) (update_where P f (primaries q))
      = map (\<lambda>r. (qi_tenant_id r, qi_idempotency_key r)) (primaries q)"
    proof (rule map_update_where_on)
      fix r assume "r \<in> set (primaries q)" "P r"
      then have "row_evolves r (f r)" using step by (simp add: primaries_def)
      then show "(qi_tenant_id (f r), qi_idempotency_key (f r)) = (qi_tenant_id r, qi_idempotency_key r)"
        by (simp only: row_evolves_columns)
    qed
    ultimately show ?thesis using assms(1) by (simp add: store_ok_def keys_ok_def)
  qed
  moreover have "duplicates_ok (update_items P f q)"
    unfolding duplicates_ok_def
  proof (intro ballI impI)
    fix s assume s: "s \<in> set (qs_rows (update_items P f q))" "qi_status s = ''DUPLICATE''"
    then obtain r where r: "r \<in> set (qs_rows q)" "s = ?u r" by (auto simp: set_update_where)
    then have "qi_status r = ''DUPLICATE''" using ev [OF r(1)] s(2) by (simp only: row_evolves_duplicate)
    then obtain p where p: "p \<in> set (qs_rows q)" "duplicate_of r p"
      using assms(1) r(1) by (auto simp: store_ok_def duplicates_ok_def)
    have "duplicate_of s (?u p)"
      using p(2) row_evolves_columns [OF ev [OF r(1)]] row_evolves_columns [OF ev [OF p(1)]]
        row_evolves_duplicate [OF ev [OF p(1)]] r(2)
      by (simp only: duplicate_of_def) simp
    moreover have "?u p \<in> set (qs_rows (update_items P f q))" using p(1) by (auto simp: set_update_where)
    ultimately show "\<exists>p \<in> set (qs_rows (update_items P f q)). duplicate_of s p" by blast
  qed
  moreover have "item_ok r" if "r \<in> set (qs_rows (update_items P f q))" for r
    using that assms(1) step by (auto simp: set_update_where store_ok_def)
  ultimately show ?thesis by (simp add: store_ok_def)
qed

section \<open>Insertions\<close>

definition appended :: "QueueItem \<Rightarrow> QueueStore \<Rightarrow> QueueStore" where
  "appended n q = \<lparr>qs_rows = qs_rows q @ [n], qs_last_rowid = qi_id n\<rparr>"

lemma appended_evolves [simp, intro]: "store_evolves q (appended n q)"
  unfolding store_evolves_def appended_def
  by (rule exI [of _ "qs_rows q"], rule exI [of _ "[n]"]) (simp add: list.rel_refl)

lemma appended_ok:
  assumes "store_ok q" "item_ok n" "qi_id n = Suc (qs_last_rowid q)"
    and "qi_source_fingerprint n \<notin> set (map qi_source_fingerprint (qs_rows q))"
    and "qi_status n \<noteq> ''DUPLICATE'' \<Longrightarrow> qi_idempotency_key n \<noteq> None \<Longrightarrow>
      \<forall>r \<in> set (primaries q). (qi_tenant_id r, qi_idempotency_key r) \<noteq> (qi_tenant_id n, qi_idempotency_key n)"
    and "qi_status n = ''DUPLICATE'' \<Longrightarrow> \<exists>p \<in> set (qs_rows q). duplicate_of n p"
  shows "store_ok (appended n q)"
proof -
  have "ids_ok (appended n q)"
    using assms(1,3) by (fastforce simp: store_ok_def ids_ok_def appended_def sorted_wrt_append)
  moreover have "sources_ok (appended n q)"
    using assms(1,4) by (auto simp: store_ok_def sources_ok_def appended_def)
  moreover have "keys_ok (appended n q)"
  proof (cases "qi_status n \<noteq> ''DUPLICATE'' \<and> qi_idempotency_key n \<noteq> None")
    case True
    then have "primaries (appended n q) = primaries q @ [n]" by (simp add: primaries_def appended_def)
    with True assms(1,5) show ?thesis by (fastforce simp: store_ok_def keys_ok_def)
  next
    case False
    then have "primaries (appended n q) = primaries q" by (auto simp: primaries_def appended_def)
    with assms(1) show ?thesis by (simp add: store_ok_def keys_ok_def)
  qed
  moreover have "duplicates_ok (appended n q)"
    using assms(1,6) by (fastforce simp: store_ok_def duplicates_ok_def appended_def)
  ultimately show ?thesis
    using assms(1,2) by (auto simp: store_ok_def appended_def)
qed

lemma insert_item_appends:
  assumes "qi_source_fingerprint r \<notin> set (map qi_source_fingerprint (qs_rows q))"
    and "set_option (qi_dedup_of_id r) \<subseteq> set (map qi_id (qs_rows q))"
  shows "insert_item r q = (Inr (row_item (r\<lparr>qi_id := Suc (qs_last_rowid q)\<rparr>)),
    appended (r\<lparr>qi_id := Suc (qs_last_rowid q)\<rparr>) q)"
  using assms by (auto simp: insert_item_def appended_def Let_def split: option.splits)

text \<open>What \<open>enqueue\<close> does: an observed source keeps its row; a key that is already in the ledger gives a
  duplicate of the row that has it; anything else is queued. The unique index never fires.\<close>

lemma no_primary:
  assumes "sort_key qi_id (filter (is_primary t k) (qs_rows q)) = []"
  shows "\<forall>r \<in> set (primaries q). (qi_tenant_id r, qi_idempotency_key r) \<noteq> (t, Some k)"
proof -
  have "filter (is_primary t k) (qs_rows q) = []"
    using arg_cong [OF assms, of set] by simp
  then show ?thesis by (auto simp: primaries_def is_primary_def filter_empty_conv)
qed

lemma some_primary:
  assumes "sort_key qi_id (filter (is_primary t k) (qs_rows q)) = p # ps"
  shows "p \<in> set (qs_rows q)" "is_primary t k p"
  using arg_cong [OF assms, of set] by auto

lemma queued_row_columns [simp]:
  "qi_source_fingerprint (queued_row a now) = ea_source_fingerprint a"
  "qi_tenant_id (queued_row a now) = ea_tenant_id a"
  "qi_idempotency_key (queued_row a now) = Some (ea_idempotency_key a)"
  "qi_status (queued_row a now) = ''QUEUED''"
  "qi_dedup_of_id (queued_row a now) = None"
  "qi_spool_path (queued_row a now) = Some (ea_spool_path a)"
  "qi_content_sha256 (queued_row a now) = Some (ea_content_sha256 a)"
  by (simp_all add: queued_row_def duplicate_row_def rejected_row_def)

lemma duplicate_row_columns [simp]:
  "qi_source_fingerprint (duplicate_row a p now) = ea_source_fingerprint a"
  "qi_tenant_id (duplicate_row a p now) = ea_tenant_id a"
  "qi_idempotency_key (duplicate_row a p now) = Some (ea_idempotency_key a)"
  "qi_status (duplicate_row a p now) = ''DUPLICATE''"
  "qi_dedup_of_id (duplicate_row a p now) = Some p"
  "qi_spool_path (duplicate_row a p now) = None"
  by (simp_all add: queued_row_def duplicate_row_def rejected_row_def)

lemma rejected_row_columns [simp]:
  "qi_source_fingerprint (rejected_row a now) = ra_source_fingerprint a"
  "qi_tenant_id (rejected_row a now) = ra_tenant_id a"
  "qi_idempotency_key (rejected_row a now) = None"
  "qi_status (rejected_row a now) = ''REJECTED''"
  "qi_dedup_of_id (rejected_row a now) = None"
  "qi_spool_path (rejected_row a now) = None"
  by (simp_all add: queued_row_def duplicate_row_def rejected_row_def)

lemma queued_row_ok: "item_ok ((queued_row a now)\<lparr>qi_id := n\<rparr>)"
  by (simp add: item_defs queued_row_def)

lemma duplicate_row_ok: "item_ok ((duplicate_row a p now)\<lparr>qi_id := n\<rparr>)"
  by (simp add: item_defs duplicate_row_def queued_row_def)

lemma rejected_row_ok: "item_ok ((rejected_row a now)\<lparr>qi_id := n\<rparr>)"
  by (simp add: item_defs rejected_row_def)

lemma row_item_fingerprint [simp]: "qi_source_fingerprint (row_item r) = qi_source_fingerprint r"
  and row_item_id [simp]: "qi_id (row_item r) = qi_id r"
  and row_item_status [simp]: "qi_status (row_item r) = qi_status r"
  and row_item_attempts [simp]: "qi_attempts (row_item r) = qi_attempts r"
  by (simp_all add: row_item_def)

lemma find_source_Some:
  "find_source fp q = Some i \<Longrightarrow> \<exists>r \<in> set (qs_rows q). i = row_item r \<and> qi_source_fingerprint r = fp"
  by (auto simp: find_source_def dest: find_SomeD1 find_SomeD2)

text \<open>The result of an operation that puts a source on record.\<close>

definition records_source :: "string \<Rightarrow> QueueStore \<Rightarrow> (edge_exn + QueueItem) \<times> QueueStore \<Rightarrow> bool" where
  "records_source fp q result \<longleftrightarrow> (\<exists>r. fst result = Inr (row_item r) \<and> r \<in> set (qs_rows (snd result)) \<and>
     qi_source_fingerprint r = fp) \<and> store_ok (snd result) \<and> store_evolves q (snd result)"

lemma records_known:
  "store_ok q \<Longrightarrow> find_source fp q = Some i \<Longrightarrow> records_source fp q (Inr i, q)"
  using find_source_Some by (fastforce simp: records_source_def)

lemma records_appended:
  "store_ok (appended n q) \<Longrightarrow> qi_source_fingerprint n = fp \<Longrightarrow>
     records_source fp q (Inr (row_item n), appended n q)"
  by (auto simp: records_source_def appended_def) (use appended_evolves in \<open>simp add: appended_def\<close>)

lemma enqueue_records:
  assumes "store_ok q"
  shows "records_source (ea_source_fingerprint a) q (enqueue a now q)"
proof (cases "find_source (ea_source_fingerprint a) q")
  case (Some i)
  then show ?thesis using assms by (simp add: enqueue_def records_known)
next
  case None
  then have fresh: "ea_source_fingerprint a \<notin> set (map qi_source_fingerprint (qs_rows q))"
    by (rule find_source_None [THEN iffD1])
  show ?thesis
  proof (cases "sort_key qi_id (filter (is_primary (ea_tenant_id a) (ea_idempotency_key a)) (qs_rows q))")
    case Nil
    let ?n = "(queued_row a now)\<lparr>qi_id := Suc (qs_last_rowid q)\<rparr>"
    have "store_ok (appended ?n q)"
      by (rule appended_ok [OF assms queued_row_ok]) (use fresh no_primary [OF Nil] in simp_all)
    moreover have "enqueue a now q = (Inr (row_item ?n), appended ?n q)"
      using None Nil fresh by (simp add: enqueue_def insert_item_appends)
    ultimately show ?thesis by (simp add: records_appended)
  next
    case (Cons p ps)
    note p = some_primary [OF Cons]
    let ?n = "(duplicate_row a (qi_id p) now)\<lparr>qi_id := Suc (qs_last_rowid q)\<rparr>"
    have "qi_id p < Suc (qs_last_rowid q)" using assms p(1) by (auto simp: store_ok_def ids_ok_def)
    then have dup: "duplicate_of ?n p" using p(2) by (simp add: duplicate_of_def is_primary_def)
    have "store_ok (appended ?n q)"
      by (rule appended_ok [OF assms duplicate_row_ok]) (use fresh dup p(1) in auto)
    moreover have "enqueue a now q = (Inr (row_item ?n), appended ?n q)"
      using None Cons fresh p(1) by (simp add: enqueue_def insert_item_appends)
    ultimately show ?thesis by (simp add: records_appended)
  qed
qed

lemma record_rejection_records:
  assumes "store_ok q"
  shows "records_source (ra_source_fingerprint a) q (record_rejection a now q)"
proof (cases "find_source (ra_source_fingerprint a) q")
  case (Some i)
  then show ?thesis using assms by (simp add: record_rejection_def records_known)
next
  case None
  then have fresh: "ra_source_fingerprint a \<notin> set (map qi_source_fingerprint (qs_rows q))"
    by (rule find_source_None [THEN iffD1])
  let ?n = "(rejected_row a now)\<lparr>qi_id := Suc (qs_last_rowid q)\<rparr>"
  have "store_ok (appended ?n q)"
    by (rule appended_ok [OF assms rejected_row_ok]) (use fresh in simp_all)
  moreover have "record_rejection a now q = (Inr (row_item ?n), appended ?n q)"
    using None fresh by (simp add: record_rejection_def insert_item_appends)
  ultimately show ?thesis by (simp add: records_appended)
qed

section \<open>Claims and updates\<close>

text \<open>\<open>ORDER BY f, g LIMIT 1\<close>.\<close>

lemma sort_by_two:
  fixes f :: "'r \<Rightarrow> 'a :: linorder" and g :: "'r \<Rightarrow> 'b :: linorder"
  assumes "sort_key f (sort_key g rs) = x # xs" "y \<in> set rs"
  shows "x \<in> set rs" "f x < f y \<or> f x = f y \<and> g x \<le> g y"
proof -
  have sets: "set (x # xs) = set rs" using arg_cong [OF assms(1), of set] by simp
  then show "x \<in> set rs" by auto
  have "sorted (map f (x # xs))" using sorted_sort_key [of f "sort_key g rs"] by (simp add: assms(1))
  moreover have "y \<in> set (x # xs)" using assms(2) sets by simp
  ultimately have le: "f x \<le> f y" by auto
  have "g x \<le> g y" if "f x = f y"
  proof -
    let ?same = "\<lambda>r. f r = f x"
    have "filter ?same (sort_key g rs) = x # filter ?same xs"
      using sort_key_stable [of f "f x" "sort_key g rs"] by (simp add: assms(1))
    moreover have "sorted (map g (filter ?same (sort_key g rs)))" by (rule sorted_filter) (rule sorted_sort_key)
    moreover have "y \<in> set (filter ?same (sort_key g rs))" using that assms(2) by simp
    ultimately show ?thesis by auto
  qed
  with le show "f x < f y \<or> f x = f y \<and> g x \<le> g y" by auto
qed

lemma queue_get_updated:
  assumes "store_ok q" "r \<in> set (qs_rows q)" "P r" "\<And>x. qi_id (f x) = qi_id x"
    and "\<And>x. P x \<Longrightarrow> qi_id x = qi_id r"
  shows "queue_get (qi_id r) (update_items P f q) = Some (row_item (f r))"
proof -
  have ids: "map qi_id (update_where P f (qs_rows q)) = map qi_id (qs_rows q)"
    by (rule map_update_where_on) (rule assms(4))
  have "f r \<in> set (update_where P f (qs_rows q))" using assms(2,3) by (force simp: set_update_where)
  with ids store_ok_distinct_ids [OF assms(1)] have "find (\<lambda>x. qi_id x = qi_id (f r)) (update_where P f (qs_rows q)) = Some (f r)"
    by (intro find_by_key) simp_all
  then show ?thesis by (simp add: queue_get_def assms(4))
qed

definition oldest_due :: "int \<Rightarrow> QueueStore \<Rightarrow> QueueItem \<Rightarrow> bool" where
  "oldest_due current q row \<longleftrightarrow> row \<in> set (qs_rows q) \<and> is_due current row \<and>
     (\<forall>r \<in> set (qs_rows q). is_due current r \<longrightarrow> qi_created_at row < qi_created_at r \<or>
        qi_created_at row = qi_created_at r \<and> qi_id row \<le> qi_id r)"

lemma claim_due_none:
  "(\<forall>r \<in> set (qs_rows q). \<not> is_due current r) \<Longrightarrow> claim_due current updated q = (None, q)"
  by (simp add: claim_due_def filter_False)

lemma claim_due_some:
  assumes "store_ok q" "r \<in> set (qs_rows q)" "is_due current r"
  shows "\<exists>row. oldest_due current q row \<and> claim_due current updated q =
    (Some (row_item (claimed updated row)), update_items (\<lambda>r. qi_id r = qi_id row) (claimed updated) q)"
proof -
  let ?due = "filter (is_due current) (qs_rows q)"
  have r: "r \<in> set ?due" using assms(2,3) by simp
  then obtain row rest where s: "sort_key qi_created_at (sort_key qi_id ?due) = row # rest"
    by (metis empty_iff list.exhaust list.set(1) set_sort)
  have "oldest_due current q row"
    using sort_by_two [OF s] r unfolding oldest_due_def by auto
  moreover have "queue_get (qi_id row) (update_items (\<lambda>r. qi_id r = qi_id row) (claimed updated) q)
      = Some (row_item (claimed updated row))"
    using calculation by (intro queue_get_updated) (simp_all add: assms(1) oldest_due_def claimed_def)
  ultimately show ?thesis using s by (auto simp: claim_due_def Let_def)
qed

lemma due_live: "is_due current r \<Longrightarrow> live r"
  by (auto simp: is_due_def live_def)

lemma claimed_evolves: "is_due current r \<Longrightarrow> row_evolves r (claimed u r)"
  by (auto simp: row_evolves_def identity_def claimed_def live_def is_due_def)

lemma claimed_ok: "is_due current r \<Longrightarrow> item_ok r \<Longrightarrow> item_ok (claimed u r)"
  by (auto simp: item_defs claimed_def is_due_def)

lemma uploaded_evolves: "live r \<Longrightarrow> row_evolves r (uploaded i now r)"
  by (auto simp: row_evolves_def identity_def uploaded_def live_def)

lemma uploaded_keeps_ok: "qi_status r = ''UPLOADING'' \<Longrightarrow> item_ok r \<Longrightarrow> item_ok (uploaded i now r)"
  by (auto simp: item_defs uploaded_def)

lemma failed_evolves: "live r \<Longrightarrow> row_evolves r (failed c e retry d now r)"
  by (auto simp: row_evolves_def identity_def failed_def live_def)

lemma failed_ok: "qi_status r = ''UPLOADING'' \<Longrightarrow> item_ok r \<Longrightarrow> item_ok (failed c e retry d now r)"
  by (auto simp: item_defs failed_def)

lemma interrupted_evolves: "qi_status r = ''UPLOADING'' \<Longrightarrow> row_evolves r (interrupted now r)"
  by (auto simp: row_evolves_def identity_def interrupted_def live_def)

lemma interrupted_ok: "qi_status r = ''UPLOADING'' \<Longrightarrow> item_ok r \<Longrightarrow> item_ok (interrupted now r)"
  by (auto simp: item_defs interrupted_def)

lemma rearmed_evolves: "qi_status r = ''FAILED'' \<Longrightarrow> row_evolves r (rearmed now r)"
  by (auto simp: row_evolves_def identity_def rearmed_def live_def)

lemma rearmed_ok: "qi_status r = ''FAILED'' \<Longrightarrow> item_ok r \<Longrightarrow> item_ok (rearmed now r)"
  by (auto simp: item_defs rearmed_def)

lemmas step_rows = claimed_evolves claimed_ok uploaded_evolves uploaded_keeps_ok failed_evolves failed_ok
  interrupted_evolves interrupted_ok rearmed_evolves rearmed_ok

text \<open>An operation keeps the ledger: well-formed stores stay so and every row evolves.\<close>

definition keeps_ledger :: "QueueStore \<Rightarrow> QueueStore \<Rightarrow> bool" where
  "keeps_ledger q q' \<longleftrightarrow> (store_ok q \<longrightarrow> store_ok q') \<and> store_evolves q q'"

lemma keeps_ledger_refl [simp, intro]: "keeps_ledger q q"
  by (simp add: keeps_ledger_def)

lemma keeps_ledger_trans: "keeps_ledger a b \<Longrightarrow> keeps_ledger b c \<Longrightarrow> keeps_ledger a c"
  by (auto simp: keeps_ledger_def intro: store_evolves_trans)

lemma keeps_ledger_update:
  assumes "store_ok q" "\<And>r. r \<in> set (qs_rows q) \<Longrightarrow> P r \<Longrightarrow> row_evolves r (f r) \<and> (item_ok r \<longrightarrow> item_ok (f r))"
  shows "keeps_ledger q (update_items P f q)"
proof -
  have "row_evolves r (f r) \<and> item_ok (f r)" if "r \<in> set (qs_rows q)" "P r" for r
    using assms(2) [OF that] store_ok_item [OF assms(1) that(1)] by simp
  then show ?thesis
    using update_keeps_ok [OF assms(1), of P f] update_evolves [of q P f] by (simp add: keeps_ledger_def)
qed

lemma claim_due_keeps: "store_ok q \<Longrightarrow> keeps_ledger q (snd (claim_due current updated q))"
proof (cases "\<exists>r \<in> set (qs_rows q). is_due current r")
  case True
  assume ok: "store_ok q"
  with True obtain row where row: "oldest_due current q row" "claim_due current updated q =
      (Some (row_item (claimed updated row)), update_items (\<lambda>r. qi_id r = qi_id row) (claimed updated) q)"
    using claim_due_some [OF ok] by blast
  have "keeps_ledger q (update_items (\<lambda>r. qi_id r = qi_id row) (claimed updated) q)"
    by (rule keeps_ledger_update [OF ok])
      (metis row(1) oldest_due_def same_id [OF ok] claimed_evolves claimed_ok)
  then show ?thesis by (simp add: row(2))
next
  case False
  then show ?thesis by (simp add: claim_due_none)
qed

lemma recover_keeps: "store_ok q \<Longrightarrow> keeps_ledger q (snd (recover_inflight now q))"
  unfolding recover_inflight_def snd_conv
  by (erule keeps_ledger_update) (simp add: interrupted_evolves interrupted_ok)

lemma retry_keeps: "store_ok q \<Longrightarrow> keeps_ledger q (snd (queue_retry i now q))"
  unfolding queue_retry_def Let_def snd_conv
  by (erule keeps_ledger_update) (simp add: rearmed_evolves rearmed_ok)

definition uploading :: "nat \<Rightarrow> QueueStore \<Rightarrow> bool" where
  "uploading i q \<longleftrightarrow> (\<exists>r \<in> set (qs_rows q). qi_id r = i \<and> qi_status r = ''UPLOADING'')"

lemma uploading_row:
  assumes "store_ok q" "uploading i q" "r \<in> set (qs_rows q)" "qi_id r = i"
  shows "qi_status r = ''UPLOADING''" "live r"
  using assms same_id [OF assms(1)] by (auto simp: uploading_def live_def)

lemma mark_uploaded_keeps:
  "store_ok q \<Longrightarrow> uploading i q \<Longrightarrow> keeps_ledger q (snd (mark_uploaded i insp now q))"
  unfolding mark_uploaded_def Let_def snd_conv
  by (rule keeps_ledger_update, assumption) (metis uploading_row uploaded_evolves uploaded_keeps_ok)

lemma mark_failed_keeps:
  "store_ok q \<Longrightarrow> uploading i q \<Longrightarrow> keeps_ledger q (snd (mark_failed i c e retry d now q))"
  unfolding mark_failed_def Let_def snd_conv
  by (rule keeps_ledger_update, assumption) (metis uploading_row failed_evolves failed_ok)

lemma records_keeps: "store_ok q \<Longrightarrow> records_source fp q res \<Longrightarrow> keeps_ledger q (snd res)"
  by (simp add: records_source_def keeps_ledger_def)

end
