(* ===== verification/EdgeRuntime.thy ===== *)
theory EdgeRuntime
  imports EdgeUploader EdgeQuality EdgeLedger
begin

text \<open>
  \<^verbatim>\<open>edge_gateway/runtime.py\<close>: the directory watcher, the ingestion of a stable file, the upload of
  the oldest due item, the heartbeat and the cycle that runs them.

  What the file system answers while a file is handled is an input (\<open>file_reads\<close>, \<open>spool_read\<close>), as
  are the wall clock (microseconds) and the monotonic clock (seconds) of an operation. The spool
  directory, which only the gateway writes, is part of the state.
\<close>

section \<open>The directory watcher\<close>

record Observation =
  ob_size :: nat
  ob_mtime_ns :: nat
  ob_first_seen :: rat
  ob_emitted :: "string option"

text \<open>A path below the watch root as \<open>rglob\<close> lists it: its parts (the last is the name), whether it is
  a file, its resolved path, and what \<open>stat\<close> answers (\<open>None\<close> is an OSError).\<close>

record watched_file =
  fe_parts :: "string list"
  fe_is_file :: bool
  fe_resolved :: string
  fe_stat :: "(nat \<times> nat) option"

record GatewayConfig =
  gc_settings :: GatewaySettings
  gc_pack :: GatewayDeploymentPack
  gc_root :: string
  gc_spool_dir :: string

definition the_watch :: "GatewayConfig \<Rightarrow> WatchDefinition" where
  "the_watch cfg = ge_watch (dp_edge_gateway (gc_pack cfg))"

definition stable_for :: "GatewayConfig \<Rightarrow> rat" where
  "stable_for cfg = (case gs_stable_for (gc_settings cfg) of
     Some x \<Rightarrow> x | None \<Rightarrow> wd_stable_for_seconds (the_watch cfg))"

definition entry_name :: "watched_file \<Rightarrow> string" where
  "entry_name e = (if fe_parts e = [] then [] else last (fe_parts e))"

definition entry_path :: "GatewayConfig \<Rightarrow> watched_file \<Rightarrow> string" where
  "entry_path cfg e = join_with ''/'' (gc_root cfg # fe_parts e)"

definition iter_files :: "GatewayConfig \<Rightarrow> watched_file list \<Rightarrow> watched_file list" where
  "iter_files cfg listing = sort_key fe_parts (filter (\<lambda>e.
     fe_is_file e \<and> lower (path_suffix (entry_name e)) \<in> set (normalized_extensions (the_watch cfg)) \<and>
     set (fe_parts e) \<inter> {wd_archive_subdir (the_watch cfg), wd_quarantine_subdir (the_watch cfg)} = {}) listing)"

definition stat_fingerprint :: "nat \<times> nat \<Rightarrow> string" where
  "stat_fingerprint st = show_nat (fst st) @ '':'' @ show_nat (snd st)"

definition fresh_observation :: "nat \<times> nat \<Rightarrow> rat \<Rightarrow> Observation" where
  "fresh_observation st now =
     \<lparr>ob_size = fst st, ob_mtime_ns = snd st, ob_first_seen = now, ob_emitted = None\<rparr>"

text \<open>One round of the loop of \<open>stable_files\<close>: the observations, and whether the file is emitted.\<close>

definition observe :: "rat \<Rightarrow> rat \<Rightarrow> watched_file \<Rightarrow> (string \<times> Observation) list \<Rightarrow>
    (string \<times> Observation) list \<times> bool" where
  "observe window now e obs = (case fe_stat e of
     None \<Rightarrow> (obs, False)
   | Some st \<Rightarrow>
      (case map_of obs (fe_resolved e) of
         None \<Rightarrow> (AList.update (fe_resolved e) (fresh_observation st now) obs, False)
       | Some ob \<Rightarrow>
           if ob_size ob \<noteq> fst st \<or> ob_mtime_ns ob \<noteq> snd st
           then (AList.update (fe_resolved e) (fresh_observation st now) obs, False)
           else if now - ob_first_seen ob < window then (obs, False)
           else if ob_emitted ob = Some (stat_fingerprint st) then (obs, False)
           else (AList.update (fe_resolved e) (ob\<lparr>ob_emitted := Some (stat_fingerprint st)\<rparr>) obs, True)))"

fun observe_all :: "rat \<Rightarrow> rat \<Rightarrow> watched_file list \<Rightarrow> (string \<times> Observation) list \<Rightarrow>
    (string \<times> Observation) list \<times> watched_file list" where
  "observe_all window now [] obs = (obs, [])"
| "observe_all window now (e # es) obs =
     (let (obs1, emitted) = observe window now e obs;
          (obs2, rest) = observe_all window now es obs1
      in (obs2, if emitted then e # rest else rest))"

definition stable_files :: "GatewayConfig \<Rightarrow> rat \<Rightarrow> watched_file list \<Rightarrow> (string \<times> Observation) list \<Rightarrow>
    (string \<times> Observation) list \<times> watched_file list" where
  "stable_files cfg now listing obs =
     (let files = iter_files cfg listing;
          (obs', found) = observe_all (stable_for cfg) now files obs
      in (filter (\<lambda>(k, _). k \<in> set (map fe_resolved files)) obs', found))"

definition reset_observation :: "watched_file \<Rightarrow> (string \<times> Observation) list \<Rightarrow> (string \<times> Observation) list" where
  "reset_observation e obs = (case map_of obs (fe_resolved e) of
     None \<Rightarrow> obs
   | Some ob \<Rightarrow> AList.update (fe_resolved e) (ob\<lparr>ob_emitted := None\<rparr>) obs)"

section \<open>The state of the gateway\<close>

record last_error =
  le_code :: string
  le_message :: string
  le_status :: string
  le_queue_id :: "nat option"
  le_metrics :: "(string \<times> json) list"
  le_at :: int

record gateway =
  gw_queue :: QueueStore
  gw_observations :: "(string \<times> Observation) list"
  gw_spool :: "(string \<times> string) list"
  gw_moves :: "(string \<times> string) list"
  gw_heartbeat_monotonic :: rat
  gw_heartbeat_at :: "int option"
  gw_backend_reachable :: bool
  gw_last_success_at :: "int option"
  gw_last_failure_at :: "int option"
  gw_last_error :: "last_error option"

text \<open>\<open>GatewayRuntime.__init__\<close> on the ledger and the spool directory found on disk.\<close>

definition gateway_start :: "GatewayConfig \<Rightarrow> QueueStore \<Rightarrow> (string \<times> string) list \<Rightarrow> int \<Rightarrow> edge_exn + gateway" where
  "gateway_start cfg q spool now =
     andThen (GatewayTokenProvider_init (gc_settings cfg) (gc_pack cfg)) (\<lambda>_. Inr
       \<lparr>gw_queue = snd (recover_inflight now q), gw_observations = [], gw_spool = spool, gw_moves = [],
        gw_heartbeat_monotonic = 0, gw_heartbeat_at = None, gw_backend_reachable = False,
        gw_last_success_at = None, gw_last_failure_at = None, gw_last_error = None\<rparr>)"

definition gateway_name :: "GatewayConfig \<Rightarrow> string" where
  "gateway_name cfg = (if gs_gateway_id (gc_settings cfg) = ''gateway-local''
     then pack_gateway_id (gc_pack cfg) else gs_gateway_id (gc_settings cfg))"

definition set_error :: "string \<Rightarrow> string \<Rightarrow> string \<Rightarrow> int \<Rightarrow> gateway \<Rightarrow> gateway" where
  "set_error code message status now g = g\<lparr>
     gw_last_error := Some \<lparr>le_code = code, le_message = message, le_status = status,
       le_queue_id = None, le_metrics = [], le_at = now\<rparr>,
     gw_last_failure_at := Some now\<rparr>"

section \<open>Ingesting a file\<close>

text \<open>What the file system answers while one file is handled, in the order of the calls: \<open>Inl\<close> is an
  OSError with its text. \<open>rd_spool\<close> is any failure in the spool directory, \<open>rd_moved\<close> whether the
  file could be moved away.\<close>

record file_reads =
  rd_before :: "string + nat \<times> nat"
  rd_data :: "string + string"
  rd_after :: "string + nat \<times> nat"
  rd_stat :: "string + nat \<times> nat"
  rd_spool :: "string + unit"
  rd_stat_again :: "string + nat \<times> nat"
  rd_exists :: bool
  rd_moved :: bool

definition os_call :: "string + 'a \<Rightarrow> edge_exn + 'a" where
  "os_call r = (case r of Inl m \<Rightarrow> Inl (LocalError m) | Inr x \<Rightarrow> Inr x)"

definition source_fingerprint :: "edge_env \<Rightarrow> watched_file \<Rightarrow> nat \<times> nat \<Rightarrow> string" where
  "source_fingerprint env e st =
     sha256_bytes env (fe_resolved e @ ''|'' @ show_nat (fst st) @ ''|'' @ show_nat (snd st))"

definition required_context :: "string list" where
  "required_context = [''product_code'', ''batch_no'', ''station_code'', ''captured_at'']"

definition lookup :: "(string \<times> string) list \<Rightarrow> string \<Rightarrow> string" where
  "lookup values k = or_else (map_of values k) []"

definition captured_values :: "WatchDefinition \<Rightarrow> (string \<times> string option) list \<Rightarrow> (string \<times> string) list" where
  "captured_values watch groups = fold (\<lambda>(canonical, group_name) values.
     case map_of groups group_name of
       Some (Some c) \<Rightarrow> if c \<noteq> [] then AList.update canonical c values else values
     | _ \<Rightarrow> values) (wd_capture_map watch) (wd_defaults watch)"

definition parse_file :: "edge_env \<Rightarrow> GatewayConfig \<Rightarrow> watched_file \<Rightarrow> edge_exn + (string \<times> string) list" where
  "parse_file env cfg e =
     (let watch = the_watch cfg; parent = join_with ''/'' (butlast (fe_parts e)) in
      case (re_fullmatch env (wd_relative_path_regex watch) parent,
            re_fullmatch env (wd_filename_regex watch) (entry_name e)) of
        (Some path_groups, Some name_groups) \<Rightarrow>
          let values = captured_values watch (dict_update path_groups name_groups);
              missing = filter (\<lambda>k. lookup values k = []) required_context in
          if missing \<noteq> []
          then Inl (QualityReject ''CONTEXT_INCOMPLETE'' ''required context is missing''
            [(''missing_fields'', JList (map JStr missing))])
          else (case gateway_resolve_product (gc_pack cfg) (lookup values ''product_code'') of
            None \<Rightarrow> Inl (QualityReject ''PRODUCT_NOT_IN_PACK'' ''product not in the Deployment Pack''
              [(''product_code'', JStr (lookup values ''product_code''))])
          | Some product \<Rightarrow>
             (case gateway_resolve_station (gc_pack cfg) (lookup values ''station_code'') of
                None \<Rightarrow> Inl (QualityReject ''STATION_NOT_IN_PACK'' ''station not in the Deployment Pack''
                  [(''station_code'', JStr (lookup values ''station_code''))])
              | Some station \<Rightarrow>
                  andThen (normalize_captured_at env (lookup values ''captured_at'') watch) (\<lambda>captured_at.
                  let v1 = AList.update ''product_code'' (gp_code product) values;
                      v2 = AList.update ''station_code'' (gst_code station) v1;
                      v3 = AList.update ''captured_at'' captured_at v2;
                      v4 = (case map_of v3 ''product_revision'' of
                              None \<Rightarrow> AList.update ''product_revision'' (gp_revision product) v3
                            | Some _ \<Rightarrow> v3)
                  in Inr (AList.update ''source'' (or_else (map_of v4 ''source'') (wd_source watch)) v4))))
      | _ \<Rightarrow> Inl (QualityReject ''FILENAME_OR_PATH_UNRECOGNIZED'' ''path or name not recognized''
               [(''relative_parent'', JStr parent), (''filename'', JStr (entry_name e))]))"

text \<open>The part of the body of the loop before anything is written: \<open>Inr None\<close> is the \<open>continue\<close> for
  a source already on record.\<close>

record prepared =
  pr_fingerprint :: string
  pr_assessment :: QualityAssessment
  pr_context :: "(string \<times> string) list"
  pr_key :: string

definition prepare_file :: "edge_env \<Rightarrow> GatewayConfig \<Rightarrow> watched_file \<Rightarrow> file_reads \<Rightarrow> QueueStore \<Rightarrow>
    edge_exn + prepared option" where
  "prepare_file env cfg e rd q =
     andThen (os_call (rd_before rd)) (\<lambda>before.
     andThen (os_call (rd_data rd)) (\<lambda>data.
     andThen (os_call (rd_after rd)) (\<lambda>after.
     if before \<noteq> after
     then Inl (QualityReject ''FILE_STILL_WRITING'' ''the file changed while it was read'' [])
     else andThen (os_call (rd_stat rd)) (\<lambda>st.
       let fp = source_fingerprint env e st in
       if find_source fp q \<noteq> None then Inr None
       else andThen (assess_image env data (entry_name e) (gc_settings cfg)) (\<lambda>assessment.
         andThen (parse_file env cfg e) (\<lambda>context. Inr (Some
           \<lparr>pr_fingerprint = fp, pr_assessment = assessment, pr_context = context,
            pr_key = deterministic_idempotency_key env (pack_tenant_id (gc_pack cfg))
              (dp_pack_key (gc_pack cfg)) (dp_version (gc_pack cfg)) (qa_sha256 assessment) context\<rparr>)))))))"

definition spool_file :: "GatewayConfig \<Rightarrow> QualityAssessment \<Rightarrow> string" where
  "spool_file cfg a = gc_spool_dir cfg @ ''/'' @ qa_sha256 a @ ''.'' @ qa_extension a"

text \<open>\<open>_atomic_spool\<close>: the file appears under its final name with all its bytes or not at all.\<close>

definition atomic_spool :: "GatewayConfig \<Rightarrow> QualityAssessment \<Rightarrow> string + unit \<Rightarrow> gateway \<Rightarrow>
    (edge_exn + string) \<times> gateway" where
  "atomic_spool cfg a answer g = (case answer of
     Inl m \<Rightarrow> (Inl (LocalError m), g)
   | Inr _ \<Rightarrow>
      (case map_of (gw_spool g) (spool_file cfg a) of
         Some old \<Rightarrow> (if old \<noteq> qa_data a then Inl (LocalError ''spool hash collision detected'')
                      else Inr (spool_file cfg a), g)
       | None \<Rightarrow> (Inr (spool_file cfg a), g\<lparr>gw_spool := (spool_file cfg a, qa_data a) # gw_spool g\<rparr>)))"

text \<open>\<open>_archive_source\<close>: a move that fails is only logged.\<close>

definition archive_source :: "GatewayConfig \<Rightarrow> watched_file \<Rightarrow> string \<Rightarrow> bool \<Rightarrow> gateway \<Rightarrow> gateway" where
  "archive_source cfg e subdir moved g =
     (if moved then g\<lparr>gw_moves := gw_moves g @
        [(entry_path cfg e, join_with ''/'' (gc_root cfg # subdir # fe_parts e))]\<rparr> else g)"

definition enqueue_args :: "GatewayConfig \<Rightarrow> watched_file \<Rightarrow> prepared \<Rightarrow> string \<Rightarrow> EnqueueArgs" where
  "enqueue_args cfg e p spool =
     \<lparr>ea_gateway_id = gateway_name cfg, ea_tenant_id = pack_tenant_id (gc_pack cfg),
      ea_pack_key = dp_pack_key (gc_pack cfg), ea_pack_version = dp_version (gc_pack cfg),
      ea_source_path = entry_path cfg e, ea_source_fingerprint = pr_fingerprint p,
      ea_spool_path = spool, ea_original_filename = entry_name e,
      ea_content_sha256 = qa_sha256 (pr_assessment p), ea_mime_type = qa_mime_type (pr_assessment p),
      ea_width = qa_width (pr_assessment p), ea_height = qa_height (pr_assessment p),
      ea_context = pr_context p, ea_idempotency_key = pr_key p\<rparr>"

definition ingest_file :: "edge_env \<Rightarrow> GatewayConfig \<Rightarrow> int \<Rightarrow> watched_file \<Rightarrow> file_reads \<Rightarrow> gateway \<Rightarrow>
    (edge_exn + QueueItem option) \<times> gateway" where
  "ingest_file env cfg now e rd g = (case prepare_file env cfg e rd (gw_queue g) of
     Inl x \<Rightarrow> (Inl x, g)
   | Inr None \<Rightarrow> (Inr None, g)
   | Inr (Some p) \<Rightarrow>
      (case atomic_spool cfg (pr_assessment p) (rd_spool rd) g of
         (Inl x, g1) \<Rightarrow> (Inl x, g1)
       | (Inr spool, g1) \<Rightarrow>
          (case enqueue (enqueue_args cfg e p spool) now (gw_queue g1) of
             (Inl x, q) \<Rightarrow> (Inl x, g1\<lparr>gw_queue := q\<rparr>)
           | (Inr item, q) \<Rightarrow> (Inr (Some item),
               archive_source cfg e (wd_archive_subdir (the_watch cfg)) (rd_moved rd) (g1\<lparr>gw_queue := q\<rparr>)))))"

definition rejection_args :: "GatewayConfig \<Rightarrow> watched_file \<Rightarrow> string \<Rightarrow> string \<Rightarrow> string \<Rightarrow> RejectionArgs" where
  "rejection_args cfg e fp code reason =
     \<lparr>ra_gateway_id = gateway_name cfg, ra_tenant_id = pack_tenant_id (gc_pack cfg),
      ra_pack_key = dp_pack_key (gc_pack cfg), ra_pack_version = dp_version (gc_pack cfg),
      ra_source_path = entry_path cfg e, ra_source_fingerprint = fp,
      ra_original_filename = entry_name e, ra_error_code = code, ra_rejection_reason = reason,
      ra_context = [], ra_content_sha256 = None\<rparr>"

definition rejection_fingerprint :: "edge_env \<Rightarrow> GatewayConfig \<Rightarrow> watched_file \<Rightarrow> file_reads \<Rightarrow> string" where
  "rejection_fingerprint env cfg e rd = (case rd_stat_again rd of
     Inr st \<Rightarrow> source_fingerprint env e st | Inl _ \<Rightarrow> sha256_bytes env (entry_path cfg e))"

text \<open>The \<open>except QualityReject\<close> clause.\<close>

definition handle_reject :: "edge_env \<Rightarrow> GatewayConfig \<Rightarrow> int \<Rightarrow> watched_file \<Rightarrow> file_reads \<Rightarrow>
    string \<Rightarrow> string \<Rightarrow> (string \<times> json) list \<Rightarrow> gateway \<Rightarrow> (edge_exn + QueueItem option) \<times> gateway" where
  "handle_reject env cfg now e rd code reason metrics g =
     (if code = ''FILE_STILL_WRITING''
      then (Inr None, set_error code reason ''RETRYING'' now
        (g\<lparr>gw_observations := reset_observation e (gw_observations g)\<rparr>))
      else (case record_rejection (rejection_args cfg e (rejection_fingerprint env cfg e rd) code reason)
              now (gw_queue g) of
          (Inl x, q) \<Rightarrow> (Inl x, g\<lparr>gw_queue := q\<rparr>)
        | (Inr item, q) \<Rightarrow>
            let g1 = g\<lparr>gw_queue := q,
                  gw_last_error := Some \<lparr>le_code = code, le_message = reason, le_status = ''REJECTED'',
                    le_queue_id = Some (qi_id item), le_metrics = metrics, le_at = now\<rparr>,
                  gw_last_failure_at := Some now\<rparr>
            in (Inr None, archive_source cfg e (wd_quarantine_subdir (the_watch cfg))
                  (rd_exists rd \<and> rd_moved rd) g1)))"

text \<open>The body of the loop for one file, taken as one step of the gateway.\<close>

definition scan_file :: "edge_env \<Rightarrow> GatewayConfig \<Rightarrow> int \<Rightarrow> watched_file \<Rightarrow> file_reads \<Rightarrow> gateway \<Rightarrow>
    (edge_exn + QueueItem option) \<times> gateway" where
  "scan_file env cfg now e rd g = (case ingest_file env cfg now e rd g of
     (Inl (QualityReject code reason metrics), g1) \<Rightarrow> handle_reject env cfg now e rd code reason metrics g1
   | (Inl (LocalError m), g1) \<Rightarrow> (Inr None, set_error ''LOCAL_INGEST_ERROR'' m ''FAILED'' now
       (g1\<lparr>gw_observations := reset_observation e (gw_observations g1)\<rparr>))
   | (Inl (EdgeError t m), g1) \<Rightarrow> (Inl (EdgeError t m), g1)
   | (Inr item, g1) \<Rightarrow> (Inr item, g1))"

fun scan_files :: "edge_env \<Rightarrow> GatewayConfig \<Rightarrow> int \<Rightarrow> (watched_file \<Rightarrow> file_reads) \<Rightarrow> watched_file list \<Rightarrow> gateway \<Rightarrow>
    (edge_exn + QueueItem list) \<times> gateway" where
  "scan_files env cfg now reads [] g = (Inr [], g)"
| "scan_files env cfg now reads (e # es) g =
     (case scan_file env cfg now e (reads e) g of
        (Inl x, g1) \<Rightarrow> (Inl x, g1)
      | (Inr item, g1) \<Rightarrow>
         (case scan_files env cfg now reads es g1 of
            (Inl x, g2) \<Rightarrow> (Inl x, g2)
          | (Inr items, g2) \<Rightarrow> (Inr (case item of None \<Rightarrow> items | Some i \<Rightarrow> i # items), g2)))"

definition scan_once :: "edge_env \<Rightarrow> GatewayConfig \<Rightarrow> int \<Rightarrow> rat \<Rightarrow> watched_file list \<Rightarrow> (watched_file \<Rightarrow> file_reads) \<Rightarrow>
    gateway \<Rightarrow> (edge_exn + QueueItem list) \<times> gateway" where
  "scan_once env cfg now monotonic listing reads g =
     (let (obs, found) = stable_files cfg monotonic listing (gw_observations g)
      in scan_files env cfg now reads found (g\<lparr>gw_observations := obs\<rparr>))"

section \<open>Uploading\<close>

definition with_queue :: "(QueueStore \<Rightarrow> 'a \<times> QueueStore) \<Rightarrow> gateway \<Rightarrow> 'a \<times> gateway" where
  "with_queue f g = (let (x, q) = f (gw_queue g) in (x, g\<lparr>gw_queue := q\<rparr>))"

definition retry_delay :: "nat \<Rightarrow> rat" where
  "retry_delay attempts = min 3600 (2 ^ min attempts 10)"

text \<open>\<open>Path(item.spool_path).read_bytes()\<close>.\<close>

definition read_spool :: "string \<Rightarrow> string + unit \<Rightarrow> gateway \<Rightarrow> string + string" where
  "read_spool path answer g = (case answer of
     Inl m \<Rightarrow> Inl m
   | Inr _ \<Rightarrow> (case map_of (gw_spool g) path of
       None \<Rightarrow> Inl (''No such file or directory: '' @ path) | Some d \<Rightarrow> Inr d))"

definition spool_path_of :: "QueueItem \<Rightarrow> string" where
  "spool_path_of item = or_else (qi_spool_path item) []"

definition fail_item :: "QueueItem \<Rightarrow> string \<Rightarrow> string \<Rightarrow> bool \<Rightarrow> rat \<Rightarrow> int \<Rightarrow> gateway \<Rightarrow>
    (edge_exn + QueueItem option) \<times> gateway" where
  "fail_item item code message retry delay now g =
     (let (updated, g1) = with_queue (mark_failed (qi_id item) code message retry delay now) g
      in (Inr updated, set_error code message ''FAILED'' now g1))"

text \<open>\<open>upload_once\<close> after an item was claimed: it only touches that item.\<close>

definition finish_upload :: "edge_env \<Rightarrow> 'b Backend \<Rightarrow> GatewayConfig \<Rightarrow> int \<Rightarrow> string + unit \<Rightarrow> QueueItem \<Rightarrow>
    gateway \<Rightarrow> 'b \<Rightarrow> ((edge_exn + QueueItem option) \<times> gateway) \<times> 'b" where
  "finish_upload env backend cfg now answer item g b =
     (if \<not> truthy (qi_spool_path item)
      then (fail_item item ''SPOOL_MISSING'' ''the item has no local spool file'' False 0 now g, b)
      else (case read_spool (spool_path_of item) answer g of
          Inl m \<Rightarrow> (fail_item item ''SPOOL_READ_ERROR'' m False 0 now g, b)
        | Inr data \<Rightarrow>
           (case upload env backend (gc_settings cfg) (gc_pack cfg) now item data b of
              (Inl (UploadError code message retry), b1) \<Rightarrow>
                (fail_item item code message retry (retry_delay (qi_attempts item)) now g, b1)
            | (Inl (UploadEscape t m), b1) \<Rightarrow> ((Inl (EdgeError t m), g), b1)
            | (Inr result, b1) \<Rightarrow>
                (let (updated, g1) = with_queue (mark_uploaded (qi_id item) (ur_inspection_id result) now) g
                 in (Inr updated, g1\<lparr>gw_last_success_at := Some now, gw_last_error := None\<rparr>), b1))))"

definition upload_once :: "edge_env \<Rightarrow> 'b Backend \<Rightarrow> GatewayConfig \<Rightarrow> int \<Rightarrow> string + unit \<Rightarrow> gateway \<Rightarrow> 'b \<Rightarrow>
    ((edge_exn + QueueItem option) \<times> gateway) \<times> 'b" where
  "upload_once env backend cfg now answer g b =
     (let (claim, g1) = with_queue (claim_due now now) g in
      case claim of
        None \<Rightarrow> ((Inr None, g1), b)
      | Some item \<Rightarrow> finish_upload env backend cfg now answer item g1 b)"

section \<open>Status, heartbeat and the cycle\<close>

definition reported_status :: "gateway \<Rightarrow> QueueSummary \<Rightarrow> string" where
  "reported_status g summary =
     (if (case gw_last_error g of None \<Rightarrow> False | Some err \<Rightarrow> le_status err = ''FAILED'') then ''DEGRADED''
      else if count_for (sm_counts summary) ''FAILED'' > 0 \<or> sm_depth summary > 0 then ''DEGRADED''
      else ''ONLINE'')"

definition counts_json :: "(string \<times> nat) list \<Rightarrow> json" where
  "counts_json counts = JObj (map (\<lambda>(s, n). (s, JInt (int n))) counts)"

definition station_of :: "GatewayConfig \<Rightarrow> string" where
  "station_of cfg = (case map_of (wd_defaults (the_watch cfg)) ''station_code'' of None \<Rightarrow> ''*'' | Some s \<Rightarrow> s)"

definition heartbeat_payload :: "GatewayConfig \<Rightarrow> gateway \<Rightarrow> (string \<times> json) list" where
  "heartbeat_payload cfg g =
     (let summary = queue_summary 10 (gw_queue g) in
      [(''gateway_id'', JStr (gateway_name cfg)), (''gateway_version'', JStr (gs_version (gc_settings cfg))),
       (''station_code'', JStr (station_of cfg)),
       (''reported_status'', JStr (reported_status g summary)),
       (''queue_depth'', JInt (int (sm_depth summary))),
       (''last_error'', JOpt (map_option le_message (gw_last_error g))),
       (''upload_success_count'', JInt (int (count_for (sm_counts summary) ''UPLOADED''))),
       (''upload_failure_count'', JInt (int (count_for (sm_counts summary) ''FAILED''))),
       (''deployment_pack_key'', JStr (dp_pack_key (gc_pack cfg))),
       (''deployment_pack_version'', JStr (dp_version (gc_pack cfg))),
       (''metrics'', JObj [(''queue_counts'', counts_json (sm_counts summary))])])"

definition heartbeat_once :: "edge_env \<Rightarrow> 'b Backend \<Rightarrow> GatewayConfig \<Rightarrow> bool \<Rightarrow> int \<Rightarrow> rat \<Rightarrow> gateway \<Rightarrow> 'b \<Rightarrow>
    ((edge_exn + bool) \<times> gateway) \<times> 'b" where
  "heartbeat_once env backend cfg force now monotonic g b =
     (if \<not> force \<and> monotonic - gw_heartbeat_monotonic g < gs_heartbeat_interval (gc_settings cfg)
      then ((Inr (gw_backend_reachable g), g), b)
      else (case send_heartbeat env backend (gc_settings cfg) (gc_pack cfg) now (heartbeat_payload cfg g) b of
          (Inl (UploadError c m r), b1) \<Rightarrow> ((Inl (EdgeError ''UploadError'' m), g), b1)
        | (Inl (UploadEscape t m), b1) \<Rightarrow> ((Inl (EdgeError t m), g), b1)
        | (Inr reachable, b1) \<Rightarrow>
            let g1 = g\<lparr>gw_backend_reachable := reachable, gw_heartbeat_monotonic := monotonic,
                       gw_heartbeat_at := Some now\<rparr>;
                g2 = (if reachable
                      then (if (case gw_last_error g1 of None \<Rightarrow> False | Some err \<Rightarrow> le_code err = ''HEARTBEAT_FAILED'')
                            then g1\<lparr>gw_last_error := None\<rparr> else g1)
                      else set_error ''HEARTBEAT_FAILED'' ''heartbeat failed, the queue is kept'' ''FAILED'' now g1)
            in ((Inr reachable, g2), b1)))"

record status_payload =
  sp_gateway_id :: string
  sp_tenant_id :: string
  sp_pack_key :: string
  sp_pack_version :: string
  sp_gateway_version :: string
  sp_station_code :: string
  sp_status :: string
  sp_backend_reachable :: bool
  sp_queue_depth :: nat
  sp_queue_counts :: "(string \<times> nat) list"
  sp_last_heartbeat_at :: "int option"
  sp_last_upload_succeeded_at :: "int option"
  sp_last_upload_failed_at :: "int option"
  sp_recent_error :: "last_error option"
  sp_recent_errors :: "QueueError list"

definition gateway_status :: "GatewayConfig \<Rightarrow> gateway \<Rightarrow> status_payload" where
  "gateway_status cfg g =
     (let summary = queue_summary 10 (gw_queue g) in
      \<lparr>sp_gateway_id = gateway_name cfg, sp_tenant_id = pack_tenant_id (gc_pack cfg),
       sp_pack_key = dp_pack_key (gc_pack cfg), sp_pack_version = dp_version (gc_pack cfg),
       sp_gateway_version = gs_version (gc_settings cfg), sp_station_code = station_of cfg,
       sp_status = reported_status g summary, sp_backend_reachable = gw_backend_reachable g,
       sp_queue_depth = sm_depth summary, sp_queue_counts = sm_counts summary,
       sp_last_heartbeat_at = gw_heartbeat_at g, sp_last_upload_succeeded_at = gw_last_success_at g,
       sp_last_upload_failed_at = gw_last_failure_at g, sp_recent_error = gw_last_error g,
       sp_recent_errors = sm_recent_errors summary\<rparr>)"

record cycle_result =
  cy_accepted :: nat
  cy_uploaded :: bool
  cy_queue :: status_payload

definition run_cycle :: "edge_env \<Rightarrow> 'b Backend \<Rightarrow> GatewayConfig \<Rightarrow> int \<Rightarrow> rat \<Rightarrow> watched_file list \<Rightarrow>
    (watched_file \<Rightarrow> file_reads) \<Rightarrow> string + unit \<Rightarrow> gateway \<Rightarrow> 'b \<Rightarrow> ((edge_exn + cycle_result) \<times> gateway) \<times> 'b" where
  "run_cycle env backend cfg now monotonic listing reads answer g b =
     (case scan_once env cfg now monotonic listing reads g of
        (Inl x, g1) \<Rightarrow> ((Inl x, g1), b)
      | (Inr accepted, g1) \<Rightarrow>
         (case upload_once env backend cfg now answer g1 b of
            ((Inl x, g2), b2) \<Rightarrow> ((Inl x, g2), b2)
          | ((Inr item, g2), b2) \<Rightarrow>
             (case heartbeat_once env backend cfg False now monotonic g2 b2 of
                ((Inl x, g3), b3) \<Rightarrow> ((Inl x, g3), b3)
              | ((Inr _, g3), b3) \<Rightarrow>
                  ((Inr \<lparr>cy_accepted = length accepted,
                     cy_uploaded = (case item of None \<Rightarrow> False | Some i \<Rightarrow> qi_status i = ''UPLOADED''),
                     cy_queue = gateway_status cfg g3\<rparr>, g3), b3))))"

end
