(* ===== verification/EdgeSystem.thy ===== *)
theory EdgeSystem
  imports EdgeRuntime
begin

text \<open>
  The gateway as a system: threads that scan and upload concurrently (the loop of
  \<^verbatim>\<open>edge_gateway/main.py\<close> and its \<open>/cycle\<close> endpoint run the same runtime), operators that retry
  items, restarts and crashes at any moment. The operations of the ledger are the locked ones of the
  code; an upload is two steps, the claim and its completion, with anything in between. The ingestion of one
  file (\<open>scan_file\<close>) is one step, though the code makes it of several: the look for the source, the temporary
  spool file and its rename, and the enqueue. So what two scan threads that ingest at the same time do to each
  other between these (the temporary name of a spool file is made of the hash and the process id only) is not
  seen here.
\<close>

section \<open>Ingestion keeps the ledger\<close>

lemma with_queue_eq: "with_queue f g = (fst (f (gw_queue g)), g\<lparr>gw_queue := snd (f (gw_queue g))\<rparr>)"
  by (simp add: with_queue_def Let_def split: prod.splits)

lemma set_error_queue [simp]: "gw_queue (set_error c m s now g) = gw_queue g"
  and set_error_spool [simp]: "gw_spool (set_error c m s now g) = gw_spool g"
  and set_error_observations [simp]: "gw_observations (set_error c m s now g) = gw_observations g"
  by (simp_all add: set_error_def)

lemma archive_queue [simp]: "gw_queue (archive_source cfg e d moved g) = gw_queue g"
  and archive_spool [simp]: "gw_spool (archive_source cfg e d moved g) = gw_spool g"
  and archive_observations [simp]: "gw_observations (archive_source cfg e d moved g) = gw_observations g"
  by (simp_all add: archive_source_def)

lemma atomic_spool_frame:
  "atomic_spool cfg a answer g = (r, g1) \<Longrightarrow> gw_queue g1 = gw_queue g \<and> gw_observations g1 = gw_observations g"
  by (auto simp: atomic_spool_def split: sum.splits option.splits if_splits)

lemma atomic_spool_grows:
  "atomic_spool cfg a answer g = (r, g1) \<Longrightarrow> map_of (gw_spool g) p = Some d \<Longrightarrow> map_of (gw_spool g1) p = Some d"
  by (auto simp: atomic_spool_def split: sum.splits option.splits if_splits)

lemma atomic_spool_holds:
  "atomic_spool cfg a answer g = (Inr p, g1) \<Longrightarrow> p = spool_file cfg a \<and> map_of (gw_spool g1) p = Some (qa_data a)"
  by (auto simp: atomic_spool_def split: sum.splits option.splits if_splits)

lemma prepare_file_assessed:
  "prepare_file env cfg e rd q = Inr (Some p) \<Longrightarrow> qa_sha256 (pr_assessment p) = sha256_bytes env (qa_data (pr_assessment p))"
  by (auto simp: prepare_file_def Let_def assess_image_accepts_iff split: if_splits)

lemma prepare_file_request:
  "prepare_file env cfg e rd q = Inr (Some p) \<Longrightarrow> pr_key p \<noteq> [] \<and> qa_mime_type (pr_assessment p) \<noteq> []"
  by (auto simp: prepare_file_def Let_def assess_image_accepts_iff deterministic_idempotency_key_def
      extension_to_mime_def split: if_splits)

text \<open>The spool directory holds the bytes of every item that is to be uploaded, and the item has what its
  request needs.\<close>

definition spool_holds :: "edge_env \<Rightarrow> (string \<times> string) list \<Rightarrow> QueueItem \<Rightarrow> bool" where
  "spool_holds env spool r \<longleftrightarrow> (case qi_spool_path r of None \<Rightarrow> True
     | Some p \<Rightarrow> p \<noteq> [] \<and> truthy (qi_idempotency_key r) \<and> truthy (qi_mime_type r) \<and>
        (case map_of spool p of None \<Rightarrow> False
         | Some d \<Rightarrow> qi_content_sha256 r = Some (sha256_bytes env d)))"

definition spool_ok :: "edge_env \<Rightarrow> gateway \<Rightarrow> bool" where
  "spool_ok env g \<longleftrightarrow> (\<forall>r \<in> set (qs_rows (gw_queue g)). spool_holds env (gw_spool g) r)"

lemma spool_holds_grows:
  "spool_holds env s r \<Longrightarrow> (\<And>p d. map_of s p = Some d \<Longrightarrow> map_of s' p = Some d) \<Longrightarrow> spool_holds env s' r"
  by (auto simp: spool_holds_def split: option.splits)

lemma spool_holds_evolves: "row_evolves r r' \<Longrightarrow> spool_holds env s r' = spool_holds env s r"
  by (simp only: spool_holds_def row_evolves_columns)

lemma list_all2_in_right: "list_all2 P xs ys \<Longrightarrow> y \<in> set ys \<Longrightarrow> \<exists>x \<in> set xs. P x y"
  by (induction rule: list_all2_induct) auto

text \<open>Only \<open>enqueue\<close> adds a row with a spool file.\<close>

definition new_rows :: "QueueStore \<Rightarrow> QueueStore \<Rightarrow> QueueItem list" where
  "new_rows q q' = drop (length (qs_rows q)) (qs_rows q')"

lemma spool_ok_evolves:
  assumes "spool_ok env g" "store_evolves (gw_queue g) q'"
    and "\<And>p d. map_of (gw_spool g) p = Some d \<Longrightarrow> map_of (gw_spool g') p = Some d"
    and "gw_queue g' = q'" "\<forall>r \<in> set (new_rows (gw_queue g) q'). spool_holds env (gw_spool g') r"
  shows "spool_ok env g'"
proof -
  obtain us ns where s: "qs_rows q' = us @ ns" "list_all2 row_evolves (qs_rows (gw_queue g)) us"
    using assms(2) by (auto simp: store_evolves_def)
  have "spool_holds env (gw_spool g') u" if u: "u \<in> set us" for u
  proof -
    obtain r where "r \<in> set (qs_rows (gw_queue g))" "row_evolves r u"
      using list_all2_in_right [OF s(2) u] by blast
    with assms(1) have "spool_holds env (gw_spool g) u"
      by (simp only: spool_ok_def spool_holds_evolves)
    then show ?thesis by (rule spool_holds_grows) (rule assms(3))
  qed
  moreover have "new_rows (gw_queue g) q' = ns"
    using s by (simp add: new_rows_def list_all2_lengthD)
  ultimately show ?thesis using assms(4,5) s(1) by (auto simp: spool_ok_def)
qed

lemma new_rows_insert: "set (new_rows q (snd (insert_item r q))) \<subseteq> {r\<lparr>qi_id := Suc (qs_last_rowid q)\<rparr>}"
  by (simp add: insert_item_def new_rows_def Let_def)

lemma new_rows_same [simp]: "new_rows q q = []"
  by (simp add: new_rows_def)

lemma new_rows_update [simp]: "new_rows q (update_items P f q) = []"
  by (simp add: new_rows_def)

lemma spool_holds_update [simp]: "spool_holds env s (r\<lparr>qi_id := n\<rparr>) = spool_holds env s r"
  by (auto simp: spool_holds_def split: option.splits)

lemma enqueue_new_rows:
  assumes "map_of s (ea_spool_path a) = Some d" "ea_content_sha256 a = sha256_bytes env d"
    and "ea_spool_path a \<noteq> []" "ea_idempotency_key a \<noteq> []" "ea_mime_type a \<noteq> []"
    and "r \<in> set (new_rows q (snd (enqueue a now q)))"
  shows "spool_holds env s r"
proof -
  have "spool_holds env s (queued_row a now)" "spool_holds env s (duplicate_row a p now)" for p
    using assms(1-5) by (simp_all add: spool_holds_def duplicate_row_def queued_row_def)
  moreover have "r = (queued_row a now)\<lparr>qi_id := Suc (qs_last_rowid q)\<rparr> \<or>
      (\<exists>p. r = (duplicate_row a p now)\<lparr>qi_id := Suc (qs_last_rowid q)\<rparr>)"
    using assms(6) new_rows_insert unfolding enqueue_def by (fastforce split: option.splits list.splits)
  ultimately show ?thesis by auto
qed

lemma reject_new_rows: "r \<in> set (new_rows q (snd (record_rejection a now q))) \<Longrightarrow> spool_holds env s r"
  using new_rows_insert [of q "rejected_row a now"]
  by (auto simp: record_rejection_def spool_holds_def split: option.splits)

text \<open>What one transition of the gateway does to ledger and spool.\<close>

definition gateway_keeps :: "edge_env \<Rightarrow> gateway \<Rightarrow> gateway \<Rightarrow> bool" where
  "gateway_keeps env g g' \<longleftrightarrow> store_ok (gw_queue g') \<and> spool_ok env g' \<and> store_evolves (gw_queue g) (gw_queue g') \<and>
     (\<forall>p d. map_of (gw_spool g) p = Some d \<longrightarrow> map_of (gw_spool g') p = Some d)"

lemma gateway_keeps_refl: "store_ok (gw_queue g) \<Longrightarrow> spool_ok env g \<Longrightarrow> gateway_keeps env g g"
  by (simp add: gateway_keeps_def)

lemma gateway_keeps_trans: "gateway_keeps env a b \<Longrightarrow> gateway_keeps env b c \<Longrightarrow> gateway_keeps env a c"
  unfolding gateway_keeps_def by (metis store_evolves_trans)

lemma gateway_keeps_ledger:
  assumes "store_ok (gw_queue g)" "spool_ok env g" "keeps_ledger (gw_queue g) (gw_queue g')"
    and "gw_spool g' = gw_spool g" "\<forall>r \<in> set (new_rows (gw_queue g) (gw_queue g')). spool_holds env (gw_spool g) r"
  shows "gateway_keeps env g g'"
  using assms spool_ok_evolves [OF assms(2), of "gw_queue g'" g'] by (simp add: gateway_keeps_def keeps_ledger_def)

lemma gateway_keeps_same:
  "store_ok (gw_queue g) \<Longrightarrow> spool_ok env g \<Longrightarrow> gw_queue g' = gw_queue g \<Longrightarrow> gw_spool g' = gw_spool g \<Longrightarrow> gateway_keeps env g g'"
  by (rule gateway_keeps_ledger) simp_all

section \<open>The operations of the runtime\<close>

lemma ingest_file_keeps:
  assumes "store_ok (gw_queue g)" "spool_ok env g"
  shows "gateway_keeps env g (snd (ingest_file env cfg now e rd g))"
proof (cases "\<exists>p spool g1. prepare_file env cfg e rd (gw_queue g) = Inr (Some p) \<and>
    atomic_spool cfg (pr_assessment p) (rd_spool rd) g = (Inr spool, g1)")
  case True
  then obtain p spool g1 where p: "prepare_file env cfg e rd (gw_queue g) = Inr (Some p)"
    and a: "atomic_spool cfg (pr_assessment p) (rd_spool rd) g = (Inr spool, g1)" by blast
  let ?args = "enqueue_args cfg e p spool"
  let ?res = "enqueue ?args now (gw_queue g)"
  note rec = enqueue_records [OF assms(1), of ?args now]
  have held: "map_of (gw_spool g1) (ea_spool_path ?args) = Some (qa_data (pr_assessment p))"
    "ea_content_sha256 ?args = sha256_bytes env (qa_data (pr_assessment p))"
    "ea_spool_path ?args \<noteq> []" "ea_idempotency_key ?args \<noteq> []" "ea_mime_type ?args \<noteq> []"
    using atomic_spool_holds [OF a] prepare_file_assessed [OF p] prepare_file_request [OF p]
    by (auto simp: enqueue_args_def spool_file_def)
  obtain item q' where item: "?res = (Inr item, q')"
    using rec by (cases "?res") (auto simp: records_source_def)
  let ?g' = "archive_source cfg e (wd_archive_subdir (the_watch cfg)) (rd_moved rd) (g1\<lparr>gw_queue := q'\<rparr>)"
  have run: "ingest_file env cfg now e rd g = (Inr (Some item), ?g')"
    using item atomic_spool_frame [OF a] by (simp add: ingest_file_def p a)
  have "spool_ok env ?g'"
  proof (rule spool_ok_evolves [OF assms(2)])
    show "store_evolves (gw_queue g) q'" using rec item by (simp add: records_source_def)
    show "\<forall>r \<in> set (new_rows (gw_queue g) q'). spool_holds env (gw_spool ?g') r"
      using enqueue_new_rows [OF held, of _ "gw_queue g" now] item by simp
    show "map_of (gw_spool g) q = Some d \<Longrightarrow> map_of (gw_spool ?g') q = Some d" for q d
      using atomic_spool_grows [OF a] by simp
  qed simp
  then show ?thesis
    using rec item atomic_spool_grows [OF a] by (simp add: run gateway_keeps_def records_source_def)
next
  case False
  then have "gw_queue (snd (ingest_file env cfg now e rd g)) = gw_queue g \<and>
      (\<forall>p d. map_of (gw_spool g) p = Some d \<longrightarrow> map_of (gw_spool (snd (ingest_file env cfg now e rd g))) p = Some d)"
    by (auto simp: ingest_file_def split: sum.splits option.splits prod.splits
      dest: atomic_spool_frame atomic_spool_grows)
  then show ?thesis
    using assms spool_ok_evolves [OF assms(2), of "gw_queue g"] by (auto simp: gateway_keeps_def)
qed

lemma handle_reject_keeps:
  assumes "store_ok (gw_queue g)" "spool_ok env g"
  shows "gateway_keeps env g (snd (handle_reject env cfg now e rd code reason metrics g))"
proof -
  let ?res = "record_rejection (rejection_args cfg e (rejection_fingerprint env cfg e rd) code reason) now (gw_queue g)"
  have keeps: "keeps_ledger (gw_queue g) (snd ?res)"
    using record_rejection_records [OF assms(1)] by (blast intro: records_keeps [OF assms(1)])
  have new: "\<forall>r \<in> set (new_rows (gw_queue g) (snd ?res)). spool_holds env (gw_spool g) r"
    using reject_new_rows by blast
  have "gw_queue (snd (handle_reject env cfg now e rd code reason metrics g)) \<in> {gw_queue g, snd ?res} \<and>
      gw_spool (snd (handle_reject env cfg now e rd code reason metrics g)) = gw_spool g"
    by (auto simp: handle_reject_def Let_def split: prod.splits sum.splits)
  then show ?thesis
    using assms keeps new by (auto intro!: gateway_keeps_ledger)
qed

lemma scan_file_keeps:
  assumes "store_ok (gw_queue g)" "spool_ok env g"
  shows "gateway_keeps env g (snd (scan_file env cfg now e rd g))"
proof -
  obtain r g1 where i: "ingest_file env cfg now e rd g = (r, g1)" by (cases "ingest_file env cfg now e rd g")
  then have k: "gateway_keeps env g g1" using ingest_file_keeps [OF assms, of cfg now e rd] by simp
  then have ok: "store_ok (gw_queue g1)" "spool_ok env g1" by (simp_all add: gateway_keeps_def)
  have "gateway_keeps env g1 (snd (scan_file env cfg now e rd g))"
  proof (cases r)
    case (Inl x)
    then show ?thesis
      by (cases x) (simp_all add: scan_file_def i handle_reject_keeps [OF ok] gateway_keeps_same [OF ok])
  next
    case (Inr item)
    then show ?thesis by (simp add: scan_file_def i gateway_keeps_refl [OF ok])
  qed
  with k show ?thesis by (rule gateway_keeps_trans)
qed

lemma scan_files_keeps:
  "store_ok (gw_queue g) \<Longrightarrow> spool_ok env g \<Longrightarrow> gateway_keeps env g (snd (scan_files env cfg now reads es g))"
proof (induction es arbitrary: g)
  case Nil
  then show ?case by (simp add: gateway_keeps_refl)
next
  case (Cons e es)
  obtain r g1 where f: "scan_file env cfg now e (reads e) g = (r, g1)" by (cases "scan_file env cfg now e (reads e) g")
  have k: "gateway_keeps env g g1" using scan_file_keeps [OF Cons.prems, of cfg now e "reads e"] f by simp
  then have "gateway_keeps env g1 (snd (scan_files env cfg now reads es g1))"
    by (intro Cons.IH) (simp_all add: gateway_keeps_def)
  with k have "gateway_keeps env g (snd (scan_files env cfg now reads es g1))" by (rule gateway_keeps_trans)
  with k f show ?case by (cases r) (auto split: prod.splits sum.splits)
qed

lemma scan_once_keeps:
  assumes "store_ok (gw_queue g)" "spool_ok env g"
  shows "gateway_keeps env g (snd (scan_once env cfg now monotonic listing reads g))"
proof -
  obtain obs found where s: "stable_files cfg monotonic listing (gw_observations g) = (obs, found)"
    by (cases "stable_files cfg monotonic listing (gw_observations g)")
  have k: "gateway_keeps env g (g\<lparr>gw_observations := obs\<rparr>)" by (rule gateway_keeps_same [OF assms]) simp_all
  then have "gateway_keeps env (g\<lparr>gw_observations := obs\<rparr>)
      (snd (scan_files env cfg now reads found (g\<lparr>gw_observations := obs\<rparr>)))"
    by (intro scan_files_keeps) (simp_all add: gateway_keeps_def)
  with k show ?thesis by (simp add: scan_once_def s) (rule gateway_keeps_trans)
qed

lemma fail_item_frame:
  "gw_queue (snd (fail_item item c m retry d now g)) = snd (mark_failed (qi_id item) c m retry d now (gw_queue g)) \<and>
   gw_spool (snd (fail_item item c m retry d now g)) = gw_spool g \<and>
   fst (fail_item item c m retry d now g) = Inr (fst (mark_failed (qi_id item) c m retry d now (gw_queue g)))"
  by (simp add: fail_item_def with_queue_eq)

text \<open>The ledger after an upload: unchanged when an exception escaped, or the item failed or uploaded.\<close>

lemma finish_upload_queue:
  "gw_spool (snd (fst (finish_upload env backend cfg now answer item g b))) = gw_spool g \<and>
   (gw_queue (snd (fst (finish_upload env backend cfg now answer item g b))) = gw_queue g \<or>
    (\<exists>c m retry d. gw_queue (snd (fst (finish_upload env backend cfg now answer item g b)))
       = snd (mark_failed (qi_id item) c m retry d now (gw_queue g))) \<or>
    (\<exists>insp. gw_queue (snd (fst (finish_upload env backend cfg now answer item g b)))
       = snd (mark_uploaded (qi_id item) insp now (gw_queue g))))"
proof (cases "truthy (qi_spool_path item)")
  case False
  then show ?thesis by (auto simp: finish_upload_def fail_item_frame)
next
  case True
  show ?thesis
  proof (cases "read_spool (spool_path_of item) answer g")
    case (Inl m)
    with True show ?thesis by (auto simp: finish_upload_def fail_item_frame)
  next
    case (Inr data)
    obtain r b1 where u: "upload env backend (gc_settings cfg) (gc_pack cfg) now item data b = (r, b1)"
      by (cases "upload env backend (gc_settings cfg) (gc_pack cfg) now item data b")
    show ?thesis
    proof (cases r)
      case (Inl x)
      with True Inr u show ?thesis by (cases x) (auto simp: finish_upload_def fail_item_frame)
    next
      case (Inr result)
      with True \<open>read_spool _ _ _ = Inr data\<close> u show ?thesis
        by (auto simp: finish_upload_def with_queue_eq)
    qed
  qed
qed

lemma finish_upload_keeps:
  assumes "store_ok (gw_queue g)" "spool_ok env g" "uploading (qi_id item) (gw_queue g)"
  shows "gateway_keeps env g (snd (fst (finish_upload env backend cfg now answer item g b)))"
  using finish_upload_queue [of env backend cfg now answer item g b]
    mark_failed_keeps [OF assms(1,3)] mark_uploaded_keeps [OF assms(1,3)]
  by (elim conjE disjE exE; intro gateway_keeps_ledger [OF assms(1,2)])
    (simp_all add: mark_failed_def mark_uploaded_def Let_def)

section \<open>Steps\<close>

record 'b edge_state =
  es_config :: GatewayConfig
  es_gateway :: gateway
  es_inflight :: "QueueItem list"
  es_backend :: 'b

text \<open>\<open>lost\<close> is a crash after the backend was called and before its answer was recorded, \<open>others\<close>
  whatever else happens to the backend. A restart may use another configuration.\<close>

inductive edge_step :: "edge_env \<Rightarrow> 'b Backend \<Rightarrow> 'b edge_state \<Rightarrow> 'b edge_state \<Rightarrow> bool"
  for env :: edge_env and backend :: "'b Backend" where
  watch: "edge_step env backend s (s\<lparr>es_gateway := (es_gateway s)\<lparr>gw_observations :=
      fst (stable_files (es_config s) t listing (gw_observations (es_gateway s)))\<rparr>\<rparr>)"
| ingest: "edge_step env backend s
      (s\<lparr>es_gateway := snd (scan_file env (es_config s) now e rd (es_gateway s))\<rparr>)"
| claim: "with_queue (claim_due now now) (es_gateway s) = (Some item, g') \<Longrightarrow>
    edge_step env backend s (s\<lparr>es_gateway := g', es_inflight := item # es_inflight s\<rparr>)"
| finish: "item \<in> set (es_inflight s) \<Longrightarrow>
    finish_upload env backend (es_config s) now answer item (es_gateway s) (es_backend s) = ((r, g'), b') \<Longrightarrow>
    edge_step env backend s (s\<lparr>es_gateway := g', es_inflight := remove1 item (es_inflight s), es_backend := b'\<rparr>)"
| retry: "edge_step env backend s (s\<lparr>es_gateway := snd (with_queue (queue_retry i now) (es_gateway s))\<rparr>)"
| heartbeat: "heartbeat_once env backend (es_config s) force now t (es_gateway s) (es_backend s) = ((r, g'), b') \<Longrightarrow>
    edge_step env backend s (s\<lparr>es_gateway := g', es_backend := b'\<rparr>)"
| restart: "gateway_start cfg (gw_queue (es_gateway s)) (gw_spool (es_gateway s)) now = Inr g' \<Longrightarrow>
    edge_step env backend s (s\<lparr>es_config := cfg, es_gateway := g', es_inflight := []\<rparr>)"
| lost: "item \<in> set (es_inflight s) \<Longrightarrow>
    finish_upload env backend (es_config s) now answer item (es_gateway s) (es_backend s) = ((r, g1), b') \<Longrightarrow>
    gateway_start cfg (gw_queue (es_gateway s)) (gw_spool (es_gateway s)) later = Inr g' \<Longrightarrow>
    edge_step env backend s (s\<lparr>es_config := cfg, es_gateway := g', es_inflight := [], es_backend := b'\<rparr>)"
| others: "edge_step env backend s (s\<lparr>es_backend := b'\<rparr>)"

inductive_cases edge_stepE: "edge_step env backend s s'"

inductive edge_reachable :: "edge_env \<Rightarrow> 'b Backend \<Rightarrow> 'b edge_state \<Rightarrow> bool"
  for env :: edge_env and backend :: "'b Backend" where
  boot: "gateway_start cfg empty_store [] now = Inr g \<Longrightarrow> edge_reachable env backend
    \<lparr>es_config = cfg, es_gateway = g, es_inflight = [], es_backend = b\<rparr>"
| step: "edge_reachable env backend s \<Longrightarrow> edge_step env backend s s' \<Longrightarrow> edge_reachable env backend s'"

section \<open>The invariant\<close>

definition in_flight :: "QueueStore \<Rightarrow> QueueItem \<Rightarrow> bool" where
  "in_flight q i \<longleftrightarrow> (\<exists>r \<in> set (qs_rows q). qi_status r = ''UPLOADING'' \<and> i = row_item r)"

definition edge_ok :: "edge_env \<Rightarrow> 'b edge_state \<Rightarrow> bool" where
  "edge_ok env s \<longleftrightarrow> store_ok (gw_queue (es_gateway s)) \<and> spool_ok env (es_gateway s) \<and>
     (\<forall>i \<in> set (es_inflight s). in_flight (gw_queue (es_gateway s)) i) \<and> distinct (map qi_id (es_inflight s))"

lemma in_flight_uploading: "in_flight q i \<Longrightarrow> uploading (qi_id i) q"
  by (auto simp: in_flight_def uploading_def)

text \<open>Rows that an operation does not touch.\<close>

lemma insert_item_rows: "set (qs_rows q) \<subseteq> set (qs_rows (snd (insert_item r q)))"
  by (auto simp: insert_item_def Let_def)

lemma enqueue_rows: "set (qs_rows q) \<subseteq> set (qs_rows (snd (enqueue a now q)))"
  using insert_item_rows by (auto simp: enqueue_def split: option.splits list.splits)

lemma record_rejection_rows: "set (qs_rows q) \<subseteq> set (qs_rows (snd (record_rejection a now q)))"
  using insert_item_rows by (auto simp: record_rejection_def split: option.splits)

lemma ingest_file_rows: "set (qs_rows (gw_queue g)) \<subseteq> set (qs_rows (gw_queue (snd (ingest_file env cfg now e rd g))))"
proof (cases "prepare_file env cfg e rd (gw_queue g)")
  case (Inr p)
  show ?thesis
  proof (cases p)
    case (Some pr)
    obtain r g1 where a: "atomic_spool cfg (pr_assessment pr) (rd_spool rd) g = (r, g1)"
      by (cases "atomic_spool cfg (pr_assessment pr) (rd_spool rd) g")
    show ?thesis
    proof (cases r)
      case (Inr sp)
      obtain x q' where e: "enqueue (enqueue_args cfg e pr sp) now (gw_queue g) = (x, q')"
        by (cases "enqueue (enqueue_args cfg e pr sp) now (gw_queue g)")
      show ?thesis
        using enqueue_rows [of "gw_queue g" "enqueue_args cfg e pr sp" now] e atomic_spool_frame [OF a]
        by (cases x) (simp_all add: ingest_file_def \<open>prepare_file _ _ _ _ _ = _\<close> Some a Inr)
    qed (use atomic_spool_frame [OF a] in \<open>simp add: ingest_file_def \<open>prepare_file _ _ _ _ _ = _\<close> Some a\<close>)
  qed (simp add: ingest_file_def Inr)
qed (simp add: ingest_file_def)

lemma handle_reject_rows:
  "set (qs_rows (gw_queue g)) \<subseteq> set (qs_rows (gw_queue (snd (handle_reject env cfg now e rd c m x g))))"
proof -
  let ?res = "record_rejection (rejection_args cfg e (rejection_fingerprint env cfg e rd) c m) now (gw_queue g)"
  have "gw_queue (snd (handle_reject env cfg now e rd c m x g)) \<in> {gw_queue g, snd ?res}"
    by (auto simp: handle_reject_def Let_def split: prod.splits sum.splits)
  then show ?thesis using record_rejection_rows by (metis insertE order_refl singletonD)
qed

lemma scan_file_rows: "set (qs_rows (gw_queue g)) \<subseteq> set (qs_rows (gw_queue (snd (scan_file env cfg now e rd g))))"
proof -
  obtain r g1 where i: "ingest_file env cfg now e rd g = (r, g1)" by (cases "ingest_file env cfg now e rd g")
  with ingest_file_rows have s: "set (qs_rows (gw_queue g)) \<subseteq> set (qs_rows (gw_queue g1))" by (metis snd_conv)
  show ?thesis
  proof (cases r)
    case (Inl x)
    then show ?thesis
      using s order_trans [OF s handle_reject_rows] by (cases x) (simp_all add: scan_file_def i)
  qed (use s in \<open>simp add: scan_file_def i\<close>)
qed

lemma update_items_others: "r \<in> set (qs_rows q) \<Longrightarrow> \<not> P r \<Longrightarrow> r \<in> set (qs_rows (update_items P f q))"
  by (force simp: set_update_where)

lemma finish_upload_others:
  assumes "r \<in> set (qs_rows (gw_queue g))" "qi_id r \<noteq> qi_id item"
  shows "r \<in> set (qs_rows (gw_queue (snd (fst (finish_upload env backend cfg now answer item g b)))))"
  using finish_upload_queue [of env backend cfg now answer item g b] assms
  by (auto simp: mark_failed_def mark_uploaded_def Let_def simp del: update_items_rows intro!: update_items_others)

lemma in_flight_mono:
  "in_flight q i \<Longrightarrow> (\<And>r. r \<in> set (qs_rows q) \<Longrightarrow> qi_status r = ''UPLOADING'' \<Longrightarrow> qi_id r = qi_id i \<Longrightarrow> r \<in> set (qs_rows q')) \<Longrightarrow>
     in_flight q' i"
  by (auto simp: in_flight_def)

text \<open>Starting recovers the items of the last run.\<close>

lemma gateway_start_state:
  "gateway_start cfg q spool now = Inr g \<Longrightarrow> gw_queue g = snd (recover_inflight now q) \<and> gw_spool g = spool"
  by (auto simp: gateway_start_def)

lemma heartbeat_frame:
  "heartbeat_once env backend cfg force now t g b = ((r, g'), b') \<Longrightarrow> gw_queue g' = gw_queue g \<and> gw_spool g' = gw_spool g"
  by (auto simp: heartbeat_once_def Let_def split: if_splits sum.splits prod.splits upload_exn.splits option.splits)

lemma recover_gateway_keeps:
  assumes "store_ok (gw_queue g)" "spool_ok env g" "gateway_start cfg (gw_queue g) (gw_spool g) now = Inr g'"
  shows "gateway_keeps env g g'"
  using gateway_start_state [OF assms(3)] recover_keeps [OF assms(1), of now]
  by (intro gateway_keeps_ledger [OF assms(1,2)]) (simp_all add: recover_inflight_def)

text \<open>Every step keeps ledger and spool.\<close>

lemma edge_step_keeps:
  assumes "edge_step env backend s s'" "edge_ok env s"
  shows "gateway_keeps env (es_gateway s) (es_gateway s')"
proof -
  have ok: "store_ok (gw_queue (es_gateway s))" "spool_ok env (es_gateway s)"
    and fl: "\<And>i. i \<in> set (es_inflight s) \<Longrightarrow> uploading (qi_id i) (gw_queue (es_gateway s))"
    using assms(2) in_flight_uploading by (auto simp: edge_ok_def)
  show ?thesis
    using assms(1)
  proof cases
    case (watch t listing)
    then show ?thesis by (simp add: gateway_keeps_same [OF ok])
  next
    case (ingest now e rd)
    then show ?thesis by (simp add: scan_file_keeps [OF ok])
  next
    case (claim now item g')
    then show ?thesis
      using claim_due_keeps [OF ok(1), of now now] ok
      by (auto simp: with_queue_eq claim_due_def Let_def split: list.splits intro!: gateway_keeps_ledger)
  next
    case (finish item now answer r g' b')
    then show ?thesis
      using finish_upload_keeps [OF ok fl, of item backend "es_config s" now answer "es_backend s"] by simp
  next
    case (retry i now)
    then show ?thesis
      using retry_keeps [OF ok(1), of i now] ok
      by (auto simp: with_queue_eq queue_retry_def Let_def intro!: gateway_keeps_ledger)
  next
    case (heartbeat force now t r g' b')
    then show ?thesis using heartbeat_frame [OF heartbeat(2)] by (auto intro!: gateway_keeps_same [OF ok])
  next
    case (restart cfg now g')
    then show ?thesis using recover_gateway_keeps [OF ok] by simp
  next
    case (lost item now answer r g1 b' cfg later g')
    then show ?thesis using recover_gateway_keeps [OF ok] by simp
  next
    case (others b')
    then show ?thesis by (simp add: gateway_keeps_refl [OF ok])
  qed
qed

lemma claim_due_others:
  assumes "store_ok q" "claim_due current updated q = (Some item, q')"
  shows "in_flight q' item" "\<And>r. r \<in> set (qs_rows q) \<Longrightarrow> qi_status r = ''UPLOADING'' \<Longrightarrow> r \<in> set (qs_rows q') \<and> qi_id r \<noteq> qi_id item"
proof -
  have "\<exists>r \<in> set (qs_rows q). is_due current r" using assms(2) claim_due_none by (metis option.distinct(1) prod.inject)
  then obtain row where row: "oldest_due current q row" "item = row_item (claimed updated row)"
      "q' = update_items (\<lambda>r. qi_id r = qi_id row) (claimed updated) q"
    using claim_due_some [OF assms(1), of _ current updated] assms(2) by auto
  have id: "qi_id item = qi_id row" by (simp add: row(2) claimed_def)
  have "claimed updated row \<in> set (qs_rows q')"
    using row(1) by (force simp: row(3) oldest_due_def set_update_where)
  then show "in_flight q' item"
    unfolding in_flight_def row(2) by (rule bexI [rotated]) (simp add: claimed_def)
  show "r \<in> set (qs_rows q') \<and> qi_id r \<noteq> qi_id item" if "r \<in> set (qs_rows q)" "qi_status r = ''UPLOADING''" for r
  proof -
    have "qi_id r \<noteq> qi_id row"
      using that row(1) same_id [OF assms(1) that(1), of row] by (auto simp: oldest_due_def is_due_def)
    then show ?thesis using that by (auto simp: row(3) id simp del: update_items_rows intro!: update_items_others)
  qed
qed

lemma distinct_map_remove_one: "distinct (map f xs) \<Longrightarrow> distinct (map f (remove1 x xs))"
  by (meson distinct_map distinct_remove1 inj_on_subset set_remove1_subset)

lemma edge_step_ok:
  assumes "edge_step env backend s s'" "edge_ok env s"
  shows "edge_ok env s'"
proof -
  have kept: "store_ok (gw_queue (es_gateway s'))" "spool_ok env (es_gateway s')"
    using edge_step_keeps [OF assms] by (simp_all add: gateway_keeps_def)
  have ok: "store_ok (gw_queue (es_gateway s))"
    and fl: "\<And>i. i \<in> set (es_inflight s) \<Longrightarrow> in_flight (gw_queue (es_gateway s)) i"
    and dist: "distinct (map qi_id (es_inflight s))"
    using assms(2) by (auto simp: edge_ok_def)
  have "(\<forall>i \<in> set (es_inflight s'). in_flight (gw_queue (es_gateway s')) i) \<and> distinct (map qi_id (es_inflight s'))"
    using assms(1)
  proof cases
    case (watch t listing)
    then show ?thesis using fl dist by simp
  next
    case (ingest now e rd)
    then show ?thesis
      using fl dist scan_file_rows [of "es_gateway s" env "es_config s" now e rd]
      by (auto intro!: in_flight_mono [OF fl])
  next
    case (claim now item g')
    then have c: "claim_due now now (gw_queue (es_gateway s)) = (Some item, gw_queue g')"
      by (auto simp: with_queue_eq prod_eq_iff)
    have "in_flight (gw_queue g') i \<and> qi_id i \<noteq> qi_id item" if "i \<in> set (es_inflight s)" for i
      using fl [OF that] claim_due_others(2) [OF ok c] by (auto simp: in_flight_def)
    then have "qi_id item \<notin> qi_id ` set (es_inflight s) \<and> (\<forall>i \<in> set (es_inflight s). in_flight (gw_queue g') i)"
      by (metis imageE)
    with claim(1) dist claim_due_others(1) [OF ok c] show ?thesis by simp
  next
    case (finish item now answer r g' b')
    have ids: "qi_id i \<noteq> qi_id item" if "i \<in> set (remove1 item (es_inflight s))" for i
    proof -
      have "i \<in> set (es_inflight s)" "i \<noteq> item" using that dist by (auto simp: distinct_map)
      then show ?thesis using finish(2) dist by (auto simp: distinct_map inj_on_def)
    qed
    have "in_flight (gw_queue g') i" if "i \<in> set (remove1 item (es_inflight s))" for i
    proof (rule in_flight_mono)
      show "in_flight (gw_queue (es_gateway s)) i" using that fl by (meson notin_set_remove1)
      show "r \<in> set (qs_rows (gw_queue g'))" if "r \<in> set (qs_rows (gw_queue (es_gateway s)))" "qi_id r = qi_id i" for r
        using finish_upload_others [OF that(1), of item] ids that finish(3) \<open>i \<in> _\<close> by (metis fst_conv snd_conv)
    qed
    then show ?thesis using finish(1) dist by (simp add: distinct_map_remove_one)
  next
    case (retry i now)
    then show ?thesis
      using dist by (auto simp: with_queue_eq queue_retry_def Let_def simp del: update_items_rows
        intro!: in_flight_mono [OF fl] update_items_others)
  next
    case (heartbeat force now t r g' b')
    then show ?thesis using fl dist heartbeat_frame [OF heartbeat(2)] by simp
  qed (use fl dist in simp_all)
  with kept show ?thesis by (simp add: edge_ok_def)
qed

end
