(* ===== verification/EdgeGuarantees.thy ===== *)
theory EdgeGuarantees
  imports EdgeSystem
begin

text \<open>
  What the edge gateway guarantees: of its ledger in every reachable state, of the files it scans, of
  the attempts it makes, and that the backlog drains once the backend answers.
\<close>

section \<open>The ledger in every reachable state\<close>

lemma boot_ok:
  assumes "gateway_start cfg empty_store [] now = Inr g"
  shows "edge_ok env \<lparr>es_config = cfg, es_gateway = g, es_inflight = [], es_backend = b\<rparr>"
proof -
  have "snd (recover_inflight now empty_store) = empty_store"
    by (simp add: recover_inflight_def empty_store_def update_items_def)
  with gateway_start_state [OF assms] have "gw_queue g = empty_store" "gw_spool g = []" by simp_all
  then show ?thesis by (simp add: edge_ok_def empty_store_ok spool_ok_def) (simp add: empty_store_def)
qed

lemma reachable_edge_ok: "edge_reachable env backend s \<Longrightarrow> edge_ok env s"
  by (induction rule: edge_reachable.induct) (simp_all add: boot_ok edge_step_ok)

text \<open>C34. The ledger of the gateway is well-formed in every state its threads, operators, restarts and crashes can
  reach: ids grow, a source is recorded once, the status of every row is one of the six and fits its other
  columns, a tenant's idempotency key belongs to one row that is not a duplicate and every duplicate names
  that earlier row, an item being uploaded is claimed by one thread, and every item to upload still has its
  bytes in the spool directory. The ingestion of one file is one step.\<close>

theorem ledger_well_formed:
  assumes "edge_reachable env backend s"
  shows "edge_ok env s"
  using assms by (induction rule: edge_reachable.induct) (simp_all add: boot_ok edge_step_ok)

lemma edge_steps_keep:
  assumes "(edge_step env backend)\<^sup>*\<^sup>* s s'" "edge_ok env s"
  shows "edge_ok env s' \<and> store_evolves (gw_queue (es_gateway s)) (gw_queue (es_gateway s'))"
  using assms
proof (induction rule: rtranclp_induct)
  case (step y z)
  then show ?case
    using edge_step_keeps [OF step(2)] edge_step_ok [OF step(2)] store_evolves_trans
    by (auto simp: gateway_keeps_def)
qed simp

text \<open>C35. The ledger is an audit trail. Nothing that happens later removes a row or changes where it came from, what
  it holds and what it is uploaded as; its attempts are never forgotten; and a row that is UPLOADED, REJECTED
  or DUPLICATE is never written again.\<close>

theorem ledger_rows_are_kept:
  assumes "edge_reachable env backend s" "(edge_step env backend)\<^sup>*\<^sup>* s s'"
    and "r \<in> set (qs_rows (gw_queue (es_gateway s)))"
  shows "\<exists>r' \<in> set (qs_rows (gw_queue (es_gateway s'))). identity r' = identity r \<and>
    qi_attempts r \<le> qi_attempts r' \<and>
    (qi_status r' = qi_status r \<or> live r \<and> (live r' \<or> qi_status r' = ''UPLOADED'')) \<and>
    (qi_status r \<in> {''UPLOADED'', ''REJECTED'', ''DUPLICATE''} \<longrightarrow> r' = r)"
proof -
  have "store_evolves (gw_queue (es_gateway s)) (gw_queue (es_gateway s'))"
    using edge_steps_keep [OF assms(2) reachable_edge_ok [OF assms(1)]] by simp
  from store_evolves_row [OF this assms(3)] obtain r'
    where "r' \<in> set (qs_rows (gw_queue (es_gateway s')))" "row_evolves r r'" by blast
  then show ?thesis by (intro bexI [of _ r']) (auto simp: row_evolves_def live_def)
qed

section \<open>No file is lost\<close>

definition on_record :: "edge_env \<Rightarrow> GatewayConfig \<Rightarrow> watched_file \<Rightarrow> file_reads \<Rightarrow> QueueStore \<Rightarrow> bool" where
  "on_record env cfg e rd q \<longleftrightarrow> (\<exists>r \<in> set (qs_rows q).
     qi_source_fingerprint r = rejection_fingerprint env cfg e rd \<or>
     (\<exists>st. rd_stat rd = Inr st \<and> qi_source_fingerprint r = source_fingerprint env e st))"

definition rearmed_file :: "watched_file \<Rightarrow> gateway \<Rightarrow> bool" where
  "rearmed_file e g \<longleftrightarrow> (case map_of (gw_observations g) (fe_resolved e) of
     None \<Rightarrow> True | Some ob \<Rightarrow> ob_emitted ob = None)"

lemma reset_rearms: "rearmed_file e (g\<lparr>gw_observations := reset_observation e obs\<rparr>)"
  by (simp add: rearmed_file_def reset_observation_def update_conv' split: option.splits)

lemma reset_keeps_rearmed:
  "rearmed_file e g \<Longrightarrow> rearmed_file e (g\<lparr>gw_observations := reset_observation e' (gw_observations g)\<rparr>)"
  by (auto simp: rearmed_file_def reset_observation_def update_conv' split: option.splits)

lemma rearmed_frame [simp]:
  "rearmed_file e (set_error c m s now g) = rearmed_file e g"
  "rearmed_file e (archive_source cfg e' d moved g) = rearmed_file e g"
  by (simp_all add: rearmed_file_def)

lemma ingest_file_observations: "gw_observations (snd (ingest_file env cfg now e rd g)) = gw_observations g"
  by (auto simp: ingest_file_def split: sum.splits option.splits prod.splits dest: atomic_spool_frame)

lemma handle_reject_observations:
  "gw_observations (snd (handle_reject env cfg now e rd c m x g)) \<in>
     {gw_observations g, reset_observation e (gw_observations g)}"
  by (auto simp: handle_reject_def Let_def split: prod.splits sum.splits)

lemma scan_file_observations:
  "gw_observations (snd (scan_file env cfg now e rd g)) \<in> {gw_observations g, reset_observation e (gw_observations g)}"
proof -
  obtain r g1 where i: "ingest_file env cfg now e rd g = (r, g1)" by (cases "ingest_file env cfg now e rd g")
  with ingest_file_observations have o1: "gw_observations g1 = gw_observations g" by (metis snd_conv)
  show ?thesis
  proof (cases r)
    case (Inl x)
    then show ?thesis using o1 handle_reject_observations [of env cfg now e rd _ _ _ g1]
      by (cases x) (simp_all add: scan_file_def i)
  qed (simp add: scan_file_def i o1)
qed

lemma scan_file_keeps_rearmed:
  "rearmed_file e' g \<Longrightarrow> rearmed_file e' (snd (scan_file env cfg now e rd g))"
  using scan_file_observations [of env cfg now e rd g] reset_keeps_rearmed [of e' g e]
  by (auto simp: rearmed_file_def)

lemma on_record_mono: "on_record env cfg e rd q \<Longrightarrow> set (qs_rows q) \<subseteq> set (qs_rows q') \<Longrightarrow> on_record env cfg e rd q'"
  by (auto simp: on_record_def)

lemma ingest_file_outcome:
  assumes "store_ok (gw_queue g)" "ingest_file env cfg now e rd g = (Inr x, g1)"
  shows "on_record env cfg e rd (gw_queue g1)"
proof (cases "prepare_file env cfg e rd (gw_queue g)")
  case (Inl x')
  with assms(2) show ?thesis by (simp add: ingest_file_def)
next
  case (Inr po)
  then obtain st where st: "rd_stat rd = Inr st"
    and po: "(po = None \<and> find_source (source_fingerprint env e st) (gw_queue g) \<noteq> None) \<or>
      (\<exists>p. po = Some p \<and> pr_fingerprint p = source_fingerprint env e st)"
    by (auto simp: prepare_file_def os_call_def Let_def split: if_splits sum.splits)
  show ?thesis
  proof (cases po)
    case None
    with po obtain i where "find_source (source_fingerprint env e st) (gw_queue g) = Some i" by auto
    from find_source_Some [OF this] st have "on_record env cfg e rd (gw_queue g)" by (auto simp: on_record_def)
    with assms(2) Inr None show ?thesis by (simp add: ingest_file_def)
  next
    case (Some p)
    obtain a g0 where sp: "atomic_spool cfg (pr_assessment p) (rd_spool rd) g = (a, g0)"
      by (cases "atomic_spool cfg (pr_assessment p) (rd_spool rd) g")
    show ?thesis
    proof (cases a)
      case (Inr path)
      obtain y q where e: "enqueue (enqueue_args cfg e p path) now (gw_queue g) = (y, q)"
        by (cases "enqueue (enqueue_args cfg e p path) now (gw_queue g)")
      have "records_source (pr_fingerprint p) (gw_queue g) (y, q)"
        using enqueue_records [OF assms(1), of "enqueue_args cfg e p path" now] e by (simp add: enqueue_args_def)
      then obtain r where "y = Inr (row_item r)" "r \<in> set (qs_rows q)" "qi_source_fingerprint r = source_fingerprint env e st"
        using po Some by (auto simp: records_source_def)
      then show ?thesis
        using assms(2) \<open>prepare_file _ _ _ _ _ = _\<close> Some sp Inr e atomic_spool_frame [OF sp] st
        by (auto simp: ingest_file_def on_record_def)
    qed (use assms(2) \<open>prepare_file _ _ _ _ _ = _\<close> Some sp in \<open>simp add: ingest_file_def\<close>)
  qed
qed

lemma handle_reject_outcome:
  assumes "store_ok (gw_queue g)" "handle_reject env cfg now e rd c m x g = (Inr y, g1)"
  shows "on_record env cfg e rd (gw_queue g1) \<or> rearmed_file e g1"
proof (cases "c = ''FILE_STILL_WRITING''")
  case True
  with assms(2) show ?thesis using reset_rearms by (auto simp: handle_reject_def)
next
  case False
  let ?a = "rejection_args cfg e (rejection_fingerprint env cfg e rd) c m"
  obtain z q where r: "record_rejection ?a now (gw_queue g) = (z, q)" by (cases "record_rejection ?a now (gw_queue g)")
  have "records_source (rejection_fingerprint env cfg e rd) (gw_queue g) (z, q)"
    using record_rejection_records [OF assms(1), of ?a now] r by (simp add: rejection_args_def)
  then have "on_record env cfg e rd q" "\<exists>i. z = Inr i" by (auto simp: records_source_def on_record_def)
  with False assms(2) r show ?thesis by (auto simp: handle_reject_def Let_def)
qed

lemma scan_file_outcome:
  assumes "store_ok (gw_queue g)" "spool_ok env g" "scan_file env cfg now e rd g = (Inr x, g')"
  shows "on_record env cfg e rd (gw_queue g') \<or> rearmed_file e g'"
proof -
  obtain r g1 where i: "ingest_file env cfg now e rd g = (r, g1)" by (cases "ingest_file env cfg now e rd g")
  have ok: "store_ok (gw_queue g1)"
    using ingest_file_keeps [OF assms(1,2), of cfg now e rd] i by (simp add: gateway_keeps_def)
  show ?thesis
  proof (cases r)
    case (Inl y)
    then show ?thesis
      using assms(3) i handle_reject_outcome [OF ok, of env cfg now e rd] reset_rearms
      by (cases y) (auto simp: scan_file_def)
  next
    case (Inr y)
    with assms(3) i ingest_file_outcome [OF assms(1), of env cfg now e rd y g1] show ?thesis
      by (simp add: scan_file_def)
  qed
qed

lemma scan_files_outcome:
  "store_ok (gw_queue g) \<Longrightarrow> spool_ok env g \<Longrightarrow> scan_files env cfg now reads es g = (Inr items, g') \<Longrightarrow>
     (\<forall>e \<in> set es. on_record env cfg e (reads e) (gw_queue g') \<or> rearmed_file e g') \<and>
     (\<forall>e. rearmed_file e g \<longrightarrow> rearmed_file e g') \<and> set (qs_rows (gw_queue g)) \<subseteq> set (qs_rows (gw_queue g'))"
proof (induction es arbitrary: g items)
  case Nil
  then show ?case by simp
next
  case (Cons e es)
  obtain x g1 where f: "scan_file env cfg now e (reads e) g = (Inr x, g1)"
    using Cons.prems(3) by (cases "scan_file env cfg now e (reads e) g") (auto split: sum.splits)
  obtain rest where r: "scan_files env cfg now reads es g1 = (Inr rest, g')"
    using Cons.prems(3) f by (auto split: prod.splits sum.splits)
  have ok: "store_ok (gw_queue g1)" "spool_ok env g1"
    using scan_file_keeps [OF Cons.prems(1,2), of cfg now e "reads e"] f by (simp_all add: gateway_keeps_def)
  note IH = Cons.IH [OF ok r]
  have rows: "set (qs_rows (gw_queue g)) \<subseteq> set (qs_rows (gw_queue g1))"
    using scan_file_rows [of g env cfg now e "reads e"] f by simp
  have here: "on_record env cfg e (reads e) (gw_queue g1) \<or> rearmed_file e g1"
    by (rule scan_file_outcome [OF Cons.prems(1,2) f])
  have "rearmed_file e' g1" if "rearmed_file e' g" for e'
    using scan_file_keeps_rearmed [OF that, of env cfg now e "reads e"] f by simp
  with IH here rows show ?case by (auto intro: on_record_mono)
qed

text \<open>C36. No file is lost. After a scan that returned, every file the watcher emitted in it is on record in the ledger,
  queued, duplicate or rejected, or its observation is armed again so that the next cycles retry it. (A scan does
  not return when an exception escapes that its loop does not catch.)\<close>

theorem scanned_files_are_accounted_for:
  assumes "store_ok (gw_queue g)" "spool_ok env g"
    and "scan_once env cfg now monotonic listing reads g = (Inr items, g')"
    and "e \<in> set (snd (stable_files cfg monotonic listing (gw_observations g)))"
  shows "on_record env cfg e (reads e) (gw_queue g') \<or> rearmed_file e g'"
proof -
  obtain obs found where s: "stable_files cfg monotonic listing (gw_observations g) = (obs, found)"
    by (cases "stable_files cfg monotonic listing (gw_observations g)")
  have "store_ok (gw_queue (g\<lparr>gw_observations := obs\<rparr>))" "spool_ok env (g\<lparr>gw_observations := obs\<rparr>)"
    using assms(1,2) by (simp_all add: spool_ok_def)
  from scan_files_outcome [OF this] assms(3,4) s show ?thesis by (simp add: scan_once_def)
qed

section \<open>Attempts\<close>

lemma retry_delay_power: "retry_delay n = 2 ^ min n 10"
proof -
  have "(2 :: rat) ^ min n 10 \<le> 2 ^ 10" by (rule power_increasing) simp_all
  then show ?thesis by (simp add: retry_delay_def)
qed

lemma delay_of_retry: "delay_microseconds (retry_delay n) = 1000000 * 2 ^ min n 10"
proof -
  have "retry_delay n * 1000000 = of_int (1000000 * 2 ^ min n 10)" by (simp add: retry_delay_power)
  moreover have "max 0 (retry_delay n) = retry_delay n" by (simp add: retry_delay_power)
  ultimately show ?thesis by (simp only: delay_microseconds_def round_half_even_int)
qed

lemma mark_failed_result:
  assumes "store_ok q" "r \<in> set (qs_rows q)" "qi_id r = i"
  shows "mark_failed i c m retry d now q =
    (Some (row_item (failed c m retry d now r)), update_items (\<lambda>x. qi_id x = i) (failed c m retry d now) q)"
  using assms queue_get_updated [OF assms(1,2), of "\<lambda>x. qi_id x = i" "failed c m retry d now"]
  by (simp add: mark_failed_def Let_def failed_def)

lemma mark_uploaded_result:
  assumes "store_ok q" "r \<in> set (qs_rows q)" "qi_id r = i"
  shows "mark_uploaded i insp now q =
    (Some (row_item (uploaded insp now r)), update_items (\<lambda>x. qi_id x = i) (uploaded insp now) q)"
  using assms queue_get_updated [OF assms(1,2), of "\<lambda>x. qi_id x = i" "uploaded insp now"]
  by (simp add: mark_uploaded_def Let_def uploaded_def)

text \<open>What the uploader made of the answer to an item.\<close>

definition upload_answers :: "edge_env \<Rightarrow> 'b Backend \<Rightarrow> GatewayConfig \<Rightarrow> int \<Rightarrow> string + unit \<Rightarrow> QueueItem \<Rightarrow>
    gateway \<Rightarrow> 'b \<Rightarrow> upload_exn + UploadResult \<Rightarrow> 'b \<Rightarrow> bool" where
  "upload_answers env backend cfg now answer item g b result b' \<longleftrightarrow> truthy (qi_spool_path item) \<and>
     (\<exists>data. read_spool (spool_path_of item) answer g = Inr data \<and>
        upload env backend (gc_settings cfg) (gc_pack cfg) now item data b = (result, b'))"

lemma finish_after_upload:
  assumes "upload_answers env backend cfg now answer item g b result b'"
  shows "finish_upload env backend cfg now answer item g b = (case result of
     Inl (UploadError c m retry) \<Rightarrow> (fail_item item c m retry (retry_delay (qi_attempts item)) now g, b')
   | Inl (UploadEscape t m) \<Rightarrow> ((Inl (EdgeError t m), g), b')
   | Inr x \<Rightarrow> ((Inr (fst (mark_uploaded (qi_id item) (ur_inspection_id x) now (gw_queue g))),
       g\<lparr>gw_queue := snd (mark_uploaded (qi_id item) (ur_inspection_id x) now (gw_queue g)),
         gw_last_success_at := Some now, gw_last_error := None\<rparr>), b'))"
  using assms by (auto simp: upload_answers_def finish_upload_def with_queue_eq split: sum.splits upload_exn.splits)

lemma upload_once_claims:
  assumes "store_ok (gw_queue g)" "r \<in> set (qs_rows (gw_queue g))" "is_due now r"
  shows "\<exists>row g1. oldest_due now (gw_queue g) row \<and>
    g1 = g\<lparr>gw_queue := update_items (\<lambda>x. qi_id x = qi_id row) (claimed now) (gw_queue g)\<rparr> \<and>
    store_ok (gw_queue g1) \<and> claimed now row \<in> set (qs_rows (gw_queue g1)) \<and>
    upload_once env backend cfg now answer g b
      = finish_upload env backend cfg now answer (row_item (claimed now row)) g1 b"
proof -
  obtain row where row: "oldest_due now (gw_queue g) row"
    and c: "claim_due now now (gw_queue g) = (Some (row_item (claimed now row)),
      update_items (\<lambda>x. qi_id x = qi_id row) (claimed now) (gw_queue g))"
    using claim_due_some [OF assms] by blast
  have "claimed now row \<in> set (update_where (\<lambda>x. qi_id x = qi_id row) (claimed now) (qs_rows (gw_queue g)))"
    using row by (force simp: oldest_due_def set_update_where)
  moreover have "store_ok (update_items (\<lambda>x. qi_id x = qi_id row) (claimed now) (gw_queue g))"
    using claim_due_keeps [OF assms(1), of now now] c assms(1) by (simp add: keeps_ledger_def)
  ultimately show ?thesis using row c by (auto simp: upload_once_def with_queue_eq)
qed

lemma upload_once_idle:
  "(\<forall>r \<in> set (qs_rows (gw_queue g)). \<not> is_due now r) \<Longrightarrow> upload_once env backend cfg now answer g b = ((Inr None, g), b)"
  by (simp add: upload_once_def with_queue_eq claim_due_none)

lemma claimed_id [simp]: "qi_id (claimed now r) = qi_id r"
  and failed_id [simp]: "qi_id (failed c m retry d now r) = qi_id r"
  and uploaded_id [simp]: "qi_id (uploaded insp now r) = qi_id r"
  by (simp_all add: claimed_def failed_def uploaded_def)

lemma failed_item: "qi_retryable (row_item (failed c m retry d now r)) = retry"
  and uploaded_item: "qi_status (row_item (uploaded insp now r)) = ''UPLOADED''"
  by (simp_all add: row_item_def failed_def uploaded_def)

text \<open>How an upload may come back.\<close>

lemma finish_upload_returns:
  assumes "store_ok (gw_queue g)" "r \<in> set (qs_rows (gw_queue g))"
    and "finish_upload env backend cfg now answer (row_item r) g b = ((Inr (Some i), g'), b')"
  shows "(\<exists>c m d. i = row_item (failed c m False d now r)) \<or>
    (\<exists>c m. i = row_item (failed c m True (retry_delay (qi_attempts r)) now r)) \<or>
    (\<exists>insp. i = row_item (uploaded insp now r))"
proof -
  have fail: "fst (fail_item (row_item r) c m retry d now g) = Inr (Some (row_item (failed c m retry d now r)))" for c m retry d
    by (simp add: fail_item_frame mark_failed_result [OF assms(1,2)])
  show ?thesis
  proof (cases "\<exists>result b1. upload_answers env backend cfg now answer (row_item r) g b result b1")
    case True
    then obtain result b1 where "upload_answers env backend cfg now answer (row_item r) g b result b1" by blast
    from finish_after_upload [OF this] assms(3)
    have f: "(case result of
     Inl (UploadError c m retry) \<Rightarrow> (fail_item (row_item r) c m retry (retry_delay (qi_attempts (row_item r))) now g, b1)
   | Inl (UploadEscape t m) \<Rightarrow> ((Inl (EdgeError t m), g), b1)
   | Inr x \<Rightarrow> ((Inr (fst (mark_uploaded (qi_id (row_item r)) (ur_inspection_id x) now (gw_queue g))),
       g\<lparr>gw_queue := snd (mark_uploaded (qi_id (row_item r)) (ur_inspection_id x) now (gw_queue g)),
         gw_last_success_at := Some now, gw_last_error := None\<rparr>), b1)) = ((Inr (Some i), g'), b')" by simp
    show ?thesis
    proof (cases result)
      case (Inr x)
      with f show ?thesis by (auto simp: mark_uploaded_result [OF assms(1,2)])
    next
      case (Inl e)
      show ?thesis
      proof (cases e)
        case (UploadError c m retry)
        with f Inl have "fail_item (row_item r) c m retry (retry_delay (qi_attempts r)) now g = (Inr (Some i), g')" by simp
        with fail [of c m retry "retry_delay (qi_attempts r)"]
        have "i = row_item (failed c m retry (retry_delay (qi_attempts r)) now r)" by simp
        then have "retry \<Longrightarrow> i = row_item (failed c m True (retry_delay (qi_attempts r)) now r)"
          "\<not> retry \<Longrightarrow> i = row_item (failed c m False (retry_delay (qi_attempts r)) now r)" by simp_all
        then show ?thesis by blast
      qed (use f Inl in simp)
    qed
  next
    case False
    then have "\<exists>c m. finish_upload env backend cfg now answer (row_item r) g b = (fail_item (row_item r) c m False 0 now g, b)"
      by (cases "upload env backend (gc_settings cfg) (gc_pack cfg) now (row_item r)
            (projr (read_spool (spool_path_of (row_item r)) answer g)) b")
        (auto simp: finish_upload_def upload_answers_def split: sum.splits)
    with fail assms(3) show ?thesis by (metis Pair_inject fst_conv option.inject sum.inject(2))
  qed
qed

text \<open>Failed attempts back off. An item that a retryable failure leaves in the queue was attempted at least once and
  is scheduled exactly \<open>2 ^ min attempts 10\<close> seconds later, so between two seconds and 1024 (the cap of an
  hour is never reached), and it is not claimed again before that.\<close>

theorem retries_back_off:
  assumes "store_ok (gw_queue g)"
    and "upload_once env backend cfg now answer g b = ((Inr (Some i), g'), b')"
    and "qi_status i = ''FAILED''" "qi_retryable i"
  shows "\<exists>d. qi_next_attempt_at i = Some (now + d) \<and> d = 1000000 * 2 ^ min (qi_attempts i) 10 \<and>
    1 \<le> qi_attempts i \<and> 2000000 \<le> d \<and> d \<le> 1024000000 \<and> (\<forall>t < now + d. \<not> is_due t i)"
proof -
  obtain r where "r \<in> set (qs_rows (gw_queue g))" "is_due now r"
    using assms(2) upload_once_idle [of g now env backend cfg answer b] by auto
  from upload_once_claims [OF assms(1) this, of env backend cfg answer b] obtain row g1
    where g1: "store_ok (gw_queue g1)" "claimed now row \<in> set (qs_rows (gw_queue g1))"
      and run: "upload_once env backend cfg now answer g b
        = finish_upload env backend cfg now answer (row_item (claimed now row)) g1 b"
    by blast
  have f: "finish_upload env backend cfg now answer (row_item (claimed now row)) g1 b = ((Inr (Some i), g'), b')"
    using assms(2) run by (rule subst [rotated])
  have "\<exists>c m. i = row_item (failed c m True (retry_delay (qi_attempts (claimed now row))) now (claimed now row))"
    using finish_upload_returns [OF g1 f]
  proof (elim disjE)
    assume "\<exists>c m d. i = row_item (failed c m False d now (claimed now row))"
    then have "\<not> qi_retryable i" using failed_item by blast
    with assms(4) show ?thesis by simp
  next
    assume "\<exists>insp. i = row_item (uploaded insp now (claimed now row))"
    then have "qi_status i = ''UPLOADED''" using uploaded_item by blast
    with assms(3) show ?thesis by simp
  qed
  then obtain c m where i: "i = row_item (failed c m True (retry_delay (Suc (qi_attempts row))) now (claimed now row))"
    by (auto simp: claimed_def)
  let ?n = "min (Suc (qi_attempts row)) 10"
  have "(2 :: int) ^ 1 \<le> 2 ^ ?n" "(2 :: int) ^ ?n \<le> 2 ^ 10" by (rule power_increasing; simp)+
  moreover have "qi_next_attempt_at i = Some (now + 1000000 * 2 ^ ?n)" "qi_attempts i = Suc (qi_attempts row)"
    by (simp_all add: i row_item_def failed_def delay_of_retry claimed_def)
  ultimately show ?thesis by (simp add: is_due_def)
qed

section \<open>The backlog drains\<close>

definition answers :: "'b Backend \<Rightarrow> bool" where
  "answers backend \<longleftrightarrow> (\<forall>request b. \<exists>code d insp b'. be_upload backend request b = (EdgeResponse code (Some (JObj d)), b') \<and>
     accepted_code code \<and> jget ''inspection_id'' d = Some insp)"

lemma nonempty_truthy [simp]: "truthy (nonempty s) = truthy s"
  by (cases s) (auto simp: nonempty_def)

lemma nonempty_id: "truthy s \<Longrightarrow> nonempty s = s"
  by (simp add: nonempty_def)

lemma row_item_request [simp]:
  "qi_spool_path (row_item r) = nonempty (qi_spool_path r)"
  "qi_idempotency_key (row_item r) = nonempty (qi_idempotency_key r)"
  "qi_mime_type (row_item r) = nonempty (qi_mime_type r)"
  by (simp_all add: row_item_def)

lemma upload_answered:
  assumes "answers backend" "gateway_token env (gc_settings cfg) (gc_pack cfg) now = Inr t"
    and "spool_holds env (gw_spool g) r" "qi_spool_path r \<noteq> None"
  shows "\<exists>result b'. upload_answers env backend cfg now (Inr ()) (row_item r) g b (Inr result) b'"
proof -
  obtain p d where p: "qi_spool_path r = Some p" "p \<noteq> []" "truthy (qi_idempotency_key r)" "truthy (qi_mime_type r)"
      "map_of (gw_spool g) p = Some d"
    using assms(3,4) by (auto simp: spool_holds_def split: option.splits)
  then have read: "read_spool (spool_path_of (row_item r)) (Inr ()) g = Inr d"
    by (simp add: read_spool_def spool_path_of_def nonempty_id)
  obtain req where req: "upload_request env (gc_settings cfg) (gc_pack cfg) now (row_item r) d = Inr req"
    using p assms(2) by (auto simp: upload_request_def upload_headers_def Let_def)
  obtain code body insp b' where post: "be_upload backend req b = (EdgeResponse code (Some (JObj body)), b')"
    "accepted_code code" "jget ''inspection_id'' body = Some insp"
    using assms(1) unfolding answers_def by blast
  then obtain result where "classify_reply env (EdgeResponse code (Some (JObj body))) = Inr result"
    by (simp add: classify_reply_def upload_result_def)
  then have "upload env backend (gc_settings cfg) (gc_pack cfg) now (row_item r) d b = (Inr result, b')"
    using req post(1) by (simp add: upload_def)
  with read p show ?thesis by (auto simp: upload_answers_def)
qed

lemma update_where_twice:
  assumes "\<And>r. P (f r) = P r"
  shows "update_where P h (update_where P f rs) = update_where P (\<lambda>r. h (f r)) rs"
  using assms by (induction rs) auto

definition delivered :: "string \<Rightarrow> int \<Rightarrow> QueueItem \<Rightarrow> QueueItem" where
  "delivered insp now r = uploaded insp now (claimed now r)"

lemma due_carries: "item_ok r \<Longrightarrow> is_due now r \<Longrightarrow> qi_spool_path r \<noteq> None"
  by (auto simp: item_defs is_due_def)

lemma upload_once_delivers:
  assumes "store_ok (gw_queue g)" "spool_ok env g" "answers backend"
    and "gateway_token env (gc_settings cfg) (gc_pack cfg) now = Inr t"
    and "r \<in> set (qs_rows (gw_queue g))" "is_due now r"
  shows "\<exists>row insp x g' b'. oldest_due now (gw_queue g) row \<and>
    upload_once env backend cfg now (Inr ()) g b = ((x, g'), b') \<and>
    gw_queue g' = update_items (\<lambda>x. qi_id x = qi_id row) (delivered insp now) (gw_queue g) \<and>
    gateway_keeps env g g'"
proof -
  from upload_once_claims [OF assms(1,5,6), of env backend cfg "Inr ()" b] obtain row g1
    where row: "oldest_due now (gw_queue g) row"
      and g1: "g1 = g\<lparr>gw_queue := update_items (\<lambda>x. qi_id x = qi_id row) (claimed now) (gw_queue g)\<rparr>"
      "store_ok (gw_queue g1)" "claimed now row \<in> set (qs_rows (gw_queue g1))"
      and run: "upload_once env backend cfg now (Inr ()) g b
        = finish_upload env backend cfg now (Inr ()) (row_item (claimed now row)) g1 b"
    by blast
  have holds: "spool_holds env (gw_spool g1) (claimed now row)"
  proof -
    have "spool_holds env (gw_spool g) row" using row assms(2) by (simp add: oldest_due_def spool_ok_def)
    moreover have "is_due now row" using row by (simp add: oldest_due_def)
    ultimately show ?thesis by (simp add: g1(1) spool_holds_evolves [OF claimed_evolves])
  qed
  have "qi_spool_path (claimed now row) \<noteq> None"
    using row store_ok_item [OF assms(1)] due_carries by (auto simp: oldest_due_def claimed_def)
  from upload_answered [OF assms(3,4) holds this] obtain result b'
    where ans: "upload_answers env backend cfg now (Inr ()) (row_item (claimed now row)) g1 b (Inr result) b'" by blast
  let ?insp = "ur_inspection_id result"
  let ?g' = "g1\<lparr>gw_queue := snd (mark_uploaded (qi_id row) ?insp now (gw_queue g1)),
    gw_last_success_at := Some now, gw_last_error := None\<rparr>"
  have ran: "upload_once env backend cfg now (Inr ()) g b
      = ((Inr (fst (mark_uploaded (qi_id row) ?insp now (gw_queue g1))), ?g'), b')"
    using finish_after_upload [OF ans] by (simp add: run)
  have q: "gw_queue ?g' = update_items (\<lambda>x. qi_id x = qi_id row) (delivered ?insp now) (gw_queue g)"
    by (simp add: g1(1) mark_uploaded_def Let_def update_items_def update_where_twice delivered_def [abs_def])
  have up: "uploading (qi_id row) (gw_queue g1)" 
    unfolding uploading_def by (rule bexI [OF _ g1(3)]) (simp add: claimed_def)
  have k1: "keeps_ledger (gw_queue g) (gw_queue g1)"
    using g1(1,2) assms(1) row same_id [OF assms(1)]
    by (auto simp: keeps_ledger_def oldest_due_def simp del: update_items_rows intro!: update_evolves claimed_evolves)
  have "keeps_ledger (gw_queue g) (gw_queue ?g')"
    using keeps_ledger_trans [OF k1 mark_uploaded_keeps [OF g1(2) up]] by simp
  then have "gateway_keeps env g ?g'"
    by (rule gateway_keeps_ledger [OF assms(1,2)]) (simp_all add: g1(1) mark_uploaded_def Let_def new_rows_def)
  with row ran q show ?thesis by blast
qed

text \<open>The uploads of \<open>n\<close> cycles at one moment.\<close>

fun drain :: "edge_env \<Rightarrow> 'b Backend \<Rightarrow> GatewayConfig \<Rightarrow> int \<Rightarrow> nat \<Rightarrow> gateway \<Rightarrow> 'b \<Rightarrow> gateway \<times> 'b" where
  "drain env backend cfg now 0 g b = (g, b)"
| "drain env backend cfg now (Suc n) g b =
     (case upload_once env backend cfg now (Inr ()) g b of ((_, g1), b1) \<Rightarrow> drain env backend cfg now n g1 b1)"

lemma count_where_mono: "(\<And>r. r \<in> set rs \<Longrightarrow> P r \<Longrightarrow> Q r) \<Longrightarrow> count_where P rs \<le> count_where Q rs"
  by (induction rs) auto

lemma count_where_update_one:
  assumes "distinct (map g rs)" "row \<in> set rs" "P row" "\<not> P (f row)"
  shows "Suc (count_where P (update_where (\<lambda>x. g x = g row) f rs)) = count_where P rs"
  using assms
proof (induction rs)
  case (Cons r rs)
  show ?case
  proof (cases "g r = g row")
    case True
    then have "r = row" "row \<notin> set rs" using Cons.prems(1,2) by (auto simp: image_iff)
    moreover have "update_where (\<lambda>x. g x = g row) f rs = rs"
      using Cons.prems(1) True by (intro update_where_id) (auto simp: image_iff)
    ultimately show ?thesis using Cons.prems by simp
  next
    case False
    then show ?thesis using Cons by auto
  qed
qed simp

lemma delivered_status [simp]: "qi_status (delivered insp now r) = ''UPLOADED''"
  by (simp add: delivered_def uploaded_def)

lemma delivered_not_due: "\<not> is_due t (delivered insp now r)"
  by (simp add: is_due_def)

lemma due_evolves_delivered: "is_due now r \<Longrightarrow> row_evolves r (delivered insp now r)"
  by (auto simp: delivered_def live_def is_due_def row_evolves_def identity_def uploaded_def claimed_def)

lemma drain_keeps:
  "store_ok (gw_queue g) \<Longrightarrow> spool_ok env g \<Longrightarrow> answers backend \<Longrightarrow>
     gateway_token env (gc_settings cfg) (gc_pack cfg) now = Inr t \<Longrightarrow>
     gateway_keeps env g (fst (drain env backend cfg now n g b))"
proof (induction n arbitrary: g b)
  case 0
  then show ?case by (simp add: gateway_keeps_refl)
next
  case (Suc n)
  show ?case
  proof (cases "\<exists>r \<in> set (qs_rows (gw_queue g)). is_due now r")
    case True
    then obtain x g' b' where u: "upload_once env backend cfg now (Inr ()) g b = ((x, g'), b')" "gateway_keeps env g g'"
      using upload_once_delivers [OF Suc.prems] by blast
    then have "gateway_keeps env g' (fst (drain env backend cfg now n g' b'))"
      using Suc.prems(3,4) by (intro Suc.IH) (simp_all add: gateway_keeps_def)
    with u gateway_keeps_trans show ?thesis by auto
  next
    case False
    then show ?thesis using Suc by (simp add: upload_once_idle)
  qed
qed

lemma drain_delivers:
  "store_ok (gw_queue g) \<Longrightarrow> spool_ok env g \<Longrightarrow> answers backend \<Longrightarrow>
     gateway_token env (gc_settings cfg) (gc_pack cfg) now = Inr t \<Longrightarrow>
     count_where (is_due now) (qs_rows (gw_queue g)) \<le> n \<Longrightarrow>
     r \<in> set (qs_rows (gw_queue g)) \<Longrightarrow> is_due now r \<Longrightarrow>
     \<exists>r' \<in> set (qs_rows (gw_queue (fst (drain env backend cfg now n g b)))).
       identity r' = identity r \<and> qi_status r' = ''UPLOADED''"
proof (induction n arbitrary: g b)
  case 0
  then show ?case by (auto simp: count_where_def filter_empty_conv)
next
  case (Suc n)
  note ok = Suc.prems(1-4)
  obtain row insp x g' b' where u: "oldest_due now (gw_queue g) row"
      "upload_once env backend cfg now (Inr ()) g b = ((x, g'), b')"
      "gw_queue g' = update_items (\<lambda>x. qi_id x = qi_id row) (delivered insp now) (gw_queue g)"
      "gateway_keeps env g g'"
    using upload_once_delivers [OF ok Suc.prems(6,7), of b] by blast
  have ok': "store_ok (gw_queue g')" "spool_ok env g'" using u(4) by (simp_all add: gateway_keeps_def)
  have row: "row \<in> set (qs_rows (gw_queue g))" "is_due now row" using u(1) by (simp_all add: oldest_due_def)
  have run: "drain env backend cfg now (Suc n) g b = drain env backend cfg now n g' b'" by (simp add: u(2))
  show ?case
  proof (cases "qi_id r = qi_id row")
    case True
    have "delivered insp now r \<in> set (qs_rows (gw_queue g'))"
      using Suc.prems(6) True by (force simp: u(3) set_update_where)
    moreover have "store_evolves (gw_queue g') (gw_queue (fst (drain env backend cfg now n g' b')))"
      using drain_keeps [OF ok' ok(3,4)] by (simp add: gateway_keeps_def)
    ultimately obtain r' where r': "r' \<in> set (qs_rows (gw_queue (fst (drain env backend cfg now n g' b'))))"
        "row_evolves (delivered insp now r) r'"
      using store_evolves_row by blast
    then have "r' = delivered insp now r" by (simp add: row_evolves_def live_def)
    with r' run show ?thesis
      using row_evolves_identity [OF due_evolves_delivered [OF Suc.prems(7), of insp]] by auto
  next
    case False
    have "Suc (count_where (is_due now) (qs_rows (gw_queue g'))) = count_where (is_due now) (qs_rows (gw_queue g))"
      unfolding u(3) update_items_rows
      by (rule count_where_update_one [where g = qi_id and P = "is_due now"])
        (use store_ok_distinct_ids [OF ok(1)] row in \<open>simp_all add: delivered_not_due\<close>)
    moreover have "r \<in> set (qs_rows (gw_queue g'))"
      using Suc.prems(6) False by (simp add: u(3) update_items_others del: update_items_rows)
    ultimately have "\<exists>r' \<in> set (qs_rows (gw_queue (fst (drain env backend cfg now n g' b')))).
        identity r' = identity r \<and> qi_status r' = ''UPLOADED''"
      using Suc.prems(5,7) by (intro Suc.IH [OF ok' ok(3,4)]) simp_all
    then show ?thesis by (simp only: run)
  qed
qed

text \<open>After a restart no row is held back: what may be retried is due at its scheduled time.\<close>

lemma restarted_due:
  assumes "store_ok q" "gateway_start cfg q spool now = Inr g" "r \<in> set (qs_rows (gw_queue g))" "qi_retryable r"
    and "\<forall>t. qi_next_attempt_at r = Some t \<longrightarrow> t \<le> later"
  shows "is_due later r"
proof -
  have q: "gw_queue g = update_items (\<lambda>r. qi_status r = ''UPLOADING'') (interrupted now) q"
    using gateway_start_state [OF assms(2)] by (simp add: recover_inflight_def)
  have "store_ok (gw_queue g)"
    using recover_keeps [OF assms(1), of now] q assms(1) by (simp add: keeps_ledger_def recover_inflight_def)
  then have "item_ok r" by (rule store_ok_item) (rule assms(3))
  moreover have "qi_status r \<noteq> ''UPLOADING''"
    using assms(3) by (auto simp: q set_update_where interrupted_def)
  ultimately show ?thesis
    using assms(4,5) by (auto simp: item_defs is_due_def split: option.splits)
qed

text \<open>C37. The backlog drains. In whatever state the gateway stopped, once it is started again with a token, a backend
  that answers uploads, spool files that can be read and a clock past the scheduled attempts, one upload per waiting item delivers every
  item that may be retried: nothing queued, failed for the moment or interrupted while uploading is forgotten
  or starved.\<close>

theorem backlog_drains:
  assumes "edge_reachable env backend s"
    and "gateway_start cfg (gw_queue (es_gateway s)) (gw_spool (es_gateway s)) now = Inr g"
    and "gs_mode (gc_settings cfg) \<in> {''demo'', ''production''}" "answers backend"
    and "\<forall>r \<in> set (qs_rows (gw_queue g)). \<forall>t. qi_next_attempt_at r = Some t \<longrightarrow> t \<le> later"
    and "count_where qi_retryable (qs_rows (gw_queue g)) \<le> n"
    and "r \<in> set (qs_rows (gw_queue g))" "qi_retryable r"
  shows "\<exists>r' \<in> set (qs_rows (gw_queue (fst (drain env backend cfg later n g b)))).
    identity r' = identity r \<and> qi_status r' = ''UPLOADED''"
proof -
  have ok: "store_ok (gw_queue (es_gateway s))" "spool_ok env (es_gateway s)"
    using reachable_edge_ok [OF assms(1)] by (simp_all add: edge_ok_def)
  have g: "store_ok (gw_queue g)" "spool_ok env g"
    using recover_gateway_keeps [OF ok assms(2)] by (simp_all add: gateway_keeps_def)
  have "GatewayTokenProvider_init (gc_settings cfg) (gc_pack cfg) = Inr ()"
    using assms(2) by (auto simp: gateway_start_def)
  from token_available [OF this assms(3)] obtain t
    where t: "gateway_token env (gc_settings cfg) (gc_pack cfg) later = Inr t" by blast
  have "count_where (is_due later) (qs_rows (gw_queue g)) \<le> count_where qi_retryable (qs_rows (gw_queue g))"
    using count_where_mono [of _ "is_due later" qi_retryable] by (simp add: is_due_def)
  then show ?thesis
    using drain_delivers [OF g assms(4) t _ assms(7) restarted_due [OF ok(1) assms(2,7,8)]] assms(5-7) by simp
qed

section \<open>What the answer does to the item\<close>

definition fails_with :: "bool \<Rightarrow> QueueItem \<Rightarrow> int \<Rightarrow> edge_exn + QueueItem option \<Rightarrow> bool" where
  "fails_with retry r now result \<longleftrightarrow>
     (\<exists>c m. result = Inr (Some (row_item (failed c m retry (retry_delay (qi_attempts r)) now r))))"

lemma fails_withI:
  assumes "store_ok (gw_queue g)" "r \<in> set (qs_rows (gw_queue g))"
  shows "fails_with retry r now (fst (fail_item (row_item r) c m retry (retry_delay (qi_attempts r)) now g))"
  using mark_failed_result [OF assms] by (auto simp: fails_with_def fail_item_frame)

text \<open>The answer decides what becomes of an item: only a 200, 201 or 202 that names an inspection marks it
  UPLOADED, with that inspection; a 429, a server error, a transport error or an acceptance without an
  inspection leaves it FAILED for another attempt; any other refusal leaves it FAILED until an operator
  retries it. The one answer that settles nothing is a refusal whose JSON body is not an object: an exception
  escapes and the item stays UPLOADING until the process restarts.\<close>

theorem upload_outcomes:
  assumes "store_ok (gw_queue g)" "r \<in> set (qs_rows (gw_queue g))"
    and "truthy (qi_spool_path r)" "read_spool (spool_path_of (row_item r)) answer g = Inr data"
    and "upload_request env (gc_settings cfg) (gc_pack cfg) now (row_item r) data = Inr request"
    and "be_upload backend request b = (reply, b')"
    and "finish_upload env backend cfg now answer (row_item r) g b = ((result, g'), b'')"
  shows "b'' = b' \<and> (case reply of
      EdgeResponse code body \<Rightarrow>
        if accepted_code code
        then (case body of
            Some (JObj d) \<Rightarrow> (case jget ''inspection_id'' d of
                Some i \<Rightarrow> result = Inr (Some (row_item (uploaded (json_str env i) now r)))
              | None \<Rightarrow> fails_with True r now result)
          | _ \<Rightarrow> fails_with True r now result)
        else (case body of
            None \<Rightarrow> fails_with (retryable_code code) r now result
          | Some (JObj d) \<Rightarrow> fails_with (retryable_code code) r now result
          | Some _ \<Rightarrow> (\<exists>t m. result = Inl (EdgeError t m)) \<and> g' = g)
    | _ \<Rightarrow> fails_with True r now result)"
proof -
  have "upload_answers env backend cfg now answer (row_item r) g b (classify_reply env reply) b'"
    using assms(3-6) by (auto simp: upload_answers_def upload_def)
  note f = finish_after_upload [OF this]
  have refusal: "fails_with retry r now result \<and> b'' = b'"
    if "classify_reply env reply = Inl (UploadError c m retry)" for c m retry
    using f assms(7) that fails_withI [OF assms(1,2), of retry now c m] by (simp add: prod_eq_iff)
  have escape: "result = Inl (EdgeError t m) \<and> g' = g \<and> b'' = b'"
    if "classify_reply env reply = Inl (UploadEscape t m)" for t m
    using f assms(7) that by simp
  have success: "result = Inr (Some (row_item (uploaded (ur_inspection_id x) now r))) \<and> b'' = b'"
    if "classify_reply env reply = Inr x" for x
    using f assms(7) that mark_uploaded_result [OF assms(1,2)] by auto
  show ?thesis
  proof (cases reply)
    case (EdgeResponse code body)
    show ?thesis
    proof (cases "accepted_code code")
      case True
      show ?thesis
      proof (cases "\<exists>d i. body = Some (JObj d) \<and> jget ''inspection_id'' d = Some i")
        case named: True
        then show ?thesis using EdgeResponse True success
          by (fastforce simp: classify_reply_def upload_result_def)
      next
        case False
        then have "classify_reply env reply = Inl response_invalid"
          using EdgeResponse True by (auto simp: classify_reply_def upload_result_def split: option.splits json.splits)
        with refusal have "fails_with True r now result \<and> b'' = b'" by (simp add: response_invalid_def)
        then show ?thesis using EdgeResponse True False by (auto split: option.splits json.splits)
      qed
    next
      case False
      then have "classify_reply env reply = Inl (refused env code body)"
        using EdgeResponse by (simp add: classify_reply_def)
      then show ?thesis using EdgeResponse False refusal escape
        by (auto simp: refused_def Let_def split: option.splits json.splits)
    qed
  next
    case (TransportError c)
    then show ?thesis using refusal by (simp add: classify_reply_def)
  next
    case (ClientError c)
    then show ?thesis using refusal by (simp add: classify_reply_def)
  qed
qed

section \<open>The watcher\<close>

lemma observe_other_key:
  "fe_resolved e \<noteq> k \<Longrightarrow> map_of (fst (observe w now e obs)) k = map_of obs k"
  by (auto simp: observe_def update_conv' split: option.splits)

lemma observe_same:
  assumes "map_of obs (fe_resolved e) = map_of obs' (fe_resolved e)"
  shows "snd (observe w now e obs) = snd (observe w now e obs') \<and>
    map_of (fst (observe w now e obs)) (fe_resolved e) = map_of (fst (observe w now e obs')) (fe_resolved e)"
  using assms by (auto simp: observe_def update_conv' split: option.splits)

lemma observe_all_other_key:
  "k \<notin> set (map fe_resolved es) \<Longrightarrow> map_of (fst (observe_all w now es obs)) k = map_of obs k"
proof (induction es arbitrary: obs)
  case (Cons e es)
  obtain obs1 em where e: "observe w now e obs = (obs1, em)" by (cases "observe w now e obs")
  obtain obs2 rest where "observe_all w now es obs1 = (obs2, rest)" by (cases "observe_all w now es obs1")
  with Cons.IH [of obs1] Cons.prems e observe_other_key [of e k w now obs] show ?case by auto
qed simp

lemma observe_all_subset: "set (snd (observe_all w now es obs)) \<subseteq> set es"
proof (induction es arbitrary: obs)
  case (Cons e es)
  obtain obs1 em where e: "observe w now e obs = (obs1, em)" by (cases "observe w now e obs")
  obtain obs2 rest where "observe_all w now es obs1 = (obs2, rest)" by (cases "observe_all w now es obs1")
  with Cons.IH [of obs1] e show ?case by auto
qed simp

lemma observe_all_one:
  assumes "distinct (map fe_resolved es)" "e \<in> set es"
  shows "(e \<in> set (snd (observe_all w now es obs)) \<longleftrightarrow> snd (observe w now e obs)) \<and>
    map_of (fst (observe_all w now es obs)) (fe_resolved e) = map_of (fst (observe w now e obs)) (fe_resolved e)"
  using assms
proof (induction es arbitrary: obs)
  case (Cons a es)
  obtain obs1 em where a: "observe w now a obs = (obs1, em)" by (cases "observe w now a obs")
  obtain obs2 rest where r: "observe_all w now es obs1 = (obs2, rest)" by (cases "observe_all w now es obs1")
  show ?case
  proof (cases "e = a")
    case True
    then have "fe_resolved e \<notin> set (map fe_resolved es)" using Cons.prems(1) by auto
    moreover have "set rest \<subseteq> set es"
      using observe_all_subset [of w now es obs1] r by simp
    ultimately show ?thesis
      using True a r observe_all_other_key [of "fe_resolved e" es w now obs1] by auto
  next
    case False
    then have e: "e \<in> set es" "fe_resolved a \<noteq> fe_resolved e" using Cons.prems by auto
    have "map_of obs1 (fe_resolved e) = map_of obs (fe_resolved e)"
      using observe_other_key [OF e(2), of w now obs] a by simp
    from observe_same [OF this] have
      "snd (observe w now e obs1) = snd (observe w now e obs)"
      "map_of (fst (observe w now e obs1)) (fe_resolved e) = map_of (fst (observe w now e obs)) (fe_resolved e)" by simp_all
    then show ?thesis using Cons.IH [of obs1] Cons.prems(1) e(1) False a r by simp
  qed
qed simp

definition settled :: "GatewayConfig \<Rightarrow> rat \<Rightarrow> (string \<times> Observation) list \<Rightarrow> watched_file \<Rightarrow> bool" where
  "settled cfg now obs e \<longleftrightarrow> (\<exists>st ob. fe_stat e = Some st \<and> map_of obs (fe_resolved e) = Some ob \<and>
     ob_size ob = fst st \<and> ob_mtime_ns ob = snd st \<and> stable_for cfg \<le> now - ob_first_seen ob \<and>
     ob_emitted ob \<noteq> Some (stat_fingerprint st))"

lemma observe_emits: "snd (observe (stable_for cfg) now e obs) \<longleftrightarrow> settled cfg now obs e"
  by (auto simp: observe_def settled_def split: option.splits)

lemma observe_emitted:
  assumes "snd (observe w now e obs)" "fe_stat e = Some st"
  shows "\<exists>ob. map_of (fst (observe w now e obs)) (fe_resolved e) = Some ob \<and> ob_emitted ob = Some (stat_fingerprint st) \<and>
    ob_size ob = fst st \<and> ob_mtime_ns ob = snd st"
  using assms by (auto simp: observe_def update_conv' split: option.splits if_splits)

lemma map_of_filter_key: "map_of (filter (\<lambda>(k, v). P k) xs) k = (if P k then map_of xs k else None)"
  by (induction xs) auto

text \<open>The watcher emits a file exactly when its size and modification time are those it has had since an earlier
  poll at least the stability window ago and that version was not emitted yet; and a version that was emitted
  is not emitted again by the next poll, whenever it is and whatever else is in the directory.\<close>

theorem watcher_emits_settled_files_once:
  assumes "distinct (map fe_resolved (iter_files cfg listing))"
    and "stable_files cfg now listing obs = (obs', found)"
  shows "(e \<in> set found \<longleftrightarrow> e \<in> set (iter_files cfg listing) \<and> settled cfg now obs e) \<and>
    (e \<in> set found \<longrightarrow> \<not> settled cfg later obs' e)"
proof -
  let ?es = "iter_files cfg listing"
  have found: "found = snd (observe_all (stable_for cfg) now ?es obs)"
    and obs': "obs' = filter (\<lambda>(k, v). k \<in> set (map fe_resolved ?es)) (fst (observe_all (stable_for cfg) now ?es obs))"
    using assms(2) by (auto simp: stable_files_def Let_def split: prod.splits)
  have sub: "set found \<subseteq> set ?es" unfolding found by (rule observe_all_subset)
  have iff: "e \<in> set found \<longleftrightarrow> settled cfg now obs e" if "e \<in> set ?es"
    using observe_all_one [OF assms(1) that] by (simp add: found observe_emits)
  have "\<not> settled cfg later obs' e" if e: "e \<in> set found"
  proof -
    have in_es: "e \<in> set ?es" using e sub by blast
    have em: "snd (observe (stable_for cfg) now e obs)" using iff [OF in_es] e by (simp add: observe_emits)
    then obtain st where st: "fe_stat e = Some st" by (auto simp: observe_emits settled_def)
    have "map_of obs' (fe_resolved e) = map_of (fst (observe (stable_for cfg) now e obs)) (fe_resolved e)"
      using observe_all_one [OF assms(1) in_es, of "stable_for cfg" now obs] in_es by (simp add: obs' map_of_filter_key)
    with observe_emitted [OF em st] st show ?thesis by (auto simp: settled_def)
  qed
  with iff sub show ?thesis by blast
qed

end
