(* ===== verification/EdgeBackend.thy ===== *)
theory EdgeBackend
  imports EdgeGuarantees Replay
begin

text \<open>
  The gateway against the backend of this repository: the HTTP layer between them (the bearer token,
  the correlation id of the middleware and the exception handlers of \<^verbatim>\<open>backend/app/main.py\<close>) and the
  upload endpoint behind it, as the \<open>Backend\<close> of the gateway's model.
\<close>

section \<open>The HTTP layer\<close>

definition header :: "string \<Rightarrow> UploadRequest \<Rightarrow> string option" where
  "header name rq = map_of (uq_headers rq) name"

definition bearer_token :: "UploadRequest \<Rightarrow> string option" where
  "bearer_token rq = (case header ''Authorization'' rq of
     None \<Rightarrow> None
   | Some v \<Rightarrow> if startswith ''Bearer '' v then Some (drop 7 v) else None)"

text \<open>\<open>supplied[:128] if supplied else f"corr_..."\<close>.\<close>

definition request_correlation :: "string \<Rightarrow> UploadRequest \<Rightarrow> string" where
  "request_correlation generated rq = (case header ''X-Correlation-ID'' rq of
     None \<Rightarrow> generated | Some s \<Rightarrow> if s = [] then generated else take 128 s)"

text \<open>The text parts of the multipart body, and the file, which is no text.\<close>

definition multipart_form :: "UploadRequest \<Rightarrow> form" where
  "multipart_form rq = map (\<lambda>(k, v). (k, Some v)) (uq_form rq) @ [(''image'', None)]"

definition kind_code :: "error_kind \<Rightarrow> string" where
  "kind_code k = (case k of NotFound \<Rightarrow> ''not_found'' | Conflict \<Rightarrow> ''conflict'' | Forbidden \<Rightarrow> ''forbidden''
     | InvalidInput \<Rightarrow> ''invalid_input'' | DependencyUnavailable \<Rightarrow> ''dependency_unavailable'')"

text \<open>\<open>service_error_handler\<close>, the framework's answer to an HTTPException, and its plain text answer to
  any other exception.\<close>

definition error_reply :: "string \<Rightarrow> exn \<Rightarrow> edge_reply" where
  "error_reply corr e = (case e of
     ServiceError k message details \<Rightarrow> EdgeResponse (status_code k) (Some (JObj
       [(''code'', JStr (kind_code k)), (''message'', JStr message), (''correlation_id'', JStr corr),
        (''details'', case details of None \<Rightarrow> JNull | Some d \<Rightarrow> d)]))
   | HTTPException c detail \<Rightarrow> EdgeResponse c (Some (JObj [(''detail'', JStr detail)]))
   | OtherError t m \<Rightarrow> EdgeResponse 500 None)"

text \<open>Of the response body, what the gateway reads.\<close>

definition accepted_reply :: "InspectionResponse \<Rightarrow> edge_reply" where
  "accepted_reply resp = EdgeResponse 202 (Some (JObj
     [(''inspection_id'', JStr (insp_id (ir_inspection resp))),
      (''status'', JStr (status_value (insp_status (ir_inspection resp)))),
      (''idempotent_replay'', JBool (ir_idempotent_replay resp))]))"

definition post_inspection :: "env \<Rightarrow> (string \<Rightarrow> (string \<times> json) list option) \<Rightarrow> UploadRequest \<Rightarrow> world \<Rightarrow>
    edge_reply \<times> world" where
  "post_inspection env decode rq w =
     (let corr = request_correlation ''corr_generated'' rq in
      case get_principal decode (bearer_token rq) of
        Inl e \<Rightarrow> (error_reply corr e, w)
      | Inr pr \<Rightarrow>
          (case header ''Idempotency-Key'' rq of
             None \<Rightarrow> (EdgeResponse 422 (Some (JObj [(''code'', JStr ''request_validation_error'')])), w)
           | Some key \<Rightarrow>
              (case transaction (api_create_inspection env id pr corr (multipart_form rq) (uq_image rq)
                  (Some (uq_mime_type rq)) key (header ''X-Gateway-ID'' rq)) w of
                 (Inl e, w') \<Rightarrow> (error_reply corr e, w')
               | (Inr resp, w') \<Rightarrow> (accepted_reply resp, w'))))"

text \<open>The heartbeat endpoint on the payload of the gateway, whose keys and types are those of its schema.\<close>

definition payload_text :: "(string \<times> json) list \<Rightarrow> string \<Rightarrow> string option" where
  "payload_text p k = (case jget k p of Some (JStr s) \<Rightarrow> Some s | _ \<Rightarrow> None)"

definition payload_int :: "(string \<times> json) list \<Rightarrow> string \<Rightarrow> int" where
  "payload_int p k = (case jget k p of Some (JInt i) \<Rightarrow> i | _ \<Rightarrow> 0)"

definition heartbeat_request :: "(string \<times> json) list \<Rightarrow> GatewayHeartbeatRequest" where
  "heartbeat_request p =
     \<lparr>hb_gateway_id = or_else (payload_text p ''gateway_id'') [],
      hb_gateway_version = or_else (payload_text p ''gateway_version'') [],
      hb_station_code = or_else (payload_text p ''station_code'') [],
      hb_reported_status = or_else (payload_text p ''reported_status'') ''ONLINE'',
      hb_queue_depth = payload_int p ''queue_depth'', hb_last_error = payload_text p ''last_error'',
      hb_upload_success_count = payload_int p ''upload_success_count'',
      hb_upload_failure_count = payload_int p ''upload_failure_count'',
      hb_pack_key = payload_text p ''deployment_pack_key'',
      hb_pack_version = payload_text p ''deployment_pack_version'',
      hb_metrics = (case jget ''metrics'' p of None \<Rightarrow> JObj [] | Some m \<Rightarrow> m)\<rparr>"

definition post_heartbeat :: "env \<Rightarrow> (string \<Rightarrow> (string \<times> json) list option) \<Rightarrow> (string \<times> string) list \<Rightarrow>
    (string \<times> json) list \<Rightarrow> world \<Rightarrow> edge_reply \<times> world" where
  "post_heartbeat env decode headers payload w =
     (let rq = \<lparr>uq_headers = headers, uq_filename = [], uq_image = [], uq_mime_type = [], uq_form = []\<rparr>;
          corr = request_correlation ''corr_generated'' rq in
      case get_principal decode (bearer_token rq) of
        Inl e \<Rightarrow> (error_reply corr e, w)
      | Inr pr \<Rightarrow>
          (case transaction (api_heartbeat env pr corr (heartbeat_request payload)) w of
             (Inl e, w') \<Rightarrow> (error_reply corr e, w')
           | (Inr status, w') \<Rightarrow> (EdgeResponse 200 (Some (JObj [])), w')))"

definition visionqc :: "env \<Rightarrow> (string \<Rightarrow> (string \<times> json) list option) \<Rightarrow> world Backend" where
  "visionqc env decode = \<lparr>be_upload = post_inspection env decode, be_heartbeat = post_heartbeat env decode\<rparr>"

section \<open>Who the gateway is\<close>

text \<open>The claims of the token the gateway mints make it an edge gateway of the pack's tenant.\<close>

lemma gateway_principal:
  "jget ''sub'' claims = Some (JStr gid) \<Longrightarrow> jget ''tenant_id'' claims = Some (JStr tid) \<Longrightarrow>
   jget ''roles'' claims = Some (JList [JStr ''edge_gateway'']) \<Longrightarrow>
   principal_of_claims claims = Some \<lparr>actor_id = gid, tenant_id = tid, roles = {EDGE_GATEWAY}\<rparr>"
  by (simp add: principal_of_claims_def parse_role_def all_roles_def)

section \<open>Sending an item again\<close>

lemma identity_request:
  assumes "identity item' = identity item"
  shows "qi_id item' = qi_id item" "qi_idempotency_key item' = qi_idempotency_key item"
    "qi_mime_type item' = qi_mime_type item" "qi_original_filename item' = qi_original_filename item"
    "qi_context item' = qi_context item"
  by (rule identity_columns [OF assms])+

lemma upload_request_sent:
  "upload_request eenv s pack now item data = Inr rq \<longleftrightarrow>
     truthy (qi_idempotency_key item) \<and> truthy (qi_mime_type item) \<and>
     (\<exists>tok. gateway_token eenv s pack now = Inr tok \<and> rq = \<lparr>uq_headers = dict_update
          [(''Authorization'', ''Bearer '' @ tok), (''X-Gateway-ID'', provider_gateway_id s pack),
           (''X-Correlation-ID'', take 128 (''gw_'' @ provider_gateway_id s pack @ ''_'' @ show_nat (qi_id item))),
           (''Accept'', ''application/json'')] [(''Idempotency-Key'', the (qi_idempotency_key item))],
        uq_filename = qi_original_filename item, uq_image = data, uq_mime_type = the (qi_mime_type item),
        uq_form = upload_form pack (qi_context item)\<rparr>)"
  by (auto simp: upload_request_def upload_headers_def Let_def)

lemma sent_headers:
  assumes "upload_request eenv s pack now item data = Inr rq" "gateway_token eenv s pack now = Inr tok"
  shows "bearer_token rq = Some tok" "header ''Idempotency-Key'' rq = qi_idempotency_key item"
    "header ''X-Gateway-ID'' rq = Some (provider_gateway_id s pack)" "uq_image rq = data"
    "Some (uq_mime_type rq) = qi_mime_type item" "multipart_form rq = map (\<lambda>(k, v). (k, Some v)) (upload_form pack (qi_context item)) @ [(''image'', None)]"
  using assms
  by (auto simp: upload_request_sent header_def bearer_token_def dict_update_def startswith_def multipart_form_def
      truthy_def split: option.splits)

text \<open>What the endpoint makes of an upload whose fields read as \<open>cx\<close>.\<close>

lemma api_create_inspection_runs:
  assumes "api_create_inspection env btw pr corr ff up ct k gid w = (Inr resp, w')"
    "context_from_fields env pr ff w = (Inr cx, w)"
  shows "create_inspection env btw pr cx (take (max_upload_bytes (settings env) + 1) up) ct k corr w = (Inr resp, w') \<and>
    require_roles [INSPECTOR, QUALITY_MANAGER, ADMIN, EDGE_GATEWAY] pr = Inr pr \<and> valid_key k = Inr () \<and>
    \<not> (EDGE_GATEWAY \<in> roles pr \<and> gid \<noteq> Some (actor_id pr))"
  using assms
  by (auto simp: api_create_inspection_def guarded_def valid_body_def lift_result_def bnd_def require_roles_def
      split: sum.splits if_splits)

lemma api_create_inspection_eval:
  assumes "require_roles [INSPECTOR, QUALITY_MANAGER, ADMIN, EDGE_GATEWAY] pr = Inr pr" "valid_key k = Inr ()"
    "\<not> (EDGE_GATEWAY \<in> roles pr \<and> gid \<noteq> Some (actor_id pr))" "context_from_fields env pr ff w = (Inr cx, w)"
  shows "api_create_inspection env btw pr corr ff up ct k gid w =
    create_inspection env btw pr cx (take (max_upload_bytes (settings env) + 1) up) ct k corr w"
  using assms by (auto simp: api_create_inspection_def guarded_def valid_body_def lift_result_def bnd_def)

lemma error_not_accepted: "classify_reply eenv (error_reply corr e) \<noteq> Inr res"
proof (cases e)
  case (ServiceError k m d)
  then show ?thesis by (cases k) (simp_all add: error_reply_def classify_reply_def accepted_code_def)
qed (simp_all add: error_reply_def classify_reply_def accepted_code_def upload_result_def jget_def)

lemma accepted_reply_result:
  "classify_reply eenv (accepted_reply resp) = Inr \<lparr>ur_inspection_id = insp_id (ir_inspection resp),
     ur_idempotent_replay = ir_idempotent_replay resp, ur_status = status_value (insp_status (ir_inspection resp))\<rparr>"
  by (simp add: accepted_reply_def classify_reply_def accepted_code_def upload_result_def jget_def json_str_def edge_json_truthy_def)

lemma post_inspection_accepted:
  assumes "get_principal decode (bearer_token rq) = Inr pr" "header ''Idempotency-Key'' rq = Some k"
    "context_from_fields env pr (multipart_form rq) w = (Inr cx, w)"
    "post_inspection env decode rq w = (reply, w1)" "classify_reply eenv reply = Inr res"
  shows "\<exists>resp w' corr. create_inspection env id pr cx (take (max_upload_bytes (settings env) + 1) (uq_image rq))
      (Some (uq_mime_type rq)) k corr w = (Inr resp, w') \<and> w1 = settle w' \<and> reply = accepted_reply resp \<and>
    require_roles [INSPECTOR, QUALITY_MANAGER, ADMIN, EDGE_GATEWAY] pr = Inr pr \<and> valid_key k = Inr () \<and>
    \<not> (EDGE_GATEWAY \<in> roles pr \<and> header ''X-Gateway-ID'' rq \<noteq> Some (actor_id pr))"
proof -
  let ?corr = "request_correlation ''corr_generated'' rq"
  let ?api = "api_create_inspection env id pr ?corr (multipart_form rq) (uq_image rq) (Some (uq_mime_type rq)) k
    (header ''X-Gateway-ID'' rq)"
  obtain r w' where api: "?api w = (r, w')" by (cases "?api w")
  show ?thesis
  proof (cases r)
    case (Inl e)
    then have "reply = error_reply ?corr e"
      using assms(1,2,4) api by (simp add: post_inspection_def transaction_def)
    with assms(5) error_not_accepted show ?thesis by blast
  next
    case (Inr resp)
    then show ?thesis
      using api_create_inspection_runs [OF api [unfolded Inr] assms(3)] assms(1,2,4) api
      by (auto simp: post_inspection_def transaction_def)
  qed
qed

text \<open>The gateway's upload, accepted once: the key names the inspection.\<close>

lemma upload_names:
  assumes "upload eenv (visionqc env decode) s pack now item data w = (Inr res, w1)"
    "gateway_token eenv s pack now = Inr tok" "get_principal decode (Some tok) = Inr pr"
    "context_from_fields env pr (map (\<lambda>(k, v). (k, Some v)) (upload_form pack (qi_context item)) @ [(''image'', None)]) w
      = (Inr cx, w)"
  shows "\<exists>k mime img. qi_idempotency_key item = Some k \<and> qi_mime_type item = Some mime \<and>
    validate_image env (take (max_upload_bytes (settings env) + 1) data) (Some mime) = Inr img \<and>
    names_inspection (tenant_id pr) k (request_fingerprint env img cx) (ur_inspection_id res) w1 \<and>
    require_roles [INSPECTOR, QUALITY_MANAGER, ADMIN, EDGE_GATEWAY] pr = Inr pr \<and> valid_key k = Inr () \<and>
    \<not> (EDGE_GATEWAY \<in> roles pr \<and> Some (provider_gateway_id s pack) \<noteq> Some (actor_id pr))"
proof -
  obtain rq where rq: "upload_request eenv s pack now item data = Inr rq"
    and reply: "classify_reply eenv (fst (post_inspection env decode rq w)) = Inr res" "w1 = snd (post_inspection env decode rq w)"
    using assms(1) by (auto simp: upload_def visionqc_def split: sum.splits prod.splits)
  obtain k mime where k: "qi_idempotency_key item = Some k" "qi_mime_type item = Some mime"
    using rq by (auto simp: upload_request_sent truthy_def split: option.splits)
  note sent = sent_headers [OF rq assms(2)]
  have caller: "get_principal decode (bearer_token rq) = Inr pr" "header ''Idempotency-Key'' rq = Some k"
    "context_from_fields env pr (multipart_form rq) w = (Inr cx, w)"
    using assms(3,4) sent k by simp_all
  from post_inspection_accepted [OF caller prod.collapse [symmetric] reply(1)] obtain resp w' corr
    where run: "create_inspection env id pr cx (take (max_upload_bytes (settings env) + 1) (uq_image rq))
        (Some (uq_mime_type rq)) k corr w = (Inr resp, w')" "w1 = settle w'"
      "fst (post_inspection env decode rq w) = accepted_reply resp"
      "require_roles [INSPECTOR, QUALITY_MANAGER, ADMIN, EDGE_GATEWAY] pr = Inr pr" "valid_key k = Inr ()"
      "\<not> (EDGE_GATEWAY \<in> roles pr \<and> header ''X-Gateway-ID'' rq \<noteq> Some (actor_id pr))"
    using reply(2) by blast
  from create_inspection_names [OF run(1)] obtain img where
    img: "validate_image env (take (max_upload_bytes (settings env) + 1) (uq_image rq)) (Some (uq_mime_type rq)) = Inr img"
    and names: "names_inspection (tenant_id pr) k (request_fingerprint env img cx) (insp_id (ir_inspection resp)) w'"
    by blast
  have "ur_inspection_id res = insp_id (ir_inspection resp)"
    using reply(1) run(3) by (auto simp: accepted_reply_result)
  moreover have "names_inspection (tenant_id pr) k (request_fingerprint env img cx) (insp_id (ir_inspection resp)) w1"
    unfolding run(2) by (rule settled_names [OF names started])
  ultimately show ?thesis using k img run(4-6) sent by auto
qed

text \<open>C40. The gateway and the backend together deliver an item once. When the backend accepted an upload and the answer
  was lost, the gateway may send the item again at any later moment, with a new token, after its own restart
  and after anything the backend did in between: as long as the token names the same principal, which is still admitted, and its fields are read as
  before, it is answered with the same inspection, marked as a replay, and no second inspection is made.\<close>

theorem resent_item_finds_its_inspection:
  assumes "upload eenv (visionqc env decode) s pack now item data w = (Inr res, w1)"
    and "reachable w1 w2" "identity item' = identity item"
    and "gateway_token eenv s pack now = Inr tok" "get_principal decode (Some tok) = Inr pr"
    and "gateway_token eenv s pack later = Inr tok'" "get_principal decode (Some tok') = Inr pr"
    and "gateway_admitted pr w2"
    and "context_from_fields env pr (map (\<lambda>(k, v). (k, Some v)) (upload_form pack (qi_context item)) @ [(''image'', None)]) w
      = (Inr cx, w)"
    and "context_from_fields env pr (map (\<lambda>(k, v). (k, Some v)) (upload_form pack (qi_context item)) @ [(''image'', None)]) w2
      = (Inr cx, w2)"
  shows "\<exists>res'. upload eenv (visionqc env decode) s pack later item' data w2 = (Inr res', settle w2) \<and>
    ur_inspection_id res' = ur_inspection_id res \<and> ur_idempotent_replay res'"
proof -
  from upload_names [OF assms(1,4,5,9)] obtain k mime img where
    k: "qi_idempotency_key item = Some k" "qi_mime_type item = Some mime"
    and img: "validate_image env (take (max_upload_bytes (settings env) + 1) data) (Some mime) = Inr img"
    and names: "names_inspection (tenant_id pr) k (request_fingerprint env img cx) (ur_inspection_id res) w1"
    and gate: "require_roles [INSPECTOR, QUALITY_MANAGER, ADMIN, EDGE_GATEWAY] pr = Inr pr" "valid_key k = Inr ()"
      "\<not> (EDGE_GATEWAY \<in> roles pr \<and> Some (provider_gateway_id s pack) \<noteq> Some (actor_id pr))"
    by blast
  note names2 = names_inspection_kept [OF history.R_reachable [OF assms(2)] names]
  from named_response [OF names2] obtain resp where resp: "inspection_response (ur_inspection_id res) (tenant_id pr) True w2
      = (Inr resp, w2)" "ir_idempotent_replay resp" "insp_id (ir_inspection resp) = ur_inspection_id res" by blast
  note same = identity_request [OF assms(3)]
  have "truthy (qi_idempotency_key item)" "truthy (qi_mime_type item)"
    using assms(1) by (auto simp: upload_def upload_request_sent split: sum.splits)
  then obtain rq where rq: "upload_request eenv s pack later item' data = Inr rq"
    using assms(6) by (auto simp: upload_request_sent same)
  note sent = sent_headers [OF rq assms(6)]
  have "transaction (api_create_inspection env id pr (request_correlation ''corr_generated'' rq) (multipart_form rq)
      (uq_image rq) (Some (uq_mime_type rq)) k (header ''X-Gateway-ID'' rq)) w2 = (Inr resp, settle w2)"
  proof -
    have "api_create_inspection env id pr (request_correlation ''corr_generated'' rq) (multipart_form rq)
        (uq_image rq) (Some (uq_mime_type rq)) k (header ''X-Gateway-ID'' rq) w2 = (Inr resp, w2)"
      using create_inspection_known [OF img names2 assms(8)] resp(1) k(2) same(3) sent
        api_create_inspection_eval [OF gate assms(10), of id "request_correlation ''corr_generated'' rq"]
      by (simp add: same)
    then show ?thesis by (simp add: transaction_def)
  qed
  then have "post_inspection env decode rq w2 = (accepted_reply resp, settle w2)"
    using assms(7) sent k(1) same(2) by (simp add: post_inspection_def)
  then show ?thesis
    using resp(2,3) by (simp add: upload_def rq visionqc_def accepted_reply_result)
qed

end
