(* ===== verification/EdgeExamples.thy ===== *)
theory EdgeExamples
  imports EdgeGuarantees
begin

text \<open>
  A small gateway: one product, one station, a camera whose two by two image passes the gate, and a
  backend that accepts uploads. The properties of the edge gateway are applied to it.
\<close>

definition example_gray :: gray_image where
  "example_gray = \<lparr>g_width = 2, g_height = 2, g_pixels = [40, 200, 200, 40]\<rparr>"

definition example_edge :: edge_env where
  "example_edge = \<lparr>re_compiles = (\<lambda>_. True),
     re_fullmatch = (\<lambda>p t. if p = ''dir'' then Some [] else Some [(''batch'', Some ''B1'')]),
     fromisoformat = (\<lambda>t. if t = ''2024'' then Some \<lparr>dt_wall = 0, dt_offset = Some 0\<rparr> else None),
     strptime = (\<lambda>t f. None), isoformat = (\<lambda>t. ''1970''),
     sha256_bytes = (\<lambda>d. ''h'' @ d), sha256_json = (\<lambda>j. ''k''),
     image_open = (\<lambda>d. Inr \<lparr>op_format = ''PNG'', op_width = 40, op_height = 40, op_load = Inr example_gray\<rparr>),
     gray_resize = (\<lambda>g (w, h). \<lparr>g_width = w, g_height = h, g_pixels = replicate (w * h) 0\<rparr>),
     json_text = (\<lambda>j. ''json''), jwt_encode = (\<lambda>claims. ''jwt'')\<rparr>"

definition example_settings_edge :: GatewaySettings where
  "example_settings_edge = \<lparr>gs_mode = ''demo'', gs_version = ''0.1.0'', gs_gateway_id = ''gateway-local'',
     gs_heartbeat_interval = 10, gs_stable_for = None, gs_status_token = None, gs_auth_token = None,
     gs_auth_issuer = ''visionqc'', gs_max_upload_bytes = 100, gs_max_image_pixels = 10000,
     gs_min_width = 32, gs_min_height = 32, gs_dark_mean = 24, gs_overexposed_mean = 245,
     gs_overexposed_ratio = 35 / 100, gs_min_sharpness = 2\<rparr>"

definition example_watch :: WatchDefinition where
  "example_watch = \<lparr>wd_root = ''/in'', wd_relative_path_regex = ''dir'', wd_filename_regex = ''name'',
     wd_capture_map = [(''batch_no'', ''batch'')],
     wd_defaults = [(''product_code'', ''P1''), (''station_code'', ''S1''), (''captured_at'', ''2024'')],
     wd_source = ''camera'', wd_allowed_extensions = [''.png''], wd_timestamp_formats = [],
     wd_timezone_offset = ''+00:00'', wd_stable_for_seconds = 1, wd_archive_subdir = ''.archive'',
     wd_quarantine_subdir = ''.quarantine''\<rparr>"

definition example_edge_pack :: GatewayDeploymentPack where
  "example_edge_pack = \<lparr>dp_pack_key = ''pack'', dp_version = ''1'', dp_display_name = ''Pack'',
     dp_tenant = [(''id'', ''t1'')],
     dp_products = [\<lparr>gp_code = ''P1'', gp_display_name = ''P'', gp_revision = ''A'', gp_aliases = []\<rparr>],
     dp_stations = [\<lparr>gst_code = ''S1'', gst_display_name = ''S'', gst_description = [], gst_camera_profile = []\<rparr>],
     dp_field_mapping = \<lparr>gf_product_code = ''sku'', gf_product_revision = ''rev'', gf_batch_no = ''lot'',
       gf_station_code = ''station'', gf_captured_at = ''time'', gf_source = ''source''\<rparr>,
     dp_edge_gateway = \<lparr>ge_gateway_id = ''gw-1'', ge_target_tenant_id = ''t1'', ge_watch = example_watch\<rparr>\<rparr>"

definition example_config :: GatewayConfig where
  "example_config = \<lparr>gc_settings = example_settings_edge, gc_pack = example_edge_pack,
     gc_root = ''/in'', gc_spool_dir = ''/spool''\<rparr>"

definition example_file :: watched_file where
  "example_file = \<lparr>fe_parts = [''a.png''], fe_is_file = True, fe_resolved = ''/in/a.png'', fe_stat = Some (3, 7)\<rparr>"

definition example_reads :: file_reads where
  "example_reads = \<lparr>rd_before = Inr (3, 7), rd_data = Inr ''img'', rd_after = Inr (3, 7), rd_stat = Inr (3, 7),
     rd_spool = Inr (), rd_stat_again = Inr (3, 7), rd_exists = True, rd_moved = True\<rparr>"

text \<open>Two backends: one accepts, one is overloaded.\<close>

definition accepting :: "nat Backend" where
  "accepting = \<lparr>be_upload = (\<lambda>req b. (EdgeResponse 202 (Some (JObj [(''inspection_id'', JStr ''insp-1'')])), Suc b)),
     be_heartbeat = (\<lambda>h p b. (EdgeResponse 200 None, b))\<rparr>"

definition busy_backend :: "nat Backend" where
  "busy_backend = \<lparr>be_upload = (\<lambda>req b. (EdgeResponse 503 None, Suc b)),
     be_heartbeat = (\<lambda>h p b. (EdgeResponse 503 None, b))\<rparr>"

definition booted :: gateway where
  "booted = \<lparr>gw_queue = empty_store, gw_observations = [], gw_spool = [], gw_moves = [],
     gw_heartbeat_monotonic = 0, gw_heartbeat_at = None, gw_backend_reachable = False,
     gw_last_success_at = None, gw_last_failure_at = None, gw_last_error = None\<rparr>"

definition seen :: gateway where
  "seen = snd (scan_once example_edge example_config 0 0 [example_file] (\<lambda>_. example_reads) booted)"

definition ingested :: gateway where
  "ingested = snd (scan_once example_edge example_config 5000000 5 [example_file] (\<lambda>_. example_reads) seen)"

lemma example_start: "gateway_start example_config empty_store [] 0 = Inr booted"
  by code_simp

lemma example_seen: "stable_files example_config 5 [example_file] (gw_observations seen) =
    (gw_observations ingested, [example_file])"
  by code_simp


lemma example_scan: "fst (scan_once example_edge example_config 5000000 5 [example_file] (\<lambda>_. example_reads) seen)
    = Inr (map row_item (qs_rows (gw_queue ingested)))"
  by code_simp

lemma example_queue: "map qi_status (qs_rows (gw_queue ingested)) = [''QUEUED'']"
  by code_simp

section \<open>The properties at work\<close>

lemma example_gray_ok: "gray_ok example_gray"
  by code_simp

lemma example_resize_ok: "resize_ok example_edge img"
  by (simp add: resize_ok_def example_edge_def gray_ok_def)

lemma metrics_in_range_witness:
  "0 \<le> mean_luminance (measure_image example_edge example_gray) \<and>
   mean_luminance (measure_image example_edge example_gray) \<le> 255 \<and>
   sharpness (measure_image example_edge example_gray) \<le> 255"
  using metrics_in_range [OF example_gray_ok example_resize_ok] by (simp add: Let_def)

definition state0 :: "nat edge_state" where
  "state0 = \<lparr>es_config = example_config, es_gateway = booted, es_inflight = [], es_backend = 0\<rparr>"

definition state1 :: "nat edge_state" where
  "state1 = state0\<lparr>es_gateway := snd (scan_file example_edge example_config 5 example_file example_reads booted)\<rparr>"

definition the_row :: QueueItem where
  "the_row = hd (qs_rows (gw_queue (es_gateway state1)))"

definition state2 :: "nat edge_state" where
  "state2 = state1\<lparr>es_gateway := snd (with_queue (claim_due 9 9) (es_gateway state1)),
     es_inflight := [row_item (claimed 9 the_row)]\<rparr>"

lemma state0_reachable: "edge_reachable example_edge backend state0"
  unfolding state0_def by (rule boot [OF example_start])

lemma state1_step: "edge_step example_edge backend state0 state1"
  using ingest [of example_edge backend state0 5 example_file example_reads] by (simp add: state1_def state0_def)

lemma state1_reachable: "edge_reachable example_edge backend state1"
  by (rule edge_reachable.step [OF state0_reachable state1_step])

lemma state1_rows: "qs_rows (gw_queue (es_gateway state1)) = [the_row]"
  by code_simp

lemma state1_claim: "with_queue (claim_due 9 9) (es_gateway state1) =
    (Some (row_item (claimed 9 the_row)), snd (with_queue (claim_due 9 9) (es_gateway state1)))"
  by code_simp

lemma state2_step: "edge_step example_edge backend state1 state2"
proof -
  have "es_inflight state1 = []" by (simp add: state1_def state0_def)
  with claim [OF state1_claim, of example_edge backend] show ?thesis by (simp add: state2_def)
qed

lemma state2_reachable: "edge_reachable example_edge backend state2"
  by (rule edge_reachable.step [OF state1_reachable state2_step])

lemma ledger_well_formed_witness: "edge_ok example_edge state2"
  by (rule ledger_well_formed [OF state2_reachable [of accepting]])

lemma ledger_rows_are_kept_witness:
  "\<exists>r \<in> set (qs_rows (gw_queue (es_gateway state2))). identity r = identity the_row \<and> qi_attempts the_row \<le> qi_attempts r"
  using ledger_rows_are_kept [OF state1_reachable r_into_rtranclp [where r = "edge_step example_edge accepting", OF state2_step], of the_row]
  by (auto simp: state1_rows)

lemma seen_queue: "gw_queue seen = empty_store"
  by code_simp

lemma scanned_files_are_accounted_for_witness:
  "on_record example_edge example_config example_file example_reads (gw_queue ingested) \<or> rearmed_file example_file ingested"
proof -
  obtain items where scan: "scan_once example_edge example_config 5000000 5 [example_file] (\<lambda>_. example_reads) seen
      = (Inr items, ingested)"
    using example_scan by (simp add: ingested_def prod_eq_iff)
  have "store_ok (gw_queue seen)" "spool_ok example_edge seen"
    by (simp_all add: seen_queue empty_store_ok spool_ok_def) (simp add: empty_store_def)
  from scanned_files_are_accounted_for [OF this scan] show ?thesis
    using example_seen by simp
qed

lemma state1_ok: "store_ok (gw_queue (es_gateway state1))" "spool_ok example_edge (es_gateway state1)"
  using reachable_edge_ok [OF state1_reachable [of accepting]] by (simp_all add: edge_ok_def)

definition busy_result :: "((edge_exn + QueueItem option) \<times> gateway) \<times> nat" where
  "busy_result = upload_once example_edge busy_backend example_config 9 (Inr ()) (es_gateway state1) 0"

definition busy_item :: QueueItem where
  "busy_item = row_item (failed ''UPLOAD_RETRYABLE'' ''the backend refused the upload'' True (retry_delay 1) 9 (claimed 9 the_row))"

lemma busy_run: "fst (fst busy_result) = Inr (Some busy_item)" "qi_status busy_item = ''FAILED''" "qi_retryable busy_item"
  by code_simp+

lemma retries_back_off_witness: "\<exists>d. qi_next_attempt_at busy_item = Some (9 + d) \<and> 2000000 \<le> d"
proof -
  have "upload_once example_edge busy_backend example_config 9 (Inr ()) (es_gateway state1) 0 =
      ((Inr (Some busy_item), snd (fst busy_result)), snd busy_result)"
    using busy_run(1) by (simp add: busy_result_def prod_eq_iff)
  from retries_back_off [OF state1_ok(1) this busy_run(2,3)] show ?thesis by auto
qed

lemma accepting_answers: "answers accepting"
  by (simp add: answers_def accepting_def accepted_code_def jget_def)

definition restarted :: gateway where
  "restarted = booted\<lparr>gw_queue := snd (recover_inflight 20 (gw_queue (es_gateway state2))),
     gw_spool := gw_spool (es_gateway state2)\<rparr>"

lemma state2_restart:
  "gateway_start example_config (gw_queue (es_gateway state2)) (gw_spool (es_gateway state2)) 20 = Inr restarted"
  by code_simp

definition recovered_row :: QueueItem where
  "recovered_row = interrupted 20 (claimed 9 the_row)"

lemma restarted_rows: "qs_rows (gw_queue restarted) = [recovered_row]"
  "qi_next_attempt_at recovered_row = Some 20" "qi_retryable recovered_row"
  by code_simp+

lemma backlog_drains_witness:
  "\<exists>r \<in> set (qs_rows (gw_queue (fst (drain example_edge accepting example_config 30 1 restarted (0 :: nat))))).
     identity r = identity recovered_row \<and> qi_status r = ''UPLOADED''"
  by (rule backlog_drains [OF state2_reachable state2_restart _ accepting_answers])
    (simp_all add: restarted_rows, simp add: example_config_def example_settings_edge_def)

lemma example_iter: "distinct (map fe_resolved (iter_files example_config [example_file]))"
  by code_simp

lemma watcher_emits_settled_files_once_witness:
  "settled example_config 5 (gw_observations seen) example_file \<and>
   \<not> settled example_config 100 (gw_observations ingested) example_file"
  using watcher_emits_settled_files_once [OF example_iter example_seen, of example_file 100] by simp

lemma state2_rows: "qs_rows (gw_queue (es_gateway state2)) = [claimed 9 the_row]"
  "truthy (qi_spool_path (claimed 9 the_row))"
  "read_spool (spool_path_of (row_item (claimed 9 the_row))) (Inr ()) (es_gateway state2) = Inr ''img''"
  by code_simp+

definition example_request :: UploadRequest where
  "example_request = projr (upload_request example_edge example_settings_edge example_edge_pack 9
     (row_item (claimed 9 the_row)) ''img'')"

lemma example_request_sent:
  "upload_request example_edge (gc_settings example_config) (gc_pack example_config) 9
     (row_item (claimed 9 the_row)) ''img'' = Inr example_request"
  by code_simp

lemma upload_outcomes_witness:
  "fails_with True (claimed 9 the_row) 9
     (fst (fst (finish_upload example_edge busy_backend example_config 9 (Inr ()) (row_item (claimed 9 the_row))
        (es_gateway state2) 0)))"
proof -
  let ?f = "finish_upload example_edge busy_backend example_config 9 (Inr ()) (row_item (claimed 9 the_row))
    (es_gateway state2) 0"
  have ok: "store_ok (gw_queue (es_gateway state2))"
    using reachable_edge_ok [OF state2_reachable [of accepting]] by (simp add: edge_ok_def)
  have post: "be_upload busy_backend example_request 0 = (EdgeResponse 503 None, 1)" by (simp add: busy_backend_def)
  have "?f = ((fst (fst ?f), snd (fst ?f)), snd ?f)" by simp
  from upload_outcomes [OF ok _ state2_rows(2,3) example_request_sent post this]
  show ?thesis by (simp add: state2_rows(1) accepted_code_def retryable_code_def)
qed

end
