(* ===== verification/EdgeDelivery.thy ===== *)
theory EdgeDelivery
  imports EdgeBackend EdgeExamples
begin

text \<open>
  The gateway and the backend on the example store: an item is uploaded, the answer is lost, and the
  item is sent again.
\<close>

definition sent_pack :: GatewayDeploymentPack where
  "sent_pack = example_edge_pack\<lparr>dp_field_mapping :=
     \<lparr>gf_product_code = ''product_code'', gf_product_revision = ''product_revision'', gf_batch_no = ''batch_no'',
      gf_station_code = ''station_code'', gf_captured_at = ''captured_at'', gf_source = ''source''\<rparr>\<rparr>"

definition sent_settings :: GatewaySettings where
  "sent_settings = example_settings_edge\<lparr>gs_auth_token := Some ''token''\<rparr>"

definition sent_item :: QueueItem where
  "sent_item = (queued_row \<lparr>ea_gateway_id = ''gw-1'', ea_tenant_id = ''t1'', ea_pack_key = ''pack'',
     ea_pack_version = ''1'', ea_source_path = ''/in/a.png'', ea_source_fingerprint = ''fp'',
     ea_spool_path = ''/spool/a.png'', ea_original_filename = ''a.png'', ea_content_sha256 = ''himg'',
     ea_mime_type = ''image/png'', ea_width = 40, ea_height = 40,
     ea_context = [(''product_code'', ''P2''), (''batch_no'', ''B1''), (''station_code'', ''S1''),
       (''captured_at'', ''2024'')],
     ea_idempotency_key = ''key-0001''\<rparr> 0)\<lparr>qi_id := 1\<rparr>"

definition sent_decode :: "string \<Rightarrow> (string \<times> json) list option" where
  "sent_decode t = (if t = ''token'' then Some [(''sub'', JStr ''inspector-1''), (''tenant_id'', JStr ''t1''),
     (''roles'', JList [JStr ''inspector''])] else None)"

definition sent_form :: form where
  "sent_form = [(''batch_no'', Some ''B1''), (''captured_at'', Some ''2024''), (''product_code'', Some ''P2''),
     (''station_code'', Some ''S1''), (''image'', None)]"

lemma sent_form_eval:
  "map (\<lambda>(k, v). (k, Some v)) (upload_form sent_pack (qi_context sent_item)) @ [(''image'', None)] = sent_form"
  by code_simp

lemma sent_token: "gateway_token example_edge sent_settings sent_pack now = Inr ''token''"
  by (simp add: gateway_token_def sent_settings_def)

lemma sent_caller: "get_principal sent_decode (Some ''token'') = Inr inspector"
  by (simp add: get_principal_def sent_decode_def principal_of_claims_def jget_def parse_role_def all_roles_def inspector_def)

lemma sent_context: "build_context (example_env s) example_manifest sent_form = Inr example_context"
  by code_simp

definition sent_request :: UploadRequest where
  "sent_request = projr (upload_request example_edge sent_settings sent_pack 0 sent_item ''img'')"

lemma sent_request_eval:
  "upload_request example_edge sent_settings sent_pack 0 sent_item ''img'' = Inr sent_request"
  "bearer_token sent_request = Some ''token''" "header ''Idempotency-Key'' sent_request = Some ''key-0001''"
  "header ''X-Gateway-ID'' sent_request = Some ''gw-1''" "uq_image sent_request = ''img''"
  "uq_mime_type sent_request = ''image/png''" "multipart_form sent_request = sent_form"
  by code_simp+

definition sent_run :: world where
  "sent_run = snd (post_inspection (example_env (1 / 10)) sent_decode sent_request example_world)"

lemma sent_post:
  "\<exists>resp. post_inspection (example_env (1 / 10)) sent_decode sent_request example_world = (accepted_reply resp, sent_run)"
  by (simp add: sent_run_def post_inspection_def sent_request_eval sent_caller sent_context upload_simps)
    (rule exI, rule refl)

lemma sent_run_packs: "deployment_packs sent_run = [example_pack]"
  by (simp add: sent_run_def post_inspection_def sent_request_eval sent_caller sent_context upload_simps)

lemma sent_upload:
  "\<exists>res. upload example_edge (visionqc (example_env (1 / 10)) sent_decode) sent_settings sent_pack 0 sent_item ''img'' example_world
     = (Inr res, sent_run)"
proof -
  obtain resp where "post_inspection (example_env (1 / 10)) sent_decode sent_request example_world = (accepted_reply resp, sent_run)"
    using sent_post by blast
  then show ?thesis by (simp add: upload_def visionqc_def sent_request_eval(1) accepted_reply_result)
qed

lemma sent_fields:
  assumes "deployment_packs w = [example_pack]"
  shows "context_from_fields (example_env s) inspector sent_form w = (Inr example_context, w)"
  using assms by (simp add: run_simps handler_simps sent_context Let_def)

lemma resent_item_finds_its_inspection_witness:
  "\<exists>res res'. upload example_edge (visionqc (example_env (1 / 10)) sent_decode) sent_settings sent_pack 0 sent_item ''img''
      example_world = (Inr res, sent_run) \<and>
    upload example_edge (visionqc (example_env (1 / 10)) sent_decode) sent_settings sent_pack 60 (claimed 60 sent_item) ''img''
      sent_run = (Inr res', settle sent_run) \<and>
    ur_inspection_id res' = ur_inspection_id res \<and> ur_idempotent_replay res'"
proof -
  obtain res where res: "upload example_edge (visionqc (example_env (1 / 10)) sent_decode) sent_settings sent_pack 0 sent_item
      ''img'' example_world = (Inr res, sent_run)" using sent_upload by blast
  have same: "identity (claimed 60 sent_item) = identity sent_item" by (simp add: identity_def claimed_def)
  have first: "context_from_fields (example_env (1 / 10)) inspector sent_form example_world = (Inr example_context, example_world)"
    by (rule sent_fields) (simp add: example_world_def)
  from resent_item_finds_its_inspection [OF res started same sent_token sent_caller sent_token sent_caller
      inspector_admitted, unfolded sent_form_eval, OF first sent_fields [OF sent_run_packs]]
  show ?thesis using res by blast
qed

end
