(* ===== verification/EdgeApi.thy ===== *)
theory EdgeApi
  imports EdgeGuarantees
begin

text \<open>
  \<^verbatim>\<open>edge_gateway/main.py\<close>: the loop of the background task and the local HTTP endpoints with their
  token guard. An HTTP error is its status code and detail.
\<close>

section \<open>The background loop\<close>

record cycle_input =
  ci_now :: int
  ci_monotonic :: rat
  ci_listing :: "watched_file list"
  ci_reads :: "watched_file \<Rightarrow> file_reads"
  ci_spool :: "string + unit"

definition cycle :: "edge_env \<Rightarrow> 'b Backend \<Rightarrow> GatewayConfig \<Rightarrow> cycle_input \<Rightarrow> gateway \<Rightarrow> 'b \<Rightarrow>
    ((edge_exn + cycle_result) \<times> gateway) \<times> 'b" where
  "cycle env backend cfg i g b =
     run_cycle env backend cfg (ci_now i) (ci_monotonic i) (ci_listing i) (ci_reads i) (ci_spool i) g b"

text \<open>\<open>loop()\<close> until the stop event, one input per round: an exception ends the task.\<close>

fun worker_loop :: "edge_env \<Rightarrow> 'b Backend \<Rightarrow> GatewayConfig \<Rightarrow> cycle_input list \<Rightarrow> gateway \<Rightarrow> 'b \<Rightarrow>
    ((edge_exn + unit) \<times> gateway) \<times> 'b" where
  "worker_loop env backend cfg [] g b = ((Inr (), g), b)"
| "worker_loop env backend cfg (i # inputs) g b =
     (case cycle env backend cfg i g b of
        ((Inl x, g1), b1) \<Rightarrow> ((Inl x, g1), b1)
      | ((Inr _, g1), b1) \<Rightarrow> worker_loop env backend cfg inputs g1 b1)"

section \<open>The endpoints\<close>

type_synonym 'a http = "(nat \<times> string) + 'a"

definition status_guard :: "GatewaySettings \<Rightarrow> string option \<Rightarrow> unit http" where
  "status_guard s authorization =
     (case gs_status_token s of
        None \<Rightarrow> Inr ()
      | Some t \<Rightarrow>
          if or_else authorization [] = ''Bearer '' @ t then Inr ()
          else Inl (401, ''gateway status authentication required''))"

record GatewayQueueItemResponse =
  gr_id :: nat
  gr_status :: string
  gr_original_filename :: string
  gr_content_sha256 :: "string option"
  gr_idempotency_key :: "string option"
  gr_context :: "(string \<times> string) list"
  gr_attempts :: nat
  gr_next_attempt_at :: "int option"
  gr_error_code :: "string option"
  gr_last_error :: "string option"
  gr_rejection_reason :: "string option"
  gr_inspection_id :: "string option"
  gr_dedup_of_id :: "nat option"
  gr_created_at :: int
  gr_updated_at :: int

definition item_response :: "QueueItem \<Rightarrow> GatewayQueueItemResponse" where
  "item_response item = \<lparr>gr_id = qi_id item, gr_status = qi_status item,
     gr_original_filename = qi_original_filename item, gr_content_sha256 = qi_content_sha256 item,
     gr_idempotency_key = qi_idempotency_key item, gr_context = qi_context item,
     gr_attempts = qi_attempts item, gr_next_attempt_at = qi_next_attempt_at item,
     gr_error_code = qi_error_code item, gr_last_error = qi_last_error item,
     gr_rejection_reason = qi_rejection_reason item, gr_inspection_id = qi_inspection_id item,
     gr_dedup_of_id = qi_dedup_of_id item, gr_created_at = qi_created_at item,
     gr_updated_at = qi_updated_at item\<rparr>"

definition get_status :: "GatewayConfig \<Rightarrow> string option \<Rightarrow> gateway \<Rightarrow> status_payload http" where
  "get_status cfg authorization g =
     andThen (status_guard (gc_settings cfg) authorization) (\<lambda>_. Inr (gateway_status cfg g))"

definition get_queue :: "GatewayConfig \<Rightarrow> string option \<Rightarrow> int \<Rightarrow> gateway \<Rightarrow> GatewayQueueItemResponse list http" where
  "get_queue cfg authorization limit g =
     andThen (status_guard (gc_settings cfg) authorization) (\<lambda>_.
     if limit < 1 \<or> 500 < limit then Inl (422, ''limit'')
     else Inr (map item_response (list_items limit (gw_queue g))))"

definition get_queue_items :: "GatewayConfig \<Rightarrow> string option \<Rightarrow> int \<Rightarrow> gateway \<Rightarrow> GatewayQueueItemResponse list http" where
  "get_queue_items cfg authorization limit g =
     andThen (status_guard (gc_settings cfg) authorization) (\<lambda>_.
     Inr (map item_response (list_items limit (gw_queue g))))"

definition retry_queue_item :: "GatewayConfig \<Rightarrow> string option \<Rightarrow> nat \<Rightarrow> int \<Rightarrow> gateway \<Rightarrow>
    GatewayQueueItemResponse http \<times> gateway" where
  "retry_queue_item cfg authorization item_id now g =
     (case status_guard (gc_settings cfg) authorization of
        Inl e \<Rightarrow> (Inl e, g)
      | Inr _ \<Rightarrow>
         (case with_queue (queue_retry item_id now) g of
            (Inl x, g1) \<Rightarrow> (Inl (404, ''queue item '' @ show_nat item_id @ '' not found''), g1)
          | (Inr item, g1) \<Rightarrow> (Inr (item_response item), g1)))"

definition post_cycle :: "edge_env \<Rightarrow> 'b Backend \<Rightarrow> GatewayConfig \<Rightarrow> string option \<Rightarrow> cycle_input \<Rightarrow> gateway \<Rightarrow> 'b \<Rightarrow>
    (cycle_result http \<times> gateway) \<times> 'b" where
  "post_cycle env backend cfg authorization i g b =
     (case status_guard (gc_settings cfg) authorization of
        Inl e \<Rightarrow> ((Inl e, g), b)
      | Inr _ \<Rightarrow>
         (case cycle env backend cfg i g b of
            ((Inl x, g1), b1) \<Rightarrow> ((Inl (500, ''Internal Server Error''), g1), b1)
          | ((Inr r, g1), b1) \<Rightarrow> ((Inr r, g1), b1)))"

section \<open>Facts\<close>

lemma list_items_bounded: "length (list_items limit q) \<le> 500"
  by (simp add: list_items_def)

lemma list_items_newest_first: "sorted_wrt (\<ge>) (map qi_id (list_items limit q))"
proof -
  have "sorted_wrt (\<ge>) (map qi_id (rev (sort_key qi_id (qs_rows q))))"
    using sorted_sort_key [of qi_id "qs_rows q"] by (simp add: rev_map [symmetric] sorted_wrt_rev)
  then have "sorted_wrt (\<ge>) (take n (map qi_id (rev (sort_key qi_id (qs_rows q)))))" for n
    by (rule sorted_wrt_take)
  then show ?thesis by (simp add: list_items_def take_map comp_def)
qed

text \<open>The depth is the number of rows that are not settled.\<close>

lemma count_for_status: "count_for (status_counts rs) s = count_where (\<lambda>r. qi_status r = s) rs"
proof -
  have absent: "count_where (\<lambda>r. qi_status r = s) rs = 0" if "s \<notin> set (map qi_status rs)"
    using that by (auto simp: count_where_def filter_empty_conv)
  have "map_of (map (\<lambda>s. (s, f s)) ss) s = (if s \<in> set ss then Some (f s) else None)" for f :: "string \<Rightarrow> nat" and ss
    by (induction ss) auto
  then show ?thesis using absent by (auto simp: count_for_def status_counts_def)
qed

lemma depth_is_live: "sm_depth (queue_summary n q) = count_where live (qs_rows q)"
proof -
  have "count_where (\<lambda>r. qi_status r = ''QUEUED'') rs + (count_where (\<lambda>r. qi_status r = ''UPLOADING'') rs +
      count_where (\<lambda>r. qi_status r = ''FAILED'') rs) = count_where live rs" for rs
    by (induction rs) (auto simp: live_def)
  then show ?thesis by (simp add: queue_summary_def Let_def count_for_status)
qed

lemma retry_guarded: "status_guard (gc_settings cfg) authorization = Inl e \<Longrightarrow> retry_queue_item cfg authorization i now g = (Inl e, g)"
  by (simp add: retry_queue_item_def)

text \<open>An exception that the scan does not handle, such as the ValueError of a capture time no format reads,
  ends the background loop: nothing is uploaded, no heartbeat is sent and no later round runs.\<close>

lemma escaping_error_stops_the_loop:
  assumes "stable_files cfg (ci_monotonic i) (ci_listing i) (gw_observations g) = (obs, e # es)"
    and "prepare_file env cfg e (ci_reads i e) (gw_queue g) = Inl (EdgeError t m)"
  shows "worker_loop env backend cfg (i # inputs) g b = ((Inl (EdgeError t m), g\<lparr>gw_observations := obs\<rparr>), b)"
  using assms by (simp add: cycle_def run_cycle_def scan_once_def scan_file_def ingest_file_def)

lemma unreadable_time_escapes:
  assumes "normalize_captured_at env (lookup values ''captured_at'') watch = Inl (EdgeError t m)"
    and "watch = the_watch cfg" "values = captured_values watch (dict_update path_groups name_groups)"
    and "re_fullmatch env (wd_relative_path_regex watch) (join_with ''/'' (butlast (fe_parts e))) = Some path_groups"
    and "re_fullmatch env (wd_filename_regex watch) (entry_name e) = Some name_groups"
    and "\<forall>k \<in> set required_context. lookup values k \<noteq> []"
    and "gateway_resolve_product (gc_pack cfg) (lookup values ''product_code'') = Some p"
    and "gateway_resolve_station (gc_pack cfg) (lookup values ''station_code'') = Some s"
  shows "parse_file env cfg e = Inl (EdgeError t m)"
  using assms by (simp add: parse_file_def Let_def filter_empty_conv)

end
