(* ===== verification/MlPackage.thy ===== *)
theory MlPackage
  imports Prelude "HOL-Library.List_Lexorder" "HOL-Library.Char_ord"
begin

text \<open>
  \<^verbatim>\<open>ml/src/visionqc_ml/package.py\<close>, \<^verbatim>\<open>hashing.py\<close>, \<^verbatim>\<open>errors.py\<close>: the errors of the model library,
  the files it reads, and the integrity check of a model package.
\<close>

section \<open>Errors and files\<close>

text \<open>An exception is its class and its message.\<close>

datatype ml_exn = MlError string string

definition ml_raise :: "string \<Rightarrow> string \<Rightarrow> ml_exn + 'a" where
  "ml_raise cls message = Inl (MlError cls message)"

abbreviation ml_value_error :: "string \<Rightarrow> ml_exn + 'a" where
  "ml_value_error m \<equiv> ml_raise ''ValueError'' m"

abbreviation package_error :: "string \<Rightarrow> ml_exn + 'a" where
  "package_error m \<equiv> ml_raise ''ModelPackageError'' m"

definition ml_check :: "bool \<Rightarrow> string \<Rightarrow> string \<Rightarrow> ml_exn + unit" where
  "ml_check b cls message = (if b then Inr () else ml_raise cls message)"

lemma ml_raise_Inr [simp]: "ml_raise c m \<noteq> Inr x"
  by (simp add: ml_raise_def)

lemma ml_check_Inr [simp]: "ml_check b c m = Inr u \<longleftrightarrow> b"
  by (simp add: ml_check_def)

text \<open>A manifest file as pydantic decodes it.\<close>

record PackageFile =
  pf_sha256 :: string
  pf_size_bytes :: int

record ModelPackageManifest =
  mp_package_format :: string
  mp_model_id :: string
  mp_model_version :: string
  mp_feature_bank_version :: string
  mp_category :: string
  mp_adapter :: string
  mp_lifecycle_status :: string
  mp_dataset_fingerprint :: string
  mp_training_manifest_sha256 :: string
  mp_code_commit :: string
  mp_package_sha256 :: string
  mp_feature_bank_file :: "string option"
  mp_feature_bank_sha256 :: "string option"
  mp_files :: "(string \<times> PackageFile) list"

text \<open>
  The libraries and the disk: SHA-256, canonical JSON, the JSON parser, pydantic's conversion of a
  JSON object to the fields of a manifest, \<open>float\<close> and \<open>str\<close> of the values the code does not
  compare, the regular files below a directory by their path relative to it, and the file at a path.
\<close>

record ml_env =
  ml_sha256 :: "string \<Rightarrow> string"
  ml_dumps :: "json \<Rightarrow> string"
  ml_loads :: "string \<Rightarrow> json option"
  ml_manifest_fields :: "json \<Rightarrow> ModelPackageManifest option"
  ml_float_of :: "string \<Rightarrow> rat option"
  ml_str_of :: "json \<Rightarrow> string"
  ml_tree :: "string \<Rightarrow> (string \<times> string) list option"
  ml_file :: "string \<Rightarrow> string option"

definition sha256_json :: "ml_env \<Rightarrow> json \<Rightarrow> string" where
  "sha256_json env v = ml_sha256 env (ml_dumps env v)"

definition ml_read_json :: "ml_env \<Rightarrow> (string \<times> string) list \<Rightarrow> string \<Rightarrow> ml_exn + json" where
  "ml_read_json env files name = (case map_of files name of
     None \<Rightarrow> ml_raise ''FileNotFoundError'' name
   | Some contents \<Rightarrow> (case ml_loads env contents of
       None \<Rightarrow> ml_value_error ''JSONDecodeError'' | Some j \<Rightarrow> Inr j))"

text \<open>\<open>d.get\<close> is an attribute of dicts only.\<close>

definition ml_dict :: "json \<Rightarrow> ml_exn + (string \<times> json) list" where
  "ml_dict j = (case j of JObj kvs \<Rightarrow> Inr kvs | _ \<Rightarrow> ml_raise ''AttributeError'' ''get'')"

lemma ml_dict_Inr [simp]: "ml_dict j = Inr d \<longleftrightarrow> j = JObj d"
  by (cases j) (simp_all add: ml_dict_def)

definition jget_or :: "string \<Rightarrow> json \<Rightarrow> (string \<times> json) list \<Rightarrow> json" where
  "jget_or k d kvs = (case jget k kvs of None \<Rightarrow> d | Some v \<Rightarrow> v)"

abbreviation jget_null :: "string \<Rightarrow> (string \<times> json) list \<Rightarrow> json" where
  "jget_null k kvs \<equiv> jget_or k JNull kvs"

text \<open>\<open>d[k]\<close>, then \<open>float\<close>.\<close>

definition ml_float :: "ml_env \<Rightarrow> string \<Rightarrow> (string \<times> json) list \<Rightarrow> ml_exn + rat" where
  "ml_float env k kvs = (case jget k kvs of
     None \<Rightarrow> ml_raise ''KeyError'' k
   | Some (JInt i) \<Rightarrow> Inr (of_int i)
   | Some (JFloat x) \<Rightarrow> Inr x
   | Some (JBool b) \<Rightarrow> Inr (if b then 1 else 0)
   | Some (JStr s) \<Rightarrow> (case ml_float_of env s of None \<Rightarrow> ml_value_error s | Some x \<Rightarrow> Inr x)
   | Some _ \<Rightarrow> ml_raise ''TypeError'' k)"

text \<open>\<open>directory / name\<close> for a name that is a path of its own.\<close>

definition ml_join_path :: "string \<Rightarrow> string \<Rightarrow> string" where
  "ml_join_path dir name = (if startswith ''/'' name then name else dir @ ''/'' @ name)"

definition base_name :: "string \<Rightarrow> string" where
  "base_name p = last (split_on CHR ''/'' p)"

section \<open>The manifest\<close>

definition hex64 :: "string \<Rightarrow> bool" where
  "hex64 s \<longleftrightarrow> length s = 64 \<and> list_all (\<lambda>c. c \<in> set ''0123456789abcdef'') s"

definition optional_hex64 :: "string option \<Rightarrow> bool" where
  "optional_hex64 s = (case s of None \<Rightarrow> True | Some t \<Rightarrow> hex64 t)"

text \<open>The declared constraints of the schema.\<close>

definition package_file_valid :: "PackageFile \<Rightarrow> bool" where
  "package_file_valid f \<longleftrightarrow> hex64 (pf_sha256 f) \<and> 0 \<le> pf_size_bytes f"

definition manifest_valid :: "ModelPackageManifest \<Rightarrow> bool" where
  "manifest_valid m \<longleftrightarrow>
     mp_package_format m = ''visionqc.model-package.v1'' \<and> mp_model_id m \<noteq> [] \<and> mp_model_version m \<noteq> [] \<and>
     mp_feature_bank_version m \<noteq> [] \<and> mp_category m \<noteq> [] \<and> mp_adapter m = ''anomalib.patchcore.v2'' \<and>
     mp_lifecycle_status m \<in> {''DRAFT'', ''EVALUATED'', ''APPROVED'', ''ACTIVE'', ''RETIRED''} \<and>
     hex64 (mp_dataset_fingerprint m) \<and> hex64 (mp_training_manifest_sha256 m) \<and>
     hex64 (mp_package_sha256 m) \<and> optional_hex64 (mp_feature_bank_sha256 m) \<and>
     list_all (\<lambda>(p, f). package_file_valid f) (mp_files m)"

definition validate_package_manifest :: "ml_env \<Rightarrow> json \<Rightarrow> ModelPackageManifest option" where
  "validate_package_manifest env j = (case ml_manifest_fields env j of
     None \<Rightarrow> None | Some m \<Rightarrow> if manifest_valid m then Some m else None)"

section \<open>The check of a package on disk\<close>

definition package_entry :: "ml_env \<Rightarrow> string \<Rightarrow> PackageFile" where
  "package_entry env contents = \<lparr>pf_sha256 = ml_sha256 env contents, pf_size_bytes = int (length contents)\<rparr>"

text \<open>Paths sort by their parts.\<close>

definition file_index :: "ml_env \<Rightarrow> (string \<times> string) list \<Rightarrow> (string \<times> PackageFile) list" where
  "file_index env files =
     map (\<lambda>(p, contents). (p, package_entry env contents))
       (sort_key (\<lambda>x. split_on CHR ''/'' (fst x))
         (filter (\<lambda>(p, contents). base_name p \<noteq> ''model-package.json'') files))"

definition dump_file :: "PackageFile \<Rightarrow> json" where
  "dump_file f = JObj [(''sha256'', JStr (pf_sha256 f)), (''size_bytes'', JInt (pf_size_bytes f))]"

definition package_digest :: "ml_env \<Rightarrow> (string \<times> PackageFile) list \<Rightarrow> string" where
  "package_digest env index = sha256_json env (JObj (map (\<lambda>(p, f). (p, dump_file f)) index))"

definition required_package_files :: "string list" where
  "required_package_files =
     [''metadata.json'', ''config/training.yaml'', ''config/preprocessing.json'', ''config/thresholds.json'',
      ''metrics/evaluation.json'', ''provenance/manifest-meta.json'',
      ''schemas/inference-result.schema.json'', ''weights/model.pt'']"

text \<open>A declared feature bank is read at its own path, which need not lie in the package.\<close>

definition check_feature_bank :: "ml_env \<Rightarrow> string \<Rightarrow> ModelPackageManifest \<Rightarrow> ml_exn + unit" where
  "check_feature_bank env dir m =
     (if \<not> truthy (mp_feature_bank_file m) then Inr ()
      else (case ml_file env (ml_join_path dir (or_else (mp_feature_bank_file m) [])) of
          None \<Rightarrow> package_error ''declared feature bank is missing''
        | Some contents \<Rightarrow>
            ml_check (mp_feature_bank_sha256 m = Some (ml_sha256 env contents)) ''ModelPackageError''
              ''feature bank digest mismatch''))"

text \<open>The block under \<open>try\<close>: everything but the two checks of its own is reported as metadata that
  cannot be loaded.\<close>

definition package_metadata_ok ::
  "ml_env \<Rightarrow> (string \<times> string) list \<Rightarrow> ModelPackageManifest \<Rightarrow> ml_exn + unit" where
  "package_metadata_ok env files m =
     andThen (ml_read_json env files ''metadata.json'') (\<lambda>metadata.
     andThen (ml_read_json env files ''config/thresholds.json'') (\<lambda>thresholds.
     andThen (ml_dict metadata) (\<lambda>md.
     andThen (ml_check (jget_null ''model_id'' md = JStr (mp_model_id m) \<and>
                        jget_null ''model_version'' md = JStr (mp_model_version m))
       ''ModelPackageError'' ''metadata model identity does not match package manifest'') (\<lambda>_.
     andThen (case thresholds of JObj kvs \<Rightarrow> Inr kvs | _ \<Rightarrow> ml_raise ''TypeError'' ''review_threshold'') (\<lambda>td.
     andThen (ml_float env ''review_threshold'' td) (\<lambda>review.
     andThen (ml_float env ''hold_threshold'' td) (\<lambda>hold.
     ml_check (review < hold) ''ModelPackageError'' ''package thresholds are not strictly ordered'')))))))"

definition reraise_package_error :: "ml_exn + 'a \<Rightarrow> ml_exn + 'a" where
  "reraise_package_error r = (case r of
     Inl (MlError cls message) \<Rightarrow>
       if cls = ''ModelPackageError'' then Inl (MlError cls message)
       else package_error ''model package metadata is not loadable''
   | Inr x \<Rightarrow> Inr x)"

lemma reraise_package_error_Inr [simp]: "reraise_package_error r = Inr x \<longleftrightarrow> r = Inr x"
  by (simp add: reraise_package_error_def split: sum.splits ml_exn.splits)

definition verify_model_package ::
  "ml_env \<Rightarrow> string \<Rightarrow> string option \<Rightarrow> ml_exn + ModelPackageManifest" where
  "verify_model_package env dir expected_category =
     (let files = (case ml_tree env dir of None \<Rightarrow> [] | Some t \<Rightarrow> t) in
      case map_of files ''model-package.json'' of
        None \<Rightarrow> package_error ''missing model-package.json''
      | Some body \<Rightarrow>
          (case Option.bind (ml_loads env body) (validate_package_manifest env) of
             None \<Rightarrow> package_error ''invalid model package manifest''
           | Some m \<Rightarrow>
               let discovered = file_index env files in
               andThen (ml_check (case expected_category of None \<Rightarrow> True | Some c \<Rightarrow> mp_category m = c)
                 ''ModelPackageError'' ''model package category mismatch'') (\<lambda>_.
               andThen (ml_check (set (map fst (mp_files m)) = set (map fst discovered))
                 ''ModelPackageError'' ''package inventory mismatch'') (\<lambda>_.
               andThen (ml_check (list_all (\<lambda>p. map_of discovered p = map_of (mp_files m) p)
                                   (map fst (mp_files m)))
                 ''ModelPackageError'' ''package file integrity mismatch'') (\<lambda>_.
               andThen (check_feature_bank env dir m) (\<lambda>_.
               andThen (ml_check (set required_package_files \<subseteq> set (map fst files))
                 ''ModelPackageError'' ''required model package file is missing'') (\<lambda>_.
               andThen (reraise_package_error (package_metadata_ok env files m)) (\<lambda>_.
               andThen (ml_check (package_digest env discovered = mp_package_sha256 m)
                 ''ModelPackageError'' ''package digest mismatch'') (\<lambda>_.
               Inr m)))))))))"

section \<open>What a verified package is\<close>

lemma map_of_filter_keys:
  "map_of (filter (\<lambda>(k, v). P k) kvs) k = (if P k then map_of kvs k else None)"
  by (induction kvs) auto

lemma map_of_file_index:
  assumes "distinct (map fst files)"
  shows "map_of (file_index env files) p =
     (if base_name p = ''model-package.json'' then None else map_option (package_entry env) (map_of files p))"
proof -
  let ?P = "\<lambda>p. base_name p \<noteq> ''model-package.json''"
  let ?k = "sort_key (\<lambda>x. split_on CHR ''/'' (fst x)) (filter (\<lambda>(p, c). ?P p) files)"
  have d: "distinct (map fst (filter (\<lambda>(p, c). ?P p) files))"
    using assms by (simp add: distinct_map_filter)
  have "mset (map fst ?k) = mset (map fst (filter (\<lambda>(p, c). ?P p) files))" by simp
  then have dk: "distinct (map fst ?k)" using d mset_eq_imp_distinct_iff by blast
  have "map_of ?k = map_of (filter (\<lambda>(p, c). ?P p) files)"
    by (rule map_of_eqI) (use d dk in \<open>auto simp: map_of_eq_Some_iff\<close>)
  then have "map_of (file_index env files) p = map_option (package_entry env) (map_of (filter (\<lambda>(p, c). ?P p) files) p)"
    by (simp add: file_index_def map_of_map)
  then show ?thesis by (simp add: map_of_filter_keys)
qed

lemma map_of_same_keys:
  assumes "set (map fst xs) = set (map fst ys)" "\<forall>kv \<in> set xs. map_of ys (fst kv) = map_of xs (fst kv)"
  shows "map_of ys = map_of xs"
proof
  fix p
  show "map_of ys p = map_of xs p"
  proof (cases "p \<in> set (map fst xs)")
    case True
    with assms(2) show ?thesis by auto
  next
    case False
    with assms(1) show ?thesis by (metis list.set_map map_of_eq_None_iff)
  qed
qed

lemma verified_package:
  assumes "verify_model_package env dir c = Inr m"
  shows "\<exists>files body j. ml_tree env dir = Some files \<and> map_of files ''model-package.json'' = Some body \<and>
     ml_loads env body = Some j \<and> validate_package_manifest env j = Some m \<and>
     map_of (file_index env files) = map_of (mp_files m) \<and>
     set required_package_files \<subseteq> set (map fst files) \<and>
     package_metadata_ok env files m = Inr () \<and>
     package_digest env (file_index env files) = mp_package_sha256 m"
proof -
  obtain files where files: "ml_tree env dir = Some files"
    using assms by (cases "ml_tree env dir") (simp_all add: verify_model_package_def)
  obtain body where body: "map_of files ''model-package.json'' = Some body"
    using assms files by (cases "map_of files ''model-package.json''") (simp_all add: verify_model_package_def)
  obtain j where j: "ml_loads env body = Some j" "validate_package_manifest env j = Some m"
    using assms files body
    by (auto simp: verify_model_package_def Let_def bind_eq_Some_conv split: option.splits)
  have "set (map fst (mp_files m)) = set (map fst (file_index env files))"
    and "\<forall>kv \<in> set (mp_files m). map_of (file_index env files) (fst kv) = map_of (mp_files m) (fst kv)"
    and "set required_package_files \<subseteq> set (map fst files)" "package_metadata_ok env files m = Inr ()"
      "package_digest env (file_index env files) = mp_package_sha256 m"
    using assms files body j unfolding verify_model_package_def
    by (simp_all add: Let_def list_all_iff)
  with files body j show ?thesis using map_of_same_keys by blast
qed

lemma verified_manifest_valid:
  assumes "verify_model_package env dir c = Inr m"
  shows "manifest_valid m"
  using verified_package [OF assms] by (auto simp: validate_package_manifest_def split: option.splits if_splits)

end
