(* ===== verification/MlEvidence.thy ===== *)
theory MlEvidence
  imports MlPackage
begin

text \<open>
  \<^verbatim>\<open>ml/src/visionqc_ml/qualification.py\<close>: the check of a qualification evidence directory that the
  model registry runs before it evaluates, approves or activates a model.
\<close>

definition ML_REQUIRED_EVIDENCE_FILES :: "string list" where
  "ML_REQUIRED_EVIDENCE_FILES =
     [''qualification-summary.json'', ''model-card.md'', ''evaluation-report.md'', ''metrics.json'',
      ''confidence-intervals.json'', ''split-manifest.json'', ''provenance.json'',
      ''release-decision.json'', ''error-cases.json'', ''source-evidence.json'',
      ''evidence-manifest.json'']"

text \<open>The regular files directly in a directory.\<close>

definition top_files :: "(string \<times> string) list \<Rightarrow> (string \<times> string) list" where
  "top_files tree = filter (\<lambda>(p, contents). CHR ''/'' \<notin> set p) tree"

definition top_level_inventory :: "ml_env \<Rightarrow> (string \<times> string) list \<Rightarrow> (string \<times> PackageFile) list" where
  "top_level_inventory env files =
     map (\<lambda>(p, contents). (p, package_entry env contents))
       (sort_key fst (filter (\<lambda>(p, contents). p \<noteq> ''evidence-manifest.json'') files))"

definition ml_core_digest :: "ml_env \<Rightarrow> (string \<times> string) list \<Rightarrow> string" where
  "ml_core_digest env files =
     package_digest env (map (\<lambda>(p, contents). (p, package_entry env contents))
       (sort_key fst (filter (\<lambda>(p, contents).
          p \<notin> {''release-decision.json'', ''evidence-manifest.json''}) files)))"

text \<open>\<open>d[k]\<close> of a value that may not be a dict.\<close>

definition jindex :: "string \<Rightarrow> json \<Rightarrow> ml_exn + json" where
  "jindex k j = (case j of JObj kvs \<Rightarrow> (case jget k kvs of
       None \<Rightarrow> ml_raise ''KeyError'' k | Some v \<Rightarrow> Inr v)
   | _ \<Rightarrow> ml_raise ''TypeError'' k)"

definition integrity_error :: "string \<Rightarrow> ml_exn + 'a" where
  "integrity_error relative = ml_value_error (''qualification evidence file integrity mismatch: '' @ relative)"

fun check_evidence_inventory ::
  "ml_env \<Rightarrow> (string \<times> string) list \<Rightarrow> (string \<times> json) list \<Rightarrow> ml_exn + unit" where
  "check_evidence_inventory env files [] = Inr ()"
| "check_evidence_inventory env files ((relative, details) # rest) =
     (if \<not> safe_relative relative
      then ml_value_error (''qualification evidence inventory contains an unsafe path: '' @ relative)
      else (case map_of files relative of
          None \<Rightarrow> integrity_error relative
        | Some contents \<Rightarrow>
            andThen (jindex ''sha256'' details) (\<lambda>sha.
            if sha \<noteq> JStr (ml_sha256 env contents) then integrity_error relative
            else andThen (jindex ''size_bytes'' details) (\<lambda>size.
              if \<not> equals_int size (int (length contents)) then integrity_error relative
              else check_evidence_inventory env files rest))))"

text \<open>\<open>str(v)\<close>.\<close>

definition ml_str :: "ml_env \<Rightarrow> json \<Rightarrow> string" where
  "ml_str env j = (case j of JStr s \<Rightarrow> s | JNull \<Rightarrow> ''None'' | _ \<Rightarrow> ml_str_of env j)"

text \<open>The files the evidence was derived from, wherever they lie.\<close>

fun check_source_files :: "ml_env \<Rightarrow> (string \<times> json) list \<Rightarrow> ml_exn + unit" where
  "check_source_files env [] = Inr ()"
| "check_source_files env ((key, details) # rest) =
     andThen (ml_dict details) (\<lambda>d.
     case ml_file env (ml_str env (jget_or ''path'' (JStr '''') d)) of
       None \<Rightarrow> ml_value_error (''qualification source evidence is missing: '' @ key)
     | Some contents \<Rightarrow>
         if jget_null ''sha256'' d \<noteq> JStr (ml_sha256 env contents) \<or>
            \<not> equals_int (jget_null ''size_bytes'' d) (int (length contents))
         then ml_value_error (''qualification source evidence integrity mismatch: '' @ key)
         else check_source_files env rest)"

record ml_evidence =
  me_evidence_package_sha256 :: string
  me_decision :: json
  me_gate_decision :: json
  me_source_type :: json
  me_dataset_fingerprint :: json
  me_approval_status :: json
  me_model_package_sha256 :: json

definition SOURCE_TYPES :: "string list" where
  "SOURCE_TYPES = [''DEMO_SYNTHETIC'', ''OFFICIAL_BENCHMARK'', ''CUSTOMER_PILOT'']"

definition evidence_source_type :: "ml_env \<Rightarrow> (string \<times> json) list \<Rightarrow> string" where
  "evidence_source_type env provenance =
     ml_str env (jget_or ''source_type'' (jget_or ''data_status'' (JStr '''') provenance) provenance)"

abbreviation evidence_check :: "bool \<Rightarrow> string \<Rightarrow> ml_exn + unit" where
  "evidence_check b m \<equiv> ml_check b ''ValueError'' m"

text \<open>The reading of a JSON file whose \<open>get\<close> is called.\<close>

definition read_dict :: "ml_env \<Rightarrow> (string \<times> string) list \<Rightarrow> string \<Rightarrow> ml_exn + (string \<times> json) list" where
  "read_dict env files name = andThen (ml_read_json env files name) ml_dict"

definition evidence_contents ::
  "ml_env \<Rightarrow> (string \<times> string) list \<Rightarrow> string option \<Rightarrow> ml_exn + ml_evidence" where
  "evidence_contents env files expected =
     andThen (read_dict env files ''release-decision.json'') (\<lambda>release.
     andThen (evidence_check (jget_null ''evidence_package_sha256'' release = JStr (ml_core_digest env files))
       ''qualification evidence summary digest mismatch'') (\<lambda>_.
     andThen (read_dict env files ''provenance.json'') (\<lambda>provenance.
     andThen (evidence_check (truthy expected \<longrightarrow> jget_null ''model_package_sha256'' provenance = JOpt expected)
       ''model package digest does not match qualification evidence'') (\<lambda>_.
     andThen (read_dict env files ''qualification-summary.json'') (\<lambda>summary.
     andThen (read_dict env files ''metrics.json'') (\<lambda>metrics.
     andThen (evidence_check (jget_null ''decision'' release = jget_null ''qualification_status'' summary)
       ''qualification summary decision does not match release decision'') (\<lambda>_.
     andThen (ml_dict (jget_or ''gates'' (JObj []) metrics)) (\<lambda>gates.
     andThen (evidence_check (jget_null ''decision'' release = jget_null ''report_status'' gates)
       ''qualification metrics gate decision does not match release decision'') (\<lambda>_.
     andThen (evidence_check (jget_null ''model_package_sha256'' release = jget_null ''model_package_sha256'' provenance)
       ''qualification release and provenance package digests do not match'') (\<lambda>_.
     let source_type = evidence_source_type env provenance in
     andThen (evidence_check (source_type \<in> set SOURCE_TYPES)
       ''qualification evidence source type is invalid'') (\<lambda>_.
     andThen (evidence_check (jget_or ''source_type'' (JStr source_type) summary = JStr source_type)
       ''qualification summary and provenance source types do not match'') (\<lambda>_.
     andThen (evidence_check (jget_or ''source_type'' (JStr source_type) release = JStr source_type)
       ''qualification release and provenance source types do not match'') (\<lambda>_.
     andThen (evidence_check (jget_null ''dataset_fingerprint'' release = jget_null ''dataset_fingerprint'' provenance)
       ''qualification release and provenance dataset fingerprints do not match'') (\<lambda>_.
     Inr \<lparr>me_evidence_package_sha256 = ml_core_digest env files,
          me_decision = jget_null ''decision'' release,
          me_gate_decision = jget_or ''gate_decision'' (jget_null ''decision'' gates) release,
          me_source_type = jget_or ''source_type'' (jget_null ''source_type'' provenance) summary,
          me_dataset_fingerprint = jget_null ''dataset_fingerprint'' provenance,
          me_approval_status = jget_null ''approval_status'' release,
          me_model_package_sha256 = jget_null ''model_package_sha256'' provenance\<rparr>))))))))))))))"

definition verify_evidence ::
  "ml_env \<Rightarrow> string \<Rightarrow> string option \<Rightarrow> ml_exn + ml_evidence" where
  "verify_evidence env dir expected =
     (let incomplete = ml_value_error ''qualification evidence package is incomplete'' in
      case ml_tree env dir of
        None \<Rightarrow> incomplete
      | Some tree \<Rightarrow>
          let files = top_files tree in
          if \<not> set ML_REQUIRED_EVIDENCE_FILES \<subseteq> set (map fst files) then incomplete
          else
            andThen (read_dict env files ''evidence-manifest.json'') (\<lambda>inventory.
            andThen (evidence_check (jget_null ''schema_version'' inventory = JStr ''visionqc.evidence-manifest.v1'')
              ''qualification evidence manifest schema is invalid'') (\<lambda>_.
            case jget_null ''files'' inventory of
              JObj declared \<Rightarrow>
                andThen (evidence_check (set (map fst declared) = set (map fst (top_level_inventory env files)))
                  ''qualification evidence inventory does not cover the complete package'') (\<lambda>_.
                andThen (check_evidence_inventory env files declared) (\<lambda>_.
                andThen (read_dict env files ''source-evidence.json'') (\<lambda>source_evidence.
                andThen (evidence_check
                  (jget_null ''schema_version'' source_evidence = JStr ''visionqc.pilot-source-evidence.v1'')
                  ''qualification source evidence schema is invalid'') (\<lambda>_.
                case jget_or ''files'' (JObj []) source_evidence of
                  JObj source_files \<Rightarrow>
                    andThen (check_source_files env source_files) (\<lambda>_.
                    evidence_contents env files expected)
                | _ \<Rightarrow> ml_value_error ''qualification source evidence files are invalid''))))
            | _ \<Rightarrow> ml_value_error ''qualification evidence inventory does not cover the complete package'')))"

section \<open>What verified evidence is\<close>

lemma jindex_Inr [simp]: "jindex k j = Inr v \<longleftrightarrow> (\<exists>d. j = JObj d \<and> jget k d = Some v)"
  by (cases j) (auto simp: jindex_def split: option.splits)

lemma integrity_error_Inr [simp]: "integrity_error r \<noteq> Inr x"
  by (simp add: integrity_error_def)

lemma case_dict_Inr [simp]:
  "(case j of JObj d \<Rightarrow> k d | _ \<Rightarrow> ml_raise cls m) = Inr x \<longleftrightarrow> (\<exists>d. j = JObj d \<and> k d = Inr x)"
  by (cases j) simp_all

lemma checked_inventory:
  assumes "check_evidence_inventory env files declared = Inr ()" "(name, details) \<in> set declared"
  shows "\<exists>contents d size. map_of files name = Some contents \<and> details = JObj d \<and>
     jget ''sha256'' d = Some (JStr (ml_sha256 env contents)) \<and>
     jget ''size_bytes'' d = Some size \<and> equals_int size (int (length contents))"
  using assms
  by (induction env files declared rule: check_evidence_inventory.induct)
    (auto split: if_splits option.splits)

lemma checked_sources:
  assumes "check_source_files env sources = Inr ()" "(key, details) \<in> set sources"
  shows "\<exists>contents d. details = JObj d \<and>
     ml_file env (ml_str env (jget_or ''path'' (JStr '''') d)) = Some contents \<and>
     jget_null ''sha256'' d = JStr (ml_sha256 env contents)"
  using assms
  by (induction env sources rule: check_source_files.induct) (auto split: if_splits option.splits)

lemma verified_evidence_contents:
  assumes "verify_evidence env dir expected = Inr ev"
  shows "\<exists>tree. ml_tree env dir = Some tree \<and> evidence_contents env (top_files tree) expected = Inr ev"
  using assms unfolding verify_evidence_def
  by (auto simp: Let_def split: option.splits if_splits)

lemma verified_evidence_digest:
  assumes "verify_evidence env dir expected = Inr ev"
  shows "\<exists>tree. ml_tree env dir = Some tree \<and> me_evidence_package_sha256 ev = ml_core_digest env (top_files tree)"
  using verified_evidence_contents [OF assms] unfolding evidence_contents_def by (auto simp: Let_def)

lemma verified_evidence_model:
  assumes "verify_evidence env dir (Some sha) = Inr ev" "sha \<noteq> []"
  shows "me_model_package_sha256 ev = JStr sha"
  using verified_evidence_contents [OF assms(1)] assms(2) unfolding evidence_contents_def
  by (auto simp: Let_def JOpt_def)

text \<open>The digest does not cover the release decision: two evidence directories whose other files are the
  same have the same digest.\<close>

lemma core_digest_ignores_release:
  assumes "filter (\<lambda>(p, c). p \<notin> {''release-decision.json'', ''evidence-manifest.json''}) files =
           filter (\<lambda>(p, c). p \<notin> {''release-decision.json'', ''evidence-manifest.json''}) files'"
  shows "ml_core_digest env files = ml_core_digest env files'"
  using assms by (simp add: ml_core_digest_def)

end
