(* ===== verification/MlRegistry.thy ===== *)
theory MlRegistry
  imports MlEvidence
begin

text \<open>
  \<^verbatim>\<open>ml/src/visionqc_ml/registry.py\<close>: the file-backed model registry. Its state is the index in
  memory and the index on disk; an operation changes the first and writes the second when it
  finishes, so an operation that raises half way, or whose write fails, leaves the two apart. What the
  next write meets is part of the state: nothing, or the message of an OSError.
\<close>

section \<open>Entries\<close>

datatype lifecycle = LS_DRAFT | LS_EVALUATED | LS_APPROVED | LS_ACTIVE | LS_RETIRED

record RegistryTransition =
  rt_from_status :: "lifecycle option"
  rt_to_status :: lifecycle
  rt_actor :: string
  rt_evidence_summary :: string
  rt_evidence_sha256 :: "string option"
  rt_occurred_at :: string
  rt_reason :: "string option"
  rt_correlation_id :: string

record RegistryEntry =
  re_model_id :: string
  re_model_version :: string
  re_category :: string
  re_package_path :: string
  re_package_sha256 :: string
  re_lifecycle_status :: lifecycle
  re_created_at :: string
  re_updated_at :: string
  re_transitions :: "RegistryTransition list"
  re_tenant_id :: "string option"
  re_product_code :: string
  re_deployment_pack_key :: "string option"
  re_evidence_package_path :: "string option"
  re_evidence_package_sha256 :: "string option"
  re_audit_reasons :: "string list"

record model_registry =
  reg_entries :: "RegistryEntry list"
  reg_stored :: "RegistryEntry list"
  reg_disk :: "string option"

fun direct_transitions :: "lifecycle \<Rightarrow> lifecycle set" where
  "direct_transitions LS_DRAFT = {LS_EVALUATED}"
| "direct_transitions LS_EVALUATED = {LS_APPROVED}"
| "direct_transitions LS_APPROVED = {LS_ACTIVE, LS_RETIRED}"
| "direct_transitions LS_ACTIVE = {LS_RETIRED}"
| "direct_transitions LS_RETIRED = {}"

section \<open>Evidence texts\<close>

text \<open>\<open>" ".join(s.split())\<close>.\<close>

definition words_of :: "string \<Rightarrow> string list" where
  "words_of s = filter (\<lambda>w. w \<noteq> []) (split_on CHR '' '' (map (\<lambda>c. if is_space c then CHR '' '' else c) s))"

definition normalize_space :: "string \<Rightarrow> string" where
  "normalize_space s = join_with '' '' (words_of s)"

definition require_evidence :: "string \<Rightarrow> string \<Rightarrow> ml_exn + string \<times> string" where
  "require_evidence summary actor =
     (if length (normalize_space summary) < 10
      then ml_value_error ''lifecycle evidence summary must contain at least 10 non-whitespace characters''
      else if strip actor = [] then ml_value_error ''lifecycle actor is required''
      else Inr (normalize_space summary, strip actor))"

section \<open>Operations\<close>

text \<open>An operation returns what it returns or raises, and the registry after it.\<close>

type_synonym 'a registry_op = "model_registry \<Rightarrow> (ml_exn + 'a) \<times> model_registry"

definition fails :: "ml_exn \<Rightarrow> 'a registry_op" where
  "fails e g = (Inl e, g)"

text \<open>The rest of an operation that only reads until it has a value.\<close>

definition after_reading :: "ml_exn + 'a \<Rightarrow> ('a \<Rightarrow> 'b registry_op) \<Rightarrow> 'b registry_op" where
  "after_reading m k = (case m of Inl e \<Rightarrow> fails e | Inr a \<Rightarrow> k a)"

definition after :: "'a registry_op \<Rightarrow> ('a \<Rightarrow> 'b registry_op) \<Rightarrow> 'b registry_op" where
  "after m k g = (case m g of (Inl e, g') \<Rightarrow> (Inl e, g') | (Inr a, g') \<Rightarrow> k a g')"

definition load :: "model_registry \<Rightarrow> model_registry" where
  "load g = g\<lparr>reg_entries := reg_stored g\<rparr>"

text \<open>\<open>_persist\<close> creates the directory, writes a temporary file and moves it over the index: an OSError of any of
  the three leaves the index file as it was, and the index in memory as the operation has made it.\<close>

definition persist :: "unit registry_op" where
  "persist g = (case reg_disk g of
     None \<Rightarrow> (Inr (), g\<lparr>reg_stored := reg_entries g\<rparr>)
   | Some message \<Rightarrow> fails (MlError ''OSError'' message) g)"

definition finish :: "RegistryEntry \<Rightarrow> RegistryEntry registry_op" where
  "finish entry = after persist (\<lambda>_ g. (Inr entry, g))"

definition is_model :: "string \<Rightarrow> string \<Rightarrow> RegistryEntry \<Rightarrow> bool" where
  "is_model model_id version entry \<longleftrightarrow> re_model_id entry = model_id \<and> re_model_version entry = version"

definition entry_of :: "string \<Rightarrow> string \<Rightarrow> model_registry \<Rightarrow> ml_exn + RegistryEntry" where
  "entry_of model_id version g = (case find (is_model model_id version) (reg_entries g) of
     None \<Rightarrow> ml_raise ''KeyError'' ''model is not registered''
   | Some entry \<Rightarrow> Inr entry)"

text \<open>\<open>entries[entries.index(entry)] = updated\<close>.\<close>

fun replace_first :: "'a \<Rightarrow> 'a \<Rightarrow> 'a list \<Rightarrow> 'a list" where
  "replace_first old new [] = []"
| "replace_first old new (x # xs) = (if x = old then new # xs else x # replace_first old new xs)"

definition replace_entry :: "RegistryEntry \<Rightarrow> RegistryEntry \<Rightarrow> RegistryEntry registry_op" where
  "replace_entry entry updated g =
     (if entry \<in> set (reg_entries g)
      then (Inr updated, g\<lparr>reg_entries := replace_first entry updated (reg_entries g)\<rparr>)
      else fails (MlError ''ValueError'' ''entry is not in list'') g)"

definition register_draft ::
  "ml_env \<Rightarrow> string \<Rightarrow> string \<Rightarrow> string \<Rightarrow> string option \<Rightarrow> string option \<Rightarrow> string option \<Rightarrow>
   string option \<Rightarrow> string \<Rightarrow> RegistryEntry registry_op" where
  "register_draft env now package_dir actor tid product_code pack evidence_path correlation =
     after_reading (verify_model_package env package_dir None) (\<lambda>manifest.
     after_reading (case evidence_path of None \<Rightarrow> Inr None
        | Some path \<Rightarrow> andThen (verify_evidence env path (Some (mp_package_sha256 manifest)))
            (\<lambda>evidence. Inr (Some (me_evidence_package_sha256 evidence)))) (\<lambda>evidence_sha g.
     if list_ex (is_model (mp_model_id manifest) (mp_model_version manifest)) (reg_entries g)
     then fails (MlError ''ValueError'' ''model is already registered'') g
     else
       let transition = \<lparr>rt_from_status = None, rt_to_status = LS_DRAFT,
             rt_actor = (if strip actor = [] then ''system'' else strip actor),
             rt_evidence_summary = ''Package integrity verified and registered as a draft candidate.'',
             rt_evidence_sha256 = Some (mp_package_sha256 manifest), rt_occurred_at = now,
             rt_reason = None, rt_correlation_id = correlation\<rparr>;
           entry = \<lparr>re_model_id = mp_model_id manifest, re_model_version = mp_model_version manifest,
             re_category = mp_category manifest, re_package_path = package_dir,
             re_package_sha256 = mp_package_sha256 manifest, re_lifecycle_status = LS_DRAFT,
             re_created_at = now, re_updated_at = now, re_transitions = [transition],
             re_tenant_id = tid, re_product_code = or_else product_code (mp_category manifest),
             re_deployment_pack_key = pack, re_evidence_package_path = evidence_path,
             re_evidence_package_sha256 = evidence_sha, re_audit_reasons = []\<rparr>
       in finish entry (g\<lparr>reg_entries := reg_entries g @ [entry]\<rparr>)))"

text \<open>The entry with one more transition on its history.\<close>

definition moved ::
  "string \<Rightarrow> lifecycle \<Rightarrow> string \<Rightarrow> string \<Rightarrow> string option \<Rightarrow> string option \<Rightarrow> RegistryEntry \<Rightarrow> RegistryEntry" where
  "moved now to_status actor summary sha reason entry =
     entry\<lparr>re_lifecycle_status := to_status, re_updated_at := now,
       re_transitions := re_transitions entry @
         [\<lparr>rt_from_status = Some (re_lifecycle_status entry), rt_to_status = to_status, rt_actor = actor,
           rt_evidence_summary = summary, rt_evidence_sha256 = sha, rt_occurred_at = now,
           rt_reason = reason, rt_correlation_id = ''registry''\<rparr>]\<rparr>"

definition may_move :: "lifecycle \<Rightarrow> lifecycle \<Rightarrow> bool \<Rightarrow> bool" where
  "may_move current to_status reactivation \<longleftrightarrow> to_status \<in> direct_transitions current \<or>
     (reactivation \<and> current = LS_RETIRED \<and> to_status = LS_ACTIVE)"

definition transition_to ::
  "string \<Rightarrow> RegistryEntry \<Rightarrow> lifecycle \<Rightarrow> string \<Rightarrow> string \<Rightarrow> string option \<Rightarrow> string option \<Rightarrow> bool \<Rightarrow>
   RegistryEntry registry_op" where
  "transition_to now entry to_status actor summary sha reason reactivation =
     after_reading (require_evidence summary actor) (\<lambda>(summary', actor').
     if \<not> may_move (re_lifecycle_status entry) to_status reactivation
     then fails (MlError ''ValueError'' ''illegal model lifecycle transition'')
     else replace_entry entry (moved now to_status actor' summary' sha reason entry))"

text \<open>\<open>release.get("gates", {}).get("failed", [])\<close>, joined.\<close>

definition failed_gates :: "ml_env \<Rightarrow> (string \<times> json) list \<Rightarrow> ml_exn + string" where
  "failed_gates env release =
     andThen (ml_dict (jget_or ''gates'' (JObj []) release)) (\<lambda>gates.
     andThen (case jget_or ''failed'' (JList []) gates of
         JList xs \<Rightarrow> Inr (map (ml_str env) xs)
       | JStr s \<Rightarrow> Inr (map (\<lambda>c. [c]) s)
       | JObj kvs \<Rightarrow> Inr (map fst kvs)
       | _ \<Rightarrow> ml_raise ''TypeError'' ''not iterable'') (\<lambda>names.
     Inr (let joined = join_with '','' names in if joined = [] then ''none'' else joined)))"

text \<open>The branch of \<open>evaluate\<close> for evidence whose gates are not GO: the transition it records says DRAFT to
  DRAFT whatever the status of the entry is.\<close>

definition blocked ::
  "string \<Rightarrow> string \<Rightarrow> string \<Rightarrow> string option \<Rightarrow> string \<Rightarrow> RegistryEntry \<Rightarrow> RegistryEntry" where
  "blocked now actor summary sha reason entry =
     entry\<lparr>re_updated_at := now,
       re_transitions := re_transitions entry @
         [\<lparr>rt_from_status = Some LS_DRAFT, rt_to_status = LS_DRAFT, rt_actor = actor,
           rt_evidence_summary = summary, rt_evidence_sha256 = sha, rt_occurred_at = now,
           rt_reason = Some reason, rt_correlation_id = ''registry''\<rparr>],
       re_audit_reasons := re_audit_reasons entry @ [reason]\<rparr>"

definition record_blocked ::
  "ml_env \<Rightarrow> string \<Rightarrow> RegistryEntry \<Rightarrow> ml_evidence \<Rightarrow> string \<Rightarrow> string \<Rightarrow> string \<Rightarrow> RegistryEntry registry_op" where
  "record_blocked env now entry evidence path actor summary =
     after_reading (case ml_tree env path of None \<Rightarrow> ml_raise ''FileNotFoundError'' path
        | Some tree \<Rightarrow> read_dict env tree ''release-decision.json'') (\<lambda>release.
     after_reading (failed_gates env release) (\<lambda>failed.
     let reason = ''qualification_gate_blocked:'' @ ml_str env (me_gate_decision evidence) @
           ''; report_status='' @ ml_str env (me_decision evidence) @
           ''; candidate remains DRAFT; failed_gates='' @ failed in
     after_reading (require_evidence summary actor) (\<lambda>(summary', actor').
       after (replace_entry entry (blocked now actor' summary'
           (Some (me_evidence_package_sha256 evidence)) reason entry)) finish)))"

text \<open>\<open>evaluation_path = Path(entry.package_path) / "metrics" / "evaluation.json"\<close>.\<close>

definition evaluation_sha :: "ml_env \<Rightarrow> RegistryEntry \<Rightarrow> ml_exn + string" where
  "evaluation_sha env entry =
     (case Option.bind (ml_tree env (re_package_path entry)) (\<lambda>t. map_of t ''metrics/evaluation.json'') of
        None \<Rightarrow> ml_raise ''FileNotFoundError'' ''evaluation.json''
      | Some contents \<Rightarrow> Inr (ml_sha256 env contents))"

definition evaluate ::
  "ml_env \<Rightarrow> string \<Rightarrow> string \<Rightarrow> string \<Rightarrow> string \<Rightarrow> string \<Rightarrow> RegistryEntry registry_op" where
  "evaluate env now model_id version actor summary g =
     after_reading (entry_of model_id version g) (\<lambda>entry.
     after_reading (verify_model_package env (re_package_path entry) None) (\<lambda>_.
     let evaluated = after_reading (evaluation_sha env entry) (\<lambda>sha.
           after (transition_to now entry LS_EVALUATED actor summary (Some sha) None False) finish) in
     if \<not> truthy (re_evidence_package_path entry) then evaluated
     else
       let path = or_else (re_evidence_package_path entry) [] in
       after_reading (verify_evidence env path (Some (re_package_sha256 entry))) (\<lambda>evidence.
       if re_evidence_package_sha256 entry \<noteq> Some (me_evidence_package_sha256 evidence)
       then fails (MlError ''ModelPackageError'' ''registered qualification evidence digest changed'')
       else if ml_str env (me_gate_decision evidence) \<noteq> ''GO''
       then record_blocked env now entry evidence path actor summary
       else evaluated))) g"

definition approve ::
  "ml_env \<Rightarrow> string \<Rightarrow> string \<Rightarrow> string \<Rightarrow> string \<Rightarrow> string \<Rightarrow> RegistryEntry registry_op" where
  "approve env now model_id version approver summary g =
     after_reading (entry_of model_id version g) (\<lambda>entry.
     let approved = after (transition_to now entry LS_APPROVED approver summary None None False) finish in
     if \<not> truthy (re_evidence_package_path entry) then approved
     else
       after_reading (verify_evidence env (or_else (re_evidence_package_path entry) []) (Some (re_package_sha256 entry)))
         (\<lambda>evidence.
       if me_gate_decision evidence \<noteq> JStr ''GO''
       then fails (MlError ''ValueError'' ''qualification evidence gate is not GO; approval is blocked'')
       else if me_source_type evidence \<noteq> JStr ''CUSTOMER_PILOT'' \<or>
               me_approval_status evidence \<noteq> JStr ''PENDING_APPROVAL''
       then fails (MlError ''ValueError'' ''benchmark/demo evidence cannot be approved'')
       else if rt_actor (last (re_transitions entry)) = approver
       then fails (MlError ''ValueError'' ''evaluator cannot approve the same qualification'')
       else approved)) g"

text \<open>The loop that retires the models that were active.\<close>

fun retire_each ::
  "string \<Rightarrow> string \<Rightarrow> string \<Rightarrow> string option \<Rightarrow> string option \<Rightarrow> RegistryEntry list \<Rightarrow> unit registry_op" where
  "retire_each now actor summary sha reason [] = (\<lambda>g. (Inr (), g))"
| "retire_each now actor summary sha reason (previous # rest) =
     after (transition_to now previous LS_RETIRED actor summary sha reason False)
       (\<lambda>_. retire_each now actor summary sha reason rest)"

definition same_product_active :: "RegistryEntry \<Rightarrow> model_registry \<Rightarrow> RegistryEntry list" where
  "same_product_active candidate g = filter (\<lambda>entry. re_category entry = re_category candidate \<and>
     re_model_id entry = re_model_id candidate \<and> re_lifecycle_status entry = LS_ACTIVE) (reg_entries g)"

text \<open>The evidence of a model that is to be activated.\<close>

definition activation_evidence ::
  "ml_env \<Rightarrow> ModelPackageManifest \<Rightarrow> RegistryEntry \<Rightarrow> string \<Rightarrow> ml_exn + unit" where
  "activation_evidence env manifest candidate actor =
     (if \<not> truthy (re_evidence_package_path candidate) then Inr ()
      else
        andThen (verify_evidence env (or_else (re_evidence_package_path candidate) [])
                   (Some (mp_package_sha256 manifest))) (\<lambda>evidence.
        andThen (ml_check (me_gate_decision evidence = JStr ''GO'') ''ValueError''
          ''qualification evidence gate is not GO; activation is blocked'') (\<lambda>_.
        andThen (ml_check (me_source_type evidence = JStr ''CUSTOMER_PILOT'' \<and>
                           me_approval_status evidence = JStr ''PENDING_APPROVAL'') ''ValueError''
          ''benchmark/demo evidence cannot activate a model; CUSTOMER_PILOT approval is required'') (\<lambda>_.
        ml_check (actor \<notin> rt_actor ` {t \<in> set (re_transitions candidate).
                               rt_to_status t \<in> {LS_EVALUATED, LS_APPROVED}}) ''ValueError''
          ''activation actor must be distinct from evaluation and approval actors''))))"

definition activate ::
  "ml_env \<Rightarrow> string \<Rightarrow> string \<Rightarrow> string \<Rightarrow> string \<Rightarrow> string \<Rightarrow> RegistryEntry registry_op" where
  "activate env now model_id version actor summary g =
     after_reading (entry_of model_id version g) (\<lambda>candidate.
     if re_lifecycle_status candidate \<noteq> LS_APPROVED
     then fails (MlError ''ValueError'' ''only APPROVED models can be activated'')
     else
       after_reading (verify_model_package env (re_package_path candidate) None) (\<lambda>manifest.
       if mp_package_sha256 manifest \<noteq> re_package_sha256 candidate
       then fails (MlError ''ModelPackageError'' ''registered package digest changed before activation'')
       else
         after_reading (require_evidence summary actor) (\<lambda>(summary', actor').
         after_reading (activation_evidence env manifest candidate actor') (\<lambda>_.
         after (retire_each now actor'
             (''Retired as part of activating '' @ re_model_id candidate @ ''@'' @ re_model_version candidate @
              ''. '' @ summary')
             (Some (mp_package_sha256 manifest)) (Some ''superseded_by_activation'')
             (same_product_active candidate g)) (\<lambda>_.
         after (transition_to now candidate LS_ACTIVE actor' summary' (Some (mp_package_sha256 manifest))
             (Some ''activation'') False) finish))))) g"

definition retire ::
  "string \<Rightarrow> string \<Rightarrow> string \<Rightarrow> string \<Rightarrow> string \<Rightarrow> RegistryEntry registry_op" where
  "retire now model_id version actor summary g =
     after_reading (entry_of model_id version g) (\<lambda>entry.
     after (transition_to now entry LS_RETIRED actor summary None (Some ''retirement'') False) finish) g"

definition rollback_model ::
  "ml_env \<Rightarrow> string \<Rightarrow> string \<Rightarrow> string \<Rightarrow> string \<Rightarrow> string \<Rightarrow> string \<Rightarrow> RegistryEntry registry_op" where
  "rollback_model env now model_id version actor summary condition g =
     (if length (strip condition) < 10
      then fails (MlError ''ValueError'' ''rollback condition must be explicit and at least 10 characters'')
      else
        after_reading (entry_of model_id version g) (\<lambda>target.
        if re_lifecycle_status target \<notin> {LS_RETIRED, LS_APPROVED}
        then fails (MlError ''ValueError'' ''rollback target must be RETIRED or APPROVED'')
        else
          after_reading (verify_model_package env (re_package_path target) None) (\<lambda>manifest.
          if mp_package_sha256 manifest \<noteq> re_package_sha256 target
          then fails (MlError ''ModelPackageError'' ''registered rollback package digest changed'')
          else
            after_reading (require_evidence summary actor) (\<lambda>(summary', actor').
            let why = ''Rollback requested because '' @ strip condition @ ''. '' @ summary' in
            after (retire_each now actor' why None (Some ''rollback_current_active'')
                (same_product_active target g)) (\<lambda>_.
            after (transition_to now target LS_ACTIVE actor' why (Some (mp_package_sha256 manifest))
                (Some ''rollback'') True) finish))))) g"

end
