(* ===== verification/MlRegistryProofs.thy ===== *)
theory MlRegistryProofs
  imports MlRegistry
begin

text \<open>
  Facts about the model registry: an operation that raises changes nothing, each operation moves the
  entries it names and no other, at most one version of a model is active, and the history of an entry
  tells how it got where it is.
\<close>

section \<open>Evidence texts\<close>

lemma concat_split_on: "concat (split_on c s) = filter (\<lambda>x. x \<noteq> c) s"
  by (induction s) (auto split: list.splits)

lemma length_join_with: "length (concat ws) \<le> length (join_with sep ws)"
  by (induction sep ws rule: join_with.induct) auto

lemma concat_filter_nonempty: "concat (filter (\<lambda>w. w \<noteq> []) ws) = concat ws"
  by (induction ws) auto

lemma length_normalize_space: "length (filter (\<lambda>c. \<not> is_space c) s) \<le> length (normalize_space s)"
proof -
  have sp: "is_space (CHR '' '')" by code_simp
  have "length (concat (words_of s)) = length (filter (\<lambda>c. \<not> is_space c) s)"
    unfolding words_of_def concat_filter_nonempty concat_split_on
    by (induction s) (auto simp: sp)
  then show ?thesis using length_join_with [of "words_of s" "'' ''"] by (simp add: normalize_space_def)
qed

lemma words_of_words:
  assumes "w \<in> set (words_of s)"
  shows "w \<noteq> []" "\<forall>c \<in> set w. \<not> is_space c"
proof -
  let ?m = "map (\<lambda>c. if is_space c then CHR '' '' else c) s"
  have w: "w \<in> set (split_on CHR '' '' ?m)" "w \<noteq> []" using assms by (auto simp: words_of_def)
  then show "w \<noteq> []" by simp
  show "\<forall>c \<in> set w. \<not> is_space c"
    using split_on_subset [OF w(1)] split_on_no_sep [OF w(1)] by (auto split: if_splits)
qed

lemma set_join_with: "set (join_with sep ws) \<subseteq> (\<Union>w \<in> set ws. set w) \<union> set sep"
  by (induction sep ws rule: join_with.induct) auto

lemma normalize_idem [simp]: "normalize_space (normalize_space s) = normalize_space s"
proof (cases "words_of s = []")
  case True
  show ?thesis by (simp add: normalize_space_def True) (simp add: words_of_def)
next
  case False
  let ?ws = "words_of s" let ?j = "join_with '' '' ?ws"
  have "\<forall>c \<in> set ?j. \<not> is_space c \<or> c = CHR '' ''"
    using set_join_with [of "'' ''" ?ws] words_of_words(2) by fastforce
  then have "map (\<lambda>c. if is_space c then CHR '' '' else c) ?j = ?j" by (intro map_idI) auto
  moreover have sp: "is_space (CHR '' '')" by code_simp
  have "split_on CHR '' '' ?j = ?ws"
    by (rule split_on_join [OF False]) (use words_of_words(2) sp in blast)
  ultimately have "words_of ?j = ?ws"
    using words_of_words(1) by (simp add: words_of_def [of ?j] filter_id_conv)
  then show ?thesis by (simp add: normalize_space_def)
qed

lemma strip_strip [simp]: "strip (strip s) = strip s"
proof (cases "strip s = []")
  case True
  show ?thesis by (simp only: True) (simp add: strip_def)
next
  case False
  define t where "t = dropWhile is_space s"
  define u where "u = dropWhile is_space (rev t)"
  have r: "strip s = rev u" by (simp add: strip_def t_def u_def)
  with False have u: "u \<noteq> []" by simp
  have hu: "\<not> is_space (hd u)" using u hd_dropWhile unfolding u_def by blast
  obtain p where p: "t = rev u @ p"
    by (metis u_def rev_append rev_rev_ident takeWhile_dropWhile_id)
  have "t \<noteq> []" using p u by simp
  then have "\<not> is_space (hd t)" using hd_dropWhile unfolding t_def by blast
  then have "\<not> is_space (hd (rev u))" using p u by simp
  then have "dropWhile is_space (rev u) = rev u" using dropWhile_eq_self_iff by blast
  moreover have "dropWhile is_space u = u" using hu dropWhile_eq_self_iff by blast
  ultimately have "strip (rev u) = rev u" by (simp add: strip_def)
  then show ?thesis by (simp only: r)
qed

lemma require_evidence_Inr [simp]:
  "require_evidence summary actor = Inr (s, a) \<longleftrightarrow>
     10 \<le> length (normalize_space summary) \<and> strip actor \<noteq> [] \<and> s = normalize_space summary \<and> a = strip actor"
  by (auto simp: require_evidence_def)

lemma long_prefix:
  assumes "10 \<le> length (filter (\<lambda>c. \<not> is_space c) p)"
  shows "10 \<le> length (normalize_space (p @ s))"
  using length_normalize_space [of "p @ s"] assms by simp

lemma retired_text: "10 \<le> length (normalize_space (''Retired as part of activating '' @ s))"
  and rollback_text: "10 \<le> length (normalize_space (''Rollback requested because '' @ s))"
  by (rule long_prefix, code_simp)+

section \<open>Single steps\<close>

lemma after_simps [simp]:
  "m g = (Inl e, g') \<Longrightarrow> after m k g = (Inl e, g')"
  "m g = (Inr x, g') \<Longrightarrow> after m k g = k x g'"
  by (simp_all add: after_def)

lemma after_reading_simps [simp]:
  "after_reading (Inl e) k g = (Inl e, g)"
  "after_reading (Inr x) k g = k x g"
  by (simp_all add: after_reading_def fails_def)

lemma after_reading_raise [simp]: "after_reading (ml_raise c m) k g = (Inl (MlError c m), g)"
  by (simp add: ml_raise_def)

lemma after_reading_cases:
  assumes "after_reading m k g = (r, g')"
  obtains e where "m = Inl e" "r = Inl e" "g' = g" | x where "m = Inr x" "k x g = (r, g')"
  using assms by (cases m) auto

lemma replace_first_map:
  assumes "distinct xs" "new \<notin> set xs"
  shows "replace_first old new xs = map (\<lambda>x. if x = old then new else x) xs"
  using assms by (induction xs) (auto intro: map_idI [symmetric])

lemma fails_simp [simp]: "fails e g = (Inl e, g)"
  by (simp add: fails_def)

lemma finish_runs: "reg_disk g = None \<Longrightarrow> finish entry g = (Inr entry, g\<lparr>reg_stored := reg_entries g\<rparr>)"
  and finish_raises: "reg_disk g = Some message \<Longrightarrow> finish entry g = (Inl (MlError ''OSError'' message), g)"
  by (simp_all add: finish_def persist_def after_def)

lemma finish_Inr: "finish entry g = (Inr e, g') \<Longrightarrow> e = entry"
  by (cases "reg_disk g") (simp_all add: finish_runs finish_raises)

lemma replace_entry_cases:
  assumes "replace_entry entry updated g = (r, g')"
  obtains e where "r = Inl e" "g' = g" | "r = Inr updated" "entry \<in> set (reg_entries g)"
    "g' = g\<lparr>reg_entries := replace_first entry updated (reg_entries g)\<rparr>"
  using assms by (auto simp: replace_entry_def split: if_splits)

lemma transition_to_cases:
  assumes "transition_to now entry to_status actor summary sha reason reactivation g = (r, g')"
  obtains e where "r = Inl e" "g' = g"
  | s a where "require_evidence summary actor = Inr (s, a)"
      "may_move (re_lifecycle_status entry) to_status reactivation"
      "r = Inr (moved now to_status a s sha reason entry)" "entry \<in> set (reg_entries g)"
      "g' = g\<lparr>reg_entries := replace_first entry (moved now to_status a s sha reason entry) (reg_entries g)\<rparr>"
proof (cases "require_evidence summary actor")
  case (Inl e)
  then show ?thesis using assms that(1) by (auto simp: transition_to_def)
next
  case (Inr sa)
  obtain s a where sa: "sa = (s, a)" by (cases sa)
  show ?thesis
  proof (cases "may_move (re_lifecycle_status entry) to_status reactivation")
    case False
    then show ?thesis using assms Inr sa that(1) by (auto simp: transition_to_def)
  next
    case True
    then have "replace_entry entry (moved now to_status a s sha reason entry) g = (r, g')"
      using assms Inr sa by (simp add: transition_to_def)
    then show ?thesis
      by (rule replace_entry_cases) (use that True Inr sa in auto)
  qed
qed


section \<open>Entries by key\<close>

definition key_of :: "RegistryEntry \<Rightarrow> string \<times> string" where
  "key_of e = (re_model_id e, re_model_version e)"

definition keyed :: "RegistryEntry list \<Rightarrow> bool" where
  "keyed es \<longleftrightarrow> distinct (map key_of es)"

lemma moved_simps [simp]:
  "re_model_id (moved now to_status a s sha reason e) = re_model_id e"
  "re_model_version (moved now to_status a s sha reason e) = re_model_version e"
  "re_category (moved now to_status a s sha reason e) = re_category e"
  "re_lifecycle_status (moved now to_status a s sha reason e) = to_status"
  "re_package_sha256 (moved now to_status a s sha reason e) = re_package_sha256 e"
  "key_of (moved now to_status a s sha reason e) = key_of e"
  by (simp_all add: moved_def key_of_def)

lemma blocked_simps [simp]:
  "re_model_id (blocked now a s sha reason e) = re_model_id e"
  "re_model_version (blocked now a s sha reason e) = re_model_version e"
  "re_category (blocked now a s sha reason e) = re_category e"
  "re_lifecycle_status (blocked now a s sha reason e) = re_lifecycle_status e"
  "key_of (blocked now a s sha reason e) = key_of e"
  by (simp_all add: blocked_def key_of_def)

lemma moved_differs: "moved now to_status a s sha reason e \<noteq> e"
proof
  assume "moved now to_status a s sha reason e = e"
  then have "re_transitions (moved now to_status a s sha reason e) = re_transitions e" by (rule arg_cong)
  then show False by (simp add: moved_def)
qed

lemma blocked_differs: "blocked now a s sha reason e \<noteq> e"
proof
  assume "blocked now a s sha reason e = e"
  then have "re_transitions (blocked now a s sha reason e) = re_transitions e" by (rule arg_cong)
  then show False by (simp add: blocked_def)
qed

lemma keyed_distinct: "keyed es \<Longrightarrow> distinct es"
  by (simp add: keyed_def distinct_map)

lemma keyed_unique: "keyed es \<Longrightarrow> x \<in> set es \<Longrightarrow> y \<in> set es \<Longrightarrow> key_of x = key_of y \<Longrightarrow> x = y"
  by (auto simp: keyed_def distinct_map dest: inj_onD)

lemma keyed_map:
  assumes "keyed es" "\<And>e. key_of (f e) = key_of e"
  shows "keyed (map f es)"
  using assms by (simp add: keyed_def comp_def)

lemma replace_first_keyed:
  assumes "keyed es" "x \<in> set es" "y \<noteq> x" "key_of y = key_of x"
  shows "replace_first x y es = map (\<lambda>e. if e = x then y else e) es"
  using assms by (intro replace_first_map) (auto dest: keyed_distinct keyed_unique)

lemma entry_of_Inr: "entry_of m v g = Inr e \<Longrightarrow> e \<in> set (reg_entries g) \<and> key_of e = (m, v)"
  by (auto simp: entry_of_def key_of_def is_model_def split: option.splits dest: find_SomeD1 find_SomeD2)

section \<open>The loop and the switch\<close>

definition move_where :: "(RegistryEntry \<Rightarrow> bool) \<Rightarrow> (RegistryEntry \<Rightarrow> RegistryEntry) \<Rightarrow> model_registry \<Rightarrow> model_registry" where
  "move_where P f g = g\<lparr>reg_entries := update_where P f (reg_entries g)\<rparr>"

lemma transition_to_runs:
  assumes "keyed (reg_entries g)" "entry \<in> set (reg_entries g)"
    "may_move (re_lifecycle_status entry) to_status reactivation"
    "10 \<le> length (normalize_space summary)" "strip actor \<noteq> []"
  shows "transition_to now entry to_status actor summary sha reason reactivation g =
    (Inr (moved now to_status (strip actor) (normalize_space summary) sha reason entry),
     move_where (\<lambda>e. e = entry) (moved now to_status (strip actor) (normalize_space summary) sha reason) g)"
  using assms
  by (simp add: transition_to_def require_evidence_def replace_entry_def move_where_def update_where_def
      replace_first_keyed moved_differs cong: if_cong)

lemma retire_each_runs:
  assumes "keyed (reg_entries g)" "set xs \<subseteq> set (reg_entries g)" "distinct xs"
    "\<forall>x \<in> set xs. re_lifecycle_status x = LS_ACTIVE"
    "10 \<le> length (normalize_space summary)" "strip actor \<noteq> []"
  shows "retire_each now actor summary sha reason xs g =
    (Inr (), move_where (\<lambda>e. e \<in> set xs) (moved now LS_RETIRED (strip actor) (normalize_space summary) sha reason) g)"
  using assms
proof (induction xs arbitrary: g)
  case Nil
  then show ?case by (simp add: move_where_def)
next
  case (Cons x xs)
  let ?f = "moved now LS_RETIRED (strip actor) (normalize_space summary) sha reason"
  let ?g = "move_where (\<lambda>e. e = x) ?f g"
  have t: "transition_to now x LS_RETIRED actor summary sha reason False g = (Inr (?f x), ?g)"
    using Cons.prems by (intro transition_to_runs) (simp_all add: may_move_def)
  have "keyed (reg_entries ?g)"
    using Cons.prems(1) by (simp add: move_where_def update_where_def keyed_map)
  moreover have "set xs \<subseteq> set (reg_entries ?g)"
    using Cons.prems(2,3) by (auto simp: move_where_def set_update_where image_iff)
  ultimately have r: "retire_each now actor summary sha reason xs ?g = (Inr (), move_where (\<lambda>e. e \<in> set xs) ?f ?g)"
    using Cons.prems by (intro Cons.IH) simp_all
  have "?f e \<notin> set xs" for e
    using Cons.prems(4) by auto
  then have "move_where (\<lambda>e. e \<in> set xs) ?f ?g = move_where (\<lambda>e. e \<in> set (x # xs)) ?f g"
    by (auto simp: move_where_def update_where_def)
  with r t show ?case by simp
qed


text \<open>The body that \<open>activate\<close> and \<open>rollback\<close> share: every active version of the model retires and the
  candidate takes its place.\<close>

definition switch_to ::
  "string \<Rightarrow> string \<Rightarrow> string \<Rightarrow> string option \<Rightarrow> string option \<Rightarrow> string \<Rightarrow> string option \<Rightarrow> string option \<Rightarrow>
   RegistryEntry \<Rightarrow> RegistryEntry list \<Rightarrow> RegistryEntry list" where
  "switch_to now actor text1 sha1 reason1 text2 sha2 reason2 candidate es =
     map (\<lambda>e. if e = candidate then moved now LS_ACTIVE actor text2 sha2 reason2 e
        else if re_category e = re_category candidate \<and> re_model_id e = re_model_id candidate \<and>
                re_lifecycle_status e = LS_ACTIVE
        then moved now LS_RETIRED actor text1 sha1 reason1 e else e) es"

lemma set_same_product: "e \<in> set (same_product_active c g) \<longleftrightarrow> e \<in> set (reg_entries g) \<and>
    re_category e = re_category c \<and> re_model_id e = re_model_id c \<and> re_lifecycle_status e = LS_ACTIVE"
  by (auto simp: same_product_active_def)

lemma switch_runs:
  assumes "keyed (reg_entries g)" "candidate \<in> set (reg_entries g)"
    "may_move (re_lifecycle_status candidate) LS_ACTIVE reactivation"
    "10 \<le> length (normalize_space text1)" "10 \<le> length (normalize_space text2)" "strip actor \<noteq> []"
  shows "after (retire_each now actor text1 sha1 reason1 (same_product_active candidate g))
     (\<lambda>_. after (transition_to now candidate LS_ACTIVE actor text2 sha2 reason2 reactivation) finish) g =
   finish (moved now LS_ACTIVE (strip actor) (normalize_space text2) sha2 reason2 candidate)
    (g\<lparr>reg_entries := switch_to now (strip actor) (normalize_space text1) sha1 reason1 (normalize_space text2) sha2
       reason2 candidate (reg_entries g)\<rparr>)"
proof -
  let ?f = "moved now LS_RETIRED (strip actor) (normalize_space text1) sha1 reason1"
  let ?c = "moved now LS_ACTIVE (strip actor) (normalize_space text2) sha2 reason2"
  let ?xs = "same_product_active candidate g"
  let ?g = "move_where (\<lambda>e. e \<in> set ?xs) ?f g"
  have r: "retire_each now actor text1 sha1 reason1 ?xs g = (Inr (), ?g)"
    using assms by (intro retire_each_runs) (auto simp: same_product_active_def keyed_distinct)
  have na: "re_lifecycle_status candidate \<noteq> LS_ACTIVE"
    using assms(3) by (cases "re_lifecycle_status candidate") (simp_all add: may_move_def)
  have "keyed (reg_entries ?g)"
    using assms(1) by (simp add: move_where_def update_where_def keyed_map)
  moreover have "candidate \<in> set (reg_entries ?g)"
    using assms(2) na by (auto simp: move_where_def set_update_where image_iff set_same_product)
  ultimately have t: "transition_to now candidate LS_ACTIVE actor text2 sha2 reason2 reactivation ?g =
      (Inr (?c candidate), move_where (\<lambda>e. e = candidate) ?c ?g)"
    using assms by (intro transition_to_runs) simp_all
  have nf: "?f e \<noteq> candidate" if "e \<in> set (reg_entries g)" "e \<noteq> candidate" for e
    using keyed_unique [OF assms(1) that(1) assms(2)] that(2) moved_simps(6) by metis
  have "move_where (\<lambda>e. e = candidate) ?c ?g =
      g\<lparr>reg_entries := switch_to now (strip actor) (normalize_space text1) sha1 reason1 (normalize_space text2) sha2 reason2
        candidate (reg_entries g)\<rparr>"
    using na nf by (auto simp: move_where_def update_where_def switch_to_def set_same_product)
  then show ?thesis using r t by simp
qed


section \<open>The lifecycle the registry promises\<close>

definition fresh_draft :: "RegistryEntry \<Rightarrow> bool" where
  "fresh_draft d \<longleftrightarrow> re_lifecycle_status d = LS_DRAFT \<and> (\<exists>t. re_transitions d = [t] \<and>
     rt_from_status t = None \<and> rt_to_status t = LS_DRAFT \<and> rt_actor t \<noteq> [] \<and>
     10 \<le> length (rt_evidence_summary t)) \<and> re_audit_reasons d = []"

definition valid_texts :: "string \<Rightarrow> string \<Rightarrow> bool" where
  "valid_texts actor summary \<longleftrightarrow> actor \<noteq> [] \<and> 10 \<le> length summary"

inductive registry_step :: "RegistryEntry list \<Rightarrow> RegistryEntry list \<Rightarrow> bool" where
  register: "fresh_draft d \<Longrightarrow> key_of d \<notin> key_of ` set es \<Longrightarrow> registry_step es (es @ [d])"
| move: "e \<in> set es \<Longrightarrow> to_status \<in> direct_transitions (re_lifecycle_status e) \<Longrightarrow> to_status \<noteq> LS_ACTIVE \<Longrightarrow>
    valid_texts actor summary \<Longrightarrow>
    registry_step es (update_where (\<lambda>x. x = e) (moved now to_status actor summary sha reason) es)"
| block: "e \<in> set es \<Longrightarrow> valid_texts actor summary \<Longrightarrow>
    registry_step es (update_where (\<lambda>x. x = e) (blocked now actor summary sha why) es)"
| switch: "c \<in> set es \<Longrightarrow> re_lifecycle_status c \<in> {LS_APPROVED, LS_RETIRED} \<Longrightarrow>
    valid_texts actor text1 \<Longrightarrow> valid_texts actor text2 \<Longrightarrow>
    registry_step es (switch_to now actor text1 sha1 reason1 text2 sha2 reason2 c es)"

text \<open>What an operation may do: raise and change nothing, take one step and write it to disk, or take one step in
  memory and raise because the write fails.\<close>

definition outcome_ok :: "model_registry \<Rightarrow> (ml_exn + RegistryEntry) \<times> model_registry \<Rightarrow> bool" where
  "outcome_ok g out = (case out of
       (Inl e, g') \<Rightarrow> reg_stored g' = reg_stored g \<and>
         (g' = g \<or> reg_disk g \<noteq> None \<and> registry_step (reg_entries g) (reg_entries g'))
     | (Inr entry, g') \<Rightarrow> reg_disk g = None \<and> registry_step (reg_entries g) (reg_entries g') \<and>
         reg_stored g' = reg_entries g' \<and> entry \<in> set (reg_entries g'))"

lemma outcome_finish:
  assumes "registry_step (reg_entries g) es" "entry \<in> set es"
  shows "outcome_ok g (finish entry (g\<lparr>reg_entries := es\<rparr>))"
  using assms by (cases "reg_disk g") (simp_all add: finish_runs finish_raises outcome_ok_def)

lemma outcome_fails [simp]: "outcome_ok g (fails e g)"
  by (simp add: outcome_ok_def)

lemma outcome_Inl [simp]: "outcome_ok g (Inl e, g)"
  by (simp add: outcome_ok_def)

lemma outcome_reading:
  assumes "\<And>x. m = Inr x \<Longrightarrow> outcome_ok g (k x g)"
  shows "outcome_ok g (after_reading m k g)"
  using assms by (cases m) simp_all

lemma outcome_if:
  assumes "\<not> b \<Longrightarrow> outcome_ok g (k g)"
  shows "outcome_ok g ((if b then fails e else k) g)"
  using assms by simp

lemma outcome_move:
  assumes "keyed (reg_entries g)" "entry \<in> set (reg_entries g)" "to_status \<noteq> LS_ACTIVE"
  shows "outcome_ok g (after (transition_to now entry to_status actor summary sha reason False) finish g)"
proof (cases "require_evidence summary actor")
  case (Inl e)
  then have "transition_to now entry to_status actor summary sha reason False g = (Inl e, g)"
    by (simp add: transition_to_def)
  then show ?thesis by (simp add: outcome_ok_def)
next
  case (Inr sa)
  then have ok: "10 \<le> length (normalize_space summary)" "strip actor \<noteq> []" by (cases sa; simp)+
  show ?thesis
  proof (cases "may_move (re_lifecycle_status entry) to_status False")
    case False
    with ok have "transition_to now entry to_status actor summary sha reason False g =
        (Inl (MlError ''ValueError'' ''illegal model lifecycle transition''), g)"
      by (simp add: transition_to_def require_evidence_def)
    then show ?thesis by (simp add: outcome_ok_def)
  next
    case True
    note t = transition_to_runs [OF assms(1,2) True ok, of now sha reason]
    have d: "to_status \<in> direct_transitions (re_lifecycle_status entry)" using True by (simp add: may_move_def)
    have "registry_step (reg_entries g) (update_where (\<lambda>e. e = entry)
        (moved now to_status (strip actor) (normalize_space summary) sha reason) (reg_entries g))"
      by (rule registry_step.move [OF assms(2) d assms(3)]) (use ok in \<open>simp add: valid_texts_def\<close>)
    then show ?thesis using t assms(2)
      by (auto simp: move_where_def set_update_where intro!: outcome_finish)
  qed
qed

lemma outcome_switch:
  assumes "keyed (reg_entries g)" "c \<in> set (reg_entries g)"
    "may_move (re_lifecycle_status c) LS_ACTIVE reactivation"
    "10 \<le> length (normalize_space text1)" "10 \<le> length (normalize_space text2)" "strip actor \<noteq> []"
  shows "outcome_ok g (after (retire_each now actor text1 sha1 reason1 (same_product_active c g))
     (\<lambda>_. after (transition_to now c LS_ACTIVE actor text2 sha2 reason2 reactivation) finish) g)"
proof -
  have st: "re_lifecycle_status c \<in> {LS_APPROVED, LS_RETIRED}"
    using assms(3) by (cases "re_lifecycle_status c") (simp_all add: may_move_def)
  have "registry_step (reg_entries g) (switch_to now (strip actor) (normalize_space text1) sha1 reason1
      (normalize_space text2) sha2 reason2 c (reg_entries g))"
    by (rule registry_step.switch [OF assms(2) st]) (use assms in \<open>simp_all add: valid_texts_def\<close>)
  then show ?thesis unfolding switch_runs [OF assms, of now sha1 reason1 sha2 reason2]
    by (rule outcome_finish) (use assms(2) in \<open>auto simp: switch_to_def\<close>)
qed


section \<open>Every operation keeps the promise\<close>

lemma outcome_register:
  "outcome_ok g (register_draft env now dir actor tid product pack evidence_path correlation g)"
proof -
  have key: "key_of d \<notin> key_of ` set es"
    if "\<not> list_ex (is_model (re_model_id d) (re_model_version d)) es" for d es
    using that by (auto simp: list_ex_iff is_model_def key_of_def)
  have step: "outcome_ok g (finish d (g\<lparr>reg_entries := reg_entries g @ [d]\<rparr>))"
    if "\<not> list_ex (is_model (re_model_id d) (re_model_version d)) (reg_entries g)" "fresh_draft d" for d
    using registry_step.register [OF that(2) key [OF that(1)]] by (rule outcome_finish) simp
  show ?thesis
    unfolding register_draft_def
    by (intro outcome_reading) (auto simp: Let_def fresh_draft_def intro!: step)
qed

lemma outcome_blocked:
  assumes "keyed (reg_entries g)" "entry \<in> set (reg_entries g)"
  shows "outcome_ok g (record_blocked env now entry evidence path actor summary g)"
proof -
  have step: "outcome_ok g (after (replace_entry entry (blocked now a s sha why entry)) finish g)"
    if "valid_texts a s" for a s sha why
    using outcome_finish [OF registry_step.block [OF assms(2) that, of now sha why], of "blocked now a s sha why entry"] assms
    by (auto simp: after_def replace_entry_def replace_first_keyed blocked_differs update_where_def cong: if_cong)
  show ?thesis
    unfolding record_blocked_def Let_def
    by (intro outcome_reading) (auto simp: valid_texts_def intro!: step)
qed

lemma outcome_evaluate:
  assumes "keyed (reg_entries g)"
  shows "outcome_ok g (evaluate env now m v actor summary g)"
  unfolding evaluate_def
proof (rule outcome_reading)
  fix entry
  assume "entry_of m v g = Inr entry"
  then have e: "entry \<in> set (reg_entries g)" using entry_of_Inr by blast
  let ?done = "after_reading (evaluation_sha env entry)
     (\<lambda>sha. after (transition_to now entry LS_EVALUATED actor summary (Some sha) None False) finish)"
  have d: "outcome_ok g (?done g)"
    by (rule outcome_reading, rule outcome_move [OF assms e]) simp
  note b = outcome_blocked [OF assms e]
  show "outcome_ok g (after_reading (verify_model_package env (re_package_path entry) None) (\<lambda>_.
     let evaluated = ?done in
     if \<not> truthy (re_evidence_package_path entry) then evaluated
     else
       let path = or_else (re_evidence_package_path entry) [] in
       after_reading (verify_evidence env path (Some (re_package_sha256 entry))) (\<lambda>evidence.
       if re_evidence_package_sha256 entry \<noteq> Some (me_evidence_package_sha256 evidence)
       then fails (MlError ''ModelPackageError'' ''registered qualification evidence digest changed'')
       else if ml_str env (me_gate_decision evidence) \<noteq> ''GO''
       then record_blocked env now entry evidence path actor summary
       else evaluated)) g)"
    by (rule outcome_reading) (auto simp: Let_def d b intro!: outcome_reading)
qed

lemma outcome_approve:
  assumes "keyed (reg_entries g)"
  shows "outcome_ok g (approve env now m v actor summary g)"
  unfolding approve_def
proof (rule outcome_reading)
  fix entry
  assume "entry_of m v g = Inr entry"
  then have e: "entry \<in> set (reg_entries g)" using entry_of_Inr by blast
  have d: "outcome_ok g (after (transition_to now entry LS_APPROVED actor summary None None False) finish g)"
    by (rule outcome_move [OF assms e]) simp
  then show "outcome_ok g ((let approved = after (transition_to now entry LS_APPROVED actor summary None None False) finish in
     if \<not> truthy (re_evidence_package_path entry) then approved
     else
       after_reading (verify_evidence env (or_else (re_evidence_package_path entry) []) (Some (re_package_sha256 entry)))
         (\<lambda>evidence.
       if me_gate_decision evidence \<noteq> JStr ''GO''
       then fails (MlError ''ValueError'' ''qualification evidence gate is not GO; approval is blocked'')
       else if me_source_type evidence \<noteq> JStr ''CUSTOMER_PILOT'' \<or>
               me_approval_status evidence \<noteq> JStr ''PENDING_APPROVAL''
       then fails (MlError ''ValueError'' ''benchmark/demo evidence cannot be approved'')
       else if rt_actor (last (re_transitions entry)) = actor
       then fails (MlError ''ValueError'' ''evaluator cannot approve the same qualification'')
       else approved)) g)"
    by (auto simp: Let_def intro!: outcome_reading)
qed

lemma outcome_retire:
  assumes "keyed (reg_entries g)"
  shows "outcome_ok g (retire now m v actor summary g)"
  unfolding retire_def
  by (rule outcome_reading, rule outcome_move [OF assms]) (auto dest: entry_of_Inr)

lemma outcome_activate:
  assumes "keyed (reg_entries g)"
  shows "outcome_ok g (activate env now m v actor summary g)"
proof -
  have sw: "outcome_ok g (after (retire_each now (strip actor)
       (''Retired as part of activating '' @ re_model_id c @ ''@'' @ re_model_version c @ ''. '' @ normalize_space summary)
       sha1 reason1 (same_product_active c g))
     (\<lambda>_. after (transition_to now c LS_ACTIVE (strip actor) (normalize_space summary) sha2 reason2 False) finish) g)"
    if "c \<in> set (reg_entries g)" "re_lifecycle_status c = LS_APPROVED" "10 \<le> length (normalize_space summary)"
      "strip actor \<noteq> []" for c sha1 reason1 sha2 reason2
    by (rule outcome_switch [OF assms that(1)]) (use that in \<open>simp_all add: may_move_def retired_text [simplified append_Cons append_Nil]\<close>)
  show ?thesis
    unfolding activate_def
    by (rule outcome_reading, drule entry_of_Inr) (auto intro!: outcome_reading sw [simplified append_Cons append_Nil])
qed

lemma outcome_rollback:
  assumes "keyed (reg_entries g)"
  shows "outcome_ok g (rollback_model env now m v actor summary condition g)"
proof -
  have sw: "outcome_ok g (after (retire_each now (strip actor)
       (''Rollback requested because '' @ x) sha1 reason1 (same_product_active c g))
     (\<lambda>_. after (transition_to now c LS_ACTIVE (strip actor) (''Rollback requested because '' @ x) sha2 reason2 True)
       finish) g)"
    if "c \<in> set (reg_entries g)" "re_lifecycle_status c \<in> {LS_RETIRED, LS_APPROVED}"
      "strip actor \<noteq> []" for c x sha1 reason1 sha2 reason2
    by (rule outcome_switch [OF assms that(1)]) (use that in \<open>auto simp: may_move_def rollback_text [simplified append_Cons append_Nil]\<close>)
  show ?thesis
    unfolding rollback_model_def Let_def
    by (rule outcome_if, rule outcome_reading, drule entry_of_Inr, rule outcome_if)
      (auto intro!: outcome_reading sw [simplified append_Cons append_Nil])
qed


section \<open>Requests and runs\<close>

datatype registry_request =
    RegisterDraft string string "string option" "string option" "string option" "string option" string
  | Evaluate string string string string
  | Approve string string string string
  | Activate string string string string
  | Retire string string string string
  | Rollback string string string string string

fun run_registry :: "ml_env \<Rightarrow> string \<Rightarrow> registry_request \<Rightarrow> RegistryEntry registry_op" where
  "run_registry env now (RegisterDraft dir actor tid product pack evidence correlation) =
     register_draft env now dir actor tid product pack evidence correlation"
| "run_registry env now (Evaluate m v actor summary) = evaluate env now m v actor summary"
| "run_registry env now (Approve m v actor summary) = approve env now m v actor summary"
| "run_registry env now (Activate m v actor summary) = activate env now m v actor summary"
| "run_registry env now (Retire m v actor summary) = retire now m v actor summary"
| "run_registry env now (Rollback m v actor summary condition) = rollback_model env now m v actor summary condition"

text \<open>The registry starts without an index; each request meets its own disk, libraries and clock, a
  write may fail, and a later process loads the index again.\<close>

definition empty_registry :: model_registry where
  "empty_registry = \<lparr>reg_entries = [], reg_stored = [], reg_disk = None\<rparr>"

inductive registry_reachable :: "model_registry \<Rightarrow> bool" where
  reg_init: "registry_reachable empty_registry"
| reg_request: "registry_reachable g \<Longrightarrow> registry_reachable (snd (run_registry env now rq g))"
| reg_disk_changes: "registry_reachable g \<Longrightarrow> registry_reachable (g\<lparr>reg_disk := failure\<rparr>)"
| reg_load: "registry_reachable g \<Longrightarrow> registry_reachable (load g)"

lemma run_registry_outcome:
  assumes "keyed (reg_entries g)"
  shows "outcome_ok g (run_registry env now rq g)"
  using assms
  by (cases rq) (simp_all add: outcome_register outcome_evaluate outcome_approve outcome_activate outcome_retire
      outcome_rollback)

section \<open>What a step keeps\<close>

lemma switch_key [simp]: "map key_of (switch_to now actor text1 sha1 reason1 text2 sha2 reason2 c es) = map key_of es"
  by (simp add: switch_to_def)

lemma step_keyed: "registry_step es es' \<Longrightarrow> keyed es \<Longrightarrow> keyed es'"
  by (induction rule: registry_step.induct) (simp_all add: keyed_def)

text \<open>A law of single entries that a fresh draft has and every transition keeps, whichever operation makes it.\<close>

locale entry_law =
  fixes P :: "RegistryEntry \<Rightarrow> bool"
  assumes law_draft: "fresh_draft d \<Longrightarrow> P d"
    and law_moved: "P e \<Longrightarrow> may_move (re_lifecycle_status e) to_status True \<Longrightarrow> valid_texts actor summary \<Longrightarrow>
      P (moved now to_status actor summary sha reason e)"
    and law_blocked: "P e \<Longrightarrow> valid_texts actor summary \<Longrightarrow> P (blocked now actor summary sha why e)"
begin

lemma step_law:
  assumes "registry_step es es'" "\<forall>e \<in> set es. P e"
  shows "\<forall>e \<in> set es'. P e"
  using assms
proof cases
  case register
  then show ?thesis using assms(2) law_draft by auto
next
  case move
  then show ?thesis using assms(2) by (auto simp: set_update_where may_move_def intro!: law_moved)
next
  case block
  then show ?thesis using assms(2) by (auto simp: set_update_where intro!: law_blocked)
next
  case switch
  then show ?thesis using assms(2) by (auto simp: switch_to_def may_move_def intro!: law_moved)
qed

lemma reachable_law:
  assumes "registry_reachable g"
  shows "keyed (reg_entries g) \<and> keyed (reg_stored g) \<and> (\<forall>e \<in> set (reg_entries g). P e) \<and>
    (\<forall>e \<in> set (reg_stored g). P e)"
  using assms
proof induction
  case reg_init
  then show ?case by (simp add: empty_registry_def keyed_def)
next
  case (reg_request g env now rq)
  obtain r g' where run: "run_registry env now rq g = (r, g')" by (cases "run_registry env now rq g")
  with run_registry_outcome [of g env now rq] reg_request.IH have "outcome_ok g (r, g')" by simp
  then show ?case using reg_request.IH run step_keyed step_law
    by (cases r) (auto simp: outcome_ok_def)
next
  case (reg_disk_changes g failure)
  then show ?case by simp
next
  case (reg_load g)
  then show ?case by (simp add: load_def)
qed

end

section \<open>Histories\<close>

text \<open>The transitions of an entry without the DRAFT to DRAFT records of blocked evaluations.\<close>

definition blocked_note :: "RegistryTransition \<Rightarrow> bool" where
  "blocked_note t \<longleftrightarrow> rt_from_status t = Some LS_DRAFT \<and> rt_to_status t = LS_DRAFT"

definition real_moves :: "RegistryEntry \<Rightarrow> RegistryTransition list" where
  "real_moves e = filter (\<lambda>t. \<not> blocked_note t) (re_transitions e)"

definition blocked_notes :: "RegistryEntry \<Rightarrow> RegistryTransition list" where
  "blocked_notes e = filter blocked_note (re_transitions e)"

text \<open>A path of legal moves from a status: it starts where the last one ended.\<close>

fun lifecycle_path :: "lifecycle option \<Rightarrow> RegistryTransition list \<Rightarrow> lifecycle option \<Rightarrow> bool" where
  "lifecycle_path s [] s' = (s' = s)"
| "lifecycle_path s (t # ts) s' = (rt_from_status t = s \<and>
     (case s of None \<Rightarrow> rt_to_status t = LS_DRAFT | Some f \<Rightarrow> may_move f (rt_to_status t) True) \<and>
     lifecycle_path (Some (rt_to_status t)) ts s')"

lemma lifecycle_path_append: "lifecycle_path s (ts @ us) s' \<longleftrightarrow> (\<exists>m. lifecycle_path s ts m \<and> lifecycle_path m us s')"
  by (induction s ts s' rule: lifecycle_path.induct) auto

definition history_ok :: "RegistryEntry \<Rightarrow> bool" where
  "history_ok e \<longleftrightarrow> lifecycle_path None (real_moves e) (Some (re_lifecycle_status e)) \<and>
     map rt_reason (blocked_notes e) = map Some (re_audit_reasons e) \<and>
     (\<forall>t \<in> set (re_transitions e). valid_texts (rt_actor t) (rt_evidence_summary t))"

lemma may_move_no_draft: "may_move a b c \<Longrightarrow> b \<noteq> LS_DRAFT"
  by (cases a) (auto simp: may_move_def)

interpretation lifecycle_history: entry_law history_ok
proof
  fix d
  assume "fresh_draft d"
  then show "history_ok d" by (auto simp: fresh_draft_def history_ok_def real_moves_def blocked_notes_def blocked_note_def valid_texts_def)
next
  fix e to_status actor summary now sha reason
  assume "history_ok e" "may_move (re_lifecycle_status e) to_status True" "valid_texts actor summary"
  then show "history_ok (moved now to_status actor summary sha reason e)"
    using may_move_no_draft [of "re_lifecycle_status e" to_status True]
    by (auto simp: history_ok_def real_moves_def blocked_notes_def blocked_note_def moved_def lifecycle_path_append)
next
  fix e actor summary now sha why
  assume "history_ok e" "valid_texts actor summary"
  then show "history_ok (blocked now actor summary sha why e)"
    by (auto simp: history_ok_def real_moves_def blocked_notes_def blocked_note_def blocked_def)
qed

text \<open>Whoever is past a status went through it.\<close>

definition passed :: "lifecycle \<Rightarrow> RegistryEntry \<Rightarrow> bool" where
  "passed s e \<longleftrightarrow> (\<exists>t \<in> set (re_transitions e). rt_to_status t = s)"

definition stages_ok :: "RegistryEntry \<Rightarrow> bool" where
  "stages_ok e \<longleftrightarrow> (re_lifecycle_status e \<noteq> LS_DRAFT \<longrightarrow> passed LS_EVALUATED e) \<and>
     (re_lifecycle_status e \<notin> {LS_DRAFT, LS_EVALUATED} \<longrightarrow> passed LS_APPROVED e)"

interpretation lifecycle_stages: entry_law stages_ok
proof
  fix d
  assume "fresh_draft d"
  then show "stages_ok d" by (auto simp: fresh_draft_def stages_ok_def)
next
  fix e to_status actor summary now sha reason
  assume "stages_ok e" "may_move (re_lifecycle_status e) to_status True"
  then show "stages_ok (moved now to_status actor summary sha reason e)"
    by (cases "re_lifecycle_status e") (auto simp: stages_ok_def passed_def moved_def may_move_def)
next
  fix e actor summary now sha why
  assume "stages_ok e"
  then show "stages_ok (blocked now actor summary sha why e)"
    by (auto simp: stages_ok_def passed_def blocked_def)
qed

end
