(* ===== verification/MlRegistryGuarantees.thy ===== *)
theory MlRegistryGuarantees
  imports MlRegistryProofs
begin

text \<open>
  What the model registry guarantees over every sequence of its operations, and the example registry
  the witnesses run.
\<close>

section \<open>One active version\<close>

definition one_active :: "RegistryEntry list \<Rightarrow> bool" where
  "one_active es \<longleftrightarrow> (\<forall>x \<in> set es. \<forall>y \<in> set es. re_lifecycle_status x = LS_ACTIVE \<longrightarrow>
     re_lifecycle_status y = LS_ACTIVE \<longrightarrow> re_category x = re_category y \<longrightarrow> re_model_id x = re_model_id y \<longrightarrow>
     x = y)"

lemma one_activeD:
  "one_active es \<Longrightarrow> x \<in> set es \<Longrightarrow> y \<in> set es \<Longrightarrow> re_lifecycle_status x = LS_ACTIVE \<Longrightarrow>
   re_lifecycle_status y = LS_ACTIVE \<Longrightarrow> re_category x = re_category y \<Longrightarrow> re_model_id x = re_model_id y \<Longrightarrow> x = y"
  by (auto simp: one_active_def)

lemma switch_active:
  "x \<in> set (switch_to now actor text1 sha1 reason1 text2 sha2 reason2 c es) \<Longrightarrow> re_lifecycle_status x = LS_ACTIVE \<Longrightarrow>
   x = moved now LS_ACTIVE actor text2 sha2 reason2 c \<or>
   x \<in> set es \<and> \<not> (re_category x = re_category c \<and> re_model_id x = re_model_id c)"
  by (auto simp: switch_to_def split: if_splits)

lemma step_one_active:
  assumes "registry_step es es'" "one_active es"
  shows "one_active es'"
  using assms(1)
proof cases
  case register
  then show ?thesis using assms(2) by (auto simp: one_active_def fresh_draft_def)
next
  case (move e to_status actor summary now sha reason)
  have "x \<in> set es" if "x \<in> set es'" "re_lifecycle_status x = LS_ACTIVE" for x
    using that move by (auto simp: set_update_where split: if_splits)
  then show ?thesis using assms(2) unfolding one_active_def by blast
next
  case (block e actor summary now sha why)
  have "x = y" if xy: "x \<in> set es'" "y \<in> set es'" "re_lifecycle_status x = LS_ACTIVE" "re_lifecycle_status y = LS_ACTIVE"
      "re_category x = re_category y" "re_model_id x = re_model_id y" for x y
  proof -
    define f where "f = (\<lambda>x. if x = e then blocked now actor summary sha why x else x)"
    have es': "set es' = f ` set es" using block(1) by (simp add: set_update_where f_def)
    then obtain x0 y0 where 0: "x0 \<in> set es" "x = f x0" "y0 \<in> set es" "y = f y0"
      using xy(1,2) by blast
    have f: "re_lifecycle_status (f z) = re_lifecycle_status z" "re_category (f z) = re_category z"
      "re_model_id (f z) = re_model_id z" for z
      by (simp_all add: f_def)
    have "x0 = y0"
      by (rule one_activeD [OF assms(2) 0(1,3)]) (use xy(3-6) in \<open>simp_all add: 0 f\<close>)
    then show ?thesis by (simp add: 0)
  qed
  then show ?thesis unfolding one_active_def by blast
next
  case (switch c actor text1 text2 now sha1 reason1 sha2 reason2)
  have "x = y" if xy: "x \<in> set es'" "y \<in> set es'" "re_lifecycle_status x = LS_ACTIVE" "re_lifecycle_status y = LS_ACTIVE"
      "re_category x = re_category y" "re_model_id x = re_model_id y" for x y
  proof -
    note a = switch_active [of _ now actor text1 sha1 reason1 text2 sha2 reason2 c es, folded switch(1)]
    show ?thesis using a [OF xy(1,3)] a [OF xy(2,4)] xy(5,6) one_activeD [OF assms(2) _ _ xy(3,4,5,6)] by auto
  qed
  then show ?thesis unfolding one_active_def by blast
qed

text \<open>The active versions are a law of the whole index.\<close>

lemma reachable_one_active:
  assumes "registry_reachable g"
  shows "one_active (reg_entries g) \<and> one_active (reg_stored g)"
  using assms
proof induction
  case reg_init
  then show ?case by (simp add: empty_registry_def one_active_def)
next
  case (reg_request g env now rq)
  have "keyed (reg_entries g)" using lifecycle_history.reachable_law [OF reg_request.hyps] by simp
  then have "outcome_ok g (run_registry env now rq g)" by (rule run_registry_outcome)
  then show ?case using reg_request.IH step_one_active
    by (auto simp: outcome_ok_def split: prod.splits sum.splits)
next
  case (reg_disk_changes g failure)
  then show ?case by simp
next
  case (reg_load g)
  then show ?case by (simp add: load_def)
qed

section \<open>Append-only histories\<close>

definition continued :: "RegistryEntry \<Rightarrow> RegistryEntry \<Rightarrow> bool" where
  "continued e e' \<longleftrightarrow> key_of e' = key_of e \<and> re_package_sha256 e' = re_package_sha256 e \<and>
     re_created_at e' = re_created_at e \<and> extends (re_transitions e) (re_transitions e')"

lemma continued_refl [simp]: "continued e e"
  and continued_moved [simp]: "continued e (moved now to_status actor summary sha reason e)"
  and continued_blocked [simp]: "continued e (blocked now actor summary sha why e)"
  by (auto simp: continued_def moved_def blocked_def key_of_def)

lemma step_continues:
  assumes "registry_step es es'" "e \<in> set es"
  shows "\<exists>e' \<in> set es'. continued e e'"
  using assms
proof cases
  case register
  then show ?thesis using assms(2) by force
next
  case move
  then show ?thesis using assms(2) by (force simp: set_update_where)
next
  case block
  then show ?thesis using assms(2) by (force simp: set_update_where)
next
  case (switch c actor text1 text2 now sha1 reason1 sha2 reason2)
  define f where "f = (\<lambda>e. if e = c then moved now LS_ACTIVE actor text2 sha2 reason2 e
        else if re_category e = re_category c \<and> re_model_id e = re_model_id c \<and> re_lifecycle_status e = LS_ACTIVE
        then moved now LS_RETIRED actor text1 sha1 reason1 e else e)"
  have "set es' = f ` set es" using switch(1) by (simp add: switch_to_def f_def)
  moreover have "continued e (f e)" by (simp add: f_def)
  ultimately show ?thesis using assms(2) by blast
qed

lemma reachable_keyed: "registry_reachable g \<Longrightarrow> keyed (reg_entries g)"
  using lifecycle_history.reachable_law by blast

lemma reachable_outcome: "registry_reachable g \<Longrightarrow> outcome_ok g (run_registry env now rq g)"
  by (rule run_registry_outcome [OF reachable_keyed])

section \<open>Activation\<close>

lemma activation_evidence_Inr:
  "activation_evidence env manifest c actor = Inr () \<Longrightarrow> truthy (re_evidence_package_path c) \<Longrightarrow>
   \<exists>ev. verify_evidence env (or_else (re_evidence_package_path c) []) (Some (mp_package_sha256 manifest)) = Inr ev \<and>
     me_gate_decision ev = JStr ''GO'' \<and> me_source_type ev = JStr ''CUSTOMER_PILOT'' \<and>
     me_approval_status ev = JStr ''PENDING_APPROVAL'' \<and>
     (\<forall>t \<in> set (re_transitions c). rt_to_status t \<in> {LS_EVALUATED, LS_APPROVED} \<longrightarrow> rt_actor t \<noteq> actor)"
  by (auto simp: activation_evidence_def image_iff)

lemma activate_Inr:
  assumes "activate env now m v actor summary g = (Inr e, g')" "keyed (reg_entries g)"
  shows "\<exists>c manifest. c \<in> set (reg_entries g) \<and> key_of c = (m, v) \<and> re_lifecycle_status c = LS_APPROVED \<and>
     verify_model_package env (re_package_path c) None = Inr manifest \<and>
     mp_package_sha256 manifest = re_package_sha256 c \<and>
     activation_evidence env manifest c (strip actor) = Inr () \<and>
     e = moved now LS_ACTIVE (strip actor) (normalize_space summary) (Some (re_package_sha256 c)) (Some ''activation'') c"
proof -
  obtain c where c: "entry_of m v g = Inr c"
    using assms(1) by (cases "entry_of m v g") (simp_all add: activate_def)
  then have ce: "c \<in> set (reg_entries g)" "key_of c = (m, v)" by (simp_all add: entry_of_Inr)
  have st: "re_lifecycle_status c = LS_APPROVED"
    using assms(1) c by (auto simp: activate_def split: if_splits)
  obtain manifest where manifest: "verify_model_package env (re_package_path c) None = Inr manifest"
      "mp_package_sha256 manifest = re_package_sha256 c"
    using assms(1) c st
    by (cases "verify_model_package env (re_package_path c) None") (auto simp: activate_def split: if_splits)
  have words: "10 \<le> length (normalize_space summary)" "strip actor \<noteq> []"
    using assms(1) c st manifest by (auto simp: activate_def require_evidence_def split: if_splits)
  have ev: "activation_evidence env manifest c (strip actor) = Inr ()"
    using assms(1) c st manifest words
    by (cases "activation_evidence env manifest c (strip actor)") (auto simp: activate_def require_evidence_def)
  have mm: "may_move (re_lifecycle_status c) LS_ACTIVE False" using st by (simp add: may_move_def)
  let ?text1 = "''Retired as part of activating '' @ re_model_id c @ ''@'' @ re_model_version c @ ''. '' @
      normalize_space summary"
  have "10 \<le> length (normalize_space (normalize_space summary))" "strip (strip actor) \<noteq> []" using words by simp_all
  note sw = switch_runs [OF assms(2) ce(1) mm retired_text this, of now _ "Some (re_package_sha256 c)"
      "Some ''superseded_by_activation''" "Some (re_package_sha256 c)" "Some ''activation''"]
  have run: "activate env now m v actor summary g = after (retire_each now (strip actor) ?text1 (Some (re_package_sha256 c))
      (Some ''superseded_by_activation'') (same_product_active c g))
     (\<lambda>_. after (transition_to now c LS_ACTIVE (strip actor) (normalize_space summary) (Some (re_package_sha256 c))
        (Some ''activation'') False) finish) g"
    using c st manifest words ev by (simp add: activate_def require_evidence_def)
  have "e = moved now LS_ACTIVE (strip actor) (normalize_space summary) (Some (re_package_sha256 c)) (Some ''activation'') c"
    using assms(1) unfolding run sw by (auto dest: finish_Inr)
  with ce st manifest ev show ?thesis by blast
qed


section \<open>Properties of the registry\<close>

text \<open>C17. In every state of the model registry, in memory and on disk, at most one version of a model is active for a
  product category.\<close>

theorem registry_one_active:
  assumes "registry_reachable g" "es = reg_entries g \<or> es = reg_stored g" "x \<in> set es" "y \<in> set es"
    "re_lifecycle_status x = LS_ACTIVE" "re_lifecycle_status y = LS_ACTIVE"
    "re_category x = re_category y" "re_model_id x = re_model_id y"
  shows "x = y"
  by (rule one_activeD [OF _ assms(3-8)]) (use reachable_one_active [OF assms(1)] assms(2) in blast)

text \<open>C18. An operation of the registry that returns takes one step of the lifecycle, writes it to disk and only adds
  to the histories. One that raises leaves the index on disk as it was, and the index in memory too, with
  one exception: when the write of the index itself fails (an OSError), the step is taken in memory while
  the disk keeps the old index.\<close>

theorem registry_all_or_nothing:
  assumes "registry_reachable g" "run_registry env now rq g = (r, g')"
  shows "(\<forall>error. r = Inl error \<longrightarrow> reg_stored g' = reg_stored g \<and>
        (g' = g \<or> reg_disk g \<noteq> None \<and> registry_step (reg_entries g) (reg_entries g'))) \<and>
     (\<forall>entry. r = Inr entry \<longrightarrow> reg_disk g = None \<and> registry_step (reg_entries g) (reg_entries g') \<and> reg_stored g' = reg_entries g' \<and>
        entry \<in> set (reg_entries g') \<and> (\<forall>e \<in> set (reg_entries g). \<exists>e' \<in> set (reg_entries g'). continued e e'))"
  using reachable_outcome [OF assms(1), of env now rq] assms(2) step_continues
  by (cases r) (auto simp: outcome_ok_def)

text \<open>C19. The history of every registered model consists of moves and of notes. The moves, in their order, are a path of
  legal transitions from the registration to the status of the model. The notes are the records from DRAFT to
  DRAFT that blocked evaluations append, whatever the status is then: there is one for each audit reason of the
  model, in the same order, so nothing else is between the moves. Every record has an actor and a summary, and a
  model that is approved, active or retired was evaluated and approved.\<close>

theorem registry_history_explains_status:
  assumes "registry_reachable g" "e \<in> set (reg_entries g)"
  shows "lifecycle_path None (real_moves e) (Some (re_lifecycle_status e)) \<and>
     map rt_reason (blocked_notes e) = map Some (re_audit_reasons e) \<and>
     (\<forall>t \<in> set (re_transitions e). valid_texts (rt_actor t) (rt_evidence_summary t)) \<and>
     (re_lifecycle_status e \<in> {LS_APPROVED, LS_ACTIVE, LS_RETIRED} \<longrightarrow>
        passed LS_EVALUATED e \<and> passed LS_APPROVED e)"
  using lifecycle_history.reachable_law [OF assms(1)] lifecycle_stages.reachable_law [OF assms(1)] assms(2)
  by (auto simp: history_ok_def stages_ok_def)


section \<open>An example registry\<close>

definition zero_sha :: string where
  "zero_sha = replicate 64 (CHR ''0'')"

definition registry_package :: "(string \<times> string) list" where
  "registry_package =
     [(''config/preprocessing.json'', ''x''), (''config/thresholds.json'', ''T''), (''config/training.yaml'', ''x''),
      (''metadata.json'', ''D''), (''metrics/evaluation.json'', ''x''), (''model-package.json'', ''M''),
      (''provenance/manifest-meta.json'', ''x''), (''schemas/inference-result.schema.json'', ''x''),
      (''weights/model.pt'', ''x'')]"

definition registry_evidence_files :: "string \<Rightarrow> (string \<times> string) list" where
  "registry_evidence_files release =
     [(''confidence-intervals.json'', ''x''), (''error-cases.json'', ''x''), (''evaluation-report.md'', ''x''),
      (''evidence-manifest.json'', ''I''), (''metrics.json'', ''m''), (''model-card.md'', ''x''),
      (''provenance.json'', ''P''), (''qualification-summary.json'', ''Q''), (''release-decision.json'', release),
      (''source-evidence.json'', ''S''), (''split-manifest.json'', ''x'')]"

definition entry_json :: json where
  "entry_json = JObj [(''sha256'', JStr zero_sha), (''size_bytes'', JInt 1)]"

definition release_json :: "string \<Rightarrow> json" where
  "release_json gate = JObj [(''evidence_package_sha256'', JStr zero_sha), (''decision'', JStr ''READY''),
     (''gate_decision'', JStr gate), (''approval_status'', JStr ''PENDING_APPROVAL''),
     (''model_package_sha256'', JStr zero_sha)]"

definition registry_loads :: "string \<Rightarrow> json option" where
  "registry_loads s =
     (if s = ''M'' then Some JNull
      else if s = ''D'' then Some (JObj [(''model_id'', JStr ''m''), (''model_version'', JStr ''1'')])
      else if s = ''T'' then Some (JObj [(''review_threshold'', JFloat (1/2)), (''hold_threshold'', JFloat (3/4))])
      else if s = ''I'' then Some (JObj [(''schema_version'', JStr ''visionqc.evidence-manifest.v1''),
        (''files'', JObj (map (\<lambda>(p, c). (p, entry_json))
           (filter (\<lambda>(p, c). p \<noteq> ''evidence-manifest.json'') (registry_evidence_files ''R''))))])
      else if s = ''m'' then Some (JObj [(''gates'', JObj [(''report_status'', JStr ''READY''), (''decision'', JStr ''NO_GO'')])])
      else if s = ''P'' then Some (JObj [(''model_package_sha256'', JStr zero_sha), (''source_type'', JStr ''CUSTOMER_PILOT'')])
      else if s = ''Q'' then Some (JObj [(''qualification_status'', JStr ''READY''), (''source_type'', JStr ''CUSTOMER_PILOT'')])
      else if s = ''R'' then Some (release_json ''GO'')
      else if s = ''N'' then Some (release_json ''NO_GO'')
      else if s = ''S'' then Some (JObj [(''schema_version'', JStr ''visionqc.pilot-source-evidence.v1'')])
      else None)"

definition registry_manifest :: ModelPackageManifest where
  "registry_manifest = \<lparr>mp_package_format = ''visionqc.model-package.v1'', mp_model_id = ''m'', mp_model_version = ''1'',
     mp_feature_bank_version = ''fb'', mp_category = ''transistor'', mp_adapter = ''anomalib.patchcore.v2'',
     mp_lifecycle_status = ''EVALUATED'', mp_dataset_fingerprint = zero_sha, mp_training_manifest_sha256 = zero_sha,
     mp_code_commit = ''c'', mp_package_sha256 = zero_sha, mp_feature_bank_file = None,
     mp_feature_bank_sha256 = None,
     mp_files = map (\<lambda>(p, c). (p, \<lparr>pf_sha256 = zero_sha, pf_size_bytes = 1\<rparr>))
       (filter (\<lambda>(p, c). p \<noteq> ''model-package.json'') registry_package)\<rparr>"

text \<open>A hash that is constant is enough to run the checks; \<open>release\<close> is the file of the release decision.\<close>

definition registry_env :: "string \<Rightarrow> ml_env" where
  "registry_env release = \<lparr>ml_sha256 = (\<lambda>_. zero_sha), ml_dumps = (\<lambda>_. ''json''), ml_loads = registry_loads,
     ml_manifest_fields = (\<lambda>_. Some registry_manifest), ml_float_of = (\<lambda>_. None), ml_str_of = (\<lambda>_. ''value''),
     ml_tree = (\<lambda>p. if p = ''pkg'' then Some registry_package
        else if p = ''ev'' then Some (registry_evidence_files release) else None),
     ml_file = (\<lambda>_. None)\<rparr>"

lemma registry_package_verifies: "verify_model_package (registry_env r) ''pkg'' None = Inr registry_manifest"
  by code_simp

definition registry_evidence :: "string \<Rightarrow> ml_evidence" where
  "registry_evidence gate = \<lparr>me_evidence_package_sha256 = zero_sha, me_decision = JStr ''READY'',
     me_gate_decision = JStr gate, me_source_type = JStr ''CUSTOMER_PILOT'', me_dataset_fingerprint = JNull,
     me_approval_status = JStr ''PENDING_APPROVAL'', me_model_package_sha256 = JStr zero_sha\<rparr>"

lemma registry_evidence_verifies:
  "verify_evidence (registry_env ''R'') ''ev'' (Some zero_sha) = Inr (registry_evidence ''GO'')"
  "verify_evidence (registry_env ''N'') ''ev'' (Some zero_sha) = Inr (registry_evidence ''NO_GO'')"
  by code_simp+

definition example_transition ::
  "lifecycle option \<Rightarrow> lifecycle \<Rightarrow> string \<Rightarrow> string \<Rightarrow> string option \<Rightarrow> string option \<Rightarrow> string \<Rightarrow> RegistryTransition" where
  "example_transition f s actor summary sha reason c =
     \<lparr>rt_from_status = f, rt_to_status = s, rt_actor = actor, rt_evidence_summary = summary,
      rt_evidence_sha256 = sha, rt_occurred_at = ''now'', rt_reason = reason, rt_correlation_id = c\<rparr>"

definition example_entry :: RegistryEntry where
  "example_entry = \<lparr>re_model_id = ''m'', re_model_version = ''1'', re_category = ''transistor'',
     re_package_path = ''pkg'', re_package_sha256 = zero_sha, re_lifecycle_status = LS_DRAFT,
     re_created_at = ''now'', re_updated_at = ''now'',
     re_transitions = [example_transition None LS_DRAFT ''ann''
       ''Package integrity verified and registered as a draft candidate.'' (Some zero_sha) None ''c''],
     re_tenant_id = None, re_product_code = ''transistor'', re_deployment_pack_key = None,
     re_evidence_package_path = Some ''ev'', re_evidence_package_sha256 = Some zero_sha, re_audit_reasons = []\<rparr>"

definition evaluated_entry :: RegistryEntry where
  "evaluated_entry = moved ''now'' LS_EVALUATED ''ann'' ''evaluated on the holdout'' (Some zero_sha) None example_entry"

definition approved_entry :: RegistryEntry where
  "approved_entry = moved ''now'' LS_APPROVED ''bob'' ''approved after the review'' None None evaluated_entry"

definition active_entry :: RegistryEntry where
  "active_entry = moved ''now'' LS_ACTIVE ''cat'' ''activated for the line'' (Some zero_sha) (Some ''activation'') approved_entry"

definition registry_of :: "RegistryEntry \<Rightarrow> model_registry" where
  "registry_of e = \<lparr>reg_entries = [e], reg_stored = [e], reg_disk = None\<rparr>"

definition draft_request :: registry_request where
  "draft_request = RegisterDraft ''pkg'' ''ann'' None None None (Some ''ev'') ''c''"

lemma example_texts:
  "require_evidence ''evaluated on the holdout'' ''ann'' = Inr (''evaluated on the holdout'', ''ann'')"
  "require_evidence ''approved after the review'' ''bob'' = Inr (''approved after the review'', ''bob'')"
  "require_evidence ''activated for the line'' ''cat'' = Inr (''activated for the line'', ''cat'')"
  "strip ''ann'' = ''ann''" "strip ''cat'' = ''cat''"
  by code_simp+

lemma example_entry_simps [simp]:
  "re_package_path example_entry = ''pkg''" "re_model_id example_entry = ''m''"
  "re_model_version example_entry = ''1''" "re_evidence_package_path example_entry = Some ''ev''"
  "re_evidence_package_sha256 example_entry = Some zero_sha" "re_package_sha256 example_entry = zero_sha"
  "re_lifecycle_status example_entry = LS_DRAFT"
  by (simp_all add: example_entry_def)

lemma evaluation_file: "re_package_path e = ''pkg'' \<Longrightarrow> evaluation_sha (registry_env r) e = Inr zero_sha"
  by (simp add: evaluation_sha_def registry_env_def registry_package_def)

lemmas registry_run_simps = draft_request_def register_draft_def registry_package_verifies registry_evidence_verifies
  registry_of_def example_texts Let_def entry_of_def is_model_def evaluation_file transition_to_def may_move_def
  replace_entry_def after_def finish_def persist_def

lemma example_registered:
  "run_registry (registry_env ''R'') ''now'' draft_request empty_registry = (Inr example_entry, registry_of example_entry)"
  by (simp add: registry_run_simps empty_registry_def registry_manifest_def registry_evidence_def example_entry_def
      example_transition_def)

lemma moved_paths [simp]:
  "re_package_path (moved now to_status a s sha reason e) = re_package_path e"
  "re_evidence_package_path (moved now to_status a s sha reason e) = re_evidence_package_path e"
  "re_transitions (moved now to_status a s sha reason e) = re_transitions e @
     [\<lparr>rt_from_status = Some (re_lifecycle_status e), rt_to_status = to_status, rt_actor = a,
       rt_evidence_summary = s, rt_evidence_sha256 = sha, rt_occurred_at = now, rt_reason = reason,
       rt_correlation_id = ''registry''\<rparr>]"
  by (simp_all add: moved_def)

lemma gate_simps [simp]:
  "me_gate_decision (registry_evidence gate) = JStr gate"
  "me_evidence_package_sha256 (registry_evidence gate) = zero_sha"
  "me_source_type (registry_evidence gate) = JStr ''CUSTOMER_PILOT''"
  "me_approval_status (registry_evidence gate) = JStr ''PENDING_APPROVAL''"
  "me_decision (registry_evidence gate) = JStr ''READY''"
  by (simp_all add: registry_evidence_def)

lemma example_evaluated:
  "run_registry (registry_env ''R'') ''now'' (Evaluate ''m'' ''1'' ''ann'' ''evaluated on the holdout'') (registry_of example_entry) =
     (Inr evaluated_entry, registry_of evaluated_entry)"
  by (simp add: registry_run_simps evaluate_def evaluated_entry_def ml_str_def)

lemma example_approved:
  "run_registry (registry_env ''R'') ''now'' (Approve ''m'' ''1'' ''bob'' ''approved after the review'') (registry_of evaluated_entry) =
     (Inr approved_entry, registry_of approved_entry)"
  by (simp add: registry_run_simps approve_def approved_entry_def evaluated_entry_def)

lemma example_activated:
  "run_registry (registry_env ''R'') ''now'' (Activate ''m'' ''1'' ''cat'' ''activated for the line'') (registry_of approved_entry) =
     (Inr active_entry, registry_of active_entry)"
  by (simp add: registry_run_simps activate_def active_entry_def approved_entry_def evaluated_entry_def
      registry_manifest_def activation_evidence_def ml_check_def same_product_active_def example_transition_def
      example_entry_def) auto

lemma example_reachable:
  "registry_reachable (registry_of example_entry)" "registry_reachable (registry_of evaluated_entry)"
  "registry_reachable (registry_of approved_entry)" "registry_reachable (registry_of active_entry)"
proof -
  note step = registry_reachable.reg_request
  show 1: "registry_reachable (registry_of example_entry)"
    using step [OF registry_reachable.reg_init, of "registry_env ''R''" "''now''" draft_request]
    by (simp only: example_registered snd_conv)
  show 2: "registry_reachable (registry_of evaluated_entry)"
    using step [OF 1, of "registry_env ''R''" "''now''" "Evaluate ''m'' ''1'' ''ann'' ''evaluated on the holdout''"]
    by (simp only: example_evaluated snd_conv)
  show 3: "registry_reachable (registry_of approved_entry)"
    using step [OF 2, of "registry_env ''R''" "''now''" "Approve ''m'' ''1'' ''bob'' ''approved after the review''"]
    by (simp only: example_approved snd_conv)
  show "registry_reachable (registry_of active_entry)"
    using step [OF 3, of "registry_env ''R''" "''now''" "Activate ''m'' ''1'' ''cat'' ''activated for the line''"]
    by (simp only: example_activated snd_conv)
qed

theorem registry_one_active_witness:
  "re_lifecycle_status active_entry = LS_ACTIVE \<and> hd (reg_entries (registry_of active_entry)) = active_entry"
  using registry_one_active [OF example_reachable(4), of "[active_entry]" "hd (reg_entries (registry_of active_entry))" active_entry]
  by (simp add: registry_of_def active_entry_def)

theorem registry_all_or_nothing_witness:
  "registry_step [approved_entry] [active_entry]"
  using registry_all_or_nothing [OF example_reachable(3) example_activated] by (simp add: registry_of_def)

theorem registry_history_explains_status_witness:
  "passed LS_EVALUATED active_entry \<and> passed LS_APPROVED active_entry"
  using registry_history_explains_status [OF example_reachable(4), of active_entry]
  by (simp add: registry_of_def active_entry_def)


section \<open>A write that fails\<close>

text \<open>The disk is full when the evaluation is recorded: the operation raises, the file keeps the draft, and the
  registry in memory holds the model as evaluated. The next operation that writes stores both, so the
  evaluation that raised took effect.\<close>

theorem failed_write_takes_effect:
  "run_registry (registry_env ''R'') ''now'' (Evaluate ''m'' ''1'' ''ann'' ''evaluated on the holdout'')
      ((registry_of example_entry)\<lparr>reg_disk := Some ''no space''\<rparr>) =
     (Inl (MlError ''OSError'' ''no space''),
      \<lparr>reg_entries = [evaluated_entry], reg_stored = [example_entry], reg_disk = Some ''no space''\<rparr>)"
  "run_registry (registry_env ''R'') ''now'' (Approve ''m'' ''1'' ''bob'' ''approved after the review'')
      \<lparr>reg_entries = [evaluated_entry], reg_stored = [example_entry], reg_disk = None\<rparr> =
     (Inr approved_entry, registry_of approved_entry)"
  by (simp add: registry_run_simps evaluate_def evaluated_entry_def ml_str_def)
    (simp add: registry_run_simps approve_def approved_entry_def evaluated_entry_def)

section \<open>The decision is not under the digest\<close>

text \<open>The registered digest of the evidence does not cover \<^verbatim>\<open>release-decision.json\<close>, and the gate decision is
  read from there: a model whose evidence says NO_GO stays a draft, and after that one file is rewritten to say GO
  the same registered digest lets the evaluation pass.\<close>

theorem rewritten_decision_passes:
  "(case run_registry (registry_env ''N'') ''now'' (Evaluate ''m'' ''1'' ''ann'' ''evaluated on the holdout'')
          (registry_of example_entry) of
      (Inr e, g) \<Rightarrow> re_lifecycle_status e = LS_DRAFT \<and> re_audit_reasons e \<noteq> [] | _ \<Rightarrow> False) \<and>
   run_registry (registry_env ''R'') ''now'' (Evaluate ''m'' ''1'' ''ann'' ''evaluated on the holdout'')
          (registry_of example_entry) = (Inr evaluated_entry, registry_of evaluated_entry)"
proof -
  have tree: "ml_tree (registry_env r) ''ev'' = Some (registry_evidence_files r)" for r
    by (simp add: registry_env_def)
  have release: "read_dict (registry_env ''N'') (registry_evidence_files ''N'') ''release-decision.json'' =
      Inr [(''evidence_package_sha256'', JStr zero_sha), (''decision'', JStr ''READY''),
       (''gate_decision'', JStr ''NO_GO''), (''approval_status'', JStr ''PENDING_APPROVAL''),
       (''model_package_sha256'', JStr zero_sha)]"
    by code_simp
  have "case run_registry (registry_env ''N'') ''now'' (Evaluate ''m'' ''1'' ''ann'' ''evaluated on the holdout'')
          (registry_of example_entry) of
      (Inr e, g) \<Rightarrow> re_lifecycle_status e = LS_DRAFT \<and> re_audit_reasons e \<noteq> [] | _ \<Rightarrow> False"
    by (simp add: registry_run_simps evaluate_def ml_str_def record_blocked_def tree release failed_gates_def
        jget_or_def jget_def ml_dict_def) (simp add: blocked_def)
  then show ?thesis using example_evaluated by blast
qed

text \<open>The evaluator approves an own evaluation under the own name with a blank before it: the name is compared as
  given and recorded stripped.\<close>

theorem padded_name_approves:
  "map_sum id (\<lambda>e. map rt_actor (re_transitions e)) (fst (run_registry (registry_env ''R'') ''now''
      (Approve ''m'' ''1'' '' ann'' ''approved after the review'') (registry_of evaluated_entry))) =
   Inr [''ann'', ''ann'', ''ann'']"
proof -
  have texts: "require_evidence ''approved after the review'' '' ann'' = Inr (''approved after the review'', ''ann'')"
    by code_simp
  show ?thesis
    by (simp add: registry_run_simps texts approve_def evaluated_entry_def example_entry_def example_transition_def)
qed

text \<open>A rollback to a version that is approved but never was active makes its approver activate it, with no
  look at its evidence.\<close>

theorem rollback_skips_activation_checks:
  "map_sum id (\<lambda>e. (re_lifecycle_status e, map rt_actor (re_transitions e))) (fst (run_registry (registry_env ''N'') ''now''
      (Rollback ''m'' ''1'' ''bob'' ''rolled back by the approver'' ''line stopped'') (registry_of approved_entry))) =
   Inr (LS_ACTIVE, [''ann'', ''ann'', ''bob'', ''bob''])"
proof -
  have texts: "require_evidence ''rolled back by the approver'' ''bob'' = Inr (''rolled back by the approver'', ''bob'')"
    "length (strip ''line stopped'') = 12" "strip ''line stopped'' = ''line stopped''"
    "require_evidence ''Rollback requested because line stopped. rolled back by the approver'' ''bob'' =
       Inr (''Rollback requested because line stopped. rolled back by the approver'', ''bob'')"
    by code_simp+
  show ?thesis
    by (simp add: registry_run_simps texts rollback_model_def approved_entry_def evaluated_entry_def
        same_product_active_def registry_manifest_def)
      (simp add: example_entry_def example_transition_def)
qed

end
