(* ===== verification/MlCalibration.thy ===== *)
theory MlCalibration
  imports MlPackage
begin

text \<open>
  \<^verbatim>\<open>ml/src/visionqc_ml/calibration.py\<close> and the routing of \<^verbatim>\<open>policy.py\<close> and \<^verbatim>\<open>schemas.py\<close>: the choice
  of the two thresholds from validation scores, and the decision they give for a score. Scores and rates
  are rational numbers.
\<close>

section \<open>Score records\<close>

record ScoreRecord =
  sr_sample_id :: string
  sr_split :: string
  sr_image_path :: string
  sr_label :: int
  sr_anomaly_subtype :: string
  sr_score :: rat
  sr_heatmap_path :: string
  sr_latency_ms :: rat
  sr_warm :: bool
  sr_device :: string
  sr_product_category :: "string option"

definition score_record_valid :: "ScoreRecord \<Rightarrow> bool" where
  "score_record_valid r \<longleftrightarrow> sr_split r \<in> {''validation'', ''test'', ''calibration'', ''holdout''} \<and>
     sr_label r \<in> {0, 1} \<and> 0 \<le> sr_score r \<and> sr_score r \<le> 1 \<and> 0 \<le> sr_latency_ms r \<and>
     sr_product_category r \<noteq> Some []"

text \<open>\<open>decode\<close> is pydantic's conversion of one JSON line to the fields; \<open>lines\<close> are the lines of the file.\<close>

definition validate_record :: "(string \<Rightarrow> ScoreRecord option) \<Rightarrow> string \<Rightarrow> ml_exn + ScoreRecord" where
  "validate_record decode line = (case decode line of
     None \<Rightarrow> ml_raise ''ValidationError'' line
   | Some r \<Rightarrow> if score_record_valid r then Inr r else ml_raise ''ValidationError'' line)"

fun validate_lines :: "(string \<Rightarrow> ScoreRecord option) \<Rightarrow> string list \<Rightarrow> ml_exn + ScoreRecord list" where
  "validate_lines decode [] = Inr []"
| "validate_lines decode (line # rest) =
     (if line = [] then validate_lines decode rest
      else andThen (validate_record decode line) (\<lambda>r.
           andThen (validate_lines decode rest) (\<lambda>rs. Inr (r # rs))))"

definition load_score_records ::
  "(string \<Rightarrow> ScoreRecord option) \<Rightarrow> string list \<Rightarrow> string option \<Rightarrow> ml_exn + ScoreRecord list" where
  "load_score_records decode file_lines required_split =
     andThen (validate_lines decode file_lines) (\<lambda>records.
     if records = [] then ml_value_error ''no score records''
     else if truthy required_split \<and> list_ex (\<lambda>r. Some (sr_split r) \<noteq> required_split) records
     then ml_value_error ''records outside required split''
     else Inr records)"

section \<open>Rates\<close>

text \<open>\<open>np.unique\<close>: the distinct values in order; \<open>np.mean\<close> of a comparison over the samples.\<close>

definition np_unique :: "rat list \<Rightarrow> rat list" where
  "np_unique xs = sort (remdups xs)"

definition mean_of :: "(rat \<Rightarrow> bool) \<Rightarrow> rat list \<Rightarrow> rat" where
  "mean_of P xs = of_nat (count_where P xs) / of_nat (length xs)"

definition clip01 :: "rat \<Rightarrow> rat" where
  "clip01 x = max 0 (min 1 x)"

definition candidate_thresholds :: "rat list \<Rightarrow> rat list" where
  "candidate_thresholds scores =
     (let unique = np_unique (map clip01 scores);
          mids = (if length unique = 1 then [] else map (\<lambda>(a, b). (a + b) / 2) (zip (butlast unique) (tl unique)))
      in np_unique ([0] @ unique @ mids @ [1]))"

definition scores_of :: "int \<Rightarrow> ScoreRecord list \<Rightarrow> rat list" where
  "scores_of label records = map sr_score (filter (\<lambda>r. sr_label r = label) records)"

record rates =
  false_accept_rate :: rat
  false_reject_rate :: rat
  review_or_hold_rate :: rat
  hold_rate :: rat
  hold_recall :: rat

definition rates_at :: "ScoreRecord list \<Rightarrow> rat \<Rightarrow> rat \<Rightarrow> rates" where
  "rates_at records review hold = (let scores = map sr_score records in
     \<lparr>false_accept_rate = mean_of (\<lambda>s. s < review) (scores_of 1 records),
      false_reject_rate = mean_of (\<lambda>s. s \<ge> hold) (scores_of 0 records),
      review_or_hold_rate = mean_of (\<lambda>s. s \<ge> review) scores,
      hold_rate = mean_of (\<lambda>s. s \<ge> hold) scores,
      hold_recall = mean_of (\<lambda>s. s \<ge> hold) (scores_of 1 records)\<rparr>)"

section \<open>The choice of the thresholds\<close>

definition max_default :: "rat \<Rightarrow> rat list \<Rightarrow> rat" where
  "max_default d xs = (case xs of [] \<Rightarrow> d | y # ys \<Rightarrow> fold max ys y)"

definition min_default :: "rat \<Rightarrow> rat list \<Rightarrow> rat" where
  "min_default d xs = (case xs of [] \<Rightarrow> d | y # ys \<Rightarrow> fold min ys y)"

definition legacy_review :: "ScoreRecord list \<Rightarrow> rat \<Rightarrow> rat" where
  "legacy_review records max_false_accept_rate =
     max_default 0 (filter (\<lambda>c. c < 1 \<and> mean_of (\<lambda>s. s < c) (scores_of 1 records) \<le> max_false_accept_rate)
       (candidate_thresholds (map sr_score records)))"

text \<open>\<open>next_up\<close> is \<open>np.nextafter(x, 1.0)\<close>.\<close>

definition separate :: "(rat \<Rightarrow> rat) \<Rightarrow> rat \<Rightarrow> rat \<Rightarrow> ml_exn + rat" where
  "separate next_up review hold =
     (let hold' = (if hold \<le> review then min 1 (next_up review) else hold) in
      if hold' \<le> review then ml_value_error ''validation scores do not permit two ordered thresholds''
      else Inr hold')"

definition legacy_thresholds ::
  "(rat \<Rightarrow> rat) \<Rightarrow> ScoreRecord list \<Rightarrow> rat \<Rightarrow> rat \<Rightarrow> ml_exn + rat \<times> rat \<times> string list" where
  "legacy_thresholds next_up records max_false_accept_rate target_hold_recall =
     (let candidates = candidate_thresholds (map sr_score records);
          review = legacy_review records max_false_accept_rate;
          hold_candidates = filter (\<lambda>c. c > review \<and>
            mean_of (\<lambda>s. s \<ge> c) (scores_of 1 records) \<ge> target_hold_recall) candidates;
          hold = (if hold_candidates \<noteq> [] then max_default 1 hold_candidates
                  else min_default 1 (filter (\<lambda>c. c > review) candidates));
          warnings = (if hold_candidates \<noteq> [] then []
            else [''target_hold_recall could not be met while preserving review_threshold < hold_threshold''])
      in andThen (separate next_up review hold) (\<lambda>hold'. Inr (review, hold', warnings)))"

record CalibrationResult =
  cal_policy_version :: string
  cal_source_predictions_sha256 :: string
  cal_review_threshold :: rat
  cal_hold_threshold :: rat
  cal_max_false_accept_rate :: rat
  cal_target_hold_recall :: rat
  cal_achieved :: rates
  cal_total :: nat
  cal_normal :: nat
  cal_anomalous :: nat
  cal_constraints_satisfied :: bool
  cal_warnings :: "string list"
  cal_strategy :: string
  cal_safety_margin :: rat

definition unit_range :: "rat \<Rightarrow> bool" where
  "unit_range x \<longleftrightarrow> 0 \<le> x \<and> x \<le> 1"

text \<open>The part of \<open>calibrate_thresholds\<close> between the legacy choice and the result.\<close>

definition apply_margin ::
  "(rat \<Rightarrow> rat) \<Rightarrow> string \<Rightarrow> rat \<Rightarrow> rat \<Rightarrow> rat \<Rightarrow> string list \<Rightarrow> ml_exn + rat \<times> rat \<times> string list" where
  "apply_margin next_up strategy margin review hold warnings =
     (if strategy = ''safety_margin'' then
        let review' = (if margin > 0 then max 0 (review - margin) else review);
            hold' = (if margin > 0 then max 0 (hold - margin) else hold);
            warnings' = (if margin > 0 then warnings @ [''validation-only safety margin was applied downward to both thresholds'']
                         else warnings)
        in andThen (separate next_up review' hold') (\<lambda>h. Inr (review', h, warnings'))
      else if margin \<noteq> 0 then ml_value_error ''safety_margin requires the safety_margin calibration strategy''
      else Inr (review, hold, warnings))"

definition calibrate_thresholds ::
  "(rat \<Rightarrow> rat) \<Rightarrow> (string \<Rightarrow> ScoreRecord option) \<Rightarrow> string list \<Rightarrow> string \<Rightarrow> string \<Rightarrow> rat \<Rightarrow> rat \<Rightarrow>
   string \<Rightarrow> rat \<Rightarrow> ml_exn + CalibrationResult" where
  "calibrate_thresholds next_up decode file_lines digest policy_version max_fa target strategy margin =
     (if \<not> unit_range max_fa \<or> \<not> unit_range target then ml_value_error ''calibration constraints must be in [0, 1]''
      else if strategy \<notin> {''legacy'', ''safety_margin''} then ml_value_error ''unsupported calibration strategy''
      else if \<not> unit_range margin then ml_value_error ''safety_margin must be in [0, 1]''
      else
        andThen (load_score_records decode file_lines (Some ''validation'')) (\<lambda>records.
        if set (map sr_label records) \<noteq> {0, 1}
        then ml_value_error ''validation calibration requires both normal and anomalous samples''
        else
          andThen (legacy_thresholds next_up records max_fa target) (\<lambda>(r, h, w).
          andThen (apply_margin next_up strategy margin r h w) (\<lambda>(review, hold, warnings).
          let achieved = rates_at records review hold;
              satisfied = (false_accept_rate achieved \<le> max_fa \<and> hold_recall achieved \<ge> target)
          in Inr \<lparr>cal_policy_version = policy_version, cal_source_predictions_sha256 = digest,
               cal_review_threshold = review, cal_hold_threshold = hold,
               cal_max_false_accept_rate = max_fa, cal_target_hold_recall = target, cal_achieved = achieved,
               cal_total = length records, cal_normal = length (scores_of 0 records),
               cal_anomalous = length (scores_of 1 records), cal_constraints_satisfied = satisfied,
               cal_warnings = (if \<not> satisfied \<and> warnings = []
                 then [''one or more calibration constraints were not satisfied''] else warnings),
               cal_strategy = strategy, cal_safety_margin = margin\<rparr>))))"

text \<open>The rows of \<^verbatim>\<open>threshold-scan.csv\<close>: threshold, false accept rate, review or hold rate, anomaly recall and
  normal alert rate.\<close>

definition threshold_scan :: "ScoreRecord list \<Rightarrow> (rat \<times> rat \<times> rat \<times> rat \<times> rat) list" where
  "threshold_scan records = map (\<lambda>t. (t, mean_of (\<lambda>s. s < t) (scores_of 1 records),
       mean_of (\<lambda>s. s \<ge> t) (map sr_score records), mean_of (\<lambda>s. s \<ge> t) (scores_of 1 records),
       mean_of (\<lambda>s. s \<ge> t) (scores_of 0 records)))
     (candidate_thresholds (map sr_score records))"

section \<open>Routing\<close>

datatype ml_decision = ML_AUTO_RELEASE | ML_REVIEW_REQUIRED | ML_BATCH_HOLD_AND_REVIEW

definition ml_threshold_policy :: "rat \<Rightarrow> rat \<Rightarrow> ml_exn + rat \<times> rat" where
  "ml_threshold_policy review hold = (if 0 \<le> review \<and> review < hold \<and> hold \<le> 1 then Inr (review, hold)
     else ml_value_error ''thresholds must satisfy 0 <= review_threshold < hold_threshold <= 1'')"

definition route :: "rat \<times> rat \<Rightarrow> rat \<Rightarrow> ml_exn + ml_decision \<times> string" where
  "route policy score = (case policy of (review, hold) \<Rightarrow>
     if \<not> unit_range score then ml_value_error ''score must be normalized to [0, 1]''
     else if score < review then Inr (ML_AUTO_RELEASE, ''score < review_threshold'')
     else if score < hold then Inr (ML_REVIEW_REQUIRED, ''review_threshold <= score < hold_threshold'')
     else Inr (ML_BATCH_HOLD_AND_REVIEW, ''score >= hold_threshold''))"

text \<open>The two validators of an inference result.\<close>

definition thresholds_are_ordered :: "rat \<Rightarrow> rat \<Rightarrow> bool" where
  "thresholds_are_ordered review hold \<longleftrightarrow> review < hold"

definition policy_matches_score :: "rat \<Rightarrow> rat \<Rightarrow> rat \<Rightarrow> ml_decision \<Rightarrow> bool" where
  "policy_matches_score score review hold decision \<longleftrightarrow>
     decision = (if score < review then ML_AUTO_RELEASE
       else if score < hold then ML_REVIEW_REQUIRED else ML_BATCH_HOLD_AND_REVIEW)"

end
