(* ===== verification/MlThresholds.thy ===== *)
theory MlThresholds
  imports MlCalibration
begin

text \<open>
  What the calibration of the thresholds guarantees: the two thresholds are ordered and normalised, the
  false accept bound holds on the calibration sample, the legacy choice is the best one, and nothing
  but its stated preconditions stops it.
\<close>

section \<open>Rates and candidates\<close>

lemma set_np_unique [simp]: "set (np_unique xs) = set xs"
  by (simp add: np_unique_def)

lemma fold_max_in: "fold max ys (y :: rat) \<in> set (y # ys) \<and> (\<forall>x \<in> set (y # ys). x \<le> fold max ys y)"
proof (induction ys arbitrary: y)
  case (Cons z zs)
  from Cons [of "max z y"] show ?case by (auto simp: max_def split: if_splits)
qed simp

lemma fold_min_in: "fold min ys (y :: rat) \<in> set (y # ys) \<and> (\<forall>x \<in> set (y # ys). fold min ys y \<le> x)"
proof (induction ys arbitrary: y)
  case (Cons z zs)
  from Cons [of "min z y"] show ?case by (auto simp: min_def split: if_splits)
qed simp

lemma max_default_in: "xs \<noteq> [] \<Longrightarrow> max_default d xs \<in> set xs"
  and max_default_ge: "x \<in> set xs \<Longrightarrow> x \<le> max_default d xs"
  using fold_max_in by (cases xs; force simp: max_default_def)+

lemma min_default_in: "xs \<noteq> [] \<Longrightarrow> min_default d xs \<in> set xs"
  and min_default_le: "x \<in> set xs \<Longrightarrow> min_default d xs \<le> x"
  using fold_min_in by (cases xs; force simp: min_default_def)+

lemma count_where_le: "(\<And>x. x \<in> set xs \<Longrightarrow> P x \<Longrightarrow> Q x) \<Longrightarrow> count_where P xs \<le> count_where Q xs"
  by (induction xs) auto

lemma mean_of_mono:
  assumes "\<And>x. x \<in> set xs \<Longrightarrow> P x \<Longrightarrow> Q x"
  shows "mean_of P xs \<le> mean_of Q xs"
  using count_where_le [of xs P Q] assms by (auto simp: mean_of_def divide_right_mono)

lemma mean_of_none: "(\<And>x. x \<in> set xs \<Longrightarrow> \<not> P x) \<Longrightarrow> mean_of P xs = 0"
  using count_where_le [of xs P "\<lambda>_. False"] by (simp add: mean_of_def count_where_def)

lemma clip01_range: "unit_range (clip01 x)"
  by (simp add: unit_range_def clip01_def)

lemma clip01_id [simp]: "unit_range x \<Longrightarrow> clip01 x = x"
  by (simp add: unit_range_def clip01_def)

lemma in_set_tlD: "b \<in> set (tl xs) \<Longrightarrow> b \<in> set xs"
  by (cases xs) simp_all

lemma zip_neighbours:
  assumes "(a, b) \<in> set (zip (butlast u) (tl u))"
  shows "a \<in> set u" "b \<in> set u"
  using in_set_butlastD [OF set_zip_leftD [OF assms]] in_set_tlD [OF set_zip_rightD [OF assms]] .

lemma candidates_range:
  assumes "c \<in> set (candidate_thresholds scores)"
  shows "unit_range c"
proof -
  let ?u = "np_unique (map clip01 scores)"
  have u: "unit_range x" if "x \<in> set ?u" for x using that by (auto simp: clip01_range)
  have "unit_range ((a + b) / 2)" if "(a, b) \<in> set (zip (butlast ?u) (tl ?u))" for a b
  proof -
    have "unit_range a" "unit_range b" using u zip_neighbours [OF that] by blast+
    then show ?thesis by (simp add: unit_range_def)
  qed
  then have mids: "unit_range x" if "x \<in> (\<lambda>(a, b). (a + b) / 2) ` set (zip (butlast ?u) (tl ?u))" for x
    using that by (elim imageE) (simp only: split: prod.splits, blast)
  have "c \<in> {0, 1} \<union> set ?u \<union> (\<lambda>(a, b). (a + b) / 2) ` set (zip (butlast ?u) (tl ?u))"
    using assms by (auto simp only: candidate_thresholds_def Let_def set_np_unique set_append set_map list.set
        Un_iff insert_iff empty_iff split: if_splits)
  then consider "c = 0" | "c = 1" | "c \<in> set ?u" | "c \<in> (\<lambda>(a, b). (a + b) / 2) ` set (zip (butlast ?u) (tl ?u))"
    by (elim UnE insertE emptyE)
  then show ?thesis
  proof cases
    case 1
    then show ?thesis by (simp add: unit_range_def)
  next
    case 2
    then show ?thesis by (simp add: unit_range_def)
  next
    case 3
    then show ?thesis by (rule u)
  next
    case 4
    then show ?thesis by (rule mids)
  qed
qed

lemma candidates_in [simp]:
  "0 \<in> set (candidate_thresholds scores)" "1 \<in> set (candidate_thresholds scores)"
  "x \<in> set scores \<Longrightarrow> clip01 x \<in> set (candidate_thresholds scores)"
  by (simp_all add: candidate_thresholds_def Let_def)

section \<open>Loaded records\<close>

lemma validate_lines_valid:
  "validate_lines decode ls = Inr records \<Longrightarrow> r \<in> set records \<Longrightarrow> score_record_valid r"
  by (induction ls arbitrary: records)
    (auto simp: validate_record_def split: if_splits option.splits)

lemma loaded_records:
  assumes "load_score_records decode ls split = Inr records" "r \<in> set records"
  shows "score_record_valid r"
  using assms validate_lines_valid by (auto simp: load_score_records_def split: if_splits)

definition normalized :: "ScoreRecord list \<Rightarrow> bool" where
  "normalized records \<longleftrightarrow> (\<forall>r \<in> set records. unit_range (sr_score r))"

lemma loaded_normalized: "load_score_records decode ls split = Inr records \<Longrightarrow> normalized records"
  using loaded_records by (fastforce simp: normalized_def unit_range_def score_record_valid_def)

section \<open>The review threshold\<close>

definition feasible :: "ScoreRecord list \<Rightarrow> rat \<Rightarrow> rat \<Rightarrow> bool" where
  "feasible records max_fa t \<longleftrightarrow> t < 1 \<and> mean_of (\<lambda>s. s < t) (scores_of 1 records) \<le> max_fa"

lemma scores_of_sub: "set (scores_of l records) \<subseteq> sr_score ` set records"
  by (auto simp: scores_of_def)

lemma legacy_review_alt: "legacy_review records max_fa = max_default 0 (filter (feasible records max_fa)
    (candidate_thresholds (map sr_score records)))"
  by (simp add: legacy_review_def feasible_def [abs_def])

lemma zero_feasible:
  assumes "normalized records" "0 \<le> max_fa"
  shows "feasible records max_fa 0"
proof -
  have "mean_of (\<lambda>s. s < 0) (scores_of 1 records) = 0"
    by (rule mean_of_none) (use assms(1) scores_of_sub in \<open>fastforce simp: normalized_def unit_range_def\<close>)
  then show ?thesis using assms(2) by (simp add: feasible_def)
qed

lemma legacy_review_in:
  assumes "normalized records" "0 \<le> max_fa"
  shows "legacy_review records max_fa \<in> set (candidate_thresholds (map sr_score records)) \<and>
     feasible records max_fa (legacy_review records max_fa)"
proof -
  have "filter (feasible records max_fa) (candidate_thresholds (map sr_score records)) \<noteq> []"
    using zero_feasible [OF assms] candidates_in(1) by (metis filter_empty_conv)
  from max_default_in [OF this, of 0] show ?thesis by (simp add: legacy_review_alt)
qed

lemma legacy_review_greatest:
  assumes "normalized records" "feasible records max_fa t" "r \<in> set records" "t \<le> sr_score r" "sr_score r < 1"
  shows "t \<le> legacy_review records max_fa"
proof -
  let ?S = "{s \<in> sr_score ` set records. t \<le> s}"
  have fin: "finite ?S" by simp
  have ne: "sr_score r \<in> ?S" using assms(3,4) by simp
  define m where "m = Min ?S"
  have m: "m \<in> ?S" unfolding m_def by (rule Min_in [OF fin]) (use ne in blast)
  have mr: "m \<le> sr_score r" unfolding m_def by (rule Min_le [OF fin ne])
  have least: "m \<le> s" if "s \<in> sr_score ` set records" "t \<le> s" for s
    unfolding m_def by (rule Min_le [OF fin]) (use that in simp)
  have "mean_of (\<lambda>s. s < m) (scores_of 1 records) \<le> mean_of (\<lambda>s. s < t) (scores_of 1 records)"
    by (rule mean_of_mono) (use scores_of_sub least in fastforce)
  then have "feasible records max_fa m" using assms(2,5) mr by (auto simp: feasible_def)
  moreover have "clip01 m \<in> set (candidate_thresholds (map sr_score records))"
    by (rule candidates_in(3)) (use m in simp)
  moreover have "clip01 m = m" by (rule clip01_id) (use m assms(1) in \<open>auto simp: normalized_def\<close>)
  ultimately have "m \<le> legacy_review records max_fa"
    by (simp only: legacy_review_alt) (auto intro: max_default_ge)
  then show ?thesis using m by simp
qed

text \<open>Between the highest score below 1 and the score 1 lies a candidate.\<close>

lemma last_pair: "2 \<le> length u \<Longrightarrow> (last (butlast u), last u) \<in> set (zip (butlast u) (tl u))"
proof (induction u)
  case (Cons a u)
  show ?case
  proof (cases u)
    case Nil
    then show ?thesis using Cons.prems by simp
  next
    case (Cons b v)
    then show ?thesis using Cons.IH by (cases v) (auto split: if_splits)
  qed
qed simp

lemma sorted_last: "sorted (u :: rat list) \<Longrightarrow> x \<in> set u \<Longrightarrow> x \<le> last u"
  by (induction u) auto

lemma candidate_below_one:
  assumes "\<And>s. s \<in> set scores \<Longrightarrow> unit_range s" "1 \<in> set scores" "x \<in> set scores" "x < 1"
  shows "\<exists>y m. y \<in> set scores \<and> y < m \<and> m < 1 \<and> m \<in> set (candidate_thresholds scores) \<and>
    (\<forall>s \<in> set scores. s < 1 \<longrightarrow> s \<le> y)"
proof -
  define u where "u = np_unique (map clip01 scores)"
  have "map clip01 scores = scores" using assms(1) by (intro map_idI) simp
  then have set_u: "set u = set scores" by (simp add: u_def np_unique_def)
  have u: "sorted u" "distinct u" by (simp_all add: u_def np_unique_def)
  have "2 \<le> card (set u)"
    using card_mono [of "set u" "{x, 1}"] assms(2-4) by (auto simp: set_u)
  then have len: "2 \<le> length u" using card_length [of u] by linarith
  then have ne: "u \<noteq> []" "butlast u \<noteq> []" by (cases u; cases "tl u"; auto)+
  have last: "last u = 1"
    using sorted_last [OF u(1), of 1] assms(1) [of "last u"] ne(1) assms(2) set_u last_in_set [OF ne(1)]
    by (auto simp: unit_range_def intro: antisym)
  have split: "u = butlast u @ [1]" using ne(1) last append_butlast_last_id by metis
  then have b: "set (butlast u) = set u - {1}" "sorted (butlast u)"
    using u by (metis Diff_insert_absorb distinct_append Un_insert_right append_Nil2 disjoint_insert(1) list.simps(15)
        list.set(1) set_append sup_bot_right) (metis split sorted_append u(1))
  let ?y = "last (butlast u)"
  have y: "?y \<in> set scores" "?y \<noteq> 1" using last_in_set [OF ne(2)] b(1) set_u by auto
  then have y1: "?y < 1" using assms(1) [of ?y] by (simp add: unit_range_def)
  have "(?y + 1) / 2 \<in> set (candidate_thresholds scores)"
    using last_pair [OF len] len unfolding last
    by (force simp: candidate_thresholds_def Let_def u_def [symmetric])
  moreover have "s \<le> ?y" if "s \<in> set scores" "s < 1" for s
    using that b set_u by (intro sorted_last) auto
  ultimately show ?thesis using y(1) y1 by (intro exI [of _ ?y] exI [of _ "(?y + 1) / 2"]) auto
qed

lemma legacy_review_releases:
  assumes n: "normalized records" and fa: "mean_of (\<lambda>s. s < t) (scores_of 1 records) \<le> max_fa"
    and kept: "r \<in> set records" "t \<le> sr_score r" and q: "q \<in> set records" "sr_score q < t"
  shows "sr_score q < legacy_review records max_fa"
proof (cases "\<exists>r' \<in> set records. t \<le> sr_score r' \<and> sr_score r' < 1")
  case True
  then obtain r' where r': "r' \<in> set records" "t \<le> sr_score r'" "sr_score r' < 1" by blast
  then have "feasible records max_fa t" using fa by (simp add: feasible_def)
  from legacy_review_greatest [OF n this r'] q(2) show ?thesis by simp
next
  case False
  let ?s = "map sr_score records"
  have range: "unit_range s" if "s \<in> set ?s" for s using that n by (auto simp: normalized_def)
  have one: "sr_score r = 1" using range [of "sr_score r"] False kept by (force simp: unit_range_def)
  then have "1 \<in> set ?s" "sr_score q \<in> set ?s" "sr_score q < 1" using kept q by force+
  from candidate_below_one [OF range this] obtain y m where m: "y < m" "m < 1"
    "m \<in> set (candidate_thresholds ?s)" "\<forall>s \<in> set ?s. s < 1 \<longrightarrow> s \<le> y" by blast
  have "s < t" if "s \<in> sr_score ` set records" "s < m" for s
    using that False m(2) by force
  then have "mean_of (\<lambda>s. s < m) (scores_of 1 records) \<le> mean_of (\<lambda>s. s < t) (scores_of 1 records)"
    using scores_of_sub by (intro mean_of_mono) blast
  then have "feasible records max_fa m" using fa m(2) by (simp add: feasible_def)
  then have "m \<le> legacy_review records max_fa"
    using m(3) by (simp only: legacy_review_alt) (auto intro: max_default_ge)
  moreover have "sr_score q \<le> y" using m(4) q one kept(2) by auto
  ultimately show ?thesis using m(1) by simp
qed

section \<open>The calibrated thresholds\<close>

lemma separate_Inr:
  assumes "separate next_up review hold = Inr h" "hold \<le> 1"
  shows "review < h \<and> h \<le> 1"
  using assms by (auto simp: separate_def Let_def split: if_splits)

lemma legacy_thresholds_Inr:
  assumes "normalized records" "0 \<le> max_fa"
  shows "\<exists>h w. legacy_thresholds next_up records max_fa target = Inr (legacy_review records max_fa, h, w) \<and>
     legacy_review records max_fa < h \<and> h \<le> 1 \<and>
     (w = [] \<longrightarrow> mean_of (\<lambda>s. s \<ge> h) (scores_of 1 records) \<ge> target)"
proof -
  let ?c = "candidate_thresholds (map sr_score records)" and ?r = "legacy_review records max_fa"
  let ?hc = "filter (\<lambda>c. c > ?r \<and> mean_of (\<lambda>s. s \<ge> c) (scores_of 1 records) \<ge> target) ?c"
  let ?gc = "filter (\<lambda>c. c > ?r) ?c"
  define h where "h = (if ?hc \<noteq> [] then max_default 1 ?hc else min_default 1 ?gc)"
  have r1: "?r < 1" using legacy_review_in [OF assms] by (simp add: feasible_def)
  then have gc: "?gc \<noteq> []" using candidates_in(2) by (metis filter_empty_conv)
  have h: "h \<in> set ?c \<and> ?r < h \<and> (?hc \<noteq> [] \<longrightarrow> mean_of (\<lambda>s. s \<ge> h) (scores_of 1 records) \<ge> target)"
  proof (cases "?hc = []")
    case True
    then show ?thesis using min_default_in [OF gc, of 1] by (auto simp: h_def)
  next
    case False
    then show ?thesis using max_default_in [OF False, of 1] by (auto simp: h_def)
  qed
  then have "separate next_up ?r h = Inr h" by (simp add: separate_def Let_def)
  then have "legacy_thresholds next_up records max_fa target =
      Inr (?r, h, if ?hc \<noteq> [] then []
        else [''target_hold_recall could not be met while preserving review_threshold < hold_threshold''])"
    unfolding legacy_thresholds_def Let_def h_def by (simp only: andThen_simps)
  then show ?thesis using h candidates_range [of h] by (auto simp: unit_range_def split: if_splits)
qed

lemma apply_margin_Inr:
  assumes "apply_margin next_up strategy margin r h w = Inr (review, hold, w')" "0 \<le> r" "r < h" "h \<le> 1" "0 \<le> margin"
  shows "0 \<le> review \<and> review \<le> r \<and> review < hold \<and> hold \<le> 1 \<and> (strategy \<noteq> ''safety_margin'' \<longrightarrow> review = r \<and> hold = h)"
proof (cases "strategy = ''safety_margin''")
  case True
  let ?r = "if margin > 0 then max 0 (r - margin) else r"
  let ?h = "if margin > 0 then max 0 (h - margin) else h"
  have "separate next_up ?r ?h = Inr hold" "review = ?r"
    using assms(1) True by (auto simp: apply_margin_def Let_def)
  moreover have "?h \<le> 1" using assms(4) by (auto simp: max_def)
  ultimately show ?thesis using separate_Inr [of next_up ?r ?h hold] assms(2) True by (auto simp: max_def split: if_splits)
next
  case False
  then show ?thesis using assms by (auto simp: apply_margin_def split: if_splits)
qed

lemma apply_margin_runs:
  assumes "strategy = ''safety_margin'' \<or> margin = 0" "0 \<le> r" "r < h" "0 < next_up 0"
  shows "\<exists>out. apply_margin next_up strategy margin r h w = Inr out"
proof -
  have "\<exists>x. separate next_up (max 0 (r - margin)) (max 0 (h - margin)) = Inr x"
    using assms(2-4) by (cases "h \<le> margin") (auto simp: separate_def Let_def max_def min_def)
  moreover have "\<exists>x. separate next_up r h = Inr x" using assms(3) by (simp add: separate_def Let_def)
  ultimately show ?thesis using assms(1) by (auto simp: apply_margin_def Let_def)
qed

lemma calibrate_Inr:
  assumes "calibrate_thresholds next_up decode ls digest version max_fa target strategy margin = Inr cal"
  shows "\<exists>records h w w'. load_score_records decode ls (Some ''validation'') = Inr records \<and>
     set (map sr_label records) = {0, 1} \<and> unit_range max_fa \<and> unit_range target \<and> unit_range margin \<and>
     legacy_thresholds next_up records max_fa target = Inr (legacy_review records max_fa, h, w) \<and>
     legacy_review records max_fa < h \<and> h \<le> 1 \<and>
     (w = [] \<longrightarrow> mean_of (\<lambda>s. s \<ge> h) (scores_of 1 records) \<ge> target) \<and>
     apply_margin next_up strategy margin (legacy_review records max_fa) h w =
       Inr (cal_review_threshold cal, cal_hold_threshold cal, w') \<and>
     cal_achieved cal = rates_at records (cal_review_threshold cal) (cal_hold_threshold cal) \<and>
     cal_constraints_satisfied cal = (false_accept_rate (cal_achieved cal) \<le> max_fa \<and> hold_recall (cal_achieved cal) \<ge> target)"
proof -
  have ranges: "unit_range max_fa" "unit_range target" "unit_range margin"
    using assms by (auto simp: calibrate_thresholds_def split: if_splits)
  obtain records where load: "load_score_records decode ls (Some ''validation'') = Inr records"
    using assms by (auto simp: calibrate_thresholds_def split: if_splits)
  then have labels: "set (map sr_label records) = {0, 1}"
    using assms by (auto simp: calibrate_thresholds_def split: if_splits)
  obtain h w where legacy: "legacy_thresholds next_up records max_fa target = Inr (legacy_review records max_fa, h, w)"
      "legacy_review records max_fa < h" "h \<le> 1" "w = [] \<longrightarrow> mean_of (\<lambda>s. s \<ge> h) (scores_of 1 records) \<ge> target"
    using legacy_thresholds_Inr [OF loaded_normalized [OF load], of max_fa next_up target] ranges(1)
    by (auto simp: unit_range_def)
  show ?thesis
    using assms ranges load labels legacy
    by (auto simp: calibrate_thresholds_def Let_def split: if_splits)
qed

section \<open>Properties\<close>

text \<open>C23. Every calibration that returns yields ordered thresholds in the unit interval, which the routing policy
  accepts, and on the calibration sample at most the allowed share of the anomalous images would be released
  automatically, whatever the strategy and its margin.\<close>

theorem calibration_is_safe:
  assumes "calibrate_thresholds next_up decode ls digest version max_fa target strategy margin = Inr cal"
  shows "ml_threshold_policy (cal_review_threshold cal) (cal_hold_threshold cal) =
       Inr (cal_review_threshold cal, cal_hold_threshold cal) \<and>
     (\<exists>records. load_score_records decode ls (Some ''validation'') = Inr records \<and>
        cal_achieved cal = rates_at records (cal_review_threshold cal) (cal_hold_threshold cal)) \<and>
     false_accept_rate (cal_achieved cal) \<le> max_fa \<and>
     (cal_constraints_satisfied cal \<longleftrightarrow> target \<le> hold_recall (cal_achieved cal))"
proof -
  from calibrate_Inr [OF assms] obtain records h w w' where
    c: "load_score_records decode ls (Some ''validation'') = Inr records" "unit_range max_fa" "unit_range margin"
      "legacy_review records max_fa < h" "h \<le> 1"
      "apply_margin next_up strategy margin (legacy_review records max_fa) h w =
         Inr (cal_review_threshold cal, cal_hold_threshold cal, w')"
      "cal_achieved cal = rates_at records (cal_review_threshold cal) (cal_hold_threshold cal)"
      "cal_constraints_satisfied cal = (false_accept_rate (cal_achieved cal) \<le> max_fa \<and> hold_recall (cal_achieved cal) \<ge> target)"
    by blast
  have r: "unit_range (legacy_review records max_fa)" "feasible records max_fa (legacy_review records max_fa)"
    using legacy_review_in [OF loaded_normalized [OF c(1)], of max_fa] c(2) candidates_range by (auto simp: unit_range_def)
  have m: "0 \<le> cal_review_threshold cal \<and> cal_review_threshold cal \<le> legacy_review records max_fa \<and>
      cal_review_threshold cal < cal_hold_threshold cal \<and> cal_hold_threshold cal \<le> 1"
    using apply_margin_Inr [OF c(6) _ c(4,5)] r(1) c(3) by (simp add: unit_range_def)
  have "mean_of (\<lambda>s. s < cal_review_threshold cal) (scores_of 1 records) \<le>
      mean_of (\<lambda>s. s < legacy_review records max_fa) (scores_of 1 records)"
    by (rule mean_of_mono) (use m in simp)
  then have fa: "false_accept_rate (cal_achieved cal) \<le> max_fa"
    using r(2) by (simp add: c(7) rates_at_def Let_def feasible_def)
  show ?thesis using m fa c(1,7,8) by (simp add: ml_threshold_policy_def)
qed

text \<open>C24. The legacy choice of the review threshold is the best one up to the sample: whatever threshold keeps
  the false accept bound and holds back at least one record of the sample, each record it would release is
  released by the chosen one too; and when a score below 1 is not under that threshold, the chosen threshold is
  not smaller. Without a warning the hold threshold reaches its recall. (A threshold above every score
  releases the whole sample; the scan never goes above the highest score.)\<close>

theorem legacy_calibration_optimal:
  assumes "calibrate_thresholds next_up decode ls digest version max_fa target ''legacy'' margin = Inr cal"
    "load_score_records decode ls (Some ''validation'') = Inr records"
  shows "(\<forall>t r. mean_of (\<lambda>s. s < t) (scores_of 1 records) \<le> max_fa \<and> r \<in> set records \<and> t \<le> sr_score r \<longrightarrow>
        (\<forall>q \<in> set records. sr_score q < t \<longrightarrow> sr_score q < cal_review_threshold cal) \<and>
        (sr_score r < 1 \<longrightarrow> t \<le> cal_review_threshold cal)) \<and>
     (cal_warnings cal = [] \<longrightarrow> target \<le> hold_recall (cal_achieved cal))"
proof -
  from calibrate_Inr [OF assms(1)] assms(2) obtain h w w' where
    c: "unit_range margin" "legacy_review records max_fa < h" "h \<le> 1"
      "apply_margin next_up ''legacy'' margin (legacy_review records max_fa) h w =
         Inr (cal_review_threshold cal, cal_hold_threshold cal, w')"
    by auto
  have n: "normalized records" using loaded_normalized [OF assms(2)] .
  have r: "cal_review_threshold cal = legacy_review records max_fa"
    using c(4) by (auto simp: apply_margin_def split: if_splits)
  have "cal_warnings cal = [] \<longrightarrow> cal_constraints_satisfied cal"
    using assms(1) by (auto simp: calibrate_thresholds_def Let_def split: if_splits)
  then have "cal_warnings cal = [] \<longrightarrow> target \<le> hold_recall (cal_achieved cal)"
    using calibrate_Inr [OF assms(1)] by blast
  then show ?thesis
    using legacy_review_releases [OF n] legacy_review_greatest [OF n, of max_fa] by (auto simp: r feasible_def)
qed

text \<open>Nothing but the stated preconditions stops a calibration: with constraints in range, a known strategy, and
  validation records of both labels it returns thresholds.\<close>

theorem calibration_returns:
  assumes "unit_range max_fa" "unit_range target" "unit_range margin"
    "strategy = ''safety_margin'' \<or> strategy = ''legacy'' \<and> margin = 0"
    "load_score_records decode ls (Some ''validation'') = Inr records" "set (map sr_label records) = {0, 1}"
    "0 < next_up 0"
  shows "\<exists>cal. calibrate_thresholds next_up decode ls digest version max_fa target strategy margin = Inr cal"
proof -
  have n: "normalized records" using loaded_normalized [OF assms(5)] .
  have fa: "0 \<le> max_fa" using assms(1) by (simp add: unit_range_def)
  obtain h w where l: "legacy_thresholds next_up records max_fa target = Inr (legacy_review records max_fa, h, w)"
      "legacy_review records max_fa < h"
    using legacy_thresholds_Inr [OF n fa] by blast
  have "0 \<le> legacy_review records max_fa"
    using legacy_review_in [OF n fa] candidates_range by (auto simp: unit_range_def)
  then obtain out where o: "apply_margin next_up strategy margin (legacy_review records max_fa) h w = Inr out"
    using apply_margin_runs [of strategy margin "legacy_review records max_fa" h next_up w] assms(4,7) l(2) by blast
  obtain r' h' w' where "out = (r', h', w')" by (cases out)
  with assms l(1) o show ?thesis
    by (auto simp: calibrate_thresholds_def Let_def)
qed

lemma route_matches:
  "route (review, hold) s = Inr (d, why) \<Longrightarrow> policy_matches_score s review hold d"
  by (auto simp: route_def policy_matches_score_def split: if_splits)

section \<open>A calibration\<close>

definition example_score :: "int \<Rightarrow> rat \<Rightarrow> ScoreRecord" where
  "example_score label s = \<lparr>sr_sample_id = ''s'', sr_split = ''validation'', sr_image_path = ''p'', sr_label = label,
     sr_anomaly_subtype = ''t'', sr_score = s, sr_heatmap_path = ''h'', sr_latency_ms = 1, sr_warm = True,
     sr_device = ''cpu'', sr_product_category = None\<rparr>"

definition example_decode :: "string \<Rightarrow> ScoreRecord option" where
  "example_decode l = (if l = ''a'' then Some (example_score 0 (1/10)) else if l = ''b'' then Some (example_score 0 (3/10))
     else if l = ''c'' then Some (example_score 1 (5/10)) else if l = ''d'' then Some (example_score 1 (9/10)) else None)"

definition example_lines :: "string list" where
  "example_lines = [''a'', ''b'', [], ''c'', ''d'']"

definition example_records :: "ScoreRecord list" where
  "example_records = [example_score 0 (1/10), example_score 0 (3/10), example_score 1 (5/10), example_score 1 (9/10)]"

lemma example_load: "load_score_records example_decode example_lines (Some ''validation'') = Inr example_records"
  by (simp add: load_score_records_def example_lines_def example_decode_def validate_record_def
      score_record_valid_def example_score_def example_records_def)

definition example_calibration :: "string \<Rightarrow> rat \<Rightarrow> ml_exn + CalibrationResult" where
  "example_calibration = calibrate_thresholds (\<lambda>x. x + 1/1000000) example_decode example_lines ''d'' ''v'' 0 (1/2)"

lemma example_review: "map_sum id (\<lambda>c. (cal_review_threshold c, cal_hold_threshold c, cal_warnings c))
    (example_calibration ''legacy'' 0) = Inr (1/2, 9/10, [])"
  by code_simp

theorem calibration_returns_witness: "\<exists>cal. example_calibration ''safety_margin'' (1/10) = Inr cal"
  unfolding example_calibration_def
  by (rule calibration_returns [OF _ _ _ _ example_load])
    (simp_all add: unit_range_def example_records_def example_score_def insert_commute)

lemma example_cal:
  obtains cal where "calibrate_thresholds (\<lambda>x. x + 1/1000000) example_decode example_lines ''d'' ''v'' 0 (1/2) ''legacy'' 0 = Inr cal"
    "cal_review_threshold cal = 1/2" "cal_hold_threshold cal = 9/10" "cal_warnings cal = []"
  using example_review unfolding example_calibration_def
  by (cases "calibrate_thresholds (\<lambda>x. x + 1/1000000) example_decode example_lines ''d'' ''v'' 0 (1/2) ''legacy'' 0") auto

theorem calibration_is_safe_witness:
  "ml_threshold_policy (1/2) (9/10) = Inr (1/2, 9/10) \<and>
   (\<exists>cal. example_calibration ''legacy'' 0 = Inr cal \<and> false_accept_rate (cal_achieved cal) \<le> 0)"
proof -
  obtain cal where cal: "calibrate_thresholds (\<lambda>x. x + 1/1000000) example_decode example_lines ''d'' ''v'' 0 (1/2) ''legacy'' 0 = Inr cal"
      "cal_review_threshold cal = 1/2" "cal_hold_threshold cal = 9/10"
    by (rule example_cal)
  show ?thesis using calibration_is_safe [OF cal(1)] cal unfolding example_calibration_def by auto
qed

theorem legacy_calibration_optimal_witness:
  "\<exists>cal. example_calibration ''legacy'' 0 = Inr cal \<and> 2/5 \<le> cal_review_threshold cal \<and>
     1/2 \<le> hold_recall (cal_achieved cal)"
proof -
  obtain cal where cal: "calibrate_thresholds (\<lambda>x. x + 1/1000000) example_decode example_lines ''d'' ''v'' 0 (1/2) ''legacy'' 0 = Inr cal"
      "cal_warnings cal = []"
    by (rule example_cal)
  have t: "mean_of (\<lambda>s. s < 2/5) (scores_of 1 example_records) \<le> 0" by code_simp
  have r: "example_score 1 (5/10) \<in> set example_records" by (simp add: example_records_def)
  note opt = legacy_calibration_optimal [OF cal(1) example_load]
  have "2/5 \<le> cal_review_threshold cal"
    using opt [THEN conjunct1, rule_format, of "2/5" "example_score 1 (5/10)"] t r by (simp add: example_score_def)
  moreover have "1/2 \<le> hold_recall (cal_achieved cal)" using opt cal(2) by blast
  ultimately show ?thesis using cal(1) unfolding example_calibration_def by blast
qed

end
