(* ===== verification/MlDataset.thy ===== *)
theory MlDataset
  imports MlPackage
begin

text \<open>
  \<^verbatim>\<open>ml/src/visionqc_ml/dataset.py\<close>: the manifest that assigns every image of a dataset directory to a
  split, its generation from the directory and its check against the disk. A path below the dataset
  root is the list of its parts; the patterns of the code match regular files.
\<close>

section \<open>Manifest entries\<close>

record ManifestEntry =
  man_sample_id :: string
  man_category :: string
  man_split :: string
  man_source_split :: string
  man_label :: int
  man_anomaly_subtype :: string
  man_image_path :: string
  man_image_sha256 :: string
  man_mask_path :: "string option"
  man_mask_sha256 :: "string option"
  man_width :: int
  man_height :: int

definition sample_id_ok :: "string \<Rightarrow> bool" where
  "sample_id_ok s \<longleftrightarrow> startswith ''sample_'' s \<and> length s = 23 \<and>
     list_all (\<lambda>c. c \<in> set ''0123456789abcdef'') (drop 7 s)"

definition validate_relationships :: "ManifestEntry \<Rightarrow> bool" where
  "validate_relationships e \<longleftrightarrow>
     \<not> (man_source_split e = ''train'' \<and> (man_split e \<noteq> ''train'' \<or> man_label e \<noteq> 0)) \<and>
     \<not> (man_label e = 0 \<and> (man_anomaly_subtype e \<noteq> ''good'' \<or> man_mask_path e \<noteq> None)) \<and>
     \<not> (man_label e = 1 \<and> (\<not> truthy (man_mask_path e) \<or> \<not> truthy (man_mask_sha256 e)))"

definition manifest_entry_valid :: "ManifestEntry \<Rightarrow> bool" where
  "manifest_entry_valid e \<longleftrightarrow> sample_id_ok (man_sample_id e) \<and> man_category e \<noteq> [] \<and>
     man_split e \<in> {''train'', ''validation'', ''test''} \<and> man_source_split e \<in> {''train'', ''test''} \<and>
     man_label e \<in> {0, 1} \<and> man_anomaly_subtype e \<noteq> [] \<and> man_image_path e \<noteq> [] \<and>
     hex64 (man_image_sha256 e) \<and> optional_hex64 (man_mask_sha256 e) \<and>
     0 < man_width e \<and> 0 < man_height e \<and> validate_relationships e"

abbreviation manifest_error :: "string \<Rightarrow> ml_exn + 'a" where
  "manifest_error m \<equiv> ml_raise ''ManifestError'' m"

abbreviation dataset_error :: "string \<Rightarrow> ml_exn + 'a" where
  "dataset_error m \<equiv> ml_raise ''DatasetIntegrityError'' m"

text \<open>The lines of a file; blank lines are skipped. \<open>decode\<close> is pydantic's conversion of one JSON line.\<close>

definition newline :: char where
  "newline = CHR 0x0A"

fun decode_lines :: "(string \<Rightarrow> ManifestEntry option) \<Rightarrow> string list \<Rightarrow> ml_exn + ManifestEntry list" where
  "decode_lines decode [] = Inr []"
| "decode_lines decode (line # rest) =
     (if strip line = [] then decode_lines decode rest
      else (case decode line of
          None \<Rightarrow> manifest_error ''invalid manifest line''
        | Some e \<Rightarrow> if \<not> manifest_entry_valid e then manifest_error ''invalid manifest line''
            else andThen (decode_lines decode rest) (\<lambda>es. Inr (e # es))))"

text \<open>\<open>str.splitlines\<close> on the bytes of a text in UTF-8: the number of bytes of the line break a text starts with,
  0 when it starts with none. A break is LF, CR, CR LF, VT, FF, FS, GS, RS, NEL (U+0085), LS (U+2028) or PS (U+2029).\<close>

fun break_length :: "string \<Rightarrow> nat" where
  "break_length [] = 0"
| "break_length (c # cs) =
     (if c = CHR 0x0D then (if startswith [newline] cs then 2 else 1)
      else if c \<in> {newline, CHR 0x0B, CHR 0x0C, CHR 0x1C, CHR 0x1D, CHR 0x1E} then 1
      else if c = CHR 0xC2 \<and> startswith [CHR 0x85] cs then 2
      else if c = CHR 0xE2 \<and> (startswith [CHR 0x80, CHR 0xA8] cs \<or> startswith [CHR 0x80, CHR 0xA9] cs) then 3
      else 0)"

declare break_length.simps [simp del]

text \<open>The first argument is the line read so far.\<close>

function splitlines_from :: "string \<Rightarrow> string \<Rightarrow> string list" where
  "splitlines_from line [] = (if line = [] then [] else [line])"
| "splitlines_from line (c # cs) =
     (if break_length (c # cs) = 0 then splitlines_from (line @ [c]) cs
      else line # splitlines_from [] (drop (break_length (c # cs) - 1) cs))"
  by pat_completeness auto
termination by (relation "measure (length \<circ> snd)") simp_all

definition splitlines :: "string \<Rightarrow> string list" where
  "splitlines s = splitlines_from [] s"

definition load_manifest ::
  "(string \<Rightarrow> ManifestEntry option) \<Rightarrow> string option \<Rightarrow> string option \<Rightarrow> ml_exn + ManifestEntry list" where
  "load_manifest decode contents split = (case contents of
     None \<Rightarrow> manifest_error ''manifest does not exist''
   | Some body \<Rightarrow> andThen (decode_lines decode (splitlines body)) (\<lambda>all.
       let entries = filter (\<lambda>e. split = None \<or> Some (man_split e) = split) all in
       if entries = [] then manifest_error ''manifest contains no entries'' else Inr entries))"

section \<open>The archive\<close>

text \<open>Where a member of the archive is extracted to: \<open>None\<close> is outside the category.\<close>

definition pure_parts :: "string \<Rightarrow> string list" where
  "pure_parts p = (if startswith ''/'' p then [''/''] else []) @
     filter (\<lambda>w. w \<noteq> [] \<and> w \<noteq> ''.'') (split_on CHR ''/'' p)"

definition selected_member_path :: "string \<Rightarrow> string \<Rightarrow> ml_exn + string list option" where
  "selected_member_path member category =
     (if startswith ''/'' member \<or> ''..'' \<in> set (pure_parts member)
      then dataset_error (''unsafe archive member: '' @ member)
      else Inr (case dropWhile (\<lambda>w. w \<noteq> category) (pure_parts member) of
          [] \<Rightarrow> None
        | _ # relative \<Rightarrow> Some (category # relative)))"

section \<open>The directory\<close>

record dataset_disk =
  dd_files :: "(string list \<times> string) list"
  dd_dirs :: "string list list"

text \<open>Image decoding: the size an image declares when it opens, and whether its data verifies.\<close>

record dataset_env = ml_env +
  image_header :: "string \<Rightarrow> (int \<times> int) option"
  image_verifies :: "string \<Rightarrow> bool"

definition file_at :: "dataset_disk \<Rightarrow> string list \<Rightarrow> string option" where
  "file_at disk p = map_of (dd_files disk) p"

definition posix :: "string list \<Rightarrow> string" where
  "posix p = join_with ''/'' p"

definition png_in :: "dataset_disk \<Rightarrow> string list \<Rightarrow> string list list" where
  "png_in disk dir = sort (filter (\<lambda>p. length p = Suc (length dir) \<and> take (length dir) p = dir \<and> endswith ''.png'' (last p))
     (map fst (dd_files disk)))"

text \<open>\<open>glob("*/*.png")\<close>.\<close>

definition png_below :: "dataset_disk \<Rightarrow> string list \<Rightarrow> string list list" where
  "png_below disk dir = sort (filter (\<lambda>p. length p = length dir + 2 \<and> take (length dir) p = dir \<and> endswith ''.png'' (last p))
     (map fst (dd_files disk)))"

definition parent_name :: "string list \<Rightarrow> string" where
  "parent_name p = last (butlast p)"

definition stem :: "string \<Rightarrow> string" where
  "stem name = take (length name - length (path_suffix name)) name"

record layout_counts =
  train_good_images :: nat
  test_good_images :: nat
  test_anomalous_images :: nat
  ground_truth_masks :: nat

text \<open>\<open>expected\<close> is the \<open>expected\<close> block of a source descriptor, if there is one.\<close>

definition validate_dataset_layout ::
  "dataset_disk \<Rightarrow> string \<Rightarrow> layout_counts option \<Rightarrow> ml_exn + layout_counts" where
  "validate_dataset_layout disk category expected =
     (if \<not> {[category, ''train'', ''good''], [category, ''test''], [category, ''ground_truth'']} \<subseteq> set (dd_dirs disk)
      then dataset_error ''missing required dataset directories''
      else
        let counts = \<lparr>train_good_images = length (png_in disk [category, ''train'', ''good'']),
              test_good_images = length (png_in disk [category, ''test'', ''good'']),
              test_anomalous_images = length (filter (\<lambda>p. parent_name p \<noteq> ''good'') (png_below disk [category, ''test''])),
              ground_truth_masks = length (png_below disk [category, ''ground_truth''])\<rparr>
        in (case expected of
            None \<Rightarrow> Inr counts
          | Some e \<Rightarrow> if e = counts then Inr counts
              else dataset_error ''dataset counts do not match source descriptor''))"

section \<open>The split\<close>

text \<open>The number of validation images of a stratum: the rounded share, but never all of it, and at least one of two
  or more.\<close>

definition validation_count :: "nat \<Rightarrow> rat \<Rightarrow> nat" where
  "validation_count n validation_ratio =
     (if n = 1 then 0 else min (n - 1) (max 1 (nat \<lfloor>of_nat n * validation_ratio + 1/2\<rfloor>)))"

text \<open>\<open>seed\<close> is the decimal text of the seed.\<close>

definition stable_partition ::
  "'a ml_env_scheme \<Rightarrow> string \<Rightarrow> rat \<Rightarrow> string list list \<Rightarrow> ml_exn + string list" where
  "stable_partition env seed validation_ratio paths =
     (if \<not> (0 < validation_ratio \<and> validation_ratio < 1)
      then ml_value_error ''validation_ratio must be between 0 and 1''
      else
        let ranked = sort_key (\<lambda>p. ml_sha256 env (seed @ '':'' @ posix p)) paths in
        Inr (map posix (take (validation_count (length ranked) validation_ratio) ranked)))"

definition mask_for_anomaly :: "string list \<Rightarrow> string \<Rightarrow> string list" where
  "mask_for_anomaly p category = [category, ''ground_truth'', parent_name p, stem (last p) @ ''_mask.png'']"

definition entry_for_path ::
  "'a dataset_env_scheme \<Rightarrow> dataset_disk \<Rightarrow> string \<Rightarrow> string list \<Rightarrow> string \<Rightarrow> ml_exn + ManifestEntry" where
  "entry_for_path env disk category p split =
     (let relative = posix p;
          subtype = parent_name p;
          label = (if subtype = ''good'' then 0 else 1 :: int);
          mask = (if label = 1 then Some (mask_for_anomaly p category) else None);
          mask_contents = Option.bind mask (file_at disk) in
      if mask \<noteq> None \<and> mask_contents = None
      then dataset_error (''missing ground-truth mask for '' @ relative)
      else (case file_at disk p of
          None \<Rightarrow> dataset_error (''cannot decode image: '' @ relative)
        | Some contents \<Rightarrow>
            (case (if image_verifies env contents then image_header env contents else None) of
              None \<Rightarrow> dataset_error (''cannot decode image: '' @ relative)
            | Some (w, h) \<Rightarrow>
                let e = \<lparr>man_sample_id = ''sample_'' @ take 16 (ml_sha256 env relative), man_category = category,
                     man_split = split,
                     man_source_split = (if length p > 1 \<and> p ! 1 = ''train'' then ''train'' else ''test''),
                     man_label = label, man_anomaly_subtype = subtype, man_image_path = relative,
                     man_image_sha256 = ml_sha256 env contents, man_mask_path = map_option posix mask,
                     man_mask_sha256 = map_option (ml_sha256 env) mask_contents,
                     man_width = w, man_height = h\<rparr>
                in if manifest_entry_valid e then Inr e else ml_raise ''ValidationError'' relative)))"

section \<open>The manifest file\<close>

text \<open>\<open>entry.model_dump(mode="json")\<close>.\<close>

definition entry_dump :: "ManifestEntry \<Rightarrow> json" where
  "entry_dump e = JObj
     [(''schema_version'', JStr ''visionqc.dataset-manifest.v1''), (''sample_id'', JStr (man_sample_id e)),
      (''category'', JStr (man_category e)), (''split'', JStr (man_split e)),
      (''source_split'', JStr (man_source_split e)), (''label'', JInt (man_label e)),
      (''anomaly_subtype'', JStr (man_anomaly_subtype e)), (''image_path'', JStr (man_image_path e)),
      (''image_sha256'', JStr (man_image_sha256 e)), (''mask_path'', JOpt (man_mask_path e)),
      (''mask_sha256'', JOpt (man_mask_sha256 e)), (''width'', JInt (man_width e)), (''height'', JInt (man_height e))]"

definition manifest_line :: "'a ml_env_scheme \<Rightarrow> ManifestEntry \<Rightarrow> string" where
  "manifest_line env e = ml_dumps env (entry_dump e)"

definition manifest_text :: "'a ml_env_scheme \<Rightarrow> ManifestEntry list \<Rightarrow> string" where
  "manifest_text env entries = concat (map (\<lambda>e. manifest_line env e @ [newline]) entries)"

definition digest_json :: "'a ml_env_scheme \<Rightarrow> json \<Rightarrow> string" where
  "digest_json env v = ml_sha256 env (ml_dumps env v)"

definition content_identity :: "ManifestEntry list \<Rightarrow> json" where
  "content_identity entries = JList (map (\<lambda>e. JObj
     [(''image_path'', JStr (man_image_path e)), (''image_sha256'', JStr (man_image_sha256 e)),
      (''mask_path'', JOpt (man_mask_path e)), (''mask_sha256'', JOpt (man_mask_sha256 e))])
     (sort_key man_image_path entries))"

definition split_hashes :: "'a ml_env_scheme \<Rightarrow> ManifestEntry list \<Rightarrow> (string \<times> string) list" where
  "split_hashes env entries = map (\<lambda>s. (s, digest_json env
     (JList (map entry_dump (filter (\<lambda>e. man_split e = s) entries))))) [''train'', ''validation'', ''test'']"

text \<open>\<open>Counter\<close>, by key.\<close>

definition counter :: "string list \<Rightarrow> (string \<times> nat) list" where
  "counter xs = map (\<lambda>k. (k, count_where (\<lambda>x. x = k) xs)) (sort (remdups xs))"

record manifest_meta =
  mm_category :: string
  mm_dataset_fingerprint :: string
  mm_manifest_sha256 :: string
  mm_split_sha256 :: "(string \<times> string) list"
  mm_counts :: "(string \<times> nat) list"

section \<open>Generation\<close>

definition test_groups :: "dataset_disk \<Rightarrow> string \<Rightarrow> string list list list" where
  "test_groups disk category = (let paths = png_below disk [category, ''test''] in
     map (\<lambda>g. filter (\<lambda>p. parent_name p = g) paths) (remdups (map parent_name paths)))"

fun validation_paths ::
  "'a ml_env_scheme \<Rightarrow> string \<Rightarrow> rat \<Rightarrow> string list list list \<Rightarrow> ml_exn + string list" where
  "validation_paths env seed ratio [] = Inr []"
| "validation_paths env seed ratio (g # gs) = andThen (stable_partition env seed ratio g) (\<lambda>vs.
     andThen (validation_paths env seed ratio gs) (\<lambda>ws. Inr (vs @ ws)))"

text \<open>The images in the order they are entered, with their split.\<close>

definition assignments :: "dataset_disk \<Rightarrow> string \<Rightarrow> string list \<Rightarrow> (string list \<times> string) list" where
  "assignments disk category validation =
     map (\<lambda>p. (p, ''train'')) (png_in disk [category, ''train'', ''good'']) @
     map (\<lambda>p. (p, if posix p \<in> set validation then ''validation'' else ''test''))
       (concat (test_groups disk category))"

definition entries_of ::
  "'a dataset_env_scheme \<Rightarrow> dataset_disk \<Rightarrow> string \<Rightarrow> (string list \<times> string) list \<Rightarrow> ManifestEntry list" where
  "entries_of env disk category xs = List.map_filter (\<lambda>(p, split).
     case entry_for_path env disk category p split of Inl _ \<Rightarrow> None | Inr e \<Rightarrow> Some e) xs"

definition failures_of ::
  "'a dataset_env_scheme \<Rightarrow> dataset_disk \<Rightarrow> string \<Rightarrow> (string list \<times> string) list \<Rightarrow> (string list \<times> ml_exn) list" where
  "failures_of env disk category xs = List.map_filter (\<lambda>(p, split).
     case entry_for_path env disk category p split of Inl x \<Rightarrow> Some (p, x) | Inr e \<Rightarrow> None) xs"

definition meta_of :: "'a ml_env_scheme \<Rightarrow> string \<Rightarrow> ManifestEntry list \<Rightarrow> manifest_meta" where
  "meta_of env category entries = \<lparr>mm_category = category,
     mm_dataset_fingerprint = digest_json env (content_identity entries),
     mm_manifest_sha256 = ml_sha256 env (manifest_text env entries),
     mm_split_sha256 = split_hashes env entries, mm_counts = counter (map man_split entries)\<rparr>"

definition manifest_entries ::
  "'a dataset_env_scheme \<Rightarrow> dataset_disk \<Rightarrow> string \<Rightarrow> rat \<Rightarrow> string \<Rightarrow> ml_exn + ManifestEntry list" where
  "manifest_entries env disk seed ratio category =
     (if strip category = [] then ml_value_error ''category must not be empty''
      else
        andThen (validate_dataset_layout disk category None) (\<lambda>_.
        andThen (validation_paths env seed ratio (test_groups disk category)) (\<lambda>validation.
        let xs = assignments disk category validation in
        if failures_of env disk category xs \<noteq> [] then dataset_error ''dataset files failed validation''
        else Inr (sort_key (\<lambda>e. [man_split e, man_image_path e]) (entries_of env disk category xs)))))"

text \<open>The manifest file and its meta data.\<close>

definition generate_manifest ::
  "'a dataset_env_scheme \<Rightarrow> dataset_disk \<Rightarrow> string \<Rightarrow> rat \<Rightarrow> string \<Rightarrow> ml_exn + string \<times> manifest_meta" where
  "generate_manifest env disk seed ratio category =
     andThen (manifest_entries env disk seed ratio category) (\<lambda>entries.
     Inr (manifest_text env entries, meta_of env category entries))"

section \<open>The check of a manifest\<close>

definition parts_of :: "string \<Rightarrow> string list" where
  "parts_of p = split_on CHR ''/'' p"

definition image_mismatches :: "'a dataset_env_scheme \<Rightarrow> dataset_disk \<Rightarrow> ManifestEntry \<Rightarrow> string list" where
  "image_mismatches env disk e = (case file_at disk (parts_of (man_image_path e)) of
     None \<Rightarrow> [''missing image: '' @ man_image_path e]
   | Some contents \<Rightarrow>
       if ml_sha256 env contents \<noteq> man_image_sha256 e then [''image hash mismatch: '' @ man_image_path e]
       else (case image_header env contents of
           None \<Rightarrow> [''image cannot be decoded: '' @ man_image_path e]
         | Some dims \<Rightarrow> if dims = (man_width e, man_height e) then []
             else [''image dimensions changed: '' @ man_image_path e]))"

definition mask_mismatches :: "'a dataset_env_scheme \<Rightarrow> dataset_disk \<Rightarrow> ManifestEntry \<Rightarrow> string list" where
  "mask_mismatches env disk e = (case man_mask_path e of
     None \<Rightarrow> []
   | Some m \<Rightarrow> if m = [] then [] else
       (case file_at disk (parts_of m) of
         None \<Rightarrow> [''missing mask: '' @ m]
       | Some contents \<Rightarrow> if man_mask_sha256 e = Some (ml_sha256 env contents) then []
           else [''mask hash mismatch: '' @ m]))"

fun entry_mismatches ::
  "'a dataset_env_scheme \<Rightarrow> dataset_disk \<Rightarrow> string list \<Rightarrow> string list \<Rightarrow> ManifestEntry list \<Rightarrow> string list" where
  "entry_mismatches env disk seen_ids seen_paths [] = []"
| "entry_mismatches env disk seen_ids seen_paths (e # es) =
     (if man_sample_id e \<in> set seen_ids then [''duplicate sample_id: '' @ man_sample_id e] else []) @
     (if man_image_path e \<in> set seen_paths then [''duplicate image_path: '' @ man_image_path e] else []) @
     image_mismatches env disk e @ mask_mismatches env disk e @
     entry_mismatches env disk (man_sample_id e # seen_ids) (man_image_path e # seen_paths) es"

record manifest_check =
  mc_entries :: nat
  mc_manifest_sha256 :: string
  mc_counts :: "(string \<times> nat) list"
  mc_dataset_fingerprint :: "string option"

definition check_meta ::
  "'a ml_env_scheme \<Rightarrow> string \<Rightarrow> ManifestEntry list \<Rightarrow> manifest_meta \<Rightarrow> ml_exn + unit" where
  "check_meta env manifest_sha entries meta =
     andThen (ml_check (manifest_sha = mm_manifest_sha256 meta) ''ManifestError''
       ''manifest digest does not match manifest-meta.json'') (\<lambda>_.
     andThen (ml_check (mm_category meta = [] \<or> set (map man_category entries) = {mm_category meta}) ''ManifestError''
       ''manifest categories do not match manifest-meta.json'') (\<lambda>_.
     andThen (ml_check (digest_json env (content_identity entries) = mm_dataset_fingerprint meta) ''ManifestError''
       ''dataset fingerprint does not match manifest content'') (\<lambda>_.
     ml_check (split_hashes env entries = mm_split_sha256 meta) ''ManifestError''
       ''split hashes do not match manifest-meta.json'')))"

definition verify_manifest ::
  "'a dataset_env_scheme \<Rightarrow> (string \<Rightarrow> ManifestEntry option) \<Rightarrow> dataset_disk \<Rightarrow> string option \<Rightarrow> manifest_meta option \<Rightarrow>
   ml_exn + manifest_check" where
  "verify_manifest env decode disk contents meta =
     andThen (load_manifest decode contents None) (\<lambda>entries.
     if entry_mismatches env disk [] [] entries \<noteq> []
     then manifest_error (join_with ''; '' (take 20 (entry_mismatches env disk [] [] entries)))
     else
       let sha = ml_sha256 env (case contents of None \<Rightarrow> [] | Some body \<Rightarrow> body);
           result = \<lparr>mc_entries = length entries, mc_manifest_sha256 = sha,
             mc_counts = counter (map man_split entries), mc_dataset_fingerprint = None\<rparr> in
       (case meta of
          None \<Rightarrow> Inr result
        | Some m \<Rightarrow> andThen (check_meta env sha entries m) (\<lambda>_.
            Inr (result\<lparr>mc_dataset_fingerprint := Some (mm_dataset_fingerprint m)\<rparr>))))"

end
