(* ===== verification/MlManifests.thy ===== *)
theory MlManifests
  imports MlDataset
begin

text \<open>
  What a dataset manifest guarantees: a generated manifest lists every image of the directory once with
  its current hash, its strata are split so that both sides are represented, it verifies against the
  directory it was made from, and a manifest that verifies describes the files that are on disk.
\<close>

section \<open>Paths\<close>

text \<open>The keys of the disk are the paths of its files: no part holds the separator.\<close>

definition disk_ok :: "dataset_disk \<Rightarrow> bool" where
  "disk_ok disk \<longleftrightarrow> distinct (map fst (dd_files disk)) \<and>
     (\<forall>p \<in> set (map fst (dd_files disk)). p \<noteq> [] \<and> (\<forall>w \<in> set p. CHR ''/'' \<notin> set w))"

lemma parts_posix:
  assumes "disk_ok disk" "file_at disk p = Some c"
  shows "parts_of (posix p) = p"
proof -
  have "p \<in> set (map fst (dd_files disk))" using assms(2) by (auto simp: file_at_def dom_map_of_conv_image_fst [symmetric])
  then have "p \<noteq> []" "\<forall>w \<in> set p. CHR ''/'' \<notin> set w" using assms(1) by (auto simp: disk_ok_def)
  then show ?thesis unfolding parts_of_def posix_def by (rule split_on_join)
qed

lemma posix_inj:
  assumes "disk_ok disk" "p \<in> set (map fst (dd_files disk))" "q \<in> set (map fst (dd_files disk))" "posix p = posix q"
  shows "p = q"
proof -
  have "parts_of (posix r) = r" if "r \<in> set (map fst (dd_files disk))" for r
    using assms(1) that unfolding parts_of_def posix_def by (intro split_on_join) (auto simp: disk_ok_def)
  then show ?thesis using assms(2-4) by metis
qed

lemma png_in_keys: "set (png_in disk dir) \<subseteq> set (map fst (dd_files disk))"
  and png_below_keys: "set (png_below disk dir) \<subseteq> set (map fst (dd_files disk))"
  by (auto simp: png_in_def png_below_def)

lemma distinct_png:
  assumes "disk_ok disk"
  shows "distinct (png_in disk dir)" "distinct (png_below disk dir)"
  using assms by (simp_all add: png_in_def png_below_def disk_ok_def)

lemma set_test_groups: "set (concat (test_groups disk category)) = set (png_below disk [category, ''test''])"
  by (auto simp: test_groups_def Let_def)

lemma distinct_test_groups:
  assumes "disk_ok disk"
  shows "distinct (concat (test_groups disk category))"
proof -
  have "distinct (concat (map (\<lambda>g. filter (\<lambda>p. f p = g) ps) gs))" if "distinct ps" "distinct gs"
    for f :: "string list \<Rightarrow> string" and ps gs
    using that(2) by (induction gs) (use that(1) in auto)
  then show ?thesis using distinct_png(2) [OF assms] by (simp add: test_groups_def Let_def)
qed

text \<open>The images of the directory.\<close>

definition images_of :: "dataset_disk \<Rightarrow> string \<Rightarrow> string list set" where
  "images_of disk category = set (png_in disk [category, ''train'', ''good'']) \<union> set (png_below disk [category, ''test''])"

lemma assigned_paths:
  assumes "disk_ok disk"
  shows "distinct (map fst (assignments disk category validation))"
    "set (map fst (assignments disk category validation)) = images_of disk category"
proof -
  let ?tr = "png_in disk [category, ''train'', ''good'']" and ?te = "concat (test_groups disk category)"
  have m: "map fst (assignments disk category validation) = ?tr @ ?te"
    by (simp add: assignments_def comp_def)
  have "p ! 1 = ''train''" if "p \<in> set ?tr" for p
  proof -
    have "take 3 p = [category, ''train'', ''good'']" using that by (simp add: png_in_def numeral_3_eq_3)
    then have "take 3 p ! 1 = ''train''" by simp
    then show ?thesis by simp
  qed
  moreover have "p ! 1 = ''test''" if "p \<in> set ?te" for p
  proof -
    have "take 2 p = [category, ''test'']" using that by (simp only: set_test_groups) (simp add: png_below_def numeral_2_eq_2)
    then have "take 2 p ! 1 = ''test''" by simp
    then show ?thesis by simp
  qed
  ultimately have "set ?tr \<inter> set ?te = {}" by force
  then show "distinct (map fst (assignments disk category validation))"
    using distinct_png(1) [OF assms] distinct_test_groups [OF assms] by (simp only: m distinct_append)
  show "set (map fst (assignments disk category validation)) = images_of disk category"
    by (simp only: m set_append set_test_groups images_of_def)
qed

section \<open>Entries\<close>

lemma entry_for_path_Inr:
  assumes "entry_for_path env disk category p split = Inr e"
  shows "manifest_entry_valid e \<and> man_image_path e = posix p \<and> man_split e = split \<and> man_category e = category \<and>
     man_sample_id e = ''sample_'' @ take 16 (ml_sha256 env (posix p)) \<and> man_anomaly_subtype e = parent_name p \<and>
     (\<exists>c. file_at disk p = Some c \<and> man_image_sha256 e = ml_sha256 env c \<and>
        image_header env c = Some (man_width e, man_height e)) \<and>
     (man_mask_path e = None \<or> (\<exists>c. man_mask_path e = Some (posix (mask_for_anomaly p category)) \<and>
        file_at disk (mask_for_anomaly p category) = Some c \<and> man_mask_sha256 e = Some (ml_sha256 env c)))"
  using assms unfolding entry_for_path_def Let_def
  by (auto split: if_splits option.splits)

lemma entries_of_all:
  assumes "failures_of env disk category xs = []"
  shows "list_all2 (\<lambda>(p, s) e. entry_for_path env disk category p s = Inr e) xs (entries_of env disk category xs)"
  using assms
proof (induction xs)
  case Nil
  then show ?case by (simp add: entries_of_def map_filter_simps)
next
  case (Cons x xs)
  obtain p s where x: "x = (p, s)" by (cases x)
  show ?case
  proof (cases "entry_for_path env disk category p s")
    case (Inl y)
    with Cons.prems show ?thesis by (simp add: failures_of_def map_filter_simps x)
  next
    case (Inr e)
    with Cons show ?thesis by (simp add: failures_of_def entries_of_def map_filter_simps x)
  qed
qed

lemma entries_of_paths:
  assumes "failures_of env disk category xs = []"
  shows "map man_image_path (entries_of env disk category xs) = map (posix \<circ> fst) xs"
    and "map man_sample_id (entries_of env disk category xs) =
       map (\<lambda>x. ''sample_'' @ take 16 (ml_sha256 env (posix (fst x)))) xs"
    and "e \<in> set (entries_of env disk category xs) \<Longrightarrow> \<exists>p s. (p, s) \<in> set xs \<and> entry_for_path env disk category p s = Inr e"
proof -
  note all = entries_of_all [OF assms]
  show "map man_image_path (entries_of env disk category xs) = map (posix \<circ> fst) xs"
    using all by (induction rule: list_all2_induct) (auto dest: entry_for_path_Inr)
  show "map man_sample_id (entries_of env disk category xs) =
       map (\<lambda>x. ''sample_'' @ take 16 (ml_sha256 env (posix (fst x)))) xs"
    using all by (induction rule: list_all2_induct) (auto dest: entry_for_path_Inr)
  show "\<exists>p s. (p, s) \<in> set xs \<and> entry_for_path env disk category p s = Inr e"
    if "e \<in> set (entries_of env disk category xs)"
    using all that by (induction rule: list_all2_induct) auto
qed

section \<open>What verification checks\<close>

lemma entry_mismatches_Nil:
  "entry_mismatches env disk ids ps es = [] \<longleftrightarrow>
     distinct (map man_sample_id es) \<and> distinct (map man_image_path es) \<and>
     set (map man_sample_id es) \<inter> set ids = {} \<and> set (map man_image_path es) \<inter> set ps = {} \<and>
     (\<forall>e \<in> set es. image_mismatches env disk e = [] \<and> mask_mismatches env disk e = [])"
  by (induction env disk ids ps es rule: entry_mismatches.induct) auto

lemma image_mismatches_Nil:
  "image_mismatches env disk e = [] \<longleftrightarrow> (\<exists>c. file_at disk (parts_of (man_image_path e)) = Some c \<and>
     ml_sha256 env c = man_image_sha256 e \<and> image_header env c = Some (man_width e, man_height e))"
  by (auto simp: image_mismatches_def split: option.splits if_splits)

lemma mask_mismatches_Nil:
  "mask_mismatches env disk e = [] \<longleftrightarrow> \<not> truthy (man_mask_path e) \<or>
     (\<exists>m c. man_mask_path e = Some m \<and> file_at disk (parts_of m) = Some c \<and> man_mask_sha256 e = Some (ml_sha256 env c))"
  by (auto simp: mask_mismatches_def split: option.splits if_splits)

lemma entry_on_disk:
  assumes "disk_ok disk" "entry_for_path env disk category p split = Inr e"
  shows "image_mismatches env disk e = [] \<and> mask_mismatches env disk e = []"
proof -
  note e = entry_for_path_Inr [OF assms(2)]
  from e obtain c where c: "file_at disk p = Some c" "man_image_sha256 e = ml_sha256 env c"
      "image_header env c = Some (man_width e, man_height e)" "man_image_path e = posix p" by blast
  have i: "image_mismatches env disk e = []"
    using c parts_posix [OF assms(1) c(1)] by (simp add: image_mismatches_Nil)
  have "mask_mismatches env disk e = []"
  proof (cases "man_mask_path e")
    case None
    then show ?thesis by (simp add: mask_mismatches_Nil)
  next
    case (Some m)
    with e obtain c where "m = posix (mask_for_anomaly p category)" "file_at disk (mask_for_anomaly p category) = Some c"
        "man_mask_sha256 e = Some (ml_sha256 env c)" by auto
    then show ?thesis using Some parts_posix [OF assms(1)] by (auto simp: mask_mismatches_Nil)
  qed
  with i show ?thesis by simp
qed

text \<open>A text without a line break is one line.\<close>

fun no_breaks :: "string \<Rightarrow> bool" where
  "no_breaks [] = True"
| "no_breaks (c # cs) = (break_length (c # cs) = 0 \<and> no_breaks cs)"

lemma break_length_app:
  assumes "break_length (c # cs) = 0"
  shows "break_length (c # cs @ newline # rest) = 0"
proof (cases cs)
  case Nil
  then show ?thesis using assms by (auto simp: break_length.simps startswith_def newline_def split: if_splits)
next
  case (Cons d ds)
  then show ?thesis using assms by (cases ds) (auto simp: break_length.simps startswith_def newline_def split: if_splits)
qed

lemma splitlines_from_app:
  "no_breaks l \<Longrightarrow> splitlines_from line (l @ newline # rest) = (line @ l) # splitlines_from [] rest"
proof (induction l arbitrary: line)
  case Nil
  then show ?case by (simp add: break_length.simps newline_def)
next
  case (Cons c cs)
  then have "break_length (c # cs @ newline # rest) = 0" by (intro break_length_app) simp
  then show ?case using Cons by simp
qed

lemma splitlines_app: "no_breaks l \<Longrightarrow> splitlines (l @ newline # rest) = l # splitlines rest"
  by (simp add: splitlines_def splitlines_from_app)

lemma decode_lines_text:
  assumes "\<forall>e \<in> set es. manifest_entry_valid e \<and> decode (manifest_line env e) = Some e \<and>
     no_breaks (manifest_line env e) \<and> strip (manifest_line env e) \<noteq> []"
  shows "decode_lines decode (splitlines (manifest_text env es)) = Inr es"
  using assms
proof (induction es)
  case Nil
  then show ?case by (simp add: manifest_text_def splitlines_def)
next
  case (Cons e es)
  have "manifest_text env (e # es) = manifest_line env e @ newline # manifest_text env es"
    by (simp add: manifest_text_def)
  then show ?case using Cons by (simp add: splitlines_app)
qed

lemma manifest_entries_Inr:
  assumes "manifest_entries env disk seed ratio category = Inr entries"
  shows "\<exists>validation. validation_paths env seed ratio (test_groups disk category) = Inr validation \<and>
     failures_of env disk category (assignments disk category validation) = [] \<and>
     mset entries = mset (entries_of env disk category (assignments disk category validation))"
  using assms by (auto simp: manifest_entries_def Let_def split: if_splits)

lemma manifest_entries_facts:
  assumes "manifest_entries env disk seed ratio category = Inr entries" "disk_ok disk"
  shows "set (map man_image_path entries) = posix ` images_of disk category \<and> distinct (map man_image_path entries) \<and>
     (\<forall>e \<in> set entries. manifest_entry_valid e \<and> man_category e = category \<and>
        image_mismatches env disk e = [] \<and> mask_mismatches env disk e = []) \<and>
     (inj_on (\<lambda>p. take 16 (ml_sha256 env (posix p))) (images_of disk category) \<longrightarrow> distinct (map man_sample_id entries))"
proof -
  from manifest_entries_Inr [OF assms(1)] obtain validation where
    v: "failures_of env disk category (assignments disk category validation) = []"
      "mset entries = mset (entries_of env disk category (assignments disk category validation))" by blast
  let ?xs = "assignments disk category validation" let ?es = "entries_of env disk category ?xs"
  note a = assigned_paths [OF assms(2), of category validation]
  note es = entries_of_paths [OF v(1)]
  have keys: "images_of disk category \<subseteq> set (map fst (dd_files disk))"
    using png_in_keys png_below_keys by (auto simp: images_of_def)
  have inj: "inj_on posix (images_of disk category)"
    using keys posix_inj [OF assms(2)] by (blast intro: inj_onI)
  have sub: "set entries = set ?es" using v(2) mset_eq_setD by blast
  have perm: "mset (map f entries) = mset (map f ?es)" for f :: "ManifestEntry \<Rightarrow> string" using v(2) by simp
  have paths: "set (map man_image_path entries) = posix ` images_of disk category"
    using mset_eq_setD [OF perm [of man_image_path]] es(1) a(2) by (metis list.map_comp list.set_map)
  have "distinct (map man_image_path ?es)"
    unfolding es(1) list.map_comp [symmetric] distinct_map using a inj by (simp add: distinct_map)
  then have dist: "distinct (map man_image_path entries)"
    using mset_eq_imp_distinct_iff [OF perm [of man_image_path]] by simp
  have "distinct (map man_sample_id ?es)" if "inj_on (\<lambda>p. take 16 (ml_sha256 env (posix p))) (images_of disk category)"
  proof -
    have "map man_sample_id ?es = map (\<lambda>p. ''sample_'' @ take 16 (ml_sha256 env (posix p))) (map fst ?xs)"
      by (simp add: es(2))
    moreover have "inj_on (\<lambda>p. ''sample_'' @ take 16 (ml_sha256 env (posix p))) (set (map fst ?xs))"
      using that unfolding a(2) by (auto simp: inj_on_def)
    ultimately show ?thesis using a(1) by (simp only: distinct_map)
  qed
  then have ids: "inj_on (\<lambda>p. take 16 (ml_sha256 env (posix p))) (images_of disk category) \<longrightarrow> distinct (map man_sample_id entries)"
    using mset_eq_imp_distinct_iff [OF perm [of man_sample_id]] by simp
  have "\<forall>e \<in> set entries. manifest_entry_valid e \<and> man_category e = category \<and>
        image_mismatches env disk e = [] \<and> mask_mismatches env disk e = []"
    unfolding sub using es(3) entry_for_path_Inr entry_on_disk [OF assms(2)] by blast
  with paths dist ids show ?thesis by blast
qed

section \<open>The split of a stratum\<close>

lemma validation_count_bounds:
  assumes "2 \<le> n"
  shows "1 \<le> validation_count n ratio \<and> validation_count n ratio < n"
  using assms by (auto simp: validation_count_def)

lemma stable_partition_Inr:
  assumes "stable_partition env seed ratio g = Inr vs"
  shows "\<exists>ranked. mset ranked = mset g \<and> vs = map posix (take (validation_count (length g) ratio) ranked)"
  using assms by (auto simp: stable_partition_def Let_def split: if_splits
      intro!: exI [of _ "sort_key (\<lambda>p. ml_sha256 env (seed @ '':'' @ posix p)) g"])

lemma validation_paths_Inr:
  assumes "validation_paths env seed ratio gs = Inr vs"
  shows "set vs = (\<Union>g \<in> set gs. set (projr (stable_partition env seed ratio g))) \<and>
     (\<forall>g \<in> set gs. \<exists>ws. stable_partition env seed ratio g = Inr ws)"
  using assms by (induction gs arbitrary: vs) auto

lemma stratum_split:
  assumes "disk_ok disk" "validation_paths env seed ratio (test_groups disk category) = Inr vs"
    "g \<in> set (test_groups disk category)" "2 \<le> length g"
  shows "(\<exists>p \<in> set g. posix p \<in> set vs) \<and> (\<exists>p \<in> set g. posix p \<notin> set vs)"
proof -
  let ?ps = "png_below disk [category, ''test'']"
  note v = validation_paths_Inr [OF assms(2)]
  obtain k where k: "g = filter (\<lambda>p. parent_name p = k) ?ps" using assms(3) by (auto simp: test_groups_def Let_def)
  obtain ranked where r: "mset ranked = mset g"
      "stable_partition env seed ratio g = Inr (map posix (take (validation_count (length g) ratio) ranked))"
    using v assms(3) stable_partition_Inr by metis
  let ?n = "validation_count (length g) ratio"
  have len: "length ranked = length g" using r(1) by (metis size_mset)
  have n: "1 \<le> ?n" "?n < length ranked" using validation_count_bounds [OF assms(4)] len by auto
  have sr: "set ranked = set g" using r(1) mset_eq_setD by blast
  have "distinct g" using distinct_png(2) [OF assms(1)] k by simp
  then have dr: "distinct ranked" using r(1) mset_eq_imp_distinct_iff by blast
  have "posix (ranked ! 0) \<in> set (projr (stable_partition env seed ratio g))"
    using n nth_mem [of 0 "take ?n ranked"] by (auto simp: r(2))
  then have 1: "posix (ranked ! 0) \<in> set vs" using v assms(3) by blast
  let ?q = "ranked ! ?n"
  have q: "?q \<in> set g" using n sr nth_mem by blast
  have nt: "?q \<notin> set (take ?n ranked)"
    using dr n by (auto simp: in_set_conv_nth nth_eq_iff_index_eq)
  have "posix ?q \<notin> set vs"
  proof
    assume "posix ?q \<in> set vs"
    then obtain h where h: "h \<in> set (test_groups disk category)" "posix ?q \<in> set (projr (stable_partition env seed ratio h))"
      using v by blast
    then obtain ranked' where r': "mset ranked' = mset h"
        "stable_partition env seed ratio h = Inr (map posix (take (validation_count (length h) ratio) ranked'))"
      using v stable_partition_Inr by metis
    then obtain p where p: "p \<in> set (take (validation_count (length h) ratio) ranked')" "posix p = posix ?q"
      using h(2) by (auto simp: r'(2))
    have ph: "p \<in> set h" using p(1) r'(1) in_set_takeD mset_eq_setD by metis
    obtain k' where k': "h = filter (\<lambda>p. parent_name p = k') ?ps" using h(1) by (auto simp: test_groups_def Let_def)
    have keys: "p \<in> set (map fst (dd_files disk))" "?q \<in> set (map fst (dd_files disk))"
      using ph q k k' png_below_keys by auto
    have "p = ?q" by (rule posix_inj [OF assms(1) keys p(2)])
    then have "h = g" using ph q k k' by auto
    with h(2) obtain p' where p': "p' \<in> set (take ?n ranked)" "posix p' = posix ?q" by (auto simp: r(2))
    then have "p' \<in> set (map fst (dd_files disk))"
      using sr k png_below_keys [of disk "[category, ''test'']"] in_set_takeD [OF p'(1)] by auto
    then have "p' = ?q" using posix_inj [OF assms(1) _ keys(2) p'(2)] by blast
    then show False using nt p'(1) by simp
  qed
  then show ?thesis using 1 q n sr nth_mem [of 0 ranked] by force
qed

section \<open>Properties\<close>

text \<open>The images of a defect type (or of the good ones) below the test directory.\<close>

definition stratum :: "dataset_disk \<Rightarrow> string \<Rightarrow> string \<Rightarrow> string list list" where
  "stratum disk category k = filter (\<lambda>p. parent_name p = k) (png_below disk [category, ''test''])"

lemma stratum_group: "stratum disk category k \<noteq> [] \<Longrightarrow> stratum disk category k \<in> set (test_groups disk category)"
  by (auto simp: stratum_def test_groups_def Let_def filter_empty_conv image_iff)

lemma list_all2_matched: "list_all2 P xs ys \<Longrightarrow> x \<in> set xs \<Longrightarrow> \<exists>y \<in> set ys. P x y"
  by (induction rule: list_all2_induct) auto

lemma entries_split:
  assumes "manifest_entries env disk seed ratio category = Inr entries" "disk_ok disk"
    "validation_paths env seed ratio (test_groups disk category) = Inr vs" "p \<in> set (png_below disk [category, ''test''])"
  shows "\<exists>e \<in> set entries. man_image_path e = posix p \<and> man_anomaly_subtype e = parent_name p \<and>
     man_split e = (if posix p \<in> set vs then ''validation'' else ''test'')"
proof -
  let ?xs = "assignments disk category vs"
  from manifest_entries_Inr [OF assms(1)] assms(3)
  have f: "failures_of env disk category ?xs = []" "mset entries = mset (entries_of env disk category ?xs)" by auto
  have "(p, if posix p \<in> set vs then ''validation'' else ''test'') \<in> set ?xs"
    using assms(4) set_test_groups [of disk category] by (auto simp: assignments_def)
  then obtain e where "e \<in> set (entries_of env disk category ?xs)"
      "entry_for_path env disk category p (if posix p \<in> set vs then ''validation'' else ''test'') = Inr e"
    using list_all2_matched [OF entries_of_all [OF f(1)]] by fast
  then show ?thesis using mset_eq_setD [OF f(2)] entry_for_path_Inr by blast
qed

text \<open>A generated manifest lists every image of the directory exactly once, with its current hash and size and
  the hash of its mask, and splits every stratum of two or more test images so that both the validation and the
  test split hold some of them.\<close>

theorem generated_manifest_covers:
  assumes "disk_ok disk" "manifest_entries env disk seed ratio category = Inr entries"
  shows "set (map man_image_path entries) = posix ` images_of disk category \<and> distinct (map man_image_path entries) \<and>
     (\<forall>e \<in> set entries. manifest_entry_valid e \<and> image_mismatches env disk e = [] \<and> mask_mismatches env disk e = []) \<and>
     (\<forall>k. 2 \<le> length (stratum disk category k) \<longrightarrow>
        (\<exists>e \<in> set entries. man_anomaly_subtype e = k \<and> man_split e = ''validation'') \<and>
        (\<exists>e \<in> set entries. man_anomaly_subtype e = k \<and> man_split e = ''test''))"
proof -
  note facts = manifest_entries_facts [OF assms(2,1)]
  obtain vs where vs: "validation_paths env seed ratio (test_groups disk category) = Inr vs"
    using manifest_entries_Inr [OF assms(2)] by blast
  have strata: "(\<exists>e \<in> set entries. man_anomaly_subtype e = k \<and> man_split e = ''validation'') \<and>
        (\<exists>e \<in> set entries. man_anomaly_subtype e = k \<and> man_split e = ''test'')"
    if k: "2 \<le> length (stratum disk category k)" for k
  proof -
    have g: "stratum disk category k \<in> set (test_groups disk category)" using k by (intro stratum_group) auto
    from stratum_split [OF assms(1) vs g k] obtain p q where
      p: "p \<in> set (stratum disk category k)" "posix p \<in> set vs" and
      q: "q \<in> set (stratum disk category k)" "posix q \<notin> set vs" by blast
    have pb: "p \<in> set (png_below disk [category, ''test''])" "parent_name p = k"
      "q \<in> set (png_below disk [category, ''test''])" "parent_name q = k"
      using p q by (simp_all add: stratum_def)
    show ?thesis
      using entries_split [OF assms(2,1) vs pb(1)] entries_split [OF assms(2,1) vs pb(3)] p(2) q(2) pb(2,4) by auto
  qed
  from facts have "set (map man_image_path entries) = posix ` images_of disk category"
    "distinct (map man_image_path entries)"
    "\<forall>e \<in> set entries. manifest_entry_valid e \<and> image_mismatches env disk e = [] \<and> mask_mismatches env disk e = []"
    by blast+
  with strata show ?thesis by blast
qed

lemma verifies_generated:
  assumes "disk_ok disk" "manifest_entries env disk seed ratio category = Inr entries" "entries \<noteq> []"
    "generate_manifest env disk seed ratio category = Inr (body, meta)"
    "inj_on (\<lambda>p. take 16 (ml_sha256 env (posix p))) (images_of disk category)"
    "\<forall>e \<in> set entries. decode (manifest_line env e) = Some e \<and> no_breaks (manifest_line env e) \<and>
       strip (manifest_line env e) \<noteq> []"
  shows "verify_manifest env decode disk (Some body) (Some meta) =
     Inr \<lparr>mc_entries = length entries, mc_manifest_sha256 = mm_manifest_sha256 meta, mc_counts = mm_counts meta,
       mc_dataset_fingerprint = Some (mm_dataset_fingerprint meta)\<rparr>"
proof -
  note facts = manifest_entries_facts [OF assms(2,1)]
  have out: "body = manifest_text env entries" "meta = meta_of env category entries"
    using assms(2,4) by (simp_all add: generate_manifest_def)
  have load: "load_manifest decode (Some body) None = Inr entries"
    using decode_lines_text [of entries decode env] facts assms(3,6) by (simp add: load_manifest_def out)
  have mism: "entry_mismatches env disk [] [] entries = []"
    using facts assms(5) by (simp add: entry_mismatches_Nil)
  have "set (map man_category entries) = {category}"
    using facts assms(3) by (cases entries) auto
  then have meta: "check_meta env (ml_sha256 env body) entries meta = Inr ()"
    by (simp add: check_meta_def out meta_of_def)
  have fields: "mm_manifest_sha256 meta = ml_sha256 env body" "mm_counts meta = counter (map man_split entries)"
    by (simp_all add: out meta_of_def)
  show ?thesis unfolding verify_manifest_def load by (simp add: mism meta fields Let_def)
qed

lemma empty_not_loaded:
  assumes "generate_manifest env disk seed ratio category = Inr (body, meta)"
    "manifest_entries env disk seed ratio category = Inr []"
  shows "verify_manifest env decode disk (Some body) (Some meta) = manifest_error ''manifest contains no entries''"
proof -
  have "body = []" using assms by (simp add: generate_manifest_def manifest_text_def)
  then have "load_manifest decode (Some body) None = manifest_error ''manifest contains no entries''"
    by (simp add: load_manifest_def splitlines_def)
  then show ?thesis by (simp add: verify_manifest_def ml_raise_def)
qed

text \<open>C25. A generated manifest verifies: written to its file and read back it describes the directory it was made
  from, and the meta data match; only the manifest of a directory without an image, which is generated without
  complaint, is refused as empty when it is read. The libraries enter with what they document: an entry that is
  dumped to a JSON line is read back from it, the line holds no line break, and different images have different
  sample ids.\<close>

theorem generated_manifest_verifies:
  assumes "disk_ok disk" "manifest_entries env disk seed ratio category = Inr entries"
    "generate_manifest env disk seed ratio category = Inr (body, meta)"
    "inj_on (\<lambda>p. take 16 (ml_sha256 env (posix p))) (images_of disk category)"
    "\<forall>e \<in> set entries. decode (manifest_line env e) = Some e \<and> no_breaks (manifest_line env e) \<and>
       strip (manifest_line env e) \<noteq> []"
  shows "verify_manifest env decode disk (Some body) (Some meta) =
     (if entries = [] then manifest_error ''manifest contains no entries''
      else Inr \<lparr>mc_entries = length entries, mc_manifest_sha256 = mm_manifest_sha256 meta, mc_counts = mm_counts meta,
       mc_dataset_fingerprint = Some (mm_dataset_fingerprint meta)\<rparr>)"
  using verifies_generated [OF assms(1,2) _ assms(3-5)] empty_not_loaded [OF assms(3)] assms(2) by auto

text \<open>C28. A manifest that verifies describes the disk: every entry is valid, sample ids and image paths are unique,
  every image has the declared hash and size and every mask the declared hash, and the meta data are those of the
  entries.\<close>

theorem verified_manifest_describes_disk:
  assumes "verify_manifest env decode disk (Some body) (Some meta) = Inr result"
  shows "\<exists>entries. load_manifest decode (Some body) None = Inr entries \<and>
     distinct (map man_sample_id entries) \<and> distinct (map man_image_path entries) \<and>
     (\<forall>e \<in> set entries.
        (\<exists>c. file_at disk (parts_of (man_image_path e)) = Some c \<and> ml_sha256 env c = man_image_sha256 e \<and>
           image_header env c = Some (man_width e, man_height e)) \<and>
        (truthy (man_mask_path e) \<longrightarrow> (\<exists>m c. man_mask_path e = Some m \<and> file_at disk (parts_of m) = Some c \<and>
           man_mask_sha256 e = Some (ml_sha256 env c)))) \<and>
     mm_manifest_sha256 meta = ml_sha256 env body \<and>
     mm_dataset_fingerprint meta = digest_json env (content_identity entries) \<and>
     mm_split_sha256 meta = split_hashes env entries"
proof -
  obtain entries where l: "load_manifest decode (Some body) None = Inr entries"
    using assms by (auto simp: verify_manifest_def)
  then have m: "entry_mismatches env disk [] [] entries = []" "check_meta env (ml_sha256 env body) entries meta = Inr ()"
    using assms by (auto simp: verify_manifest_def Let_def split: if_splits)
  show ?thesis
    using l m [unfolded entry_mismatches_Nil image_mismatches_Nil mask_mismatches_Nil check_meta_def] by auto
qed

section \<open>A directory with its manifest\<close>

definition example_disk :: dataset_disk where
  "example_disk = \<lparr>dd_files =
     [([''c'', ''train'', ''good'', ''a.png''], ''a''), ([''c'', ''test'', ''good'', ''b.png''], ''b''),
      ([''c'', ''test'', ''good'', ''d.png''], ''d''), ([''c'', ''test'', ''cut'', ''e.png''], ''e''),
      ([''c'', ''test'', ''cut'', ''f.png''], ''f''), ([''c'', ''ground_truth'', ''cut'', ''e_mask.png''], ''ea''),
      ([''c'', ''ground_truth'', ''cut'', ''f_mask.png''], ''fa'')],
     dd_dirs = [[''c'', ''train'', ''good''], [''c'', ''test''], [''c'', ''ground_truth'']]\<rparr>"

text \<open>A hash of the hexadecimal letters of a text, and a dump that names an entry.\<close>

definition toy_hash :: "string \<Rightarrow> string" where
  "toy_hash s = take 64 (map (\<lambda>c. if c \<in> set ''0123456789abcdef'' then c else CHR ''0'') (rev s) @ replicate 64 (CHR ''0''))"

definition toy_dump :: "json \<Rightarrow> string" where
  "toy_dump j = (case jfield ''sample_id'' j of JStr s \<Rightarrow> s | _ \<Rightarrow> ''json'')"

definition example_dataset_env :: dataset_env where
  "example_dataset_env = \<lparr>ml_sha256 = toy_hash, ml_dumps = toy_dump, ml_loads = (\<lambda>_. None),
     ml_manifest_fields = (\<lambda>_. None), ml_float_of = (\<lambda>_. None), ml_str_of = (\<lambda>_. []), ml_tree = (\<lambda>_. None),
     ml_file = (\<lambda>_. None), image_header = (\<lambda>_. Some (2, 3)), image_verifies = (\<lambda>_. True)\<rparr>"

definition example_manifest_run :: "ml_exn + ManifestEntry list" where
  "example_manifest_run = manifest_entries example_dataset_env example_disk ''7'' (1/2) ''c''"

definition example_manifest_entries :: "ManifestEntry list" where
  "example_manifest_entries = (case example_manifest_run of Inl _ \<Rightarrow> [] | Inr es \<Rightarrow> es)"

definition example_entry_decode :: "string \<Rightarrow> ManifestEntry option" where
  "example_entry_decode l = find (\<lambda>e. manifest_line example_dataset_env e = l) example_manifest_entries"

lemma example_manifest_rows: "map (\<lambda>e. (man_split e, man_image_path e)) example_manifest_entries =
    [(''test'', ''c/test/cut/f.png''), (''test'', ''c/test/good/d.png''), (''train'', ''c/train/good/a.png''),
     (''validation'', ''c/test/cut/e.png''), (''validation'', ''c/test/good/b.png'')]"
  by code_simp

lemma example_manifest_runs: "manifest_entries example_dataset_env example_disk ''7'' (1/2) ''c'' = Inr example_manifest_entries"
  using example_manifest_rows
  by (cases "manifest_entries example_dataset_env example_disk ''7'' (1/2) ''c''")
    (simp_all add: example_manifest_entries_def example_manifest_run_def)

lemma example_disk_ok: "disk_ok example_disk"
  by (simp add: disk_ok_def example_disk_def)

lemma example_reads_back: "\<forall>e \<in> set example_manifest_entries.
    example_entry_decode (manifest_line example_dataset_env e) = Some e \<and>
    no_breaks (manifest_line example_dataset_env e) \<and> strip (manifest_line example_dataset_env e) \<noteq> []"
  by code_simp

lemma example_images: "images_of example_disk ''c'' = set (png_in example_disk [''c'', ''train'', ''good''] @
    png_below example_disk [''c'', ''test''])"
  by (simp add: images_of_def)

lemma example_ids: "inj_on (\<lambda>p. take 16 (ml_sha256 example_dataset_env (posix p))) (images_of example_disk ''c'')"
proof -
  have "distinct (map (\<lambda>p. take 16 (ml_sha256 example_dataset_env (posix p)))
     (png_in example_disk [''c'', ''train'', ''good''] @ png_below example_disk [''c'', ''test'']))"
    by code_simp
  then show ?thesis unfolding example_images distinct_map by blast
qed

theorem generated_manifest_covers_witness:
  "\<exists>e \<in> set example_manifest_entries. man_anomaly_subtype e = ''cut'' \<and> man_split e = ''test''"
proof -
  have "2 \<le> length (stratum example_disk ''c'' ''cut'')" by code_simp
  then show ?thesis using generated_manifest_covers [OF example_disk_ok example_manifest_runs] by blast
qed

theorem generated_manifest_verifies_witness:
  "\<exists>body meta. generate_manifest example_dataset_env example_disk ''7'' (1/2) ''c'' = Inr (body, meta) \<and>
     verify_manifest example_dataset_env example_entry_decode example_disk (Some body) (Some meta) =
       Inr \<lparr>mc_entries = 5, mc_manifest_sha256 = mm_manifest_sha256 meta, mc_counts = mm_counts meta,
         mc_dataset_fingerprint = Some (mm_dataset_fingerprint meta)\<rparr>"
proof -
  have n: "length example_manifest_entries = 5"
    using arg_cong [OF example_manifest_rows, of length] by simp
  then have ne: "example_manifest_entries \<noteq> []" by auto
  obtain body meta where g: "generate_manifest example_dataset_env example_disk ''7'' (1/2) ''c'' = Inr (body, meta)"
    by (simp add: generate_manifest_def example_manifest_runs)
  show ?thesis
    using generated_manifest_verifies [OF example_disk_ok example_manifest_runs g example_ids example_reads_back] g n ne
    by auto
qed

lemma example_verified:
  obtains body meta r where "generate_manifest example_dataset_env example_disk ''7'' (1/2) ''c'' = Inr (body, meta)"
    "verify_manifest example_dataset_env example_entry_decode example_disk (Some body) (Some meta) = Inr r"
proof -
  have ne: "example_manifest_entries \<noteq> []" using example_manifest_rows by auto
  obtain body meta where g: "generate_manifest example_dataset_env example_disk ''7'' (1/2) ''c'' = Inr (body, meta)"
    by (simp add: generate_manifest_def example_manifest_runs)
  show ?thesis
    using that [OF g verifies_generated [OF example_disk_ok example_manifest_runs ne g example_ids example_reads_back]] .
qed

theorem verified_manifest_describes_disk_witness:
  "\<exists>body meta entries. generate_manifest example_dataset_env example_disk ''7'' (1/2) ''c'' = Inr (body, meta) \<and>
     load_manifest example_entry_decode (Some body) None = Inr entries \<and> distinct (map man_sample_id entries)"
proof -
  obtain body meta r where g: "generate_manifest example_dataset_env example_disk ''7'' (1/2) ''c'' = Inr (body, meta)"
    "verify_manifest example_dataset_env example_entry_decode example_disk (Some body) (Some meta) = Inr r"
    by (rule example_verified)
  from verified_manifest_describes_disk [OF g(2)] g(1) show ?thesis by blast
qed

end
