(* ===== verification/MlQualification.thy ===== *)
theory MlQualification
  imports MlDataset MlCalibration
begin

text \<open>
  \<^verbatim>\<open>ml/src/visionqc_ml/qualification.py\<close>: the split manifests of the evaluation protocols and their overlap
  check, the calibration on one split with metrics on the other, and the pilot gates.
\<close>

section \<open>Split manifests\<close>

record split_row =
  sp_sample_id :: string
  sp_split :: string
  sp_image_path :: string
  sp_image_sha256 :: string
  sp_mask_path :: "string option"
  sp_mask_sha256 :: "string option"
  sp_label :: int
  sp_anomaly_subtype :: string
  sp_source_split :: "string option"
  sp_category :: "string option"

text \<open>The rows of protocol B leave out the source split and the category.\<close>

definition split_row_of :: "string \<Rightarrow> ManifestEntry \<Rightarrow> split_row" where
  "split_row_of split e = \<lparr>sp_sample_id = man_sample_id e, sp_split = split, sp_image_path = man_image_path e,
     sp_image_sha256 = man_image_sha256 e, sp_mask_path = man_mask_path e, sp_mask_sha256 = man_mask_sha256 e,
     sp_label = man_label e, sp_anomaly_subtype = man_anomaly_subtype e,
     sp_source_split = None, sp_category = None\<rparr>"

text \<open>The rows of each split, by its name.\<close>

type_synonym split_manifest = "(string \<times> split_row list) list"

text \<open>The identifying fields of a row that hold a value.\<close>

definition row_keys :: "split_row \<Rightarrow> (string \<times> string) list" where
  "row_keys r = filter (\<lambda>(f, v). v \<noteq> [])
     [(''sample_id'', sp_sample_id r), (''image_path'', sp_image_path r), (''image_sha256'', sp_image_sha256 r),
      (''mask_path'', or_else (sp_mask_path r) []), (''mask_sha256'', or_else (sp_mask_sha256 r) [])]"

definition declared_splits :: "split_manifest \<Rightarrow> (string \<times> split_row list) list" where
  "declared_splits m = List.map_filter (\<lambda>s. map_option (Pair s) (map_of m s))
     [''train'', ''validation'', ''calibration'', ''holdout'']"

definition all_keys :: "split_manifest \<Rightarrow> (string \<times> string \<times> string) list" where
  "all_keys m = concat (map (\<lambda>(s, rows). concat (map (\<lambda>r. map (Pair s) (row_keys r)) rows)) (declared_splits m))"

text \<open>\<open>seen\<close> remembers the split a value was met in first.\<close>

fun overlaps ::
  "((string \<times> string) \<times> string) list \<Rightarrow> (string \<times> string \<times> string) list \<Rightarrow> (string \<times> string \<times> string \<times> string) list"
where
  "overlaps seen [] = []"
| "overlaps seen ((split, field, v) # ks) = (case map_of seen (field, v) of
     Some previous \<Rightarrow> (field, v, previous, split) # overlaps seen ks
   | None \<Rightarrow> overlaps (((field, v), split) # seen) ks)"

definition validate_split_manifest :: "split_manifest \<Rightarrow> ml_exn + (string \<times> nat) list" where
  "validate_split_manifest m =
     (if overlaps [] (all_keys m) \<noteq> [] then ml_value_error ''split overlap detected''
      else Inr (map (\<lambda>(s, rows). (s, length rows)) (declared_splits m)))"

text \<open>\<open>rank\<close> is the digest of the seed and a sample id.\<close>

definition protocol_groups :: "ManifestEntry list \<Rightarrow> ManifestEntry list list" where
  "protocol_groups candidates = map (\<lambda>k. filter (\<lambda>e. man_anomaly_subtype e = k) candidates)
     (sort (remdups (map man_anomaly_subtype candidates)))"

definition protocol_cut :: "nat \<Rightarrow> nat" where
  "protocol_cut n = (if n > 1 then max 1 (n div 2) else 1)"

definition calibration_part :: "(string \<Rightarrow> string) \<Rightarrow> ManifestEntry list \<Rightarrow> ManifestEntry list" where
  "calibration_part rank items = (let ranked = sort_key (\<lambda>e. rank (man_sample_id e)) items in
     take (protocol_cut (length ranked)) ranked)"

definition holdout_part :: "(string \<Rightarrow> string) \<Rightarrow> ManifestEntry list \<Rightarrow> ManifestEntry list" where
  "holdout_part rank items = (let ranked = sort_key (\<lambda>e. rank (man_sample_id e)) items;
       rest = drop (protocol_cut (length ranked)) ranked in
     if rest = [] then take 1 ranked else rest)"

definition split_for_protocol_b :: "(string \<Rightarrow> string) \<Rightarrow> ManifestEntry list \<Rightarrow> ml_exn + split_manifest" where
  "split_for_protocol_b rank entries =
     (let candidates = filter (\<lambda>e. man_source_split e = ''test'') entries;
          groups = protocol_groups candidates;
          result =
            [(''train'', map (split_row_of ''train'') (filter (\<lambda>e. man_source_split e = ''train'') entries)),
             (''calibration'', map (split_row_of ''calibration'')
                (sort_key man_sample_id (concat (map (calibration_part rank) groups)))),
             (''holdout'', map (split_row_of ''holdout'')
                (sort_key man_sample_id (concat (map (holdout_part rank) groups))))]
      in andThen (validate_split_manifest result) (\<lambda>_. Inr result))"

text \<open>The fixed assignment of a baseline run.\<close>

definition manifest_row :: "string \<Rightarrow> ManifestEntry \<Rightarrow> split_row" where
  "manifest_row split e = (split_row_of split e)
     \<lparr>sp_source_split := Some (man_source_split e), sp_category := Some (man_category e)\<rparr>"

definition pilot_split_manifest :: "ManifestEntry list \<Rightarrow> ml_exn + split_manifest" where
  "pilot_split_manifest entries =
     (let rows = (\<lambda>split name. map (manifest_row name) (filter (\<lambda>e. man_split e = split) entries));
          result = [(''train'', rows ''train'' ''train''), (''validation'', rows ''validation'' ''validation''),
             (''holdout'', rows ''test'' ''holdout'')]
      in andThen (validate_split_manifest result) (\<lambda>_. Inr result))"

section \<open>Metrics and protocol B\<close>

text \<open>\<open>roc_auc_score\<close> and \<open>np.percentile\<close> are the libraries'.\<close>

record metric_env =
  roc_auc :: "(int \<times> rat) list \<Rightarrow> rat"
  percentile95 :: "rat list \<Rightarrow> rat"

record metric_values =
  mv_image_auroc :: "rat option"
  mv_defect_error_auto_release_rate :: "rat option"
  mv_review_hold_recall :: "rat option"
  mv_hold_recall :: "rat option"
  mv_normal_review_hold_rate :: "rat option"
  mv_cold_p95_ms :: "rat option"
  mv_warm_p95_ms :: "rat option"

definition optional_p95 :: "metric_env \<Rightarrow> rat list \<Rightarrow> rat option" where
  "optional_p95 env xs = (if xs = [] then None else Some (percentile95 env xs))"

definition metric_values_of :: "metric_env \<Rightarrow> ScoreRecord list \<Rightarrow> rat \<Rightarrow> rat \<Rightarrow> metric_values" where
  "metric_values_of env records review hold =
     (if scores_of 0 records = [] \<or> scores_of 1 records = []
      then \<lparr>mv_image_auroc = None, mv_defect_error_auto_release_rate = None, mv_review_hold_recall = None,
            mv_hold_recall = None, mv_normal_review_hold_rate = None, mv_cold_p95_ms = None, mv_warm_p95_ms = None\<rparr>
      else \<lparr>mv_image_auroc = Some (roc_auc env (map (\<lambda>r. (sr_label r, sr_score r)) records)),
            mv_defect_error_auto_release_rate = Some (mean_of (\<lambda>s. s < review) (scores_of 1 records)),
            mv_review_hold_recall = Some (mean_of (\<lambda>s. s \<ge> review) (scores_of 1 records)),
            mv_hold_recall = Some (mean_of (\<lambda>s. s \<ge> hold) (scores_of 1 records)),
            mv_normal_review_hold_rate = Some (mean_of (\<lambda>s. s \<ge> review) (scores_of 0 records)),
            mv_cold_p95_ms = optional_p95 env (map sr_latency_ms (filter (\<lambda>r. \<not> sr_warm r) records)),
            mv_warm_p95_ms = optional_p95 env (map sr_latency_ms (filter sr_warm records))\<rparr>)"

record protocol_thresholds =
  pt_review_threshold :: rat
  pt_hold_threshold :: rat
  pt_achieved_on_calibration :: metric_values
  pt_sample_count :: nat

definition protocol_candidates :: "ScoreRecord list \<Rightarrow> rat list" where
  "protocol_candidates records = np_unique ([0] @ map sr_score records @ [1])"

definition protocol_review :: "ScoreRecord list \<Rightarrow> rat \<Rightarrow> rat" where
  "protocol_review records max_fa = max_default 0
     (filter (\<lambda>c. c < 1 \<and> mean_of (\<lambda>s. s < c) (scores_of 1 records) \<le> max_fa) (protocol_candidates records))"

definition protocol_hold :: "(rat \<Rightarrow> rat) \<Rightarrow> ScoreRecord list \<Rightarrow> rat \<Rightarrow> rat \<Rightarrow> rat" where
  "protocol_hold next_up records review target = max_default (min 1 (next_up review))
     (filter (\<lambda>c. c > review \<and> mean_of (\<lambda>s. s \<ge> c) (scores_of 1 records) \<ge> target) (protocol_candidates records))"

definition calibrate_protocol_b ::
  "metric_env \<Rightarrow> (rat \<Rightarrow> rat) \<Rightarrow> ScoreRecord list \<Rightarrow> rat \<Rightarrow> rat \<Rightarrow> ml_exn + protocol_thresholds" where
  "calibrate_protocol_b env next_up records max_fa target =
     (if records = [] \<or> set (map sr_label records) \<noteq> {0, 1}
      then ml_value_error ''Protocol B calibration requires normal and anomalous records''
      else if list_ex (\<lambda>r. sr_split r \<notin> {''validation'', ''calibration''}) records
      then ml_value_error ''Protocol B calibration accepts validation/calibration records only; holdout is forbidden''
      else
        let review = protocol_review records max_fa;
            hold = protocol_hold next_up records review target
        in if hold \<le> review
           then ml_value_error ''Protocol B calibration cannot produce ordered review/hold thresholds''
           else Inr \<lparr>pt_review_threshold = review, pt_hold_threshold = hold,
             pt_achieved_on_calibration = metric_values_of env records review hold, pt_sample_count = length records\<rparr>)"

text \<open>Thresholds from one split, business metrics on the other.\<close>

definition evaluate_protocol_b ::
  "metric_env \<Rightarrow> (rat \<Rightarrow> rat) \<Rightarrow> ScoreRecord list \<Rightarrow> ScoreRecord list \<Rightarrow> ml_exn + protocol_thresholds \<times> metric_values" where
  "evaluate_protocol_b env next_up calibration holdout =
     andThen (calibrate_protocol_b env next_up calibration (5/100) (80/100)) (\<lambda>t.
     Inr (t, metric_values_of env holdout (pt_review_threshold t) (pt_hold_threshold t)))"

section \<open>Gates\<close>

datatype gate_operator = GateGe | GateLe | GateEq

definition PILOT_GATES :: "(string \<times> gate_operator \<times> rat) list" where
  "PILOT_GATES =
     [(''image_auroc'', GateGe, 90/100), (''defect_error_auto_release_rate'', GateLe, 5/100),
      (''review_hold_recall'', GateGe, 95/100), (''hold_recall'', GateGe, 80/100),
      (''normal_review_hold_rate'', GateLe, 25/100), (''warm_p95_ms'', GateLe, 500),
      (''no_split_leakage'', GateEq, 1), (''model_package_integrity'', GateEq, 1),
      (''customer_data_provenance'', GateEq, 1)]"

datatype gate_status = GATE_PASS | GATE_FAIL | GATE_INSUFFICIENT_EVIDENCE | GATE_NOT_APPLICABLE

text \<open>Numbers compare with numbers; \<open>True\<close> is 1.\<close>

definition json_number :: "json \<Rightarrow> rat option" where
  "json_number j = (case j of JInt i \<Rightarrow> Some (of_int i) | JFloat x \<Rightarrow> Some x
     | JBool b \<Rightarrow> Some (if b then 1 else 0) | _ \<Rightarrow> None)"

definition gate_status_of :: "gate_operator \<Rightarrow> rat \<Rightarrow> json \<Rightarrow> ml_exn + gate_status" where
  "gate_status_of operator threshold v =
     (if v = JNull then Inr GATE_INSUFFICIENT_EVIDENCE
      else (case (operator, json_number v) of
          (GateEq, x) \<Rightarrow> Inr (if x = Some threshold then GATE_PASS else GATE_FAIL)
        | (_, None) \<Rightarrow> ml_raise ''TypeError'' ''not supported between instances''
        | (GateGe, Some x) \<Rightarrow> Inr (if x \<ge> threshold then GATE_PASS else GATE_FAIL)
        | (GateLe, Some x) \<Rightarrow> Inr (if x \<le> threshold then GATE_PASS else GATE_FAIL)))"

definition jbool_opt :: "bool option \<Rightarrow> json" where
  "jbool_opt b = (case b of None \<Rightarrow> JNull | Some x \<Rightarrow> JBool x)"

text \<open>The value a gate looks at: three of them do not come from the metrics.\<close>

definition gate_value ::
  "(string \<times> json) list \<Rightarrow> bool \<Rightarrow> bool \<Rightarrow> bool option \<Rightarrow> string \<Rightarrow> json" where
  "gate_value metrics package_verified no_split_leakage customer_valid name =
     (if name = ''model_package_integrity'' then JBool package_verified
      else if name = ''no_split_leakage'' then JBool no_split_leakage
      else if name = ''customer_data_provenance'' then jbool_opt customer_valid
      else jget_or name JNull metrics)"

fun gate_checks ::
  "(string \<Rightarrow> json) \<Rightarrow> string \<Rightarrow> (string \<times> gate_operator \<times> rat) list \<Rightarrow> ml_exn + (string \<times> gate_status) list" where
  "gate_checks v source_type [] = Inr []"
| "gate_checks v source_type ((name, operator, threshold) # rest) =
     andThen (if name = ''customer_data_provenance'' \<and> source_type \<noteq> ''CUSTOMER_PILOT'' then Inr GATE_NOT_APPLICABLE
              else gate_status_of operator threshold (v name)) (\<lambda>status.
     andThen (gate_checks v source_type rest) (\<lambda>checks. Inr ((name, status) # checks)))"

record gate_result =
  gr_source_type :: string
  gr_decision :: string
  gr_checks :: "(string \<times> gate_status) list"
  gr_missing :: "string list"
  gr_failed :: "string list"
  gr_approval_eligible :: bool

definition evaluate_pilot_gates ::
  "(string \<times> json) list \<Rightarrow> bool \<Rightarrow> bool \<Rightarrow> bool \<Rightarrow> string \<Rightarrow> bool option \<Rightarrow> ml_exn + gate_result" where
  "evaluate_pilot_gates metrics package_verified no_split_leakage evidence_complete source_type customer_valid =
     andThen (gate_checks (gate_value metrics package_verified no_split_leakage customer_valid) source_type PILOT_GATES)
     (\<lambda>checks.
       let missing = map fst (filter (\<lambda>(n, s). s = GATE_INSUFFICIENT_EVIDENCE) checks);
           failed = map fst (filter (\<lambda>(n, s). s = GATE_FAIL) checks);
           decision = (if \<not> evidence_complete \<or> missing \<noteq> [] then ''INSUFFICIENT_EVIDENCE''
             else if failed \<noteq> [] then ''NO-GO'' else ''GO'')
       in Inr \<lparr>gr_source_type = source_type, gr_decision = decision, gr_checks = checks, gr_missing = missing,
            gr_failed = failed,
            gr_approval_eligible = (source_type = ''CUSTOMER_PILOT'' \<and> decision = ''GO'' \<and> customer_valid = Some True)\<rparr>)"

definition qualification_report_status :: "string \<Rightarrow> string \<Rightarrow> string" where
  "qualification_report_status source_type decision =
     (if source_type = ''DEMO_SYNTHETIC'' then ''DEMO_ONLY''
      else (if source_type = ''OFFICIAL_BENCHMARK'' then ''BENCHMARK_'' else ''CUSTOMER_PILOT_'') @
        (if decision = ''GO'' then ''PASS'' else if decision = ''NO-GO'' then ''NO_GO'' else ''INSUFFICIENT_EVIDENCE''))"

end
