(* ===== verification/MlReport.thy ===== *)
theory MlReport
  imports MlQualification MlEvidence AuditLog
begin

text \<open>
  \<^verbatim>\<open>ml/src/visionqc_ml/qualification.py\<close>, \<open>write_qualification_package\<close>, and the data contracts of
  \<^verbatim>\<open>dataset_source.py\<close> it uses: the documents of an evidence directory, their digest and their inventory. The
  two Markdown documents are texts of the environment.
\<close>

section \<open>Provenance\<close>

record CustomerProvenance =
  cdp_tenant :: string
  cdp_site :: string
  cdp_line :: string
  cdp_camera :: string
  cdp_product :: string
  cdp_capture_window_start :: int
  cdp_capture_window_end :: int
  cdp_label_source :: string
  cdp_approver :: string
  cdp_consent :: bool
  cdp_retention_policy :: string

text \<open>The declared lengths and the order of the capture window, whose ends are instants.\<close>

definition customer_data_valid :: "CustomerProvenance \<Rightarrow> bool" where
  "customer_data_valid p \<longleftrightarrow> len_between 1 128 (cdp_tenant p) \<and> len_between 1 128 (cdp_site p) \<and>
     len_between 1 128 (cdp_line p) \<and> len_between 1 256 (cdp_camera p) \<and> len_between 1 128 (cdp_product p) \<and>
     len_between 1 512 (cdp_label_source p) \<and> len_between 1 128 (cdp_approver p) \<and>
     len_between 1 512 (cdp_retention_policy p) \<and> cdp_capture_window_start p < cdp_capture_window_end p"

text \<open>The disk and libraries of a report: the indented JSON text of a value, the clock, ISO times, the commit of the repository, the
  description of the machine, and the Markdown documents.\<close>

record report_env = ml_env +
  pretty :: "json \<Rightarrow> string"
  rep_now :: string
  rep_iso :: "int \<Rightarrow> string"
  rep_commit :: string
  rep_environment :: json
  rep_model_card :: string
  rep_evaluation_report :: string

definition customer_data_dump :: "'a report_env_scheme \<Rightarrow> CustomerProvenance \<Rightarrow> json" where
  "customer_data_dump env p = JObj [(''tenant'', JStr (cdp_tenant p)), (''site'', JStr (cdp_site p)),
     (''line'', JStr (cdp_line p)), (''camera'', JStr (cdp_camera p)), (''product'', JStr (cdp_product p)),
     (''capture_window_start'', JStr (rep_iso env (cdp_capture_window_start p))),
     (''capture_window_end'', JStr (rep_iso env (cdp_capture_window_end p))),
     (''label_source'', JStr (cdp_label_source p)), (''approver'', JStr (cdp_approver p)),
     (''consent'', JBool (cdp_consent p)), (''retention_policy'', JStr (cdp_retention_policy p))]"

text \<open>\<open>demo_dataset_source(category).dataset_fingerprint\<close>.\<close>

definition demo_fingerprint :: "'a ml_env_scheme \<Rightarrow> string" where
  "demo_fingerprint env = ml_sha256 env (ml_dumps env
     (JObj [(''source_type'', JStr ''DEMO_SYNTHETIC''), (''fixture'', JStr ''v1'')]))"

section \<open>The arguments\<close>

text \<open>The split manifest comes as the document that is written and as the rows of its declared splits; an absent
  one is the empty document.\<close>

type_synonym dict = "(string \<times> json) list"

record report_args =
  ra_factory :: string
  ra_category :: string
  ra_source_type :: string
  ra_metrics :: "dict option"
  ra_confidence_intervals :: json
  ra_split_document :: dict
  ra_split_rows :: split_manifest
  ra_model_package :: "string option"
  ra_dataset_receipt :: "dict option"
  ra_limitations :: "json list"
  ra_source_evidence :: "dict option"
  ra_error_cases :: "dict option"
  ra_thresholds :: json
  ra_dataset_fingerprint :: "string option"
  ra_customer_provenance :: "CustomerProvenance option"

definition is_demo :: "report_args \<Rightarrow> bool" where
  "is_demo a \<longleftrightarrow> ra_source_type a = ''DEMO_SYNTHETIC''"

definition is_customer :: "report_args \<Rightarrow> bool" where
  "is_customer a \<longleftrightarrow> ra_source_type a = ''CUSTOMER_PILOT''"

definition has_split :: "report_args \<Rightarrow> bool" where
  "has_split a \<longleftrightarrow> ra_split_document a \<noteq> []"

definition blocker :: "bool \<Rightarrow> string \<Rightarrow> string list" where
  "blocker b message = (if b then [message] else [])"

section \<open>Blockers, metrics and the gate decision\<close>

definition first_blockers :: "report_args \<Rightarrow> bool \<Rightarrow> string list" where
  "first_blockers a verified =
     blocker (\<not> is_demo a \<and> \<not> verified) ''A verified Anomalib PatchCore model package is not available.'' @
     blocker (\<not> is_demo a \<and> \<not> has_split a) ''Protocol A/B split evidence is not available.'' @
     blocker (\<not> is_demo a \<and> ra_metrics a = None)
       ''Prediction scores, heatmaps, and thresholded holdout metrics are not available.'' @
     blocker (\<not> is_demo a \<and> \<not> truthy (ra_dataset_fingerprint a))
       (ra_source_type a @ '' requires an immutable dataset fingerprint.'') @
     blocker (\<not> is_demo a \<and> ra_dataset_receipt a = None)
       (ra_source_type a @ '' requires a verified dataset receipt.'') @
     blocker (is_customer a \<and> ra_customer_provenance a = None)
       ''CUSTOMER_PILOT requires tenant, site, line, camera, product, capture window, label source, approver, consent, and retention provenance.''"

definition source_evidence_available :: "report_args \<Rightarrow> bool" where
  "source_evidence_available a = (case ra_source_evidence a of None \<Rightarrow> False
     | Some d \<Rightarrow> json_truthy (jget_or ''files'' JNull d))"

definition report_blockers :: "report_args \<Rightarrow> bool \<Rightarrow> string list" where
  "report_blockers a verified = first_blockers a verified @
     blocker (\<not> is_demo a \<and> \<not> source_evidence_available a)
       ''The baseline source-evidence hash inventory is not available.'' @
     blocker (is_customer a \<and> (case ra_customer_provenance a of None \<Rightarrow> False | Some p \<Rightarrow> \<not> cdp_consent p))
       ''CUSTOMER_PILOT requires explicit consent before Pilot approval.''"

definition blocked_metrics :: "string \<Rightarrow> dict" where
  "blocked_metrics reason =
     [(''metric_status'', JStr ''UNAVAILABLE''), (''unavailable_reason'', JStr reason), (''sample_count'', JInt 0),
      (''normal_sample_count'', JInt 0), (''anomalous_sample_count'', JInt 0)] @
     map (\<lambda>k. (k, JNull)) [''image_auroc'', ''pixel_auroc'', ''aupro'', ''precision'', ''recall'', ''f1'',
       ''normal_false_positive_rate'', ''defect_error_auto_release_rate'', ''review_hold_recall'', ''hold_recall'',
       ''manual_review_burden_rate'', ''cold_start_ms'', ''warm_inference_p50_ms'', ''warm_inference_p95_ms'',
       ''warm_p95_ms'']"

definition actual_metrics :: "report_args \<Rightarrow> bool \<Rightarrow> dict" where
  "actual_metrics a verified = (case ra_metrics a of Some m \<Rightarrow> m
     | None \<Rightarrow> blocked_metrics (let joined = join_with ''; '' (first_blockers a verified) in
         if joined \<noteq> [] then joined
         else if is_demo a
         then ''DEMO_SYNTHETIC is for workflow demonstration only; performance metrics are intentionally not asserted.''
         else ''Required qualification metric evidence is unavailable.''))"

definition report_fingerprint :: "'a ml_env_scheme \<Rightarrow> report_args \<Rightarrow> string option" where
  "report_fingerprint env a = (if is_demo a \<and> ra_dataset_fingerprint a = None then Some (demo_fingerprint env)
     else ra_dataset_fingerprint a)"

definition customer_provenance_valid :: "report_args \<Rightarrow> bool option" where
  "customer_provenance_valid a = (if \<not> is_customer a then Some True
     else map_option cdp_consent (ra_customer_provenance a))"

definition evidence_is_complete :: "report_args \<Rightarrow> bool \<Rightarrow> bool" where
  "evidence_is_complete a verified \<longleftrightarrow> \<not> is_demo a \<and> verified \<and> has_split a \<and> ra_metrics a \<noteq> None \<and>
     source_evidence_available a \<and> (is_customer a \<longrightarrow> customer_provenance_valid a = Some True)"

definition split_is_valid :: "report_args \<Rightarrow> ml_exn + bool" where
  "split_is_valid a = (if has_split a
     then andThen (validate_split_manifest (ra_split_rows a)) (\<lambda>_. Inr True)
     else Inr False)"

definition report_gates :: "report_args \<Rightarrow> bool \<Rightarrow> ml_exn + gate_result" where
  "report_gates a verified = andThen (split_is_valid a) (\<lambda>no_leakage.
     evaluate_pilot_gates (actual_metrics a verified) verified no_leakage (evidence_is_complete a verified)
       (ra_source_type a) (customer_provenance_valid a))"

definition approval_status_of :: "report_args \<Rightarrow> gate_result \<Rightarrow> string" where
  "approval_status_of a g =
     (if is_demo a then ''DEMO_ONLY''
      else if ra_source_type a = ''OFFICIAL_BENCHMARK'' \<and> gr_decision g = ''GO'' then ''READY_FOR_CUSTOMER_DATA''
      else if is_customer a \<and> gr_approval_eligible g then ''PENDING_APPROVAL''
      else ''DRAFT_ONLY'')"

definition run_status_of :: "report_args \<Rightarrow> string list \<Rightarrow> string" where
  "run_status_of a blockers = (if is_demo a then ''DEMO_ONLY'' else if blockers \<noteq> [] then ''BLOCKED'' else ''COMPLETED'')"

section \<open>The documents\<close>

definition texts :: "string list \<Rightarrow> json" where
  "texts ss = JList (map JStr ss)"

definition operator_text :: "gate_operator \<Rightarrow> string" where
  "operator_text operator = (case operator of GateGe \<Rightarrow> ''>='' | GateLe \<Rightarrow> ''<='' | GateEq \<Rightarrow> ''=='')"

definition status_text :: "gate_status \<Rightarrow> string" where
  "status_text s = (case s of GATE_PASS \<Rightarrow> ''PASS'' | GATE_FAIL \<Rightarrow> ''FAIL''
     | GATE_INSUFFICIENT_EVIDENCE \<Rightarrow> ''INSUFFICIENT_EVIDENCE'' | GATE_NOT_APPLICABLE \<Rightarrow> ''NOT_APPLICABLE'')"

definition check_dump :: "(string \<Rightarrow> json) \<Rightarrow> (string \<times> gate_operator \<times> rat) \<times> string \<times> gate_status \<Rightarrow> string \<times> json" where
  "check_dump v x = (case x of ((name, operator, threshold), (_, status)) \<Rightarrow>
     (name, JObj ([(''status'', JStr (status_text status)),
       (''value'', if status = GATE_NOT_APPLICABLE then JNull else v name),
       (''operator'', JStr (operator_text operator)),
       (''threshold'', if operator = GateEq then JBool True else JFloat threshold)] @
       (if name = ''customer_data_provenance'' then [(''scope'', JStr ''customer_pilot_approval'')] else []))))"

definition report_status_of :: "report_args \<Rightarrow> gate_result \<Rightarrow> string" where
  "report_status_of a g = qualification_report_status (ra_source_type a) (gr_decision g)"

definition gates_dump :: "report_args \<Rightarrow> bool \<Rightarrow> gate_result \<Rightarrow> json" where
  "gates_dump a verified g = JObj
     [(''gate_version'', JStr ''visionqc-pilot-gates.v2''), (''source_type'', JStr (gr_source_type g)),
      (''decision'', JStr (gr_decision g)),
      (''checks'', JObj (map (check_dump (gate_value (actual_metrics a verified) verified
          (split_is_valid a = Inr True) (customer_provenance_valid a))) (zip PILOT_GATES (gr_checks g)))),
      (''missing'', texts (gr_missing g)), (''failed'', texts (gr_failed g)),
      (''approval_eligible'', JBool (gr_approval_eligible g)), (''report_status'', JStr (report_status_of a g))]"

definition report_limitations :: "report_args \<Rightarrow> json list" where
  "report_limitations a =
     map JStr (if is_demo a then
        [''DEMO_SYNTHETIC is a small built-in fixture for workflow demonstration only.'',
         ''Demo data must not be used for effect claims, benchmark claims, customer Pilot approval, or production decisions.'']
      else if ra_source_type a = ''OFFICIAL_BENCHMARK'' then
        [''MVTec AD is an official non-commercial research benchmark, not factory or customer Pilot data.'',
         ''Passing benchmark gates only means READY_FOR_CUSTOMER_DATA; it never authorizes APPROVED or ACTIVE.'']
      else []) @ ra_limitations a"

definition receipt_field :: "report_args \<Rightarrow> string \<Rightarrow> json \<Rightarrow> json" where
  "receipt_field a k d = jget_or k d (case ra_dataset_receipt a of None \<Rightarrow> [] | Some r \<Rightarrow> r)"

definition provenance_audit_reason :: "report_args \<Rightarrow> gate_result \<Rightarrow> json" where
  "provenance_audit_reason a g =
     (if gr_decision g = ''NO-GO''
      then JStr (ra_source_type a @ '' business gates failed; candidate remains DRAFT and cannot be approved or activated.'')
      else if ra_source_type a = ''OFFICIAL_BENCHMARK'' \<and> gr_decision g = ''GO''
      then JStr ''Benchmark gates passed; report is READY_FOR_CUSTOMER_DATA and cannot be approved or activated.''
      else if is_customer a \<and> customer_provenance_valid a \<noteq> Some True
      then JStr ''Customer data provenance is incomplete; candidate remains DRAFT and approval is blocked.''
      else JNull)"

text \<open>\<open>source_evidence or {...}\<close>.\<close>

definition source_document :: "report_args \<Rightarrow> dict" where
  "source_document a = (case ra_source_evidence a of
     Some d \<Rightarrow> if d \<noteq> [] then d else
       [(''schema_version'', JStr ''visionqc.pilot-source-evidence.v1''), (''status'', JStr ''NOT_AVAILABLE''), (''files'', JObj [])]
   | None \<Rightarrow>
       [(''schema_version'', JStr ''visionqc.pilot-source-evidence.v1''), (''status'', JStr ''NOT_AVAILABLE''), (''files'', JObj [])])"

definition provenance_document ::
  "'a report_env_scheme \<Rightarrow> report_args \<Rightarrow> string option \<Rightarrow> gate_result \<Rightarrow> dict" where
  "provenance_document env a package_sha g =
     (let blockers = report_blockers a (package_sha \<noteq> None) in
     [(''schema_version'', JStr ''visionqc.pilot-provenance.v1''), (''context_name'', JStr (ra_factory a)),
      (''category'', JStr (ra_category a)), (''source_type'', JStr (ra_source_type a)),
      (''data_status'', JStr (ra_source_type a)), (''dataset_fingerprint'', JOpt (report_fingerprint env a)),
      (''dataset_receipt'', case ra_dataset_receipt a of None \<Rightarrow> JNull | Some r \<Rightarrow> JObj r),
      (''dataset_summary_sha256'', receipt_field a ''dataset_summary_sha256'' JNull),
      (''customer_provenance'', case ra_customer_provenance a of None \<Rightarrow> JNull | Some p \<Rightarrow> customer_data_dump env p),
      (''model_package_sha256'', JOpt package_sha), (''code_commit'', JStr (rep_commit env)),
      (''qualification_run_status'', JStr (run_status_of a blockers)), (''blockers'', texts blockers),
      (''environment'', rep_environment env), (''generated_at'', JStr (rep_now env)),
      (''limitations'', JList (report_limitations a)),
      (''source_evidence_schema'', jget_or ''schema_version'' JNull (source_document a)),
      (''audit_reason'', provenance_audit_reason a g)])"

definition sample_counts :: "report_args \<Rightarrow> json" where
  "sample_counts a = receipt_field a ''counts'' (JObj [(''train_good_images'', JInt 0), (''test_good_images'', JInt 0),
     (''test_anomalous_images'', JInt 0), (''ground_truth_masks'', JInt 0)])"

definition summary_document ::
  "'a report_env_scheme \<Rightarrow> report_args \<Rightarrow> string option \<Rightarrow> gate_result \<Rightarrow> dict" where
  "summary_document env a package_sha g =
     (let blockers = report_blockers a (package_sha \<noteq> None) in
     [(''schema_version'', JStr ''visionqc.pilot-qualification-summary.v1''), (''context_name'', JStr (ra_factory a)),
      (''category'', JStr (ra_category a)), (''qualification_status'', JStr (report_status_of a g)),
      (''gate_decision'', JStr (gr_decision g)), (''source_type'', JStr (ra_source_type a)),
      (''data_status'', JStr (ra_source_type a)),
      (''metric_status'', JStr (if ra_metrics a \<noteq> None then ''AVAILABLE'' else if is_demo a then ''DEMO_ONLY'' else ''MISSING'')),
      (''gate_version'', JStr ''visionqc-pilot-gates.v2''), (''model_package_sha256'', JOpt package_sha),
      (''qualification_run_status'', JStr (run_status_of a blockers)), (''blockers'', texts blockers),
      (''failed_gates'', texts (gr_failed g)), (''sample_counts'', sample_counts a),
      (''generated_at'', JStr (rep_now env)), (''limitations'', JList (report_limitations a))])"

definition metrics_document :: "report_args \<Rightarrow> string option \<Rightarrow> gate_result \<Rightarrow> dict" where
  "metrics_document a package_sha g =
     (let metrics = actual_metrics a (package_sha \<noteq> None) in
     [(''schema_version'', JStr ''visionqc.pilot-metrics.v1''), (''metrics'', JObj metrics),
      (''sample_counts'', sample_counts a),
      (''metric_notes'', JObj [(''unavailable_metrics_are_null'', JBool (ra_metrics a = None)),
        (''reason'', if ra_metrics a = None then jget_or ''unavailable_reason'' JNull metrics else JNull)]),
      (''gates'', gates_dump a (package_sha \<noteq> None) g), (''thresholds'', ra_thresholds a)])"

text \<open>A dict or the document that stands for it: an empty dict counts as absent.\<close>

definition dict_or :: "dict option \<Rightarrow> dict \<Rightarrow> dict" where
  "dict_or d e = (case d of None \<Rightarrow> e | Some kvs \<Rightarrow> if kvs = [] then e else kvs)"

definition intervals_document :: "report_args \<Rightarrow> json" where
  "intervals_document a = (if json_truthy (ra_confidence_intervals a) then ra_confidence_intervals a else JObj
     [(''available'', JBool False), (''resamples'', JInt 0), (''intervals'', JObj []),
      (''reason'', JStr ''No verified benchmark or customer holdout evaluation records are available.''),
      (''unavailable_metrics'', texts [''image_auroc'', ''pixel_auroc'', ''aupro'', ''precision'', ''recall'', ''f1'',
         ''routing_metrics'', ''latency_metrics''])])"

definition split_document :: "report_args \<Rightarrow> dict" where
  "split_document a = (if has_split a then ra_split_document a else
     [(''schema_version'', JStr ''visionqc.protocol-split.v1''), (''status'', JStr ''NOT_AVAILABLE''),
      (''reason'', JStr ''optional dataset source not provided'')])"

definition error_document :: "report_args \<Rightarrow> dict" where
  "error_document a = dict_or (ra_error_cases a)
     [(''schema_version'', JStr ''visionqc.error-cases.v1''), (''cases'', JList []),
      (''note'', JStr ''No cases are asserted without real predictions; populate from a verified holdout evaluation.''),
      (''gallery'', JNull)]"

definition report_decision_reason :: "report_args \<Rightarrow> string list \<Rightarrow> gate_result \<Rightarrow> string" where
  "report_decision_reason a blockers g =
     (let blocked_by = (if blockers \<noteq> [] then '' Blockers: '' @ join_with ''; '' blockers @ ''.'' else []) in
     if gr_decision g = ''NO-GO'' then
       (if is_customer a then ''Customer Pilot business gates failed; integrity-verified candidate must remain DRAFT.''
        else ''Benchmark business gates failed; integrity-verified candidate must remain DRAFT.'') @
       (if gr_failed g \<noteq> [] then '' Failed gates: '' @ join_with '', '' (gr_failed g) @ ''.'' else [])
     else if is_demo a
     then ''DEMO_SYNTHETIC is for workflow demonstration only; no effect claim or approval is allowed.''
     else if ra_source_type a = ''OFFICIAL_BENCHMARK''
     then ''Official benchmark evidence and all mandatory gates are required before Benchmark Qualification. MVTec cannot be approved or activated.'' @ blocked_by
     else ''Customer data provenance and all mandatory gates are required before Pilot approval.'' @ blocked_by)"

definition release_reason :: "report_args \<Rightarrow> string list \<Rightarrow> gate_result \<Rightarrow> string" where
  "release_reason a blockers g =
     (if ra_source_type a = ''OFFICIAL_BENCHMARK'' \<and> gr_decision g = ''GO''
      then ''Official benchmark gates passed; READY_FOR_CUSTOMER_DATA. Customer provenance is still required before Pilot approval.''
      else if is_customer a \<and> gr_decision g = ''GO''
      then ''All configured Customer Pilot gates passed; named approval remains required.''
      else report_decision_reason a blockers g)"

definition release_audit_reason :: "report_args \<Rightarrow> gate_result \<Rightarrow> string" where
  "release_audit_reason a g =
     (if is_customer a \<and> gr_decision g = ''NO-GO'' then ''customer_pilot_business_gate_failure_draft_only''
      else if gr_decision g = ''NO-GO'' then ''benchmark_business_gate_failure_draft_only''
      else if ra_source_type a = ''OFFICIAL_BENCHMARK'' \<and> gr_decision g = ''GO'' then ''benchmark_pass_ready_for_customer_data''
      else if is_customer a then ''customer_pilot_approval_pending_provenance''
      else if is_demo a then ''demo_only''
      else lower (ra_source_type a) @ ''_insufficient_evidence_draft_only'')"

definition release_document ::
  "'a report_env_scheme \<Rightarrow> report_args \<Rightarrow> string option \<Rightarrow> gate_result \<Rightarrow> string \<Rightarrow> dict" where
  "release_document env a package_sha g digest =
     [(''schema_version'', JStr ''visionqc.release-decision.v1''), (''decision'', JStr (report_status_of a g)),
      (''gate_decision'', JStr (gr_decision g)), (''source_type'', JStr (ra_source_type a)),
      (''dataset_fingerprint'', JOpt (report_fingerprint env a)), (''approval_status'', JStr (approval_status_of a g)),
      (''evidence_package_sha256'', JStr digest), (''model_package_sha256'', JOpt package_sha),
      (''gate_version'', JStr ''visionqc-pilot-gates.v2''), (''gates'', gates_dump a (package_sha \<noteq> None) g),
      (''reason'', JStr (release_reason a (report_blockers a (package_sha \<noteq> None)) g)),
      (''audit_reason'', JStr (release_audit_reason a g)), (''generated_at'', JStr (rep_now env))]"

section \<open>Writing\<close>

definition write_file :: "string \<Rightarrow> string \<Rightarrow> (string \<times> string) list \<Rightarrow> (string \<times> string) list" where
  "write_file name contents files = AList.update name contents files"

text \<open>\<open>write_json\<close> orders the keys.\<close>

definition write_document :: "'a report_env_scheme \<Rightarrow> string \<Rightarrow> json \<Rightarrow> (string \<times> string) list \<Rightarrow> (string \<times> string) list" where
  "write_document env name d files = write_file name (pretty env (sort_keys d)) files"

text \<open>The files whose contents the digest covers, in the order they are written.\<close>

definition write_core ::
  "'a report_env_scheme \<Rightarrow> report_args \<Rightarrow> string option \<Rightarrow> gate_result \<Rightarrow> (string \<times> string) list \<Rightarrow> (string \<times> string) list" where
  "write_core env a package_sha g =
     write_file ''evaluation-report.md'' (rep_evaluation_report env) \<circ>
     write_file ''model-card.md'' (rep_model_card env) \<circ>
     write_document env ''source-evidence.json'' (JObj (source_document a)) \<circ>
     write_document env ''error-cases.json'' (JObj (error_document a)) \<circ>
     write_document env ''provenance.json'' (JObj (provenance_document env a package_sha g)) \<circ>
     write_document env ''split-manifest.json'' (JObj (split_document a)) \<circ>
     write_document env ''confidence-intervals.json'' (intervals_document a) \<circ>
     write_document env ''metrics.json'' (JObj (metrics_document a package_sha g)) \<circ>
     write_document env ''qualification-summary.json'' (JObj (summary_document env a package_sha g))"

definition inventory_document :: "ml_env \<Rightarrow> (string \<times> string) list \<Rightarrow> dict" where
  "inventory_document env files = [(''schema_version'', JStr ''visionqc.evidence-manifest.v1''),
     (''files'', JObj (map (\<lambda>(p, f). (p, dump_file f)) (top_level_inventory env files)))]"

definition verified_package :: "ml_env \<Rightarrow> report_args \<Rightarrow> ml_exn + string option" where
  "verified_package env a = (case ra_model_package a of None \<Rightarrow> Inr None
     | Some dir \<Rightarrow> andThen (verify_model_package env dir (Some (ra_category a))) (\<lambda>m. Inr (Some (mp_package_sha256 m))))"

record report_result =
  rr_decision :: string
  rr_evidence_package_sha256 :: string
  rr_model_package_sha256 :: "string option"

text \<open>\<open>existing\<close> are the files already in the output directory; a file of the same name is overwritten.\<close>

definition write_qualification_package ::
  "'a report_env_scheme \<Rightarrow> report_args \<Rightarrow> (string \<times> string) list \<Rightarrow> ml_exn + (string \<times> string) list \<times> report_result" where
  "write_qualification_package env a existing =
     (let base = ml_env.truncate env in
     andThen (ml_check (ra_source_type a \<in> set SOURCE_TYPES) ''ValueError'' ''not a valid DatasetSourceType'') (\<lambda>_.
     andThen (ml_check (case ra_customer_provenance a of None \<Rightarrow> True | Some p \<Rightarrow> customer_data_valid p)
       ''ValidationError'' ''CustomerDataProvenance'') (\<lambda>_.
     andThen (verified_package base a) (\<lambda>package_sha.
     andThen (ml_check (is_demo a \<and> ra_dataset_fingerprint a = None \<longrightarrow> len_between 1 128 (ra_category a))
       ''ValidationError'' ''DatasetSource'') (\<lambda>_.
     andThen (report_gates a (package_sha \<noteq> None)) (\<lambda>g.
       let core = write_core env a package_sha g existing;
           digest = ml_core_digest base core;
           released = write_document env ''release-decision.json'' (JObj (release_document env a package_sha g digest)) core;
           files = write_document env ''evidence-manifest.json'' (JObj (inventory_document base released)) released
       in Inr (files, \<lparr>rr_decision = report_status_of a g, rr_evidence_package_sha256 = digest,
            rr_model_package_sha256 = package_sha\<rparr>)))))))"

end
