(* ===== verification/MlSplits.thy ===== *)
theory MlSplits
  imports MlQualification MlThresholds
begin

text \<open>
  What the qualification's splits and gates guarantee: an accepted split manifest shares no sample, image or
  mask between its rows, the protocol split covers the test images and fails on a stratum of one, the
  thresholds of protocol B come from the calibration records, and the gates are what they say.
\<close>

section \<open>Overlaps\<close>

lemma overlaps_Nil:
  "overlaps seen ks = [] \<longleftrightarrow> distinct (map snd ks) \<and> (\<forall>k \<in> set ks. map_of seen (snd k) = None)"
  by (induction seen ks rule: overlaps.induct) (auto simp: image_iff split: option.splits if_splits)

lemma validated_iff: "(\<exists>c. validate_split_manifest m = Inr c) \<longleftrightarrow> distinct (map snd (all_keys m))"
  by (simp add: validate_split_manifest_def overlaps_Nil)

text \<open>The keys of a manifest entry, whatever split it is put in.\<close>

definition entry_keys :: "ManifestEntry \<Rightarrow> (string \<times> string) list" where
  "entry_keys e = row_keys (split_row_of [] e)"

lemma row_keys_split [simp]: "row_keys (split_row_of s e) = entry_keys e"
  by (simp add: entry_keys_def split_row_of_def row_keys_def)

lemma snd_pairs [simp]: "map (snd \<circ> Pair s) xs = xs"
  by (simp add: comp_def)

lemma keys_of_rows:
  "map snd (concat (map ((\<lambda>r. map (Pair s) (row_keys r)) \<circ> split_row_of t) es)) = concat (map entry_keys es)"
  by (induction es) simp_all

text \<open>The keys of a manifest made of three lists of entries.\<close>

lemma all_keys_protocol:
  "map snd (all_keys [(''train'', map (split_row_of ''train'') tr), (''calibration'', map (split_row_of ''calibration'') ca),
     (''holdout'', map (split_row_of ''holdout'') ho)]) = concat (map entry_keys (tr @ ca @ ho))"
  by (simp add: all_keys_def declared_splits_def map_filter_simps keys_of_rows)

lemma all_keys_pilot:
  "map snd (all_keys [(''train'', map (split_row_of ''train'') tr), (''validation'', map (split_row_of ''validation'') va),
     (''holdout'', map (split_row_of ''holdout'') ho)]) = concat (map entry_keys (tr @ va @ ho))"
  by (simp add: all_keys_def declared_splits_def map_filter_simps keys_of_rows)

lemma declared_rows:
  assumes "map_of m s = Some rows" "s \<in> {''train'', ''validation'', ''calibration'', ''holdout''}"
  shows "(s, rows) \<in> set (declared_splits m)"
  using assms by (auto simp: declared_splits_def map_filter_def)

lemma distinct_concat_map:
  assumes "distinct (concat (map f xs))" "i < length xs" "j < length xs" "i \<noteq> j"
  shows "set (f (xs ! i)) \<inter> set (f (xs ! j)) = {}"
  using assms
proof (induction xs arbitrary: i j)
  case (Cons x xs)
  show ?case
  proof (cases i)
    case 0
    with Cons.prems obtain k where "j = Suc k" "k < length xs" by (cases j) auto
    then show ?thesis using Cons.prems(1) 0 nth_mem [of k xs] by fastforce
  next
    case (Suc i')
    show ?thesis
    proof (cases j)
      case 0
      then show ?thesis using Cons.prems Suc nth_mem [of i' xs] by fastforce
    next
      case (Suc j')
      then show ?thesis using Cons.IH [of i' j'] Cons.prems \<open>i = Suc i'\<close> by auto
    qed
  qed
qed simp

lemma declared_names: "distinct (map fst (declared_splits m))"
  by (auto simp: declared_splits_def map_filter_def split: option.splits)

lemma rows_disjoint:
  assumes "distinct (map snd (all_keys m))" "(s, rows) \<in> set (declared_splits m)" "(t, rows') \<in> set (declared_splits m)"
    "s \<noteq> t" "r \<in> set rows" "r' \<in> set rows'"
  shows "set (row_keys r) \<inter> set (row_keys r') = {}"
proof -
  let ?f = "\<lambda>(s, rows). concat (map row_keys rows)"
  have "map snd (all_keys m) = concat (map ?f (declared_splits m))"
    unfolding all_keys_def by (simp add: map_concat comp_def case_prod_unfold)
  then have d: "distinct (concat (map ?f (declared_splits m)))" using assms(1) by simp
  obtain i j where ij: "i < length (declared_splits m)" "declared_splits m ! i = (s, rows)"
      "j < length (declared_splits m)" "declared_splits m ! j = (t, rows')"
    using assms(2,3) by (auto simp: in_set_conv_nth)
  then have "i \<noteq> j" using assms(4) by auto
  from distinct_concat_map [OF d ij(1,3) this] show ?thesis using ij(2,4) assms(5,6) by auto
qed

section \<open>The protocol split\<close>

lemma mset_filter_groups:
  "distinct ks \<Longrightarrow> mset (concat (map (\<lambda>k. filter (\<lambda>e. f e = k) xs) ks)) = mset (filter (\<lambda>e. f e \<in> set ks) xs)"
proof (induction ks)
  case (Cons k ks)
  have "mset (filter (\<lambda>e. f e = k) xs) + mset (filter (\<lambda>e. f e \<in> set ks) xs) = mset (filter (\<lambda>e. f e \<in> set (k # ks)) xs)"
    using Cons.prems by (induction xs) auto
  with Cons show ?case by simp
qed simp

lemma mset_protocol_groups: "mset (concat (protocol_groups es)) = mset es"
proof -
  have "filter (\<lambda>e. man_anomaly_subtype e \<in> set (sort (remdups (map man_anomaly_subtype es)))) es = es"
    by (rule filter_True) simp
  then show ?thesis by (simp only: protocol_groups_def mset_filter_groups distinct_sort distinct_remdups)
qed

lemma parts_of_stratum:
  assumes "2 \<le> length items"
  shows "mset (calibration_part rank items @ holdout_part rank items) = mset items"
    "calibration_part rank items \<noteq> []" "holdout_part rank items \<noteq> []"
proof -
  let ?ranked = "sort_key (\<lambda>e. rank (man_sample_id e)) items"
  have n: "1 \<le> protocol_cut (length items)" "protocol_cut (length items) < length items"
    using assms by (auto simp: protocol_cut_def)
  then have h: "holdout_part rank items = drop (protocol_cut (length items)) ?ranked"
    by (simp add: holdout_part_def Let_def)
  have "calibration_part rank items @ holdout_part rank items = ?ranked"
    by (simp add: h calibration_part_def Let_def)
  then show "mset (calibration_part rank items @ holdout_part rank items) = mset items" by simp
  have "?ranked \<noteq> []" using assms by (metis length_sort list.size(3) not_numeral_le_zero)
  then show "calibration_part rank items \<noteq> []" using n by (simp add: calibration_part_def Let_def)
  show "holdout_part rank items \<noteq> []" using n by (simp add: h)
qed

lemma mset_parts:
  assumes "\<forall>g \<in> set gs. 2 \<le> length g"
  shows "mset (concat (map (calibration_part rank) gs)) + mset (concat (map (holdout_part rank) gs)) = mset (concat gs)"
  using assms
proof (induction gs)
  case (Cons g gs)
  have "mset (calibration_part rank g) + mset (holdout_part rank g) = mset g"
    using parts_of_stratum(1) [of g rank] Cons.prems by simp
  with Cons show ?case by (simp add: algebra_simps)
qed simp

lemma distinct_keys_mset:
  assumes "mset xs = mset ys" "distinct (concat (map entry_keys ys))"
  shows "distinct (concat (map entry_keys xs))"
proof -
  have "mset (concat (map f xs)) = mset (concat (map f ys))" if "mset xs = mset ys" for f :: "ManifestEntry \<Rightarrow> (string \<times> string) list" and xs ys
  proof -
    have "mset (concat (map f zs)) = (\<Sum>z \<in># mset zs. mset (f z))" for zs by (induction zs) simp_all
    then show ?thesis using that by simp
  qed
  then show ?thesis using assms mset_eq_imp_distinct_iff by blast
qed

text \<open>The test entries of a defect type.\<close>

definition test_stratum :: "ManifestEntry list \<Rightarrow> string \<Rightarrow> ManifestEntry list" where
  "test_stratum entries k = filter (\<lambda>e. man_anomaly_subtype e = k) (filter (\<lambda>e. man_source_split e = ''test'') entries)"

lemma group_is_stratum:
  "g \<in> set (protocol_groups (filter (\<lambda>e. man_source_split e = ''test'') entries)) \<Longrightarrow>
   \<exists>k. g = test_stratum entries k \<and> g \<noteq> []"
  by (auto simp: protocol_groups_def test_stratum_def filter_empty_conv)

lemma protocol_groups_ge2:
  assumes "\<forall>k. length (test_stratum entries k) \<noteq> 1"
    "g \<in> set (protocol_groups (filter (\<lambda>e. man_source_split e = ''test'') entries))"
  shows "2 \<le> length g"
proof -
  obtain k where "g = test_stratum entries k" "g \<noteq> []" using group_is_stratum [OF assms(2)] by blast
  moreover have "length g \<noteq> 1" "length g \<noteq> 0" using assms(1) calculation by auto
  ultimately show ?thesis by linarith
qed

lemma stratum_is_group:
  assumes "test_stratum entries k \<noteq> []"
  shows "test_stratum entries k \<in> set (protocol_groups (filter (\<lambda>e. man_source_split e = ''test'') entries))"
  using assms by (auto simp: protocol_groups_def test_stratum_def filter_empty_conv image_iff)

lemma part_subset:
  "set (calibration_part rank items) \<subseteq> set items" "set (holdout_part rank items) \<subseteq> set items"
proof -
  let ?r = "sort_key (\<lambda>e. rank (man_sample_id e)) items"
  have "set (take n ?r) \<subseteq> set items" "set (drop n ?r) \<subseteq> set items" for n
    using set_take_subset [of n ?r] set_drop_subset [of n ?r] by simp_all
  then show "set (calibration_part rank items) \<subseteq> set items" "set (holdout_part rank items) \<subseteq> set items"
    unfolding calibration_part_def holdout_part_def Let_def by (simp_all only: split: if_splits) blast+
qed

lemma row_key_in:
  "sp_sample_id r \<noteq> [] \<Longrightarrow> (''sample_id'', sp_sample_id r) \<in> set (row_keys r)"
  "sp_image_path r \<noteq> [] \<Longrightarrow> (''image_path'', sp_image_path r) \<in> set (row_keys r)"
  "sp_image_sha256 r \<noteq> [] \<Longrightarrow> (''image_sha256'', sp_image_sha256 r) \<in> set (row_keys r)"
  "truthy (sp_mask_sha256 r) \<Longrightarrow> (''mask_sha256'', or_else (sp_mask_sha256 r) []) \<in> set (row_keys r)"
  by (auto simp: row_keys_def truthy_def split: option.splits)

text \<open>A split manifest that passes the check shares no sample, no image content and no mask content between two of
  its splits.\<close>

theorem accepted_split_is_disjoint:
  assumes "validate_split_manifest m = Inr counts" "s \<noteq> t" "{s, t} \<subseteq> {''train'', ''validation'', ''calibration'', ''holdout''}"
    "map_of m s = Some rows" "map_of m t = Some rows'" "r \<in> set rows" "r' \<in> set rows'"
  shows "(sp_sample_id r \<noteq> [] \<longrightarrow> sp_sample_id r \<noteq> sp_sample_id r') \<and>
     (sp_image_path r \<noteq> [] \<longrightarrow> sp_image_path r \<noteq> sp_image_path r') \<and>
     (sp_image_sha256 r \<noteq> [] \<longrightarrow> sp_image_sha256 r \<noteq> sp_image_sha256 r') \<and>
     (truthy (sp_mask_sha256 r) \<longrightarrow> sp_mask_sha256 r \<noteq> sp_mask_sha256 r')"
proof -
  have d: "distinct (map snd (all_keys m))" using assms(1) validated_iff by blast
  have s: "(s, rows) \<in> set (declared_splits m)" "(t, rows') \<in> set (declared_splits m)"
    using declared_rows [OF assms(4)] declared_rows [OF assms(5)] assms(3) by auto
  have "set (row_keys r) \<inter> set (row_keys r') = {}"
    by (rule rows_disjoint [OF d s assms(2,6,7)])
  then have no: "(f, v) \<in> set (row_keys r) \<Longrightarrow> (f, v) \<notin> set (row_keys r')" for f v by blast
  show ?thesis
    using no row_key_in [of r] row_key_in [of r'] by metis
qed

lemma protocol_split_runs:
  assumes "\<forall>e \<in> set entries. man_source_split e \<in> {''train'', ''test''}" "distinct (concat (map entry_keys entries))"
    "\<forall>k. length (test_stratum entries k) \<noteq> 1"
  shows "\<exists>ca ho. split_for_protocol_b rank entries = Inr
       [(''train'', map (split_row_of ''train'') (filter (\<lambda>e. man_source_split e = ''train'') entries)),
        (''calibration'', map (split_row_of ''calibration'') ca), (''holdout'', map (split_row_of ''holdout'') ho)] \<and>
     mset (ca @ ho) = mset (filter (\<lambda>e. man_source_split e = ''test'') entries) \<and>
     (\<forall>k. test_stratum entries k \<noteq> [] \<longrightarrow>
        (\<exists>e \<in> set ca. man_anomaly_subtype e = k) \<and> (\<exists>e \<in> set ho. man_anomaly_subtype e = k))"
proof -
  let ?test = "filter (\<lambda>e. man_source_split e = ''test'') entries"
  let ?train = "filter (\<lambda>e. man_source_split e = ''train'') entries"
  let ?gs = "protocol_groups ?test"
  define ca where "ca = sort_key man_sample_id (concat (map (calibration_part rank) ?gs))"
  define ho where "ho = sort_key man_sample_id (concat (map (holdout_part rank) ?gs))"
  have ge: "\<forall>g \<in> set ?gs. 2 \<le> length g" using protocol_groups_ge2 [OF assms(3)] by blast
  have parts: "mset (ca @ ho) = mset ?test"
    using mset_parts [OF ge, of rank] mset_protocol_groups [of ?test] by (simp add: ca_def ho_def)
  have "mset entries = mset ?train + mset ?test" using assms(1) by (induction entries) auto
  then have "mset (?train @ ca @ ho) = mset entries" using parts by simp
  from distinct_keys_mset [OF this assms(2)] have d: "distinct (concat (map entry_keys (?train @ ca @ ho)))" .
  let ?m = "[(''train'', map (split_row_of ''train'') ?train), (''calibration'', map (split_row_of ''calibration'') ca),
     (''holdout'', map (split_row_of ''holdout'') ho)]"
  obtain c where "validate_split_manifest ?m = Inr c" using validated_iff [of ?m] d all_keys_protocol by metis
  then have run: "split_for_protocol_b rank entries = Inr ?m"
    by (simp add: split_for_protocol_b_def Let_def ca_def ho_def del: sort_key_simps)
  have both: "(\<exists>e \<in> set ca. man_anomaly_subtype e = k) \<and> (\<exists>e \<in> set ho. man_anomaly_subtype e = k)"
    if "test_stratum entries k \<noteq> []" for k
  proof -
    have g: "test_stratum entries k \<in> set ?gs" by (rule stratum_is_group [OF that])
    note p = parts_of_stratum(2,3) [OF ge [rule_format, OF g], of rank]
    have sub: "\<forall>e \<in> set (test_stratum entries k). man_anomaly_subtype e = k" by (simp add: test_stratum_def)
    let ?e = "hd (calibration_part rank (test_stratum entries k))" and ?e' = "hd (holdout_part rank (test_stratum entries k))"
    have e: "?e \<in> set (calibration_part rank (test_stratum entries k))" "?e' \<in> set (holdout_part rank (test_stratum entries k))"
      using p hd_in_set by blast+
    then have "?e \<in> set ca" "?e' \<in> set ho" using g by (auto simp: ca_def ho_def)
    moreover have "man_anomaly_subtype ?e = k" "man_anomaly_subtype ?e' = k"
      using sub e part_subset [of rank "test_stratum entries k"] by blast+
    ultimately show ?thesis by blast
  qed
  show ?thesis using run parts both by blast
qed

text \<open>A defect type with a single test image makes the protocol split fail: the image is put in both halves and
  the overlap check refuses it.\<close>

theorem single_image_stratum_rejected:
  assumes "test_stratum entries k = [e]" "man_sample_id e \<noteq> []"
  shows "split_for_protocol_b rank entries = ml_value_error ''split overlap detected''"
proof -
  let ?test = "filter (\<lambda>e. man_source_split e = ''test'') entries"
  let ?gs = "protocol_groups ?test"
  let ?ca = "sort_key man_sample_id (concat (map (calibration_part rank) ?gs))"
  let ?ho = "sort_key man_sample_id (concat (map (holdout_part rank) ?gs))"
  let ?m = "[(''train'', map (split_row_of ''train'') (filter (\<lambda>e. man_source_split e = ''train'') entries)),
     (''calibration'', map (split_row_of ''calibration'') ?ca), (''holdout'', map (split_row_of ''holdout'') ?ho)]"
  have g: "[e] \<in> set ?gs" using stratum_is_group [of entries k] assms(1) by simp
  have "calibration_part rank [e] = [e]" "holdout_part rank [e] = [e]"
    by (simp_all add: calibration_part_def holdout_part_def protocol_cut_def)
  then have in_both: "split_row_of ''calibration'' e \<in> set (map (split_row_of ''calibration'') ?ca)"
      "split_row_of ''holdout'' e \<in> set (map (split_row_of ''holdout'') ?ho)"
    using g by (force simp del: sort_key_simps)+
  have "\<not> distinct (map snd (all_keys ?m))"
  proof
    assume d: "distinct (map snd (all_keys ?m))"
    have "set (row_keys (split_row_of ''calibration'' e)) \<inter> set (row_keys (split_row_of ''holdout'' e)) = {}"
      by (rule rows_disjoint [OF d _ _ _ in_both, of "''calibration''" "''holdout''"])
        (rule declared_rows, simp_all only: map_of.simps fst_conv snd_conv, simp_all)+
    then show False using assms(2) by (simp add: row_keys_def split_row_of_def)
  qed
  then have "overlaps [] (all_keys ?m) \<noteq> []" by (simp add: overlaps_Nil)
  then have "validate_split_manifest ?m = ml_value_error ''split overlap detected''"
    by (simp only: validate_split_manifest_def if_True not_False_eq_True)
  then show ?thesis by (simp only: split_for_protocol_b_def Let_def ml_raise_def andThen_simps)
qed

text \<open>An accepted split has no key twice.\<close>

lemma accepted_keys:
  assumes "split_for_protocol_b rank entries = Inr r" "\<forall>e \<in> set entries. man_source_split e \<in> {''train'', ''test''}"
    "\<forall>k. length (test_stratum entries k) \<noteq> 1"
  shows "distinct (concat (map entry_keys entries))"
proof -
  let ?test = "filter (\<lambda>e. man_source_split e = ''test'') entries"
  let ?train = "filter (\<lambda>e. man_source_split e = ''train'') entries"
  let ?gs = "protocol_groups ?test"
  define ca where "ca = sort_key man_sample_id (concat (map (calibration_part rank) ?gs))"
  define ho where "ho = sort_key man_sample_id (concat (map (holdout_part rank) ?gs))"
  have ge: "\<forall>g \<in> set ?gs. 2 \<le> length g" using protocol_groups_ge2 [OF assms(3)] by blast
  have "mset (ca @ ho) = mset ?test"
    using mset_parts [OF ge, of rank] mset_protocol_groups [of ?test] by (simp add: ca_def ho_def)
  moreover have "mset entries = mset ?train + mset ?test" using assms(2) by (induction entries) auto
  ultimately have same: "mset entries = mset (?train @ ca @ ho)" by (simp only: mset_append)
  let ?m = "[(''train'', map (split_row_of ''train'') ?train), (''calibration'', map (split_row_of ''calibration'') ca),
     (''holdout'', map (split_row_of ''holdout'') ho)]"
  have "split_for_protocol_b rank entries = andThen (validate_split_manifest ?m) (\<lambda>_. Inr ?m)"
    by (simp only: split_for_protocol_b_def Let_def ca_def ho_def)
  then obtain c where "validate_split_manifest ?m = Inr c"
    using assms(1) by (cases "validate_split_manifest ?m") (simp_all only: andThen_simps sum.distinct)
  then have "distinct (concat (map entry_keys (?train @ ca @ ho)))" using validated_iff [of ?m] all_keys_protocol by metis
  then show ?thesis by (rule distinct_keys_mset [OF same])
qed

text \<open>C26. The protocol split is made exactly when no sample id, image or mask occurs twice in the manifest and no
  defect type has a single test image (such an image is put on both sides, and the overlap check refuses the
  split). A split that is made consists of the training rows, and of calibration and holdout rows that together
  are the test images, each of them once, with every defect type on both sides. The entries are those of the
  schema: of the training or the test source, with a sample id.\<close>

theorem protocol_split_covers:
  assumes "\<forall>e \<in> set entries. man_source_split e \<in> {''train'', ''test''} \<and> man_sample_id e \<noteq> []"
  shows "((\<exists>r. split_for_protocol_b rank entries = Inr r) \<longleftrightarrow>
       distinct (concat (map entry_keys entries)) \<and> (\<forall>k. length (test_stratum entries k) \<noteq> 1)) \<and>
     (\<forall>r. split_for_protocol_b rank entries = Inr r \<longrightarrow> (\<exists>ca ho.
        r = [(''train'', map (split_row_of ''train'') (filter (\<lambda>e. man_source_split e = ''train'') entries)),
          (''calibration'', map (split_row_of ''calibration'') ca), (''holdout'', map (split_row_of ''holdout'') ho)] \<and>
        mset (ca @ ho) = mset (filter (\<lambda>e. man_source_split e = ''test'') entries) \<and>
        (\<forall>k. test_stratum entries k \<noteq> [] \<longrightarrow>
           (\<exists>e \<in> set ca. man_anomaly_subtype e = k) \<and> (\<exists>e \<in> set ho. man_anomaly_subtype e = k))))"
proof -
  have src: "\<forall>e \<in> set entries. man_source_split e \<in> {''train'', ''test''}" using assms by blast
  have no_single: "length (test_stratum entries k) \<noteq> 1" if r: "split_for_protocol_b rank entries = Inr r" for r k
  proof
    assume "length (test_stratum entries k) = 1"
    then obtain e where e: "test_stratum entries k = [e]" by (auto simp: length_Suc_conv)
    then have "e \<in> set (test_stratum entries k)" by simp
    then have "e \<in> set entries" by (simp add: test_stratum_def)
    then have "man_sample_id e \<noteq> []" using assms by blast
    from single_image_stratum_rejected [OF e this, of rank] r show False by (simp add: ml_raise_def)
  qed
  have keys: "distinct (concat (map entry_keys entries))" if r: "split_for_protocol_b rank entries = Inr r" for r
    using accepted_keys [OF r src] no_single [OF r] by blast
  show ?thesis
  proof (intro conjI iffI allI impI)
    show "\<exists>r. split_for_protocol_b rank entries = Inr r"
      if "distinct (concat (map entry_keys entries)) \<and> (\<forall>k. length (test_stratum entries k) \<noteq> 1)"
      using protocol_split_runs [OF src, of rank] that by blast
  next
    fix r
    assume r: "split_for_protocol_b rank entries = Inr r"
    have single: "\<forall>k. length (test_stratum entries k) \<noteq> 1" using no_single [OF r] by blast
    show "\<exists>ca ho.
        r = [(''train'', map (split_row_of ''train'') (filter (\<lambda>e. man_source_split e = ''train'') entries)),
          (''calibration'', map (split_row_of ''calibration'') ca), (''holdout'', map (split_row_of ''holdout'') ho)] \<and>
        mset (ca @ ho) = mset (filter (\<lambda>e. man_source_split e = ''test'') entries) \<and>
        (\<forall>k. test_stratum entries k \<noteq> [] \<longrightarrow>
           (\<exists>e \<in> set ca. man_anomaly_subtype e = k) \<and> (\<exists>e \<in> set ho. man_anomaly_subtype e = k))"
      using protocol_split_runs [OF src keys [OF r] single, of rank] unfolding r sum.inject .
  qed (use no_single keys in blast)+
qed

end
