(* ===== verification/MlGates.thy ===== *)
theory MlGates
  imports MlSplits
begin

text \<open>
  The pilot gates and protocol B: when the decision is GO, who may be approved, what the thresholds of the
  protocol are taken from, and the examples of the witnesses.
\<close>

section \<open>Decisions\<close>

lemma gate_checks_names: "gate_checks v st gates = Inr checks \<Longrightarrow> map fst checks = map fst gates"
  by (induction v st gates arbitrary: checks rule: gate_checks.induct) auto

definition gate_met :: "gate_operator \<Rightarrow> rat \<Rightarrow> json \<Rightarrow> bool" where
  "gate_met operator threshold v = (case json_number v of None \<Rightarrow> False
     | Some x \<Rightarrow> (case operator of GateGe \<Rightarrow> x \<ge> threshold | GateLe \<Rightarrow> x \<le> threshold | GateEq \<Rightarrow> x = threshold))"

lemma gate_pass_iff: "gate_status_of operator threshold v = Inr s \<Longrightarrow> s = GATE_PASS \<longleftrightarrow> gate_met operator threshold v"
  by (auto simp: gate_status_of_def gate_met_def json_number_def split: if_splits gate_operator.splits option.splits json.splits)

lemma gate_not_na: "gate_status_of operator threshold v = Inr s \<Longrightarrow> s \<noteq> GATE_NOT_APPLICABLE"
  by (auto simp: gate_status_of_def split: if_splits gate_operator.splits option.splits)

text \<open>A gate that applies is passed.\<close>

definition passes :: "(string \<Rightarrow> json) \<Rightarrow> string \<Rightarrow> string \<times> gate_operator \<times> rat \<Rightarrow> bool" where
  "passes v st g = (case g of (name, operator, threshold) \<Rightarrow>
     name = ''customer_data_provenance'' \<and> st \<noteq> ''CUSTOMER_PILOT'' \<or> gate_met operator threshold (v name))"

lemma gate_checks_ok:
  assumes "gate_checks v st gates = Inr checks"
  shows "(\<forall>c \<in> set checks. snd c \<noteq> GATE_INSUFFICIENT_EVIDENCE \<and> snd c \<noteq> GATE_FAIL) \<longleftrightarrow> (\<forall>g \<in> set gates. passes v st g)"
  using assms
proof (induction v st gates arbitrary: checks rule: gate_checks.induct)
  case (1 v st)
  then show ?case by simp
next
  case (2 v st name operator threshold rest)
  from "2.prems" obtain s cs where s: "(if name = ''customer_data_provenance'' \<and> st \<noteq> ''CUSTOMER_PILOT''
        then Inr GATE_NOT_APPLICABLE else gate_status_of operator threshold (v name)) = Inr s"
    and cs: "gate_checks v st rest = Inr cs" and c: "checks = (name, s) # cs"
    by auto
  have "s \<noteq> GATE_INSUFFICIENT_EVIDENCE \<and> s \<noteq> GATE_FAIL \<longleftrightarrow> passes v st (name, operator, threshold)"
    using s gate_pass_iff [of operator threshold "v name" s] gate_not_na [of operator threshold "v name" s]
    by (cases s) (auto simp: passes_def split: if_splits)
  then show ?case using "2.IH" [OF cs] c by auto
qed

lemma gates_Inr:
  assumes "evaluate_pilot_gates metrics pv nl ec st cv = Inr g"
  shows "(gr_decision g = ''GO'' \<longleftrightarrow> ec \<and> (\<forall>x \<in> set PILOT_GATES. passes (gate_value metrics pv nl cv) st x)) \<and>
     (gr_approval_eligible g \<longleftrightarrow> st = ''CUSTOMER_PILOT'' \<and> gr_decision g = ''GO'' \<and> cv = Some True)"
proof -
  obtain checks where c: "gate_checks (gate_value metrics pv nl cv) st PILOT_GATES = Inr checks"
    using assms by (auto simp: evaluate_pilot_gates_def)
  have f: "(filter (\<lambda>(n, s). s = GATE_INSUFFICIENT_EVIDENCE) checks = [] \<and> filter (\<lambda>(n, s). s = GATE_FAIL) checks = []) \<longleftrightarrow>
      (\<forall>x \<in> set PILOT_GATES. passes (gate_value metrics pv nl cv) st x)"
    unfolding gate_checks_ok [OF c, symmetric] by (auto simp: filter_empty_conv)
  have "gr_decision g = ''GO'' \<longleftrightarrow> ec \<and> filter (\<lambda>(n, s). s = GATE_INSUFFICIENT_EVIDENCE) checks = [] \<and>
      filter (\<lambda>(n, s). s = GATE_FAIL) checks = []"
    "gr_approval_eligible g \<longleftrightarrow> st = ''CUSTOMER_PILOT'' \<and> gr_decision g = ''GO'' \<and> cv = Some True"
    using assms unfolding evaluate_pilot_gates_def c by (auto simp: Let_def split: if_splits)
  then show ?thesis using f by blast
qed

lemma json_number_bool [simp]: "json_number (JBool b) = Some (if b then 1 else 0)"
  and json_number_null [simp]: "json_number JNull = None"
  by (simp_all add: json_number_def)

text \<open>What each gate of the list comes to.\<close>

lemma metric_gates:
  "passes (gate_value metrics pv nl cv) st (''image_auroc'', op, t) = gate_met op t (jget_or ''image_auroc'' JNull metrics)"
  "passes (gate_value metrics pv nl cv) st (''defect_error_auto_release_rate'', op, t) =
     gate_met op t (jget_or ''defect_error_auto_release_rate'' JNull metrics)"
  "passes (gate_value metrics pv nl cv) st (''review_hold_recall'', op, t) =
     gate_met op t (jget_or ''review_hold_recall'' JNull metrics)"
  "passes (gate_value metrics pv nl cv) st (''hold_recall'', op, t) = gate_met op t (jget_or ''hold_recall'' JNull metrics)"
  "passes (gate_value metrics pv nl cv) st (''normal_review_hold_rate'', op, t) =
     gate_met op t (jget_or ''normal_review_hold_rate'' JNull metrics)"
  "passes (gate_value metrics pv nl cv) st (''warm_p95_ms'', op, t) = gate_met op t (jget_or ''warm_p95_ms'' JNull metrics)"
  by (simp_all add: passes_def gate_value_def)

lemma flag_gates:
  "passes (gate_value metrics pv nl cv) st (''no_split_leakage'', op, t) = gate_met op t (JBool nl)"
  "passes (gate_value metrics pv nl cv) st (''model_package_integrity'', op, t) = gate_met op t (JBool pv)"
  "passes (gate_value metrics pv nl cv) st (''customer_data_provenance'', op, t) =
     (st = ''CUSTOMER_PILOT'' \<longrightarrow> gate_met op t (jbool_opt cv))"
  by (auto simp: passes_def gate_value_def)

lemma gates_decision:
  assumes "evaluate_pilot_gates metrics package_verified no_leak evidence_complete source_type customer_valid = Inr g"
  shows "(gr_decision g = ''GO'' \<longleftrightarrow> evidence_complete \<and> package_verified \<and> no_leak \<and>
       gate_met GateGe (90/100) (jget_or ''image_auroc'' JNull metrics) \<and>
       gate_met GateLe (5/100) (jget_or ''defect_error_auto_release_rate'' JNull metrics) \<and>
       gate_met GateGe (95/100) (jget_or ''review_hold_recall'' JNull metrics) \<and>
       gate_met GateGe (80/100) (jget_or ''hold_recall'' JNull metrics) \<and>
       gate_met GateLe (25/100) (jget_or ''normal_review_hold_rate'' JNull metrics) \<and>
       gate_met GateLe 500 (jget_or ''warm_p95_ms'' JNull metrics) \<and>
       (source_type = ''CUSTOMER_PILOT'' \<longrightarrow> customer_valid = Some True)) \<and>
     (gr_approval_eligible g \<longleftrightarrow> source_type = ''CUSTOMER_PILOT'' \<and> gr_decision g = ''GO'')"
proof -
  have eq: "gate_met GateEq 1 (JBool b) \<longleftrightarrow> b" "gate_met GateEq 1 (jbool_opt c) \<longleftrightarrow> c = Some True" for b c
    by (auto simp: gate_met_def jbool_opt_def split: option.splits)
  have "(\<forall>x \<in> set PILOT_GATES. passes (gate_value metrics package_verified no_leak customer_valid) source_type x) \<longleftrightarrow>
       gate_met GateGe (90/100) (jget_or ''image_auroc'' JNull metrics) \<and>
       gate_met GateLe (5/100) (jget_or ''defect_error_auto_release_rate'' JNull metrics) \<and>
       gate_met GateGe (95/100) (jget_or ''review_hold_recall'' JNull metrics) \<and>
       gate_met GateGe (80/100) (jget_or ''hold_recall'' JNull metrics) \<and>
       gate_met GateLe (25/100) (jget_or ''normal_review_hold_rate'' JNull metrics) \<and>
       gate_met GateLe 500 (jget_or ''warm_p95_ms'' JNull metrics) \<and>
       no_leak \<and> package_verified \<and> (source_type = ''CUSTOMER_PILOT'' \<longrightarrow> customer_valid = Some True)"
    unfolding PILOT_GATES_def list.set ball_simps metric_gates flag_gates eq by blast
  then show ?thesis using gates_Inr [OF assms] by auto
qed

text \<open>The gate decision is GO exactly when the evidence is complete and every metric is there and keeps its bound,
  no split leaks and the package verifies; and only consented customer data make it eligible for approval.\<close>

theorem gates_decide:
  assumes "evaluate_pilot_gates metrics package_verified no_leak evidence_complete source_type customer_valid = Inr g"
  shows "(gr_decision g = ''GO'' \<longleftrightarrow> evidence_complete \<and> package_verified \<and> no_leak \<and>
       gate_met GateGe (90/100) (jget_or ''image_auroc'' JNull metrics) \<and>
       gate_met GateLe (5/100) (jget_or ''defect_error_auto_release_rate'' JNull metrics) \<and>
       gate_met GateGe (95/100) (jget_or ''review_hold_recall'' JNull metrics) \<and>
       gate_met GateGe (80/100) (jget_or ''hold_recall'' JNull metrics) \<and>
       gate_met GateLe (25/100) (jget_or ''normal_review_hold_rate'' JNull metrics) \<and>
       gate_met GateLe 500 (jget_or ''warm_p95_ms'' JNull metrics) \<and>
       (source_type = ''CUSTOMER_PILOT'' \<longrightarrow> customer_valid = Some True)) \<and>
     (gr_approval_eligible g \<longleftrightarrow> source_type = ''CUSTOMER_PILOT'' \<and> gr_decision g = ''GO'')"
  by (rule gates_decision [OF assms])

section \<open>Protocol B\<close>

lemma mean_of_complement:
  assumes "xs \<noteq> []"
  shows "mean_of P xs + mean_of (\<lambda>x. \<not> P x) xs = 1"
proof -
  have "count_where P xs + count_where (\<lambda>x. \<not> P x) xs = length xs"
    using sum_length_filter_compl [of P xs] by (simp add: count_where_def)
  then have "(of_nat (count_where P xs) + of_nat (count_where (\<lambda>x. \<not> P x) xs) :: rat) = of_nat (length xs)"
    by (metis of_nat_add)
  then show ?thesis using assms by (simp add: mean_of_def add_divide_distrib [symmetric])
qed

text \<open>Of the anomalous images of a holdout, those released automatically and those sent to review or hold make up
  all of them: the two gates on these rates state the same bound twice.\<close>

theorem release_and_recall_gates_agree:
  assumes "mv_defect_error_auto_release_rate (metric_values_of env records review hold) = Some x"
    "mv_review_hold_recall (metric_values_of env records review hold) = Some y"
  shows "x + y = 1 \<and> (gate_met GateLe (5/100) (JFloat x) \<longleftrightarrow> gate_met GateGe (95/100) (JFloat y))"
proof -
  have ne: "scores_of 1 records \<noteq> []" using assms(1) by (auto simp: metric_values_of_def split: if_splits)
  have "x + y = 1"
    using assms mean_of_complement [OF ne, of "\<lambda>s. s < review"]
    by (auto simp: metric_values_of_def not_less split: if_splits)
  then have "y = 1 - x" by simp
  then show ?thesis by (auto simp: gate_met_def json_number_def field_simps)
qed

lemma calibrate_protocol_b_Inr:
  assumes "calibrate_protocol_b env next_up records max_fa target = Inr t" "normalized records" "0 \<le> max_fa"
  shows "0 \<le> pt_review_threshold t \<and> pt_review_threshold t < pt_hold_threshold t \<and> pt_hold_threshold t \<le> 1 \<and>
     mean_of (\<lambda>s. s < pt_review_threshold t) (scores_of 1 records) \<le> max_fa \<and>
     (\<forall>r \<in> set records. sr_split r \<in> {''validation'', ''calibration''})"
proof -
  let ?r = "protocol_review records max_fa" and ?h = "protocol_hold next_up records (protocol_review records max_fa) target"
  have u: "unit_range c" if "c \<in> set (protocol_candidates records)" for c
    using that assms(2) by (auto simp: protocol_candidates_def normalized_def unit_range_def)
  let ?rc = "filter (\<lambda>c. c < 1 \<and> mean_of (\<lambda>s. s < c) (scores_of 1 records) \<le> max_fa) (protocol_candidates records)"
  have "0 \<in> set ?rc" using zero_feasible [OF assms(2,3)] by (simp add: feasible_def protocol_candidates_def)
  then have "?rc \<noteq> []" by (metis empty_iff empty_set)
  then have r: "?r \<in> set ?rc" unfolding protocol_review_def by (rule max_default_in)
  have t: "pt_review_threshold t = ?r" "pt_hold_threshold t = ?h" "\<not> ?h \<le> ?r"
    "\<forall>r \<in> set records. sr_split r \<in> {''validation'', ''calibration''}"
    using assms(1) by (auto simp: calibrate_protocol_b_def Let_def list_ex_iff split: if_splits)
  have h1: "?h \<le> 1"
    using max_default_in [of "filter (\<lambda>c. c > ?r \<and> mean_of (\<lambda>s. s \<ge> c) (scores_of 1 records) \<ge> target) (protocol_candidates records)"]
      u unfolding protocol_hold_def by (cases "filter (\<lambda>c. c > ?r \<and> mean_of (\<lambda>s. s \<ge> c) (scores_of 1 records) \<ge> target)
        (protocol_candidates records) = []") (simp add: max_default_def, fastforce simp: unit_range_def)
  have r0: "unit_range ?r" "mean_of (\<lambda>s. s < ?r) (scores_of 1 records) \<le> max_fa" using r u by simp_all
  show ?thesis unfolding t(1,2) using t(3,4) h1 r0 by (simp add: unit_range_def)
qed

text \<open>The thresholds of protocol B are ordered, keep the five percent bound on their sample, are taken from
  validation or calibration records only, and do not change with the holdout.\<close>

theorem protocol_thresholds_ignore_holdout:
  assumes "evaluate_protocol_b env next_up calibration holdout = Inr (t, m)" "normalized calibration"
  shows "pt_review_threshold t < pt_hold_threshold t \<and> pt_hold_threshold t \<le> 1 \<and>
     mean_of (\<lambda>s. s < pt_review_threshold t) (scores_of 1 calibration) \<le> 5/100 \<and>
     (\<forall>r \<in> set calibration. sr_split r \<in> {''validation'', ''calibration''}) \<and>
     (\<forall>holdout'. \<exists>m'. evaluate_protocol_b env next_up calibration holdout' = Inr (t, m'))"
proof -
  have c: "calibrate_protocol_b env next_up calibration (5/100) (80/100) = Inr t"
    using assms(1) by (auto simp: evaluate_protocol_b_def)
  from calibrate_protocol_b_Inr [OF c assms(2)] c show ?thesis by (auto simp: evaluate_protocol_b_def)
qed

section \<open>Examples\<close>

definition example_item :: "string \<Rightarrow> string \<Rightarrow> ManifestEntry" where
  "example_item n subtype = \<lparr>man_sample_id = n, man_category = ''c'', man_split = ''test'', man_source_split = ''test'',
     man_label = 0, man_anomaly_subtype = subtype, man_image_path = n, man_image_sha256 = n, man_mask_path = None,
     man_mask_sha256 = None, man_width = 1, man_height = 1\<rparr>"

definition example_items :: "ManifestEntry list" where
  "example_items = [example_item ''a'' ''good'', example_item ''b'' ''good'', example_item ''c'' ''cut'', example_item ''d'' ''cut'']"

lemma item_keys [simp]: "n \<noteq> [] \<Longrightarrow> entry_keys (example_item n k) = [(''sample_id'', n), (''image_path'', n), (''image_sha256'', n)]"
  by (simp add: entry_keys_def row_keys_def split_row_of_def example_item_def)

lemma item_fields [simp]:
  "man_source_split (example_item n k) = ''test''" "man_anomaly_subtype (example_item n k) = k"
  "man_sample_id (example_item n k) = n"
  by (simp_all add: example_item_def)

theorem protocol_split_covers_witness:
  "\<exists>ca ho. split_for_protocol_b (\<lambda>s. s) example_items = Inr [(''train'', []),
        (''calibration'', map (split_row_of ''calibration'') ca), (''holdout'', map (split_row_of ''holdout'') ho)] \<and>
     mset (ca @ ho) = mset example_items"
proof -
  have s: "\<forall>e \<in> set example_items. man_source_split e \<in> {''train'', ''test''} \<and> man_sample_id e \<noteq> []"
    by (simp add: example_items_def)
  have d: "distinct (concat (map entry_keys example_items))" by (simp add: example_items_def)
  have k: "\<forall>k. length (test_stratum example_items k) \<noteq> 1"
    by (simp add: example_items_def test_stratum_def)
  have f: "filter (\<lambda>e. man_source_split e = ''train'') example_items = []"
    "filter (\<lambda>e. man_source_split e = ''test'') example_items = example_items"
    by (simp_all add: example_items_def)
  note covers = protocol_split_covers [OF s, of "\<lambda>s. s"]
  from covers d k obtain r where "split_for_protocol_b (\<lambda>s. s) example_items = Inr r" by blast
  with covers show ?thesis unfolding f by auto
qed

theorem single_image_stratum_rejected_witness:
  "split_for_protocol_b (\<lambda>s. s) [example_item ''a'' ''good'', example_item ''b'' ''good'', example_item ''e'' ''bent''] =
     ml_value_error ''split overlap detected''"
  by (rule single_image_stratum_rejected [of _ "''bent''" "example_item ''e'' ''bent''"])
    (simp_all add: test_stratum_def)

definition example_split :: split_manifest where
  "example_split = [(''train'', []), (''calibration'', [split_row_of ''calibration'' (example_item ''a'' ''good'')]),
     (''holdout'', [split_row_of ''holdout'' (example_item ''b'' ''good'')])]"

theorem accepted_split_is_disjoint_witness:
  "validate_split_manifest example_split = Inr [(''train'', 0), (''calibration'', 1), (''holdout'', 1)] \<and>
   sp_image_sha256 (split_row_of ''calibration'' (example_item ''a'' ''good'')) \<noteq>
     sp_image_sha256 (split_row_of ''holdout'' (example_item ''b'' ''good''))"
proof -
  have v: "validate_split_manifest example_split = Inr [(''train'', 0), (''calibration'', 1), (''holdout'', 1)]"
    by code_simp
  show ?thesis
    using accepted_split_is_disjoint [OF v, of "''calibration''" "''holdout''"
        "[split_row_of ''calibration'' (example_item ''a'' ''good'')]" "[split_row_of ''holdout'' (example_item ''b'' ''good'')]"
        "split_row_of ''calibration'' (example_item ''a'' ''good'')" "split_row_of ''holdout'' (example_item ''b'' ''good'')"] v
    by (simp add: example_split_def split_row_of_def example_item_def)
qed

definition example_metrics :: "(string \<times> json) list" where
  "example_metrics = [(''image_auroc'', JFloat (97/100)), (''defect_error_auto_release_rate'', JFloat (2/100)),
     (''review_hold_recall'', JFloat (98/100)), (''hold_recall'', JFloat (9/10)),
     (''normal_review_hold_rate'', JFloat (1/10)), (''warm_p95_ms'', JFloat 120)]"

definition example_gates :: "string \<Rightarrow> bool option \<Rightarrow> ml_exn + gate_result" where
  "example_gates source_type consent = evaluate_pilot_gates example_metrics True True True source_type consent"

lemma example_gates_run: "map_sum id (\<lambda>g. (gr_decision g, gr_approval_eligible g)) (example_gates ''CUSTOMER_PILOT'' (Some True)) =
    Inr (''GO'', True)"
  by code_simp

theorem gates_decide_witness:
  "\<exists>g. example_gates ''CUSTOMER_PILOT'' (Some True) = Inr g \<and> gr_decision g = ''GO'' \<and>
     gate_met GateGe (90/100) (jget_or ''image_auroc'' JNull example_metrics)"
proof -
  obtain g where g: "evaluate_pilot_gates example_metrics True True True ''CUSTOMER_PILOT'' (Some True) = Inr g"
      "gr_decision g = ''GO''"
    using example_gates_run unfolding example_gates_def
    by (cases "evaluate_pilot_gates example_metrics True True True ''CUSTOMER_PILOT'' (Some True)") auto
  from gates_decide [OF g(1)] g show ?thesis unfolding example_gates_def by blast
qed

definition example_metric_env :: metric_env where
  "example_metric_env = \<lparr>roc_auc = (\<lambda>_. 1), percentile95 = (\<lambda>xs. last (sort xs))\<rparr>"

theorem release_and_recall_gates_agree_witness:
  "\<exists>x y. mv_defect_error_auto_release_rate (metric_values_of example_metric_env example_records (6/10) (9/10)) = Some x \<and>
     mv_review_hold_recall (metric_values_of example_metric_env example_records (6/10) (9/10)) = Some y \<and> x + y = 1"
proof -
  have "scores_of 0 example_records \<noteq> []" "scores_of 1 example_records \<noteq> []"
    by (simp_all add: example_records_def scores_of_def example_score_def)
  then have xy: "mv_defect_error_auto_release_rate (metric_values_of example_metric_env example_records review hold) =
       Some (mean_of (\<lambda>s. s < review) (scores_of 1 example_records))"
     "mv_review_hold_recall (metric_values_of example_metric_env example_records review hold) =
       Some (mean_of (\<lambda>s. s \<ge> review) (scores_of 1 example_records))" for review hold
    by (simp_all add: metric_values_of_def)
  from release_and_recall_gates_agree [OF xy] xy show ?thesis by blast
qed

theorem protocol_thresholds_ignore_holdout_witness:
  "\<exists>t m. evaluate_protocol_b example_metric_env (\<lambda>x. x + 1/1000) example_records example_records = Inr (t, m) \<and>
     pt_review_threshold t < pt_hold_threshold t"
proof -
  have n: "normalized example_records"
    by (simp add: normalized_def example_records_def example_score_def unit_range_def)
  have "isl (evaluate_protocol_b example_metric_env (\<lambda>x. x + 1/1000) example_records example_records) = False" by code_simp
  then obtain t m where "evaluate_protocol_b example_metric_env (\<lambda>x. x + 1/1000) example_records example_records = Inr (t, m)"
    by (cases "evaluate_protocol_b example_metric_env (\<lambda>x. x + 1/1000) example_records example_records") auto
  from protocol_thresholds_ignore_holdout [OF this n] this show ?thesis by blast
qed

end
