(* ===== verification/MlReportProofs.thy ===== *)
theory MlReportProofs
  imports MlReport MlGates "HOL-Library.AList" "HOL-Library.Countable"
begin

text \<open>
  A written qualification package passes the check the model registry runs on it, and what its release decision
  says about approval.
\<close>

section \<open>JSON documents\<close>

text \<open>Dicts have distinct keys; the JSON library reads back what it wrote.\<close>

fun proper_json :: "json \<Rightarrow> bool" where
  "proper_json (JObj kvs) \<longleftrightarrow> distinct (map fst kvs) \<and> (\<forall>kv \<in> set kvs. proper_json (snd kv))"
| "proper_json (JList js) \<longleftrightarrow> (\<forall>j \<in> set js. proper_json j)"
| "proper_json _ \<longleftrightarrow> True"

definition reads_back :: "'a report_env_scheme \<Rightarrow> bool" where
  "reads_back env \<longleftrightarrow> (\<forall>j. proper_json j \<longrightarrow> ml_loads env (pretty env j) = Some j)"

lemma proper_opt [simp]: "proper_json (JOpt s)"
  by (cases s) (simp_all add: JOpt_def)

lemma proper_texts [simp]: "proper_json (texts ss)"
  by (auto simp: texts_def)

lemma jget_in: "jget k kvs = Some v \<Longrightarrow> (k, v) \<in> set kvs"
  by (induction kvs) (auto simp: jget_def dest: map_of_SomeD split: if_splits)

lemma proper_get: "proper_json d \<Longrightarrow> proper_json (JObj kvs) \<Longrightarrow> proper_json (jget_or k d kvs)"
  by (fastforce simp: jget_or_def split: option.split dest: jget_in)

definition proper_dict :: "dict option \<Rightarrow> bool" where
  "proper_dict d \<longleftrightarrow> (case d of None \<Rightarrow> True | Some kvs \<Rightarrow> proper_json (JObj kvs))"

text \<open>The documents handed in are JSON.\<close>

definition proper_report :: "'a report_env_scheme \<Rightarrow> report_args \<Rightarrow> bool" where
  "proper_report env a \<longleftrightarrow> proper_json (rep_environment env) \<and> proper_json (ra_thresholds a) \<and>
     proper_json (JObj (ra_split_document a)) \<and> proper_dict (ra_metrics a) \<and> proper_json (ra_confidence_intervals a) \<and>
     (\<forall>j \<in> set (ra_limitations a). proper_json j) \<and>
     proper_dict (ra_dataset_receipt a) \<and> proper_dict (ra_source_evidence a) \<and> proper_dict (ra_error_cases a)"

lemma proper_receipt: "proper_report env a \<Longrightarrow> proper_json d \<Longrightarrow> proper_json (receipt_field a k d)"
  unfolding receipt_field_def
  by (rule proper_get) (auto simp: proper_report_def proper_dict_def split: option.splits)

lemma proper_counts: "proper_report env a \<Longrightarrow> proper_json (sample_counts a)"
  unfolding sample_counts_def by (rule proper_receipt) simp_all

lemma proper_dict_or:
  "proper_dict d \<Longrightarrow> proper_json (JObj e) \<Longrightarrow> proper_json (JObj (dict_or d e))"
  by (auto simp: dict_or_def proper_dict_def split: option.splits)

lemma proper_metrics: "proper_report env a \<Longrightarrow> proper_json (JObj (actual_metrics a v))"
  by (cases "ra_metrics a")
    (simp_all add: actual_metrics_def blocked_metrics_def proper_report_def proper_dict_def Let_def)

lemma proper_source: "proper_report env a \<Longrightarrow> proper_json (JObj (source_document a))"
  by (cases "ra_source_evidence a") (simp_all add: source_document_def proper_report_def proper_dict_def)

lemma proper_gate_value: "proper_json (JObj metrics) \<Longrightarrow> proper_json (gate_value metrics pv nl cv name)"
  unfolding gate_value_def by (auto simp: jbool_opt_def intro: proper_get split: option.split)

lemma check_names: "map fst (map (check_dump v) (zip gates checks)) = take (length checks) (map fst gates)"
  by (induction gates checks rule: list_induct2') (auto simp: check_dump_def)

lemma gate_names_distinct: "distinct (map fst PILOT_GATES)"
  by (simp add: PILOT_GATES_def)

lemma proper_gates:
  assumes "proper_report env a"
  shows "proper_json (gates_dump a v g)"
proof -
  let ?v = "gate_value (actual_metrics a v) v (split_is_valid a = Inr True) (customer_provenance_valid a)"
  have "proper_json (?v n)" for n by (rule proper_gate_value) (rule proper_metrics [OF assms])
  then have "proper_json (snd (check_dump ?v x))" for x
    by (cases x) (auto simp: check_dump_def split: prod.splits)
  then have "proper_json (JObj (map (check_dump ?v) (zip PILOT_GATES (gr_checks g))))"
    unfolding proper_json.simps check_names using gate_names_distinct by (auto intro: distinct_take)
  then show ?thesis unfolding gates_dump_def by (simp del: map_map)
qed

lemma proper_limitations: "proper_report env a \<Longrightarrow> \<forall>j \<in> set (report_limitations a). proper_json j"
  by (auto simp: report_limitations_def proper_report_def)

text \<open>Every document that is read back.\<close>

lemma proper_summary: "proper_report env a \<Longrightarrow> proper_json (JObj (summary_document env a sha g))"
  by (simp add: summary_document_def Let_def proper_counts proper_limitations)

lemma proper_metrics_document: "proper_report env a \<Longrightarrow> proper_json (JObj (metrics_document a sha g))"
  using proper_metrics [of env a "sha \<noteq> None"] proper_get [of JNull "actual_metrics a (sha \<noteq> None)" "''unavailable_reason''"]
  by (simp add: metrics_document_def Let_def proper_counts proper_gates) (simp add: proper_report_def)

lemma proper_reason [simp]: "proper_json (provenance_audit_reason a g)"
  by (simp add: provenance_audit_reason_def)

lemma proper_receipt_value: "proper_report env a \<Longrightarrow> proper_json (case ra_dataset_receipt a of None \<Rightarrow> JNull | Some r \<Rightarrow> JObj r)"
  by (cases "ra_dataset_receipt a") (simp_all add: proper_report_def proper_dict_def)

lemma proper_customer: "proper_json (case ra_customer_provenance a of None \<Rightarrow> JNull | Some p \<Rightarrow> customer_data_dump env p)"
  by (cases "ra_customer_provenance a") (simp_all add: customer_data_dump_def)

lemma proper_schema: "proper_report env a \<Longrightarrow> proper_json (jget_or ''schema_version'' JNull (source_document a))"
  by (rule proper_get) (simp_all add: proper_source del: proper_json.simps(1))

lemma proper_environment: "proper_report env a \<Longrightarrow> proper_json (rep_environment env)"
  by (simp add: proper_report_def)

lemma proper_provenance: "proper_report env a \<Longrightarrow> proper_json (JObj (provenance_document env a sha g))"
  by (simp add: provenance_document_def Let_def proper_receipt proper_receipt_value proper_customer proper_schema
      proper_environment proper_limitations)

lemma proper_split: "proper_report env a \<Longrightarrow> proper_json (JObj (split_document a))"
  by (simp add: split_document_def proper_report_def)

lemma proper_errors: "proper_report env a \<Longrightarrow> proper_json (JObj (error_document a))"
  unfolding error_document_def by (rule proper_dict_or) (simp_all add: proper_report_def)

lemma proper_release: "proper_report env a \<Longrightarrow> proper_json (JObj (release_document env a sha g digest))"
  by (simp add: release_document_def proper_gates)

section \<open>The files\<close>

lemma map_of_write: "map_of (write_file n c files) = (map_of files)(n \<mapsto> c)"
  by (simp add: write_file_def update_conv')

lemma names_write: "set (map fst (write_file n c files)) = insert n (set (map fst files))"
  by (simp add: write_file_def dom_update)

lemma distinct_write: "distinct (map fst files) \<Longrightarrow> distinct (map fst (write_file n c files))"
  by (simp add: write_file_def distinct_update)

lemma filter_write: "(\<And>c. \<not> P (n, c)) \<Longrightarrow> filter P (write_file n c files) = filter P files"
  unfolding write_file_def by (induction files) auto

lemmas write_simps = map_of_write names_write

text \<open>What is written where.\<close>

definition package_names :: "string set" where
  "package_names = set ML_REQUIRED_EVIDENCE_FILES"

definition released_files ::
  "'a report_env_scheme \<Rightarrow> report_args \<Rightarrow> string option \<Rightarrow> gate_result \<Rightarrow> (string \<times> string) list \<Rightarrow> (string \<times> string) list" where
  "released_files env a sha g existing =
     (let core = write_core env a sha g existing in
      write_document env ''release-decision.json''
        (JObj (release_document env a sha g (ml_core_digest (ml_env.truncate env) core))) core)"

definition package_files ::
  "'a report_env_scheme \<Rightarrow> report_args \<Rightarrow> string option \<Rightarrow> gate_result \<Rightarrow> (string \<times> string) list \<Rightarrow> (string \<times> string) list" where
  "package_files env a sha g existing =
     (let released = released_files env a sha g existing in
      write_document env ''evidence-manifest.json'' (JObj (inventory_document (ml_env.truncate env) released)) released)"

lemma written_package:
  assumes "write_qualification_package env a existing = Inr (files, r)"
  obtains g where "report_gates a (rr_model_package_sha256 r \<noteq> None) = Inr g"
    "files = package_files env a (rr_model_package_sha256 r) g existing"
    "rr_decision r = report_status_of a g"
    "rr_evidence_package_sha256 r =
       ml_core_digest (ml_env.truncate env) (write_core env a (rr_model_package_sha256 r) g existing)"
    "ra_source_type a \<in> set SOURCE_TYPES"
proof -
  from assms obtain sha g where "report_gates a (sha \<noteq> None) = Inr g" "ra_source_type a \<in> set SOURCE_TYPES"
    "(files, r) = (package_files env a sha g existing, \<lparr>rr_decision = report_status_of a g,
       rr_evidence_package_sha256 = ml_core_digest (ml_env.truncate env) (write_core env a sha g existing),
       rr_model_package_sha256 = sha\<rparr>)"
    unfolding write_qualification_package_def package_files_def released_files_def Let_def
    by (clarsimp simp: andThen_Inr)
  with that show thesis by simp
qed

lemma package_names_written:
  "set (map fst (package_files env a sha g existing)) = set (map fst existing) \<union> package_names"
  unfolding package_files_def released_files_def Let_def write_core_def write_document_def comp_def names_write
    package_names_def ML_REQUIRED_EVIDENCE_FILES_def list.set Un_insert_right Un_empty_right
  by (simp only: insert_commute)

lemma package_names_distinct:
  "distinct (map fst existing) \<Longrightarrow> distinct (map fst (package_files env a sha g existing))"
  unfolding package_files_def released_files_def Let_def write_core_def write_document_def comp_def
  by (intro distinct_write)

lemma package_contents:
  "map_of (package_files env a sha g existing) ''qualification-summary.json'' = Some (pretty env (sort_keys (JObj (summary_document env a sha g))))"
  "map_of (package_files env a sha g existing) ''metrics.json'' = Some (pretty env (sort_keys (JObj (metrics_document a sha g))))"
  "map_of (package_files env a sha g existing) ''provenance.json'' = Some (pretty env (sort_keys (JObj (provenance_document env a sha g))))"
  "map_of (package_files env a sha g existing) ''source-evidence.json'' = Some (pretty env (sort_keys (JObj (source_document a))))"
  "map_of (package_files env a sha g existing) ''release-decision.json'' =
     Some (pretty env (sort_keys (JObj (release_document env a sha g (ml_core_digest (ml_env.truncate env) (write_core env a sha g existing))))))"
  "map_of (package_files env a sha g existing) ''evidence-manifest.json'' =
     Some (pretty env (sort_keys (JObj (inventory_document (ml_env.truncate env) (released_files env a sha g existing)))))"
  unfolding package_files_def released_files_def Let_def write_core_def write_document_def comp_def map_of_write
  by simp_all

section \<open>Digest and inventory\<close>

lemma digest_same_library:
  assumes "ml_sha256 env' = ml_sha256 env" "ml_dumps env' = ml_dumps env"
  shows "ml_core_digest env' files = ml_core_digest (ml_env.truncate env) files"
    "top_level_inventory env' files = top_level_inventory (ml_env.truncate env) files"
  using assms
  by (simp_all add: ml_core_digest_def package_digest_def sha256_json_def package_entry_def top_level_inventory_def
      ml_env.truncate_def)

lemma digest_ignores_decision:
  "ml_core_digest env (package_files renv a sha g existing) = ml_core_digest env (write_core renv a sha g existing)"
  by (rule core_digest_ignores_release)
    (simp add: package_files_def released_files_def Let_def write_document_def filter_write)

lemma inventory_ignores_itself:
  "top_level_inventory env (package_files renv a sha g existing) = top_level_inventory env (released_files renv a sha g existing)"
  by (simp add: package_files_def Let_def write_document_def filter_write top_level_inventory_def)

lemma inventory_entry:
  assumes "distinct (map fst files)" "(n, f) \<in> set (top_level_inventory env files)"
  shows "n \<in> set (map fst files) \<and> (\<exists>c. map_of files n = Some c \<and> f = package_entry env c)"
  using assms by (force simp: top_level_inventory_def)

lemma inventory_passes:
  assumes "\<forall>(n, f) \<in> set inventory. safe_relative n \<and> (\<exists>c. map_of files n = Some c \<and> f = package_entry env c)"
  shows "check_evidence_inventory env files (map (\<lambda>(n, f). (n, dump_file f)) inventory) = Inr ()"
  using assms
  by (induction inventory) (auto simp: dump_file_def package_entry_def jindex_def jget_def equals_int_def)

lemma inventory_distinct: "distinct (map fst files) \<Longrightarrow> distinct (map fst (top_level_inventory env files))"
  by (simp add: top_level_inventory_def comp_def case_prod_beta distinct_map inj_on_def)

lemma proper_inventory:
  "distinct (map fst files) \<Longrightarrow> proper_json (JObj (inventory_document env files))"
  using inventory_distinct [of files env]
  by (auto simp: inventory_document_def dump_file_def comp_def case_prod_beta)

lemma required_safe: "n \<in> package_names \<Longrightarrow> safe_relative n"
  unfolding package_names_def ML_REQUIRED_EVIDENCE_FILES_def safe_relative_def by auto

text \<open>A directory read later with the same libraries.\<close>

definition same_library :: "'a report_env_scheme \<Rightarrow> ml_env \<Rightarrow> bool" where
  "same_library env env' \<longleftrightarrow> ml_sha256 env' = ml_sha256 env \<and> ml_dumps env' = ml_dumps env \<and> ml_loads env' = ml_loads env"

text \<open>The document that is read is the written one with its keys in order.\<close>

definition sorted_dict :: "dict \<Rightarrow> dict" where
  "sorted_dict d = sort_key fst (map (\<lambda>(k, v). (k, sort_keys v)) d)"

lemma sort_keys_dict: "sort_keys (JObj d) = JObj (sorted_dict d)"
  by (simp add: sorted_dict_def)

lemma map_fst_sort_keys: "map fst (map (\<lambda>(k, v). (k, f v)) d) = map fst d"
  by (simp add: comp_def case_prod_beta)

lemma distinct_fst_sort: "distinct (map fst (sort_key fst xs)) \<longleftrightarrow> distinct (map fst xs)"
  by (metis mset_eq_imp_distinct_iff mset_map mset_sort)

lemma proper_sorted: "proper_json j \<Longrightarrow> proper_json (sort_keys j)"
proof (induction j rule: sort_keys.induct)
  case (1 kvs)
  have "distinct (map fst (sorted_dict kvs))"
    using "1.prems" by (simp add: sorted_dict_def distinct_fst_sort comp_def case_prod_beta)
  moreover have "proper_json (sort_keys v)" if "(k, v) \<in> set kvs" for k v
    using "1.IH" [OF that refl] "1.prems" that by fastforce
  ultimately show ?case unfolding sort_keys_dict by (auto simp: sorted_dict_def)
qed auto

lemma map_of_sort: "distinct (map fst xs) \<Longrightarrow> map_of (sort_key fst xs) = map_of xs"
  by (rule map_of_eqI) (auto simp: distinct_fst_sort)

lemma jget_sorted: "distinct (map fst d) \<Longrightarrow> jget k (sorted_dict d) = map_option sort_keys (jget k d)"
  using map_of_sort [of "map (\<lambda>(k, v). (k, sort_keys v)) d"] unfolding map_fst_sort_keys
  by (simp add: sorted_dict_def jget_def map_of_map)

lemma field_sorted:
  "proper_json (JObj d) \<Longrightarrow> jget k d = Some v \<Longrightarrow> jget_or k e (sorted_dict d) = sort_keys v"
  by (simp add: jget_or_def jget_sorted)

lemma sort_keys_opt [simp]: "sort_keys (JOpt s) = JOpt s"
  by (cases s) (simp_all add: JOpt_def)

lemma read_written:
  assumes "reads_back env" "same_library env env'" "map_of files n = Some (pretty env (sort_keys (JObj d)))" "proper_json (JObj d)"
  shows "read_dict env' files n = Inr (sorted_dict d)"
  using assms(1-3) proper_sorted [OF assms(4)] unfolding sort_keys_dict
  by (simp add: read_dict_def ml_read_json_def reads_back_def same_library_def del: proper_json.simps)

section \<open>What is written verifies\<close>

lemma release_fields:
  "jget ''evidence_package_sha256'' (release_document env a sha g digest) = Some (JStr digest)"
  "jget ''decision'' (release_document env a sha g digest) = Some (JStr (report_status_of a g))"
  "jget ''gate_decision'' (release_document env a sha g digest) = Some (JStr (gr_decision g))"
  "jget ''source_type'' (release_document env a sha g digest) = Some (JStr (ra_source_type a))"
  "jget ''dataset_fingerprint'' (release_document env a sha g digest) = Some (JOpt (report_fingerprint env a))"
  "jget ''approval_status'' (release_document env a sha g digest) = Some (JStr (approval_status_of a g))"
  "jget ''model_package_sha256'' (release_document env a sha g digest) = Some (JOpt sha)"
  by (simp_all add: release_document_def jget_def)

lemma summary_fields:
  "jget ''qualification_status'' (summary_document env a sha g) = Some (JStr (report_status_of a g))"
  "jget ''source_type'' (summary_document env a sha g) = Some (JStr (ra_source_type a))"
  by (simp_all add: summary_document_def jget_def Let_def)

lemma provenance_fields:
  "jget ''model_package_sha256'' (provenance_document env a sha g) = Some (JOpt sha)"
  "jget ''source_type'' (provenance_document env a sha g) = Some (JStr (ra_source_type a))"
  "jget ''dataset_fingerprint'' (provenance_document env a sha g) = Some (JOpt (report_fingerprint env a))"
  by (simp_all add: provenance_document_def jget_def Let_def)

lemma metrics_fields:
  "jget ''gates'' (metrics_document a sha g) = Some (gates_dump a (sha \<noteq> None) g)"
  by (simp add: metrics_document_def jget_def Let_def)

lemma inventory_fields:
  "jget ''schema_version'' (inventory_document env files) = Some (JStr ''visionqc.evidence-manifest.v1'')"
  "jget ''files'' (inventory_document env files) = Some (JObj (map (\<lambda>(n, f). (n, dump_file f)) (top_level_inventory env files)))"
  by (simp_all add: inventory_document_def jget_def)

lemma gates_report_status:
  assumes "proper_report env a"
  shows "\<exists>d. sort_keys (gates_dump a v g) = JObj d \<and> jget_null ''report_status'' d = JStr (report_status_of a g)"
proof -
  obtain d where d: "gates_dump a v g = JObj d" "jget ''report_status'' d = Some (JStr (report_status_of a g))"
    by (simp add: gates_dump_def jget_def)
  have "proper_json (JObj d)" using proper_gates [OF assms, of v g] d(1) by simp
  from field_sorted [OF this d(2)] d(1) show ?thesis by (simp add: sort_keys_dict del: sort_keys.simps(1))
qed

lemma inventory_sorted:
  "sorted_dict (map (\<lambda>(n, f). (n, dump_file f)) (top_level_inventory env files)) =
     map (\<lambda>(n, f). (n, dump_file f)) (top_level_inventory env files)"
proof -
  have "sort_keys (dump_file f) = dump_file f" for f
    by (simp add: dump_file_def)
  then have "map (\<lambda>(k, v). (k, sort_keys v)) (map (\<lambda>(n, f). (n, dump_file f)) (top_level_inventory env files)) =
      map (\<lambda>(n, f). (n, dump_file f)) (top_level_inventory env files)"
    by (simp add: comp_def case_prod_beta)
  moreover have "sorted (map fst (map (\<lambda>(n, f). (n, dump_file f)) (top_level_inventory env files)))"
    by (simp add: top_level_inventory_def comp_def case_prod_beta)
  ultimately show ?thesis unfolding sorted_dict_def by (simp only: sort_key_id_if_sorted)
qed

text \<open>The evidence that a package holds.\<close>

definition evidence_of ::
  "'a report_env_scheme \<Rightarrow> report_args \<Rightarrow> string option \<Rightarrow> gate_result \<Rightarrow> string \<Rightarrow> ml_evidence" where
  "evidence_of env a sha g digest = \<lparr>me_evidence_package_sha256 = digest, me_decision = JStr (report_status_of a g),
     me_gate_decision = JStr (gr_decision g), me_source_type = JStr (ra_source_type a),
     me_dataset_fingerprint = JOpt (report_fingerprint env a), me_approval_status = JStr (approval_status_of a g),
     me_model_package_sha256 = JOpt sha\<rparr>"

lemma contents_of_package:
  assumes "reads_back env" "same_library env env'" "proper_report env a" "ra_source_type a \<in> set SOURCE_TYPES"
  shows "evidence_contents env' (package_files env a sha g existing) sha = Inr (evidence_of env a sha g
     (ml_core_digest (ml_env.truncate env) (write_core env a sha g existing)))"
proof -
  let ?files = "package_files env a sha g existing"
  let ?digest = "ml_core_digest (ml_env.truncate env) (write_core env a sha g existing)"
  note r = read_written [OF assms(1,2)]
  note proper = proper_release [OF assms(3)] proper_provenance [OF assms(3)] proper_summary [OF assms(3)]
    proper_metrics_document [OF assms(3)]
  have docs:
    "read_dict env' ?files ''release-decision.json'' = Inr (sorted_dict (release_document env a sha g ?digest))"
    "read_dict env' ?files ''provenance.json'' = Inr (sorted_dict (provenance_document env a sha g))"
    "read_dict env' ?files ''qualification-summary.json'' = Inr (sorted_dict (summary_document env a sha g))"
    "read_dict env' ?files ''metrics.json'' = Inr (sorted_dict (metrics_document a sha g))"
    by (rule r [OF package_contents(5) proper(1)] r [OF package_contents(3) proper(2)]
        r [OF package_contents(1) proper(3)] r [OF package_contents(2) proper(4)])+
  note fields = release_fields [THEN field_sorted [OF proper(1)]] provenance_fields [THEN field_sorted [OF proper(2)]]
    summary_fields [THEN field_sorted [OF proper(3)]] metrics_fields [THEN field_sorted [OF proper(4)]]
    sort_keys.simps(3-7) sort_keys_opt
  have digest: "ml_core_digest env' ?files = ?digest"
    using assms(2) digest_same_library(1) [of env' env ?files] by (simp add: same_library_def digest_ignores_decision)
  obtain gates where gates: "sort_keys (gates_dump a (sha \<noteq> None) g) = JObj gates"
      "jget_null ''report_status'' gates = JStr (report_status_of a g)"
    using gates_report_status [OF assms(3)] by blast
  have st: "evidence_source_type env' (sorted_dict (provenance_document env a sha g)) = ra_source_type a"
    by (simp add: evidence_source_type_def fields ml_str_def)
  show ?thesis
    unfolding evidence_contents_def docs andThen_simps fields gates(1) digest st evidence_of_def
    using assms(4) by (simp add: ml_dict_def ml_check_def gates(2) Let_def fields)
qed

lemma package_top_files:
  "(\<And>n. n \<in> set (map fst existing) \<Longrightarrow> safe_relative n) \<Longrightarrow>
     top_files (package_files env a sha g existing) = package_files env a sha g existing"
proof -
  assume safe: "\<And>n. n \<in> set (map fst existing) \<Longrightarrow> safe_relative n"
  have "CHR ''/'' \<notin> set (fst x)" if "x \<in> set (package_files env a sha g existing)" for x
  proof -
    from that have "fst x \<in> set (map fst (package_files env a sha g existing))" by simp
    then have "safe_relative (fst x)" unfolding package_names_written using safe required_safe by blast
    then show ?thesis by (simp add: safe_relative_def)
  qed
  then show ?thesis unfolding top_files_def by (simp add: filter_id_conv case_prod_beta)
qed

lemma package_verifies:
  assumes "reads_back env" "same_library env env'" "proper_report env a" "ra_source_type a \<in> set SOURCE_TYPES"
    and dir: "distinct (map fst existing)" "\<And>n. n \<in> set (map fst existing) \<Longrightarrow> safe_relative n"
    and sources: "jget ''schema_version'' (source_document a) = Some (JStr ''visionqc.pilot-source-evidence.v1'')"
      "jget ''files'' (source_document a) = Some (JObj sources)" "check_source_files env' (sorted_dict sources) = Inr ()"
    and tree: "ml_tree env' path = Some (package_files env a sha g existing)"
  shows "verify_evidence env' path sha = Inr (evidence_of env a sha g
     (ml_core_digest (ml_env.truncate env) (write_core env a sha g existing)))"
proof -
  let ?files = "package_files env a sha g existing"
  let ?released = "released_files env a sha g existing"
  let ?inv = "top_level_inventory (ml_env.truncate env) ?released"
  let ?declared = "map (\<lambda>(n, f). (n, dump_file f)) ?inv"
  have sorted: "sorted_dict ?declared = ?declared" by (rule inventory_sorted)
  have names: "set (map fst ?files) = set (map fst existing) \<union> package_names" by (rule package_names_written)
  have inv: "top_level_inventory env' ?files = ?inv"
    using assms(2) digest_same_library(2) [of env' env ?files] by (simp add: same_library_def inventory_ignores_itself)
  have safe: "safe_relative n" if "n \<in> set (map fst ?files)" for n
    using that dir(2) required_safe names by blast
  have declared: "set (map fst ?declared) = set (map fst ?inv)" by (simp add: comp_def case_prod_beta)
  have entries: "\<forall>(n, f) \<in> set ?inv. safe_relative n \<and> (\<exists>c. map_of ?files n = Some c \<and> f = package_entry env' c)"
    using inventory_entry [OF package_names_distinct [OF dir(1)], of _ _ env' env a sha g, unfolded inv] safe by blast
  have released: "distinct (map fst ?released)"
    using dir(1) unfolding released_files_def Let_def write_core_def write_document_def comp_def by (intro distinct_write)
  note proper = proper_inventory [OF released, of "ml_env.truncate env"] proper_source [OF assms(3)]
  have docs:
    "read_dict env' ?files ''evidence-manifest.json'' = Inr (sorted_dict (inventory_document (ml_env.truncate env) ?released))"
    "read_dict env' ?files ''source-evidence.json'' = Inr (sorted_dict (source_document a))"
    by (rule read_written [OF assms(1,2) package_contents(6) proper(1)]
        read_written [OF assms(1,2) package_contents(4) proper(2)])+
  note fields = inventory_fields [THEN field_sorted [OF proper(1)]] sources(1,2) [THEN field_sorted [OF proper(2)]]
  have top: "top_files ?files = ?files" by (rule package_top_files) (rule dir(2))
  have complete: "set ML_REQUIRED_EVIDENCE_FILES \<subseteq> set (map fst ?files)" unfolding names package_names_def by blast
  show ?thesis
    unfolding verify_evidence_def Let_def tree option.case top
    by (simp only: complete docs andThen_simps fields sources(3) sort_keys.simps(7) sort_keys_dict sorted json.case ml_check_def if_True if_False simp_thms
        inv declared inventory_passes [OF entries] contents_of_package [OF assms(1-4)] not_True_eq_False)
qed

text \<open>C21. The evidence directory that a run writes passes the check of the registry, for the model package it was written
  for, and the registry reads the decision, the source and the approval status that the run came to.\<close>

theorem written_package_verifies:
  assumes "write_qualification_package env a existing = Inr (files, r)"
    and "reads_back env" "same_library env env'" "proper_report env a"
    and "distinct (map fst existing)" "\<And>n. n \<in> set (map fst existing) \<Longrightarrow> safe_relative n"
    and "jget ''schema_version'' (source_document a) = Some (JStr ''visionqc.pilot-source-evidence.v1'')"
      "jget ''files'' (source_document a) = Some (JObj sources)" "check_source_files env' (sorted_dict sources) = Inr ()"
    and "ml_tree env' path = Some files"
  shows "\<exists>g ev. report_gates a (rr_model_package_sha256 r \<noteq> None) = Inr g \<and>
     verify_evidence env' path (rr_model_package_sha256 r) = Inr ev \<and>
     me_evidence_package_sha256 ev = rr_evidence_package_sha256 r \<and> me_decision ev = JStr (rr_decision r) \<and>
     me_gate_decision ev = JStr (gr_decision g) \<and> me_source_type ev = JStr (ra_source_type a) \<and>
     me_approval_status ev = JStr (approval_status_of a g) \<and>
     me_model_package_sha256 ev = JOpt (rr_model_package_sha256 r)"
proof -
  from written_package [OF assms(1)] obtain g
    where g: "report_gates a (rr_model_package_sha256 r \<noteq> None) = Inr g"
      and files: "files = package_files env a (rr_model_package_sha256 r) g existing"
      and r: "rr_decision r = report_status_of a g" "rr_evidence_package_sha256 r =
        ml_core_digest (ml_env.truncate env) (write_core env a (rr_model_package_sha256 r) g existing)"
      and st: "ra_source_type a \<in> set SOURCE_TYPES" by blast
  from package_verifies [OF assms(2-4) st assms(5-9) assms(10) [unfolded files]] g r
  show ?thesis by (simp add: evidence_of_def)
qed

section \<open>Approval\<close>

lemma report_gates_Inr:
  assumes "report_gates a verified = Inr g"
  shows "gr_decision g = ''GO'' \<longrightarrow> evidence_is_complete a verified"
    "gr_approval_eligible g \<longleftrightarrow> is_customer a \<and> gr_decision g = ''GO''"
    "gr_decision g = ''GO'' \<longrightarrow> isl (validate_split_manifest (ra_split_rows a)) = False"
proof -
  obtain nl where nl: "split_is_valid a = Inr nl"
    and e: "evaluate_pilot_gates (actual_metrics a verified) verified nl (evidence_is_complete a verified)
       (ra_source_type a) (customer_provenance_valid a) = Inr g"
    using assms by (auto simp: report_gates_def)
  note gates = gates_Inr [OF e]
  show go: "gr_decision g = ''GO'' \<longrightarrow> evidence_is_complete a verified" using gates by blast
  then show "gr_approval_eligible g \<longleftrightarrow> is_customer a \<and> gr_decision g = ''GO''"
    using gates by (auto simp: is_customer_def evidence_is_complete_def)
  show "gr_decision g = ''GO'' \<longrightarrow> isl (validate_split_manifest (ra_split_rows a)) = False"
    using go nl by (auto simp: evidence_is_complete_def split_is_valid_def)
qed

text \<open>A run awaits approval exactly when it is a customer pilot whose gates are GO; it then has a verified model
  package, metrics, a split without overlap, source evidence and the consent of the customer. Demo data and
  benchmarks never await approval.\<close>

theorem pending_approval_needs:
  assumes "report_gates a verified = Inr g"
  shows "(approval_status_of a g = ''PENDING_APPROVAL'' \<longleftrightarrow> is_customer a \<and> gr_decision g = ''GO'') \<and>
     (approval_status_of a g = ''PENDING_APPROVAL'' \<longrightarrow> verified \<and> ra_metrics a \<noteq> None \<and> has_split a \<and>
        source_evidence_available a \<and> (\<exists>counts. validate_split_manifest (ra_split_rows a) = Inr counts) \<and>
        (\<exists>p. ra_customer_provenance a = Some p \<and> cdp_consent p)) \<and>
     (is_demo a \<longrightarrow> gr_decision g \<noteq> ''GO'')"
proof -
  have iff: "approval_status_of a g = ''PENDING_APPROVAL'' \<longleftrightarrow> is_customer a \<and> gr_decision g = ''GO''"
    using report_gates_Inr(2) [OF assms] by (auto simp: approval_status_of_def is_demo_def is_customer_def)
  have split: "gr_decision g = ''GO'' \<Longrightarrow> \<exists>counts. validate_split_manifest (ra_split_rows a) = Inr counts"
    using report_gates_Inr(3) [OF assms] by (cases "validate_split_manifest (ra_split_rows a)") auto
  show ?thesis unfolding iff using report_gates_Inr(1) [OF assms] split
    by (auto simp: evidence_is_complete_def customer_provenance_valid_def)
qed

text \<open>The dataset fingerprint and the dataset receipt are blockers, but not evidence the gates ask for: a customer
  run without them is reported as blocked and awaits approval all the same.\<close>

theorem blocked_run_awaits_approval:
  assumes "report_gates a True = Inr g" "is_customer a" "gr_decision g = ''GO''" "ra_dataset_fingerprint a = None"
  shows "run_status_of a (report_blockers a True) = ''BLOCKED'' \<and> approval_status_of a g = ''PENDING_APPROVAL'' \<and>
     report_status_of a g = ''CUSTOMER_PILOT_PASS''"
  using report_gates_Inr(2) [OF assms(1)] assms(2-4)
  by (simp add: run_status_of_def report_blockers_def first_blockers_def blocker_def truthy_def approval_status_of_def
      is_demo_def is_customer_def report_status_of_def qualification_report_status_def)

section \<open>Examples\<close>

instance json :: countable
  by countable_datatype

definition toy_pretty :: "json \<Rightarrow> string" where
  "toy_pretty j = replicate (to_nat j) CHR ''x''"

definition example_report_env :: report_env where
  "example_report_env = \<lparr>ml_sha256 = (\<lambda>s. s), ml_dumps = (\<lambda>_. ''digest''), ml_loads = (\<lambda>s. Some (from_nat (length s))),
     ml_manifest_fields = (\<lambda>_. None), ml_float_of = (\<lambda>_. None), ml_str_of = (\<lambda>_. ''''), ml_tree = (\<lambda>_. None),
     ml_file = (\<lambda>_. None), pretty = toy_pretty, rep_now = ''2026-08-01T00:00:00+00:00'', rep_iso = (\<lambda>_. ''''),
     rep_commit = ''unknown'', rep_environment = JObj [(''python'', JStr ''3.12'')], rep_model_card = ''card'',
     rep_evaluation_report = ''report''\<rparr>"

definition example_report :: report_args where
  "example_report = \<lparr>ra_factory = ''f'', ra_category = ''c'', ra_source_type = ''DEMO_SYNTHETIC'', ra_metrics = None,
     ra_confidence_intervals = JNull, ra_split_document = [], ra_split_rows = [], ra_model_package = None,
     ra_dataset_receipt = None, ra_limitations = [], ra_source_evidence = None, ra_error_cases = None,
     ra_thresholds = JNull, ra_dataset_fingerprint = None, ra_customer_provenance = None\<rparr>"

definition example_customer :: CustomerProvenance where
  "example_customer = \<lparr>cdp_tenant = ''t'', cdp_site = ''s'', cdp_line = ''l'', cdp_camera = ''c'', cdp_product = ''p'',
     cdp_capture_window_start = 0, cdp_capture_window_end = 1, cdp_label_source = ''b'', cdp_approver = ''a'',
     cdp_consent = True, cdp_retention_policy = ''r''\<rparr>"

definition example_pilot :: report_args where
  "example_pilot = example_report\<lparr>ra_source_type := ''CUSTOMER_PILOT'', ra_metrics := Some example_metrics,
     ra_split_document := [(''calibration'', JList [])], ra_split_rows := [(''calibration'', [])],
     ra_source_evidence := Some [(''files'', JObj [(''config'', JNull)])],
     ra_customer_provenance := Some example_customer\<rparr>"

lemma example_pilot_gates:
  "map_sum id gr_decision (report_gates example_pilot True) = Inr ''GO''" "is_customer example_pilot"
  "ra_dataset_fingerprint example_pilot = None"
  by code_simp+

theorem pending_approval_needs_witness:
  "\<exists>g. report_gates example_pilot True = Inr g \<and> approval_status_of example_pilot g = ''PENDING_APPROVAL''"
proof -
  obtain g where "report_gates example_pilot True = Inr g" "gr_decision g = ''GO''"
    using example_pilot_gates(1) by (cases "report_gates example_pilot True") auto
  with pending_approval_needs [OF this(1)] example_pilot_gates(2) show ?thesis by blast
qed

theorem blocked_run_awaits_approval_witness:
  "\<exists>g. report_gates example_pilot True = Inr g \<and> run_status_of example_pilot (report_blockers example_pilot True) = ''BLOCKED'' \<and>
     approval_status_of example_pilot g = ''PENDING_APPROVAL''"
proof -
  obtain g where "report_gates example_pilot True = Inr g" "gr_decision g = ''GO''"
    using example_pilot_gates(1) by (cases "report_gates example_pilot True") auto
  with blocked_run_awaits_approval [OF this(1) example_pilot_gates(2) this(2) example_pilot_gates(3)] show ?thesis by blast
qed

lemma example_reads_back_report: "reads_back example_report_env"
  by (simp add: reads_back_def example_report_env_def toy_pretty_def)

lemma example_demo_gates: "\<exists>g. report_gates example_report False = Inr g"
proof -
  have "isl (report_gates example_report False) = False" by code_simp
  then show ?thesis by (cases "report_gates example_report False") auto
qed

definition example_later :: "(string \<times> string) list \<Rightarrow> ml_env" where
  "example_later files = (ml_env.truncate example_report_env)\<lparr>ml_tree := (\<lambda>_. Some files)\<rparr>"

theorem written_package_verifies_witness:
  "\<exists>files r ev. write_qualification_package example_report_env example_report [] = Inr (files, r) \<and>
     verify_evidence (example_later files) ''evidence'' None = Inr ev \<and> me_approval_status ev = JStr ''DEMO_ONLY''"
proof -
  have p: "verified_package (ml_env.truncate example_report_env) example_report = Inr None"
    by (simp add: verified_package_def example_report_def)
  have s: "ra_source_type example_report \<in> set SOURCE_TYPES" "ra_customer_provenance example_report = None"
    "len_between 1 128 (ra_category example_report)" "is_demo example_report" by code_simp+
  obtain g where g: "report_gates example_report (None \<noteq> (None :: string option)) = Inr g"
    using example_demo_gates by auto
  obtain files r where w: "write_qualification_package example_report_env example_report [] = Inr (files, r)"
      and r: "rr_model_package_sha256 r = None"
    using s p g unfolding write_qualification_package_def by (simp add: ml_check_def Let_def)
  have l: "same_library example_report_env (example_later files)"
    by (simp add: same_library_def example_later_def example_report_env_def ml_env.truncate_def)
  have ok: "proper_report example_report_env example_report"
    by (simp add: proper_report_def example_report_def example_report_env_def proper_dict_def)
  have src: "jget ''schema_version'' (source_document example_report) = Some (JStr ''visionqc.pilot-source-evidence.v1'')"
    "jget ''files'' (source_document example_report) = Some (JObj [])"
    "check_source_files (example_later files) (sorted_dict []) = Inr ()"
    by (simp_all add: source_document_def example_report_def jget_def sorted_dict_def)
  have t: "ml_tree (example_later files) ''evidence'' = Some files" by (simp add: example_later_def)
  from written_package_verifies [OF w example_reads_back_report l ok _ _ src t] r w s(4)
  show ?thesis by (auto simp: approval_status_of_def)
qed

end
