(* ===== verification/MlShadow.thy ===== *)
theory MlShadow
  imports MlCalibration MlDataset
begin

text \<open>
  \<^verbatim>\<open>ml/src/visionqc_ml/shadow.py\<close>, the offline comparison of a candidate model with the active one, and
  \<^verbatim>\<open>feedback.py\<close>, the observations of reviewers that a later evaluation reads.
\<close>

section \<open>Shadow evaluation\<close>

definition shadow_route :: "rat \<Rightarrow> rat \<times> rat \<Rightarrow> ml_decision" where
  "shadow_route score thresholds = (case thresholds of (review, hold) \<Rightarrow>
     if score < review then ML_AUTO_RELEASE
     else if score < hold then ML_REVIEW_REQUIRED
     else ML_BATCH_HOLD_AND_REVIEW)"

definition decision_value :: "ml_decision \<Rightarrow> string" where
  "decision_value d = (case d of ML_AUTO_RELEASE \<Rightarrow> ''AUTO_RELEASE'' | ML_REVIEW_REQUIRED \<Rightarrow> ''REVIEW_REQUIRED''
     | ML_BATCH_HOLD_AND_REVIEW \<Rightarrow> ''BATCH_HOLD_AND_REVIEW'')"

text \<open>\<open>{record.sample_id: record for record in records}\<close>: the last record of a sample stays.\<close>

definition record_by_id :: "ScoreRecord list \<Rightarrow> string \<Rightarrow> ScoreRecord option" where
  "record_by_id records = map_of (rev (map (\<lambda>r. (sr_sample_id r, r)) records))"

definition sample_ids :: "ScoreRecord list \<Rightarrow> string list" where
  "sample_ids records = sort (remdups (map sr_sample_id records))"

definition check_categories :: "string \<Rightarrow> string \<Rightarrow> ScoreRecord list \<Rightarrow> ml_exn + unit" where
  "check_categories label product_category records =
     (let categories = set (List.map_filter sr_product_category records) in
      ml_check (categories = {} \<or> categories = {product_category}) ''ValueError''
        (label @ '' predictions do not match product category''))"

text \<open>\<open>_thresholds\<close> of the decoded file.\<close>

definition shadow_thresholds :: "ml_env \<Rightarrow> json \<Rightarrow> ml_exn + rat \<times> rat" where
  "shadow_thresholds env payload =
     andThen (case payload of JObj kvs \<Rightarrow> Inr kvs | _ \<Rightarrow> ml_raise ''TypeError'' ''review_threshold'') (\<lambda>kvs.
     andThen (ml_float env ''review_threshold'' kvs) (\<lambda>review.
     andThen (ml_float env ''hold_threshold'' kvs) (\<lambda>hold.
     andThen (ml_check (0 \<le> review \<and> review < hold \<and> hold \<le> 1) ''ValueError'' ''invalid thresholds'') (\<lambda>_.
     Inr (review, hold)))))"

record shadow_change =
  sc_sample_id :: string
  sc_label :: int
  sc_active_score :: rat
  sc_candidate_score :: rat
  sc_score_delta :: rat
  sc_active_route :: ml_decision
  sc_candidate_route :: ml_decision

record shadow_report =
  sh_product_category :: string
  sh_sample_count :: nat
  sh_active_predictions_sha256 :: string
  sh_candidate_predictions_sha256 :: string
  sh_active_thresholds :: "rat \<times> rat"
  sh_candidate_thresholds :: "rat \<times> rat"
  sh_delta_mean :: "rat option"
  sh_delta_min :: "rat option"
  sh_delta_max :: "rat option"
  sh_route_changes :: "(string \<times> nat) list"
  sh_changed_sample_count :: nat
  sh_changed_samples :: "shadow_change list"

text \<open>The pair of records of a sample that both files hold.\<close>

definition paired :: "ScoreRecord list \<Rightarrow> ScoreRecord list \<Rightarrow> (string \<times> ScoreRecord \<times> ScoreRecord) list" where
  "paired active candidate = List.map_filter (\<lambda>i. case (record_by_id active i, record_by_id candidate i) of
       (Some a, Some c) \<Rightarrow> Some (i, a, c) | _ \<Rightarrow> None) (sample_ids active)"

definition change_of :: "rat \<times> rat \<Rightarrow> rat \<times> rat \<Rightarrow> string \<times> ScoreRecord \<times> ScoreRecord \<Rightarrow> shadow_change" where
  "change_of ta tc x = (case x of (i, a, c) \<Rightarrow>
     \<lparr>sc_sample_id = i, sc_label = sr_label a, sc_active_score = sr_score a, sc_candidate_score = sr_score c,
      sc_score_delta = sr_score c - sr_score a, sc_active_route = shadow_route (sr_score a) ta,
      sc_candidate_route = shadow_route (sr_score c) tc\<rparr>)"

definition changed_samples :: "rat \<times> rat \<Rightarrow> rat \<times> rat \<Rightarrow> ScoreRecord list \<Rightarrow> ScoreRecord list \<Rightarrow> shadow_change list" where
  "changed_samples ta tc active candidate =
     filter (\<lambda>c. sc_active_route c \<noteq> sc_candidate_route c) (map (change_of ta tc) (paired active candidate))"

definition change_text :: "shadow_change \<Rightarrow> string" where
  "change_text c = decision_value (sc_active_route c) @ ''->'' @ decision_value (sc_candidate_route c)"

definition score_deltas :: "ScoreRecord list \<Rightarrow> ScoreRecord list \<Rightarrow> rat list" where
  "score_deltas active candidate = map (\<lambda>(i, a, c). sr_score c - sr_score a) (paired active candidate)"

definition optionally :: "(rat list \<Rightarrow> rat) \<Rightarrow> rat list \<Rightarrow> rat option" where
  "optionally f xs = (if xs = [] then None else Some (f xs))"

definition run_shadow_evaluation ::
  "ml_env \<Rightarrow> (string \<Rightarrow> ScoreRecord option) \<Rightarrow> string list \<times> string \<Rightarrow> string list \<times> string \<Rightarrow> json \<Rightarrow> json \<Rightarrow>
   string \<Rightarrow> ml_exn + shadow_report" where
  "run_shadow_evaluation env decode active_file candidate_file active_json candidate_json product_category =
     andThen (load_score_records decode (fst active_file) None) (\<lambda>active.
     andThen (load_score_records decode (fst candidate_file) None) (\<lambda>candidate.
     andThen (ml_check (set (sample_ids active) = set (sample_ids candidate)) ''ValueError''
       ''shadow evaluation requires identical sample ids'') (\<lambda>_.
     andThen (check_categories ''active'' product_category active) (\<lambda>_.
     andThen (check_categories ''candidate'' product_category candidate) (\<lambda>_.
     andThen (shadow_thresholds env active_json) (\<lambda>ta. 
     andThen (shadow_thresholds env candidate_json) (\<lambda>tc.
     let deltas = score_deltas active candidate;
         changed = changed_samples ta tc active candidate in
     Inr \<lparr>sh_product_category = product_category, sh_sample_count = length active,
       sh_active_predictions_sha256 = snd active_file, sh_candidate_predictions_sha256 = snd candidate_file,
       sh_active_thresholds = ta, sh_candidate_thresholds = tc,
       sh_delta_mean = optionally (\<lambda>xs. sum_list xs / of_nat (length xs)) deltas,
       sh_delta_min = optionally (min_default 0) deltas, sh_delta_max = optionally (max_default 0) deltas,
       sh_route_changes = counter (map change_text changed),
       sh_changed_sample_count = length changed, sh_changed_samples = changed\<rparr>)))))))"

section \<open>Feedback\<close>

record ModelFeedbackRecord =
  fb_feedback_id :: string
  fb_product_category :: string
  fb_inspection_id :: string
  fb_image_sha256 :: string
  fb_image_uri :: string
  fb_model_id :: string
  fb_model_version :: string
  fb_model_feedback :: string
  fb_reviewer_id :: string
  fb_reviewer_decision :: string
  fb_observed_at :: string
  fb_notes :: string

definition feedback_id_ok :: "string \<Rightarrow> bool" where
  "feedback_id_ok s \<longleftrightarrow> len_between 1 128 s \<and> list_all (\<lambda>c. c \<in> set
     ''ABCDEFGHIJKLMNOPQRSTUVWXYZabcdefghijklmnopqrstuvwxyz0123456789_.:-'') s"

definition feedback_valid :: "ModelFeedbackRecord \<Rightarrow> bool" where
  "feedback_valid r \<longleftrightarrow> feedback_id_ok (fb_feedback_id r) \<and> fb_product_category r \<noteq> [] \<and> fb_inspection_id r \<noteq> [] \<and>
     hex64 (fb_image_sha256 r) \<and> fb_image_uri r \<noteq> [] \<and> fb_model_id r \<noteq> [] \<and> fb_model_version r \<noteq> [] \<and>
     fb_model_feedback r \<in> {''FALSE_POSITIVE'', ''SUSPECTED_FALSE_NEGATIVE'', ''CONFIRMED_NORMAL'',
       ''CONFIRMED_ANOMALY'', ''INCONCLUSIVE''} \<and>
     fb_reviewer_id r \<noteq> [] \<and>
     fb_reviewer_decision r \<in> {''PASS'', ''REWORK'', ''SCRAP'', ''INVESTIGATE'', ''UNABLE_TO_JUDGE''}"

definition validate_feedback :: "(string \<Rightarrow> ModelFeedbackRecord option) \<Rightarrow> string \<Rightarrow> ml_exn + ModelFeedbackRecord" where
  "validate_feedback decode line = (case decode line of
     None \<Rightarrow> ml_value_error ''invalid feedback line''
   | Some r \<Rightarrow> if feedback_valid r then Inr r else ml_value_error ''invalid feedback line'')"

text \<open>The loop over the lines; \<open>seen\<close> are the ids of the records so far.\<close>

fun feedback_lines ::
  "(string \<Rightarrow> ModelFeedbackRecord option) \<Rightarrow> string option \<Rightarrow> string list \<Rightarrow> string list \<Rightarrow>
   ml_exn + ModelFeedbackRecord list" where
  "feedback_lines decode category seen [] = Inr []"
| "feedback_lines decode category seen (line # rest) =
     (if strip line = [] then feedback_lines decode category seen rest
      else
        andThen (validate_feedback decode line) (\<lambda>r.
        andThen (ml_check (fb_feedback_id r \<notin> set seen) ''ValueError'' ''duplicate feedback_id'') (\<lambda>_.
        andThen (ml_check (category = None \<or> category = Some (fb_product_category r)) ''ValueError''
          ''feedback category mismatch'') (\<lambda>_.
        andThen (feedback_lines decode category (fb_feedback_id r # seen) rest) (\<lambda>rs. Inr (r # rs))))))"

definition load_feedback ::
  "(string \<Rightarrow> ModelFeedbackRecord option) \<Rightarrow> string list option \<Rightarrow> string option \<Rightarrow> ml_exn + ModelFeedbackRecord list" where
  "load_feedback decode file_lines category = (case file_lines of
     None \<Rightarrow> ml_raise ''FileNotFoundError'' ''feedback''
   | Some ls \<Rightarrow> andThen (feedback_lines decode category [] ls) (\<lambda>records.
       if records = [] then ml_value_error ''no feedback records'' else Inr records))"

definition feedback_dump :: "ModelFeedbackRecord \<Rightarrow> json" where
  "feedback_dump r = JObj
     [(''schema_version'', JStr ''visionqc.model-feedback.v1''), (''feedback_id'', JStr (fb_feedback_id r)),
      (''product_category'', JStr (fb_product_category r)), (''inspection_id'', JStr (fb_inspection_id r)),
      (''image_sha256'', JStr (fb_image_sha256 r)), (''image_uri'', JStr (fb_image_uri r)),
      (''model_id'', JStr (fb_model_id r)), (''model_version'', JStr (fb_model_version r)),
      (''model_feedback'', JStr (fb_model_feedback r)), (''reviewer_id'', JStr (fb_reviewer_id r)),
      (''reviewer_decision'', JStr (fb_reviewer_decision r)), (''observed_at'', JStr (fb_observed_at r)),
      (''notes'', JStr (fb_notes r))]"

record feedback_meta =
  fm_source :: string
  fm_product_category :: string
  fm_record_count :: nat
  fm_feedback_sha256 :: string
  fm_feedback_fingerprint :: string

text \<open>The lines that are written, by the JSON text \<open>dumps\<close>, and the meta data beside them.\<close>

definition write_feedback_input ::
  "ml_env \<Rightarrow> (json \<Rightarrow> string) \<Rightarrow> ModelFeedbackRecord list \<Rightarrow> string \<Rightarrow> ml_exn + string list \<times> feedback_meta" where
  "write_feedback_input env dumps records src =
     (case remdups (map fb_product_category records) of
        [] \<Rightarrow> ml_value_error ''feedback input must contain at least one record''
      | [category] \<Rightarrow>
          let file_lines = map (\<lambda>r. dumps (feedback_dump r)) records in
          Inr (file_lines, \<lparr>fm_source = src, fm_product_category = category, fm_record_count = length records,
            fm_feedback_sha256 = ml_sha256 env (concat (map (\<lambda>l. l @ [newline]) file_lines)),
            fm_feedback_fingerprint = sha256_json env (JList (map feedback_dump records))\<rparr>)
      | _ \<Rightarrow> ml_value_error ''feedback input must contain exactly one product category'')"

end
