(* ===== verification/MlRouting.thy ===== *)
theory MlRouting
  imports MlShadow MlThresholds Policy
begin

text \<open>
  The routing of a score by the model library and by the backend, what a shadow evaluation reports, and the
  round trip of reviewer feedback.
\<close>

section \<open>One routing\<close>

definition backend_route :: "ml_decision \<Rightarrow> PolicyRoute" where
  "backend_route d = (case d of ML_AUTO_RELEASE \<Rightarrow> AUTO_RELEASE | ML_REVIEW_REQUIRED \<Rightarrow> MANUAL_REVIEW
     | ML_BATCH_HOLD_AND_REVIEW \<Rightarrow> BATCH_HOLD_AND_REVIEW)"

lemma backend_route_inj: "backend_route d = backend_route d' \<longleftrightarrow> d = d'"
  by (cases d; cases d') (simp_all add: backend_route_def)

text \<open>C38. The thresholds that a valid policy of the backend resolves to are a valid policy of the model library, and the
  two route every score alike: the inference result that the library accepts for a score carries the decision that
  the backend takes for it, and the shadow evaluation reports the same route.\<close>

theorem routings_agree:
  assumes "valid_policy p" "evaluate_policy (Some s) (Some p) product station = Inr ev" "unit_range s"
  shows "\<exists>tp d reason. ml_threshold_policy (ev_review_threshold ev) (ev_hold_threshold ev) = Inr tp \<and>
     route tp s = Inr (d, reason) \<and> shadow_route s tp = d \<and> backend_route d = ev_route ev \<and>
     (\<forall>d'. policy_matches_score s (ev_review_threshold ev) (ev_hold_threshold ev) d' \<longleftrightarrow> backend_route d' = ev_route ev)"
proof -
  obtain rule where r: "resolve p product station = Inr rule" "ev_review_threshold ev = review_threshold rule"
      "ev_hold_threshold ev = hold_threshold rule"
      "ev_route ev = (if s < review_threshold rule then AUTO_RELEASE
         else if s < hold_threshold rule then MANUAL_REVIEW else BATCH_HOLD_AND_REVIEW)"
    using evaluate_policy_route [OF assms(2)] by blast
  have t: "0 \<le> review_threshold rule \<and> review_threshold rule < hold_threshold rule \<and> hold_threshold rule \<le> 1"
    using valid_policyD(3) [OF assms(1)] resolve_in_policy [OF r(1)] by blast
  show ?thesis using t assms(3) unfolding r(2-4)
    by (simp add: ml_threshold_policy_def route_def shadow_route_def policy_matches_score_def backend_route_def
        split: ml_decision.split)
qed

section \<open>Shadow evaluation\<close>

definition severity :: "ml_decision \<Rightarrow> nat" where
  "severity d = (case d of ML_AUTO_RELEASE \<Rightarrow> 0 | ML_REVIEW_REQUIRED \<Rightarrow> 1 | ML_BATCH_HOLD_AND_REVIEW \<Rightarrow> 2)"

lemma severity_inj: "severity d = severity d' \<Longrightarrow> d = d'"
  by (cases d; cases d') (simp_all add: severity_def)

lemma severity_mono:
  assumes "x \<le> y" "fst t' \<le> fst t" "snd t' \<le> snd t" "fst t < snd t"
  shows "severity (shadow_route x t) \<le> severity (shadow_route y t')"
  using assms by (cases t; cases t') (simp add: shadow_route_def severity_def)

lemma sum_counter: "sum_list (map snd (counter xs)) = length xs"
proof -
  have "sum_list (map snd (counter xs)) = sum_list (map (\<lambda>k. count_list xs k) (sort (remdups xs)))"
    by (simp add: counter_def comp_def count_where_def count_list_eq_length_filter eq_commute)
  also have "\<dots> = (\<Sum>k \<in> set xs. count_list xs k)"
    by (simp add: sum_list_distinct_conv_sum_set)
  also have "\<dots> = length xs" by (simp add: sum_count_set)
  finally show ?thesis .
qed

lemma record_by_id_dom: "record_by_id records i \<noteq> None \<longleftrightarrow> i \<in> set (sample_ids records)"
  by (force simp: record_by_id_def sample_ids_def map_of_eq_None_iff)

lemma paired_iff:
  assumes "set (sample_ids active) = set (sample_ids candidate)"
  shows "(i, a, c) \<in> set (paired active candidate) \<longleftrightarrow> record_by_id active i = Some a \<and> record_by_id candidate i = Some c"
  using record_by_id_dom [of active i]
  by (force simp: paired_def List.map_filter_def split: option.splits)

lemma paired_ids:
  assumes "set (sample_ids active) = set (sample_ids candidate)"
  shows "map fst (paired active candidate) = sample_ids active"
proof -
  let ?f = "\<lambda>i. case (record_by_id active i, record_by_id candidate i) of (Some a, Some c) \<Rightarrow> Some (i, a, c) | _ \<Rightarrow> None"
  have both: "map fst (List.map_filter ?f xs) = xs"
    if "\<forall>i \<in> set xs. record_by_id active i \<noteq> None \<and> record_by_id candidate i \<noteq> None" for xs
    using that by (induction xs) (auto simp: List.map_filter_simps)
  show ?thesis unfolding paired_def
    by (rule both) (use record_by_id_dom [of active] record_by_id_dom [of candidate] assms in blast)
qed

lemma shadow_Inr:
  assumes "run_shadow_evaluation env decode af cf aj cj cat = Inr rep"
  shows "\<exists>active candidate. load_score_records decode (fst af) None = Inr active \<and>
     load_score_records decode (fst cf) None = Inr candidate \<and>
     set (sample_ids active) = set (sample_ids candidate) \<and>
     shadow_thresholds env aj = Inr (sh_active_thresholds rep) \<and>
     shadow_thresholds env cj = Inr (sh_candidate_thresholds rep) \<and>
     sh_changed_samples rep = changed_samples (sh_active_thresholds rep) (sh_candidate_thresholds rep) active candidate \<and>
     sh_changed_sample_count rep = length (sh_changed_samples rep) \<and>
     sh_route_changes rep = counter (map change_text (sh_changed_samples rep))"
  using assms unfolding run_shadow_evaluation_def by (auto simp: Let_def)

lemma shadow_thresholds_ordered: "shadow_thresholds env j = Inr t \<Longrightarrow> fst t < snd t"
  by (auto simp: shadow_thresholds_def)

text \<open>A shadow evaluation lists every sample that the candidate would route differently, once and no other, and its
  counts add up. If the candidate scores no sample lower and its thresholds are not higher, it makes no decision
  milder: in particular it releases nothing that the active model holds back.\<close>

theorem shadow_report_exact:
  assumes "run_shadow_evaluation env decode active_file candidate_file active_json candidate_json category = Inr rep"
    "load_score_records decode (fst active_file) None = Inr active"
    "load_score_records decode (fst candidate_file) None = Inr candidate"
  shows "sum_list (map snd (sh_route_changes rep)) = sh_changed_sample_count rep \<and>
     distinct (map sc_sample_id (sh_changed_samples rep)) \<and>
     (\<forall>i a c. record_by_id active i = Some a \<and> record_by_id candidate i = Some c \<longrightarrow>
        (i \<in> set (map sc_sample_id (sh_changed_samples rep)) \<longleftrightarrow>
         shadow_route (sr_score a) (sh_active_thresholds rep) \<noteq> shadow_route (sr_score c) (sh_candidate_thresholds rep))) \<and>
     (fst (sh_candidate_thresholds rep) \<le> fst (sh_active_thresholds rep) \<and>
      snd (sh_candidate_thresholds rep) \<le> snd (sh_active_thresholds rep) \<longrightarrow>
        (\<forall>x \<in> set (sh_changed_samples rep). 0 \<le> sc_score_delta x \<longrightarrow>
           severity (sc_active_route x) < severity (sc_candidate_route x)))"
proof -
  let ?ta = "sh_active_thresholds rep" and ?tc = "sh_candidate_thresholds rep"
  from shadow_Inr [OF assms(1)] assms(2,3)
  have ids: "set (sample_ids active) = set (sample_ids candidate)"
    and ta: "fst ?ta < snd ?ta"
    and ch: "sh_changed_samples rep = changed_samples ?ta ?tc active candidate"
    and n: "sh_changed_sample_count rep = length (sh_changed_samples rep)"
      "sh_route_changes rep = counter (map change_text (sh_changed_samples rep))"
    using shadow_thresholds_ordered by auto
  have sid: "map sc_sample_id (map (change_of ?ta ?tc) xs) = map fst xs" for xs
    by (simp add: change_of_def comp_def case_prod_beta)
  have d: "distinct (map sc_sample_id (sh_changed_samples rep))"
    unfolding ch changed_samples_def
    by (rule distinct_map_filter) (simp only: sid paired_ids [OF ids], simp add: sample_ids_def)
  have m: "i \<in> set (map sc_sample_id (sh_changed_samples rep)) \<longleftrightarrow>
      shadow_route (sr_score a) ?ta \<noteq> shadow_route (sr_score c) ?tc"
    if "record_by_id active i = Some a" "record_by_id candidate i = Some c" for i a c
  proof -
    have here: "(i, a', c') \<in> set (paired active candidate) \<longleftrightarrow> a' = a \<and> c' = c" for a' c'
      using that paired_iff [OF ids] by auto
    have "i \<in> set (map sc_sample_id (sh_changed_samples rep)) \<longleftrightarrow>
        (\<exists>a' c'. (i, a', c') \<in> set (paired active candidate) \<and>
           shadow_route (sr_score a') ?ta \<noteq> shadow_route (sr_score c') ?tc)"
      unfolding ch changed_samples_def by (force simp: change_of_def image_iff)
    then show ?thesis unfolding here by blast
  qed
  have s: "severity (sc_active_route x) < severity (sc_candidate_route x)"
    if "fst ?tc \<le> fst ?ta" "snd ?tc \<le> snd ?ta" "x \<in> set (sh_changed_samples rep)" "0 \<le> sc_score_delta x" for x
  proof -
    from that(3) obtain i a c where x: "x = change_of ?ta ?tc (i, a, c)" "sc_active_route x \<noteq> sc_candidate_route x"
      unfolding ch changed_samples_def by auto
    have "severity (sc_active_route x) \<le> severity (sc_candidate_route x)"
      unfolding x(1) change_of_def using that(1,2,4) ta by (simp add: severity_mono x(1) change_of_def)
    moreover have "severity (sc_active_route x) \<noteq> severity (sc_candidate_route x)" using x(2) severity_inj by blast
    ultimately show ?thesis by simp
  qed
  show ?thesis using d m s sum_counter [of "map change_text (sh_changed_samples rep)"] unfolding n by simp
qed

section \<open>Feedback\<close>

lemma feedback_lines_back:
  assumes "\<forall>r \<in> set records. feedback_valid r \<and> decode (dumps (feedback_dump r)) = Some r \<and>
      strip (dumps (feedback_dump r)) \<noteq> [] \<and> fb_product_category r = category"
    "distinct (map fb_feedback_id records)" "set (map fb_feedback_id records) \<inter> set seen = {}"
  shows "feedback_lines decode (Some category) seen (map (\<lambda>r. dumps (feedback_dump r)) records) = Inr records"
  using assms by (induction records arbitrary: seen) (simp_all add: validate_feedback_def ml_check_def)

text \<open>Feedback that is written for a later evaluation reads back as the same records, if their ids are distinct.\<close>

theorem feedback_roundtrip:
  assumes "write_feedback_input env dumps records src = Inr (file_lines, meta)"
    "\<forall>r \<in> set records. feedback_valid r \<and> decode (dumps (feedback_dump r)) = Some r \<and> strip (dumps (feedback_dump r)) \<noteq> []"
    "distinct (map fb_feedback_id records)"
  shows "load_feedback decode (Some file_lines) (Some (fm_product_category meta)) = Inr records \<and>
     fm_record_count meta = length records"
proof -
  obtain c where c: "remdups (map fb_product_category records) = [c]"
    using assms(1) by (auto simp: write_feedback_input_def split: list.splits)
  then have "set (map fb_product_category records) = {c}" by (metis list.set(1) list.simps(15) set_remdups)
  then have "\<forall>r \<in> set records. fb_product_category r = c" "records \<noteq> []" by auto
  moreover have "file_lines = map (\<lambda>r. dumps (feedback_dump r)) records" "fm_product_category meta = c"
    "fm_record_count meta = length records"
    using assms(1) c by (auto simp: write_feedback_input_def Let_def)
  ultimately show ?thesis
    using feedback_lines_back [of records decode dumps c "[]"] assms(2,3) by (simp add: load_feedback_def)
qed

section \<open>Examples\<close>

lemma map_sum_InrD: "map_sum id f x = Inr y \<Longrightarrow> \<exists>v. x = Inr v \<and> f v = y"
  by (cases x) simp_all

theorem routings_agree_witness:
  "\<exists>ev tp reason. evaluate_policy (Some (4 / 10)) (Some example_policy) ''P1'' ''S2'' = Inr ev \<and>
     route tp (4 / 10) = Inr (ML_REVIEW_REQUIRED, reason) \<and> ev_route ev = MANUAL_REVIEW"
proof -
  have res: "resolve example_policy ''P1'' ''S2'' = Inr (overrides example_policy ! 0)"
    by (simp add: resolve_reference [OF valid_example_policy])
      (simp add: resolve_by_selector_def rule_for_def example_policy_def selector_def)
  then have "\<exists>ev. evaluate_policy (Some s) (Some example_policy) ''P1'' ''S2'' = Inr ev" for s
    by (simp add: evaluate_policy_def)
  then obtain ev where ev: "evaluate_policy (Some (4 / 10)) (Some example_policy) ''P1'' ''S2'' = Inr ev"
    by blast
  have m: "ev_route ev = MANUAL_REVIEW"
    using evaluate_policy_route [OF ev] res by (simp add: example_policy_def)
  have "unit_range (4 / 10)" by (simp add: unit_range_def)
  from routings_agree [OF valid_example_policy ev this] obtain tp d reason
    where r: "route tp (4 / 10) = Inr (d, reason)" "backend_route d = ev_route ev" by blast
  from r(2) have "d = ML_REVIEW_REQUIRED" unfolding m by (cases d) (simp_all add: backend_route_def)
  with r(1) ev m show ?thesis by blast
qed

definition shadow_decode :: "string \<Rightarrow> ScoreRecord option" where
  "shadow_decode l = (if l = ''a1'' then Some (example_score 0 (1/10)\<lparr>sr_sample_id := ''1''\<rparr>)
     else if l = ''a2'' then Some (example_score 1 (5/10)\<lparr>sr_sample_id := ''2''\<rparr>)
     else if l = ''c1'' then Some (example_score 0 (2/10)\<lparr>sr_sample_id := ''1''\<rparr>)
     else if l = ''c2'' then Some (example_score 1 (9/10)\<lparr>sr_sample_id := ''2''\<rparr>) else None)"

definition shadow_json :: json where
  "shadow_json = JObj [(''review_threshold'', JFloat (4/10)), (''hold_threshold'', JFloat (8/10))]"

definition shadow_env :: ml_env where
  "shadow_env = \<lparr>ml_sha256 = (\<lambda>s. s), ml_dumps = (\<lambda>_. ''json''), ml_loads = (\<lambda>_. None),
     ml_manifest_fields = (\<lambda>_. None), ml_float_of = (\<lambda>_. None), ml_str_of = (\<lambda>_. []), ml_tree = (\<lambda>_. None),
     ml_file = (\<lambda>_. None)\<rparr>"

definition shadow_run :: "ml_exn + shadow_report" where
  "shadow_run = run_shadow_evaluation shadow_env shadow_decode ([''a1'', ''a2''], ''x'') ([''c1'', ''c2''], ''y'')
     shadow_json shadow_json ''k''"

theorem shadow_report_exact_witness:
  "\<exists>rep. shadow_run = Inr rep \<and> sh_route_changes rep = [(''REVIEW_REQUIRED->BATCH_HOLD_AND_REVIEW'', 1)] \<and>
     sum_list (map snd (sh_route_changes rep)) = sh_changed_sample_count rep"
proof -
  have c: "map_sum id sh_route_changes shadow_run = Inr [(''REVIEW_REQUIRED->BATCH_HOLD_AND_REVIEW'', 1)]" by code_simp
  then obtain rep where r: "shadow_run = Inr rep" "sh_route_changes rep = [(''REVIEW_REQUIRED->BATCH_HOLD_AND_REVIEW'', 1)]"
    using map_sum_InrD [OF c] by blast
  from shadow_Inr [OF r(1) [unfolded shadow_run_def]] obtain active candidate where l:
    "load_score_records shadow_decode (fst ([''a1'', ''a2''], ''x'')) None = Inr active"
    "load_score_records shadow_decode (fst ([''c1'', ''c2''], ''y'')) None = Inr candidate" by blast
  from shadow_report_exact [OF r(1) [unfolded shadow_run_def] l] r show ?thesis by blast
qed

definition example_feedback :: "string \<Rightarrow> ModelFeedbackRecord" where
  "example_feedback n = \<lparr>fb_feedback_id = n, fb_product_category = ''k'', fb_inspection_id = ''i'',
     fb_image_sha256 = replicate 64 CHR ''0'', fb_image_uri = ''u'', fb_model_id = ''m'', fb_model_version = ''1'',
     fb_model_feedback = ''CONFIRMED_NORMAL'', fb_reviewer_id = ''r'', fb_reviewer_decision = ''PASS'',
     fb_observed_at = ''t'', fb_notes = []\<rparr>"

text \<open>A JSON text that keeps the id.\<close>

definition feedback_dumps :: "json \<Rightarrow> string" where
  "feedback_dumps j = (case jfield ''feedback_id'' j of JStr s \<Rightarrow> s | _ \<Rightarrow> [])"

theorem feedback_roundtrip_witness:
  "\<exists>file_lines meta. write_feedback_input shadow_env feedback_dumps [example_feedback ''f1'', example_feedback ''f2''] ''human_review'' =
       Inr (file_lines, meta) \<and>
     load_feedback (\<lambda>l. Some (example_feedback l)) (Some file_lines) (Some (fm_product_category meta)) =
       Inr [example_feedback ''f1'', example_feedback ''f2'']"
proof -
  let ?rs = "[example_feedback ''f1'', example_feedback ''f2'']"
  have "isl (write_feedback_input shadow_env feedback_dumps ?rs ''human_review'') = False" by code_simp
  then obtain file_lines meta where w: "write_feedback_input shadow_env feedback_dumps ?rs ''human_review'' = Inr (file_lines, meta)"
    by (cases "write_feedback_input shadow_env feedback_dumps ?rs ''human_review''") auto
  have v: "feedback_valid (example_feedback ''f1'')" "feedback_valid (example_feedback ''f2'')"
    "feedback_dumps (feedback_dump (example_feedback ''f1'')) = ''f1''"
    "feedback_dumps (feedback_dump (example_feedback ''f2'')) = ''f2''"
    "strip ''f1'' = ''f1''" "strip ''f2'' = ''f2''" by code_simp+
  have "\<forall>r \<in> set ?rs. feedback_valid r \<and> Some (example_feedback (feedback_dumps (feedback_dump r))) = Some r \<and>
      strip (feedback_dumps (feedback_dump r)) \<noteq> []"
    using v by simp
  from feedback_roundtrip [OF w this] w show ?thesis by (simp add: example_feedback_def)
qed

end
