(* ===== verification/MlBaseline.thy ===== *)
theory MlBaseline
  imports MlReport
begin

text \<open>
  \<^verbatim>\<open>ml/src/visionqc_ml/qualification.py\<close>, \<open>load_pilot_evidence\<close> and \<open>qualify_from_run\<close>: the
  artifacts of a baseline run are read, compared with each other, and turned into the arguments of a qualification
  report.
\<close>

section \<open>Files and paths\<close>

text \<open>
  What the run reads beside the libraries of a report: \<open>expanduser\<close> and \<open>resolve\<close> of a path, the dataset
  directory at a path, the size an image declares, pydantic's conversions of a manifest line, a score line, a
  calibration result and the meta data of a manifest, the lines of a file, \<open>roc_auc_score\<close>,
  \<open>precision_recall_fscore_support\<close> of labels and predictions, and the sorted files below a directory.
\<close>

record baseline_env = report_env +
  bl_expand :: "string \<Rightarrow> string"
  bl_resolve :: "string \<Rightarrow> string option"
  bl_dataset :: "string \<Rightarrow> dataset_disk"
  bl_header :: "string \<Rightarrow> (int \<times> int) option"
  bl_entry :: "string \<Rightarrow> ManifestEntry option"
  bl_score :: "string \<Rightarrow> ScoreRecord option"
  bl_calibration :: "json \<Rightarrow> CalibrationResult option"
  bl_calibration_dump :: "CalibrationResult \<Rightarrow> json"
  bl_meta :: "dict \<Rightarrow> manifest_meta option"
  bl_lines :: "string \<Rightarrow> string list"
  bl_roc_auc :: "(int \<times> rat) list \<Rightarrow> rat"
  bl_prf :: "(int \<times> bool) list \<Rightarrow> rat \<times> rat \<times> rat"
  bl_below :: "string \<Rightarrow> string list"

abbreviation base_env :: "baseline_env \<Rightarrow> ml_env" where
  "base_env env \<equiv> ml_env.truncate env"

definition resolve_path :: "baseline_env \<Rightarrow> string \<Rightarrow> ml_exn + string" where
  "resolve_path env p = (case bl_resolve env p of None \<Rightarrow> ml_raise ''OSError'' p | Some r \<Rightarrow> Inr r)"

text \<open>\<open>_within\<close>: a path that cannot be resolved lies nowhere.\<close>

definition path_within :: "baseline_env \<Rightarrow> string \<Rightarrow> string \<Rightarrow> bool" where
  "path_within env path dir = (case (bl_resolve env path, bl_resolve env dir) of
     (Some p, Some d) \<Rightarrow> prefix (pure_parts d) (pure_parts p) | _ \<Rightarrow> False)"

definition parent_path :: "string \<Rightarrow> string" where
  "parent_path p = join_with ''/'' (butlast (split_on CHR ''/'' p))"

text \<open>\<open>_required_file\<close>, with the contents of the file.\<close>

definition required_file :: "baseline_env \<Rightarrow> string \<Rightarrow> string \<Rightarrow> ml_exn + string" where
  "required_file env path what = (case ml_file env path of
     None \<Rightarrow> ml_value_error (what @ '' is missing'') | Some contents \<Rightarrow> Inr contents)"

definition parse_json :: "baseline_env \<Rightarrow> string \<Rightarrow> ml_exn + json" where
  "parse_json env contents = (case ml_loads env contents of
     None \<Rightarrow> ml_value_error ''JSONDecodeError'' | Some j \<Rightarrow> Inr j)"

definition parse_dict :: "baseline_env \<Rightarrow> string \<Rightarrow> ml_exn + dict" where
  "parse_dict env contents = andThen (parse_json env contents) ml_dict"

abbreviation run_check :: "bool \<Rightarrow> string \<Rightarrow> ml_exn + unit" where
  "run_check b m \<equiv> ml_check b ''ValueError'' m"

text \<open>\<open>d.get(k, {})\<close> whose \<open>get\<close> is called.\<close>

definition sub_dict :: "string \<Rightarrow> dict \<Rightarrow> ml_exn + dict" where
  "sub_dict k d = ml_dict (jget_or k (JObj []) d)"

text \<open>\<open>float(v)\<close>.\<close>

definition ml_number :: "baseline_env \<Rightarrow> json \<Rightarrow> ml_exn + rat" where
  "ml_number env v = (case v of
     JInt i \<Rightarrow> Inr (of_int i)
   | JFloat x \<Rightarrow> Inr x
   | JBool b \<Rightarrow> Inr (if b then 1 else 0)
   | JStr s \<Rightarrow> (case ml_float_of env s of None \<Rightarrow> ml_value_error s | Some x \<Rightarrow> Inr x)
   | _ \<Rightarrow> ml_raise ''TypeError'' ''float'')"

definition assert_close :: "baseline_env \<Rightarrow> json \<Rightarrow> rat \<Rightarrow> string \<Rightarrow> ml_exn + unit" where
  "assert_close env actual expected what =
     (if actual = JNull then ml_value_error (what @ '' does not match derived evidence'')
      else andThen (ml_number env actual) (\<lambda>x.
        run_check (\<bar>x - expected\<bar> \<le> 1 / 10 ^ 8) (what @ '' does not match derived evidence'')))"

section \<open>Manifest, receipt and data set\<close>

record baseline_manifest =
  bm_manifest_path :: string
  bm_manifest_body :: string
  bm_meta_path :: string
  bm_meta_body :: string
  bm_meta :: dict
  bm_root :: string
  bm_receipt_path :: string
  bm_receipt :: dict
  bm_summary :: json

definition manifest_location :: "baseline_env \<Rightarrow> string \<Rightarrow> dict \<Rightarrow> ml_exn + string" where
  "manifest_location env run_dir run =
     (let declared = bl_expand env (ml_str (base_env env) (jget_or ''manifest_path'' (JStr []) run)) in
      if startswith ''/'' declared then Inr declared else resolve_path env (ml_join_path run_dir declared))"

definition check_receipt :: "baseline_env \<Rightarrow> string \<Rightarrow> string \<Rightarrow> dict \<Rightarrow> ml_exn + unit" where
  "check_receipt env category dataset receipt =
     andThen (resolve_path env (ml_str (base_env env) (jget_or ''dataset_root'' (JStr []) receipt))) (\<lambda>declared.
     andThen (run_check (jget_null ''category'' receipt = JStr category \<and> declared = dataset \<and>
         jget_or ''source_type'' (JStr ''OFFICIAL_BENCHMARK'') receipt = JStr ''OFFICIAL_BENCHMARK'')
       ''dataset receipt category or path does not match the manifest'') (\<lambda>_.
     run_check (jget_null ''license_acknowledged'' receipt = JBool True)
       ''dataset license acknowledgement is missing from the receipt''))"

definition check_source_config :: "baseline_env \<Rightarrow> string \<Rightarrow> string option \<Rightarrow> dict \<Rightarrow> ml_exn + unit" where
  "check_source_config env category config receipt = (case config of
     None \<Rightarrow> Inr ()
   | Some path \<Rightarrow> (case ml_file env path of
       None \<Rightarrow> ml_raise ''FileNotFoundError'' path
     | Some contents \<Rightarrow>
         andThen (parse_dict env contents) (\<lambda>src.
         andThen (run_check (jget_null ''category'' src = JStr category)
           ''source configuration category does not match the Pilot category'') (\<lambda>_.
         run_check (json_truthy (jget_null ''archive_sha256'' src) \<longrightarrow>
             jget_null ''source_archive_sha256'' receipt = jget_null ''archive_sha256'' src)
           ''dataset archive SHA-256 does not match the source configuration''))))"

definition read_manifest ::
  "baseline_env \<Rightarrow> string \<Rightarrow> string \<Rightarrow> string option \<Rightarrow> string option \<Rightarrow> ml_exn + baseline_manifest" where
  "read_manifest env run_dir category dataset_root config =
     andThen (required_file env (ml_join_path run_dir ''run.json'') ''baseline run manifest'') (\<lambda>run_body.
     andThen (required_file env (ml_join_path run_dir ''summary.json'') ''baseline run summary'') (\<lambda>summary_body.
     andThen (parse_json env run_body) (\<lambda>run_json.
     andThen (parse_json env summary_body) (\<lambda>summary.
     andThen (ml_dict run_json) (\<lambda>run.
     andThen (manifest_location env run_dir run) (\<lambda>manifest_path.
     andThen (required_file env manifest_path ''dataset manifest'') (\<lambda>manifest_body.
     let meta_path = ml_join_path (parent_path manifest_path) ''manifest-meta.json'' in
     andThen (required_file env meta_path ''dataset manifest metadata'') (\<lambda>meta_body.
     andThen (parse_dict env meta_body) (\<lambda>meta.
     andThen (run_check (jget_or ''source_type'' (JStr ''OFFICIAL_BENCHMARK'') meta = JStr ''OFFICIAL_BENCHMARK'')
       ''benchmark qualification requires an OFFICIAL_BENCHMARK manifest'') (\<lambda>_.
     andThen (run_check (jget_null ''category'' meta = JStr category) ''manifest category mismatch'') (\<lambda>_.
     let declared_root = bl_expand env (ml_str (base_env env) (jget_or ''dataset_root'' (JStr []) meta)) in
     andThen (resolve_path env (case dataset_root of None \<Rightarrow> declared_root | Some d \<Rightarrow> d)) (\<lambda>dataset.
     andThen (resolve_path env declared_root) (\<lambda>declared.
     andThen (run_check (dataset = declared) ''dataset root mismatch'') (\<lambda>_.
     let receipt_path = ml_join_path dataset (category @ ''.directory-receipt.json'') in
     andThen (required_file env receipt_path ''dataset directory receipt'') (\<lambda>receipt_body.
     andThen (parse_dict env receipt_body) (\<lambda>receipt.
     andThen (check_receipt env category dataset receipt) (\<lambda>_.
     andThen (check_source_config env category config receipt) (\<lambda>_.
     Inr \<lparr>bm_manifest_path = manifest_path, bm_manifest_body = manifest_body, bm_meta_path = meta_path,
       bm_meta_body = meta_body, bm_meta = meta, bm_root = dataset, bm_receipt_path = receipt_path,
       bm_receipt = receipt, bm_summary = summary\<rparr>))))))))))))))))))"

section \<open>Entries and splits\<close>

definition dataset_env_of :: "baseline_env \<Rightarrow> dataset_env" where
  "dataset_env_of env = ml_env.extend (base_env env) (dataset_env.fields (bl_header env) (\<lambda>_. True))"

text \<open>A dict equals the dict of these counts.\<close>

definition counts_are :: "json \<Rightarrow> (string \<times> nat) list \<Rightarrow> bool" where
  "counts_are j counts = (case j of
     JObj kvs \<Rightarrow> set (map fst kvs) = set (map fst counts) \<and>
       list_all (\<lambda>(k, n). equals_int (jget_or k JNull kvs) (int n)) counts
   | _ \<Rightarrow> False)"

definition split_counts :: "ManifestEntry list \<Rightarrow> (string \<times> nat) list" where
  "split_counts es = map (\<lambda>s. (s, count_where (\<lambda>e. man_split e = s) es)) [''train'', ''validation'', ''test'']"

definition baseline_entries ::
  "baseline_env \<Rightarrow> string \<Rightarrow> baseline_manifest \<Rightarrow> ml_exn + ManifestEntry list \<times> split_manifest" where
  "baseline_entries env category bm =
     andThen (case bl_meta env (bm_meta bm) of None \<Rightarrow> ml_raise ''KeyError'' ''manifest-meta.json'' | Some m \<Rightarrow> Inr m) (\<lambda>meta.
     andThen (verify_manifest (dataset_env_of env) (bl_entry env) (bl_dataset env (bm_root bm))
       (Some (bm_manifest_body bm)) (Some meta)) (\<lambda>_.
     andThen (load_manifest (bl_entry env) (Some (bm_manifest_body bm)) None) (\<lambda>es.
     andThen (run_check (set (map man_category es) = {category})
       ''manifest contains more than the requested category'') (\<lambda>_.
     andThen (run_check (counts_are (jget_null ''counts'' (bm_meta bm)) (split_counts es))
       ''manifest split counts do not match manifest metadata'') (\<lambda>_.
     andThen (pilot_split_manifest es) (\<lambda>rows.
     Inr (es, rows)))))))"

definition row_dump :: "split_row \<Rightarrow> json" where
  "row_dump r = JObj ([(''sample_id'', JStr (sp_sample_id r)), (''split'', JStr (sp_split r)),
     (''source_split'', JOpt (sp_source_split r)), (''category'', JOpt (sp_category r)),
     (''image_path'', JStr (sp_image_path r)), (''image_sha256'', JStr (sp_image_sha256 r)),
     (''mask_path'', JOpt (sp_mask_path r)), (''mask_sha256'', JOpt (sp_mask_sha256 r)),
     (''label'', JInt (sp_label r)), (''anomaly_subtype'', JStr (sp_anomaly_subtype r))])"

definition pilot_split_document :: "baseline_env \<Rightarrow> dict \<Rightarrow> split_manifest \<Rightarrow> dict" where
  "pilot_split_document env meta rows =
     (let splits = map (\<lambda>(k, rs). (k, JList (map row_dump rs))) rows;
          document = [(''schema_version'', JStr ''visionqc.pilot-split-manifest.v2''), (''protocol'', JStr ''A+B''),
            (''rule'', JStr ''train remains adaptation data; validation calibrates thresholds; original test is frozen holdout''),
            (''source_manifest_sha256'', jget_null ''manifest_sha256'' meta)] @ splits;
          hashed = document @ [(''split_sha256'', JObj (map (\<lambda>(k, v). (k, JStr (sha256_json (base_env env) v))) splits))]
      in hashed @ [(''manifest_sha256'', JStr (sha256_json (base_env env) (JObj hashed)))])"

section \<open>Summary, package and predictions\<close>

text \<open>A path of a document, if it is given, resolves to this one.\<close>

definition names_path :: "baseline_env \<Rightarrow> json \<Rightarrow> string \<Rightarrow> ml_exn + bool" where
  "names_path env v path =
     (if \<not> json_truthy v then Inr True
      else andThen (resolve_path env (bl_expand env (ml_str (base_env env) v))) (\<lambda>p. Inr (p = path)))"

definition check_summary :: "baseline_env \<Rightarrow> string \<Rightarrow> string \<Rightarrow> string \<Rightarrow> dict \<Rightarrow> dict \<Rightarrow> ml_exn + unit" where
  "check_summary env run_dir category package_path summary meta =
     andThen (names_path env (jget_null ''package_dir'' summary) package_path) (\<lambda>ok.
     andThen (run_check ok ''model package path does not match the baseline summary'') (\<lambda>_.
     andThen (names_path env (jget_null ''run_dir'' summary) run_dir) (\<lambda>ok'.
     andThen (run_check ok' ''baseline run path does not match run.json/CLI input'') (\<lambda>_.
     andThen (run_check (jget_null ''category'' summary = JStr category)
       ''baseline summary category does not match the Pilot category'') (\<lambda>_.
     run_check (jget_null ''dataset_fingerprint'' summary = jget_null ''dataset_fingerprint'' meta)
       ''baseline summary dataset fingerprint does not match the manifest'')))))"

definition baseline_package ::
  "baseline_env \<Rightarrow> string \<Rightarrow> string \<Rightarrow> dict \<Rightarrow> dict \<Rightarrow> ml_exn + ModelPackageManifest" where
  "baseline_package env category package_path summary meta =
     andThen (verify_model_package (base_env env) package_path (Some category)) (\<lambda>m.
     andThen (run_check (jget_null ''package_sha256'' summary = JStr (mp_package_sha256 m))
       ''model package SHA-256 does not match the baseline summary'') (\<lambda>_.
     andThen (run_check (jget_null ''dataset_fingerprint'' meta = JStr (mp_dataset_fingerprint m))
       ''model package dataset fingerprint does not match the manifest'') (\<lambda>_.
     andThen (run_check (jget_null ''manifest_sha256'' meta = JStr (mp_training_manifest_sha256 m))
       ''model package manifest SHA-256 does not match the dataset manifest'') (\<lambda>_.
     Inr m))))"

record baseline_files =
  bf_validation :: string
  bf_test :: string
  bf_thresholds :: string
  bf_evaluation :: string
  bf_performance :: string
  bf_gallery :: string

definition validation_path :: "string \<Rightarrow> string" where
  "validation_path run_dir = ml_join_path run_dir ''predictions/validation.jsonl''"

definition test_path :: "string \<Rightarrow> string" where
  "test_path run_dir = ml_join_path run_dir ''predictions/test.jsonl''"

definition thresholds_path :: "string \<Rightarrow> string" where
  "thresholds_path run_dir = ml_join_path run_dir ''calibration/thresholds.json''"

definition evaluation_path :: "string \<Rightarrow> string" where
  "evaluation_path run_dir = ml_join_path run_dir ''evaluation/evaluation.json''"

definition performance_path :: "string \<Rightarrow> string" where
  "performance_path run_dir = ml_join_path run_dir ''performance-probe.json''"

definition gallery_dir :: "string \<Rightarrow> string" where
  "gallery_dir run_dir = ml_join_path run_dir ''gallery''"

definition read_run_files :: "baseline_env \<Rightarrow> string \<Rightarrow> ml_exn + baseline_files" where
  "read_run_files env run_dir =
     andThen (required_file env (validation_path run_dir) ''validation predictions'') (\<lambda>v.
     andThen (required_file env (test_path run_dir) ''test predictions'') (\<lambda>t.
     andThen (required_file env (thresholds_path run_dir) ''calibration thresholds'') (\<lambda>c.
     andThen (required_file env (evaluation_path run_dir) ''evaluation report'') (\<lambda>e.
     andThen (required_file env (performance_path run_dir) ''performance probe'') (\<lambda>p.
     andThen (required_file env (ml_join_path (gallery_dir run_dir) ''gallery.json'') ''error gallery JSON'') (\<lambda>g.
     andThen (required_file env (ml_join_path (gallery_dir run_dir) ''index.html'') ''error gallery HTML'') (\<lambda>_.
     Inr \<lparr>bf_validation = v, bf_test = t, bf_thresholds = c, bf_evaluation = e, bf_performance = p, bf_gallery = g\<rparr>)))))))"

text \<open>The loop of \<open>_validate_prediction_alignment\<close>.\<close>

definition heatmap_location :: "string \<Rightarrow> ScoreRecord \<Rightarrow> string" where
  "heatmap_location predictions r = ml_join_path (parent_path predictions) (sr_heatmap_path r)"

definition record_aligned ::
  "baseline_env \<Rightarrow> string \<Rightarrow> string \<Rightarrow> string \<Rightarrow> ManifestEntry \<Rightarrow> ScoreRecord \<Rightarrow> ml_exn + unit" where
  "record_aligned env category run_dir predictions e r =
     andThen (run_check (sr_product_category r = Some category) ''prediction category mismatch'') (\<lambda>_.
     andThen (run_check (sr_image_path r = man_image_path e) ''prediction image path mismatch'') (\<lambda>_.
     andThen (run_check (sr_label r = man_label e \<and> sr_anomaly_subtype r = man_anomaly_subtype e)
       ''prediction label/subtype mismatch'') (\<lambda>_.
     run_check (path_within env (heatmap_location predictions r) run_dir \<and>
         ml_file env (heatmap_location predictions r) \<noteq> None)
       ''prediction heatmap path is missing or outside the run'')))"

text \<open>\<open>{entry.sample_id: entry for entry in entries if entry.split == split}\<close>.\<close>

definition entry_by_id :: "ManifestEntry list \<Rightarrow> string \<Rightarrow> string \<Rightarrow> ManifestEntry option" where
  "entry_by_id es split = map_of (rev (map (\<lambda>e. (man_sample_id e, e)) (filter (\<lambda>e. man_split e = split) es)))"

fun records_aligned ::
  "baseline_env \<Rightarrow> string \<Rightarrow> string \<Rightarrow> string \<Rightarrow> (string \<Rightarrow> ManifestEntry option) \<Rightarrow> ScoreRecord list \<Rightarrow> ml_exn + unit" where
  "records_aligned env category run_dir predictions by_id [] = Inr ()"
| "records_aligned env category run_dir predictions by_id (r # rs) = (case by_id (sr_sample_id r) of
     None \<Rightarrow> ml_raise ''KeyError'' (sr_sample_id r)
   | Some e \<Rightarrow> andThen (record_aligned env category run_dir predictions e r) (\<lambda>_.
       records_aligned env category run_dir predictions by_id rs))"

definition prediction_alignment ::
  "baseline_env \<Rightarrow> string \<Rightarrow> string \<Rightarrow> string \<Rightarrow> string \<Rightarrow> ManifestEntry list \<Rightarrow> ScoreRecord list \<Rightarrow> ml_exn + unit" where
  "prediction_alignment env category run_dir predictions split es records =
     andThen (run_check (set (map sr_sample_id records) = set (map man_sample_id (filter (\<lambda>e. man_split e = split) es)))
       (split @ '' predictions do not exactly cover the manifest'')) (\<lambda>_.
     records_aligned env category run_dir predictions (entry_by_id es split) records)"

definition read_predictions ::
  "baseline_env \<Rightarrow> string \<Rightarrow> string \<Rightarrow> ManifestEntry list \<Rightarrow> baseline_files \<Rightarrow> ml_exn + ScoreRecord list \<times> ScoreRecord list" where
  "read_predictions env category run_dir es bf =
     andThen (load_score_records (bl_score env) (bl_lines env (bf_validation bf)) (Some ''validation'')) (\<lambda>validation.
     andThen (load_score_records (bl_score env) (bl_lines env (bf_test bf)) (Some ''test'')) (\<lambda>test.
     andThen (prediction_alignment env category run_dir (validation_path run_dir) ''validation'' es validation) (\<lambda>_.
     andThen (prediction_alignment env category run_dir (test_path run_dir) ''test'' es test) (\<lambda>_.
     Inr (validation, test)))))"

section \<open>Thresholds\<close>

text \<open>A file of the package is the one of the run.\<close>

definition same_file :: "baseline_env \<Rightarrow> string \<Rightarrow> string \<Rightarrow> string \<Rightarrow> ml_exn + unit" where
  "same_file env path contents message = (case ml_file env path of
     None \<Rightarrow> ml_raise ''FileNotFoundError'' path
   | Some c \<Rightarrow> run_check (ml_sha256 env c = ml_sha256 env contents) message)"

definition read_thresholds ::
  "baseline_env \<Rightarrow> string \<Rightarrow> baseline_manifest \<Rightarrow> baseline_files \<Rightarrow> ScoreRecord list \<Rightarrow> ml_exn + CalibrationResult" where
  "read_thresholds env package_path bm bf validation =
     andThen (parse_json env (bf_thresholds bf)) (\<lambda>j.
     andThen (case bl_calibration env j of None \<Rightarrow> ml_raise ''ValidationError'' ''thresholds'' | Some t \<Rightarrow> Inr t) (\<lambda>t.
     andThen (run_check (cal_source_predictions_sha256 t = ml_sha256 env (bf_validation bf))
       ''threshold source prediction SHA-256 does not match validation predictions'') (\<lambda>_.
     andThen (run_check (cal_total t = length validation \<and> cal_normal t = length (scores_of 0 validation) \<and>
         cal_anomalous t = length (scores_of 1 validation))
       ''threshold sample counts do not match validation predictions'') (\<lambda>_.
     andThen (same_file env (ml_join_path package_path ''config/thresholds.json'') (bf_thresholds bf)
       ''model package thresholds do not match the baseline calibration thresholds'') (\<lambda>_.
     andThen (same_file env (ml_join_path package_path ''provenance/manifest-meta.json'') (bm_meta_body bm)
       ''model package manifest metadata does not match the baseline manifest metadata'') (\<lambda>_.
     Inr t))))))"

section \<open>Evaluation, latency and gallery\<close>

definition read_evaluation ::
  "baseline_env \<Rightarrow> string \<Rightarrow> string \<Rightarrow> dict \<Rightarrow> ModelPackageManifest \<Rightarrow> baseline_files \<Rightarrow> CalibrationResult \<Rightarrow> ml_exn + dict" where
  "read_evaluation env category package_path meta m bf t =
     andThen (parse_dict env (bf_evaluation bf)) (\<lambda>evaluation.
     andThen (run_check (jget_null ''schema_version'' evaluation = JStr ''visionqc.evaluation.v1'' \<and>
         jget_null ''evaluation_split'' evaluation = JStr ''test'') ''evaluation must be a visionqc test evaluation'') (\<lambda>_.
     andThen (sub_dict ''artifacts'' evaluation) (\<lambda>artifacts.
     andThen (run_check (jget_null ''predictions_sha256'' artifacts = JStr (ml_sha256 env (bf_test bf)))
       ''evaluation prediction SHA-256 does not match test predictions'') (\<lambda>_.
     andThen (run_check (jget_null ''thresholds_sha256'' artifacts = JStr (ml_sha256 env (bf_thresholds bf)))
       ''evaluation threshold SHA-256 does not match calibration thresholds'') (\<lambda>_.
     andThen (sub_dict ''dataset'' evaluation) (\<lambda>data.
     andThen (run_check (jget_null ''category'' data = JStr category)
       ''evaluation category does not match the Pilot category'') (\<lambda>_.
     andThen (run_check (jget_null ''dataset_fingerprint'' data = jget_null ''dataset_fingerprint'' meta)
       ''evaluation dataset_fingerprint does not match manifest metadata'') (\<lambda>_.
     andThen (run_check (jget_null ''manifest_sha256'' data = jget_null ''manifest_sha256'' meta)
       ''evaluation manifest_sha256 does not match manifest metadata'') (\<lambda>_.
     andThen (sub_dict ''split_sha256'' meta) (\<lambda>splits.
     andThen (run_check (jget_null ''test_split_sha256'' data = jget_null ''test'' splits)
       ''evaluation test split SHA-256 does not match manifest metadata'') (\<lambda>_.
     andThen (sub_dict ''model'' evaluation) (\<lambda>model.
     andThen (run_check (jget_null ''id'' model = JStr (mp_model_id m) \<and>
         jget_null ''version'' model = JStr (mp_model_version m))
       ''evaluation model identity does not match the model package'') (\<lambda>_.
     andThen (run_check (jget_null ''adapter'' model = JStr (mp_adapter m))
       ''evaluation model adapter does not match the model package'') (\<lambda>_.
     andThen (case bl_calibration env (jget_or ''thresholds'' (JObj []) evaluation) of
         None \<Rightarrow> ml_raise ''ValidationError'' ''thresholds'' | Some t' \<Rightarrow> Inr t') (\<lambda>t'.
     andThen (run_check (bl_calibration_dump env t' = bl_calibration_dump env t)
       ''evaluation thresholds do not match the frozen calibration artifact'') (\<lambda>_.
     andThen (same_file env (ml_join_path package_path ''metrics/evaluation.json'') (bf_evaluation bf)
       ''model package evaluation report does not match the baseline evaluation'') (\<lambda>_.
     Inr evaluation)))))))))))))))))"

definition read_performance :: "baseline_env \<Rightarrow> string \<Rightarrow> baseline_files \<Rightarrow> ml_exn + dict" where
  "read_performance env category bf =
     andThen (parse_dict env (bf_performance bf)) (\<lambda>performance.
     andThen (run_check (jget_null ''schema_version'' performance = JStr ''visionqc.performance-probe.v1'' \<and>
         jget_null ''category'' performance = JStr category) ''performance probe schema or category is invalid'') (\<lambda>_.
     andThen (run_check (jget_null ''warm_p50_ms'' performance \<noteq> JNull \<and> jget_null ''warm_p95_ms'' performance \<noteq> JNull \<and>
         jget_null ''cold_ms'' performance \<noteq> JNull) ''performance probe is missing required latency values'') (\<lambda>_.
     Inr performance)))"

text \<open>An image of a case: a relative path to a file in the gallery.\<close>

definition gallery_asset :: "baseline_env \<Rightarrow> string \<Rightarrow> dict \<Rightarrow> string \<Rightarrow> ml_exn + unit" where
  "gallery_asset env dir case_dict field = (case jget_null field case_dict of
     JStr raw \<Rightarrow> run_check (\<not> startswith ''/'' raw \<and> path_within env (ml_join_path dir raw) dir \<and>
         ml_file env (ml_join_path dir raw) \<noteq> None) (''gallery path is invalid: '' @ field)
   | _ \<Rightarrow> ml_value_error (''gallery path is missing: '' @ field))"

fun gallery_cases ::
  "baseline_env \<Rightarrow> string \<Rightarrow> CalibrationResult \<Rightarrow> string \<Rightarrow> string set \<Rightarrow> string list \<Rightarrow> json list \<Rightarrow> ml_exn + string list" where
  "gallery_cases env dir t category expected seen [] = Inr seen"
| "gallery_cases env dir t category expected seen (c # cs) =
     andThen (ml_dict c) (\<lambda>d.
     andThen (case jget_null ''sample_id'' d of
         JStr s \<Rightarrow> if s \<in> set seen \<or> s \<notin> expected then ml_value_error ''gallery sample coverage is invalid'' else Inr s
       | JList _ \<Rightarrow> ml_raise ''TypeError'' ''unhashable type''
       | JObj _ \<Rightarrow> ml_raise ''TypeError'' ''unhashable type''
       | _ \<Rightarrow> ml_value_error ''gallery sample coverage is invalid'') (\<lambda>s.
     andThen (run_check (jget_null ''product_category'' d = JStr category) ''gallery category mismatch'') (\<lambda>_.
     andThen (assert_close env (jget_null ''review_threshold'' d) (cal_review_threshold t) ''gallery review threshold'') (\<lambda>_.
     andThen (assert_close env (jget_null ''hold_threshold'' d) (cal_hold_threshold t) ''gallery hold threshold'') (\<lambda>_.
     andThen (gallery_asset env dir d ''original'') (\<lambda>_.
     andThen (gallery_asset env dir d ''heatmap'') (\<lambda>_.
     andThen (gallery_asset env dir d ''overlay'') (\<lambda>_.
     gallery_cases env dir t category expected (s # seen) cs))))))))"

definition summary_threshold :: "baseline_env \<Rightarrow> dict \<Rightarrow> string \<Rightarrow> rat \<Rightarrow> ml_exn + unit" where
  "summary_threshold env gallery k expected =
     andThen (sub_dict ''thresholds'' gallery) (\<lambda>d.
     if jget_null k d = JNull then Inr () else assert_close env (jget_null k d) expected (''gallery summary threshold: '' @ k))"

definition validate_gallery ::
  "baseline_env \<Rightarrow> string \<Rightarrow> CalibrationResult \<Rightarrow> string \<Rightarrow> ScoreRecord list \<Rightarrow> dict \<Rightarrow> ml_exn + json list" where
  "validate_gallery env dir t category records gallery =
     andThen (run_check (jget_null ''schema_version'' gallery = JStr ''visionqc.error-gallery.v1'') ''gallery schema is invalid'') (\<lambda>_.
     case jget_null ''cases'' gallery of
       JList cs \<Rightarrow>
         andThen (run_check (equals_int (jget_or ''case_count'' (JInt (int (length cs))) gallery) (int (length cs)))
           ''gallery case count does not match gallery cases'') (\<lambda>_.
         andThen (gallery_cases env dir t category (set (map sr_sample_id records)) [] cs) (\<lambda>seen.
         andThen (run_check (set seen = set (map sr_sample_id records)) ''gallery does not cover every held-out prediction'') (\<lambda>_.
         andThen (summary_threshold env gallery ''review'' (cal_review_threshold t)) (\<lambda>_.
         andThen (summary_threshold env gallery ''hold'' (cal_hold_threshold t)) (\<lambda>_.
         Inr cs)))))
     | _ \<Rightarrow> ml_value_error ''gallery case count does not match gallery cases'')"

text \<open>\<open>gallery["case_types"]\<close>: a type that is not a text counts no case.\<close>

definition case_type_of :: "json \<Rightarrow> json" where
  "case_type_of c = (case c of JObj d \<Rightarrow> jget_null ''case_type'' d | _ \<Rightarrow> JNull)"

definition case_types :: "baseline_env \<Rightarrow> json list \<Rightarrow> json" where
  "case_types env cs = JObj (map (\<lambda>k. (k, JInt (int (count_where (\<lambda>c. case_type_of c = JStr k) cs))))
     (sort (remdups (map (\<lambda>c. ml_str (base_env env) (case_type_of c)) cs))))"

definition check_gallery_reference ::
  "baseline_env \<Rightarrow> string \<Rightarrow> dict \<Rightarrow> json list \<Rightarrow> ml_exn + unit" where
  "check_gallery_reference env run_dir evaluation cs =
     andThen (sub_dict ''gallery'' evaluation) (\<lambda>gallery.
     let there = (\<lambda>k. resolve_path env (bl_expand env (ml_str (base_env env) (jget_or k (JStr []) gallery)))) in
     andThen (there ''json'') (\<lambda>j.
     andThen (resolve_path env (ml_join_path (gallery_dir run_dir) ''gallery.json'')) (\<lambda>j'.
     andThen (run_check (j = j') ''evaluation gallery JSON path does not match the baseline gallery'') (\<lambda>_.
     andThen (there ''path'') (\<lambda>h.
     andThen (resolve_path env (ml_join_path (gallery_dir run_dir) ''index.html'')) (\<lambda>h'.
     andThen (run_check (h = h') ''evaluation gallery HTML path does not match the baseline gallery'') (\<lambda>_.
     run_check (equals_int (jget_null ''case_count'' gallery) (int (length cs)))
       ''evaluation gallery case count does not match the baseline gallery'')))))))"

section \<open>Metrics\<close>

definition classification :: "baseline_env \<Rightarrow> ScoreRecord list \<Rightarrow> rat \<Rightarrow> rat \<times> rat \<times> rat" where
  "classification env records threshold = bl_prf env (map (\<lambda>r. (sr_label r, sr_score r \<ge> threshold)) records)"

definition check_business :: "baseline_env \<Rightarrow> ScoreRecord list \<Rightarrow> rat \<Rightarrow> rat \<Rightarrow> dict \<Rightarrow> ml_exn + unit" where
  "check_business env records review hold business =
     (let scores = map sr_score records in
     andThen (assert_close env (jget_null ''false_accept_rate'' business) (mean_of (\<lambda>s. s < review) (scores_of 1 records))
       ''evaluation false accept rate'') (\<lambda>_.
     andThen (assert_close env (jget_null ''false_reject_rate'' business) (mean_of (\<lambda>s. s \<ge> hold) (scores_of 0 records))
       ''evaluation false reject rate'') (\<lambda>_.
     andThen (assert_close env (jget_null ''manual_review_rate'' business) (mean_of (\<lambda>s. s \<ge> review) scores)
       ''evaluation manual review rate'') (\<lambda>_.
     andThen (assert_close env (jget_null ''hold_rate'' business) (mean_of (\<lambda>s. s \<ge> hold) scores)
       ''evaluation hold rate'') (\<lambda>_.
     assert_close env (jget_null ''auto_release_rate'' business) (mean_of (\<lambda>s. s < review) scores)
       ''evaluation auto release rate'')))))"

definition check_levels ::
  "baseline_env \<Rightarrow> ScoreRecord list \<Rightarrow> rat \<Rightarrow> rat \<Rightarrow> dict \<Rightarrow> ml_exn + unit" where
  "check_levels env records review hold level =
     andThen (sub_dict ''at_review_threshold'' level) (\<lambda>at_review.
     andThen (assert_close env (jget_null ''threshold'' at_review) review ''evaluation review threshold'') (\<lambda>_.
     andThen (sub_dict ''at_hold_threshold'' level) (\<lambda>at_hold.
     andThen (assert_close env (jget_null ''threshold'' at_hold) hold ''evaluation hold threshold'') (\<lambda>_.
     andThen (assert_close env (jget_null ''recall'' at_review) (fst (snd (classification env records review)))
       ''evaluation review recall'') (\<lambda>_.
     assert_close env (jget_null ''recall'' at_hold) (fst (snd (classification env records hold)))
       ''evaluation hold recall'')))))"

definition check_latency :: "baseline_env \<Rightarrow> dict \<Rightarrow> dict \<Rightarrow> ml_exn + unit" where
  "check_latency env performance reported =
     andThen (ml_number env (jget_null ''warm_p50_ms'' performance)) (\<lambda>p50.
     andThen (assert_close env (jget_null ''warm_p50_ms'' reported) p50 ''evaluation warm P50'') (\<lambda>_.
     andThen (ml_number env (jget_null ''warm_p95_ms'' performance)) (\<lambda>p95.
     assert_close env (jget_null ''warm_p95_ms'' reported) p95 ''evaluation warm P95'')))"

definition image_auroc_of :: "baseline_env \<Rightarrow> ScoreRecord list \<Rightarrow> rat" where
  "image_auroc_of env records = bl_roc_auc env (map (\<lambda>r. (sr_label r, sr_score r)) records)"

definition holdout_metrics ::
  "baseline_env \<Rightarrow> ScoreRecord list \<Rightarrow> rat \<Rightarrow> rat \<Rightarrow> rat \<times> rat \<Rightarrow> rat \<Rightarrow> rat \<times> rat \<times> rat \<Rightarrow> dict" where
  "holdout_metrics env records review hold pixel manual latency =
     (case (pixel, classification env records review, latency) of ((auroc, aupro), (precision, recall, f1), (cold, p50, p95)) \<Rightarrow>
     [(''metric_status'', JStr ''AVAILABLE''), (''unavailable_reason'', JNull),
      (''sample_count'', JInt (int (length records))),
      (''normal_sample_count'', JInt (int (length (scores_of 0 records)))),
      (''anomalous_sample_count'', JInt (int (length (scores_of 1 records)))),
      (''image_auroc'', JFloat (image_auroc_of env records)), (''pixel_auroc'', JFloat auroc), (''aupro'', JFloat aupro),
      (''precision'', JFloat precision), (''recall'', JFloat recall), (''f1'', JFloat f1),
      (''normal_false_positive_rate'', JFloat (mean_of (\<lambda>s. s \<ge> review) (scores_of 0 records))),
      (''normal_review_hold_rate'', JFloat (mean_of (\<lambda>s. s \<ge> review) (scores_of 0 records))),
      (''defect_error_auto_release_rate'', JFloat (mean_of (\<lambda>s. s < review) (scores_of 1 records))),
      (''review_hold_recall'', JFloat (mean_of (\<lambda>s. s \<ge> review) (scores_of 1 records))),
      (''hold_recall'', JFloat (mean_of (\<lambda>s. s \<ge> hold) (scores_of 1 records))),
      (''manual_review_burden_rate'', JFloat manual), (''cold_start_ms'', JFloat cold),
      (''warm_inference_p50_ms'', JFloat p50), (''warm_inference_p95_ms'', JFloat p95), (''warm_p95_ms'', JFloat p95)])"

definition derived_metrics ::
  "baseline_env \<Rightarrow> ScoreRecord list \<Rightarrow> CalibrationResult \<Rightarrow> dict \<Rightarrow> dict \<Rightarrow> ml_exn + dict" where
  "derived_metrics env records t evaluation performance =
     (let review = cal_review_threshold t; hold = cal_hold_threshold t in
     andThen (run_check (scores_of 0 records \<noteq> [] \<and> scores_of 1 records \<noteq> [])
       ''holdout predictions must contain both normal and anomalous samples'') (\<lambda>_.
     andThen (sub_dict ''metrics'' evaluation) (\<lambda>metrics.
     andThen (sub_dict ''image_level'' metrics) (\<lambda>level.
     andThen (assert_close env (jget_null ''auroc'' level) (image_auroc_of env records) ''evaluation image AUROC'') (\<lambda>_.
     andThen (sub_dict ''business'' metrics) (\<lambda>business.
     andThen (check_business env records review hold business) (\<lambda>_.
     andThen (check_levels env records review hold level) (\<lambda>_.
     andThen (sub_dict ''performance'' metrics) (\<lambda>reported.
     andThen (check_latency env performance reported) (\<lambda>_.
     andThen (sub_dict ''pixel_level'' metrics) (\<lambda>pixel.
     andThen (run_check (jget_null ''auroc'' pixel \<noteq> JNull \<and> jget_null ''aupro_at_0_30_fpr'' pixel \<noteq> JNull)
       ''evaluation pixel AUROC and AUPRO are required for complete real-data evidence'') (\<lambda>_.
     andThen (ml_number env (jget_null ''auroc'' pixel)) (\<lambda>auroc.
     andThen (ml_number env (jget_null ''aupro_at_0_30_fpr'' pixel)) (\<lambda>aupro.
     andThen (ml_number env (jget_null ''manual_review_rate'' business)) (\<lambda>manual.
     andThen (ml_number env (jget_null ''cold_ms'' performance)) (\<lambda>cold.
     andThen (ml_number env (jget_null ''warm_p50_ms'' performance)) (\<lambda>p50.
     andThen (ml_number env (jget_null ''warm_p95_ms'' performance)) (\<lambda>p95.
     Inr (holdout_metrics env records review hold (auroc, aupro) manual (cold, p50, p95))))))))))))))))))))"

section \<open>The source inventory\<close>

definition source_paths :: "baseline_env \<Rightarrow> string \<Rightarrow> string \<Rightarrow> baseline_manifest \<Rightarrow> (string \<times> string) list" where
  "source_paths env run_dir package_path bm =
     [(''run.json'', ml_join_path run_dir ''run.json''), (''summary.json'', ml_join_path run_dir ''summary.json''),
      (''manifest.jsonl'', bm_manifest_path bm), (''manifest-meta.json'', bm_meta_path bm),
      (''dataset-directory-receipt.json'', bm_receipt_path bm),
      (''predictions/validation.jsonl'', validation_path run_dir), (''predictions/test.jsonl'', test_path run_dir),
      (''calibration/thresholds.json'', thresholds_path run_dir), (''evaluation/evaluation.json'', evaluation_path run_dir),
      (''performance-probe.json'', performance_path run_dir),
      (''package/model-package.json'', ml_join_path package_path ''model-package.json'')] @
     map (\<lambda>p. (''gallery/'' @ p, ml_join_path (gallery_dir run_dir) p)) (bl_below env (gallery_dir run_dir))"

text \<open>\<open>_source_file\<close>.\<close>

definition source_file :: "baseline_env \<Rightarrow> string \<Rightarrow> ml_exn + json" where
  "source_file env path =
     andThen (resolve_path env path) (\<lambda>resolved.
     case ml_file env path of
       None \<Rightarrow> ml_raise ''FileNotFoundError'' path
     | Some contents \<Rightarrow> Inr (JObj [(''path'', JStr resolved), (''sha256'', JStr (ml_sha256 env contents)),
         (''size_bytes'', JInt (int (length contents)))]))"

fun source_entries :: "baseline_env \<Rightarrow> (string \<times> string) list \<Rightarrow> ml_exn + (string \<times> json) list" where
  "source_entries env [] = Inr []"
| "source_entries env ((key, path) # rest) =
     andThen (source_file env path) (\<lambda>d.
     andThen (source_entries env rest) (\<lambda>ds. Inr ((key, d) # ds)))"

definition source_inventory ::
  "baseline_env \<Rightarrow> string \<Rightarrow> string \<Rightarrow> baseline_manifest \<Rightarrow> ml_exn + dict" where
  "source_inventory env run_dir package_path bm =
     andThen (source_entries env (source_paths env run_dir package_path bm)) (\<lambda>files.
     andThen (resolve_path env run_dir) (\<lambda>r.
     andThen (resolve_path env package_path) (\<lambda>p.
     Inr [(''schema_version'', JStr ''visionqc.pilot-source-evidence.v1''), (''run_dir'', JStr r),
       (''model_package_dir'', JStr p), (''files'', JObj files)])))"

section \<open>The evidence of a run\<close>

record pilot_evidence =
  pe_run_dir :: string
  pe_package_path :: string
  pe_package_manifest :: ModelPackageManifest
  pe_manifest :: baseline_manifest
  pe_entries :: "ManifestEntry list"
  pe_split_rows :: split_manifest
  pe_validation :: "ScoreRecord list"
  pe_test :: "ScoreRecord list"
  pe_thresholds :: CalibrationResult
  pe_evaluation :: dict
  pe_gallery :: dict
  pe_cases :: "json list"
  pe_metrics :: dict
  pe_source_evidence :: dict

definition load_pilot_evidence ::
  "baseline_env \<Rightarrow> string \<Rightarrow> string \<Rightarrow> string \<Rightarrow> string option \<Rightarrow> string option \<Rightarrow> ml_exn + pilot_evidence" where
  "load_pilot_evidence env run category model_package dataset_root config =
     andThen (resolve_path env (bl_expand env run)) (\<lambda>run_dir.
     andThen (resolve_path env (bl_expand env model_package)) (\<lambda>package_path.
     andThen (read_manifest env run_dir category dataset_root config) (\<lambda>bm.
     andThen (baseline_entries env category bm) (\<lambda>(es, rows).
     andThen (ml_dict (bm_summary bm)) (\<lambda>summary.
     andThen (check_summary env run_dir category package_path summary (bm_meta bm)) (\<lambda>_.
     andThen (baseline_package env category package_path summary (bm_meta bm)) (\<lambda>m.
     andThen (read_run_files env run_dir) (\<lambda>bf.
     andThen (read_predictions env category run_dir es bf) (\<lambda>(validation, test).
     andThen (read_thresholds env package_path bm bf validation) (\<lambda>t.
     andThen (read_evaluation env category package_path (bm_meta bm) m bf t) (\<lambda>evaluation.
     andThen (read_performance env category bf) (\<lambda>performance.
     andThen (parse_dict env (bf_gallery bf)) (\<lambda>gallery.
     andThen (validate_gallery env (gallery_dir run_dir) t category test gallery) (\<lambda>cs.
     andThen (check_gallery_reference env run_dir evaluation cs) (\<lambda>_.
     andThen (derived_metrics env test t evaluation performance) (\<lambda>metrics.
     andThen (source_inventory env run_dir package_path bm) (\<lambda>sources.
     Inr \<lparr>pe_run_dir = run_dir, pe_package_path = package_path, pe_package_manifest = m, pe_manifest = bm,
       pe_entries = es, pe_split_rows = rows, pe_validation = validation, pe_test = test, pe_thresholds = t,
       pe_evaluation = evaluation, pe_gallery = gallery, pe_cases = cs, pe_metrics = metrics,
       pe_source_evidence = sources\<rparr>)))))))))))))))))"

section \<open>Qualification of a run\<close>

definition run_error_cases :: "baseline_env \<Rightarrow> pilot_evidence \<Rightarrow> dict" where
  "run_error_cases env pe =
     [(''schema_version'', JStr ''visionqc.error-cases.v1''), (''cases'', JList (pe_cases pe)),
      (''case_count'', JInt (int (length (pe_cases pe)))), (''case_types'', case_types env (pe_cases pe)),
      (''gallery'', JObj [(''source_dir'', JStr (gallery_dir (pe_run_dir pe))),
        (''schema_version'', jget_null ''schema_version'' (pe_gallery pe))]),
      (''claim_boundary'', JStr ''anomaly evidence only; semantic defect and root cause require human confirmation'')]"

text \<open>\<open>list(evaluation.get("limitations", []))\<close>.\<close>

definition run_limitations :: "pilot_evidence \<Rightarrow> ml_exn + json list" where
  "run_limitations pe =
     andThen (case jget_or ''limitations'' (JList []) (pe_evaluation pe) of
         JList js \<Rightarrow> Inr js
       | JStr s \<Rightarrow> Inr (map (\<lambda>c. JStr [c]) s)
       | JObj kvs \<Rightarrow> Inr (map (JStr \<circ> fst) kvs)
       | _ \<Rightarrow> ml_raise ''TypeError'' ''not iterable'') (\<lambda>js.
     Inr (js @ map JStr
       [''MVTec AD is a non-commercial research benchmark and does not establish factory or customer Pilot performance.'',
        ''Thresholds are selected from validation only; the held-out test split is used only after thresholds are frozen.'']))"

definition run_report_args ::
  "baseline_env \<Rightarrow> string \<Rightarrow> string \<Rightarrow> CustomerProvenance option \<Rightarrow> pilot_evidence \<Rightarrow> dict \<Rightarrow> json list \<Rightarrow> report_args" where
  "run_report_args env factory category provenance pe level limitations =
     \<lparr>ra_factory = factory, ra_category = category, ra_source_type = ''OFFICIAL_BENCHMARK'',
      ra_metrics = Some (pe_metrics pe), ra_confidence_intervals = jget_or ''bootstrap_ci'' (JObj []) level,
      ra_split_document = pilot_split_document env (bm_meta (pe_manifest pe)) (pe_split_rows pe),
      ra_split_rows = pe_split_rows pe, ra_model_package = Some (pe_package_path pe),
      ra_dataset_receipt = Some (bm_receipt (pe_manifest pe)), ra_limitations = limitations,
      ra_source_evidence = Some (pe_source_evidence pe), ra_error_cases = Some (run_error_cases env pe),
      ra_thresholds = bl_calibration_dump env (pe_thresholds pe),
      ra_dataset_fingerprint = Some (mp_dataset_fingerprint (pe_package_manifest pe)),
      ra_customer_provenance = provenance\<rparr>"

text \<open>The fingerprint of the manifest is the one of the package: \<open>baseline_package\<close> has compared them. The decoded
  provenance of a customer is an argument.\<close>

definition qualify_from_run ::
  "baseline_env \<Rightarrow> string \<Rightarrow> string \<Rightarrow> string \<Rightarrow> string \<Rightarrow> string option \<Rightarrow> string option \<Rightarrow> string \<Rightarrow>
   CustomerProvenance option \<Rightarrow> (string \<times> string) list \<Rightarrow> ml_exn + (string \<times> string) list \<times> report_result" where
  "qualify_from_run env run factory category model_package dataset_root config source_type provenance existing =
     andThen (run_check (source_type \<in> set SOURCE_TYPES) ''not a valid DatasetSourceType'') (\<lambda>_.
     andThen (run_check (source_type = ''OFFICIAL_BENCHMARK'')
       ''this baseline run is bound to OFFICIAL_BENCHMARK evidence'') (\<lambda>_.
     andThen (load_pilot_evidence env run category model_package dataset_root config) (\<lambda>pe.
     andThen (run_limitations pe) (\<lambda>limitations.
     andThen (sub_dict ''metrics'' (pe_evaluation pe)) (\<lambda>metrics.
     andThen (sub_dict ''image_level'' metrics) (\<lambda>level.
     write_qualification_package env (run_report_args env factory category provenance pe level limitations) existing))))))"

end
