(* ===== verification/MlBaselineProofs.thy ===== *)
theory MlBaselineProofs
  imports MlBaseline MlReportProofs MlManifests
begin

text \<open>
  What an accepted baseline run is, and its way into a qualification package: the numbers that decide the gates are
  the rates of its held-out predictions.
\<close>

section \<open>Accepted runs\<close>

lemma load_pilot_evidence_Inr:
  assumes "load_pilot_evidence env run category model_package dataset_root config = Inr pe"
  obtains summary bf performance where
    "read_manifest env (pe_run_dir pe) category dataset_root config = Inr (pe_manifest pe)"
    "baseline_entries env category (pe_manifest pe) = Inr (pe_entries pe, pe_split_rows pe)"
    "baseline_package env category (pe_package_path pe) summary (bm_meta (pe_manifest pe)) = Inr (pe_package_manifest pe)"
    "read_run_files env (pe_run_dir pe) = Inr bf"
    "read_predictions env category (pe_run_dir pe) (pe_entries pe) bf = Inr (pe_validation pe, pe_test pe)"
    "read_thresholds env (pe_package_path pe) (pe_manifest pe) bf (pe_validation pe) = Inr (pe_thresholds pe)"
    "parse_dict env (bf_evaluation bf) = Inr (pe_evaluation pe)"
    "parse_dict env (bf_gallery bf) = Inr (pe_gallery pe)"
    "jget_null ''cases'' (pe_gallery pe) = JList (pe_cases pe)"
    "derived_metrics env (pe_test pe) (pe_thresholds pe) (pe_evaluation pe) performance = Inr (pe_metrics pe)"
    "source_inventory env (pe_run_dir pe) (pe_package_path pe) (pe_manifest pe) = Inr (pe_source_evidence pe)"
proof -
  have ev: "read_evaluation env category package_path meta m bf t = Inr e \<Longrightarrow> parse_dict env (bf_evaluation bf) = Inr e"
    for package_path meta m bf t e by (auto simp: read_evaluation_def)
  have ga: "validate_gallery env dir t category records g = Inr cs \<Longrightarrow> jget_null ''cases'' g = JList cs" for dir t records g cs
    by (auto simp: validate_gallery_def split: json.splits)
  show thesis
    using assms that ev ga unfolding load_pilot_evidence_def by (auto simp del: ml_dict_Inr)
qed

text \<open>The predictions of a split are those of its images in the manifest.\<close>

definition follows_manifest :: "string \<Rightarrow> string \<Rightarrow> ManifestEntry list \<Rightarrow> ScoreRecord list \<Rightarrow> bool" where
  "follows_manifest category split es records \<longleftrightarrow>
     set (map sr_sample_id records) = set (map man_sample_id (filter (\<lambda>e. man_split e = split) es)) \<and>
     (\<forall>r \<in> set records. \<exists>e \<in> set es. man_split e = split \<and> man_sample_id e = sr_sample_id r \<and>
        sr_image_path r = man_image_path e \<and> sr_label r = man_label e \<and> sr_anomaly_subtype r = man_anomaly_subtype e \<and>
        sr_product_category r = Some category)"

lemma entry_by_id_Some: "entry_by_id es split i = Some e \<Longrightarrow> e \<in> set es \<and> man_split e = split \<and> man_sample_id e = i"
  unfolding entry_by_id_def by (drule map_of_SomeD) auto

lemma records_aligned_Inr:
  assumes "records_aligned env category run_dir predictions by_id records = Inr u" "r \<in> set records"
  shows "\<exists>e. by_id (sr_sample_id r) = Some e \<and> record_aligned env category run_dir predictions e r = Inr ()"
  using assms by (induction records) (auto split: option.splits)

lemma prediction_alignment_follows:
  assumes "prediction_alignment env category run_dir predictions split es records = Inr u"
  shows "follows_manifest category split es records"
proof -
  have a: "records_aligned env category run_dir predictions (entry_by_id es split) records = Inr u"
    and c: "set (map sr_sample_id records) = set (map man_sample_id (filter (\<lambda>e. man_split e = split) es))"
    using assms by (auto simp: prediction_alignment_def)
  have "\<exists>e \<in> set es. man_split e = split \<and> man_sample_id e = sr_sample_id r \<and>
        sr_image_path r = man_image_path e \<and> sr_label r = man_label e \<and> sr_anomaly_subtype r = man_anomaly_subtype e \<and>
        sr_product_category r = Some category" if "r \<in> set records" for r
    using records_aligned_Inr [OF a that] entry_by_id_Some [of es split "sr_sample_id r"]
    by (auto simp: record_aligned_def)
  with c show ?thesis by (simp add: follows_manifest_def)
qed

lemma baseline_entries_Inr:
  assumes "baseline_entries env category bm = Inr (es, rows)"
  shows "distinct (map man_sample_id es) \<and> (\<exists>counts. validate_split_manifest rows = Inr counts) \<and>
     pilot_split_manifest es = Inr rows"
proof -
  from assms obtain meta result where v: "verify_manifest (dataset_env_of env) (bl_entry env) (bl_dataset env (bm_root bm))
       (Some (bm_manifest_body bm)) (Some meta) = Inr result"
    and l: "load_manifest (bl_entry env) (Some (bm_manifest_body bm)) None = Inr es"
    and p: "pilot_split_manifest es = Inr rows"
    by (auto simp: baseline_entries_def)
  have "entry_mismatches (dataset_env_of env) (bl_dataset env (bm_root bm)) [] [] es = []"
    using v l by (auto simp: verify_manifest_def split: if_splits)
  then have "distinct (map man_sample_id es)" by (simp add: entry_mismatches_Nil)
  with p show ?thesis by (auto simp: pilot_split_manifest_def Let_def)
qed

lemma derived_metrics_Inr:
  assumes "derived_metrics env records t evaluation performance = Inr metrics"
  obtains auroc aupro manual cold p50 p95 where
    "metrics = holdout_metrics env records (cal_review_threshold t) (cal_hold_threshold t) (auroc, aupro) manual (cold, p50, p95)"
    "ml_number env (jget_null ''warm_p95_ms'' performance) = Inr p95"
    "scores_of 0 records \<noteq> []" "scores_of 1 records \<noteq> []"
proof -
  from assms obtain auroc aupro manual cold p50 p95 where
    "holdout_metrics env records (cal_review_threshold t) (cal_hold_threshold t) (auroc, aupro) manual (cold, p50, p95) = metrics"
    "ml_number env (jget_null ''warm_p95_ms'' performance) = Inr p95"
    "scores_of 0 records \<noteq> [] \<and> scores_of 1 records \<noteq> []"
    unfolding derived_metrics_def Let_def by (auto simp del: ml_dict_Inr)
  then show thesis using that by blast
qed

lemma holdout_metrics_fields:
  "jget ''image_auroc'' (holdout_metrics env records review hold pixel manual latency) = Some (JFloat (image_auroc_of env records))"
  "jget ''defect_error_auto_release_rate'' (holdout_metrics env records review hold pixel manual latency) =
     Some (JFloat (mean_of (\<lambda>s. s < review) (scores_of 1 records)))"
  "jget ''review_hold_recall'' (holdout_metrics env records review hold pixel manual latency) =
     Some (JFloat (mean_of (\<lambda>s. s \<ge> review) (scores_of 1 records)))"
  "jget ''hold_recall'' (holdout_metrics env records review hold pixel manual latency) =
     Some (JFloat (mean_of (\<lambda>s. s \<ge> hold) (scores_of 1 records)))"
  "jget ''normal_review_hold_rate'' (holdout_metrics env records review hold pixel manual latency) =
     Some (JFloat (mean_of (\<lambda>s. s \<ge> review) (scores_of 0 records)))"
  "jget ''warm_p95_ms'' (holdout_metrics env records review hold pixel manual latency) = Some (JFloat (snd (snd latency)))"
  unfolding holdout_metrics_def
  by (cases pixel; cases latency; cases "classification env records review"; simp add: jget_def)+

text \<open>The rates of the held-out predictions that the gates look at.\<close>

definition keeps_gates :: "baseline_env \<Rightarrow> ScoreRecord list \<Rightarrow> CalibrationResult \<Rightarrow> bool" where
  "keeps_gates env records t \<longleftrightarrow> image_auroc_of env records \<ge> 90/100 \<and>
     mean_of (\<lambda>s. s < cal_review_threshold t) (scores_of 1 records) \<le> 5/100 \<and>
     mean_of (\<lambda>s. s \<ge> cal_review_threshold t) (scores_of 1 records) \<ge> 95/100 \<and>
     mean_of (\<lambda>s. s \<ge> cal_hold_threshold t) (scores_of 1 records) \<ge> 80/100 \<and>
     mean_of (\<lambda>s. s \<ge> cal_review_threshold t) (scores_of 0 records) \<le> 25/100"

text \<open>C33. A baseline run that is accepted has distinct samples and splits without overlap; the images it has
  predictions for are exactly the validation and the test images of the manifest, with their labels (compared as sets: an
  image may have several predictions); no test image is a validation image; and the thresholds carry the digest of the validation predictions on disk.\<close>

theorem accepted_run_is_consistent:
  assumes "load_pilot_evidence env run category model_package dataset_root config = Inr pe"
  shows "distinct (map man_sample_id (pe_entries pe)) \<and>
     (\<exists>counts. validate_split_manifest (pe_split_rows pe) = Inr counts) \<and>
     follows_manifest category ''validation'' (pe_entries pe) (pe_validation pe) \<and>
     follows_manifest category ''test'' (pe_entries pe) (pe_test pe) \<and>
     set (map sr_sample_id (pe_validation pe)) \<inter> set (map sr_sample_id (pe_test pe)) = {} \<and>
     (\<exists>body. ml_file env (validation_path (pe_run_dir pe)) = Some body \<and>
        cal_source_predictions_sha256 (pe_thresholds pe) = ml_sha256 env body) \<and>
     jget ''review_hold_recall'' (pe_metrics pe) =
       Some (JFloat (mean_of (\<lambda>s. s \<ge> cal_review_threshold (pe_thresholds pe)) (scores_of 1 (pe_test pe))))"
proof -
  obtain summary bf performance where l:
    "baseline_entries env category (pe_manifest pe) = Inr (pe_entries pe, pe_split_rows pe)"
    "read_run_files env (pe_run_dir pe) = Inr bf"
    "read_predictions env category (pe_run_dir pe) (pe_entries pe) bf = Inr (pe_validation pe, pe_test pe)"
    "read_thresholds env (pe_package_path pe) (pe_manifest pe) bf (pe_validation pe) = Inr (pe_thresholds pe)"
    "derived_metrics env (pe_test pe) (pe_thresholds pe) (pe_evaluation pe) performance = Inr (pe_metrics pe)"
    by (rule load_pilot_evidence_Inr [OF assms])
  note es = baseline_entries_Inr [OF l(1)]
  have f: "follows_manifest category ''validation'' (pe_entries pe) (pe_validation pe)"
    "follows_manifest category ''test'' (pe_entries pe) (pe_test pe)"
    using l(3) prediction_alignment_follows by (auto simp: read_predictions_def)
  have same: "x = y" if "x \<in> set (pe_entries pe)" "y \<in> set (pe_entries pe)" "man_sample_id x = man_sample_id y" for x y
    using es that by (auto simp: distinct_map inj_on_def)
  have d: "set (map sr_sample_id (pe_validation pe)) \<inter> set (map sr_sample_id (pe_test pe)) = {}"
  proof (rule ccontr)
    assume "\<not> ?thesis"
    then obtain v t where v: "v \<in> set (pe_validation pe)" and t: "t \<in> set (pe_test pe)"
      and i: "sr_sample_id v = sr_sample_id t" by auto
    from f(1) v obtain x where x: "x \<in> set (pe_entries pe)" "man_split x = ''validation''" "man_sample_id x = sr_sample_id v"
      unfolding follows_manifest_def by blast
    from f(2) t obtain y where y: "y \<in> set (pe_entries pe)" "man_split y = ''test''" "man_sample_id y = sr_sample_id t"
      unfolding follows_manifest_def by blast
    have "x = y" by (rule same [OF x(1) y(1)]) (simp only: x(3) y(3) i)
    with x(2) y(2) show False by simp
  qed
  have b: "ml_file env (validation_path (pe_run_dir pe)) = Some (bf_validation bf)"
    using l(2) by (auto simp: read_run_files_def required_file_def split: option.splits)
  have t: "cal_source_predictions_sha256 (pe_thresholds pe) = ml_sha256 env (bf_validation bf)"
    using l(4) by (auto simp: read_thresholds_def)
  obtain pixel manual latency where m: "pe_metrics pe = holdout_metrics env (pe_test pe)
      (cal_review_threshold (pe_thresholds pe)) (cal_hold_threshold (pe_thresholds pe)) pixel manual latency"
    by (rule derived_metrics_Inr [OF l(5)])
  show ?thesis
    unfolding m holdout_metrics_fields t using es f d b by blast
qed

section \<open>Its qualification\<close>

lemma qualify_from_run_Inr:
  assumes "qualify_from_run env run factory category package data config source_type provenance existing = Inr (files, r)"
  obtains pe limitations level where
    "load_pilot_evidence env run category package data config = Inr pe" "source_type = ''OFFICIAL_BENCHMARK''"
    "write_qualification_package env (run_report_args env factory category provenance pe level limitations) existing = Inr (files, r)"
  using assms that unfolding qualify_from_run_def by (auto simp del: ml_dict_Inr)

lemma source_entries_keys: "source_entries env ps = Inr ds \<Longrightarrow> map fst ds = map fst ps"
  by (induction ps arbitrary: ds) auto

lemma source_inventory_files:
  assumes "source_inventory env run_dir package_path bm = Inr d"
  shows "\<exists>kvs. jget ''files'' d = Some (JObj kvs) \<and> kvs \<noteq> []"
proof -
  from assms obtain fs where fs: "source_entries env (source_paths env run_dir package_path bm) = Inr fs"
    and d: "jget ''files'' d = Some (JObj fs)"
    by (auto simp: source_inventory_def jget_def)
  from source_entries_keys [OF fs] have "fs \<noteq> []" by (auto simp: source_paths_def)
  with d show ?thesis by blast
qed

text \<open>A run brings all the evidence a benchmark report asks for.\<close>

lemma run_report_complete:
  assumes "load_pilot_evidence env run category package data config = Inr pe"
  shows "evidence_is_complete (run_report_args env factory category provenance pe level limitations) True"
proof -
  have "source_inventory env (pe_run_dir pe) (pe_package_path pe) (pe_manifest pe) = Inr (pe_source_evidence pe)"
    by (rule load_pilot_evidence_Inr [OF assms])
  from source_inventory_files [OF this] show ?thesis
    by (auto simp: evidence_is_complete_def is_demo_def is_customer_def has_split_def source_evidence_available_def
        run_report_args_def pilot_split_document_def Let_def jget_or_def)
qed

lemma written_decision:
  assumes "write_qualification_package env a existing = Inr (files, r)" "ra_model_package a = Some dir"
  obtains g where "report_gates a True = Inr g" "rr_decision r = report_status_of a g"
proof -
  from assms obtain sha where "verified_package (ml_env.truncate env) a = Inr sha" and
    g: "\<exists>g. report_gates a (sha \<noteq> None) = Inr g \<and> rr_decision r = report_status_of a g"
    by (auto simp: write_qualification_package_def Let_def)
  then have "sha \<noteq> None" using assms(2) by (auto simp: verified_package_def)
  with g show thesis using that by auto
qed

lemma benchmark_status:
  "ra_source_type a = ''OFFICIAL_BENCHMARK'' \<Longrightarrow> report_status_of a g = ''BENCHMARK_PASS'' \<longleftrightarrow> gr_decision g = ''GO''"
  by (simp add: report_status_of_def qualification_report_status_def)

lemma benchmark_gates:
  assumes "report_gates a True = Inr g" "evidence_is_complete a True" "ra_source_type a = ''OFFICIAL_BENCHMARK''"
    "ra_metrics a = Some (holdout_metrics env records (cal_review_threshold t) (cal_hold_threshold t) pixel manual latency)"
  shows "gr_decision g = ''GO'' \<longleftrightarrow> keeps_gates env records t \<and> snd (snd latency) \<le> 500"
proof -
  let ?m = "holdout_metrics env records (cal_review_threshold t) (cal_hold_threshold t) pixel manual latency"
  from assms obtain no_leak where "split_is_valid a = Inr no_leak" and
    g: "evaluate_pilot_gates ?m True no_leak True ''OFFICIAL_BENCHMARK'' (customer_provenance_valid a) = Inr g"
    by (auto simp: report_gates_def actual_metrics_def)
  then have n: "no_leak" using assms(2) by (auto simp: split_is_valid_def evidence_is_complete_def)
  have f: "gate_met GateGe x (JFloat y) \<longleftrightarrow> y \<ge> x" "gate_met GateLe x (JFloat y) \<longleftrightarrow> y \<le> x" for x y
    by (simp_all add: gate_met_def json_number_def)
  show ?thesis
    using gates_decision [OF g] n unfolding jget_or_def holdout_metrics_fields option.case f keeps_gates_def by simp
qed

lemma benchmark_decision:
  assumes "qualify_from_run env run factory category package data config source_type provenance existing = Inr (files, r)"
  obtains pe p95 where "load_pilot_evidence env run category package data config = Inr pe"
    "source_type = ''OFFICIAL_BENCHMARK''" "jget ''warm_p95_ms'' (pe_metrics pe) = Some (JFloat p95)"
    "rr_decision r = ''BENCHMARK_PASS'' \<longleftrightarrow> keeps_gates env (pe_test pe) (pe_thresholds pe) \<and> p95 \<le> 500"
proof -
  obtain pe limitations level where
    pe: "load_pilot_evidence env run category package data config = Inr pe" "source_type = ''OFFICIAL_BENCHMARK''" and
    w: "write_qualification_package env (run_report_args env factory category provenance pe level limitations) existing = Inr (files, r)"
    by (rule qualify_from_run_Inr [OF assms])
  let ?a = "run_report_args env factory category provenance pe level limitations"
  obtain performance where "derived_metrics env (pe_test pe) (pe_thresholds pe) (pe_evaluation pe) performance = Inr (pe_metrics pe)"
    by (rule load_pilot_evidence_Inr [OF pe(1)])
  then obtain pixel manual latency where m: "pe_metrics pe = holdout_metrics env (pe_test pe)
      (cal_review_threshold (pe_thresholds pe)) (cal_hold_threshold (pe_thresholds pe)) pixel manual latency"
    by (rule derived_metrics_Inr)
  have a: "ra_model_package ?a = Some (pe_package_path pe)" "ra_source_type ?a = ''OFFICIAL_BENCHMARK''"
    "ra_metrics ?a = Some (pe_metrics pe)"
    by (simp_all add: run_report_args_def)
  obtain g where g: "report_gates ?a True = Inr g" "rr_decision r = report_status_of ?a g"
    by (rule written_decision [OF w a(1)])
  have "rr_decision r = ''BENCHMARK_PASS'' \<longleftrightarrow>
      keeps_gates env (pe_test pe) (pe_thresholds pe) \<and> snd (snd latency) \<le> 500"
    unfolding g(2) benchmark_status [OF a(2)]
    by (rule benchmark_gates [OF g(1) run_report_complete [OF pe(1)] a(2) a(3) [unfolded m]])
  then show thesis using that [OF pe] holdout_metrics_fields(6) m by metis
qed

text \<open>An accepted run can be qualified: no later check rejects it.\<close>

lemma holdout_gates_run:
  "\<exists>g. evaluate_pilot_gates (holdout_metrics env records review hold pixel manual latency) True True True
     ''OFFICIAL_BENCHMARK'' (Some True) = Inr g"
  unfolding evaluate_pilot_gates_def PILOT_GATES_def gate_checks.simps gate_value_def jget_or_def holdout_metrics_fields
  by (simp add: gate_status_of_def json_number_def Let_def jbool_opt_def)

lemma report_gates_run:
  assumes "load_pilot_evidence env run category package data config = Inr pe"
  shows "\<exists>g. report_gates (run_report_args env factory category provenance pe level limitations) True = Inr g"
proof -
  let ?a = "run_report_args env factory category provenance pe level limitations"
  obtain performance where
    e: "baseline_entries env category (pe_manifest pe) = Inr (pe_entries pe, pe_split_rows pe)" and
    d: "derived_metrics env (pe_test pe) (pe_thresholds pe) (pe_evaluation pe) performance = Inr (pe_metrics pe)"
    by (rule load_pilot_evidence_Inr [OF assms])
  obtain pixel manual latency where m: "pe_metrics pe = holdout_metrics env (pe_test pe)
      (cal_review_threshold (pe_thresholds pe)) (cal_hold_threshold (pe_thresholds pe)) pixel manual latency"
    by (rule derived_metrics_Inr [OF d])
  obtain counts where "validate_split_manifest (pe_split_rows pe) = Inr counts"
    using baseline_entries_Inr [OF e] by blast
  then have s: "split_is_valid ?a = Inr True"
    by (simp add: split_is_valid_def has_split_def run_report_args_def pilot_split_document_def Let_def)
  have c: "evidence_is_complete ?a True" by (rule run_report_complete [OF assms])
  have "actual_metrics ?a True = pe_metrics pe" "ra_source_type ?a = ''OFFICIAL_BENCHMARK''"
    "customer_provenance_valid ?a = Some True"
    by (simp_all add: actual_metrics_def customer_provenance_valid_def is_customer_def run_report_args_def)
  then show ?thesis using s c m holdout_gates_run by (simp add: report_gates_def)
qed

lemma accepted_run_qualifies:
  assumes "load_pilot_evidence env run category package data config = Inr pe" "run_limitations pe = Inr limitations"
  shows "\<exists>files r. qualify_from_run env run factory category package data config ''OFFICIAL_BENCHMARK'' None existing = Inr (files, r)"
proof -
  obtain summary performance where
    b: "baseline_package env category (pe_package_path pe) summary (bm_meta (pe_manifest pe)) = Inr (pe_package_manifest pe)" and
    d: "derived_metrics env (pe_test pe) (pe_thresholds pe) (pe_evaluation pe) performance = Inr (pe_metrics pe)"
    by (rule load_pilot_evidence_Inr [OF assms(1)])
  from d obtain metrics level where l: "sub_dict ''metrics'' (pe_evaluation pe) = Inr metrics" "sub_dict ''image_level'' metrics = Inr level"
    unfolding derived_metrics_def Let_def by (auto simp del: ml_dict_Inr)
  let ?a = "run_report_args env factory category None pe level limitations"
  from b have "verify_model_package (base_env env) (pe_package_path pe) (Some category) = Inr (pe_package_manifest pe)"
    by (auto simp: baseline_package_def)
  then have v: "verified_package (base_env env) ?a = Inr (Some (mp_package_sha256 (pe_package_manifest pe)))"
    by (simp add: verified_package_def run_report_args_def)
  obtain g where g: "report_gates ?a True = Inr g" using report_gates_run [OF assms(1)] by blast
  have "ra_source_type ?a = ''OFFICIAL_BENCHMARK''" "ra_customer_provenance ?a = None" "\<not> is_demo ?a"
    by (simp_all add: run_report_args_def is_demo_def)
  then show ?thesis
    using assms l v g
    by (simp add: qualify_from_run_def write_qualification_package_def ml_check_def SOURCE_TYPES_def Let_def)
qed

text \<open>C27. A baseline run whose qualification is written is an accepted run of the official benchmark, and its report says
  BENCHMARK_PASS exactly when the rates of its held-out predictions and its warm latency keep the published gates.\<close>

theorem benchmark_pass_means_gates:
  assumes "qualify_from_run env run factory category package data config source_type provenance existing = Inr (files, r)"
  shows "\<exists>pe p95. load_pilot_evidence env run category package data config = Inr pe \<and>
     source_type = ''OFFICIAL_BENCHMARK'' \<and> jget ''warm_p95_ms'' (pe_metrics pe) = Some (JFloat p95) \<and>
     (rr_decision r = ''BENCHMARK_PASS'' \<longleftrightarrow> keeps_gates env (pe_test pe) (pe_thresholds pe) \<and> p95 \<le> 500)"
  by (rule benchmark_decision [OF assms]) blast

end
