(* ===== verification/MlBaselineExample.thy ===== *)
theory MlBaselineExample
  imports MlBaselineProofs MlRegistryGuarantees
begin

text \<open>A baseline run that is accepted: two validation and two test images, their predictions and their gallery.\<close>

definition run_sha :: "string \<Rightarrow> string" where
  "run_sha s = (if s \<in> {''a'', ''b'', ''c'', ''d'', ''e''} then replicate 64 (hd s) else zero_sha)"

definition run_entry :: "string \<Rightarrow> string \<Rightarrow> string \<Rightarrow> int \<Rightarrow> ManifestEntry" where
  "run_entry n split source_split label =
     \<lparr>man_sample_id = ''sample_000000000000000'' @ n, man_category = ''transistor'', man_split = split,
      man_source_split = source_split, man_label = label, man_anomaly_subtype = (if label = 0 then ''good'' else ''cut''),
      man_image_path = n, man_image_sha256 = replicate 64 (hd n), man_mask_path = (if label = 0 then None else Some n),
      man_mask_sha256 = (if label = 0 then None else Some (replicate 64 (hd n))), man_width = 2, man_height = 3\<rparr>"

definition run_rows :: "(string \<times> ManifestEntry) list" where
  "run_rows = [(''a'', run_entry ''a'' ''train'' ''train'' 0), (''b'', run_entry ''b'' ''validation'' ''test'' 0),
     (''c'', run_entry ''c'' ''validation'' ''test'' 1), (''d'', run_entry ''d'' ''test'' ''test'' 0),
     (''e'', run_entry ''e'' ''test'' ''test'' 1)]"

definition run_score :: "string \<Rightarrow> ScoreRecord option" where
  "run_score n = map_option (\<lambda>e. \<lparr>sr_sample_id = man_sample_id e, sr_split = man_split e, sr_image_path = man_image_path e,
     sr_label = man_label e, sr_anomaly_subtype = man_anomaly_subtype e, sr_score = (if man_label e = 0 then 1/10 else 9/10),
     sr_heatmap_path = ''h.png'', sr_latency_ms = 10, sr_warm = True, sr_device = ''cpu'',
     sr_product_category = Some ''transistor''\<rparr>) (map_of run_rows n)"

definition run_thresholds :: CalibrationResult where
  "run_thresholds = \<lparr>cal_policy_version = ''1'', cal_source_predictions_sha256 = zero_sha, cal_review_threshold = 1/2,
     cal_hold_threshold = 3/4, cal_max_false_accept_rate = 0, cal_target_hold_recall = 1,
     cal_achieved = rates_at [] (1/2) (3/4), cal_total = 2, cal_normal = 1, cal_anomalous = 1,
     cal_constraints_satisfied = True, cal_warnings = [], cal_strategy = ''s'', cal_safety_margin = 0\<rparr>"

definition run_meta :: manifest_meta where
  "run_meta = \<lparr>mm_category = ''transistor'', mm_dataset_fingerprint = zero_sha, mm_manifest_sha256 = zero_sha,
     mm_split_sha256 = [(''train'', zero_sha), (''validation'', zero_sha), (''test'', zero_sha)],
     mm_counts = [(''test'', 2), (''train'', 1), (''validation'', 2)]\<rparr>"

definition run_files :: "(string \<times> string) list" where
  "run_files = [(''/r/run.json'', ''run''), (''/r/summary.json'', ''summary''),
     (''/m/manifest.jsonl'', join_with [newline] [''a'', ''b'', ''c'', ''d'', ''e'']), (''/m/manifest-meta.json'', ''meta''),
     (''/d/transistor.directory-receipt.json'', ''receipt''), (''/r/predictions/validation.jsonl'', ''validation''),
     (''/r/predictions/test.jsonl'', ''test''), (''/r/predictions/h.png'', ''x''), (''/r/calibration/thresholds.json'', ''M''),
     (''/r/evaluation/evaluation.json'', ''evaluation''), (''/r/performance-probe.json'', ''performance''),
     (''/r/gallery/gallery.json'', ''gallery''), (''/r/gallery/index.html'', ''x''), (''/r/gallery/o.png'', ''x''),
     (''pkg/config/thresholds.json'', ''M''), (''pkg/provenance/manifest-meta.json'', ''meta''),
     (''pkg/metrics/evaluation.json'', ''evaluation''), (''pkg/model-package.json'', ''M'')]"

definition run_gallery_case :: "string \<Rightarrow> json" where
  "run_gallery_case i = JObj [(''sample_id'', JStr (''sample_000000000000000'' @ i)), (''product_category'', JStr ''transistor''),
     (''review_threshold'', JFloat (1/2)), (''hold_threshold'', JFloat (3/4)), (''original'', JStr ''o.png''),
     (''heatmap'', JStr ''o.png''), (''overlay'', JStr ''o.png''), (''case_type'', JStr ''CORRECT'')]"

definition run_evaluation :: dict where
  "run_evaluation = [(''schema_version'', JStr ''visionqc.evaluation.v1''), (''evaluation_split'', JStr ''test''),
     (''artifacts'', JObj [(''predictions_sha256'', JStr zero_sha), (''thresholds_sha256'', JStr zero_sha)]),
     (''dataset'', JObj [(''category'', JStr ''transistor''), (''dataset_fingerprint'', JStr zero_sha),
        (''manifest_sha256'', JStr zero_sha), (''test_split_sha256'', JStr zero_sha)]),
     (''model'', JObj [(''id'', JStr ''m''), (''version'', JStr ''1''), (''adapter'', JStr ''anomalib.patchcore.v2'')]),
     (''metrics'', JObj [
        (''image_level'', JObj [(''auroc'', JInt 1),
           (''at_review_threshold'', JObj [(''threshold'', JFloat (1/2)), (''recall'', JInt 1)]),
           (''at_hold_threshold'', JObj [(''threshold'', JFloat (3/4)), (''recall'', JInt 1)])]),
        (''pixel_level'', JObj [(''auroc'', JFloat (9/10)), (''aupro_at_0_30_fpr'', JFloat (8/10))]),
        (''business'', JObj [(''false_accept_rate'', JInt 0), (''false_reject_rate'', JInt 0),
           (''manual_review_rate'', JFloat (1/2)), (''hold_rate'', JFloat (1/2)), (''auto_release_rate'', JFloat (1/2))]),
        (''performance'', JObj [(''warm_p50_ms'', JInt 20), (''warm_p95_ms'', JInt 30)])]),
     (''gallery'', JObj [(''json'', JStr ''/r/gallery/gallery.json''), (''path'', JStr ''/r/gallery/index.html''),
        (''case_count'', JInt 2)])]"

definition run_summary :: dict where
  "run_summary = [(''category'', JStr ''transistor''), (''package_sha256'', JStr zero_sha), (''dataset_fingerprint'', JStr zero_sha)]"

definition run_meta_document :: dict where
  "run_meta_document = [(''category'', JStr ''transistor''), (''dataset_root'', JStr ''/d''),
     (''counts'', JObj [(''train'', JInt 1), (''validation'', JInt 2), (''test'', JInt 2)]),
     (''dataset_fingerprint'', JStr zero_sha), (''manifest_sha256'', JStr zero_sha),
     (''split_sha256'', JObj [(''test'', JStr zero_sha)])]"

definition run_receipt :: dict where
  "run_receipt = [(''category'', JStr ''transistor''), (''dataset_root'', JStr ''/d''), (''license_acknowledged'', JBool True)]"

definition run_performance :: dict where
  "run_performance = [(''schema_version'', JStr ''visionqc.performance-probe.v1''), (''category'', JStr ''transistor''),
     (''cold_ms'', JInt 90), (''warm_p50_ms'', JInt 20), (''warm_p95_ms'', JInt 30)]"

definition run_cases :: "json list" where
  "run_cases = [run_gallery_case ''d'', run_gallery_case ''e'']"

definition run_gallery :: dict where
  "run_gallery = [(''schema_version'', JStr ''visionqc.error-gallery.v1''), (''cases'', JList run_cases)]"

definition run_documents :: "(string \<times> json) list" where
  "run_documents = [(''run'', JObj [(''manifest_path'', JStr ''/m/manifest.jsonl'')]), (''summary'', JObj run_summary),
     (''meta'', JObj run_meta_document), (''receipt'', JObj run_receipt), (''evaluation'', JObj run_evaluation),
     (''performance'', JObj run_performance), (''gallery'', JObj run_gallery)]"

definition run_env :: baseline_env where
  "run_env = \<lparr>ml_sha256 = run_sha, ml_dumps = (\<lambda>_. ''json''),
     ml_loads = (\<lambda>s. case map_of run_documents s of None \<Rightarrow> registry_loads s | j \<Rightarrow> j),
     ml_manifest_fields = (\<lambda>_. Some registry_manifest), ml_float_of = (\<lambda>_. None), ml_str_of = (\<lambda>_. ''value''),
     ml_tree = (\<lambda>p. if p = ''pkg'' then Some registry_package else None), ml_file = map_of run_files,
     pretty = (\<lambda>_. ''json''), rep_now = ''now'', rep_iso = (\<lambda>_. ''iso''), rep_commit = ''c'', rep_environment = JObj [],
     rep_model_card = ''card'', rep_evaluation_report = ''report'', bl_expand = (\<lambda>p. p), bl_resolve = Some,
     bl_dataset = (\<lambda>_. \<lparr>dd_files = map (\<lambda>n. ([n], n)) [''a'', ''b'', ''c'', ''d'', ''e''], dd_dirs = []\<rparr>),
     bl_header = (\<lambda>_. Some (2, 3)), bl_entry = map_of run_rows, bl_score = run_score,
     bl_calibration = (\<lambda>_. Some run_thresholds), bl_calibration_dump = (\<lambda>_. JNull), bl_meta = (\<lambda>_. Some run_meta),
     bl_lines = (\<lambda>s. if s = ''validation'' then [''b'', ''c''] else [''d'', ''e'']), bl_roc_auc = (\<lambda>_. 1),
     bl_prf = (\<lambda>_. (1, 1, 1)), bl_below = (\<lambda>_. [''gallery.json'', ''index.html''])\<rparr>"

text \<open>The stages of the check, one after the other.\<close>

definition run_manifest :: baseline_manifest where
  "run_manifest = \<lparr>bm_manifest_path = ''/m/manifest.jsonl'', bm_manifest_body = join_with [newline] [''a'', ''b'', ''c'', ''d'', ''e''],
     bm_meta_path = ''/m/manifest-meta.json'', bm_meta_body = ''meta'', bm_meta = run_meta_document, bm_root = ''/d'',
     bm_receipt_path = ''/d/transistor.directory-receipt.json'', bm_receipt = run_receipt, bm_summary = JObj run_summary\<rparr>"

definition run_entries :: "ManifestEntry list" where
  "run_entries = map snd run_rows"

definition run_split :: split_manifest where
  "run_split = [(''train'', map (manifest_row ''train'') (take 1 run_entries)),
     (''validation'', map (manifest_row ''validation'') (take 2 (drop 1 run_entries))),
     (''holdout'', map (manifest_row ''holdout'') (drop 3 run_entries))]"

definition run_bodies :: baseline_files where
  "run_bodies = \<lparr>bf_validation = ''validation'', bf_test = ''test'', bf_thresholds = ''M'', bf_evaluation = ''evaluation'',
     bf_performance = ''performance'', bf_gallery = ''gallery''\<rparr>"

definition run_validation :: "ScoreRecord list" where
  "run_validation = List.map_filter run_score [''b'', ''c'']"

definition run_test :: "ScoreRecord list" where
  "run_test = List.map_filter run_score [''d'', ''e'']"

lemma run_reads_manifest: "read_manifest run_env ''/r'' ''transistor'' None None = Inr run_manifest"
  by code_simp

lemma run_reads_entries: "baseline_entries run_env ''transistor'' run_manifest = Inr (run_entries, run_split)"
  by code_simp

lemma run_reads_summary: "check_summary run_env ''/r'' ''transistor'' ''pkg'' run_summary run_meta_document = Inr ()"
  by code_simp

lemma run_reads_package: "baseline_package run_env ''transistor'' ''pkg'' run_summary run_meta_document = Inr registry_manifest"
  by code_simp

lemma run_reads_bodies: "read_run_files run_env ''/r'' = Inr run_bodies"
  by code_simp

lemma run_reads_predictions:
  "read_predictions run_env ''transistor'' ''/r'' run_entries run_bodies = Inr (run_validation, run_test)"
  by code_simp

lemma run_reads_thresholds: "read_thresholds run_env ''pkg'' run_manifest run_bodies run_validation = Inr run_thresholds"
  by code_simp

lemma run_reads_evaluation:
  "read_evaluation run_env ''transistor'' ''pkg'' run_meta_document registry_manifest run_bodies run_thresholds = Inr run_evaluation"
  by code_simp

lemma run_reads_performance: "read_performance run_env ''transistor'' run_bodies = Inr run_performance"
  by code_simp

lemma run_reads_gallery: "parse_dict run_env (bf_gallery run_bodies) = Inr run_gallery"
  "validate_gallery run_env (gallery_dir ''/r'') run_thresholds ''transistor'' run_test run_gallery = Inr run_cases"
  "check_gallery_reference run_env ''/r'' run_evaluation run_cases = Inr ()"
  by code_simp+

definition run_metrics :: dict where
  "run_metrics = holdout_metrics run_env run_test (1/2) (3/4) (9/10, 8/10) (1/2) (90, 20, 30)"

lemma run_derives_metrics: "derived_metrics run_env run_test run_thresholds run_evaluation run_performance = Inr run_metrics"
  by code_simp

lemma run_lists_sources: "isl (source_inventory run_env ''/r'' ''pkg'' run_manifest) = False"
  by code_simp

lemma run_keeps_gates: "keeps_gates run_env run_test run_thresholds"
  by code_simp

lemma run_has_limitations: "jget_or ''limitations'' (JList []) run_evaluation = JList []"
  by code_simp

lemma run_paths: "bl_resolve run_env p = Some p" "bl_expand run_env p = p"
  by (simp_all add: run_env_def)

lemma run_manifest_simps: "bm_meta run_manifest = run_meta_document" "bm_summary run_manifest = JObj run_summary"
  by (simp_all add: run_manifest_def)

lemma example_run_accepted:
  obtains pe limitations where "load_pilot_evidence run_env ''/r'' ''transistor'' ''pkg'' None None = Inr pe"
    "keeps_gates run_env (pe_test pe) (pe_thresholds pe)" "jget ''warm_p95_ms'' (pe_metrics pe) = Some (JFloat 30)"
    "run_limitations pe = Inr limitations"
proof -
  obtain sources where s: "source_inventory run_env ''/r'' ''pkg'' run_manifest = Inr sources"
    using run_lists_sources by (cases "source_inventory run_env ''/r'' ''pkg'' run_manifest") simp_all
  let ?pe = "\<lparr>pe_run_dir = ''/r'', pe_package_path = ''pkg'', pe_package_manifest = registry_manifest,
    pe_manifest = run_manifest, pe_entries = run_entries, pe_split_rows = run_split, pe_validation = run_validation,
    pe_test = run_test, pe_thresholds = run_thresholds, pe_evaluation = run_evaluation, pe_gallery = run_gallery,
    pe_cases = run_cases, pe_metrics = run_metrics, pe_source_evidence = sources\<rparr>"
  have l: "load_pilot_evidence run_env ''/r'' ''transistor'' ''pkg'' None None = Inr ?pe"
    by (simp add: load_pilot_evidence_def resolve_path_def run_paths run_reads_manifest run_reads_entries run_manifest_simps
        run_reads_summary run_reads_package run_reads_bodies run_reads_predictions run_reads_thresholds
        run_reads_evaluation run_reads_performance run_reads_gallery run_derives_metrics s)
  have "\<exists>ls. run_limitations ?pe = Inr ls" by (simp add: run_limitations_def run_has_limitations)
  then obtain ls where ls: "run_limitations ?pe = Inr ls" ..
  have "jget ''warm_p95_ms'' (pe_metrics ?pe) = Some (JFloat 30)"
    by (simp add: run_metrics_def holdout_metrics_fields)
  from that [OF l _ this ls] run_keeps_gates show thesis by simp
qed

theorem accepted_run_is_consistent_witness:
  "\<exists>pe. load_pilot_evidence run_env ''/r'' ''transistor'' ''pkg'' None None = Inr pe \<and>
     follows_manifest ''transistor'' ''test'' (pe_entries pe) (pe_test pe) \<and>
     set (map sr_sample_id (pe_validation pe)) \<inter> set (map sr_sample_id (pe_test pe)) = {}"
proof -
  obtain pe limitations where pe: "load_pilot_evidence run_env ''/r'' ''transistor'' ''pkg'' None None = Inr pe"
    by (rule example_run_accepted)
  from accepted_run_is_consistent [OF pe] pe show ?thesis by blast
qed

theorem benchmark_pass_means_gates_witness:
  "\<exists>files r. qualify_from_run run_env ''/r'' ''f'' ''transistor'' ''pkg'' None None ''OFFICIAL_BENCHMARK'' None [] = Inr (files, r) \<and>
     rr_decision r = ''BENCHMARK_PASS''"
proof -
  obtain pe limitations where pe: "load_pilot_evidence run_env ''/r'' ''transistor'' ''pkg'' None None = Inr pe"
    "keeps_gates run_env (pe_test pe) (pe_thresholds pe)" "jget ''warm_p95_ms'' (pe_metrics pe) = Some (JFloat 30)"
    "run_limitations pe = Inr limitations"
    by (rule example_run_accepted)
  obtain files r where q: "qualify_from_run run_env ''/r'' ''f'' ''transistor'' ''pkg'' None None ''OFFICIAL_BENCHMARK'' None [] = Inr (files, r)"
    using accepted_run_qualifies [OF pe(1) pe(4)] by blast
  from benchmark_pass_means_gates [OF q] obtain p95 where "jget ''warm_p95_ms'' (pe_metrics pe) = Some (JFloat p95)"
    "rr_decision r = ''BENCHMARK_PASS'' \<longleftrightarrow> keeps_gates run_env (pe_test pe) (pe_thresholds pe) \<and> p95 \<le> 500"
    using pe(1) by force
  then have "rr_decision r = ''BENCHMARK_PASS''" using pe(2,3) by simp
  with q show ?thesis by blast
qed

end
