(* ===== verification/MlAssembly.thy ===== *)
theory MlAssembly
  imports MlReport
begin

text \<open>
  \<^verbatim>\<open>ml/src/visionqc_ml/package.py\<close>, \<open>build_model_package\<close>, and \<^verbatim>\<open>registry.py\<close>,
  \<open>compare_candidate_packages\<close>: how a model package is assembled, and how the reports of two packages compare.
\<close>

section \<open>Sources\<close>

text \<open>
  Beside the libraries of a report: the YAML parser, the JSON schema of an inference result, and the existence of a
  path. The arguments name files; \<open>None\<close> is an optional file that is not given. The model version is one path
  component.
\<close>

record assembly_env = report_env +
  as_yaml :: "string \<Rightarrow> json option"
  as_schema :: json
  as_exists :: "string \<Rightarrow> bool"

record package_sources =
  ps_target :: string
  ps_model :: string
  ps_training_config :: string
  ps_preprocessing :: string
  ps_thresholds :: string
  ps_evaluation_json :: string
  ps_evaluation_markdown :: string
  ps_manifest_meta :: string
  ps_dataset_notice :: string
  ps_model_id :: string
  ps_model_version :: string
  ps_code_commit :: string
  ps_lifecycle_status :: string
  ps_dependency_lock :: "string option"
  ps_runtime_notice :: "string option"
  ps_feature_bank :: "string option"
  ps_feature_bank_metadata :: "string option"
  ps_feature_bank_version :: "string option"

definition PACKAGE_LIMITATIONS :: "string list" where
  "PACKAGE_LIMITATIONS =
     [''The model detects anomalous appearance and localizes anomalous regions only.'',
      ''It does not confirm a semantic defect type or root cause.'',
      ''MVTec AD benchmark results do not establish real-factory production performance.'',
      ''MVTec AD is licensed CC BY-NC-SA 4.0 and is not licensed for commercial use.'']"

definition read_source :: "'a ml_env_scheme \<Rightarrow> string \<Rightarrow> ml_exn + string" where
  "read_source env path = (case ml_file env path of None \<Rightarrow> ml_raise ''FileNotFoundError'' path | Some c \<Rightarrow> Inr c)"

text \<open>\<open>_copy\<close>, one pair of source and destination after the other.\<close>

fun copy_files ::
  "'a ml_env_scheme \<Rightarrow> (string \<times> string) list \<Rightarrow> (string \<times> string) list \<Rightarrow> ml_exn + (string \<times> string) list" where
  "copy_files env [] files = Inr files"
| "copy_files env ((src, destination) # rest) files = (case ml_file env src of
     None \<Rightarrow> package_error (''required package source file does not exist: '' @ src)
   | Some contents \<Rightarrow> copy_files env rest (write_file destination contents files))"

definition optional_copy :: "string option \<Rightarrow> string \<Rightarrow> (string \<times> string) list" where
  "optional_copy src destination = (case src of None \<Rightarrow> [] | Some s \<Rightarrow> [(s, destination)])"

definition package_copies :: "package_sources \<Rightarrow> (string \<times> string) list" where
  "package_copies a =
     [(ps_model a, ''weights/model.pt''), (ps_training_config a, ''config/training.yaml''),
      (ps_preprocessing a, ''config/preprocessing.json''), (ps_thresholds a, ''config/thresholds.json''),
      (ps_evaluation_json a, ''metrics/evaluation.json''), (ps_evaluation_markdown a, ''metrics/evaluation.md''),
      (ps_manifest_meta a, ''provenance/manifest-meta.json''), (ps_dataset_notice a, ''licenses/MVTEC-AD-NOTICE.md'')] @
     optional_copy (ps_dependency_lock a) ''provenance/uv.lock'' @
     optional_copy (ps_runtime_notice a) ''licenses/MODEL-RUNTIME-NOTICE.md''"

section \<open>Feature bank and metadata\<close>

definition bank_document :: "string \<Rightarrow> dict" where
  "bank_document sha = [(''schema_version'', JStr ''visionqc.feature-bank.v1''), (''file'', JStr ''weights/feature-bank.pt''),
     (''sha256'', JStr sha), (''source'', JStr ''Anomalib PatchCore fitted memory bank'')]"

text \<open>The staged files with the feature bank, and its path and digest.\<close>

definition add_feature_bank ::
  "'a report_env_scheme \<Rightarrow> package_sources \<Rightarrow> (string \<times> string) list \<Rightarrow>
   ml_exn + (string \<times> string) list \<times> string option \<times> string option" where
  "add_feature_bank env a files = (case ps_feature_bank a of
     None \<Rightarrow> Inr (files, None, None)
   | Some src \<Rightarrow> (case ml_file env src of
       None \<Rightarrow> package_error (''required package source file does not exist: '' @ src)
     | Some contents \<Rightarrow>
         let sha = ml_sha256 env contents; with_bank = write_file ''weights/feature-bank.pt'' contents files;
             bank = (Some ''weights/feature-bank.pt'', Some sha) in
         (case ps_feature_bank_metadata a of
           Some m \<Rightarrow> andThen (copy_files env [(m, ''provenance/feature-bank.json'')] with_bank) (\<lambda>fs. Inr (fs, bank))
         | None \<Rightarrow> Inr (write_document env ''provenance/feature-bank.json'' (JObj (bank_document sha)) with_bank, bank))))"

text \<open>The version: the argument, the one of the configuration, or one made of the fingerprint.\<close>

definition bank_version :: "ml_env \<Rightarrow> package_sources \<Rightarrow> dict \<Rightarrow> json \<Rightarrow> ml_exn + json" where
  "bank_version env a config meta =
     (if truthy (ps_feature_bank_version a) then Inr (JOpt (ps_feature_bank_version a))
      else
        andThen (ml_dict (jget_or ''model'' (JObj []) config)) (\<lambda>model.
        if json_truthy (jget_null ''feature_bank_version'' model) then Inr (jget_null ''feature_bank_version'' model)
        else andThen (jindex ''dataset_fingerprint'' meta) (\<lambda>f. Inr (JStr (''fb-'' @ take 16 (ml_str env f))))))"

definition metadata_document ::
  "ml_env \<Rightarrow> package_sources \<Rightarrow> string \<Rightarrow> json \<Rightarrow> string option \<Rightarrow> string option \<Rightarrow> json \<Rightarrow> json \<Rightarrow> dict" where
  "metadata_document env a category version bank_file bank_sha anomalib backbone =
     [(''schema_version'', JStr ''visionqc.model-metadata.v1''), (''model_id'', JStr (ps_model_id a)),
      (''model_version'', JStr (ps_model_version a)), (''category'', JStr category), (''feature_bank_version'', version),
      (''feature_bank_file'', JOpt bank_file), (''feature_bank_sha256'', JOpt bank_sha), (''algorithm'', JStr ''PatchCore''),
      (''implementation'', JStr (''Anomalib '' @ ml_str env anomalib)), (''backbone'', backbone),
      (''score_range'', JList [JFloat 0, JFloat 1]),
      (''score_semantics'', JStr ''normalized anomaly evidence; higher means more anomalous appearance''),
      (''score_normalization'', JStr ''Anomalib 2.0 PostProcessor validation normalization embedded in exported Torch model''),
      (''threshold_ownership'', JStr ''versioned deployment policy; calibrated from validation only''),
      (''code_commit'', JStr (ps_code_commit a)), (''limitations'', texts PACKAGE_LIMITATIONS)]"

section \<open>The manifest\<close>

text \<open>A field of pydantic type \<open>str\<close>.\<close>

definition text_field :: "json \<Rightarrow> ml_exn + string" where
  "text_field j = (case j of JStr s \<Rightarrow> Inr s | _ \<Rightarrow> ml_raise ''ValidationError'' ''string_type'')"

definition manifest_dump :: "'a report_env_scheme \<Rightarrow> ModelPackageManifest \<Rightarrow> dict" where
  "manifest_dump env m =
     [(''package_format'', JStr (mp_package_format m)), (''model_id'', JStr (mp_model_id m)),
      (''model_version'', JStr (mp_model_version m)), (''feature_bank_version'', JStr (mp_feature_bank_version m)),
      (''category'', JStr (mp_category m)), (''adapter'', JStr (mp_adapter m)), (''created_at'', JStr (rep_now env)),
      (''lifecycle_status'', JStr (mp_lifecycle_status m)), (''dataset_fingerprint'', JStr (mp_dataset_fingerprint m)),
      (''training_manifest_sha256'', JStr (mp_training_manifest_sha256 m)), (''code_commit'', JStr (mp_code_commit m)),
      (''package_sha256'', JStr (mp_package_sha256 m)), (''feature_bank_file'', JOpt (mp_feature_bank_file m)),
      (''feature_bank_sha256'', JOpt (mp_feature_bank_sha256 m)),
      (''files'', JObj (map (\<lambda>(p, f). (p, dump_file f)) (mp_files m))), (''limitations'', texts PACKAGE_LIMITATIONS)]"

definition package_manifest ::
  "ml_env \<Rightarrow> package_sources \<Rightarrow> string \<Rightarrow> json \<Rightarrow> string option \<Rightarrow> string option \<Rightarrow> json \<Rightarrow>
   (string \<times> string) list \<Rightarrow> ml_exn + ModelPackageManifest" where
  "package_manifest env a category version bank_file bank_sha meta staged =
     andThen (jindex ''dataset_fingerprint'' meta) (\<lambda>fingerprint.
     andThen (jindex ''manifest_sha256'' meta) (\<lambda>manifest_sha.
     andThen (text_field version) (\<lambda>bank_version.
     andThen (text_field fingerprint) (\<lambda>fingerprint_text.
     andThen (text_field manifest_sha) (\<lambda>manifest_text.
     let m = \<lparr>mp_package_format = ''visionqc.model-package.v1'', mp_model_id = ps_model_id a,
           mp_model_version = ps_model_version a, mp_feature_bank_version = bank_version, mp_category = category,
           mp_adapter = ''anomalib.patchcore.v2'', mp_lifecycle_status = ps_lifecycle_status a,
           mp_dataset_fingerprint = fingerprint_text, mp_training_manifest_sha256 = manifest_text,
           mp_code_commit = ps_code_commit a, mp_package_sha256 = package_digest env (file_index env staged),
           mp_feature_bank_file = bank_file, mp_feature_bank_sha256 = bank_sha, mp_files = file_index env staged\<rparr>
     in andThen (ml_check (manifest_valid m) ''ValidationError'' ''ModelPackageManifest'') (\<lambda>_. Inr m))))))"

section \<open>Assembly\<close>

text \<open>The version directory of the package and the files below it.\<close>

definition package_path :: "package_sources \<Rightarrow> string" where
  "package_path a = ml_join_path (ml_join_path (ps_target a) (ps_model_id a)) (ps_model_version a)"

definition build_model_package ::
  "assembly_env \<Rightarrow> package_sources \<Rightarrow> ml_exn + string \<times> (string \<times> string) list" where
  "build_model_package env a =
     (let base = ml_env.truncate env in
     andThen (read_source env (ps_manifest_meta a)) (\<lambda>meta_body.
     andThen (case ml_loads env meta_body of None \<Rightarrow> ml_value_error ''JSONDecodeError'' | Some j \<Rightarrow> Inr j) (\<lambda>meta.
     andThen (read_source env (ps_training_config a)) (\<lambda>config_body.
     andThen (case as_yaml env config_body of None \<Rightarrow> ml_raise ''YAMLError'' config_body | Some j \<Rightarrow> Inr j) (\<lambda>config_json.
     andThen (ml_dict config_json) (\<lambda>config.
     andThen (ml_dict (jget_or ''data'' (JObj []) config)) (\<lambda>data.
     let category = ml_str base (jget_or ''category'' (JStr ''unknown'') data) in
     andThen (bank_version base a config meta) (\<lambda>version.
     andThen (ml_check (\<not> as_exists env (package_path a)) ''ModelPackageError''
       ''versioned package already exists and will not be overwritten'') (\<lambda>_.
     andThen (copy_files env (package_copies a) []) (\<lambda>copied.
     andThen (add_feature_bank env a copied) (\<lambda>(banked, bank_file, bank_sha).
     let with_schema = write_document env ''schemas/inference-result.schema.json'' (as_schema env) banked in
     andThen (jindex ''model'' config_json) (\<lambda>model.
     andThen (jindex ''anomalib_version'' model) (\<lambda>anomalib.
     andThen (jindex ''backbone'' model) (\<lambda>backbone.
     let staged = write_document env ''metadata.json''
           (JObj (metadata_document base a category version bank_file bank_sha anomalib backbone)) with_schema in
     andThen (package_manifest base a category version bank_file bank_sha meta staged) (\<lambda>m.
     Inr (package_path a, write_document env ''model-package.json'' (JObj (manifest_dump env m)) staged))))))))))))))))"

section \<open>Comparison of two packages\<close>

text \<open>\<open>metric\<close>: the number at a path of keys, if there is one; \<open>True\<close> is an integer.\<close>

fun metric_at :: "json \<Rightarrow> string list \<Rightarrow> rat option" where
  "metric_at j [] = (case j of JInt i \<Rightarrow> Some (of_int i) | JFloat x \<Rightarrow> Some x | JBool b \<Rightarrow> Some (if b then 1 else 0) | _ \<Rightarrow> None)"
| "metric_at j (k # ks) = (case j of JObj kvs \<Rightarrow> metric_at (jget_null k kvs) ks | _ \<Rightarrow> None)"

definition metric_paths :: "(string \<times> string list) list" where
  "metric_paths =
     [(''image_auroc'', [''metrics'', ''image_level'', ''auroc'']),
      (''review_f1'', [''metrics'', ''image_level'', ''at_review_threshold'', ''f1'']),
      (''hold_recall'', [''metrics'', ''image_level'', ''at_hold_threshold'', ''recall'']),
      (''false_accept_rate'', [''metrics'', ''business'', ''false_accept_rate'']),
      (''false_reject_rate'', [''metrics'', ''business'', ''false_reject_rate'']),
      (''warm_p95_ms'', [''metrics'', ''performance'', ''warm_p95_ms''])]"

record comparison_row =
  cr_left :: "rat option"
  cr_right :: "rat option"
  cr_delta :: "rat option"

definition comparison_row_of :: "json \<Rightarrow> json \<Rightarrow> string list \<Rightarrow> comparison_row" where
  "comparison_row_of left_report right_report path =
     (let l = metric_at left_report path; r = metric_at right_report path in
     \<lparr>cr_left = l, cr_right = r,
      cr_delta = (case (l, r) of (Some x, Some y) \<Rightarrow> Some (y - x) | _ \<Rightarrow> None)\<rparr>)"

record candidate_comparison =
  cc_category :: string
  cc_left :: "string \<times> string \<times> string"
  cc_right :: "string \<times> string \<times> string"
  cc_metrics :: "(string \<times> comparison_row) list"

definition model_reference :: "ModelPackageManifest \<Rightarrow> string \<times> string \<times> string" where
  "model_reference m = (mp_model_id m, mp_model_version m, mp_package_sha256 m)"

definition package_report :: "ml_env \<Rightarrow> string \<Rightarrow> ml_exn + json" where
  "package_report env dir = ml_read_json env (case ml_tree env dir of None \<Rightarrow> [] | Some files \<Rightarrow> files) ''metrics/evaluation.json''"

definition compare_candidate_packages :: "ml_env \<Rightarrow> string \<Rightarrow> string \<Rightarrow> ml_exn + candidate_comparison" where
  "compare_candidate_packages env left_package right_package =
     andThen (verify_model_package env left_package None) (\<lambda>l.
     andThen (verify_model_package env right_package None) (\<lambda>r.
     andThen (ml_check (mp_category l = mp_category r) ''ValueError''
       ''candidate comparison requires one product category'') (\<lambda>_.
     andThen (package_report env left_package) (\<lambda>left_report.
     andThen (package_report env right_package) (\<lambda>right_report.
     Inr \<lparr>cc_category = mp_category l, cc_left = model_reference l, cc_right = model_reference r,
       cc_metrics = map (\<lambda>(name, path). (name, comparison_row_of left_report right_report path)) metric_paths\<rparr>)))))"

end
