(* ===== verification/MlAssemblyProofs.thy ===== *)
theory MlAssemblyProofs
  imports MlAssembly MlReportProofs MlRegistryGuarantees
begin

text \<open>
  A package that has been assembled passes the check of a package on disk, and the comparison of two packages does
  not depend on which of them comes first.
\<close>

section \<open>Staged files\<close>

text \<open>The source of a staged file: the last pair with its destination.\<close>

definition source_of :: "(string \<times> string) list \<Rightarrow> string \<Rightarrow> string option" where
  "source_of copies p = map_of (rev (map prod.swap copies)) p"

lemma copy_files_contents:
  "copy_files env copies files = Inr files' \<Longrightarrow>
   map_of files' p = (case source_of copies p of None \<Rightarrow> map_of files p | Some src \<Rightarrow> ml_file env src)"
proof (induction env copies files rule: copy_files.induct)
  case (2 env src destination rest files)
  then obtain c where "ml_file env src = Some c" "copy_files env rest (write_file destination c files) = Inr files'"
    by (auto split: option.splits)
  with "2.IH" [of c] show ?case by (simp add: source_of_def map_of_write map_add_def split: option.splits)
qed (simp add: source_of_def)

lemma copy_files_names:
  "copy_files env copies files = Inr files' \<Longrightarrow> set (map fst files') = set (map fst files) \<union> snd ` set copies"
proof (induction env copies files rule: copy_files.induct)
  case (2 env src destination rest files)
  then obtain c where "ml_file env src = Some c" "copy_files env rest (write_file destination c files) = Inr files'"
    by (auto split: option.splits)
  with "2.IH" [of c] show ?case by (simp only: names_write) auto
qed simp

lemma copy_files_distinct:
  "copy_files env copies files = Inr files' \<Longrightarrow> distinct (map fst files) \<Longrightarrow> distinct (map fst files')"
  by (induction env copies files rule: copy_files.induct) (auto simp: distinct_write split: option.splits)

lemma package_copies_sources: "source_of (package_copies a) ''config/thresholds.json'' = Some (ps_thresholds a)"
  by (cases "ps_dependency_lock a"; cases "ps_runtime_notice a")
    (simp_all add: source_of_def package_copies_def optional_copy_def)

lemma package_copies_names:
  "{''weights/model.pt'', ''config/training.yaml'', ''config/preprocessing.json'', ''config/thresholds.json'',
    ''metrics/evaluation.json'', ''provenance/manifest-meta.json''} \<subseteq> snd ` set (package_copies a)"
  by (simp add: package_copies_def)

text \<open>What the feature bank adds.\<close>

lemma feature_bank_added:
  assumes "add_feature_bank env a files = Inr (files', bank_file, bank_sha)"
  shows "distinct (map fst files) \<longrightarrow> distinct (map fst files')" "set (map fst files) \<subseteq> set (map fst files')"
    "map_of files' ''config/thresholds.json'' = map_of files ''config/thresholds.json''"
    "bank_file = None \<and> bank_sha = None \<or> bank_file = Some ''weights/feature-bank.pt'' \<and> ps_feature_bank a \<noteq> None \<and>
       (\<exists>c. map_of files' ''weights/feature-bank.pt'' = Some c \<and> bank_sha = Some (ml_sha256 env c))"
proof -
  show "distinct (map fst files) \<longrightarrow> distinct (map fst files')"
    using assms by (auto simp: add_feature_bank_def Let_def write_document_def distinct_write split: option.splits)
  show "set (map fst files) \<subseteq> set (map fst files')"
    using assms unfolding add_feature_bank_def Let_def write_document_def
    by (auto simp del: set_map simp: names_write split: option.splits)
  show "map_of files' ''config/thresholds.json'' = map_of files ''config/thresholds.json''"
    using assms by (auto simp: add_feature_bank_def Let_def write_document_def map_of_write split: option.splits)
  show "bank_file = None \<and> bank_sha = None \<or> bank_file = Some ''weights/feature-bank.pt'' \<and> ps_feature_bank a \<noteq> None \<and>
       (\<exists>c. map_of files' ''weights/feature-bank.pt'' = Some c \<and> bank_sha = Some (ml_sha256 env c))"
    using assms by (auto simp: add_feature_bank_def Let_def write_document_def map_of_write split: option.splits)
qed

section \<open>Index and manifest\<close>

lemma index_same_library:
  assumes "ml_sha256 env' = ml_sha256 env" "ml_dumps env' = ml_dumps env"
  shows "file_index env' files = file_index (ml_env.truncate env) files"
    "package_digest env' index = package_digest (ml_env.truncate env) index"
  using assms by (simp_all add: file_index_def package_entry_def package_digest_def sha256_json_def ml_env.truncate_def)

lemma index_ignores_manifest:
  "file_index env (write_file ''model-package.json'' c files) = file_index env files"
proof -
  have "base_name ''model-package.json'' = ''model-package.json''" by code_simp
  then show ?thesis by (simp add: file_index_def filter_write)
qed

lemma index_distinct: "distinct (map fst files) \<Longrightarrow> distinct (map fst (file_index env files))"
  by (simp add: file_index_def comp_def case_prod_beta distinct_map inj_on_def)

text \<open>pydantic reads its own dump: every field comes back, the files in the order of the document.\<close>

definition manifest_reads_back :: "assembly_env \<Rightarrow> bool" where
  "manifest_reads_back env \<longleftrightarrow> (\<forall>m. distinct (map fst (mp_files m)) \<longrightarrow>
     ml_manifest_fields env (sort_keys (JObj (manifest_dump env m))) = Some (m\<lparr>mp_files := sort_key fst (mp_files m)\<rparr>))"

lemma manifest_dump_proper: "distinct (map fst (mp_files m)) \<Longrightarrow> proper_json (JObj (manifest_dump env m))"
  by (auto simp: manifest_dump_def dump_file_def comp_def case_prod_beta)

lemma manifest_valid_sorted: "manifest_valid m \<Longrightarrow> manifest_valid (m\<lparr>mp_files := sort_key fst (mp_files m)\<rparr>)"
  by (simp add: manifest_valid_def list_all_iff)

lemma text_field_Inr: "text_field j = Inr s \<longleftrightarrow> j = JStr s"
  by (cases j) (simp_all add: text_field_def)

lemma package_manifest_Inr:
  assumes "package_manifest env a category version bank_file bank_sha meta staged = Inr m"
  shows "manifest_valid m" "mp_files m = file_index env staged" "mp_package_sha256 m = package_digest env (file_index env staged)"
    "mp_model_id m = ps_model_id a" "mp_model_version m = ps_model_version a" "mp_category m = category"
    "mp_lifecycle_status m = ps_lifecycle_status a" "mp_code_commit m = ps_code_commit a"
    "mp_feature_bank_file m = bank_file" "mp_feature_bank_sha256 m = bank_sha" "\<exists>s. version = JStr s"
  using assms by (auto simp: package_manifest_def text_field_Inr Let_def)

section \<open>An assembled package verifies\<close>

text \<open>The last stages of an assembly.\<close>

lemma built_package:
  assumes "build_model_package env a = Inr (dir, files)"
  obtains config_json category version copied banked bank_file bank_sha anomalib backbone meta m where
    "dir = package_path a" "copy_files env (package_copies a) [] = Inr copied"
    "add_feature_bank env a copied = Inr (banked, bank_file, bank_sha)"
    "\<exists>body model. as_yaml env body = Some config_json \<and> jindex ''model'' config_json = Inr model \<and> jindex ''backbone'' model = Inr backbone"
    "package_manifest (ml_env.truncate env) a category version bank_file bank_sha meta
       (write_document env ''metadata.json''
          (JObj (metadata_document (ml_env.truncate env) a category version bank_file bank_sha anomalib backbone))
          (write_document env ''schemas/inference-result.schema.json'' (as_schema env) banked)) = Inr m"
    "files = write_document env ''model-package.json'' (JObj (manifest_dump env m))
       (write_document env ''metadata.json''
          (JObj (metadata_document (ml_env.truncate env) a category version bank_file bank_sha anomalib backbone))
          (write_document env ''schemas/inference-result.schema.json'' (as_schema env) banked))"
proof -
  show thesis
    using assms that unfolding build_model_package_def Let_def
    by (clarsimp simp del: ml_dict_Inr jindex_Inr split: option.splits) blast
qed

lemma jindex_proper: "jindex k j = Inr v \<Longrightarrow> proper_json j \<Longrightarrow> proper_json v"
  by (cases j) (auto simp: jindex_def split: option.splits dest!: jget_in)

text \<open>Thresholds that a package may carry.\<close>

definition ordered_thresholds :: "ml_env \<Rightarrow> string \<Rightarrow> bool" where
  "ordered_thresholds env contents \<longleftrightarrow> (\<exists>d x y. ml_loads env contents = Some (JObj d) \<and>
     ml_float env ''review_threshold'' d = Inr x \<and> ml_float env ''hold_threshold'' d = Inr y \<and> x < y)"

lemma metadata_passes:
  assumes "reads_back env" "same_library env env'" "ordered_thresholds env' t"
    "map_of files ''config/thresholds.json'' = Some t"
    "map_of files ''metadata.json'' = Some (pretty env (sort_keys (JObj d)))" "proper_json (JObj d)"
    "jget ''model_id'' d = Some (JStr (mp_model_id m))" "jget ''model_version'' d = Some (JStr (mp_model_version m))"
  shows "package_metadata_ok env' files m = Inr ()"
proof -
  have r: "read_dict env' files ''metadata.json'' = Inr (sorted_dict d)"
    by (rule read_written [OF assms(1,2,5,6)])
  then have j: "ml_read_json env' files ''metadata.json'' = Inr (JObj (sorted_dict d))"
    by (auto simp: read_dict_def)
  obtain td x y where t: "ml_loads env' t = Some (JObj td)" "ml_float env' ''review_threshold'' td = Inr x"
    "ml_float env' ''hold_threshold'' td = Inr y" "x < y"
    using assms(3) by (auto simp: ordered_thresholds_def)
  have k: "ml_read_json env' files ''config/thresholds.json'' = Inr (JObj td)"
    using assms(4) t(1) by (simp add: ml_read_json_def)
  have f: "jget_or ''model_id'' JNull (sorted_dict d) = JStr (mp_model_id m)"
    "jget_or ''model_version'' JNull (sorted_dict d) = JStr (mp_model_version m)"
    using field_sorted [OF assms(6,7)] field_sorted [OF assms(6,8)] by simp_all
  show ?thesis using t(2-4) by (simp add: package_metadata_ok_def j k f ml_check_def)
qed

lemma metadata_fields:
  "jget ''model_id'' (metadata_document env a category version bank_file bank_sha anomalib backbone) = Some (JStr (ps_model_id a))"
  "jget ''model_version'' (metadata_document env a category version bank_file bank_sha anomalib backbone) = Some (JStr (ps_model_version a))"
  by (simp_all add: metadata_document_def jget_def)

lemma metadata_proper:
  "proper_json version \<Longrightarrow> proper_json backbone \<Longrightarrow>
   proper_json (JObj (metadata_document env a category version bank_file bank_sha anomalib backbone))"
  by (simp add: metadata_document_def)

text \<open>A directory whose index, metadata and feature bank are those of its manifest verifies.\<close>

lemma verify_assembled:
  assumes "ml_tree env dir = Some files" "map_of files ''model-package.json'' = Some body"
    "ml_loads env body = Some j" "validate_package_manifest env j = Some m"
    "map_of (file_index env files) = map_of (mp_files m)" "set required_package_files \<subseteq> set (map fst files)"
    "check_feature_bank env dir m = Inr ()" "package_metadata_ok env files m = Inr ()"
    "package_digest env (file_index env files) = mp_package_sha256 m"
  shows "verify_model_package env dir None = Inr m"
proof -
  have "set (map fst (mp_files m)) = set (map fst (file_index env files))"
    using assms(5) by (metis dom_map_of_conv_image_fst list.set_map)
  then show ?thesis using assms by (simp add: verify_model_package_def Let_def ml_check_def list_all_iff)
qed

lemma assembled_verifies:
  assumes b: "build_model_package env a = Inr (dir, files)"
    and lib: "reads_back env" "manifest_reads_back env" "\<forall>s j. as_yaml env s = Some j \<longrightarrow> proper_json j"
      "same_library env env'" "ml_manifest_fields env' = ml_manifest_fields env"
    and disk: "ml_tree env' dir = Some files"
      "ps_feature_bank a \<noteq> None \<longrightarrow> ml_file env' (ml_join_path dir ''weights/feature-bank.pt'') = map_of files ''weights/feature-bank.pt''"
    and th: "\<forall>t. ml_file env (ps_thresholds a) = Some t \<longrightarrow> ordered_thresholds env' t"
  shows "\<exists>m. verify_model_package env' dir None = Inr m \<and> mp_model_id m = ps_model_id a \<and>
     mp_model_version m = ps_model_version a \<and> mp_lifecycle_status m = ps_lifecycle_status a"
proof -
  let ?base = "ml_env.truncate env"
  obtain config_json category version copied banked bank_file bank_sha anomalib backbone meta m where
    c: "copy_files env (package_copies a) [] = Inr copied" and
    bank: "add_feature_bank env a copied = Inr (banked, bank_file, bank_sha)" and
    cfg: "\<exists>body model. as_yaml env body = Some config_json \<and> jindex ''model'' config_json = Inr model \<and> jindex ''backbone'' model = Inr backbone" and
    pm: "package_manifest ?base a category version bank_file bank_sha meta
       (write_document env ''metadata.json'' (JObj (metadata_document ?base a category version bank_file bank_sha anomalib backbone))
          (write_document env ''schemas/inference-result.schema.json'' (as_schema env) banked)) = Inr m" and
    fs: "files = write_document env ''model-package.json'' (JObj (manifest_dump env m))
       (write_document env ''metadata.json'' (JObj (metadata_document ?base a category version bank_file bank_sha anomalib backbone))
          (write_document env ''schemas/inference-result.schema.json'' (as_schema env) banked))"
    by (rule built_package [OF b])
  let ?doc = "metadata_document ?base a category version bank_file bank_sha anomalib backbone"
  let ?staged = "write_document env ''metadata.json'' (JObj ?doc)
      (write_document env ''schemas/inference-result.schema.json'' (as_schema env) banked)"
  let ?m = "m\<lparr>mp_files := sort_key fst (mp_files m)\<rparr>"
  note pmI = package_manifest_Inr [OF pm]
  note added = feature_bank_added [OF bank]
  have dist: "distinct (map fst ?staged)"
    using copy_files_distinct [OF c] added(1) by (simp add: write_document_def distinct_write)
  have index: "file_index env' files = mp_files m"
    using lib(4) pmI(2) index_same_library(1) [of env' env]
    by (simp add: same_library_def fs write_document_def index_ignores_manifest)
  have idist: "distinct (map fst (mp_files m))" unfolding pmI(2) by (rule index_distinct [OF dist])
  have digest: "package_digest env' (file_index env' files) = mp_package_sha256 ?m"
    using lib(4) pmI(2,3) index_same_library(2) [of env' env] by (simp add: index same_library_def)
  have names: "set (map fst files) = {''model-package.json'', ''metadata.json'', ''schemas/inference-result.schema.json''} \<union> set (map fst banked)"
    unfolding fs write_document_def names_write by simp
  have copied_kept: "snd ` set (package_copies a) \<subseteq> set (map fst banked)"
    using added(2) unfolding copy_files_names [OF c] by (simp only: Un_subset_iff)
  have required: "set required_package_files \<subseteq> set (map fst files)"
    using subset_trans [OF package_copies_names copied_kept]
    unfolding names required_package_files_def list.set by (simp only: insert_subset Un_iff insert_iff simp_thms empty_subsetI)
  have "ml_file env (ps_thresholds a) = map_of files ''config/thresholds.json''"
    using copy_files_contents [OF c, of "''config/thresholds.json''"] added(3)
    by (simp add: package_copies_sources fs write_document_def map_of_write)
  moreover have "map_of files ''config/thresholds.json'' \<noteq> None"
    using required by (simp add: required_package_files_def map_of_eq_None_iff)
  ultimately obtain t where t: "map_of files ''config/thresholds.json'' = Some t" "ordered_thresholds env' t"
    using th by auto
  have body: "map_of files ''model-package.json'' = Some (pretty env (sort_keys (JObj (manifest_dump env m))))"
    "map_of files ''metadata.json'' = Some (pretty env (sort_keys (JObj ?doc)))"
    by (simp_all add: fs write_document_def map_of_write)
  have loaded: "ml_loads env' (pretty env (sort_keys (JObj (manifest_dump env m)))) = Some (sort_keys (JObj (manifest_dump env m)))"
    using lib(1,4) proper_sorted [OF manifest_dump_proper [OF idist, of env]]
    by (simp add: reads_back_def same_library_def del: sort_keys.simps proper_json.simps)
  have decoded: "validate_package_manifest env' (sort_keys (JObj (manifest_dump env m))) = Some ?m"
    using lib(2,5) idist manifest_valid_sorted [OF pmI(1)]
    by (simp add: validate_package_manifest_def manifest_reads_back_def del: sort_keys.simps)
  have proper: "proper_json (JObj ?doc)"
    using metadata_proper cfg lib(3) jindex_proper pmI(11) by (metis proper_json.simps(7))
  have meta: "package_metadata_ok env' files ?m = Inr ()"
    by (rule metadata_passes [OF lib(1,4) t(2,1) body(2) proper]) (simp_all add: metadata_fields pmI(4,5))
  have feature: "check_feature_bank env' dir ?m = Inr ()"
  proof (cases "bank_file = None")
    case True
    then show ?thesis by (simp add: check_feature_bank_def pmI(9) truthy_def)
  next
    case False
    with added(4) obtain contents where k: "bank_file = Some ''weights/feature-bank.pt''" "ps_feature_bank a \<noteq> None"
      "map_of banked ''weights/feature-bank.pt'' = Some contents" "bank_sha = Some (ml_sha256 env contents)" by blast
    then have "ml_file env' (ml_join_path dir ''weights/feature-bank.pt'') = Some contents"
      using disk(2) by (simp add: fs write_document_def map_of_write)
    then show ?thesis
      using k lib(4) by (simp add: check_feature_bank_def pmI(9,10) or_else_def ml_check_def same_library_def)
  qed
  have "verify_model_package env' dir None = Inr ?m"
    by (rule verify_assembled [OF disk(1) body(1) loaded decoded _ required feature meta digest])
      (simp add: index map_of_sort [OF idist])
  with pmI(4,5,7) show ?thesis by auto
qed

text \<open>The thresholds of the package are a copy of those the assembly was given.\<close>

lemma thresholds_copied:
  assumes "build_model_package env a = Inr (dir, files)"
  shows "\<exists>t. ml_file env (ps_thresholds a) = Some t \<and> map_of files ''config/thresholds.json'' = Some t"
proof -
  let ?base = "ml_env.truncate env"
  obtain config_json category version copied banked bank_file bank_sha anomalib backbone meta m where
    c: "copy_files env (package_copies a) [] = Inr copied" and
    bank: "add_feature_bank env a copied = Inr (banked, bank_file, bank_sha)" and
    fs: "files = write_document env ''model-package.json'' (JObj (manifest_dump env m))
       (write_document env ''metadata.json'' (JObj (metadata_document ?base a category version bank_file bank_sha anomalib backbone))
          (write_document env ''schemas/inference-result.schema.json'' (as_schema env) banked))"
    by (rule built_package [OF assms])
  note added = feature_bank_added [OF bank]
  have "snd ` set (package_copies a) \<subseteq> set (map fst banked)"
    using added(2) unfolding copy_files_names [OF c] by (simp only: Un_subset_iff)
  then have "map_of banked ''config/thresholds.json'' \<noteq> None"
    using package_copies_names by (auto simp: map_of_eq_None_iff)
  moreover have "ml_file env (ps_thresholds a) = map_of files ''config/thresholds.json''"
    using copy_files_contents [OF c, of "''config/thresholds.json''"] added(3)
    by (simp add: package_copies_sources fs write_document_def map_of_write)
  ultimately show ?thesis by (auto simp: fs write_document_def map_of_write)
qed

text \<open>A directory that verifies holds ordered thresholds.\<close>

lemma verified_thresholds:
  assumes "verify_model_package env dir c = Inr m" "ml_tree env dir = Some files"
    "map_of files ''config/thresholds.json'' = Some t"
  shows "ordered_thresholds env t"
proof -
  have "package_metadata_ok env files m = Inr ()" using verified_package [OF assms(1)] assms(2) by auto
  then show ?thesis
    using assms(3) unfolding package_metadata_ok_def ordered_thresholds_def ml_read_json_def
    by (auto simp: ml_check_def split: option.splits json.splits if_splits)
qed

text \<open>C39. A package that has been assembled verifies, when it is read from the version directory with the same libraries,
  exactly when the thresholds file it was assembled with holds two numbers in order, which the assembly never
  checks: then its manifest is decoded, its inventory, its digests and its feature bank agree, and it names the model
  it was built for; otherwise the package that was built is refused by its own check. The JSON library and pydantic
  read back what they wrote.\<close>

theorem built_package_verifies:
  assumes "build_model_package env a = Inr (dir, files)"
    and "reads_back env" "manifest_reads_back env" "\<forall>s j. as_yaml env s = Some j \<longrightarrow> proper_json j"
      "same_library env env'" "ml_manifest_fields env' = ml_manifest_fields env"
    and "ml_tree env' dir = Some files"
      "ps_feature_bank a \<noteq> None \<longrightarrow> ml_file env' (ml_join_path dir ''weights/feature-bank.pt'') = map_of files ''weights/feature-bank.pt''"
  shows "\<exists>t. ml_file env (ps_thresholds a) = Some t \<and>
     (if ordered_thresholds env' t
      then \<exists>m. verify_model_package env' dir None = Inr m \<and> mp_model_id m = ps_model_id a \<and>
        mp_model_version m = ps_model_version a \<and> mp_lifecycle_status m = ps_lifecycle_status a
      else \<exists>e. verify_model_package env' dir None = Inl e)"
proof -
  obtain t where t: "ml_file env (ps_thresholds a) = Some t" "map_of files ''config/thresholds.json'' = Some t"
    using thresholds_copied [OF assms(1)] by blast
  show ?thesis
  proof (cases "ordered_thresholds env' t")
    case True
    then have "\<forall>t'. ml_file env (ps_thresholds a) = Some t' \<longrightarrow> ordered_thresholds env' t'" using t(1) by simp
    from assembled_verifies [OF assms this] t(1) True show ?thesis by simp
  next
    case False
    have "\<exists>e. verify_model_package env' dir None = Inl e"
      using verified_thresholds [OF _ assms(7) t(2)] False by (cases "verify_model_package env' dir None") auto
    with t(1) False show ?thesis by simp
  qed
qed

section \<open>Comparison\<close>

text \<open>The comparison with left and right exchanged.\<close>

definition swap_row :: "comparison_row \<Rightarrow> comparison_row" where
  "swap_row r = \<lparr>cr_left = cr_right r, cr_right = cr_left r, cr_delta = map_option uminus (cr_delta r)\<rparr>"

lemma comparison_row_swap: "comparison_row_of r l path = swap_row (comparison_row_of l r path)"
  by (simp add: comparison_row_of_def swap_row_def Let_def split: option.split)

lemma comparison_antisymmetric:
  assumes "compare_candidate_packages env l r = Inr c"
  shows "compare_candidate_packages env r l = Inr \<lparr>cc_category = cc_category c, cc_left = cc_right c, cc_right = cc_left c,
     cc_metrics = map (\<lambda>(n, row). (n, swap_row row)) (cc_metrics c)\<rparr>"
proof -
  obtain ml mr jl jr where v: "verify_model_package env l None = Inr ml" "verify_model_package env r None = Inr mr"
    "mp_category ml = mp_category mr" "package_report env l = Inr jl" "package_report env r = Inr jr" and
    c: "c = \<lparr>cc_category = mp_category ml, cc_left = model_reference ml, cc_right = model_reference mr,
      cc_metrics = map (\<lambda>(name, path). (name, comparison_row_of jl jr path)) metric_paths\<rparr>"
    using assms by (auto simp: compare_candidate_packages_def)
  have "map (\<lambda>(name, path). (name, comparison_row_of jr jl path)) metric_paths =
      map (\<lambda>(n, row). (n, swap_row row)) (map (\<lambda>(name, path). (name, comparison_row_of jl jr path)) metric_paths)"
    unfolding comparison_row_swap [of jr jl] by (simp add: case_prod_beta comp_def)
  then show ?thesis using v by (simp add: compare_candidate_packages_def c ml_check_def)
qed

section \<open>An assembled package\<close>

text \<open>A decoder of the manifest that reads its fields.\<close>

definition text_of :: "json \<Rightarrow> string" where
  "text_of j = (case j of JStr s \<Rightarrow> s | _ \<Rightarrow> [])"

definition opt_of :: "json \<Rightarrow> string option" where
  "opt_of j = (case j of JStr s \<Rightarrow> Some s | _ \<Rightarrow> None)"

definition file_of :: "json \<Rightarrow> PackageFile" where
  "file_of j = \<lparr>pf_sha256 = text_of (jfield ''sha256'' j),
     pf_size_bytes = (case jfield ''size_bytes'' j of JInt i \<Rightarrow> i | _ \<Rightarrow> 0)\<rparr>"

definition files_of :: "json \<Rightarrow> (string \<times> PackageFile) list" where
  "files_of j = (case j of JObj kvs \<Rightarrow> map (\<lambda>(p, d). (p, file_of d)) kvs | _ \<Rightarrow> [])"

definition decode_manifest :: "json \<Rightarrow> ModelPackageManifest option" where
  "decode_manifest j = Some \<lparr>mp_package_format = text_of (jfield ''package_format'' j),
     mp_model_id = text_of (jfield ''model_id'' j), mp_model_version = text_of (jfield ''model_version'' j),
     mp_feature_bank_version = text_of (jfield ''feature_bank_version'' j), mp_category = text_of (jfield ''category'' j),
     mp_adapter = text_of (jfield ''adapter'' j), mp_lifecycle_status = text_of (jfield ''lifecycle_status'' j),
     mp_dataset_fingerprint = text_of (jfield ''dataset_fingerprint'' j),
     mp_training_manifest_sha256 = text_of (jfield ''training_manifest_sha256'' j),
     mp_code_commit = text_of (jfield ''code_commit'' j), mp_package_sha256 = text_of (jfield ''package_sha256'' j),
     mp_feature_bank_file = opt_of (jfield ''feature_bank_file'' j),
     mp_feature_bank_sha256 = opt_of (jfield ''feature_bank_sha256'' j), mp_files = files_of (jfield ''files'' j)\<rparr>"

lemma jfield_sorted:
  "distinct (map fst d) \<Longrightarrow> jfield k (sort_keys (JObj d)) = (case jget k d of None \<Rightarrow> JNull | Some v \<Rightarrow> sort_keys v)"
  unfolding sort_keys_dict by (simp add: jfield_def jget_sorted split: option.split)

lemma file_of_dump: "file_of (sort_keys (dump_file f)) = f"
  unfolding dump_file_def file_of_def by (simp add: jfield_sorted jget_def text_of_def del: sort_keys.simps(1))

lemma sort_map_keys: "(\<And>x. fst (h x) = fst x) \<Longrightarrow> sort_key fst (map h xs) = map h (sort_key fst xs)"
proof (induction xs)
  case (Cons x xs)
  have "insort_key fst (h x) (map h ys) = map h (insort_key fst x ys)" for ys
    by (induction ys) (simp_all add: Cons.prems)
  with Cons show ?case by simp
qed simp

lemma files_of_dump:
  "files_of (sort_keys (JObj (map (\<lambda>(p, f). (p, dump_file f)) fs))) = sort_key fst fs"
proof -
  have "map (\<lambda>(k, v). (k, sort_keys v)) (map (\<lambda>(p, f). (p, dump_file f)) fs) = map (\<lambda>(p, f). (p, sort_keys (dump_file f))) fs"
    by (simp add: comp_def case_prod_beta)
  then show ?thesis
    by (simp add: files_of_def sort_map_keys case_prod_beta comp_def file_of_dump)
qed

lemma opt_of_JOpt: "opt_of (JOpt s) = s"
  by (cases s) (simp_all add: opt_of_def JOpt_def)


lemma decode_manifest_dump:
  assumes "distinct (map fst (mp_files m))"
  shows "decode_manifest (sort_keys (JObj (manifest_dump env m))) = Some (m\<lparr>mp_files := sort_key fst (mp_files m)\<rparr>)"
proof -
  have "distinct (map fst (manifest_dump env m))" using manifest_dump_proper [OF assms, of env] by simp
  note f = jfield_sorted [OF this]
  have g: "jfield ''files'' (sort_keys (JObj (manifest_dump env m))) =
      sort_keys (JObj (map (\<lambda>(p, f). (p, dump_file f)) (mp_files m)))"
    unfolding f by (simp add: manifest_dump_def jget_def)
  show ?thesis
    unfolding decode_manifest_def g files_of_dump
    unfolding f
    by (cases m) (simp add: manifest_dump_def jget_def text_of_def opt_of_JOpt del: sort_keys.simps(1))
qed

definition assembly_thresholds :: json where
  "assembly_thresholds = JObj [(''review_threshold'', JFloat 0), (''hold_threshold'', JFloat 1)]"

definition assembly_meta :: json where
  "assembly_meta = JObj [(''dataset_fingerprint'', JStr zero_sha), (''manifest_sha256'', JStr zero_sha)]"

definition assembly_config :: json where
  "assembly_config = JObj [(''data'', JObj [(''category'', JStr ''transistor'')]),
     (''model'', JObj [(''anomalib_version'', JStr ''2.0''), (''backbone'', JStr ''resnet'')])]"

definition assembly_sources :: package_sources where
  "assembly_sources = \<lparr>ps_target = ''out'', ps_model = ''model'', ps_training_config = ''config'', ps_preprocessing = ''pre'',
     ps_thresholds = ''thresholds'', ps_evaluation_json = ''eval'', ps_evaluation_markdown = ''md'', ps_manifest_meta = ''meta'',
     ps_dataset_notice = ''notice'', ps_model_id = ''m'', ps_model_version = ''1'', ps_code_commit = ''c'',
     ps_lifecycle_status = ''EVALUATED'', ps_dependency_lock = None, ps_runtime_notice = None,
     ps_feature_bank = Some ''bank'', ps_feature_bank_metadata = None, ps_feature_bank_version = None\<rparr>"

definition assembly_example :: assembly_env where
  "assembly_example = \<lparr>ml_sha256 = (\<lambda>_. zero_sha), ml_dumps = (\<lambda>_. ''json''), ml_loads = (\<lambda>s. Some (from_nat (length s))),
     ml_manifest_fields = decode_manifest, ml_float_of = (\<lambda>_. None), ml_str_of = (\<lambda>_. ''value''), ml_tree = (\<lambda>_. None),
     ml_file = (\<lambda>p. if p = ''meta'' then Some (toy_pretty assembly_meta)
        else if p = ''thresholds'' then Some (toy_pretty assembly_thresholds) else Some ''x''),
     pretty = toy_pretty, rep_now = ''now'', rep_iso = (\<lambda>_. ''iso''), rep_commit = ''c'', rep_environment = JObj [],
     rep_model_card = ''card'', rep_evaluation_report = ''report'', as_yaml = (\<lambda>_. Some assembly_config),
     as_schema = JObj [], as_exists = (\<lambda>_. False)\<rparr>"

definition assembly_disk :: "(string \<times> string) list \<Rightarrow> ml_env" where
  "assembly_disk files = (ml_env.truncate assembly_example)\<lparr>ml_tree := (\<lambda>_. Some files), ml_file := (\<lambda>_. Some ''x'')\<rparr>"

lemma assembly_loads: "ml_loads assembly_example (toy_pretty j) = Some j"
  by (simp add: assembly_example_def toy_pretty_def)

text \<open>Every entry of an index has the digest of the example.\<close>

lemma assembly_index_valid: "list_all (\<lambda>(p, f). package_file_valid f) (file_index (ml_env.truncate assembly_example) files)"
proof -
  have "hex64 zero_sha" by code_simp
  then show ?thesis
    by (auto simp: file_index_def list_all_iff package_entry_def package_file_valid_def assembly_example_def ml_env.truncate_def)
qed

lemma assembly_digest: "package_digest (ml_env.truncate assembly_example) index = zero_sha"
  by (simp add: package_digest_def sha256_json_def assembly_example_def ml_env.truncate_def)


definition assembly_staged :: "(string \<times> string) list" where
  "assembly_staged = write_document assembly_example ''metadata.json'' (JObj (metadata_document
       (ml_env.truncate assembly_example) assembly_sources ''transistor'' (JStr (''fb-'' @ replicate 16 (CHR ''0'')))
       (Some ''weights/feature-bank.pt'') (Some zero_sha) (JStr ''2.0'') (JStr ''resnet'')))
     (write_document assembly_example ''schemas/inference-result.schema.json'' (JObj [])
       (write_document assembly_example ''provenance/feature-bank.json'' (JObj (bank_document zero_sha))
         (write_file ''weights/feature-bank.pt'' ''x''
           [(''weights/model.pt'', ''x''), (''config/training.yaml'', ''x''), (''config/preprocessing.json'', ''x''),
            (''config/thresholds.json'', toy_pretty assembly_thresholds), (''metrics/evaluation.json'', ''x''),
            (''metrics/evaluation.md'', ''x''), (''provenance/manifest-meta.json'', toy_pretty assembly_meta),
            (''licenses/MVTEC-AD-NOTICE.md'', ''x'')])))"

lemma assembly_parts:
  "read_source assembly_example (ps_manifest_meta assembly_sources) = Inr (toy_pretty assembly_meta)"
  "read_source assembly_example (ps_training_config assembly_sources) = Inr ''x''"
  "as_yaml assembly_example ''x'' = Some assembly_config" "\<not> as_exists assembly_example p"
  "as_schema assembly_example = JObj []"
  "copy_files assembly_example (package_copies assembly_sources) [] = Inr
     [(''weights/model.pt'', ''x''), (''config/training.yaml'', ''x''), (''config/preprocessing.json'', ''x''),
      (''config/thresholds.json'', toy_pretty assembly_thresholds), (''metrics/evaluation.json'', ''x''),
      (''metrics/evaluation.md'', ''x''), (''provenance/manifest-meta.json'', toy_pretty assembly_meta),
      (''licenses/MVTEC-AD-NOTICE.md'', ''x'')]"
  by (simp_all add: read_source_def assembly_example_def assembly_sources_def package_copies_def optional_copy_def write_file_def)

lemma assembly_bank: "add_feature_bank assembly_example assembly_sources files = Inr
    (write_document assembly_example ''provenance/feature-bank.json'' (JObj (bank_document zero_sha))
       (write_file ''weights/feature-bank.pt'' ''x'' files), Some ''weights/feature-bank.pt'', Some zero_sha)"
  by (simp add: add_feature_bank_def assembly_example_def assembly_sources_def Let_def)

lemma assembly_version: "bank_version env assembly_sources [(''data'', JObj [(''category'', JStr ''transistor'')]),
    (''model'', JObj [(''anomalib_version'', JStr ''2.0''), (''backbone'', JStr ''resnet'')])] assembly_meta =
    Inr (JStr (''fb-'' @ replicate 16 (CHR ''0'')))"
proof -
  have "take 16 zero_sha = replicate 16 (CHR ''0'')" by (simp add: zero_sha_def)
  then show ?thesis
    by (simp add: bank_version_def assembly_sources_def truthy_def jget_or_def jget_def ml_dict_def assembly_meta_def ml_str_def)
qed

lemma assembly_manifest: "\<exists>m. package_manifest (ml_env.truncate assembly_example) assembly_sources ''transistor''
    (JStr (''fb-'' @ replicate 16 (CHR ''0''))) (Some ''weights/feature-bank.pt'') (Some zero_sha) assembly_meta staged = Inr m"
proof -
  have "hex64 zero_sha" by code_simp
  then show ?thesis
    using assembly_index_valid [of staged]
    by (simp add: package_manifest_def assembly_meta_def jindex_def jget_def text_field_def Let_def ml_check_def
        manifest_valid_def assembly_sources_def assembly_digest optional_hex64_def)
qed

lemma assembly_builds:
  "\<exists>dir files. build_model_package assembly_example assembly_sources = Inr (dir, files) \<and>
     map_of files ''weights/feature-bank.pt'' = Some ''x''"
proof -
  obtain m where m: "package_manifest (ml_env.truncate assembly_example) assembly_sources ''transistor''
      (JStr (''fb-'' @ replicate 16 (CHR ''0''))) (Some ''weights/feature-bank.pt'') (Some zero_sha) assembly_meta
      assembly_staged = Inr m"
    using assembly_manifest by blast
  have "build_model_package assembly_example assembly_sources = Inr (package_path assembly_sources,
      write_document assembly_example ''model-package.json'' (JObj (manifest_dump assembly_example m)) assembly_staged)"
    using m unfolding build_model_package_def Let_def assembly_parts andThen_simps assembly_loads
    by (simp add: assembly_config_def ml_dict_def jget_or_def jget_def ml_str_def assembly_version assembly_parts
        assembly_bank jindex_def ml_check_def assembly_staged_def)
  then show ?thesis
    by (simp add: assembly_staged_def write_document_def map_of_write)
qed

lemma assembly_laws:
  "reads_back assembly_example" "manifest_reads_back assembly_example"
  "\<forall>s j. as_yaml assembly_example s = Some j \<longrightarrow> proper_json j"
  "same_library assembly_example (assembly_disk files)"
  "ml_manifest_fields (assembly_disk files) = ml_manifest_fields assembly_example"
  "\<forall>t. ml_file assembly_example (ps_thresholds assembly_sources) = Some t \<longrightarrow> ordered_thresholds (assembly_disk files) t"
proof -
  have t: "ml_loads (assembly_disk files) (toy_pretty assembly_thresholds) = Some assembly_thresholds"
    by (simp add: assembly_disk_def assembly_example_def ml_env.truncate_def toy_pretty_def)
  have d: "ml_manifest_fields assembly_example = decode_manifest" by (simp add: assembly_example_def)
  show "\<forall>t. ml_file assembly_example (ps_thresholds assembly_sources) = Some t \<longrightarrow> ordered_thresholds (assembly_disk files) t"
    using t by (simp add: assembly_example_def assembly_sources_def ordered_thresholds_def assembly_thresholds_def ml_float_def jget_def)
  show "manifest_reads_back assembly_example"
    unfolding manifest_reads_back_def d using decode_manifest_dump by blast
qed (simp_all add: reads_back_def same_library_def assembly_disk_def assembly_example_def ml_env.truncate_def
    toy_pretty_def assembly_config_def)

theorem built_package_verifies_witness:
  "\<exists>dir files m. build_model_package assembly_example assembly_sources = Inr (dir, files) \<and>
     verify_model_package (assembly_disk files) dir None = Inr m \<and> mp_lifecycle_status m = ''EVALUATED''"
proof -
  obtain dir files where b: "build_model_package assembly_example assembly_sources = Inr (dir, files)"
    and f: "map_of files ''weights/feature-bank.pt'' = Some ''x''"
    using assembly_builds by blast
  have d: "ml_tree (assembly_disk files) dir = Some files" "ml_file (assembly_disk files) p = Some ''x''" for p
    by (simp_all add: assembly_disk_def)
  have bank: "ps_feature_bank assembly_sources \<noteq> None \<longrightarrow>
      ml_file (assembly_disk files) (ml_join_path dir ''weights/feature-bank.pt'') = map_of files ''weights/feature-bank.pt''"
    using f d(2) by simp
  obtain t where t: "ml_file assembly_example (ps_thresholds assembly_sources) = Some t" and
    r: "if ordered_thresholds (assembly_disk files) t
      then \<exists>m. verify_model_package (assembly_disk files) dir None = Inr m \<and> mp_model_id m = ps_model_id assembly_sources \<and>
        mp_model_version m = ps_model_version assembly_sources \<and> mp_lifecycle_status m = ps_lifecycle_status assembly_sources
      else \<exists>e. verify_model_package (assembly_disk files) dir None = Inl e"
    using built_package_verifies [OF b assembly_laws(1-5) d(1) bank] by (elim exE conjE)
  have "ordered_thresholds (assembly_disk files) t" using assembly_laws(6) t by blast
  with r b show ?thesis by (auto simp: assembly_sources_def)
qed

end
