(* ===== verification/Spec2Isabelle.thy ===== *)
theory Spec2Isabelle
  imports Isolation History Trail Release Rejection Uniqueness Replay Reads FailSafe Lifecycle Consent Imports Closing
    Evidence Connectors Policy Auth Api Worker EdgeDelivery EdgeApi MlRegistryGuarantees MlThresholds MlManifests
    MlReportProofs MlRouting MlBaselineExample MlAssemblyProofs ModelOps
begin

text \<open>
  VisionQC is a quality inspection system for factories. Three Python programs make it up, and the development models
  all three:

  \<^item> the backend (\<^verbatim>\<open>backend/app\<close>): a multi-tenant service that takes images in, asks a model for a score,
    routes the inspection by a threshold policy to automatic release, human review or batch hold, opens incidents,
    sends tickets and holds to the MES and QMS through an outbox, and keeps an audit log;
  \<^item> the edge gateway (\<^verbatim>\<open>edge-gateway/src/edge_gateway\<close>): a process beside the camera that watches a
    directory, measures the images, keeps a ledger in SQLite and uploads to the backend until it has an answer;
  \<^item> the model library (\<^verbatim>\<open>ml/src/visionqc_ml\<close>): data set manifests, threshold calibration, the qualification of
    a model run against gates, the package of a model, its registry, and the offline comparison of models.

  They meet in three places: the gateway uploads to the backend's endpoints (\<open>EdgeBackend\<close>), the backend routes a score
  as the model library does (\<open>MlRouting\<close>), and the evidence directory that a qualification writes is what the
  registry of the library checks before an activation (\<open>MlReportProofs\<close>); the backend has a check of its own on
  such directories (\<open>Evidence\<close>).
\<close>

section \<open>Where the code is\<close>

text \<open>
  The backend, bottom up. \<open>Prelude\<close> has the sequencing of fallible code (\<open>andThen\<close>), tables as lists of rows, Python
  strings and JSON. \<open>Domain\<close>, \<open>Policy\<close>, \<open>AuditLog\<close>, \<open>Deployment\<close>, \<open>Connectors\<close>, \<open>Auth\<close> and \<open>DatasetSources\<close> model
  the files \<^verbatim>\<open>domain.py\<close>, \<^verbatim>\<open>policy.py\<close>, \<^verbatim>\<open>audit.py\<close>, \<^verbatim>\<open>deployment.py\<close>, \<^verbatim>\<open>connectors.py\<close> with
  \<^verbatim>\<open>mock_external.py\<close>, \<^verbatim>\<open>auth.py\<close> and \<^verbatim>\<open>dataset_sources.py\<close>; \<open>Models\<close> has the rows of
  \<^verbatim>\<open>models.py\<close> and the record of all tables. \<open>ServiceCore\<close> has the settings, the service errors and the handlers of
  \<^verbatim>\<open>services.py\<close> as functions from the store to a result and a store: a handler that raises returns \<open>Inl\<close> with the
  store it reached, and \<open>request\<close> in \<open>System\<close> rolls it back. The handlers of \<^verbatim>\<open>services.py\<close> are spread over
  \<open>Inspections\<close> (intake, routing), \<open>Reviews\<close>, \<open>Incidents\<close>, \<open>Views\<close>, \<open>Gateways\<close>, \<open>Deployments\<close>, \<open>Qualifications\<close>,
  \<open>Datasets\<close>, \<open>ModelOps\<close> (the model status of the dashboard) and \<open>Worker\<close> (the outbox and the loop of \<^verbatim>\<open>worker.py\<close>); \<open>Evidence\<close> is the package check of
  \<^verbatim>\<open>qualification.py\<close>. \<open>Api\<close> has the endpoints of \<^verbatim>\<open>api.py\<close> with the bodies of \<^verbatim>\<open>schemas.py\<close>.
  \<open>System\<close> is the running service: the step relation \<open>step\<close> on worlds (store, clock, external systems), with requests
  of principals, rounds of the worker and the passing of time, and \<open>reachable\<close>.

  The gateway. \<open>EdgePack\<close> models \<^verbatim>\<open>config.py\<close> and \<^verbatim>\<open>deployment.py\<close>, \<open>EdgeQuality\<close> \<^verbatim>\<open>quality.py\<close>,
  \<open>EdgeQueue\<close> the ledger of \<^verbatim>\<open>queue.py\<close> with one record per row, \<open>EdgeUploader\<close> \<^verbatim>\<open>uploader.py\<close>,
  \<open>EdgeRuntime\<close> \<^verbatim>\<open>runtime.py\<close> (watcher, ingestion, upload, maintenance), \<open>EdgeApi\<close> \<^verbatim>\<open>main.py\<close>.
  \<open>EdgeSystem\<close> is the process: scanning and uploading threads that interleave, operators who retry, restarts and crashes
  between any two steps.

  The model library. \<open>MlPackage\<close> models the check of \<^verbatim>\<open>package.py\<close> with \<^verbatim>\<open>hashing.py\<close>, \<open>MlAssembly\<close> the
  assembly of a package and the comparison of two, \<open>MlEvidence\<close> the check of an evidence directory, \<open>MlRegistry\<close>
  \<^verbatim>\<open>registry.py\<close> (its state: the entries in memory and those on disk, and whether the next write of the index fails), \<open>MlCalibration\<close>
  \<^verbatim>\<open>calibration.py\<close> with the routing of \<^verbatim>\<open>policy.py\<close> and \<^verbatim>\<open>schemas.py\<close>, \<open>MlDataset\<close>
  \<^verbatim>\<open>dataset.py\<close>, \<open>MlShadow\<close> \<^verbatim>\<open>shadow.py\<close> and \<^verbatim>\<open>feedback.py\<close>. \<^verbatim>\<open>qualification.py\<close> is in
  \<open>MlQualification\<close> (splits, protocol B, gates), \<open>MlReport\<close> (\<open>write_qualification_package\<close>) and \<open>MlBaseline\<close>
  (\<open>load_pilot_evidence\<close>, \<open>qualify_from_run\<close>).
\<close>

section \<open>What is proved\<close>

text \<open>
  The other theories hold the lemmas, one theme each; the numbered statements are the properties.

  The backend: a request of one tenant changes no row of another, outbox included, in every store where the outbox events
  name actions of their own tenant, which is an invariant (\<open>Isolation\<close>), and what it reads does not depend on them
  (\<open>Reads\<close>, for the endpoints it lists; the operations summary and the incident list join inspections by id only,
  and \<open>operations_summary_local\<close> says under what condition the summary is the tenant's own); the records are append-only (\<open>History\<close>) and the transitions of an inspection are a path of the
  table (\<open>Trail\<close>); what a released inspection rests on (\<open>Release\<close>); a request that raises leaves the tables alone
  (\<open>Rejection\<close>); the uniqueness of rows and of review decisions (\<open>Uniqueness\<close>); uploads are idempotent (\<open>Replay\<close>);
  a failing model sends an inspection to review (\<open>FailSafe\<close>); three people and consent stand behind an active
  model (\<open>Lifecycle\<close>, \<open>Consent\<close>); data set imports keep their bytes and bounds (\<open>Imports\<close>); incidents close when their
  actions are done (\<open>Closing\<close>); retries of a connector leave one external record (\<open>Connectors\<close>).

  The gateway: \<open>EdgeLedger\<close> has the well-formedness of the ledger and how a row may evolve, \<open>EdgeGuarantees\<close> what follows
  for every reachable state, that every scanned file is accounted for, and that the backlog drains;
  \<open>EdgeBackend\<close> that an upload whose answer was lost finds its inspection again.

  The model library: thresholds are safe and the legacy choice releases what any admissible threshold within the sample
  releases (\<open>MlThresholds\<close>); a manifest that is
  generated covers and, unless it is empty, verifies, and one that verifies describes the disk (\<open>MlManifests\<close>); splits do not overlap
  and when a split is made (\<open>MlSplits\<close>); when the gates pass (\<open>MlGates\<close>); the registry takes one step of its lifecycle or none, in memory and on disk
  together except when the write of the index fails, and has one active version per product
  (\<open>MlRegistryProofs\<close>, \<open>MlRegistryGuarantees\<close>); what a qualification writes verifies and when it
  awaits approval (\<open>MlReportProofs\<close>); what an accepted baseline run is and when it passes (\<open>MlBaselineProofs\<close>); when
  what is assembled verifies (\<open>MlAssemblyProofs\<close>); the routes of backend and library agree (\<open>MlRouting\<close>).

  Interfaces. \<open>store_frame\<close> (\<open>Frames\<close>) states that a relation on stores is kept by the table operations of one tenant;
  \<open>workflow_frame\<close> extends it with what the handlers do and carries the proof for every handler, \<open>update_frame\<close> and
  \<open>release_frame\<close> add the status changes, \<open>plain_frame\<close> is the case without a condition on them, and
  \<open>system_frame\<close> lifts the relation to the running system. They are interpreted on isolation, the ownership of outbox events, history, trails, uniqueness,
  release evidence, the lifecycle of models, consent and the audit rows of rejected requests. \<open>idempotent_connector\<close> is
  the contract of an external system, interpreted on the in-memory connector and on the HTTP connectors with the
  mock systems; \<open>entry_law\<close> is a law of the history of a registry entry, interpreted on the path and on the stages.

  Concrete runs (\<open>Examples\<close>, \<open>Runs\<close>, \<open>EdgeExamples\<close>, \<open>EdgeDelivery\<close>, \<open>MlBaselineExample\<close> and the ends of the proof
  theories) show for each conditional property that its conditions can hold.
\<close>

section \<open>Abstractions\<close>

text \<open>
  \<^item> Floats are rationals: no rounding, no NaN and no infinities. \<open>nextafter\<close>, ROC AUC, percentiles and
    precision-recall are parameters.
  \<^item> Times are microseconds; the clock is fixed within one operation and passes between operations.
  \<^item> SHA-256, HMAC, UUIDs, JSON and YAML texts, pydantic's decoding, image decoding, the file system, SQLAlchemy's
    sessions and HTTP are parameters (the records \<open>env\<close>, \<open>edge_env\<close>, \<open>ml_env\<close> and their extensions) or are modelled by
    what the code relies on; the laws a theorem needs are its hypotheses.
  \<^item> A step has an environment of its own: what a library answers may differ from one step to the next.
  \<^item> Messages are shortened and translated to ASCII where no code reads them; error classes and codes are kept.
  \<^item> Paths of the model library are strings or lists of parts; symbolic links are resolved by a parameter.
  \<^item> Sessions of the backend are serial: a request or a worker round is one step, as the unit-of-work commits it.
    The threads of the gateway interleave at the granularity of its locked ledger operations, with one exception: the
    ingestion of one file by a scan is one step, so races on the temporary spool name between two scan threads are
    not seen. An upload is two steps.
  \<^item> Texts are lists of 8-bit characters. A file that is read by lines is split as its UTF-8 bytes say (\<open>splitlines\<close> of
    \<open>MlDataset\<close>); score files and feedback files enter as their lines.
  \<^item> A pending row of an external action is flushed before the queries and inserts that use it; when the row is gone
    the flush raises (\<open>flush_action\<close>).

  Bounds and fuel: the only bound is that of the code. The retrying executor counts \<open>max_attempts\<close> down
  (\<open>attempts_from\<close>), loops over rows, lines, entries and files recurse on their lists, and the endless loops of the worker
  and of the gateway are the step relations. No definition takes fuel.
\<close>

section \<open>Not modelled\<close>

text \<open>
  \<^item> Numerical work: training, inference, pixel metrics, AUPRO and bootstrap intervals (\<^verbatim>\<open>training.py\<close>,
    \<^verbatim>\<open>inference.py\<close>, \<^verbatim>\<open>evaluation.py\<close>, \<^verbatim>\<open>preprocessing.py\<close>) are numpy, PyTorch and Anomalib
    calls; what the rest of the code reads of them are the score records and documents that are modelled.
  \<^item> Pictures and texts: galleries, SVG drawings and the two Markdown documents of a report.
  \<^item> The command lines (\<^verbatim>\<open>cli.py\<close>), the download and extraction of a data set archive in the library, protocol A,
    and the demonstration run of a pilot.
  \<^item> Backend start-up and seed data, the S3 storage, the model adapters (two calls the services make are parameters),
    the list of incidents and the health endpoint.
  \<^item> The edge simulator, Blender and demo scripts, migrations, and the frontend, which is TypeScript.
\<close>

end
